(* ===== verification/JS_Values.thy ===== *)
theory JS_Values
  imports JS_Base
begin

text \<open>
  JavaScript values and numbers: the tagged values, truthiness, \<open>Number(...)\<close>, \<open>String(...)\<close>,
  \<open>Math.trunc\<close> and the property reads the components share.
\<close>

section \<open>Numbers\<close>

datatype jsnum = NaN | PosInf | NegInf | Fin rat

definition is_finite_num :: "jsnum \<Rightarrow> bool" where
  "is_finite_num n = (case n of Fin _ \<Rightarrow> True | _ \<Rightarrow> False)"

fun num_lt :: "jsnum \<Rightarrow> jsnum \<Rightarrow> bool" where
  "num_lt NaN _ = False"
| "num_lt _ NaN = False"
| "num_lt (Fin a) (Fin b) = (a < b)"
| "num_lt NegInf y = (y \<noteq> NegInf)"
| "num_lt x PosInf = (x \<noteq> PosInf)"
| "num_lt PosInf _ = False"
| "num_lt (Fin _) NegInf = False"

text \<open>\<open>===\<close> on numbers: \<open>NaN\<close> equals nothing.\<close>

definition num_eq :: "jsnum \<Rightarrow> jsnum \<Rightarrow> bool" where
  "num_eq a b \<longleftrightarrow> a \<noteq> NaN \<and> a = b"

definition num_le :: "jsnum \<Rightarrow> jsnum \<Rightarrow> bool" where
  "num_le a b \<longleftrightarrow> num_lt a b \<or> num_eq a b"

definition trunc_rat :: "rat \<Rightarrow> int" where
  "trunc_rat r = (if 0 \<le> r then floor r else ceiling r)"

definition math_trunc :: "jsnum \<Rightarrow> jsnum" where
  "math_trunc n = (case n of Fin r \<Rightarrow> Fin (of_int (trunc_rat r)) | _ \<Rightarrow> n)"

definition is_integer_num :: "jsnum \<Rightarrow> bool" where
  "is_integer_num n = (case n of Fin r \<Rightarrow> of_int (floor r) = r | _ \<Rightarrow> False)"

lemma num_le_Fin [simp]: "num_le (Fin a) (Fin b) \<longleftrightarrow> a \<le> b"
  by (auto simp: num_le_def num_eq_def)

lemma num_eq_Fin [simp]: "num_eq (Fin a) (Fin b) \<longleftrightarrow> a = b"
  by (simp add: num_eq_def)

lemma num_NaN [simp]:
  "\<not> num_eq NaN a" "\<not> num_eq a NaN" "\<not> num_le NaN a" "\<not> num_le a NaN" "\<not> num_lt a NaN"
  by (cases a; simp add: num_eq_def num_le_def)+

lemma is_finite_num_simps [simp]:
  "is_finite_num (Fin r)" "\<not> is_finite_num NaN" "\<not> is_finite_num PosInf" "\<not> is_finite_num NegInf"
  by (simp_all add: is_finite_num_def)

lemma trunc_rat_of_int [simp]: "trunc_rat (of_int i) = i"
  by (simp add: trunc_rat_def)

lemma trunc_rat_numeral [simp]:
  "trunc_rat (numeral k) = numeral k" "trunc_rat 0 = 0" "trunc_rat 1 = 1"
  by (simp_all add: trunc_rat_def)

lemma trunc_rat_bounds: "0 \<le> r \<Longrightarrow> 0 \<le> trunc_rat r \<and> of_int (trunc_rat r) \<le> r"
  by (simp add: trunc_rat_def)

lemma trunc_rat_idem [simp]: "trunc_rat (of_int (trunc_rat r)) = trunc_rat r"
  by simp

section \<open>Decimal text\<close>

definition digit_char :: "nat \<Rightarrow> char" where
  "digit_char d = char_of (48 + d)"

fun digits :: "nat \<Rightarrow> nat list" where
  "digits n = (if n < 10 then [n] else digits (n div 10) @ [n mod 10])"

declare digits.simps [simp del]

definition nat_str :: "nat \<Rightarrow> string" where
  "nat_str n = map digit_char (digits n)"

definition int_str :: "int \<Rightarrow> string" where
  "int_str i = (if i < 0 then CHR ''-'' # nat_str (nat (- i)) else nat_str (nat i))"

definition digit_val :: "char \<Rightarrow> nat" where
  "digit_val c = code_of c - 48"

definition dec_val :: "string \<Rightarrow> nat" where
  "dec_val s = foldl (\<lambda>n c. 10 * n + digit_val c) 0 s"

lemma digits_less: "d \<in> set (digits n) \<Longrightarrow> d < 10"
proof (induction n rule: digits.induct)
  case (1 n)
  then show ?case by (subst (asm) (2) digits.simps) (auto split: if_splits)
qed

lemma digits_nonempty [simp]: "digits n \<noteq> []"
  by (subst digits.simps) simp

lemma code_of_digit_char [simp]: "d < 10 \<Longrightarrow> code_of (digit_char d) = 48 + d"
  by (simp add: code_of_def digit_char_def)

lemma is_digit_digit_char [simp]: "d < 10 \<Longrightarrow> is_digit (digit_char d)"
  by (simp add: is_digit_def)

lemma digit_val_digit_char [simp]: "d < 10 \<Longrightarrow> digit_val (digit_char d) = d"
  by (simp add: digit_val_def)

lemma digits_eval: "foldl (\<lambda>n d. 10 * n + d) 0 (digits n) = n"
proof (induction n rule: digits.induct)
  case (1 n)
  then show ?case by (subst digits.simps) simp
qed

lemma dec_val_nat_str [simp]: "dec_val (nat_str n) = n"
proof -
  have "foldl (\<lambda>n c. 10 * n + digit_val c) a (map digit_char ds) = foldl (\<lambda>n d. 10 * n + d) a ds"
    if "\<forall>d \<in> set ds. d < 10" for a ds
    using that by (induction ds arbitrary: a) auto
  then show ?thesis
    by (simp add: dec_val_def nat_str_def digits_eval digits_less)
qed

lemma nat_str_digits: "c \<in> set (nat_str n) \<Longrightarrow> is_digit c"
  by (auto simp: nat_str_def dest: digits_less)

lemma nat_str_nonempty [simp]: "nat_str n \<noteq> []"
  by (simp add: nat_str_def)

lemma digits_small: "n < 10 \<Longrightarrow> digits n = [n]"
  by (subst digits.simps) simp

lemma digits_step: "10 \<le> n \<Longrightarrow> digits n = digits (n div 10) @ [n mod 10]"
  by (subst digits.simps) simp

lemma hd_digits_pos: "0 < n \<Longrightarrow> hd (digits n) \<noteq> 0"
proof (induction n rule: digits.induct)
  case (1 n)
  show ?case
  proof (cases "n < 10")
    case False
    then have "hd (digits (n div 10)) \<noteq> 0" using 1 by simp
    with False show ?thesis by (simp add: digits_step)
  qed (use 1 in \<open>simp add: digits_small\<close>)
qed

lemma nat_str_inj: "nat_str m = nat_str n \<longleftrightarrow> m = n"
  by (metis dec_val_nat_str)

section \<open>Values\<close>

datatype jsval =
  JUndef | JNull | JBool bool | JNum jsnum | JStr string | JArr "jsval list"
| JObj "(string \<times> jsval) list"

abbreviation JInt :: "int \<Rightarrow> jsval" where
  "JInt i \<equiv> JNum (Fin (of_int i))"

definition truthy :: "jsval \<Rightarrow> bool" where
  "truthy v = (case v of
     JUndef \<Rightarrow> False | JNull \<Rightarrow> False | JBool b \<Rightarrow> b
   | JNum n \<Rightarrow> n \<noteq> NaN \<and> n \<noteq> Fin 0 | JStr s \<Rightarrow> s \<noteq> [] | JArr _ \<Rightarrow> True | JObj _ \<Rightarrow> True)"

definition nullish :: "jsval \<Rightarrow> bool" where
  "nullish v \<longleftrightarrow> v = JUndef \<or> v = JNull"

text \<open>\<open>a ?? b\<close>, \<open>a || b\<close>, and \<open>values.find(v => v !== undefined && v !== null)\<close>.\<close>

definition coalesce :: "jsval \<Rightarrow> jsval \<Rightarrow> jsval" where
  "coalesce a b = (if nullish a then b else a)"

definition or_else :: "jsval \<Rightarrow> jsval \<Rightarrow> jsval" where
  "or_else a b = (if truthy a then a else b)"

fun first_defined :: "jsval list \<Rightarrow> jsval" where
  "first_defined [] = JUndef"
| "first_defined (v # vs) = (if nullish v then first_defined vs else v)"

text \<open>
  An own property of an object, \<open>undefined\<close> when absent; \<open>o?.k\<close> on anything else is read
  as \<open>undefined\<close> too (the properties read by the modelled code are never those that strings,
  numbers or arrays inherit, except \<open>length\<close>, which is not read through \<open>pget\<close>).
\<close>

definition pget :: "jsval \<Rightarrow> string \<Rightarrow> jsval" where
  "pget v k = (case v of JObj fs \<Rightarrow> (case map_of fs k of Some x \<Rightarrow> x | None \<Rightarrow> JUndef) | _ \<Rightarrow> JUndef)"

definition is_obj :: "jsval \<Rightarrow> bool" where
  "is_obj v = (case v of JObj _ \<Rightarrow> True | _ \<Rightarrow> False)"

text \<open>Assignment \<open>o[k] = v\<close>: an existing key keeps its place, a new one goes last.\<close>

fun set_key :: "(string \<times> 'a) list \<Rightarrow> string \<Rightarrow> 'a \<Rightarrow> (string \<times> 'a) list" where
  "set_key [] k v = [(k, v)]"
| "set_key ((k', v') # fs) k v = (if k' = k then (k', v) # fs else (k', v') # set_key fs k v)"

text \<open>An object literal or a spread: the assignments in order.\<close>

definition from_entries :: "(string \<times> 'a) list \<Rightarrow> (string \<times> 'a) list" where
  "from_entries kvs = foldl (\<lambda>ob (k, v). set_key ob k v) [] kvs"

lemma map_of_set_key [simp]: "map_of (set_key fs k v) = (map_of fs)(k \<mapsto> v)"
  by (induction fs k v rule: set_key.induct) auto

lemma keys_set_key: "fst ` set (set_key fs k v) = insert k (fst ` set fs)"
  by (induction fs k v rule: set_key.induct) auto

lemma distinct_set_key: "distinct (map fst fs) \<Longrightarrow> distinct (map fst (set_key fs k v))"
proof (induction fs k v rule: set_key.induct)
  case (2 k' v' fs k v)
  then show ?case using keys_set_key [of fs k v] by auto
qed simp

text \<open>Later entries win, so reading an object is reading the reversed list of assignments.\<close>

lemma map_of_from_entries: "map_of (from_entries kvs) k = map_of (rev kvs) k"
  by (induction kvs rule: rev_induct) (auto simp: from_entries_def)

lemma distinct_from_entries: "distinct (map fst (from_entries kvs))"
  by (induction kvs rule: rev_induct) (auto simp: from_entries_def distinct_set_key)

section \<open>Conversion to numbers\<close>

definition hex_val :: "char \<Rightarrow> nat option" where
  "hex_val c = (if is_digit c then Some (code_of c - 48)
     else if 97 \<le> code_of c \<and> code_of c \<le> 102 then Some (code_of c - 87)
     else if 65 \<le> code_of c \<and> code_of c \<le> 70 then Some (code_of c - 55) else None)"

text \<open>The value of a digit string in a base, \<open>None\<close> when a character is no digit of it.\<close>

fun base_val :: "nat \<Rightarrow> nat \<Rightarrow> string \<Rightarrow> nat option" where
  "base_val b n [] = Some n"
| "base_val b n (c # s) =
     (case hex_val c of Some d \<Rightarrow> if d < b then base_val b (b * n + d) s else None | None \<Rightarrow> None)"

definition exponent_val :: "string \<Rightarrow> rat option" where
  "exponent_val s = (case s of
     [] \<Rightarrow> Some 1
   | c # r \<Rightarrow> if c = CHR ''e'' \<or> c = CHR ''E'' then
        (let neg = starts_with r ''-''; ds = (if neg \<or> starts_with r ''+'' then tl r else r)
         in if ds \<noteq> [] \<and> list_all is_digit ds
            then Some (if neg then 1 / 10 ^ dec_val ds else 10 ^ dec_val ds) else None)
      else None)"

text \<open>An unsigned decimal literal: digits, an optional fraction, an optional exponent.\<close>

definition decimal_val :: "string \<Rightarrow> rat option" where
  "decimal_val s = (
     let ip = takeWhile is_digit s; r = dropWhile is_digit s;
         dot = starts_with r ''.'';
         fp = (if dot then takeWhile is_digit (tl r) else []);
         r2 = (if dot then dropWhile is_digit (tl r) else r)
     in if ip @ fp = [] then None
        else map_option (\<lambda>e. of_nat (dec_val (ip @ fp)) / 10 ^ length fp * e) (exponent_val r2))"

definition prefixed_val :: "nat \<Rightarrow> string \<Rightarrow> jsnum" where
  "prefixed_val b s = (case (if s = [] then None else base_val b 0 s) of
     Some n \<Rightarrow> Fin (of_nat n) | None \<Rightarrow> NaN)"

text \<open>\<open>Number(s)\<close> of a string.\<close>

definition str_to_num :: "string \<Rightarrow> jsnum" where
  "str_to_num s = (
     let t = trim s; two = to_lower (take 2 t);
         neg = starts_with t ''-''; u = (if neg \<or> starts_with t ''+'' then tl t else t)
     in if t = [] then Fin 0
        else if two = ''0x'' then prefixed_val 16 (drop 2 t)
        else if two = ''0o'' then prefixed_val 8 (drop 2 t)
        else if two = ''0b'' then prefixed_val 2 (drop 2 t)
        else if u = ''Infinity'' then (if neg then NegInf else PosInf)
        else (case decimal_val u of Some r \<Rightarrow> Fin (if neg then - r else r) | None \<Rightarrow> NaN))"

text \<open>
  \<open>String(n)\<close>. Integers are exact; a fraction is written with its decimal digits, at most 17 of
  them (the exponent notation of very large and very small numbers is not modelled).
\<close>

fun frac_digits :: "nat \<Rightarrow> rat \<Rightarrow> string" where
  "frac_digits 0 r = []"
| "frac_digits (Suc k) r = (if r = 0 then []
     else digit_char (nat (floor (10 * r))) # frac_digits k (10 * r - of_int (floor (10 * r))))"

definition num_str :: "jsnum \<Rightarrow> string" where
  "num_str n = (case n of NaN \<Rightarrow> ''NaN'' | PosInf \<Rightarrow> ''Infinity'' | NegInf \<Rightarrow> ''-Infinity''
   | Fin r \<Rightarrow> if of_int (floor r) = r then int_str (floor r)
      else (if r < 0 then ''-'' else []) @ nat_str (nat (floor \<bar>r\<bar>)) @ ''.'' @
           frac_digits 17 (\<bar>r\<bar> - of_int (floor \<bar>r\<bar>)))"

fun to_str :: "jsval \<Rightarrow> string" where
  "to_str JUndef = ''undefined''"
| "to_str JNull = ''null''"
| "to_str (JBool b) = (if b then ''true'' else ''false'')"
| "to_str (JNum n) = num_str n"
| "to_str (JStr s) = s"
| "to_str (JArr vs) = join '','' (map (\<lambda>v. if v = JUndef \<or> v = JNull then [] else to_str v) vs)"
| "to_str (JObj fs) = ''[object Object]''"

definition to_num :: "jsval \<Rightarrow> jsnum" where
  "to_num v = (case v of
     JUndef \<Rightarrow> NaN | JNull \<Rightarrow> Fin 0 | JBool b \<Rightarrow> Fin (if b then 1 else 0) | JNum n \<Rightarrow> n
   | JStr s \<Rightarrow> str_to_num s | JArr vs \<Rightarrow> str_to_num (to_str (JArr vs)) | JObj fs \<Rightarrow> NaN)"

text \<open>\<open>String(v || "")\<close>, the string reads of the connectors.\<close>

definition str_or_empty :: "jsval \<Rightarrow> string" where
  "str_or_empty v = (if truthy v then to_str v else [])"

text \<open>The properties every object inherits from \<open>Object.prototype\<close>.\<close>

definition object_prototype_names :: "string list" where
  "object_prototype_names = [''constructor'', ''__defineGetter__'', ''__defineSetter__'',
     ''hasOwnProperty'', ''__lookupGetter__'', ''__lookupSetter__'', ''isPrototypeOf'',
     ''propertyIsEnumerable'', ''toString'', ''valueOf'', ''__proto__'', ''toLocaleString'']"

lemma pget_obj [simp]: "pget (JObj fs) k = (case map_of fs k of Some x \<Rightarrow> x | None \<Rightarrow> JUndef)"
  by (simp add: pget_def)

lemma first_defined_cases:
  "first_defined vs = JUndef \<or> (first_defined vs \<in> set vs \<and> \<not> nullish (first_defined vs))"
  by (induction vs) auto

text \<open>\<open>Object.entries\<close> of a JSON value.\<close>

definition entries_of :: "jsval \<Rightarrow> (string \<times> jsval) list" where
  "entries_of v = (case v of
     JObj kvs \<Rightarrow> kvs
   | JArr vs \<Rightarrow> zip (map nat_str [0..<length vs]) vs
   | JStr s \<Rightarrow> zip (map nat_str [0..<length s]) (map (\<lambda>c. JStr [c]) s)
   | _ \<Rightarrow> [])"

text \<open>The elements of an array as texts.\<close>

definition strings_of :: "jsval \<Rightarrow> string list" where
  "strings_of v = (case v of JArr vs \<Rightarrow> map to_str vs | _ \<Rightarrow> [])"

end
