(* ===== verification/NetAddr.thy ===== *)
theory NetAddr
  imports JS_Values "HOL-Library.Word"
begin

text \<open>
  The part of Node's \<open>net\<close> module the egress rules rest on: \<open>net.isIP\<close> (the grammar of IPv4 and
  IPv6 literals) and \<open>net.BlockList\<close> (addresses and subnets, matched across the two families
  through the IPv4-mapped range ::ffff:0:0/96). The locale \<open>block_list\<close> states what the rules
  rely on; it is interpreted on the list of rules at the end.
\<close>

unbundle bit_operations_syntax

section \<open>Literals\<close>

datatype addr = V4 "32 word" | V6 "128 word"

text \<open>One segment of a dotted quad: at most 255 and no leading zero.\<close>

definition v4_seg :: "string \<Rightarrow> nat option" where
  "v4_seg s = (if s \<noteq> [] \<and> length s \<le> 3 \<and> list_all is_digit s \<and>
      (length s > 1 \<longrightarrow> hd s \<noteq> CHR ''0'') \<and> dec_val s \<le> 255
    then Some (dec_val s) else None)"

definition be_val :: "nat \<Rightarrow> nat list \<Rightarrow> nat" where
  "be_val b ds = foldl (\<lambda>n d. b * n + d) 0 ds"

definition parse_v4 :: "string \<Rightarrow> nat option" where
  "parse_v4 s = (case those (map v4_seg (split_on CHR ''.'' s)) of
     Some ds \<Rightarrow> if length ds = 4 then Some (be_val 256 ds) else None | None \<Rightarrow> None)"

text \<open>One group of an IPv6 literal: one to four hexadecimal digits.\<close>

definition hextet :: "string \<Rightarrow> nat option" where
  "hextet s = (if s \<noteq> [] \<and> length s \<le> 4 then base_val 16 0 s else None)"

text \<open>The groups after the last \<open>::\<close> (or all of them); the last may be a dotted quad, worth two.\<close>

fun tail_groups :: "string list \<Rightarrow> nat list option" where
  "tail_groups [] = Some []"
| "tail_groups [s] = (case hextet s of Some h \<Rightarrow> Some [h]
     | None \<Rightarrow> (case parse_v4 s of Some n \<Rightarrow> Some [n div 65536, n mod 65536] | None \<Rightarrow> None))"
| "tail_groups (s # t # r) = (case hextet s of
     Some h \<Rightarrow> map_option (\<lambda>gs. h # gs) (tail_groups (t # r)) | None \<Rightarrow> None)"

text \<open>The text before and after the first \<open>::\<close>.\<close>

fun dcolon :: "string \<Rightarrow> (string \<times> string) option" where
  "dcolon [] = None"
| "dcolon (c # s) = (if c = CHR '':'' \<and> starts_with s '':'' then Some ([], tl s)
     else map_option (\<lambda>(l, r). (c # l, r)) (dcolon s))"

definition colon_parts :: "string \<Rightarrow> string list" where
  "colon_parts s = (if s = [] then [] else split_on CHR '':'' s)"

definition v6_groups :: "string \<Rightarrow> nat list option" where
  "v6_groups s = (case dcolon s of
     None \<Rightarrow> (case tail_groups (colon_parts s) of
        Some gs \<Rightarrow> if length gs = 8 then Some gs else None | None \<Rightarrow> None)
   | Some (l, r) \<Rightarrow> (case (those (map hextet (colon_parts l)), tail_groups (colon_parts r)) of
        (Some ls, Some rs) \<Rightarrow> if length ls + length rs \<le> 7
           then Some (ls @ replicate (8 - length ls - length rs) 0 @ rs) else None
      | _ \<Rightarrow> None))"

definition parse_v6 :: "string \<Rightarrow> nat option" where
  "parse_v6 s = map_option (be_val 65536) (v6_groups s)"

text \<open>An address literal without scope suffix.\<close>

definition parse_addr :: "string \<Rightarrow> addr option" where
  "parse_addr s = (case parse_v4 s of Some n \<Rightarrow> Some (V4 (word_of_nat n))
     | None \<Rightarrow> map_option (\<lambda>n. V6 (word_of_nat n)) (parse_v6 s))"

text \<open>\<open>net.isIP\<close>: 4, 6 or 0; an IPv6 literal may carry a scope suffix.\<close>

definition zone_char :: "char \<Rightarrow> bool" where
  "zone_char c \<longleftrightarrow> is_alnum c \<or> c = CHR ''-'' \<or> c = CHR ''.'' \<or> c = CHR '':''"

definition is_ip :: "string \<Rightarrow> nat" where
  "is_ip s = (if parse_v4 s \<noteq> None then 4
    else (case index_of_char CHR ''%'' s of
       None \<Rightarrow> if parse_v6 s \<noteq> None then 6 else 0
     | Some i \<Rightarrow> if parse_v6 (take i s) \<noteq> None \<and> drop (Suc i) s \<noteq> [] \<and>
                    list_all zone_char (drop (Suc i) s) then 6 else 0))"

section \<open>Block lists\<close>

text \<open>The IPv4-mapped form of an IPv4 address, and the one value two spellings share.\<close>

definition v4_mapped :: "32 word \<Rightarrow> 128 word" where
  "v4_mapped a = push_bit 32 0xffff OR ucast a"

fun canon :: "addr \<Rightarrow> 128 word" where
  "canon (V4 a) = v4_mapped a"
| "canon (V6 b) = b"

datatype rule = Address addr | Subnet addr nat

definition is_mapped :: "128 word \<Rightarrow> bool" where
  "is_mapped b \<longleftrightarrow> drop_bit 32 b = 0xffff"

fun same_addr :: "addr \<Rightarrow> addr \<Rightarrow> bool" where
  "same_addr (V4 a) (V4 b) = (a = b)"
| "same_addr (V6 a) (V6 b) = (a = b)"
| "same_addr (V4 a) (V6 b) = (is_mapped b \<and> ucast b = a)"
| "same_addr (V6 a) (V4 b) = (is_mapped a \<and> ucast a = b)"

fun in_network :: "addr \<Rightarrow> addr \<Rightarrow> nat \<Rightarrow> bool" where
  "in_network (V4 a) (V4 n) p = (drop_bit (32 - p) a = drop_bit (32 - p) n)"
| "in_network (V6 a) (V6 n) p = (drop_bit (128 - p) a = drop_bit (128 - p) n)"
| "in_network (V4 a) (V6 n) p = (drop_bit (128 - p) (v4_mapped a) = drop_bit (128 - p) n)"
| "in_network (V6 a) (V4 n) p =
     (is_mapped a \<and> drop_bit (32 - p) (ucast a :: 32 word) = drop_bit (32 - p) n)"

fun rule_match :: "rule \<Rightarrow> addr \<Rightarrow> bool" where
  "rule_match (Address r) a = same_addr r a"
| "rule_match (Subnet n p) a = in_network a n p"

text \<open>A rule Node accepts: a prefix within the width of its family.\<close>

fun rule_ok :: "rule \<Rightarrow> bool" where
  "rule_ok (Address _) = True"
| "rule_ok (Subnet (V4 _) p) = (p \<le> 32)"
| "rule_ok (Subnet (V6 _) p) = (p \<le> 128)"

definition bl_check :: "rule list \<Rightarrow> addr \<Rightarrow> bool" where
  "bl_check rs a \<longleftrightarrow> (\<exists>r \<in> set rs. rule_match r a)"

definition bl_add :: "rule \<Rightarrow> rule list \<Rightarrow> rule list" where
  "bl_add r rs = rs @ [r]"

subsection \<open>The two families agree\<close>

lemma bit_v4_mapped:
  "bit (v4_mapped a) n \<longleftrightarrow> (if n < 32 then bit a n else n < 48)"
proof -
  have ffff: "(0xffff :: 128 word) = mask 16" by (simp add: mask_eq_exp_minus_1)
  show ?thesis
    unfolding v4_mapped_def ffff
    by (auto simp: bit_simps dest: bit_imp_le_length)
qed

lemma bit_is_mapped:
  "is_mapped b \<longleftrightarrow> (\<forall>n. 32 \<le> n \<longrightarrow> (bit b n \<longleftrightarrow> n < 48))"
proof
  assume m: "is_mapped b"
  have ffff: "(0xffff :: 128 word) = mask 16" by (simp add: mask_eq_exp_minus_1)
  show "\<forall>n. 32 \<le> n \<longrightarrow> (bit b n \<longleftrightarrow> n < 48)"
  proof (intro allI impI)
    fix n :: nat assume n: "32 \<le> n"
    have "bit (drop_bit 32 b) (n - 32) \<longleftrightarrow> n - 32 < 16"
      using m by (auto simp: is_mapped_def ffff bit_simps)
    then show "bit b n \<longleftrightarrow> n < 48" using n by (auto simp: bit_simps)
  qed
next
  assume "\<forall>n. 32 \<le> n \<longrightarrow> (bit b n \<longleftrightarrow> n < 48)"
  moreover have ffff: "(0xffff :: 128 word) = mask 16" by (simp add: mask_eq_exp_minus_1)
  ultimately show "is_mapped b"
    by (simp add: is_mapped_def ffff bit_eq_iff bit_simps)
qed

lemma word_bits: "a = b \<longleftrightarrow> (\<forall>n. bit a n \<longleftrightarrow> bit b n)" for a b :: "'a::len word"
  by (auto intro: bit_eqI)

lemma is_mapped_iff: "is_mapped b \<longleftrightarrow> b = v4_mapped (ucast b)"
proof -
  have "b = v4_mapped (ucast b) \<longleftrightarrow> (\<forall>n. bit b n \<longleftrightarrow> (if n < 32 then bit b n else n < 48))"
    by (subst word_bits) (simp add: bit_v4_mapped bit_ucast_iff cong: if_cong)
  also have "\<dots> \<longleftrightarrow> is_mapped b" by (force simp: bit_is_mapped)
  finally show ?thesis by simp
qed

lemma ucast_v4_mapped [simp]: "(ucast (v4_mapped a) :: 32 word) = a"
  by (rule bit_eqI) (simp add: bit_ucast_iff bit_v4_mapped)

lemma is_mapped_v4_mapped [simp]: "is_mapped (v4_mapped a)"
  by (simp add: is_mapped_iff)

lemma v4_mapped_inj [simp]: "v4_mapped a = v4_mapped b \<longleftrightarrow> a = b"
  by (metis ucast_v4_mapped)

text \<open>An address rule compares canonical values, whatever the families.\<close>

lemma same_addr_canon: "same_addr a b \<longleftrightarrow> canon a = canon b"
  by (cases a; cases b) (auto simp: is_mapped_iff)

lemma drop_bit_eq_iff:
  "drop_bit k a = drop_bit k b \<longleftrightarrow> (\<forall>n. k \<le> n \<longrightarrow> (bit a n \<longleftrightarrow> bit b n))"
  for a b :: "'a::len word"
proof
  assume e: "drop_bit k a = drop_bit k b"
  show "\<forall>n. k \<le> n \<longrightarrow> (bit a n \<longleftrightarrow> bit b n)"
  proof (intro allI impI)
    fix n assume "k \<le> n"
    then show "bit a n \<longleftrightarrow> bit b n"
      using arg_cong [OF e, of "\<lambda>w. bit w (n - k)"] by (simp add: bit_drop_bit_eq)
  qed
qed (simp add: bit_eq_iff bit_drop_bit_eq)

text \<open>A subnet, likewise: an IPv4 subnet of length \<open>p\<close> is the mapped subnet of length \<open>96 + p\<close>.\<close>

lemma v4_subnet_canon:
  assumes "p \<le> 32"
  shows "in_network a (V4 n) p \<longleftrightarrow> drop_bit (32 - p) (canon a) = drop_bit (32 - p) (v4_mapped n)"
proof (cases a)
  case (V4 x)
  have "bit x k \<longleftrightarrow> bit n k" if "\<forall>k<32. 32 - p \<le> k \<longrightarrow> bit x k = bit n k" "32 - p \<le> k" for k
    using that bit_imp_le_length [of x k] bit_imp_le_length [of n k] by auto
  then show ?thesis
    by (auto simp: V4 drop_bit_eq_iff bit_v4_mapped)
next
  case (V6 b)
  have "is_mapped b \<and> drop_bit (32 - p) (ucast b :: 32 word) = drop_bit (32 - p) n \<longleftrightarrow>
    (\<forall>k. 32 - p \<le> k \<longrightarrow> (bit b k \<longleftrightarrow> (if k < 32 then bit n k else k < 48)))" (is "?l = ?r")
  proof
    assume ?l
    then show ?r by (auto simp: bit_is_mapped drop_bit_eq_iff bit_ucast_iff)
  next
    assume r: ?r
    then have "is_mapped b" using assms by (auto simp: bit_is_mapped)
    moreover from r have "drop_bit (32 - p) (ucast b :: 32 word) = drop_bit (32 - p) n"
      by (auto simp: drop_bit_eq_iff bit_ucast_iff dest: bit_imp_le_length)
    ultimately show ?l ..
  qed
  then show ?thesis by (simp add: V6 drop_bit_eq_iff bit_v4_mapped)
qed

lemma v6_subnet_canon:
  "in_network a (V6 n) p \<longleftrightarrow> drop_bit (128 - p) (canon a) = drop_bit (128 - p) n"
  by (cases a) simp_all

lemma rule_match_canon:
  assumes "rule_ok r" and "canon a = canon b"
  shows "rule_match r a = rule_match r b"
proof (cases r)
  case (Subnet n p)
  with assms show ?thesis by (cases n) (simp_all add: v4_subnet_canon v6_subnet_canon)
qed (use assms in \<open>simp add: same_addr_canon\<close>)

lemma drop_bit_range:
  "drop_bit k a = drop_bit k b \<longleftrightarrow> unat a div 2 ^ k = unat b div 2 ^ k" for a b :: "'a::len word"
proof -
  have "unat (drop_bit k w) = unat w div 2 ^ k" for w :: "'a word"
    unfolding unat_drop_bit_eq by (rule drop_bit_eq_div)
  then show ?thesis by (simp only: word_unat_eq_iff)
qed

lemma unat_v4_mapped: "unat (v4_mapped a) = 0xffff00000000 + unat a"
proof -
  have "push_bit 32 0xffff + (ucast a :: 128 word) = push_bit 32 0xffff OR ucast a"
  proof (rule disjunctive_add)
    fix n
    show "\<not> bit (push_bit 32 (0xffff :: 128 word)) n \<or> \<not> bit (ucast a :: 128 word) n"
      using bit_imp_le_length [of a n] unfolding bit_push_bit_iff bit_ucast_iff by auto
  qed
  then have "v4_mapped a = 0xffff00000000 + ucast a"
    by (simp add: v4_mapped_def push_bit_eq_mult)
  moreover have "unat (ucast a :: 128 word) = unat a"
    by (simp add: unsigned_ucast_eq take_bit_nat_eq_self_iff)
      (use unsigned_less [of a, where ?'a = nat] in simp)
  ultimately show ?thesis
    using unsigned_less [of a, where ?'a = nat] by (simp add: unat_word_ariths)
qed

subsection \<open>Dotted quads\<close>

definition dotted :: "nat \<Rightarrow> nat \<Rightarrow> nat \<Rightarrow> nat \<Rightarrow> string" where
  "dotted a b c d = join ''.'' (map nat_str [a, b, c, d])"

text \<open>A segment has one spelling, the decimal one, so a dotted quad has one spelling.\<close>

lemma dec_val_snoc: "dec_val (s @ [c]) = 10 * dec_val s + digit_val c"
  by (simp add: dec_val_def)

lemma digit_char_digit_val: "is_digit c \<Longrightarrow> digit_char (digit_val c) = c"
  by (simp add: digit_char_def digit_val_def is_digit_def code_of_def)

lemma digit_val_less: "is_digit c \<Longrightarrow> digit_val c < 10"
  unfolding digit_val_def is_digit_def by arith

lemma digit_char_0: "digit_char 0 = CHR ''0''"
  by code_simp

lemma nat_str_dec_val:
  "s \<noteq> [] \<Longrightarrow> list_all is_digit s \<Longrightarrow> (length s > 1 \<Longrightarrow> hd s \<noteq> CHR ''0'') \<Longrightarrow> nat_str (dec_val s) = s"
proof (induction s rule: rev_induct)
  case (snoc c s)
  then have c: "is_digit c" "digit_val c < 10" by (auto intro: digit_val_less)
  show ?case
  proof (cases "s = []")
    case True
    with c show ?thesis
      by (simp add: dec_val_def nat_str_def digits_small digit_char_digit_val)
  next
    case False
    then have h: "hd s \<noteq> CHR ''0''" and s: "nat_str (dec_val s) = s"
      using snoc by (auto simp: hd_append)
    have "dec_val s \<noteq> 0"
    proof
      assume "dec_val s = 0"
      with s have "s = [digit_char 0]" by (simp add: nat_str_def digits_small)
      with h show False by (simp add: digit_char_0)
    qed
    then have "digits (dec_val (s @ [c])) = digits (dec_val s) @ [digit_val c]"
      using c by (simp add: dec_val_snoc digits_step)
    with s c show ?thesis
      by (simp add: nat_str_def dec_val_snoc [symmetric] digit_char_digit_val)
  qed
qed simp

lemma v4_seg_nat_str: "n < 256 \<Longrightarrow> v4_seg (nat_str n) = Some n"
proof -
  assume n: "n < 256"
  have len: "length (digits n) \<le> 3"
    using n by (cases "n < 10"; cases "n < 100") (simp_all add: digits_small digits_step)
  have big: "length (digits n) > 1 \<Longrightarrow> 0 < n"
    by (cases "n = 0") (simp_all add: digits_small)
  have "hd (nat_str n) \<noteq> CHR ''0''" if "0 < n"
  proof -
    have "hd (digits n) < 10" using digits_less [of "hd (digits n)" n] by simp
    then have "code_of (hd (nat_str n)) = 48 + hd (digits n)" by (simp add: nat_str_def hd_map)
    then show ?thesis using hd_digits_pos [OF that] by (auto simp: code_of_def)
  qed
  moreover have "length (nat_str n) = length (digits n)" by (simp add: nat_str_def)
  moreover have "list_all is_digit (nat_str n)" by (simp add: list_all_iff nat_str_digits)
  ultimately show ?thesis
    using len big n by (simp add: v4_seg_def)
qed

lemma v4_seg_iff: "v4_seg s = Some n \<longleftrightarrow> s = nat_str n \<and> n < 256"
proof
  assume h: "v4_seg s = Some n"
  then have "nat_str (dec_val s) = s" by (intro nat_str_dec_val) (auto simp: v4_seg_def split: if_splits)
  with h show "s = nat_str n \<and> n < 256" by (auto simp: v4_seg_def split: if_splits)
qed (simp add: v4_seg_nat_str)

lemma byte_pair_eq:
  "y < 256 \<Longrightarrow> y' < 256 \<Longrightarrow> x * 256 + y = x' * 256 + y' \<longleftrightarrow> x = x' \<and> y = y'" for x y x' y' :: nat
proof -
  assume l: "y < 256" "y' < 256"
  have "x = x' \<and> y = y'" if e: "x * 256 + y = x' * 256 + y'"
    using arg_cong [OF e, of "\<lambda>n. n div 256"] arg_cong [OF e, of "\<lambda>n. n mod 256"] l by simp
  then show ?thesis by auto
qed

lemma parse_v4_dotted:
  "a < 256 \<Longrightarrow> b < 256 \<Longrightarrow> c < 256 \<Longrightarrow> d < 256 \<Longrightarrow>
    parse_v4 (dotted a b c d) = Some (((a * 256 + b) * 256 + c) * 256 + d)"
proof -
  assume l: "a < 256" "b < 256" "c < 256" "d < 256"
  have "split_on CHR ''.'' (dotted a b c d) = map nat_str [a, b, c, d]"
    unfolding dotted_def by (rule split_on_join) (auto dest!: nat_str_digits simp: is_digit_def code_of_def)
  with l show ?thesis by (simp add: parse_v4_def v4_seg_nat_str be_val_def algebra_simps)
qed

subsection \<open>The characters of a literal\<close>

definition addr_char :: "char \<Rightarrow> bool" where
  "addr_char c \<longleftrightarrow> hex_val c \<noteq> None \<or> c = CHR ''.'' \<or> c = CHR '':''"

lemma set_join: "set (join sep ws) \<subseteq> set sep \<union> \<Union> (set ` set ws)"
  by (induction sep ws rule: join.induct) auto

lemma set_split_on: "set s \<subseteq> insert c (\<Union> (set ` set (split_on c s)))"
  using set_join [of "[c]" "split_on c s"] by (simp add: join_split_on)

lemma those_Some: "those xs = Some ys \<Longrightarrow> x \<in> set xs \<Longrightarrow> x \<noteq> None"
  by (induction xs arbitrary: ys) (auto split: option.splits)

lemma hextet_chars: "hextet s = Some h \<Longrightarrow> c \<in> set s \<Longrightarrow> addr_char c"
proof -
  have "base_val 16 n s = Some h \<Longrightarrow> c \<in> set s \<Longrightarrow> hex_val c \<noteq> None" for n
    by (induction s arbitrary: n) (auto split: option.splits if_splits)
  then show "hextet s = Some h \<Longrightarrow> c \<in> set s \<Longrightarrow> addr_char c"
    by (auto simp: hextet_def addr_char_def split: if_splits)
qed

lemma v4_chars: "parse_v4 s = Some n \<Longrightarrow> c \<in> set s \<Longrightarrow> addr_char c"
proof -
  assume p: "parse_v4 s = Some n" and c: "c \<in> set s"
  have "addr_char c" if w: "w \<in> set (split_on CHR ''.'' s)" "c \<in> set w" for w
  proof -
    have "v4_seg w \<noteq> None"
      using p w those_Some [of "map v4_seg (split_on CHR ''.'' s)"]
      by (auto simp: parse_v4_def split: option.splits)
    then have "is_digit c" using w(2) by (auto simp: v4_seg_def list_all_iff split: if_splits)
    then show ?thesis by (simp add: addr_char_def hex_val_def)
  qed
  then show "addr_char c" using set_split_on [of s "CHR ''.''"] c by (auto simp: addr_char_def)
qed

lemma tail_groups_chars: "tail_groups ws = Some gs \<Longrightarrow> w \<in> set ws \<Longrightarrow> c \<in> set w \<Longrightarrow> addr_char c"
  by (induction ws arbitrary: gs rule: tail_groups.induct)
    (auto split: option.splits intro: hextet_chars v4_chars)

lemma colon_parts_chars: "c \<in> set s \<Longrightarrow> c = CHR '':'' \<or> (\<exists>w \<in> set (colon_parts s). c \<in> set w)"
  using set_split_on [of s "CHR '':''"] by (auto simp: colon_parts_def)

lemma dcolon_Some: "dcolon s = Some (l, r) \<Longrightarrow> s = l @ ''::'' @ r"
  by (induction s arbitrary: l r) (auto simp: prefix_def split: if_splits)

lemma tail_part_chars: "tail_groups (colon_parts s) = Some gs \<Longrightarrow> c \<in> set s \<Longrightarrow> addr_char c"
  using colon_parts_chars tail_groups_chars by (metis addr_char_def)

lemma left_part_chars:
  assumes "those (map hextet (colon_parts l)) = Some ls" and "c \<in> set l"
  shows "addr_char c"
proof (cases "c = CHR '':''")
  case False
  then obtain w where w: "w \<in> set (colon_parts l)" "c \<in> set w" using colon_parts_chars assms(2) by blast
  then have "hextet w \<noteq> None" using those_Some [OF assms(1)] by auto
  then show ?thesis using w(2) by (auto intro: hextet_chars)
qed (simp add: addr_char_def)

lemma v6_chars:
  assumes "parse_v6 s = Some n" and "c \<in> set s"
  shows "addr_char c"
proof (cases "dcolon s")
  case None
  with assms show ?thesis
    by (auto simp: parse_v6_def v6_groups_def split: option.splits if_splits intro: tail_part_chars)
next
  case (Some lr)
  then obtain l r where lr: "dcolon s = Some (l, r)" by (cases lr) auto
  then obtain ls rs where "those (map hextet (colon_parts l)) = Some ls"
    "tail_groups (colon_parts r) = Some rs"
    using assms(1) by (auto simp: parse_v6_def v6_groups_def split: option.splits if_splits)
  moreover have "c \<in> set l \<or> c \<in> set r \<or> c = CHR '':''"
    using dcolon_Some [OF lr] assms(2) by auto
  ultimately show ?thesis
    using left_part_chars tail_part_chars addr_char_def by blast
qed

lemma parse_addr_chars: "parse_addr s = Some a \<Longrightarrow> c \<in> set s \<Longrightarrow> addr_char c"
  by (auto simp: parse_addr_def split: option.splits intro: v4_chars v6_chars)

lemma parse_addr_no_scope: "parse_addr s = Some a \<Longrightarrow> CHR ''%'' \<notin> set s"
  using parse_addr_chars [of s a "CHR ''%''"]
  by (auto simp: addr_char_def hex_val_def is_digit_def code_of_def)

text \<open>The rules by which the simplifier parses a concrete literal.\<close>

lemma replicate_numeral: "replicate (numeral k) x = x # replicate (pred_numeral k) x"
  by (simp add: numeral_eq_Suc)

lemmas addr_eval = parse_v4_def v4_seg_def dec_val_def digit_val_def code_of_def is_digit_def
  be_val_def hextet_def hex_val_def colon_parts_def v6_groups_def parse_v6_def parse_addr_def
  replicate_numeral

section \<open>What the rules rely on\<close>

text \<open>
  The contract of a block list: adding a rule refuses exactly what the rule matches besides what
  was refused before, and a rule sees the canonical value of an address only.
\<close>

locale block_list =
  fixes new_list :: 'l
    and add :: "'r \<Rightarrow> 'l \<Rightarrow> 'l"
    and check :: "'l \<Rightarrow> addr \<Rightarrow> bool"
    and matches :: "'r \<Rightarrow> addr \<Rightarrow> bool"
    and ok :: "'r \<Rightarrow> bool"
  assumes check_new: "\<not> check new_list a"
    and check_add: "check (add r l) a \<longleftrightarrow> check l a \<or> matches r a"
    and matches_canon: "ok r \<Longrightarrow> canon a = canon b \<Longrightarrow> matches r a = matches r b"
begin

definition build :: "'r list \<Rightarrow> 'l" where
  "build rs = foldl (\<lambda>l r. add r l) new_list rs"

lemma check_foldl: "check (foldl (\<lambda>l r. add r l) l rs) a \<longleftrightarrow> check l a \<or> (\<exists>r \<in> set rs. matches r a)"
  by (induction rs arbitrary: l) (auto simp: check_add)

lemma check_build: "check (build rs) a \<longleftrightarrow> (\<exists>r \<in> set rs. matches r a)"
  by (simp add: build_def check_foldl check_new)

lemma check_canon:
  assumes "\<And>r. r \<in> set rs \<Longrightarrow> ok r" and "canon a = canon b"
  shows "check (build rs) a = check (build rs) b"
proof -
  have "matches r a = matches r b" if "r \<in> set rs" for r
    using matches_canon assms that by blast
  then show ?thesis by (auto simp: check_build)
qed

lemma build_mono: "set rs \<subseteq> set ss \<Longrightarrow> check (build rs) a \<Longrightarrow> check (build ss) a"
  by (auto simp: check_build)

end

interpretation nbl: block_list "[]" bl_add bl_check rule_match rule_ok
proof unfold_locales
  show "rule_match r a = rule_match r b" if "rule_ok r" "canon a = canon b" for r a b
    using that by (rule rule_match_canon)
qed (auto simp: bl_check_def bl_add_def)

lemma nbl_build [simp]: "nbl.build rs = rs"
proof -
  have "foldl (\<lambda>l r. bl_add r l) l rs = l @ rs" for l
    by (induction rs arbitrary: l) (simp_all add: bl_add_def)
  then show ?thesis by (simp add: nbl.build_def)
qed

end
