(* ===== verification/Egress.thy ===== *)
theory Egress
  imports NetAddr
begin

text \<open>
  The egress rules a service runtime is started with (src/internal/egressrules/rules.cjs): which
  addresses are refused and why (\<open>classify\<close>, \<open>firstDenied\<close>), how a refusal is built and reported
  (\<open>denyError\<close>, \<open>denySocket\<close>), and the patches of \<open>dns.lookup\<close>, \<open>dns.promises.lookup\<close>, \<open>fetch\<close>,
  \<open>net.connect\<close> and \<open>net.Socket.prototype.connect\<close>. The network interfaces of the host, the URL
  parser and what the native functions answer are arguments. JavaScript functions that are passed
  around (callbacks, lookups) are identified by numbers.
\<close>

section \<open>The lists\<close>

definition v4_addr :: "nat \<Rightarrow> nat \<Rightarrow> nat \<Rightarrow> nat \<Rightarrow> addr" where
  "v4_addr a b c d = V4 (word_of_nat (be_val 256 [a, b, c, d]))"

definition denied :: "rule list" where
  "denied = [Subnet (v4_addr 0 0 0 0) 8, Subnet (v4_addr 127 0 0 0) 8,
     Subnet (v4_addr 169 254 0 0) 16, Address (V6 0), Address (V6 1),
     Subnet (V6 0xfe800000000000000000000000000000) 10]"

definition metadata :: "rule list" where
  "metadata = [Address (v4_addr 100 100 100 200), Address (V6 0xfd000ec2000000000000000000000254)]"

text \<open>
  \<open>os.networkInterfaces()\<close>: per interface its entries, if any. \<open>BlockList.addAddress\<close> throws on an
  address with a scope suffix, which \<open>net.isIP\<close> accepts: then loading the rules throws (\<open>None\<close>).
\<close>

record iface =
  if_address :: string
  if_internal :: bool

fun own_rules :: "iface list \<Rightarrow> rule list option" where
  "own_rules [] = Some []"
| "own_rules (e # es) =
     (if if_internal e \<or> is_ip (if_address e) = 0 then own_rules es
      else (case parse_addr (if_address e) of
          None \<Rightarrow> None
        | Some a \<Rightarrow> map_option (\<lambda>rs. Address a # rs) (own_rules es)))"

definition own_addresses :: "(string \<times> iface list option) list \<Rightarrow> rule list option" where
  "own_addresses ifs = own_rules
     (concat (map (\<lambda>(name, entries). case entries of Some es \<Rightarrow> es | None \<Rightarrow> []) ifs))"

section \<open>Classification\<close>

definition loopback_reason :: string where
  "loopback_reason = ''loopback, link-local, or unspecified address''"

definition metadata_reason :: string where
  "metadata_reason = ''a metadata service address''"

definition own_reason :: string where
  "own_reason = ''this host's own address''"

definition unwrap_host :: "string \<Rightarrow> string" where
  "unwrap_host s = (
     let v = (if starts_with s ''['' \<and> ends_with s '']'' then butlast (tl s) else s)
     in case index_of_char CHR ''%'' v of Some i \<Rightarrow> take i v | None \<Rightarrow> v)"

definition reason_of :: "rule list \<Rightarrow> addr \<Rightarrow> string option" where
  "reason_of own a =
     (if bl_check denied a then Some loopback_reason
      else if bl_check metadata a then Some metadata_reason
      else if bl_check own a then Some own_reason
      else None)"

definition classify :: "rule list \<Rightarrow> jsval \<Rightarrow> string option" where
  "classify own address = (case address of
     JStr s \<Rightarrow> (let value = unwrap_host s in
       if is_ip value = 0 then None
       else (case parse_addr value of Some a \<Rightarrow> reason_of own a | None \<Rightarrow> None))
   | _ \<Rightarrow> None)"

definition entry_address :: "jsval \<Rightarrow> jsval" where
  "entry_address entry = (case entry of JStr s \<Rightarrow> JStr s
     | _ \<Rightarrow> if truthy entry then pget entry ''address'' else entry)"

fun firstDenied :: "rule list \<Rightarrow> jsval list \<Rightarrow> string option" where
  "firstDenied own [] = None"
| "firstDenied own (entry # rest) = (case classify own (entry_address entry) of
     Some r \<Rightarrow> Some r | None \<Rightarrow> firstDenied own rest)"

section \<open>Refusals\<close>

record deny_err =
  err_message :: string
  err_code :: string

text \<open>
  The rules' own state: the reasons reported so far (a \<open>Set\<close>, in insertion order), the lines
  written to standard error, the sockets to be destroyed on the next tick, those destroyed, and
  the identity the next \<open>new net.Socket()\<close> gets.
\<close>

record egress =
  reportedReasons :: "string list"
  stderr_lines :: "string list"
  tick_queue :: "(nat \<times> string) list"
  destroyed :: "(nat \<times> deny_err) list"
  next_socket :: nat

definition BLOCKED_CODE :: string where
  "BLOCKED_CODE = ''ERR_OCTOBUS_EGRESS_BLOCKED''"

definition deny_err_of :: "string \<Rightarrow> deny_err" where
  "deny_err_of reason =
     \<lparr>err_message = ''egress to '' @ reason @ '' is not allowed'', err_code = BLOCKED_CODE\<rparr>"

definition denyError :: "string \<Rightarrow> egress \<Rightarrow> deny_err \<times> egress" where
  "denyError reason st = (
     let st1 = (if reason \<in> set (reportedReasons st) then st
       else st\<lparr>reportedReasons := reportedReasons st @ [reason],
               stderr_lines := stderr_lines st @ [''egress refused: '' @ reason @ ''\<newline>'']\<rparr>)
     in (deny_err_of reason, st1))"

definition denySocket :: "nat \<Rightarrow> string \<Rightarrow> egress \<Rightarrow> nat \<times> egress" where
  "denySocket socket reason st = (socket, st\<lparr>tick_queue := tick_queue st @ [(socket, reason)]\<rparr>)"

text \<open>One callback of the tick queue: \<open>socket.destroy(denyError(reason))\<close>.\<close>

definition run_tick :: "egress \<Rightarrow> egress" where
  "run_tick st = (case tick_queue st of
     [] \<Rightarrow> st
   | (s, reason) # q \<Rightarrow> (let (e, st1) = denyError reason (st\<lparr>tick_queue := q\<rparr>)
       in st1\<lparr>destroyed := destroyed st1 @ [(s, e)]\<rparr>))"

section \<open>Name lookups\<close>

text \<open>
  An argument of a lookup is a callback or a value; what the native lookup is called with is the
  caller's callback or the patched one around it, and what a callback is called with is a list of
  arguments, of which a refusal passes one, the error.
\<close>

datatype 'c larg = FunArg 'c | ValArg jsval
datatype 'c cb = Plain "'c option" | Patched "'c option"
datatype cb_args = Passed jsval jsval jsval | Refused deny_err

definition is_literal_or_other :: "jsval \<Rightarrow> bool" where
  "is_literal_or_other h = (case h of JStr s \<Rightarrow> is_ip s \<noteq> 0 | _ \<Rightarrow> True)"

definition patchedLookup ::
  "jsval \<Rightarrow> 'c larg \<Rightarrow> 'c option \<Rightarrow> jsval \<times> jsval \<times> 'c cb" where
  "patchedLookup hostname options callback = (
     let (opts, callback) = (case options of FunArg c \<Rightarrow> (JObj [], Some c) | ValArg v \<Rightarrow> (v, callback))
     in if is_literal_or_other hostname then (hostname, opts, Plain callback)
        else (hostname, opts, Patched callback))"

definition addresses_of :: "jsval \<Rightarrow> jsval list" where
  "addresses_of v = (case v of JArr vs \<Rightarrow> vs | _ \<Rightarrow> [v])"

text \<open>The callback the patch passes on: what the caller's callback is called with.\<close>

definition patched_callback ::
  "rule list \<Rightarrow> jsval \<Rightarrow> jsval \<Rightarrow> jsval \<Rightarrow> egress \<Rightarrow> cb_args \<times> egress" where
  "patched_callback own err address family st =
     (if truthy err then (Passed err address family, st)
      else (case firstDenied own (addresses_of address) of
          Some reason \<Rightarrow> (let (e, st1) = denyError reason st in (Refused e, st1))
        | None \<Rightarrow> (Passed JNull address family, st)))"

text \<open>The whole of \<open>dns.lookup\<close>, over what the native lookup answers.\<close>

definition dns_lookup ::
  "rule list \<Rightarrow> (jsval \<Rightarrow> jsval \<Rightarrow> jsval \<times> jsval \<times> jsval) \<Rightarrow> jsval \<Rightarrow> 'c larg \<Rightarrow> 'c option \<Rightarrow>
     egress \<Rightarrow> ('c option \<times> cb_args) \<times> egress" where
  "dns_lookup own native hostname options callback st = (
     let (h, opts, c) = patchedLookup hostname options callback; (err, address, family) = native h opts
     in case c of
          Plain k \<Rightarrow> ((k, Passed err address family), st)
        | Patched k \<Rightarrow> (let (r, st1) = patched_callback own err address family st in ((k, r), st1)))"

text \<open>\<open>dns.promises.lookup\<close>: \<open>Inl\<close> is a rejection, by the native lookup or by the rules.\<close>

definition promises_lookup ::
  "rule list \<Rightarrow> (jsval \<Rightarrow> jsval \<Rightarrow> 'e + jsval) \<Rightarrow> jsval \<Rightarrow> jsval \<Rightarrow> egress \<Rightarrow>
     (('e + deny_err) + jsval) \<times> egress" where
  "promises_lookup own native hostname options st = (case native hostname options of
     Inl e \<Rightarrow> (Inl (Inl e), st)
   | Inr result \<Rightarrow>
       if is_literal_or_other hostname then (Inr result, st)
       else (case firstDenied own (addresses_of result) of
           Some reason \<Rightarrow> (let (e, st1) = denyError reason st in (Inl (Inr e), st1))
         | None \<Rightarrow> (Inr result, st)))"

section \<open>fetch\<close>

record url =
  url_protocol :: string
  url_username :: string
  url_password :: string
  url_hostname :: string

datatype finput = InString string | InURL string | InOther jsval
datatype fresult = Forwarded | Rejected deny_err

definition fetch_target :: "finput \<Rightarrow> jsval" where
  "fetch_target input = (case input of InString s \<Rightarrow> JStr s | InURL s \<Rightarrow> JStr s
     | InOther v \<Rightarrow> if truthy v then pget v ''url'' else v)"

definition patchedFetch ::
  "rule list \<Rightarrow> (string \<Rightarrow> url option) \<Rightarrow> finput \<Rightarrow> egress \<Rightarrow> fresult \<times> egress" where
  "patchedFetch own parse_url input st = (case fetch_target input of
     JStr target \<Rightarrow> (case parse_url target of
         None \<Rightarrow> (Forwarded, st)
       | Some u \<Rightarrow>
           if url_protocol u = ''http:'' \<or> url_protocol u = ''https:'' then
             if url_username u \<noteq> [] \<or> url_password u \<noteq> [] then
               (let (e, st1) = denyError ''a URL carrying credentials'' st in (Rejected e, st1))
             else (case classify own (JStr (url_hostname u)) of
                 Some reason \<Rightarrow> (let (e, st1) = denyError reason st in (Rejected e, st1))
               | None \<Rightarrow> (Forwarded, st))
           else (Forwarded, st))
   | _ \<Rightarrow> (Forwarded, st))"

section \<open>connect\<close>

text \<open>
  The \<open>lookup\<close> option of a connect: a caller's function (by its number), or the checked wrapper of
  one. Options are the properties \<open>checkConnect\<close> reads; \<open>Object.create(options, {lookup})\<close> reads
  all but \<open>lookup\<close> through to the caller's object, so it is the record with \<open>lookup\<close> replaced.
\<close>

datatype lookup_fn = UserLookup nat | CheckedLookup lookup_fn

record conn_options =
  opt_path :: jsval
  opt_host :: jsval
  opt_lookup :: "lookup_fn option"
  opt_rest :: jsval

datatype carg = CVal jsval | COpts conn_options | CArr "carg list" | CFun nat

definition carg_at :: "carg list \<Rightarrow> nat \<Rightarrow> carg" where
  "carg_at xs n = (if n < length xs then xs ! n else CVal JUndef)"

definition withCheckedLookup :: "carg option \<Rightarrow> carg option" where
  "withCheckedLookup options = (case options of
     Some (COpts ob) \<Rightarrow> (case opt_lookup ob of
         Some (UserLookup f) \<Rightarrow> Some (COpts (ob\<lparr>opt_lookup := Some (CheckedLookup (UserLookup f))\<rparr>))
       | _ \<Rightarrow> None)
   | _ \<Rightarrow> None)"

text \<open>Non-null values whose \<open>typeof\<close> is \<open>object\<close>.\<close>

definition is_object_arg :: "carg \<Rightarrow> bool" where
  "is_object_arg a = (case a of COpts _ \<Rightarrow> True | CArr _ \<Rightarrow> True | CFun _ \<Rightarrow> False
     | CVal v \<Rightarrow> (case v of JObj _ \<Rightarrow> True | JArr _ \<Rightarrow> True | _ \<Rightarrow> False))"

definition arg_path :: "carg \<Rightarrow> jsval" where
  "arg_path a = (case a of COpts ob \<Rightarrow> opt_path ob | CVal v \<Rightarrow> pget v ''path'' | _ \<Rightarrow> JUndef)"

definition arg_host :: "carg \<Rightarrow> jsval" where
  "arg_host a = (case a of COpts ob \<Rightarrow> opt_host ob | CVal v \<Rightarrow> pget v ''host'' | _ \<Rightarrow> JUndef)"

definition as_host :: "carg \<Rightarrow> jsval" where
  "as_host a = (case a of CVal v \<Rightarrow> v | _ \<Rightarrow> JUndef)"

definition socket_reason :: string where
  "socket_reason = ''a unix socket''"

definition judge_host :: "rule list \<Rightarrow> jsval \<Rightarrow> string option" where
  "judge_host own host = (case host of
     JStr s \<Rightarrow> if s = [] then None else if is_ip s = 0 then None else classify own (JStr s)
   | _ \<Rightarrow> None)"

text \<open>A string in first place is a path unless it is a number (a port).\<close>

definition path_string :: "carg \<Rightarrow> bool" where
  "path_string first = (case first of
     CVal (JStr s) \<Rightarrow> \<not> num_le (Fin 0) (str_to_num s) | _ \<Rightarrow> False)"

text \<open>The reason, and the arguments as the function leaves them.\<close>

definition checkConnect :: "rule list \<Rightarrow> carg list \<Rightarrow> string option \<times> carg list" where
  "checkConnect own args = (
     let (nested, rest) = (case carg_at args 0 of CArr xs \<Rightarrow> (True, xs) | _ \<Rightarrow> (False, args));
         first = carg_at rest 0;
         is_object = is_object_arg first
     in if path_string first then (Some socket_reason, args)
        else if is_object \<and> truthy (arg_path first) then (Some socket_reason, args)
        else (let
            host = (if is_object then arg_host first else as_host (carg_at rest 1));
            options = (if is_object then Some first
               else if is_object_arg (carg_at rest 2) then Some (carg_at rest 2) else None);
            args1 = (case withCheckedLookup options of
                None \<Rightarrow> args
              | Some c \<Rightarrow> if nested then args[0 := CArr (rest[0 := c])]
                  else if is_object then args[0 := c] else args[2 := c])
          in (judge_host own host, args1)))"

datatype connect_result = DeniedSocket nat | NativeConnect "carg list"

definition patchedConnect :: "rule list \<Rightarrow> carg list \<Rightarrow> egress \<Rightarrow> connect_result \<times> egress" where
  "patchedConnect own args st = (case checkConnect own args of
     (Some reason, _) \<Rightarrow> (let (s, st1) = denySocket (next_socket st) reason
          (st\<lparr>next_socket := Suc (next_socket st)\<rparr>) in (DeniedSocket s, st1))
   | (None, args1) \<Rightarrow> (NativeConnect args1, st))"

definition patchedSocketConnect ::
  "rule list \<Rightarrow> nat \<Rightarrow> carg list \<Rightarrow> egress \<Rightarrow> connect_result \<times> egress" where
  "patchedSocketConnect own this args st = (case checkConnect own args of
     (Some reason, _) \<Rightarrow> (let (s, st1) = denySocket this reason st in (DeniedSocket s, st1))
   | (None, args1) \<Rightarrow> (NativeConnect args1, st))"

text \<open>A lookup the caller supplied, called through its wrappers: what its callback is given.\<close>

fun run_lookup_fn ::
  "rule list \<Rightarrow> (nat \<Rightarrow> jsval \<times> jsval \<times> jsval) \<Rightarrow> lookup_fn \<Rightarrow> egress \<Rightarrow> cb_args \<times> egress" where
  "run_lookup_fn own answer (UserLookup f) st =
     (case answer f of (err, address, family) \<Rightarrow> (Passed err address family, st))"
| "run_lookup_fn own answer (CheckedLookup g) st =
     (case run_lookup_fn own answer g st of
        (Passed err address family, st1) \<Rightarrow> patched_callback own err address family st1
      | (Refused e, st1) \<Rightarrow> (Refused e, st1))"

section \<open>The process\<close>

text \<open>One call a service makes into the patched functions, or one tick of the event loop.\<close>

inductive egress_step :: "rule list \<Rightarrow> egress \<Rightarrow> egress \<Rightarrow> bool" for own where
  lookup_step: "egress_step own st (snd (patched_callback own err address family st))"
| promise_step: "egress_step own st (snd (promises_lookup own (native :: jsval \<Rightarrow> jsval \<Rightarrow> jsval + jsval) host options st))"
| fetch_step: "egress_step own st (snd (patchedFetch own parse_url input st))"
| connect_step: "egress_step own st (snd (patchedConnect own args st))"
| socket_step: "egress_step own st (snd (patchedSocketConnect own this args st))"
| tick_step: "egress_step own st (run_tick st)"

definition egress_init :: egress where
  "egress_init = \<lparr>reportedReasons = [], stderr_lines = [], tick_queue = [], destroyed = [],
     next_socket = 0\<rparr>"

inductive_cases egress_stepE: "egress_step own st st'"

section \<open>Lemmas\<close>

subsection \<open>Classification\<close>

lemma index_of_char_None: "index_of_char c s = None \<longleftrightarrow> c \<notin> set s"
  by (induction s) auto

lemma index_of_char_Some: "index_of_char c s = Some i \<Longrightarrow> c \<notin> set (take i s)"
  by (induction s arbitrary: i) (auto split: if_splits)

lemma unwrap_host_no_scope: "CHR ''%'' \<notin> set (unwrap_host s)"
  by (auto simp: unwrap_host_def Let_def index_of_char_None split: option.splits dest: index_of_char_Some)

lemma is_ip_iff: "CHR ''%'' \<notin> set s \<Longrightarrow> is_ip s = 0 \<longleftrightarrow> parse_addr s = None"
proof -
  assume "CHR ''%'' \<notin> set s"
  then have "index_of_char CHR ''%'' s = None" by (simp add: index_of_char_None)
  then show ?thesis by (simp add: is_ip_def parse_addr_def split: option.split)
qed

lemma classify_str: "classify own (JStr s) =
   (case parse_addr (unwrap_host s) of Some a \<Rightarrow> reason_of own a | None \<Rightarrow> None)"
  using is_ip_iff [OF unwrap_host_no_scope [of s]]
  by (auto simp: classify_def Let_def split: option.splits)

lemma denied_ok: "r \<in> set denied \<Longrightarrow> rule_ok r"
  by (auto simp: denied_def v4_addr_def)

lemma metadata_ok: "r \<in> set metadata \<Longrightarrow> rule_ok r"
  by (auto simp: metadata_def)

lemma own_rules_ok: "own_rules es = Some own \<Longrightarrow> r \<in> set own \<Longrightarrow> rule_ok r"
  by (induction es arbitrary: own) (auto split: if_splits option.splits)

lemma own_rules_check:
  assumes "own_rules es = Some own" and "e \<in> set es" and "\<not> if_internal e"
    and "parse_addr (if_address e) = Some a"
  shows "Address a \<in> set own"
  using assms
proof (induction es arbitrary: own)
  case (Cons x xs)
  have "is_ip (if_address e) \<noteq> 0"
    using Cons.prems(4) is_ip_iff [OF parse_addr_no_scope] by simp
  with Cons show ?case by (auto split: if_splits option.splits)
qed simp

text \<open>The reason depends on the canonical value alone.\<close>

lemma reason_of_canon:
  assumes "\<And>r. r \<in> set own \<Longrightarrow> rule_ok r" and "canon a = canon b"
  shows "reason_of own a = reason_of own b"
proof -
  have "bl_check rs a = bl_check rs b" if "\<And>r. r \<in> set rs \<Longrightarrow> rule_ok r" for rs
    using nbl.check_canon [of rs a b] that assms(2) by simp
  then show ?thesis
    using assms(1) denied_ok metadata_ok by (simp add: reason_of_def)
qed

lemma reason_of_None_iff:
  "reason_of own a = None \<longleftrightarrow> \<not> bl_check denied a \<and> \<not> bl_check metadata a \<and> \<not> bl_check own a"
  by (simp add: reason_of_def)

subsection \<open>The refused values as numbers\<close>

definition refused_value :: "nat \<Rightarrow> bool" where
  "refused_value n \<longleftrightarrow> n = 0 \<or> n = 1 \<or> n div 2 ^ 118 = 0x3fa \<or>
     n div 2 ^ 24 = 0xffff00 \<or> n div 2 ^ 24 = 0xffff7f \<or> n div 2 ^ 16 = 0xffffa9fe"

lemma bl_check_Cons: "bl_check (r # rs) a \<longleftrightarrow> rule_match r a \<or> bl_check rs a"
  by (simp add: bl_check_def)

lemma bl_check_Nil: "\<not> bl_check [] a"
  by (simp add: bl_check_def)

lemma unat_v4_addr: "be_val 256 [a, b, c, d] < 2 ^ 32 \<Longrightarrow>
   unat (canon (v4_addr a b c d)) = 0xffff00000000 + be_val 256 [a, b, c, d]"
  by (simp add: v4_addr_def unat_v4_mapped unat_of_nat)

lemma v4_rule:
  assumes "be_val 256 [a, b, c, d] < 2 ^ 32" and "p \<le> 32"
  shows "rule_match (Subnet (v4_addr a b c d) p) x \<longleftrightarrow>
    unat (canon x) div 2 ^ (32 - p) = (0xffff00000000 + be_val 256 [a, b, c, d]) div 2 ^ (32 - p)"
  using assms(2) unat_v4_addr [OF assms(1)]
  by (simp only: v4_addr_def rule_match.simps v4_subnet_canon drop_bit_range canon.simps)

lemma v6_rule: "rule_match (Subnet (V6 n) p) x \<longleftrightarrow>
    unat (canon x) div 2 ^ (128 - p) = unat n div 2 ^ (128 - p)"
  by (simp only: rule_match.simps v6_subnet_canon drop_bit_range)

lemma address_rule: "rule_match (Address r) x \<longleftrightarrow> unat (canon r) = unat (canon x)"
  by (simp add: same_addr_canon word_unat_eq_iff)

lemma bl_check_denied: "bl_check denied a \<longleftrightarrow> refused_value (unat (canon a))"
proof -
  have eqs: "rule_match (Subnet (v4_addr 0 0 0 0) 8) a \<longleftrightarrow> unat (canon a) div 2 ^ 24 = 0xffff00"
    "rule_match (Subnet (v4_addr 127 0 0 0) 8) a \<longleftrightarrow> unat (canon a) div 2 ^ 24 = 0xffff7f"
    "rule_match (Subnet (v4_addr 169 254 0 0) 16) a \<longleftrightarrow> unat (canon a) div 2 ^ 16 = 0xffffa9fe"
    by (subst v4_rule; simp add: be_val_def)+
  have eq6: "rule_match (Subnet (V6 0xfe800000000000000000000000000000) 10) a \<longleftrightarrow>
      unat (canon a) div 2 ^ 118 = 0x3fa"
    by (simp only: v6_rule) simp
  show ?thesis
    unfolding denied_def bl_check_Cons eqs eq6 address_rule
    by (auto simp: bl_check_Nil refused_value_def)
qed

lemma classify_dotted:
  assumes "a < 256" "b < 256" "c < 256" "d < 256"
  shows "classify own (JStr (dotted a b c d)) =
    reason_of own (V4 (word_of_nat (((a * 256 + b) * 256 + c) * 256 + d)))"
proof -
  let ?s = "dotted a b c d"
  have p: "parse_v4 ?s = Some (((a * 256 + b) * 256 + c) * 256 + d)"
    by (rule parse_v4_dotted [OF assms])
  then have "addr_char (hd ?s)" by (intro v4_chars [OF p]) (simp add: dotted_def)
  then have "\<not> starts_with ?s ''[''"
    by (auto simp: prefix_def addr_char_def hex_val_def is_digit_def code_of_def)
  moreover have "CHR ''%'' \<notin> set ?s"
    using parse_addr_no_scope [of ?s] p by (simp add: parse_addr_def)
  ultimately have "unwrap_host ?s = ?s"
    by (simp add: unwrap_host_def index_of_char_None [THEN iffD2])
  with p show ?thesis by (simp add: classify_str parse_addr_def)
qed

lemma firstDenied_None_iff:
  "firstDenied own es = None \<longleftrightarrow> (\<forall>e \<in> set es. classify own (entry_address e) = None)"
  by (induction es) (auto split: option.splits)

lemma reason_known: "reason_of own a = Some r \<Longrightarrow> r \<in> {loopback_reason, metadata_reason, own_reason}"
  by (auto simp: reason_of_def split: if_splits)

lemma classify_known: "classify own v = Some r \<Longrightarrow> r \<in> {loopback_reason, metadata_reason, own_reason}"
  by (cases v) (auto simp: classify_def Let_def dest!: reason_known split: if_splits option.splits)

lemma firstDenied_known:
  "firstDenied own es = Some r \<Longrightarrow> r \<in> {loopback_reason, metadata_reason, own_reason}"
  by (induction es) (auto dest: classify_known split: option.splits)

subsection \<open>Connect arguments\<close>

text \<open>
  What the native connect reads of the arguments it is handed. An array in first place is the one
  \<open>net.connect\<close> makes, whose first element is an options object: \<open>connect_form\<close>.
\<close>

definition inner_args :: "carg list \<Rightarrow> carg list" where
  "inner_args args = (case carg_at args 0 of CArr xs \<Rightarrow> xs | _ \<Rightarrow> args)"

definition connect_form :: "carg list \<Rightarrow> bool" where
  "connect_form args = (case carg_at args 0 of CArr xs \<Rightarrow> is_object_arg (carg_at xs 0) | _ \<Rightarrow> True)"

definition connect_host :: "carg list \<Rightarrow> jsval" where
  "connect_host args = (let rest = inner_args args; first = carg_at rest 0 in
     if is_object_arg first then arg_host first else as_host (carg_at rest 1))"

definition connect_options :: "carg list \<Rightarrow> carg option" where
  "connect_options args = (let rest = inner_args args; first = carg_at rest 0 in
     if is_object_arg first then Some first
     else if is_object_arg (carg_at rest 2) then Some (carg_at rest 2) else None)"

definition connect_path :: "carg list \<Rightarrow> bool" where
  "connect_path args = (let first = carg_at (inner_args args) 0 in
     path_string first \<or> (is_object_arg first \<and> truthy (arg_path first)))"

definition connect_lookup :: "carg list \<Rightarrow> lookup_fn option" where
  "connect_lookup args = (case connect_options args of Some (COpts ob) \<Rightarrow> opt_lookup ob | _ \<Rightarrow> None)"

definition put_checked :: "carg list \<Rightarrow> carg list" where
  "put_checked args = (case withCheckedLookup (connect_options args) of
     None \<Rightarrow> args
   | Some c \<Rightarrow> (case carg_at args 0 of
       CArr xs \<Rightarrow> args[0 := CArr (xs[0 := c])]
     | _ \<Rightarrow> if is_object_arg (carg_at args 0) then args[0 := c] else args[2 := c]))"

lemma checkConnect_eq: "checkConnect own args =
   (if connect_path args then (Some socket_reason, args)
    else (judge_host own (connect_host args), put_checked args))"
  by (cases "carg_at args 0")
    (simp_all add: checkConnect_def connect_path_def connect_host_def put_checked_def
      connect_options_def inner_args_def Let_def split: option.split)

lemma checked_lookup_Some:
  "withCheckedLookup opts = Some c \<longleftrightarrow> (\<exists>ob f. opts = Some (COpts ob) \<and> opt_lookup ob = Some (UserLookup f) \<and>
     c = COpts (ob\<lparr>opt_lookup := Some (CheckedLookup (UserLookup f))\<rparr>))"
  by (auto simp: withCheckedLookup_def split: option.splits carg.splits lookup_fn.splits)

lemma checked_lookup_None: "withCheckedLookup opts = None \<longleftrightarrow>
   (\<forall>ob f. opts = Some (COpts ob) \<longrightarrow> opt_lookup ob \<noteq> Some (UserLookup f))"
  by (auto simp: withCheckedLookup_def split: option.splits carg.splits lookup_fn.splits)

lemma carg_at_update: "carg_at (xs[i := c]) j = (if i = j \<and> i < length xs then c else carg_at xs j)"
  by (simp add: carg_at_def)

lemma carg_at_object: "is_object_arg (carg_at xs i) \<Longrightarrow> i < length xs"
  by (auto simp: carg_at_def is_object_arg_def split: if_splits)

lemma carg_at_CArr: "carg_at xs i = CArr ys \<Longrightarrow> i < length xs"
  by (auto simp: carg_at_def split: if_splits)

text \<open>
  Putting the checked lookup in place changes the options' \<open>lookup\<close> and nothing else the native
  connect reads; done again, it changes nothing.
\<close>

lemma put_checked_cases:
  assumes "connect_form args"
  obtains "withCheckedLookup (connect_options args) = None" and "put_checked args = args"
  | ob f where "connect_options args = Some (COpts ob)" and "opt_lookup ob = Some (UserLookup f)"
    and "connect_options (put_checked args) =
      Some (COpts (ob\<lparr>opt_lookup := Some (CheckedLookup (UserLookup f))\<rparr>))"
    and "connect_host (put_checked args) = connect_host args"
    and "connect_path (put_checked args) = connect_path args"
proof (cases "withCheckedLookup (connect_options args)")
  case None
  then show thesis using that(1) by (simp add: put_checked_def)
next
  case (Some c)
  then obtain ob f where ob: "connect_options args = Some (COpts ob)"
      "opt_lookup ob = Some (UserLookup f)"
    and c: "c = COpts (ob\<lparr>opt_lookup := Some (CheckedLookup (UserLookup f))\<rparr>)"
    by (auto simp: checked_lookup_Some)
  have obj: "is_object_arg c" and nc: "\<not> path_string c" "\<not> path_string (COpts ob)"
    and pth: "arg_path c = opt_path ob" "arg_host c = opt_host ob"
    by (simp_all add: c is_object_arg_def path_string_def arg_path_def arg_host_def)
  have put: "connect_options (put_checked args) = Some c \<and>
     connect_host (put_checked args) = connect_host args \<and>
     connect_path (put_checked args) = connect_path args"
  proof (cases "carg_at args 0")
    case (CArr xs)
    then have f0: "is_object_arg (carg_at xs 0)" using assms by (simp add: connect_form_def)
    then have x0: "carg_at xs 0 = COpts ob"
      using ob CArr by (simp add: connect_options_def inner_args_def)
    show ?thesis
      using CArr f0 x0 Some obj nc pth carg_at_object [OF f0] carg_at_CArr [OF CArr]
      by (simp add: put_checked_def connect_options_def connect_host_def connect_path_def
          inner_args_def carg_at_update arg_path_def [of "COpts ob"] arg_host_def [of "COpts ob"])
  next
    case (COpts ob')
    then have "carg_at args 0 = COpts ob" and "0 < length args"
      using ob carg_at_object [of args 0]
      by (auto simp: connect_options_def inner_args_def is_object_arg_def)
    then show ?thesis
      using Some obj nc pth
      by (simp add: put_checked_def connect_options_def connect_host_def connect_path_def c
          inner_args_def carg_at_update is_object_arg_def arg_path_def arg_host_def)
  next
    case (CVal v)
    then have "carg_at args 2 = COpts ob" "\<not> is_object_arg (CVal v)"
      using ob by (auto simp: connect_options_def inner_args_def is_object_arg_def split: if_splits)
    then show ?thesis
      using Some obj CVal carg_at_object [of args 2]
      by (simp add: put_checked_def connect_options_def connect_host_def connect_path_def
          inner_args_def carg_at_update is_object_arg_def [of "COpts ob"])
  next
    case (CFun g)
    then have "carg_at args 2 = COpts ob"
      using ob by (auto simp: connect_options_def inner_args_def is_object_arg_def split: if_splits)
    then show ?thesis
      using Some obj CFun carg_at_object [of args 2]
      by (simp add: put_checked_def connect_options_def connect_host_def connect_path_def
          inner_args_def carg_at_update is_object_arg_def [of "CFun g"] is_object_arg_def [of "COpts ob"])
  qed
  with that(2) ob c show thesis by simp
qed

subsection \<open>Lookups that only pass what is allowed\<close>

definition passes_allowed :: "rule list \<Rightarrow> cb_args \<Rightarrow> bool" where
  "passes_allowed own r = (case r of
     Passed err address family \<Rightarrow> truthy err \<or>
       list_all (\<lambda>e. classify own (entry_address e) = None) (addresses_of address)
   | Refused e \<Rightarrow> err_code e = BLOCKED_CODE)"

lemma denyError_fst [simp]: "fst (denyError r st) = deny_err_of r"
  by (simp add: denyError_def Let_def)

lemma patched_callback_allowed: "passes_allowed own (fst (patched_callback own err address family st))"
  by (auto simp: patched_callback_def passes_allowed_def firstDenied_None_iff list_all_iff
      denyError_def deny_err_of_def Let_def split: option.splits)

lemma run_checked_allowed: "passes_allowed own (fst (run_lookup_fn own answer (CheckedLookup (UserLookup f)) st))"
  using patched_callback_allowed by (simp split: prod.split)

subsection \<open>The report\<close>

definition known_reasons :: "string list" where
  "known_reasons = [loopback_reason, metadata_reason, own_reason, socket_reason,
     ''a URL carrying credentials'']"

definition report_line :: "string \<Rightarrow> string" where
  "report_line reason = ''egress refused: '' @ reason @ ''\<newline>''"

text \<open>Each reason is reported at most once, and only reasons of the rules are reported or queued.\<close>

definition egress_inv :: "egress \<Rightarrow> bool" where
  "egress_inv st \<longleftrightarrow> distinct (reportedReasons st) \<and>
     stderr_lines st = map report_line (reportedReasons st) \<and>
     set (reportedReasons st) \<subseteq> set known_reasons \<and> snd ` set (tick_queue st) \<subseteq> set known_reasons"

lemma denyError_inv: "egress_inv st \<Longrightarrow> reason \<in> set known_reasons \<Longrightarrow> egress_inv (snd (denyError reason st))"
  by (simp add: egress_inv_def denyError_def Let_def report_line_def)

lemma denySocket_inv: "egress_inv st \<Longrightarrow> reason \<in> set known_reasons \<Longrightarrow> egress_inv (snd (denySocket s reason st))"
  by (auto simp: egress_inv_def denySocket_def)

lemma classified_known: "classify own v = Some r \<Longrightarrow> r \<in> set known_reasons"
  using classify_known by (fastforce simp: known_reasons_def)

lemma first_denied_known: "firstDenied own es = Some r \<Longrightarrow> r \<in> set known_reasons"
  using firstDenied_known by (fastforce simp: known_reasons_def)

lemma checkConnect_known: "fst (checkConnect own args) = Some r \<Longrightarrow> r \<in> set known_reasons"
  by (auto simp: checkConnect_eq judge_host_def known_reasons_def
      dest!: classify_known split: if_splits jsval.splits)

lemma next_socket_inv: "egress_inv (st\<lparr>next_socket := n\<rparr>) = egress_inv st"
  by (simp add: egress_inv_def)

lemma run_tick_inv: "egress_inv st \<Longrightarrow> egress_inv (run_tick st)"
proof (cases "tick_queue st")
  case (Cons sr q)
  obtain s r where sr: "sr = (s, r)" by (cases sr)
  assume inv: "egress_inv st"
  then have "egress_inv (st\<lparr>tick_queue := q\<rparr>)" "r \<in> set known_reasons"
    using Cons sr by (auto simp: egress_inv_def)
  then have "egress_inv (snd (denyError r (st\<lparr>tick_queue := q\<rparr>)))" by (rule denyError_inv)
  then show ?thesis
    using Cons sr by (simp add: run_tick_def egress_inv_def case_prod_beta)
qed (simp add: run_tick_def)

lemma egress_step_inv: "egress_step own st st' \<Longrightarrow> egress_inv st \<Longrightarrow> egress_inv st'"
proof (induction rule: egress_step.induct)
  case (lookup_step st err address family)
  then show ?case
    by (auto simp: patched_callback_def case_prod_beta split: option.split
        intro: denyError_inv first_denied_known)
next
  case (promise_step st native host options)
  then show ?case
    by (auto simp: promises_lookup_def case_prod_beta split: option.split sum.split
        intro: denyError_inv first_denied_known)
next
  case (fetch_step st parse_url input)
  have "''a URL carrying credentials'' \<in> set known_reasons" by (simp add: known_reasons_def)
  with fetch_step show ?case
    by (auto simp: patchedFetch_def case_prod_beta split: option.split jsval.split
        intro: denyError_inv classified_known)
next
  case (connect_step st args)
  then show ?case
    by (auto simp: patchedConnect_def case_prod_beta next_socket_inv split: option.split prod.split
        intro!: denySocket_inv dest: checkConnect_known)
next
  case (socket_step st this args)
  then show ?case
    by (auto simp: patchedSocketConnect_def case_prod_beta split: option.split prod.split
        intro!: denySocket_inv dest: checkConnect_known)
qed (rule run_tick_inv)

lemma egress_reach_inv: "(egress_step own)\<^sup>*\<^sup>* egress_init st \<Longrightarrow> egress_inv st"
proof (induction rule: rtranclp_induct)
  case base
  show ?case by (simp add: egress_inv_def egress_init_def)
qed (rule egress_step_inv)

section \<open>Properties\<close>





text \<open>The host's own addresses are refused in every spelling: a string whose address has the
canonical value of a non-internal interface address is refused (as loopback or metadata where one
of those lists names it, as the host's own otherwise).\<close>

lemma own_address_refused:
  assumes "own_addresses ifs = Some own" and "(name, Some es) \<in> set ifs" and "e \<in> set es"
    and "\<not> if_internal e" and "parse_addr (if_address e) = Some a"
    and "parse_addr (unwrap_host s) = Some b" and "canon a = canon b"
  shows "classify own (JStr s) \<noteq> None"
proof -
  let ?all = "concat (map (\<lambda>(name, entries). case entries of Some es \<Rightarrow> es | None \<Rightarrow> []) ifs)"
  have "e \<in> set ?all" using assms(2,3) by force
  then have "Address a \<in> set own"
    using own_rules_check [of ?all own e a] assms(1,4,5) by (simp add: own_addresses_def)
  then have "bl_check own b"
    using assms(7) by (force simp: bl_check_def same_addr_canon)
  then show ?thesis using assms(6) by (simp add: classify_str reason_of_None_iff)
qed

lemma own_address_refused_example:
  "classify [Address (V4 0xc0a80105)] (JStr ''::ffff:c0a8:0105'') \<noteq> None"
proof (rule own_address_refused)
  let ?e = "\<lparr>if_address = ''192.168.1.5'', if_internal = False\<rparr>"
  have p: "parse_addr ''192.168.1.5'' = Some (V4 0xc0a80105)" by (simp add: addr_eval)
  then have "is_ip ''192.168.1.5'' \<noteq> 0"
    using is_ip_iff [of "''192.168.1.5''"] by simp
  with p show "own_addresses [(''eth0'', Some [?e])] = Some [Address (V4 0xc0a80105)]"
    by (simp add: own_addresses_def)
  show "(''eth0'', Some [?e]) \<in> set [(''eth0'', Some [?e])]" "?e \<in> set [?e]" "\<not> if_internal ?e"
    by simp_all
  show "parse_addr (if_address ?e) = Some (V4 0xc0a80105)" using p by simp
  show "parse_addr (unwrap_host ''::ffff:c0a8:0105'') = Some (V6 0xffffc0a80105)"
    by (simp add: unwrap_host_def suffix_to_prefix addr_eval)
  show "canon (V4 0xc0a80105) = canon (V6 0xffffc0a80105)"
    by (simp add: word_unat_eq_iff unat_v4_mapped)
qed

text \<open>C3: A name is judged at the addresses its lookup answers: for a name that is no literal, the
callback gets the rules' error exactly when the lookup succeeded with an address among its answers
that is refused; otherwise it gets what the native lookup answered, with no refused address in it.\<close>

theorem dns_lookup_judges_answers:
  assumes "is_ip h = 0"
    and "native (JStr h) (case options of FunArg c \<Rightarrow> JObj [] | ValArg v \<Rightarrow> v) = (err, address, family)"
  shows "(let refused = (\<exists>e \<in> set (addresses_of address). classify own (entry_address e) \<noteq> None);
              r = snd (fst (dns_lookup own native (JStr h) options callback st))
          in (if truthy err then r = Passed err address family
              else if refused then \<exists>e. r = Refused e \<and> err_code e = BLOCKED_CODE
              else r = Passed JNull address family))"
  using assms firstDenied_None_iff [of own "addresses_of address"]
  by (cases options; cases "firstDenied own (addresses_of address)")
    (auto simp: dns_lookup_def patchedLookup_def is_literal_or_other_def patched_callback_def
      case_prod_beta deny_err_of_def Let_def)

theorem dns_lookup_judges_answers_witness:
  "\<exists>e. snd (fst (dns_lookup [] (\<lambda>_ _. (JNull, JArr [JObj [(''address'', JStr ''127.0.0.1'')]], JUndef))
      (JStr ''db'') (ValArg (JObj [])) (Some True) egress_init)) = Refused e \<and> err_code e = BLOCKED_CODE"
proof -
  have n: "is_ip ''db'' = 0" by (simp add: is_ip_def addr_eval)
  have c: "classify [] (JStr ''127.0.0.1'') \<noteq> None"
    by (simp add: classify_str unwrap_host_def suffix_to_prefix addr_eval reason_of_def
        bl_check_denied unat_v4_mapped refused_value_def)
  show ?thesis
    using dns_lookup_judges_answers [OF n, of "\<lambda>_ _. (JNull, JArr [JObj [(''address'', JStr ''127.0.0.1'')]], JUndef)"
        "ValArg (JObj [])" JNull "JArr [JObj [(''address'', JStr ''127.0.0.1'')]]" JUndef "[]" "Some True" egress_init] c
    by (simp add: addresses_of_def entry_address_def truthy_def)
qed


definition sample_options :: "string \<Rightarrow> conn_options" where
  "sample_options host = \<lparr>opt_path = JUndef, opt_host = JStr host, opt_lookup = Some (UserLookup 0),
     opt_rest = JUndef\<rparr>"

lemma sample_connect: "patchedConnect [] [COpts (sample_options ''10.1.2.3'')] egress_init =
   (NativeConnect [COpts ((sample_options ''10.1.2.3'')\<lparr>opt_lookup :=
      Some (CheckedLookup (UserLookup 0))\<rparr>)], egress_init)"
proof -
  have "classify [] (JStr ''10.1.2.3'') = None"
    by (simp add: classify_str unwrap_host_def suffix_to_prefix addr_eval reason_of_None_iff
        bl_check_denied unat_v4_mapped refused_value_def metadata_def bl_check_Cons bl_check_Nil
        v4_addr_def)
  then show ?thesis
    by (simp add: patchedConnect_def checkConnect_def sample_options_def carg_at_def is_object_arg_def
        arg_path_def arg_host_def path_string_def truthy_def withCheckedLookup_def judge_host_def)
qed


text \<open>An options object a client keeps for every reconnect is wrapped once: judging the arguments
that an earlier connect left gives the same verdict and changes nothing, so no wrapper nests.\<close>

lemma connect_wraps_once:
  assumes "connect_form args"
  shows "checkConnect own (snd (checkConnect own args)) = checkConnect own args"
proof (cases "connect_path args")
  case False
  from assms have "connect_host (put_checked args) = connect_host args \<and>
     connect_path (put_checked args) = connect_path args \<and>
     put_checked (put_checked args) = put_checked args"
  proof (cases rule: put_checked_cases)
    case (2 ob f)
    then have "withCheckedLookup (connect_options (put_checked args)) = None"
      by (simp add: checked_lookup_None)
    with 2 show ?thesis by (simp add: put_checked_def [of "put_checked args"])
  qed simp
  with False show ?thesis by (simp add: checkConnect_eq)
qed (simp add: checkConnect_eq)

lemma connect_wraps_once_example:
  "checkConnect [] (snd (checkConnect [] [CArr [COpts (sample_options ''db'')], CFun 1])) =
   checkConnect [] [CArr [COpts (sample_options ''db'')], CFun 1]"
  by (rule connect_wraps_once) (simp add: connect_form_def carg_at_def is_object_arg_def)

text \<open>However a service calls the patched functions and the event loop runs, each reason is
written to standard error at most once, only reasons of the rules are written, and so the process
writes at most five lines.\<close>

lemma report_once:
  assumes "(egress_step own)\<^sup>*\<^sup>* egress_init st"
  shows "stderr_lines st = map report_line (reportedReasons st) \<and> distinct (stderr_lines st) \<and>
    set (reportedReasons st) \<subseteq> set known_reasons \<and> length (stderr_lines st) \<le> 5"
proof -
  from egress_reach_inv [OF assms] have inv: "distinct (reportedReasons st)"
    "stderr_lines st = map report_line (reportedReasons st)"
    "set (reportedReasons st) \<subseteq> set known_reasons"
    by (simp_all add: egress_inv_def)
  have "length (reportedReasons st) \<le> length known_reasons"
    using inv(1,3) by (metis card_length card_mono distinct_card finite_set le_trans)
  moreover have "inj_on report_line (set (reportedReasons st))"
    by (simp add: inj_on_def report_line_def)
  ultimately show ?thesis using inv by (simp add: distinct_map known_reasons_def)
qed

lemma report_once_example:
  "length (stderr_lines (run_tick (snd (patchedConnect [] [CVal (JStr ''/run/x.sock'')] egress_init)))) \<le> 5"
proof -
  have "(egress_step [])\<^sup>*\<^sup>* egress_init
    (run_tick (snd (patchedConnect [] [CVal (JStr ''/run/x.sock'')] egress_init)))"
    by (meson connect_step tick_step rtranclp.rtrancl_into_rtrancl rtranclp.rtrancl_refl)
  from report_once [OF this] show ?thesis by blast
qed


end
