(* ===== verification/Regex.thy ===== *)
theory Regex
  imports JS_Base
begin

text \<open>
  The regular expressions of the modelled code. Only \<open>RegExp.prototype.test\<close> is modelled here:
  whether some substring matches. An expression is a term of \<open>rx\<close>; character classes are
  predicates. Matching is by derivatives, and \<open>rx_match_iff\<close> relates it to the language.
\<close>

datatype rx = Zero | One | Cls "char \<Rightarrow> bool" | Alt rx rx | Seq rx rx | Star rx

fun nullable :: "rx \<Rightarrow> bool" where
  "nullable Zero = False"
| "nullable One = True"
| "nullable (Cls p) = False"
| "nullable (Alt r s) = (nullable r \<or> nullable s)"
| "nullable (Seq r s) = (nullable r \<and> nullable s)"
| "nullable (Star r) = True"

text \<open>Constructors that drop the trivial operands, which keeps the derivatives small.\<close>

fun alt :: "rx \<Rightarrow> rx \<Rightarrow> rx" where
  "alt Zero s = s"
| "alt r Zero = r"
| "alt r s = Alt r s"

fun seq :: "rx \<Rightarrow> rx \<Rightarrow> rx" where
  "seq Zero s = Zero"
| "seq One s = s"
| "seq r s = Seq r s"

fun deriv :: "char \<Rightarrow> rx \<Rightarrow> rx" where
  "deriv c Zero = Zero"
| "deriv c One = Zero"
| "deriv c (Cls p) = (if p c then One else Zero)"
| "deriv c (Alt r s) = alt (deriv c r) (deriv c s)"
| "deriv c (Seq r s) =
     (if nullable r then alt (seq (deriv c r) s) (deriv c s) else seq (deriv c r) s)"
| "deriv c (Star r) = seq (deriv c r) (Star r)"

fun rx_match :: "rx \<Rightarrow> string \<Rightarrow> bool" where
  "rx_match r [] = nullable r"
| "rx_match r (c # s) = rx_match (deriv c r) s"

text \<open>The language of an expression, and the correctness of the matcher.\<close>

inductive in_lang :: "rx \<Rightarrow> string \<Rightarrow> bool" where
  one: "in_lang One []"
| cls: "p c \<Longrightarrow> in_lang (Cls p) [c]"
| altL: "in_lang r w \<Longrightarrow> in_lang (Alt r s) w"
| altR: "in_lang s w \<Longrightarrow> in_lang (Alt r s) w"
| seq: "in_lang r v \<Longrightarrow> in_lang s w \<Longrightarrow> in_lang (Seq r s) (v @ w)"
| star_Nil: "in_lang (Star r) []"
| star_Cons: "in_lang r v \<Longrightarrow> in_lang (Star r) w \<Longrightarrow> in_lang (Star r) (v @ w)"

inductive_simps in_lang_simps [simp]:
  "in_lang Zero w" "in_lang One w" "in_lang (Cls p) w" "in_lang (Alt r s) w"

inductive_simps in_lang_Seq: "in_lang (Seq r s) w"

inductive_cases in_lang_StarE: "in_lang (Star r) w"

lemma nullable_iff: "nullable r \<longleftrightarrow> in_lang r []"
proof (induction r)
  case (Star r)
  show ?case by (simp add: in_lang.star_Nil)
qed (auto simp: in_lang_Seq)

lemma in_lang_alt [simp]: "in_lang (alt r s) w \<longleftrightarrow> in_lang r w \<or> in_lang s w"
  by (induction r s rule: alt.induct) auto

lemma in_lang_seq [simp]: "in_lang (seq r s) w \<longleftrightarrow> in_lang (Seq r s) w"
  by (induction r s rule: seq.induct) (auto simp: in_lang_Seq)

lemma star_Cons_split:
  "in_lang (Star r) (c # w) \<Longrightarrow> \<exists>v u. w = v @ u \<and> in_lang r (c # v) \<and> in_lang (Star r) u"
proof (induction "Star r" "c # w" arbitrary: c w rule: in_lang.induct)
  case (star_Cons v w)
  then show ?case by (cases v) auto
qed

lemma in_lang_Seq_Cons:
  "in_lang (Seq r s) (c # w) \<longleftrightarrow>
     (\<exists>v u. w = v @ u \<and> in_lang r (c # v) \<and> in_lang s u) \<or> (in_lang r [] \<and> in_lang s (c # w))"
  by (auto simp: in_lang_Seq Cons_eq_append_conv)

lemma in_lang_deriv: "in_lang (deriv c r) w \<longleftrightarrow> in_lang r (c # w)"
proof (induction r arbitrary: w)
  case (Seq r s)
  then show ?case
    by (auto simp: in_lang_Seq_Cons nullable_iff) (auto simp: in_lang_Seq)
next
  case (Star r)
  show ?case
  proof
    assume "in_lang (deriv c (Star r)) w"
    then obtain v u where "w = v @ u" "in_lang r (c # v)" "in_lang (Star r) u"
      using Star by (auto simp: in_lang_Seq)
    then show "in_lang (Star r) (c # w)" using in_lang.star_Cons by fastforce
  next
    assume "in_lang (Star r) (c # w)"
    then show "in_lang (deriv c (Star r)) w"
      using Star by (auto simp: in_lang_Seq dest!: star_Cons_split)
  qed
qed auto

lemma rx_match_iff: "rx_match r w \<longleftrightarrow> in_lang r w"
  by (induction w arbitrary: r) (simp_all add: nullable_iff in_lang_deriv)

section \<open>Expressions as the code writes them\<close>

definition lit_char :: "char \<Rightarrow> rx" where
  "lit_char c = Cls (\<lambda>x. x = c)"

fun lit :: "string \<Rightarrow> rx" where
  "lit [] = One"
| "lit [c] = lit_char c"
| "lit (c # s) = Seq (lit_char c) (lit s)"

fun alts :: "rx list \<Rightarrow> rx" where
  "alts [] = Zero"
| "alts [r] = r"
| "alts (r # rs) = Alt r (alts rs)"

fun seqs :: "rx list \<Rightarrow> rx" where
  "seqs [] = One"
| "seqs [r] = r"
| "seqs (r # rs) = Seq r (seqs rs)"

definition plus1 :: "rx \<Rightarrow> rx" where
  "plus1 r = Seq r (Star r)"

definition opt :: "rx \<Rightarrow> rx" where
  "opt r = Alt One r"

definition anything :: rx where
  "anything = Star (Cls (\<lambda>_. True))"

text \<open>\<open>/r/.test(s)\<close> for an expression without anchors, and with \<open>^...$\<close>, which is \<open>rx_match\<close>.\<close>

definition rx_search :: "rx \<Rightarrow> string \<Rightarrow> bool" where
  "rx_search r s = rx_match (Seq anything (Seq r anything)) s"

lemma in_lang_anything [simp]: "in_lang anything w"
proof (induction w)
  case Nil
  show ?case by (simp add: anything_def in_lang.star_Nil)
next
  case (Cons c w)
  have "in_lang (Star (Cls (\<lambda>_. True))) ([c] @ w)"
    using Cons by (intro in_lang.star_Cons) (auto simp: anything_def)
  then show ?case by (simp add: anything_def)
qed

lemma rx_search_iff: "rx_search r s \<longleftrightarrow> (\<exists>u v w. s = u @ v @ w \<and> in_lang r v)"
  by (auto simp: rx_search_def rx_match_iff in_lang_Seq)

lemma in_lang_lit [simp]: "in_lang (lit s) w \<longleftrightarrow> w = s"
  by (induction s arbitrary: w rule: lit.induct) (auto simp: in_lang_Seq lit_char_def)

lemma in_lang_alts: "in_lang (alts rs) w \<longleftrightarrow> (\<exists>r \<in> set rs. in_lang r w)"
  by (induction rs rule: alts.induct) auto

lemma in_lang_opt [simp]: "in_lang (opt r) w \<longleftrightarrow> w = [] \<or> in_lang r w"
  by (simp add: opt_def)

lemma in_lang_Star_Cls: "in_lang (Star (Cls p)) w \<longleftrightarrow> (\<forall>c \<in> set w. p c)"
proof
  assume "in_lang (Star (Cls p)) w"
  then show "\<forall>c \<in> set w. p c"
    by (induction "Star (Cls p)" w rule: in_lang.induct) auto
next
  assume "\<forall>c \<in> set w. p c"
  then show "in_lang (Star (Cls p)) w"
  proof (induction w)
    case (Cons c w)
    then have "in_lang (Star (Cls p)) ([c] @ w)" by (intro in_lang.star_Cons) auto
    then show ?case by simp
  qed (simp add: in_lang.star_Nil)
qed

lemma in_lang_plus_Cls: "in_lang (plus1 (Cls p)) w \<longleftrightarrow> w \<noteq> [] \<and> (\<forall>c \<in> set w. p c)"
proof (cases w)
  case Nil
  then show ?thesis by (simp add: plus1_def in_lang_Seq)
next
  case (Cons c u)
  then show ?thesis
    by (auto simp: plus1_def in_lang_Seq_Cons in_lang_Star_Cls)
qed

end
