(* ===== verification/Tentacles.thy ===== *)
theory Tentacles
  imports JS_Values Regex
begin

text \<open>
  The package's dispatcher (src/services/bin/octobus-tentacles.js): the table of services, and the
  command that runs one of them. The table is the object literal, entry by entry, in its order; a
  later entry of a name replaces an earlier one. Parsing the command line (commander), importing a
  module, resolving a URL against the file's own and running a service are not under the file's
  control: the action is modelled from the arguments commander hands it to the call it makes.
\<close>

section \<open>The table\<close>

record tentacle =
  entryFile :: string
  serviceModule :: string

definition services_1 :: "(string \<times> tentacle) list" where
  "services_1 = [
    (''security-engine'',
      \<lparr>entryFile = ''../crowdsec__security-engine/bin/security-engine.js'',
       serviceModule = ''../crowdsec__security-engine/src/service.js''\<rparr>),
    (''prometheus-3-0-1'',
      \<lparr>entryFile = ''../prometheus__prometheus_3-0-1/bin/prometheus-3-0-1.js'',
       serviceModule = ''../prometheus__prometheus_3-0-1/src/service.js''\<rparr>),
    (''huawei-ccm'',
      \<lparr>entryFile = ''../huawei__ccm/bin/huawei-ccm.js'',
       serviceModule = ''../huawei__ccm/src/service.js''\<rparr>),
    (''jumpserver-bastionhost-v4-10-16'',
      \<lparr>entryFile = ''../jumpserver__bastionhost_v4-10-16/bin/jumpserver-bastionhost-v4-10-16.js'',
       serviceModule = ''../jumpserver__bastionhost_v4-10-16/src/service.js''\<rparr>),
    (''cisa-kev'',
      \<lparr>entryFile = ''../cisa__kev/bin/cisa-kev.js'',
       serviceModule = ''../cisa__kev/src/service.js''\<rparr>),
    (''shodan-internetdb'',
      \<lparr>entryFile = ''../shodan__internetdb/bin/shodan-internetdb.js'',
       serviceModule = ''../shodan__internetdb/src/service.js''\<rparr>),
    (''alienvault-otx'',
      \<lparr>entryFile = ''../alienvault__otx/bin/alienvault-otx.js'',
       serviceModule = ''../alienvault__otx/src/service.js''\<rparr>),
    (''dbappsecurity-mingyu-waf'',
      \<lparr>entryFile = ''../dbappsecurity__mingyu-waf/bin/dbappsecurity-mingyu-waf.js'',
       serviceModule = ''../dbappsecurity__mingyu-waf/src/service.js''\<rparr>),
    (''epp-360'',
      \<lparr>entryFile = ''../360__360-epp_v10-0-0-08331/bin/360-epp.js'',
       serviceModule = ''../360__360-epp_v10-0-0-08331/src/service.js''\<rparr>),
    (''ailpha-platform'',
      \<lparr>entryFile = ''../ailpha__platform/bin/ailpha-platform.js'',
       serviceModule = ''../ailpha__platform/src/service.js''\<rparr>),
    (''aliyun-waf3'',
      \<lparr>entryFile = ''../aliyun__waf3/bin/aliyun-waf3.js'',
       serviceModule = ''../aliyun__waf3/src/service.js''\<rparr>),
    (''apache-apisix-3-17'',
      \<lparr>entryFile = ''../apache__apisix_3-17/bin/apache-apisix-3-17.js'',
       serviceModule = ''../apache__apisix_3-17/src/service.js''\<rparr>),
    (''alibaba-cloud-simple-application-server-firewall'',
      \<lparr>entryFile = ''../alibaba-cloud__simple-application-server-firewall/bin/alibaba-cloud-simple-application-server-firewall.js'',
       serviceModule = ''../alibaba-cloud__simple-application-server-firewall/src/service.js''\<rparr>),
    (''aliyun-cloudfw'',
      \<lparr>entryFile = ''../aliyun__cloudfw/bin/aliyun-cloudfw.js'',
       serviceModule = ''../aliyun__cloudfw/src/service.js''\<rparr>),
    (''answer-platform'',
      \<lparr>entryFile = ''../chaitin__answer-platform_v25-05-001/bin/answer-platform.js'',
       serviceModule = ''../chaitin__answer-platform_v25-05-001/src/service.js''\<rparr>),
    (''answer-platform-v26'',
      \<lparr>entryFile = ''../chaitin__answer-platform_v26-07-002/bin/answer-platform-v26.js'',
       serviceModule = ''../chaitin__answer-platform_v26-07-002/src/service.js''\<rparr>),
    (''safeline-waf'',
      \<lparr>entryFile = ''../chaitin__safeline-waf/bin/safeline-waf.js'',
       serviceModule = ''../chaitin__safeline-waf/src/service.js''\<rparr>),
    (''safeline-waf-login'',
      \<lparr>entryFile = ''../chaitin__safeline-waf-login/bin/safeline-waf-login.js'',
       serviceModule = ''../chaitin__safeline-waf-login/src/service.js''\<rparr>),
    (''safeline-waf-eliminate-false-positive'',
      \<lparr>entryFile = ''../chaitin__safeline-waf-eliminate-false-positive/bin/safeline-waf-eliminate-false-positive.js'',
       serviceModule = ''../chaitin__safeline-waf-eliminate-false-positive/src/service.js''\<rparr>),
    (''cloudatlas'',
      \<lparr>entryFile = ''../chaitin__cloudatlas/bin/cloudatlas.js'',
       serviceModule = ''../chaitin__cloudatlas/src/service.js''\<rparr>),
    (''jianwei-vuln'',
      \<lparr>entryFile = ''../chaitin__jianwei-vuln/bin/jianwei-vuln.js'',
       serviceModule = ''../chaitin__jianwei-vuln/src/service.js''\<rparr>),
    (''cosmos'',
      \<lparr>entryFile = ''../chaitin__cosmos/bin/cosmos.js'',
       serviceModule = ''../chaitin__cosmos/src/service.js''\<rparr>),
    (''aliyun-sas-vulnerability-management'',
      \<lparr>entryFile = ''../aliyun__sas-vulnerability-management/bin/aliyun-sas-vulnerability-management.js'',
       serviceModule = ''../aliyun__sas-vulnerability-management/src/service.js''\<rparr>),
    (''das-apt'',
      \<lparr>entryFile = ''../das__apt/bin/das-apt.js'',
       serviceModule = ''../das__apt/src/service.js''\<rparr>),
    (''ctyun-accessone'',
      \<lparr>entryFile = ''../ctyun__accessone/bin/ctyun-accessone.js'',
       serviceModule = ''../ctyun__accessone/src/service.js''\<rparr>),
    (''huayulab-ngaf'',
      \<lparr>entryFile = ''../huayulab__ngaf/bin/huayulab-ngaf.js'',
       serviceModule = ''../huayulab__ngaf/src/service.js''\<rparr>),
    (''cloudwalker'',
      \<lparr>entryFile = ''../chaitin__cloudwalker/bin/cloudwalker.js'',
       serviceModule = ''../chaitin__cloudwalker/src/service.js''\<rparr>),
    (''cloudwalker-cwpp'',
      \<lparr>entryFile = ''../chaitin__cloudwalker-cwpp/bin/cloudwalker-cwpp.js'',
       serviceModule = ''../chaitin__cloudwalker-cwpp/src/service.js''\<rparr>),
    (''t-answer-ndr'',
      \<lparr>entryFile = ''../chaitin__t-answer-ndr/bin/t-answer-ndr.js'',
       serviceModule = ''../chaitin__t-answer-ndr/src/service.js''\<rparr>),
    (''baiduwaf-waf-web-template'',
      \<lparr>entryFile = ''../baiduwaf__waf-web-template/bin/baiduwaf-waf-web-template.js'',
       serviceModule = ''../baiduwaf__waf-web-template/src/service.js''\<rparr>),
    (''cloudflare-waf'',
      \<lparr>entryFile = ''../cloudflare__waf/bin/cloudflare-waf.js'',
       serviceModule = ''../cloudflare__waf/src/service.js''\<rparr>),
    (''das-gateway-v3'',
      \<lparr>entryFile = ''../das__gateway_v3/bin/das-gateway-v3.js'',
       serviceModule = ''../das__gateway_v3/src/service.js''\<rparr>),
    (''das-tgfw-v6'',
      \<lparr>entryFile = ''../das__tgfw_v6/bin/das-tgfw-v6.js'',
       serviceModule = ''../das__tgfw_v6/src/service.js''\<rparr>),
    (''dbaudit'',
      \<lparr>entryFile = ''../das__dbaudit/bin/dbaudit.js'',
       serviceModule = ''../das__dbaudit/src/service.js''\<rparr>),
    (''defectdojo'',
      \<lparr>entryFile = ''../defectdojo__defectdojo/bin/defectdojo.js'',
       serviceModule = ''../defectdojo__defectdojo/src/service.js''\<rparr>),
    (''dingtalk-group-robot'',
      \<lparr>entryFile = ''../dingtalk__group-robot/bin/dingtalk-group-robot.js'',
       serviceModule = ''../dingtalk__group-robot/src/service.js''\<rparr>),
    (''dsensor'',
      \<lparr>entryFile = ''../chaitin__dsensor_ds-s_h_40-25.07.001/bin/dsensor.js'',
       serviceModule = ''../chaitin__dsensor_ds-s_h_40-25.07.001/src/service.js''\<rparr>)]"

definition services_2 :: "(string \<times> tentacle) list" where
  "services_2 = [
    (''kibana-7-10-0'',
      \<lparr>entryFile = ''../elastic__kibana_7-10-0/bin/kibana-7-10-0.js'',
       serviceModule = ''../elastic__kibana_7-10-0/src/service.js''\<rparr>),
    (''alertmanager-0-27-0'',
      \<lparr>entryFile = ''../prometheus__alertmanager_0-27-0/bin/alertmanager-0-27-0.js'',
       serviceModule = ''../prometheus__alertmanager_0-27-0/src/service.js''\<rparr>),
    (''kubernetes-api'',
      \<lparr>entryFile = ''../kubernetes__kubernetes_api/bin/kubernetes-api.js'',
       serviceModule = ''../kubernetes__kubernetes_api/src/service.js''\<rparr>),
    (''dptech-eds'',
      \<lparr>entryFile = ''../dptech__eds/bin/dptech-eds.js'',
       serviceModule = ''../dptech__eds/src/service.js''\<rparr>),
    (''dptech-fw-v4-6-10'',
      \<lparr>entryFile = ''../dptech__fw_v4-6-10/bin/dptech-fw-v4-6-10.js'',
       serviceModule = ''../dptech__fw_v4-6-10/src/service.js''\<rparr>),
    (''dptech-umc-ads-v5-3-29'',
      \<lparr>entryFile = ''../dptech__umc-ads_v5-3-29/bin/dptech-umc-ads-v5-3-29.js'',
       serviceModule = ''../dptech__umc-ads_v5-3-29/src/service.js''\<rparr>),
    (''elastic-kibana-7-17-26'',
      \<lparr>entryFile = ''../elastic__kibana_7-17-26/bin/elastic-kibana-7-17-26.js'',
       serviceModule = ''../elastic__kibana_7-17-26/src/service.js''\<rparr>),
    (''f5-awaf'',
      \<lparr>entryFile = ''../f5__awaf/bin/f5-awaf.js'',
       serviceModule = ''../f5__awaf/src/service.js''\<rparr>),
    (''feishu-group-robot'',
      \<lparr>entryFile = ''../feishu__group-robot/bin/feishu-group-robot.js'',
       serviceModule = ''../feishu__group-robot/src/service.js''\<rparr>),
    (''first-epss-v1'',
      \<lparr>entryFile = ''../first__epss-v1/bin/first-epss-v1.js'',
       serviceModule = ''../first__epss-v1/src/service.js''\<rparr>),
    (''fofa-network-space-mapper'',
      \<lparr>entryFile = ''../fofa__network-space-mapper/bin/fofa-network-space-mapper.js'',
       serviceModule = ''../fofa__network-space-mapper/src/service.js''\<rparr>),
    (''fortinet-fw'',
      \<lparr>entryFile = ''../fortinet__fw/bin/fortinet-fw.js'',
       serviceModule = ''../fortinet__fw/src/service.js''\<rparr>),
    (''fortinet-waf'',
      \<lparr>entryFile = ''../fortinet__waf/bin/fortinet-waf.js'',
       serviceModule = ''../fortinet__waf/src/service.js''\<rparr>),
    (''hermes-gateway'',
      \<lparr>entryFile = ''../hermes__gateway/bin/hermes-gateway.js'',
       serviceModule = ''../hermes__gateway/src/service.js''\<rparr>),
    (''hillstone-fw-v5-5-r10'',
      \<lparr>entryFile = ''../hillstone__fw_v5-5-r10/bin/hillstone-fw-v5-5-r10.js'',
       serviceModule = ''../hillstone__fw_v5-5-r10/src/service.js''\<rparr>),
    (''hillstone-waf-v5-5-r12'',
      \<lparr>entryFile = ''../hillstone__waf_v5-5-r12/bin/hillstone-waf-v5-5-r12.js'',
       serviceModule = ''../hillstone__waf_v5-5-r12/src/service.js''\<rparr>),
    (''hillstone-fw-v5-5-r4'',
      \<lparr>entryFile = ''../hillstone__fw_v5-5-r4/bin/hillstone-fw-v5-5-r4.js'',
       serviceModule = ''../hillstone__fw_v5-5-r4/src/service.js''\<rparr>),
    (''hillstone-fw-v5-5-r6'',
      \<lparr>entryFile = ''../hillstone__fw_v5-5-r6/bin/hillstone-fw-v5-5-r6.js'',
       serviceModule = ''../hillstone__fw_v5-5-r6/src/service.js''\<rparr>),
    (''huawei-dns'',
      \<lparr>entryFile = ''../huawei__dns/bin/huawei-dns.js'',
       serviceModule = ''../huawei__dns/src/service.js''\<rparr>),
    (''huorong-endpoint-security-management-system-v2-0-19-3'',
      \<lparr>entryFile = ''../huorong__endpoint-security-management-system_v2-0-19-3/bin/huorong-endpoint-security-management-system-v2-0-19-3.js'',
       serviceModule = ''../huorong__endpoint-security-management-system_v2-0-19-3/src/service.js''\<rparr>),
    (''huawei-waf'',
      \<lparr>entryFile = ''../huawei__waf/bin/huawei-waf.js'',
       serviceModule = ''../huawei__waf/src/service.js''\<rparr>),
    (''huawei-fw-usg6000e'',
      \<lparr>entryFile = ''../huawei__fw-usg6000e/bin/huawei-fw-usg6000e.js'',
       serviceModule = ''../huawei__fw-usg6000e/src/service.js''\<rparr>),
    (''imperva-waf-gateway-v13-6-90'',
      \<lparr>entryFile = ''../imperva__waf-gateway_v13-6-90/bin/imperva-waf-gateway-v13-6-90.js'',
       serviceModule = ''../imperva__waf-gateway_v13-6-90/src/service.js''\<rparr>),
    (''infobyte-faraday-v5-22'',
      \<lparr>entryFile = ''../infobyte__faraday_v5-22/bin/infobyte-faraday-v5-22.js'',
       serviceModule = ''../infobyte__faraday_v5-22/src/service.js''\<rparr>),
    (''m01-intelligence'',
      \<lparr>entryFile = ''../m01__intelligence/bin/m01-intelligence.js'',
       serviceModule = ''../m01__intelligence/src/service.js''\<rparr>),
    (''nsfocus-ids-v5-6-r10-f02'',
      \<lparr>entryFile = ''../nsfocus__ids_v5-6-r10-f02/bin/nsfocus-ids-v5-6-r10-f02.js'',
       serviceModule = ''../nsfocus__ids_v5-6-r10-f02/src/service.js''\<rparr>),
    (''nsfocus-ads-v4-5-r90-f06'',
      \<lparr>entryFile = ''../nsfocus__ads_v4-5-r90-f06/bin/nsfocus-ads-v4-5-r90-f06.js'',
       serviceModule = ''../nsfocus__ads_v4-5-r90-f06/src/service.js''\<rparr>),
    (''nsfocus-ngfw-v60-9900'',
      \<lparr>entryFile = ''../nsfocus__ngfw_v60-9900/bin/nsfocus-ngfw-v60-9900.js'',
       serviceModule = ''../nsfocus__ngfw_v60-9900/src/service.js''\<rparr>),
    (''nsfocus-nips-v5-6-r11'',
      \<lparr>entryFile = ''../nsfocus__nips_v5-6-r11/bin/nsfocus-nips-v5-6-r11.js'',
       serviceModule = ''../nsfocus__nips_v5-6-r11/src/service.js''\<rparr>),
    (''nsfocus-rsas-v6-0r04f04sp09'',
      \<lparr>entryFile = ''../nsfocus__rsas_v6-0r04f04sp09/bin/nsfocus-rsas-v6-0r04f04sp09.js'',
       serviceModule = ''../nsfocus__rsas_v6-0r04f04sp09/src/service.js''\<rparr>),
    (''owasp-dependency-track-sca-v5-0'',
      \<lparr>entryFile = ''../owasp__dependency-track-sca_v5-0/bin/owasp-dependency-track-sca-v5-0.js'',
       serviceModule = ''../owasp__dependency-track-sca_v5-0/src/service.js''\<rparr>),
    (''panabit-tang-r1'',
      \<lparr>entryFile = ''../panabit__tang-r1/bin/panabit-tang-r1.js'',
       serviceModule = ''../panabit__tang-r1/src/service.js''\<rparr>),
    (''qianxin-cloudlock-v8-0-8'',
      \<lparr>entryFile = ''../qianxin__cloudlock_v8-0-8/bin/qianxin-cloudlock-v8-0-8.js'',
       serviceModule = ''../qianxin__cloudlock_v8-0-8/src/service.js''\<rparr>),
    (''qianxin-fw-secgate3600'',
      \<lparr>entryFile = ''../qianxin__fw-secgate3600/bin/qianxin-fw-secgate3600.js'',
       serviceModule = ''../qianxin__fw-secgate3600/src/service.js''\<rparr>),
    (''qianxin-tianyan-platform'',
      \<lparr>entryFile = ''../qianxin__tianyan-platform/bin/qianxin-tianyan-platform.js'',
       serviceModule = ''../qianxin__tianyan-platform/src/service.js''\<rparr>),
    (''qianxin-fw-secgate3600-http-x'',
      \<lparr>entryFile = ''../qianxin__fw-secgate3600-http-x/bin/qianxin-fw-secgate3600-http-x.js'',
       serviceModule = ''../qianxin__fw-secgate3600-http-x/src/service.js''\<rparr>),
    (''qianxin-fw-secgate3600-v3-6-6'',
      \<lparr>entryFile = ''../qianxin__fw-secgate3600_v3-6-6/bin/qianxin-fw-secgate3600-v3-6-6.js'',
       serviceModule = ''../qianxin__fw-secgate3600_v3-6-6/src/service.js''\<rparr>)]"

definition services_3 :: "(string \<times> tentacle) list" where
  "services_3 = [
    (''qianxin-hunter'',
      \<lparr>entryFile = ''../qianxin__hunter_v23-1/bin/qianxin-hunter.js'',
       serviceModule = ''../qianxin__hunter_v23-1/src/service.js''\<rparr>),
    (''qianxin-hunter-public'',
      \<lparr>entryFile = ''../qianxin__hunter_public/bin/qianxin-hunter-public.js'',
       serviceModule = ''../qianxin__hunter_public/src/service.js''\<rparr>),
    (''qianxin-vs-secvss3600'',
      \<lparr>entryFile = ''../qianxin__vs-secvss3600/bin/qianxin-vs-secvss3600.js'',
       serviceModule = ''../qianxin__vs-secvss3600/src/service.js''\<rparr>),
    (''qianxin-fw-secgate3600-policy'',
      \<lparr>entryFile = ''../qianxin__fw-secgate3600-policy/bin/qianxin-fw-secgate3600-policy.js'',
       serviceModule = ''../qianxin__fw-secgate3600-policy/src/service.js''\<rparr>),
    (''qiming-tianqing-waf'',
      \<lparr>entryFile = ''../qiming-tianqing__waf/bin/qiming-tianqing-waf.js'',
       serviceModule = ''../qiming-tianqing__waf/src/service.js''\<rparr>),
    (''qingteng-hids-v3-4'',
      \<lparr>entryFile = ''../qingteng__hids_v3-4/bin/qingteng-hids-v3-4.js'',
       serviceModule = ''../qingteng__hids_v3-4/src/service.js''\<rparr>),
    (''qingteng-hids-v5'',
      \<lparr>entryFile = ''../qingteng__hids_v5/bin/qingteng-hids-v5.js'',
       serviceModule = ''../qingteng__hids_v5/src/service.js''\<rparr>),
    (''reportedip'',
      \<lparr>entryFile = ''../reportedip__reportedip/bin/reportedip.js'',
       serviceModule = ''../reportedip__reportedip/src/service.js''\<rparr>),
    (''ray-waf-v6-1-2'',
      \<lparr>entryFile = ''../ray__waf_v6-1-2/bin/ray-waf-v6-1-2.js'',
       serviceModule = ''../ray__waf_v6-1-2/src/service.js''\<rparr>),
    (''riversec-waf-26-03'',
      \<lparr>entryFile = ''../riversec__waf_26-03/bin/riversec-waf-26-03.js'',
       serviceModule = ''../riversec__waf_26-03/src/service.js''\<rparr>),
    (''riversafe-waf'',
      \<lparr>entryFile = ''../riversafe__waf/bin/riversafe-waf.js'',
       serviceModule = ''../riversafe__waf/src/service.js''\<rparr>),
    (''ruijie-behavior-firewall-r2-3-2-t0'',
      \<lparr>entryFile = ''../ruijie__behavior_firewall_r2-3-2-t0/bin/ruijie-behavior-firewall-r2-3-2-t0.js'',
       serviceModule = ''../ruijie__behavior_firewall_r2-3-2-t0/src/service.js''\<rparr>),
    (''sangfor-af-v8-0-35r1'',
      \<lparr>entryFile = ''../sangfor__af_v8-0-35r1/bin/sangfor-af-v8-0-35r1.js'',
       serviceModule = ''../sangfor__af_v8-0-35r1/src/service.js''\<rparr>),
    (''sangfor-fw-v8-0-45'',
      \<lparr>entryFile = ''../sangfor__fw_v8-0-45/bin/sangfor-fw-v8-0-45.js'',
       serviceModule = ''../sangfor__fw_v8-0-45/src/service.js''\<rparr>),
    (''sangfor-sip'',
      \<lparr>entryFile = ''../sangfor__sip/bin/sangfor-sip.js'',
       serviceModule = ''../sangfor__sip/src/service.js''\<rparr>),
    (''h3c-secpath'',
      \<lparr>entryFile = ''../h3c__secpath/bin/h3c-secpath.js'',
       serviceModule = ''../h3c__secpath/src/service.js''\<rparr>),
    (''sangfor-atrust-openapi-v3'',
      \<lparr>entryFile = ''../sangfor__atrust-openapi_v3/bin/sangfor-atrust-openapi-v3.js'',
       serviceModule = ''../sangfor__atrust-openapi_v3/src/service.js''\<rparr>),
    (''sangfor-fw-v8-0-95'',
      \<lparr>entryFile = ''../sangfor__fw_v8-0-95/bin/sangfor-fw-v8-0-95.js'',
       serviceModule = ''../sangfor__fw_v8-0-95/src/service.js''\<rparr>),
    (''sangfor-xdr-v2-0-45'',
      \<lparr>entryFile = ''../sangfor__xdr_v2-0-45/bin/sangfor-xdr-v2-0-45.js'',
       serviceModule = ''../sangfor__xdr_v2-0-45/src/service.js''\<rparr>),
    (''sangfor-xdr'',
      \<lparr>entryFile = ''../sangfor__xdr/bin/sangfor-xdr.js'',
       serviceModule = ''../sangfor__xdr/src/service.js''\<rparr>),
    (''slack-group-robot'',
      \<lparr>entryFile = ''../slack__group-robot/bin/slack-group-robot.js'',
       serviceModule = ''../slack__group-robot/src/service.js''\<rparr>),
    (''skycloud-inet'',
      \<lparr>entryFile = ''../skycloud__inet/bin/skycloud-inet.js'',
       serviceModule = ''../skycloud__inet/src/service.js''\<rparr>),
    (''lighthouse-firewall'',
      \<lparr>entryFile = ''../tencent__lighthouse-firewall/bin/tencent-lighthouse-firewall.js'',
       serviceModule = ''../tencent__lighthouse-firewall/src/service.js''\<rparr>),
    (''tencent-csip'',
      \<lparr>entryFile = ''../tencent__csip/bin/tencent-csip.js'',
       serviceModule = ''../tencent__csip/src/service.js''\<rparr>),
    (''tencent-qyweixin-group-robot'',
      \<lparr>entryFile = ''../tencent__qyweixin-group-robot/bin/tencent-qyweixin-group-robot.js'',
       serviceModule = ''../tencent__qyweixin-group-robot/src/service.js''\<rparr>),
    (''tencent-tix-saas'',
      \<lparr>entryFile = ''../tencent__tix-saas/bin/tencent-tix-saas.js'',
       serviceModule = ''../tencent__tix-saas/src/service.js''\<rparr>),
    (''tencent-tsec-v2-5-1'',
      \<lparr>entryFile = ''../tencent__tsec_v2-5-1/bin/tencent-tsec-v2-5-1.js'',
       serviceModule = ''../tencent__tsec_v2-5-1/src/service.js''\<rparr>),
    (''telegram-bot-api'',
      \<lparr>entryFile = ''../telegram__bot-api/bin/telegram-bot-api.js'',
       serviceModule = ''../telegram__bot-api/src/service.js''\<rparr>),
    (''tencent-cfw'',
      \<lparr>entryFile = ''../tencent__cfw/bin/tencent-cfw.js'',
       serviceModule = ''../tencent__cfw/src/service.js''\<rparr>),
    (''threatbook-cloudapi-v3'',
      \<lparr>entryFile = ''../threatbook__cloudapi_v3/bin/threatbook-cloudapi-v3.js'',
       serviceModule = ''../threatbook__cloudapi_v3/src/service.js''\<rparr>),
    (''threatbook-claudsandbox-v3'',
      \<lparr>entryFile = ''../threatbook__claudsandbox_v3/bin/threatbook-claudsandbox-v3.js'',
       serviceModule = ''../threatbook__claudsandbox_v3/src/service.js''\<rparr>),
    (''threatbook-ngtip-v5'',
      \<lparr>entryFile = ''../threatbook__ngtip_v5/bin/threatbook-ngtip-v5.js'',
       serviceModule = ''../threatbook__ngtip_v5/src/service.js''\<rparr>),
    (''threatbook-onesig'',
      \<lparr>entryFile = ''../threatbook__onesig/bin/threatbook-onesig.js'',
       serviceModule = ''../threatbook__onesig/src/service.js''\<rparr>),
    (''threatbook-onesig-policy-api'',
      \<lparr>entryFile = ''../threatbook__onesig-policy-api/bin/threatbook-onesig-policy-api.js'',
       serviceModule = ''../threatbook__onesig-policy-api/src/service.js''\<rparr>),
    (''threatbook-tdp'',
      \<lparr>entryFile = ''../threatbook__tdp/bin/threatbook-tdp.js'',
       serviceModule = ''../threatbook__tdp/src/service.js''\<rparr>),
    (''threatbook-tdp-host'',
      \<lparr>entryFile = ''../threatbook__tdp-host/bin/threatbook-tdp-host.js'',
       serviceModule = ''../threatbook__tdp-host/src/service.js''\<rparr>),
    (''threatbook-tip-v4'',
      \<lparr>entryFile = ''../threatbook__tip_v4/bin/threatbook-tip-v4.js'',
       serviceModule = ''../threatbook__tip_v4/src/service.js''\<rparr>)]"

definition services_4 :: "(string \<times> tentacle) list" where
  "services_4 = [
    (''tophant-xsiem'',
      \<lparr>entryFile = ''../tophant__xsiem/bin/tophant-xsiem.js'',
       serviceModule = ''../tophant__xsiem/src/service.js''\<rparr>),
    (''topsec-waf-v3-2294-20238'',
      \<lparr>entryFile = ''../topsec__waf_v3-2294-20238/bin/topsec-waf-v3-2294-20238.js'',
       serviceModule = ''../topsec__waf_v3-2294-20238/src/service.js''\<rparr>),
    (''topsec-waf-v3-262406-30229'',
      \<lparr>entryFile = ''../topsec__waf_v3-262406-30229/bin/topsec-waf-v3-262406-30229.js'',
       serviceModule = ''../topsec__waf_v3-262406-30229/src/service.js''\<rparr>),
    (''topsec-fw-2u'',
      \<lparr>entryFile = ''../topsec__fw-2u/bin/topsec-fw-2u.js'',
       serviceModule = ''../topsec__fw-2u/src/service.js''\<rparr>),
    (''topsec-fw-5u'',
      \<lparr>entryFile = ''../topsec__fw-5u/bin/topsec-fw-5u.js'',
       serviceModule = ''../topsec__fw-5u/src/service.js''\<rparr>),
    (''topsec-fw-v3-7-6'',
      \<lparr>entryFile = ''../topsec__fw_v3-7-6/bin/topsec-fw-v3-7-6.js'',
       serviceModule = ''../topsec__fw_v3-7-6/src/service.js''\<rparr>),
    (''topsec-edr'',
      \<lparr>entryFile = ''../topsec__edr/bin/topsec-edr.js'',
       serviceModule = ''../topsec__edr/src/service.js''\<rparr>),
    (''venus-ads-v3-6'',
      \<lparr>entryFile = ''../venus__ads_v3-6/bin/venus-ads-v3-6.js'',
       serviceModule = ''../venus__ads_v3-6/src/service.js''\<rparr>),
    (''leadsec-tam'',
      \<lparr>entryFile = ''../leadsec__tam/bin/leadsec-tam.js'',
       serviceModule = ''../leadsec__tam/src/service.js''\<rparr>),
    (''venus-maf'',
      \<lparr>entryFile = ''../venus__maf/bin/venus-maf.js'',
       serviceModule = ''../venus__maf/src/service.js''\<rparr>),
    (''volcengine-cloud-firewall'',
      \<lparr>entryFile = ''../volcengine__cloud-firewall/bin/volcengine-cloud-firewall.js'',
       serviceModule = ''../volcengine__cloud-firewall/src/service.js''\<rparr>),
    (''volcengine-waf'',
      \<lparr>entryFile = ''../volcengine__waf/bin/volcengine-waf.js'',
       serviceModule = ''../volcengine__waf/src/service.js''\<rparr>),
    (''leadsec-waf'',
      \<lparr>entryFile = ''../leadsec__waf/bin/leadsec-waf.js'',
       serviceModule = ''../leadsec__waf/src/service.js''\<rparr>),
    (''venus-ips-v6079'',
      \<lparr>entryFile = ''../venus__ips_v6079/bin/venus-ips-v6079.js'',
       serviceModule = ''../venus__ips_v6079/src/service.js''\<rparr>),
    (''venus-tar'',
      \<lparr>entryFile = ''../venus__tar/bin/venus-tar.js'',
       serviceModule = ''../venus__tar/src/service.js''\<rparr>),
    (''alertmanager-0-27-0'',
      \<lparr>entryFile = ''../prometheus__alertmanager_0-27-0/bin/alertmanager-0-27-0.js'',
       serviceModule = ''../prometheus__alertmanager_0-27-0/src/service.js''\<rparr>),
    (''openobserve-v0-15-1'',
      \<lparr>entryFile = ''../openobserve__openobserve_v0-15-1/bin/openobserve-v0-15-1.js'',
       serviceModule = ''../openobserve__openobserve_v0-15-1/src/service.js''\<rparr>),
    (''elasticsearch-7-10-0'',
      \<lparr>entryFile = ''../elastic__elasticsearch_7-10-0/bin/elasticsearch-7-10-0.js'',
       serviceModule = ''../elastic__elasticsearch_7-10-0/src/service.js''\<rparr>),
    (''wangsu-label-ip'',
      \<lparr>entryFile = ''../wangsu__label-ip/bin/wangsu-label-ip.js'',
       serviceModule = ''../wangsu__label-ip/src/service.js''\<rparr>),
    (''wd-k01'',
      \<lparr>entryFile = ''../wd__k01/bin/wd-k01.js'',
       serviceModule = ''../wd__k01/src/service.js''\<rparr>),
    (''threatbook-hfish'',
      \<lparr>entryFile = ''../threatbook__hfish/bin/threatbook-hfish.js'',
       serviceModule = ''../threatbook__hfish/src/service.js''\<rparr>),
    (''dongtai-iast'',
      \<lparr>entryFile = ''../huoxian__dongtai-iast/bin/dongtai-iast.js'',
       serviceModule = ''../huoxian__dongtai-iast/src/service.js''\<rparr>),
    (''dbappsecurity-mingyu-waf'',
      \<lparr>entryFile = ''../dbappsecurity__mingyu-waf/bin/dbappsecurity-mingyu-waf.js'',
       serviceModule = ''../dbappsecurity__mingyu-waf/src/service.js''\<rparr>),
    (''misp'',
      \<lparr>entryFile = ''../misp__misp/bin/misp.js'',
       serviceModule = ''../misp__misp/src/service.js''\<rparr>),
    (''cortex'',
      \<lparr>entryFile = ''../thehive__cortex/bin/cortex.js'',
       serviceModule = ''../thehive__cortex/src/service.js''\<rparr>),
    (''opencti'',
      \<lparr>entryFile = ''../filigran__opencti/bin/opencti.js'',
       serviceModule = ''../filigran__opencti/src/service.js''\<rparr>),
    (''tencent-weixin-personal'',
      \<lparr>entryFile = ''../tencent__weixin-personal/bin/tencent-weixin-personal.js'',
       serviceModule = ''../tencent__weixin-personal/src/service.js''\<rparr>),
    (''tencent-qq-chat'',
      \<lparr>entryFile = ''../tencent__qq-chat/bin/tencent-qq-chat.js'',
       serviceModule = ''../tencent__qq-chat/src/service.js''\<rparr>),
    (''geyecloud-atd'',
      \<lparr>entryFile = ''../geyecloud__atd_v2-3-6/bin/geyecloud-atd.js'',
       serviceModule = ''../geyecloud__atd_v2-3-6/src/service.js''\<rparr>),
    (''nsfocus-waf-v6-0-7'',
      \<lparr>entryFile = ''../nsfocus__waf_v6-0-7/bin/nsfocus-waf-v6-0-7.js'',
       serviceModule = ''../nsfocus__waf_v6-0-7/src/service.js''\<rparr>),
    (''zhizhangyi-mbs'',
      \<lparr>entryFile = ''../zhizhangyi__mbs/bin/zhizhangyi-mbs.js'',
       serviceModule = ''../zhizhangyi__mbs/src/service.js''\<rparr>),
    (''qianxin-caasm'',
      \<lparr>entryFile = ''../qianxin__caasm_v1/bin/qianxin-caasm.js'',
       serviceModule = ''../qianxin__caasm_v1/src/service.js''\<rparr>),
    (''anyi-cloud-native-security'',
      \<lparr>entryFile = ''../anyi__cloud-native-security/bin/anyi-cloud-native-security.js'',
       serviceModule = ''../anyi__cloud-native-security/src/service.js''\<rparr>),
    (''api7-enterprise-v3-10-2'',
      \<lparr>entryFile = ''../api7__enterprise_v3-10-2/bin/api7-enterprise-v3-10-2.js'',
       serviceModule = ''../api7__enterprise_v3-10-2/src/service.js''\<rparr>),
    (''qianxin-skyeye-v3-0-14-0'',
      \<lparr>entryFile = ''../qianxin__skyeye_v3.0.14.0/bin/qianxin-skyeye-v3-0-14-0.js'',
       serviceModule = ''../qianxin__skyeye_v3.0.14.0/src/service.js''\<rparr>),
    (''ctdsg-fw'',
      \<lparr>entryFile = ''../ctdsg__fw/bin/ctdsg-fw.js'',
       serviceModule = ''../ctdsg__fw/src/service.js''\<rparr>),
    (''tencent-ssl'',
      \<lparr>entryFile = ''../tencent__ssl/bin/tencent-ssl.js'',
       serviceModule = ''../tencent__ssl/src/service.js''\<rparr>)]"

definition services_5 :: "(string \<times> tentacle) list" where
  "services_5 = [
    (''tencent-bh'',
      \<lparr>entryFile = ''../tencent__bh/bin/tencent-bh.js'',
       serviceModule = ''../tencent__bh/src/service.js''\<rparr>),
    (''nist-nvd-v2'',
      \<lparr>entryFile = ''../nist__nvd-v2/bin/nist-nvd-v2.js'',
       serviceModule = ''../nist__nvd-v2/src/service.js''\<rparr>),
    (''siem'',
      \<lparr>entryFile = ''../wazuh__siem/bin/siem.js'',
       serviceModule = ''../wazuh__siem/src/service.js''\<rparr>),
    (''kubernetes-api'',
      \<lparr>entryFile = ''../kubernetes__kubernetes_api/bin/kubernetes-api.js'',
       serviceModule = ''../kubernetes__kubernetes_api/src/service.js''\<rparr>),
    (''openstack-yoga-2022-1'',
      \<lparr>entryFile = ''../openinfra__openstack-yoga_2022-1/bin/openstack-yoga-2022-1.js'',
       serviceModule = ''../openinfra__openstack-yoga_2022-1/src/service.js''\<rparr>),
    (''zhihu-open-api'',
      \<lparr>entryFile = ''../zhihu__open-api/bin/zhihu-open-api.js'',
       serviceModule = ''../zhihu__open-api/src/service.js''\<rparr>),
    (''arxiv-api'',
      \<lparr>entryFile = ''../arxiv__api/bin/arxiv-api.js'',
       serviceModule = ''../arxiv__api/src/service.js''\<rparr>)]"

definition services_literal :: "(string \<times> tentacle) list" where
  "services_literal = services_1 @ services_2 @ services_3 @ services_4 @ services_5"

definition services :: "(string \<times> tentacle) list" where
  "services = from_entries services_literal"

definition serviceNames :: "string list" where
  "serviceNames = map fst services"

section \<open>The command\<close>

text \<open>
  \<open>services[name]\<close> reads through to \<open>Object.prototype\<close>, whose properties (all truthy) are no services.
\<close>

datatype selection = Absent | Entry tentacle | Inherited

definition select_service :: "string \<Rightarrow> selection" where
  "select_service name = (case map_of services name of
     Some t \<Rightarrow> Entry t
   | None \<Rightarrow> if name \<in> set object_prototype_names then Inherited else Absent)"

text \<open>
  What the action does: print the help, report an unknown service (text on standard error, help
  there too, exit code 1), or import a module and run it with the rest of the arguments. Of an
  inherited property the module is \<open>undefined\<close>, which the URL constructor reads as a relative name.
\<close>

datatype action_result =
  OutputHelp
| UnknownService string nat
| RunMain string "string list" string
| ImportOf string

definition action :: "(string \<Rightarrow> string) \<Rightarrow> string option \<Rightarrow> string list \<Rightarrow> action_result" where
  "action resolve serviceName args = (case serviceName of
     None \<Rightarrow> OutputHelp
   | Some name \<Rightarrow>
       if name = [] then OutputHelp
       else (case select_service name of
           Absent \<Rightarrow> UnknownService (''Unknown service: '' @ name @ ''\<newline>\<newline>'') 1
         | Inherited \<Rightarrow> ImportOf (resolve ''undefined'')
         | Entry t \<Rightarrow> RunMain (resolve (serviceModule t)) (drop 1 args) (resolve (entryFile t))))"

text \<open>\<open>name.padEnd(37)\<close> in the list of services of the help text.\<close>

definition help_line :: "string \<Rightarrow> string" where
  "help_line name = ''  '' @ name @ replicate (37 - length name) CHR '' ''"

definition help_services :: string where
  "help_services = join ''\<newline>'' (map help_line serviceNames)"

section \<open>Lemmas\<close>

text \<open>
  The table is regular: both paths of an entry lie in one service directory next to \<open>bin\<close>. The check
  is a computation on the literal.
\<close>

definition dir_of :: "tentacle \<Rightarrow> string" where
  "dir_of t = takeWhile (\<lambda>c. c \<noteq> CHR ''/'') (drop 3 (serviceModule t))"

definition regular_entry :: "string \<times> tentacle \<Rightarrow> bool" where
  "regular_entry e = (let d = dir_of (snd e) in
     serviceModule (snd e) = ''../'' @ d @ ''/src/service.js'' \<and>
     prefix (''../'' @ d @ ''/bin/'') (entryFile (snd e)) \<and> suffix ''.js'' (entryFile (snd e)))"

lemma regular_1: "list_all regular_entry services_1" by code_simp
lemma regular_2: "list_all regular_entry services_2" by code_simp
lemma regular_3: "list_all regular_entry services_3" by code_simp
lemma regular_4: "list_all regular_entry services_4" by code_simp
lemma regular_5: "list_all regular_entry services_5" by code_simp

lemma regular_literal: "list_all regular_entry services_literal"
  by (simp add: services_literal_def regular_1 regular_2 regular_3 regular_4 regular_5)

definition absent_from :: "string list \<Rightarrow> (string \<times> tentacle) list \<Rightarrow> bool" where
  "absent_from names es = list_all (\<lambda>e. fst e \<notin> set names) es"

lemma absent_1: "absent_from object_prototype_names services_1" by code_simp
lemma absent_2: "absent_from object_prototype_names services_2" by code_simp
lemma absent_3: "absent_from object_prototype_names services_3" by code_simp
lemma absent_4: "absent_from object_prototype_names services_4" by code_simp
lemma absent_5: "absent_from object_prototype_names services_5" by code_simp

lemma absent_literal: "absent_from object_prototype_names services_literal"
  using absent_1 absent_2 absent_3 absent_4 absent_5
  by (simp add: absent_from_def services_literal_def)

lemma keys_services: "fst ` set services = fst ` set services_literal"
proof -
  have "dom (map_of services) = dom (map_of (rev services_literal))"
    by (simp add: services_def map_of_from_entries dom_def)
  then show ?thesis by (simp add: dom_map_of_conv_image_fst)
qed

lemma services_entry: "map_of services name = Some t \<Longrightarrow> (name, t) \<in> set services_literal"
  by (auto simp: services_def map_of_from_entries dest: map_of_SomeD)

lemma inherited_absent: "name \<in> set object_prototype_names \<Longrightarrow> map_of services name = None"
  using absent_literal services_entry [of name]
  by (cases "map_of services name") (auto simp: absent_from_def list_all_iff)

section \<open>Properties\<close>

text \<open>C6: Running a listed service runs that service's own package: the module imported and the entry
file handed over lie in one service directory, as src/service.js and as a script of its bin, and
the service gets the arguments after its name.\<close>

theorem listed_service_runs:
  assumes "name \<in> set serviceNames" and "name \<noteq> []"
  shows "\<exists>dir script. action resolve (Some name) (name # rest) =
    RunMain (resolve (''../'' @ dir @ ''/src/service.js'')) rest
      (resolve (''../'' @ dir @ ''/bin/'' @ script))"
proof -
  obtain t where t: "map_of services name = Some t"
    using assms(1) by (auto simp: serviceNames_def map_of_eq_None_iff [symmetric] simp del: map_of_eq_None_iff
        dest!: weak_map_of_SomeI)
  then have "regular_entry (name, t)"
    using services_entry regular_literal by (auto simp: list_all_iff)
  then obtain d script where "serviceModule t = ''../'' @ d @ ''/src/service.js''"
    "entryFile t = ''../'' @ d @ ''/bin/'' @ script"
    by (auto simp: regular_entry_def Let_def prefix_def)
  with t assms(2) have "action resolve (Some name) (name # rest) =
    RunMain (resolve (''../'' @ d @ ''/src/service.js'')) rest
      (resolve (''../'' @ d @ ''/bin/'' @ script))"
    by (simp add: action_def select_service_def)
  then show ?thesis by blast
qed

theorem listed_service_runs_witness:
  "\<exists>dir script. action (\<lambda>s. s) (Some ''cisa-kev'') [''cisa-kev'', ''--help''] =
    RunMain (''../'' @ dir @ ''/src/service.js'') [''--help''] (''../'' @ dir @ ''/bin/'' @ script)"
proof (rule listed_service_runs)
  have "''cisa-kev'' \<in> fst ` set services_literal"
    by (simp add: services_literal_def services_1_def)
  then show "''cisa-kev'' \<in> set serviceNames" by (simp add: serviceNames_def keys_services)
qed simp

text \<open>A name is reported as unknown, with exit code 1, exactly when it is not listed and names no
property every object inherits; an inherited name such as constructor is not reported: the command
goes on to import the module undefined.\<close>

lemma unknown_service:
  "((\<exists>text code. action resolve (Some name) args = UnknownService text code) \<longleftrightarrow>
      name \<noteq> [] \<and> name \<notin> set serviceNames \<and> name \<notin> set object_prototype_names) \<and>
   (name \<in> set object_prototype_names \<longrightarrow>
      action resolve (Some name) args = ImportOf (resolve ''undefined''))"
proof (intro conjI impI)
  have n: "map_of services name = None \<longleftrightarrow> name \<notin> set serviceNames"
    by (simp add: serviceNames_def map_of_eq_None_iff)
  then show "(\<exists>text code. action resolve (Some name) args = UnknownService text code) \<longleftrightarrow>
     name \<noteq> [] \<and> name \<notin> set serviceNames \<and> name \<notin> set object_prototype_names"
    by (auto simp: action_def select_service_def split: option.split)
  assume "name \<in> set object_prototype_names"
  moreover from this have "name \<noteq> []" by (auto simp: object_prototype_names_def)
  ultimately show "action resolve (Some name) args = ImportOf (resolve ''undefined'')"
    using inherited_absent by (simp add: action_def select_service_def)
qed

lemma unknown_service_example:
  "action (\<lambda>s. s) (Some ''constructor'') [''constructor''] = ImportOf ''undefined''"
  using unknown_service [of "\<lambda>s. s" "''constructor''" "[''constructor'']"]
  by (simp add: object_prototype_names_def)

end
