(* ===== verification/ServiceNaming.thy ===== *)
theory ServiceNaming
  imports Regex
begin

text \<open>
  The naming rules the repository's scripts share: the pattern of a service directory
  (\<open>vendor__product\<close>) and of a service name, as the regular expressions the scripts test.
\<close>

definition lower_alnum :: "char \<Rightarrow> bool" where
  "lower_alnum c \<longleftrightarrow> is_lower c \<or> is_digit c"

definition SERVICE_DIR_RE :: rx where
  "SERVICE_DIR_RE = seqs [Cls lower_alnum, Star (Cls (\<lambda>c. lower_alnum c \<or> c = CHR ''-'')), lit ''__'',
     Cls lower_alnum, Star (Cls (\<lambda>c. lower_alnum c \<or> c \<in> set ''._-''))]"

definition SERVICE_NAME_RE :: rx where
  "SERVICE_NAME_RE = Seq (plus1 (Cls lower_alnum))
     (Star (Seq (Cls (\<lambda>c. c = CHR ''-'')) (plus1 (Cls lower_alnum))))"

lemma in_lang_Star_chars:
  "in_lang (Star r) w \<Longrightarrow> (\<And>v. in_lang r v \<Longrightarrow> \<forall>c \<in> set v. P c) \<Longrightarrow> \<forall>c \<in> set w. P c"
  by (induction "Star r" w rule: in_lang.induct) auto

text \<open>A directory that matches holds none of the characters that lead out of a directory.\<close>

lemma service_dir_chars:
  assumes "rx_match SERVICE_DIR_RE d" and "c \<in> set d"
  shows "lower_alnum c \<or> c \<in> set ''._-''"
proof -
  have "in_lang SERVICE_DIR_RE d" using assms(1) by (simp add: rx_match_iff)
  then show ?thesis
    using assms(2)
    by (auto simp: SERVICE_DIR_RE_def in_lang_Seq in_lang_Star_Cls simp del: lit.simps)
qed

lemma service_dir_no_slash: "rx_match SERVICE_DIR_RE d \<Longrightarrow> CHR ''/'' \<notin> set d"
  using service_dir_chars [of d "CHR ''/''"]
  by (auto simp: lower_alnum_def is_lower_def is_digit_def code_of_def)

lemma service_dir_not_dots: "rx_match SERVICE_DIR_RE d \<Longrightarrow> d \<noteq> ''.'' \<and> d \<noteq> ''..''"
  by (auto simp: SERVICE_DIR_RE_def lower_alnum_def is_lower_def is_digit_def code_of_def)

end
