(* ===== verification/NodePath.thy ===== *)
theory NodePath
  imports JS_Values "HOL-Library.List_Lexorder" "HOL-Library.Char_ord"
begin

text \<open>
  The POSIX half of Node's \<open>path\<close> module, as far as the scripts use it, and the sorting of strings
  by code unit (\<open>Array.prototype.sort\<close> without a comparator, which agrees with the lexicographic
  order on 8-bit characters). The working directory is an argument of \<open>path_resolve\<close>.
\<close>

section \<open>Segments\<close>

definition segments :: "string \<Rightarrow> string list" where
  "segments p = split_on CHR ''/'' p"

text \<open>One segment of Node's \<open>normalizeString\<close>: the segments kept so far are in reverse order.\<close>

definition push_seg :: "bool \<Rightarrow> string list \<Rightarrow> string \<Rightarrow> string list" where
  "push_seg up acc s =
     (if s = [] \<or> s = ''.'' then acc
      else if s = ''..'' then
        (if acc \<noteq> [] \<and> hd acc \<noteq> ''..'' then tl acc else if up then s # acc else acc)
      else s # acc)"

definition norm_segs :: "bool \<Rightarrow> string list \<Rightarrow> string list" where
  "norm_segs up ss = rev (foldl (push_seg up) [] ss)"

definition is_absolute :: "string \<Rightarrow> bool" where
  "is_absolute p \<longleftrightarrow> starts_with p ''/''"

definition path_normalize :: "string \<Rightarrow> string" where
  "path_normalize p = (if p = [] then ''.'' else
     let ab = is_absolute p; tr = ends_with p ''/'';
         r = join ''/'' (norm_segs (\<not> ab) (segments p))
     in if r = [] then (if ab then ''/'' else if tr then ''./'' else ''.'')
        else (if ab then ''/'' else []) @ r @ (if tr then ''/'' else []))"

definition path_join :: "string list \<Rightarrow> string" where
  "path_join ps = (let qs = filter (\<lambda>p. p \<noteq> []) ps in
     if qs = [] then ''.'' else path_normalize (join ''/'' qs))"

text \<open>\<open>path.resolve\<close>: from the right, up to the first absolute path; else below the directory.\<close>

fun resolve_text :: "string \<Rightarrow> string list \<Rightarrow> string" where
  "resolve_text cwd [] = cwd"
| "resolve_text cwd (p # ps) =
     (if p = [] then resolve_text cwd ps
      else if is_absolute p then p else resolve_text cwd ps @ ''/'' @ p)"

definition path_resolve :: "string \<Rightarrow> string list \<Rightarrow> string" where
  "path_resolve cwd ps = (let t = resolve_text cwd (rev ps) in
     ''/'' @ join ''/'' (norm_segs False (segments t)))"

text \<open>\<open>path.basename\<close>, \<open>path.dirname\<close> and \<open>path.extname\<close>.\<close>

definition path_basename :: "string \<Rightarrow> string" where
  "path_basename p = last (segments (strip_trailing CHR ''/'' p))"

definition path_dirname :: "string \<Rightarrow> string" where
  "path_dirname p = (let q = strip_trailing CHR ''/'' p; ss = segments q in
     if p = [] then ''.''
     else if q = [] then ''/''
     else if length ss = 1 then ''.''
     else (let d = strip_trailing CHR ''/'' (join ''/'' (butlast ss)) in if d = [] then ''/'' else d))"

definition path_extname :: "string \<Rightarrow> string" where
  "path_extname p = (let b = path_basename p; t = takeWhile (\<lambda>c. c \<noteq> CHR ''.'') (rev b) in
     if CHR ''.'' \<notin> set b \<or> length t + 1 = length b \<or> b = ''..'' then [] else ''.'' @ rev t)"

text \<open>\<open>path.relative(from, to)\<close> of two absolute normalized paths.\<close>

fun drop_common :: "string list \<Rightarrow> string list \<Rightarrow> string list \<times> string list" where
  "drop_common (x # xs) (y # ys) = (if x = y then drop_common xs ys else (x # xs, y # ys))"
| "drop_common xs ys = (xs, ys)"

definition abs_segs :: "string \<Rightarrow> string list" where
  "abs_segs p = filter (\<lambda>s. s \<noteq> []) (segments p)"

definition path_relative :: "string \<Rightarrow> string \<Rightarrow> string" where
  "path_relative from target = (case drop_common (abs_segs from) (abs_segs target) of
     (xs, ys) \<Rightarrow> join ''/'' (replicate (length xs) ''..'' @ ys))"

section \<open>Lemmas\<close>

definition clean_seg :: "string \<Rightarrow> bool" where
  "clean_seg s \<longleftrightarrow> s \<noteq> [] \<and> s \<noteq> ''.'' \<and> CHR ''/'' \<notin> set s"

lemma foldl_invariant:
  "P a \<Longrightarrow> (\<And>a x. P a \<Longrightarrow> x \<in> set xs \<Longrightarrow> P (f a x)) \<Longrightarrow> P (foldl f a xs)"
  by (induction xs arbitrary: a) auto

lemma push_seg_set:
  "x \<in> set (push_seg up acc s) \<Longrightarrow>
     x \<in> set acc \<or> (x = s \<and> s \<noteq> [] \<and> s \<noteq> ''.'' \<and> (s = ''..'' \<longrightarrow> up))"
  by (cases acc) (auto simp: push_seg_def split: if_splits)

lemma norm_segs_set:
  "x \<in> set (norm_segs up ss) \<Longrightarrow> x \<in> set ss \<and> x \<noteq> [] \<and> x \<noteq> ''.'' \<and> (x = ''..'' \<longrightarrow> up)"
proof -
  have "\<forall>x \<in> set (foldl (push_seg up) [] ss).
      x \<in> set ss \<and> x \<noteq> [] \<and> x \<noteq> ''.'' \<and> (x = ''..'' \<longrightarrow> up)"
    by (rule foldl_invariant [where
          P = "\<lambda>acc. \<forall>x \<in> set acc. x \<in> set ss \<and> x \<noteq> [] \<and> x \<noteq> ''.'' \<and> (x = ''..'' \<longrightarrow> up)"])
      (blast dest: push_seg_set | simp)+
  then show "x \<in> set (norm_segs up ss) \<Longrightarrow>
      x \<in> set ss \<and> x \<noteq> [] \<and> x \<noteq> ''.'' \<and> (x = ''..'' \<longrightarrow> up)"
    unfolding norm_segs_def set_rev by blast
qed

lemma norm_segs_clean:
  "\<forall>s \<in> set ss. CHR ''/'' \<notin> set s \<Longrightarrow> \<forall>s \<in> set (norm_segs up ss). clean_seg s"
  by (auto simp: clean_seg_def dest: norm_segs_set)

text \<open>A normal path has its \<open>..\<close> segments in front, and none below an absolute path.\<close>

lemma norm_segs_dots: "\<exists>n xs. norm_segs up ss = replicate n ''..'' @ xs \<and> ''..'' \<notin> set xs"
proof -
  have "\<exists>n xs. foldl (push_seg up) [] ss = xs @ replicate n ''..'' \<and> ''..'' \<notin> set xs"
  proof (rule foldl_invariant [where P = "\<lambda>acc. \<exists>n xs. acc = xs @ replicate n ''..'' \<and> ''..'' \<notin> set xs"])
    fix acc s
    assume "\<exists>n xs. acc = xs @ replicate n ''..'' \<and> ''..'' \<notin> set xs"
    then obtain n xs where acc: "acc = xs @ replicate n ''..''" "''..'' \<notin> set xs" by blast
    show "\<exists>n xs. push_seg up acc s = xs @ replicate n ''..'' \<and> ''..'' \<notin> set xs"
    proof (cases "s = [] \<or> s = ''.''")
      case True
      then show ?thesis using acc by (auto simp: push_seg_def)
    next
      case ne: False
      show ?thesis
      proof (cases "s = ''..''")
        case True
        show ?thesis
        proof (cases xs)
          case Nil
          then have "push_seg up acc s = [] @ replicate (if up then Suc n else n) ''..''"
            using acc True by (cases n) (auto simp: push_seg_def)
          then show ?thesis by (metis empty_iff empty_set)
        next
          case (Cons y ys)
          then have "push_seg up acc s = ys @ replicate n ''..''" "''..'' \<notin> set ys"
            using acc True by (auto simp: push_seg_def)
          then show ?thesis by blast
        qed
      next
        case False
        then have "push_seg up acc s = (s # xs) @ replicate n ''..''" "''..'' \<notin> set (s # xs)"
          using acc ne by (auto simp: push_seg_def)
        then show ?thesis by blast
      qed
    qed
  qed simp
  then obtain n xs where "foldl (push_seg up) [] ss = xs @ replicate n ''..''" "''..'' \<notin> set xs" by blast
  then have "norm_segs up ss = replicate n ''..'' @ rev xs" "''..'' \<notin> set (rev xs)"
    by (simp_all add: norm_segs_def)
  then show ?thesis by blast
qed

lemma norm_segs_absolute: "''..'' \<notin> set (norm_segs False ss)"
  by (auto dest: norm_segs_set)

lemma norm_segs_append:
  assumes "''..'' \<notin> set tt"
  shows "norm_segs up (ss @ tt) = norm_segs up ss @ filter (\<lambda>s. s \<noteq> [] \<and> s \<noteq> ''.'') tt"
proof -
  have "foldl (push_seg up) acc tt = rev (filter (\<lambda>s. s \<noteq> [] \<and> s \<noteq> ''.'') tt) @ acc" for acc
    using assms by (induction tt arbitrary: acc) (auto simp: push_seg_def)
  then show ?thesis by (simp add: norm_segs_def)
qed

lemma segments_clean: "s \<in> set (segments p) \<Longrightarrow> CHR ''/'' \<notin> set s"
  by (auto simp: segments_def dest: split_on_parts)

lemma segments_append: "segments (p @ ''/'' @ q) = segments p @ segments q"
proof (induction p)
  case (Cons c p)
  obtain w ws where "split_on CHR ''/'' p = w # ws" by (cases "split_on CHR ''/'' p") auto
  with Cons show ?case by (auto simp: segments_def)
qed (simp add: segments_def)

lemma segments_join: "ws \<noteq> [] \<Longrightarrow> \<forall>w \<in> set ws. CHR ''/'' \<notin> set w \<Longrightarrow> segments (join ''/'' ws) = ws"
  by (simp add: segments_def split_on_join)

text \<open>
  Below a directory: a path that is normal and neither \<open>..\<close> nor starts with \<open>../\<close> has no \<open>..\<close>
  segment at all, so joining it to a directory only appends segments.
\<close>

lemma split_on_Cons_char: "split_on c (c # s) = [] # split_on c s"
  by simp

lemma segments_trail: "set (segments (p @ ''/'')) = insert [] (set (segments p))"
  using segments_append [of p "[]"] by (auto simp: segments_def)

lemma set_segments_normal:
  assumes "\<forall>s \<in> set r. CHR ''/'' \<notin> set s" and "r \<noteq> []"
  shows "set (segments ((if ab then ''/'' else []) @ join ''/'' r @ (if tr then ''/'' else [])))
    \<subseteq> insert [] (set r)"
proof -
  have "set (segments (join ''/'' r @ (if tr then ''/'' else []))) \<subseteq> insert [] (set r)"
    using segments_trail [of "join ''/'' r"] segments_join [OF assms(2,1)] by auto
  then show ?thesis by (auto simp: segments_def)
qed

lemma normalize_no_dots:
  assumes "path_normalize p \<noteq> ''..''" and "\<not> starts_with (path_normalize p) ''../''"
  shows "''..'' \<notin> set (segments (path_normalize p))"
proof -
  define r where "r = norm_segs (\<not> is_absolute p) (segments p)"
  have norm_eq: "path_normalize p = (if p = [] then ''.'' else if join ''/'' r = [] then
      (if is_absolute p then ''/'' else if ends_with p ''/'' then ''./'' else ''.'')
      else (if is_absolute p then ''/'' else []) @ join ''/'' r @ (if ends_with p ''/'' then ''/'' else []))"
    unfolding path_normalize_def r_def Let_def by (rule refl)
  have clean: "\<forall>s \<in> set r. clean_seg s"
    unfolding r_def by (rule norm_segs_clean) (auto dest: segments_clean)
  have nodots: "''..'' \<notin> set r"
  proof
    assume d: "''..'' \<in> set r"
    then have rel: "\<not> is_absolute p" using norm_segs_absolute [of "segments p"] by (auto simp: r_def)
    obtain n xs where r: "r = replicate n ''..'' @ xs" "''..'' \<notin> set xs"
      using norm_segs_dots r_def by blast
    with d obtain m where n: "n = Suc m" by (cases n) auto
    have "p \<noteq> []" using d by (auto simp: r_def segments_def norm_segs_def push_seg_def)
    moreover have j: "join ''/'' r \<noteq> []"
      using r n by (cases "replicate m ''..'' @ xs") simp_all
    ultimately have "path_normalize p = join ''/'' r @ (if ends_with p ''/'' then ''/'' else [])"
      using rel by (simp add: norm_eq)
    moreover have "join ''/'' r = ''..'' \<or> starts_with (join ''/'' r) ''../''"
      using r n by (cases "replicate m ''..'' @ xs") (simp_all add: prefix_def)
    ultimately show False using assms by (auto split: if_splits simp: prefix_def)
  qed
  show ?thesis
  proof (cases "p = [] \<or> join ''/'' r = []")
    case True
    then show ?thesis by (auto simp: norm_eq segments_def)
  next
    case False
    then have "r \<noteq> []" by auto
    with False show ?thesis
      using set_segments_normal [of r "is_absolute p" "ends_with p ''/''"] clean nodots
      by (auto simp: norm_eq clean_seg_def)
  qed
qed

text \<open>The segments of a joined path, and \<open>inside base p\<close>: those of \<open>base\<close> come first.\<close>

definition inside :: "string \<Rightarrow> string \<Rightarrow> bool" where
  "inside base p \<longleftrightarrow> prefix (norm_segs False (segments base)) (norm_segs False (segments p))"

lemma inside_append:
  assumes "''..'' \<notin> set (segments q)"
  shows "inside base (base @ ''/'' @ q)"
  using norm_segs_append [OF assms] unfolding inside_def segments_append by simp

text \<open>Normalizing an absolute path keeps its segments; clean relative segments are normal already.\<close>

lemma norm_segs_clean_id:
  "\<forall>s \<in> set ss. s \<noteq> [] \<and> s \<noteq> ''.'' \<and> s \<noteq> ''..'' \<Longrightarrow> norm_segs up ss = ss"
  using norm_segs_append [of ss up "[]"] by (auto simp: norm_segs_def filter_id_conv)

lemma norm_segs_skip: "norm_segs up ([] # ss) = norm_segs up ss"
  by (simp add: norm_segs_def push_seg_def)

lemma norm_segs_snoc_empty: "norm_segs up (ss @ [[]]) = norm_segs up ss"
  by (simp add: norm_segs_def push_seg_def)

lemma segments_snoc: "segments (p @ ''/'') = segments p @ [[]]"
  using segments_append [of p "[]"] by (simp add: segments_def)

lemma segments_slash: "segments (CHR ''/'' # p) = [] # segments p"
  by (simp add: segments_def)

lemma join_nonempty: "ws \<noteq> [] \<Longrightarrow> \<forall>w \<in> set ws. w \<noteq> [] \<Longrightarrow> join sep ws \<noteq> []"
proof (cases ws)
  case (Cons v vs)
  assume "\<forall>w \<in> set ws. w \<noteq> []"
  with Cons show ?thesis by (cases vs) auto
qed simp

lemma norm_segs_normalize:
  assumes "is_absolute p"
  shows "norm_segs False (segments (path_normalize p)) = norm_segs False (segments p)"
proof -
  define r where "r = norm_segs False (segments p)"
  have p: "p \<noteq> []" using assms by (auto simp: is_absolute_def)
  have clean: "\<forall>s \<in> set r. clean_seg s"
    unfolding r_def by (rule norm_segs_clean) (auto dest: segments_clean)
  moreover have "''..'' \<notin> set r" by (simp add: r_def norm_segs_absolute)
  ultimately have r: "norm_segs False r = r"
    by (intro norm_segs_clean_id) (auto simp: clean_seg_def)
  show ?thesis
  proof (cases "r = []")
    case True
    then have "path_normalize p = ''/''" using assms p by (simp add: path_normalize_def r_def)
    then show ?thesis using True by (simp add: r_def [symmetric]) (simp add: segments_def norm_segs_def push_seg_def)
  next
    case False
    then have j: "segments (join ''/'' r) = r" using clean by (intro segments_join) (auto simp: clean_seg_def)
    have "join ''/'' r \<noteq> []" using False clean by (intro join_nonempty) (auto simp: clean_seg_def)
    then have "path_normalize p = ''/'' @ join ''/'' r @ (if ends_with p ''/'' then ''/'' else [])"
      using assms p by (simp add: path_normalize_def r_def [symmetric] Let_def)
    then show ?thesis
      using j r by (simp add: segments_slash segments_snoc norm_segs_skip norm_segs_snoc_empty r_def [symmetric])
  qed
qed

lemma path_join_two: "p \<noteq> [] \<Longrightarrow> q \<noteq> [] \<Longrightarrow> path_join [p, q] = path_normalize (p @ ''/'' @ q)"
  by (simp add: path_join_def)

lemma inside_join:
  assumes "is_absolute base" and "q \<noteq> []" and "''..'' \<notin> set (segments q)"
  shows "inside base (path_join [base, q])"
proof -
  have "base \<noteq> []" "is_absolute (base @ ''/'' @ q)" using assms(1) by (auto simp: is_absolute_def prefix_def)
  then show ?thesis
    using inside_append [OF assms(3), of base] assms(2)
    by (simp add: path_join_two inside_def norm_segs_normalize)
qed

lemma join_snoc: "ws \<noteq> [] \<Longrightarrow> join sep (ws @ [w]) = join sep ws @ sep @ w"
proof (induction ws)
  case (Cons v vs)
  then show ?case by (cases vs) simp_all
qed simp

lemma path_join_clean:
  assumes "ws \<noteq> []" and "\<forall>w \<in> set (ws @ [w]). clean_seg w \<and> w \<noteq> ''..''"
  shows "path_join [join ''/'' ws, w] = join ''/'' (ws @ [w])"
proof -
  let ?all = "ws @ [w]"
  have parts: "\<forall>v \<in> set ?all. v \<noteq> []" using assms(2) unfolding clean_seg_def by blast
  then have ne: "join ''/'' ws \<noteq> []" "w \<noteq> []" using assms(1) by (simp_all add: join_nonempty)
  have sg: "segments (join ''/'' ?all) = ?all"
    using assms by (intro segments_join) (auto simp: clean_seg_def)
  have hd: "\<not> is_absolute (join ''/'' ?all)"
  proof
    assume "is_absolute (join ''/'' ?all)"
    then obtain t where "join ''/'' ?all = CHR ''/'' # t" by (auto simp: is_absolute_def prefix_def)
    then have "[] \<in> set ?all" using sg by (metis segments_slash list.set_intros(1))
    then show False using assms(2) by (auto simp: clean_seg_def)
  qed
  have tl: "\<not> ends_with (join ''/'' ?all) ''/''"
  proof
    assume "ends_with (join ''/'' ?all) ''/''"
    then obtain t where "join ''/'' ?all = t @ ''/''" by (auto simp: suffix_def)
    then have "[] \<in> set ?all" using sg segments_snoc [of t] by (metis in_set_conv_decomp)
    then show False using assms(2) by (auto simp: clean_seg_def)
  qed
  have norm: "norm_segs True ?all = ?all"
    using assms(2) by (intro norm_segs_clean_id) (auto simp: clean_seg_def)
  have "join ''/'' ?all \<noteq> []" using parts by (intro join_nonempty) simp_all
  then have "path_normalize (join ''/'' ?all) = join ''/'' ?all"
    using hd tl sg norm by (simp add: path_normalize_def Let_def)
  then show ?thesis
    using ne assms(1) by (simp add: path_join_two join_snoc)
qed

section \<open>Absolute paths and paths below them\<close>

definition abs_path :: "string list \<Rightarrow> string" where
  "abs_path ds = ''/'' @ join ''/'' ds"

definition clean_segs :: "string list \<Rightarrow> bool" where
  "clean_segs ds \<longleftrightarrow> ds \<noteq> [] \<and> (\<forall>d \<in> set ds. clean_seg d \<and> d \<noteq> ''..'')"

lemma clean_segs_append: "clean_segs ds \<Longrightarrow> clean_segs xs \<Longrightarrow> clean_segs (ds @ xs)"
  by (auto simp: clean_segs_def)

lemma segments_clean_join: "clean_segs ds \<Longrightarrow> segments (join ''/'' ds) = ds"
  by (intro segments_join) (auto simp: clean_segs_def clean_seg_def)

lemma norm_clean_segs: "clean_segs ds \<Longrightarrow> norm_segs up ds = ds"
  by (intro norm_segs_clean_id) (auto simp: clean_segs_def clean_seg_def)

lemma join_clean_ends:
  assumes "clean_segs ds"
  shows "join ''/'' ds \<noteq> []" and "\<not> is_absolute (join ''/'' ds)" and "\<not> ends_with (join ''/'' ds) ''/''"
proof -
  have parts: "[] \<notin> set ds" using assms by (auto simp: clean_segs_def clean_seg_def)
  show "join ''/'' ds \<noteq> []" using assms parts by (intro join_nonempty) (auto simp: clean_segs_def)
  show "\<not> is_absolute (join ''/'' ds)"
  proof
    assume "is_absolute (join ''/'' ds)"
    then obtain t where "join ''/'' ds = CHR ''/'' # t" by (auto simp: is_absolute_def prefix_def)
    then have "[] \<in> set ds" using segments_clean_join [OF assms] by (metis segments_slash list.set_intros(1))
    with parts show False by simp
  qed
  show "\<not> ends_with (join ''/'' ds) ''/''"
  proof
    assume "ends_with (join ''/'' ds) ''/''"
    then obtain t where "join ''/'' ds = t @ ''/''" by (auto simp: suffix_def)
    then have "[] \<in> set ds" using segments_clean_join [OF assms] segments_snoc [of t] by (metis in_set_conv_decomp)
    with parts show False by simp
  qed
qed

lemma segments_abs_path: "clean_segs ds \<Longrightarrow> segments (abs_path ds) = [] # ds"
  by (simp add: abs_path_def segments_slash segments_clean_join)

lemma join_append: "ws \<noteq> [] \<Longrightarrow> vs \<noteq> [] \<Longrightarrow> join sep (ws @ vs) = join sep ws @ sep @ join sep vs"
proof (induction sep ws rule: join.induct)
  case (2 sep w)
  then show ?case by (cases vs) simp_all
qed simp_all

lemma abs_path_append: "clean_segs ds \<Longrightarrow> clean_segs xs \<Longrightarrow> abs_path (ds @ xs) = abs_path ds @ ''/'' @ join ''/'' xs"
  by (simp add: abs_path_def join_append clean_segs_def)

lemma is_absolute_abs_path [simp]: "is_absolute (abs_path ds)"
  by (simp add: is_absolute_def abs_path_def)

lemma abs_path_nonempty [simp]: "abs_path ds \<noteq> []"
  by (simp add: abs_path_def)

lemma resolve_abs: "clean_segs ds \<Longrightarrow> path_resolve cwd [abs_path ds] = abs_path ds"
  by (simp add: path_resolve_def segments_abs_path norm_segs_skip norm_clean_segs Let_def)
    (simp add: abs_path_def)

lemma resolve_below:
  assumes "clean_segs ds" and "clean_segs xs"
  shows "path_resolve cwd [abs_path ds, join ''/'' xs] = abs_path (ds @ xs)"
  using join_clean_ends [OF assms(2)] segments_append [of "abs_path ds" "join ''/'' xs"] clean_segs_append [OF assms]
  by (simp add: path_resolve_def segments_abs_path assms segments_clean_join norm_segs_skip norm_clean_segs Let_def)
    (simp add: abs_path_def)

lemma resolve_dot:
  assumes "clean_segs ds"
  shows "path_resolve (abs_path ds) [''.''] = abs_path ds"
proof -
  have "segments (abs_path ds @ ''/'' @ ''.'') = ([] # ds) @ [''.'']"
    using segments_append [of "abs_path ds" "''.''"] by (simp add: segments_abs_path assms) (simp add: segments_def)
  moreover have "norm_segs False (([] # ds) @ [''.'']) = ds"
    using norm_segs_append [of "[''.'']" False "[] # ds"] by (simp add: norm_segs_skip norm_clean_segs assms)
  ultimately show ?thesis by (simp add: path_resolve_def Let_def is_absolute_def) (simp add: abs_path_def)
qed

lemma resolve_below_dot:
  assumes "clean_segs ds" and "clean_segs xs"
  shows "path_resolve (abs_path ds) [''.'', join ''/'' xs] = abs_path (ds @ xs)"
proof -
  let ?t = "(abs_path ds @ ''/'' @ ''.'') @ ''/'' @ join ''/'' xs"
  have "segments ?t = ([] # ds @ [''.'']) @ xs"
    using segments_append [of "abs_path ds @ ''/'' @ ''.''" "join ''/'' xs"] segments_append [of "abs_path ds" "''.''"]
    by (simp add: segments_abs_path assms segments_clean_join) (simp add: segments_def)
  moreover have "norm_segs False (([] # ds @ [''.'']) @ xs) = ds @ xs"
  proof -
    have up: "''..'' \<notin> set (''.'' # xs)" using assms(2) by (auto simp: clean_segs_def)
    have "filter (\<lambda>s. s \<noteq> [] \<and> s \<noteq> ''.'') (''.'' # xs) = xs"
      using assms(2) by (auto simp: clean_segs_def clean_seg_def filter_id_conv)
    with norm_segs_append [OF up, of False "[] # ds"] show ?thesis by (simp add: norm_segs_skip norm_clean_segs assms)
  qed
  ultimately show ?thesis using join_clean_ends [OF assms(2)]
    by (simp add: path_resolve_def Let_def) (simp add: abs_path_def is_absolute_def)
qed

lemma resolve_own:
  assumes "clean_segs ds" and "clean_segs xs"
  shows "path_resolve (abs_path ds) [join ''/'' xs] = abs_path (ds @ xs)"
  using join_clean_ends [OF assms(2)] segments_append [of "abs_path ds" "join ''/'' xs"] clean_segs_append [OF assms]
  by (simp add: path_resolve_def segments_abs_path assms segments_clean_join norm_segs_skip norm_clean_segs Let_def)
    (simp add: abs_path_def)

lemma join_below:
  assumes "clean_segs ds" and "clean_segs xs"
  shows "path_join [abs_path ds, join ''/'' xs] = abs_path (ds @ xs)"
proof -
  let ?p = "abs_path (ds @ xs)"
  have all: "clean_segs (ds @ xs)" using clean_segs_append [OF assms] .
  have "path_join [abs_path ds, join ''/'' xs] = path_normalize ?p"
    using join_clean_ends [OF assms(2)] by (simp add: path_join_two abs_path_append assms)
  moreover have "\<not> ends_with ?p ''/''"
  proof -
    have "join ''/'' (ds @ xs) \<noteq> []" "\<not> ends_with (join ''/'' (ds @ xs)) ''/''" using join_clean_ends [OF all] by simp_all
    then show ?thesis by (auto simp: abs_path_def suffix_def Cons_eq_append_conv)
  qed
  ultimately show ?thesis using join_clean_ends(1) [OF all]
    by (simp add: path_normalize_def segments_abs_path [OF all] norm_segs_skip norm_clean_segs [OF all] Let_def)
      (simp add: abs_path_def)
qed

lemma drop_common_prefix: "drop_common ds (ds @ xs) = ([], xs)"
  by (induction ds) simp_all

lemma relative_below:
  assumes "clean_segs ds" and "clean_segs xs"
  shows "path_relative (abs_path ds) (abs_path (ds @ xs)) = join ''/'' xs"
proof -
  have "abs_segs (abs_path es) = es" if "clean_segs es" for es
    using that by (auto simp: abs_segs_def segments_abs_path clean_segs_def clean_seg_def filter_id_conv)
  from this [OF assms(1)] this [OF clean_segs_append [OF assms]] show ?thesis
    by (simp add: path_relative_def drop_common_prefix)
qed

end
