(* ===== verification/PRGate.thy ===== *)
theory PRGate
  imports ServiceNaming NodePath
begin

text \<open>
  The gate a service pull request passes (src/services/scripts/service-pr-gate.mjs): reading the
  options, sorting the changed files into service directories, core and infrastructure, the errors
  that follow, the commands of the gate, and the run. The environment variable, git and the child
  processes, and whether a service.json exists, are arguments.
\<close>

section \<open>Options\<close>

record gate_options =
  gate_base :: string
  gate_head :: string
  dryRun :: bool
  skipSmoke :: bool
  skipInstall :: bool
  changedFiles :: "string list option"

definition split_files :: "string \<Rightarrow> string list" where
  "split_files s = filter (\<lambda>w. w \<noteq> []) (split_on CHR '','' s)"

text \<open>\<open>requiredValue(argv, ++index, flag)\<close>: the next argument and what is left after it.\<close>

definition requiredValue :: "string \<Rightarrow> string list \<Rightarrow> string + (string \<times> string list)" where
  "requiredValue flag rest = (case rest of
     v # r \<Rightarrow> if v = [] then Inl (flag @ '' requires a value'') else Inr (v, r)
   | [] \<Rightarrow> Inl (flag @ '' requires a value''))"

lemma requiredValue_shorter [termination_simp]:
  "Inr (v, r) = requiredValue flag rest \<Longrightarrow> length r < length rest"
  "requiredValue flag rest = Inr (v, r) \<Longrightarrow> length r < length rest"
  by (auto simp: requiredValue_def split: list.splits if_splits)

function gate_args :: "gate_options \<Rightarrow> string list \<Rightarrow> string + gate_options" where
  "gate_args opts [] = Inr opts"
| "gate_args opts (arg # rest) =
     (if arg = ''--base'' then
        (case requiredValue arg rest of Inl e \<Rightarrow> Inl e | Inr (v, r) \<Rightarrow> gate_args (opts\<lparr>gate_base := v\<rparr>) r)
      else if starts_with arg ''--base='' then gate_args (opts\<lparr>gate_base := drop 7 arg\<rparr>) rest
      else if arg = ''--head'' then
        (case requiredValue arg rest of Inl e \<Rightarrow> Inl e | Inr (v, r) \<Rightarrow> gate_args (opts\<lparr>gate_head := v\<rparr>) r)
      else if starts_with arg ''--head='' then gate_args (opts\<lparr>gate_head := drop 7 arg\<rparr>) rest
      else if arg = ''--changed-files'' then
        (case requiredValue arg rest of Inl e \<Rightarrow> Inl e
         | Inr (v, r) \<Rightarrow> gate_args (opts\<lparr>changedFiles := Some (split_files v)\<rparr>) r)
      else if starts_with arg ''--changed-files='' then
        gate_args (opts\<lparr>changedFiles := Some (split_files (drop 16 arg))\<rparr>) rest
      else if arg = ''--dry-run'' then gate_args (opts\<lparr>dryRun := True\<rparr>) rest
      else if arg = ''--skip-smoke'' then gate_args (opts\<lparr>skipSmoke := True\<rparr>) rest
      else if arg = ''--skip-install'' then gate_args (opts\<lparr>skipInstall := True\<rparr>) rest
      else Inl (''unknown argument: '' @ arg))"
  by pat_completeness auto
termination
  by (relation "measure (\<lambda>(opts, args). length args)")
    (auto dest: requiredValue_shorter)

definition gate_defaults :: "string option \<Rightarrow> gate_options" where
  "gate_defaults base_ref = \<lparr>
     gate_base = (case base_ref of Some r \<Rightarrow> if r \<noteq> [] then ''origin/'' @ r else ''origin/main''
                  | None \<Rightarrow> ''origin/main''),
     gate_head = ''HEAD'', dryRun = False, skipSmoke = False, skipInstall = False,
     changedFiles = None\<rparr>"

definition gate_parseArgs :: "string option \<Rightarrow> string list \<Rightarrow> string + gate_options" where
  "gate_parseArgs base_ref argv = gate_args (gate_defaults base_ref) argv"

section \<open>Changed files\<close>

definition SHARED_SERVICE_FILES :: "string list" where
  "SHARED_SERVICE_FILES = [''services/package.json'', ''services/bin/octobus-tentacles.js'']"

definition SHARED_WRAPPER_RE :: rx where
  "SHARED_WRAPPER_RE = seqs [lit ''services/bin/'', plus1 (Cls (\<lambda>c. c \<noteq> CHR ''/'')), lit ''.js'']"

text \<open>The pattern ignores case, so it is tested on the text in lower case.\<close>

definition FORBIDDEN_FILE_RE :: rx where
  "FORBIDDEN_FILE_RE =
     Alt (seqs [opt (Seq anything (lit ''/'')), alts [lit ''node_modules'', lit ''coverage'', lit ''.env''],
                opt (Seq (lit ''/'') anything)])
         (seqs [anything, lit ''.'', alts [lit ''tgz'', lit ''tar.gz'', lit ''zip'', lit ''log'', lit ''png'',
                lit ''jpg'', lit ''jpeg'', lit ''gif'', lit ''webp'']])"

definition forbidden_file :: "string \<Rightarrow> bool" where
  "forbidden_file f \<longleftrightarrow> rx_match FORBIDDEN_FILE_RE (to_lower f)"

definition CORE_PREFIXES :: "string list" where
  "CORE_PREFIXES = [''cmd/'', ''internal/'', ''sdk/'', ''tests/'', ''examples/'', ''npm/'', ''docker/'']"

record change_state =
  forbiddenFiles :: "string list"
  cs_serviceDirs :: "string list"
  touchesCore :: bool
  touchesInfra :: bool

definition add_once :: "'a \<Rightarrow> 'a list \<Rightarrow> 'a list" where
  "add_once x xs = (if x \<in> set xs then xs else xs @ [x])"

definition slashes :: "string \<Rightarrow> string" where
  "slashes f = replace_char CHR 0x5C ''/'' f"

definition first_segment :: "string \<Rightarrow> string" where
  "first_segment normalized = hd (split_on CHR ''/'' (drop (length ''services/'') normalized))"

text \<open>One turn of the loop over the files.\<close>

definition classify_file :: "change_state \<Rightarrow> string \<Rightarrow> change_state" where
  "classify_file st file = (
     let normalized = slashes file;
         st1 = (if forbidden_file normalized
           then st\<lparr>forbiddenFiles := forbiddenFiles st @ [normalized]\<rparr> else st);
         st2 = (if list_ex (\<lambda>p. starts_with normalized p) CORE_PREFIXES
           then st1\<lparr>touchesCore := True\<rparr> else st1)
     in if \<not> starts_with normalized ''services/'' then st2
        else if rx_match SERVICE_DIR_RE (first_segment normalized)
          then st2\<lparr>cs_serviceDirs := add_once (first_segment normalized) (cs_serviceDirs st2)\<rparr>
        else if normalized \<in> set SHARED_SERVICE_FILES \<or> rx_match SHARED_WRAPPER_RE normalized then st2
        else st2\<lparr>touchesInfra := True\<rparr>)"

definition change_init :: change_state where
  "change_init = \<lparr>forbiddenFiles = [], cs_serviceDirs = [], touchesCore = False, touchesInfra = False\<rparr>"

record classification =
  cl_errors :: "string list"
  cl_serviceDirs :: "string list"
  cl_touchesCore :: bool
  cl_touchesInfra :: bool

definition change_errors :: "(string \<Rightarrow> bool) \<Rightarrow> change_state \<Rightarrow> string list" where
  "change_errors has_manifest st = (
     let dirs = cs_serviceDirs st in
     (if length dirs > 1
      then [''service PR must change exactly one service root; found: '' @ join '', '' (sort dirs)] else []) @
     (if dirs \<noteq> [] then map (\<lambda>f. ''forbidden generated, binary, evidence, or secret-like file: '' @ f)
        (forbiddenFiles st) else []) @
     (if dirs \<noteq> [] \<and> touchesCore st
      then [''service PR must not mix a service implementation with runtime, SDK, examples, tests, npm, or Docker changes''] else []) @
     (if dirs \<noteq> [] \<and> touchesInfra st
      then [''service PR contains non-whitelisted shared services infrastructure changes; split them into a prerequisite PR''] else []) @
     map (\<lambda>d. ''changed service '' @ d @ '' is deleted or has no service.json; removals require an infrastructure review'')
       (filter (\<lambda>d. \<not> has_manifest d) dirs))"

definition classifyChanges :: "(string \<Rightarrow> bool) \<Rightarrow> string list \<Rightarrow> classification" where
  "classifyChanges has_manifest files = (
     let st = foldl classify_file change_init files
     in \<lparr>cl_errors = change_errors has_manifest st, cl_serviceDirs = sort (cs_serviceDirs st),
         cl_touchesCore = touchesCore st, cl_touchesInfra = touchesInfra st\<rparr>)"

section \<open>The commands\<close>

type_synonym command = "string \<times> string list \<times> string"

definition plannedCommands :: "string list \<Rightarrow> bool \<Rightarrow> bool \<Rightarrow> command list" where
  "plannedCommands serviceDirs skip_smoke skip_install =
     (if \<not> skip_install
      then [(''npm'', [''install'', ''--ignore-scripts'', ''--no-audit'', ''--no-fund''], ''services'')] else []) @
     concat (map (\<lambda>d.
       [(''node'', [''scripts/validate-service-package.mjs'', ''--service-dir'', d], ''services''),
        (''node'', [''scripts/run-tests.mjs'', ''--service-dir'', d, ''--coverage'', ''--coverage-threshold=80''],
           ''services'')]) serviceDirs) @
     [(''npm'', [''run'', ''pack:check''], ''services'')] @
     (if \<not> skip_smoke
      then (''bash'', [''./scripts/build-octobus.sh'', ''bin/octobus''], ''.'') #
        map (\<lambda>d. (''node'', [''scripts/service-package-smoke.mjs'', ''--service-dir'', d, ''--fail-fast''], ''.''))
          serviceDirs
      else [])"

section \<open>The run\<close>

text \<open>A finished child process; \<open>status\<close> is \<open>None\<close> when a signal ended it.\<close>

record spawned =
  status :: "int option"
  out_text :: string
  err_text :: string

definition status_or_1 :: "spawned \<Rightarrow> int" where
  "status_or_1 r = (case status r of Some n \<Rightarrow> n | None \<Rightarrow> 1)"

definition runCapture ::
  "(string \<Rightarrow> string list \<Rightarrow> spawned) \<Rightarrow> string \<Rightarrow> string list \<Rightarrow> string + string" where
  "runCapture spawn cmd args = (let r = spawn cmd args in
     if status_or_1 r \<noteq> 0
     then Inl (cmd @ '' '' @ join '' '' args @ '' failed: '' @ (if err_text r \<noteq> [] then err_text r else out_text r))
     else Inr (out_text r))"

text \<open>\<open>split(/\r?\n/).filter(Boolean)\<close>.\<close>

definition text_lines :: "string \<Rightarrow> string list" where
  "text_lines s = (let ws = split_on CHR ''\<newline>'' s;
       cut = (\<lambda>w. if w \<noteq> [] \<and> last w = CHR 0x0D then butlast w else w)
     in filter (\<lambda>w. w \<noteq> []) (map cut (butlast ws) @ [last ws]))"

definition gitChangedFiles ::
  "(string \<Rightarrow> string list \<Rightarrow> spawned) \<Rightarrow> string \<Rightarrow> string \<Rightarrow> string + string list" where
  "gitChangedFiles spawn base head =
     bindE (runCapture spawn ''git'' [''merge-base'', base, head]) (\<lambda>mb.
     bindE (runCapture spawn ''git''
        [''diff'', ''--name-only'', ''--diff-filter=ACDMRTUXB'', trim mb @ ''...'' @ head]) (\<lambda>t.
     Inr (text_lines t)))"

datatype gate_event = LogErr string | LogOut string | Ran command

text \<open>The commands one after the other; the first that fails ends the run with an error.\<close>

definition command_line :: "command \<Rightarrow> gate_event" where
  "command_line c = (case c of (cmd, args, cwd) \<Rightarrow>
     LogErr (''+ (cd '' @ cwd @ '' && '' @ cmd @ '' '' @ join '' '' args @ '')''))"

definition command_failed :: "command \<Rightarrow> spawned \<Rightarrow> string" where
  "command_failed c r = (case c of (cmd, args, cwd) \<Rightarrow>
     cmd @ '' '' @ join '' '' args @ '' failed with status '' @ int_str (status_or_1 r))"

fun run_commands :: "(command \<Rightarrow> spawned) \<Rightarrow> command list \<Rightarrow> gate_event list \<times> string option" where
  "run_commands child [] = ([], None)"
| "run_commands child (c # cs) =
     (if status_or_1 (child c) \<noteq> 0 then ([command_line c, Ran c], Some (command_failed c (child c)))
      else (case run_commands child cs of (evs, e) \<Rightarrow> (command_line c # Ran c # evs, e)))"

text \<open>
  \<open>main\<close> and the handler around it: the events in order, and the exit code. An error thrown on the
  way is printed and the code is 1.
\<close>

definition at_root :: "string \<Rightarrow> command \<Rightarrow> command" where
  "at_root repoRoot c = (case c of (cmd, args, cwd) \<Rightarrow> (cmd, args, path_resolve ''/'' [repoRoot, cwd]))"

definition print_command :: "command \<Rightarrow> gate_event" where
  "print_command c = (case c of (cmd, args, cwd) \<Rightarrow>
     LogOut (''(cd '' @ cwd @ '' && '' @ cmd @ '' '' @ join '' '' args @ '')''))"

definition gate_run :: "(string \<Rightarrow> string list \<Rightarrow> spawned) \<Rightarrow> (command \<Rightarrow> spawned) \<Rightarrow> (string \<Rightarrow> bool) \<Rightarrow>
    string \<Rightarrow> gate_options \<Rightarrow> string list \<Rightarrow> gate_event list \<times> int" where
  "gate_run git child has_manifest repoRoot opts files = (
     let cl = classifyChanges has_manifest files;
         l1 = LogErr (''service gate changed files: '' @ nat_str (length files))
     in if cl_errors cl \<noteq> [] then (l1 # map (\<lambda>e. LogErr (''error: '' @ e)) (cl_errors cl), 1)
        else if cl_serviceDirs cl = [] then
          ([l1, LogErr ''service gate: no service implementation changed; L2 service checks are not applicable''], 0)
        else (let
            l2 = LogErr (''service gate L2 candidates: '' @ join '', '' (cl_serviceDirs cl));
            commands = plannedCommands (cl_serviceDirs cl) (skipSmoke opts) (skipInstall opts)
          in if dryRun opts then (l1 # l2 # map print_command commands, 0)
             else (case run_commands child (map (at_root repoRoot) commands) of
                 (evs, None) \<Rightarrow> (l1 # l2 # evs @
                   [LogErr ''service gate: L2 automated checks passed (device verification remains a human review item)''], 0)
               | (evs, Some e) \<Rightarrow> (l1 # l2 # evs @ [LogErr (''error: '' @ e)], 1))))"

definition gate_main :: "string option \<Rightarrow> (string \<Rightarrow> string list \<Rightarrow> spawned) \<Rightarrow> (command \<Rightarrow> spawned) \<Rightarrow>
    (string \<Rightarrow> bool) \<Rightarrow> string \<Rightarrow> string list \<Rightarrow> gate_event list \<times> int" where
  "gate_main base_ref git child has_manifest repoRoot argv = (case gate_parseArgs base_ref argv of
     Inl e \<Rightarrow> ([LogErr (''error: '' @ e)], 1)
   | Inr opts \<Rightarrow> (case (case changedFiles opts of Some fs \<Rightarrow> Inr fs
          | None \<Rightarrow> gitChangedFiles git (gate_base opts) (gate_head opts)) of
        Inl e \<Rightarrow> ([LogErr (''error: '' @ e)], 1)
      | Inr files \<Rightarrow> gate_run git child has_manifest repoRoot opts files))"

section \<open>Lemmas\<close>

lemma set_add_once [simp]: "set (add_once x xs) = insert x (set xs)"
  by (auto simp: add_once_def)

lemma distinct_add_once: "distinct xs \<Longrightarrow> distinct (add_once x xs)"
  by (simp add: add_once_def)

lemma sort_Nil_iff [simp]: "sort xs = [] \<longleftrightarrow> xs = []"
  by (metis length_sort length_0_conv)

lemma distinct_singleton: "distinct xs \<Longrightarrow> xs = [d] \<longleftrightarrow> set xs = {d}"
  by (cases xs; cases "tl xs") auto

text \<open>What one file is to the gate, after its separators are made slashes.\<close>

definition in_core :: "string \<Rightarrow> bool" where
  "in_core n \<longleftrightarrow> list_ex (\<lambda>p. starts_with n p) CORE_PREFIXES"

definition in_service :: "string \<Rightarrow> string \<Rightarrow> bool" where
  "in_service d n \<longleftrightarrow> starts_with n ''services/'' \<and> rx_match SERVICE_DIR_RE d \<and> first_segment n = d"

definition in_shared :: "string \<Rightarrow> bool" where
  "in_shared n \<longleftrightarrow> n \<in> set SHARED_SERVICE_FILES \<or> rx_match SHARED_WRAPPER_RE n"

definition in_infra :: "string \<Rightarrow> bool" where
  "in_infra n \<longleftrightarrow> starts_with n ''services/'' \<and> \<not> rx_match SERVICE_DIR_RE (first_segment n) \<and> \<not> in_shared n"

text \<open>The loop, component by component.\<close>

lemma fold_classify:
  "forbiddenFiles (foldl classify_file change_init files) = filter forbidden_file (map slashes files)"
  "touchesCore (foldl classify_file change_init files) \<longleftrightarrow> (\<exists>f \<in> set files. in_core (slashes f))"
  "touchesInfra (foldl classify_file change_init files) \<longleftrightarrow> (\<exists>f \<in> set files. in_infra (slashes f))"
  "set (cs_serviceDirs (foldl classify_file change_init files)) =
     {d. \<exists>f \<in> set files. in_service d (slashes f)}"
  "distinct (cs_serviceDirs (foldl classify_file change_init files))"
proof (induction files rule: rev_induct)
  case (snoc f fs)
  {
    case 1
    show ?case using snoc by (simp add: classify_file_def Let_def)
  next
    case 2
    show ?case using snoc by (auto simp: classify_file_def Let_def in_core_def)
  next
    case 3
    show ?case using snoc by (auto simp: classify_file_def Let_def in_infra_def in_shared_def)
  next
    case 4
    show ?case using snoc by (auto simp: classify_file_def Let_def in_service_def)
  next
    case 5
    show ?case using snoc by (simp add: classify_file_def Let_def distinct_add_once)
  }
qed (simp_all add: change_init_def)

lemma change_errors_Nil:
  "change_errors has st = [] \<longleftrightarrow> length (cs_serviceDirs st) \<le> 1 \<and>
     (cs_serviceDirs st \<noteq> [] \<longrightarrow> forbiddenFiles st = [] \<and> \<not> touchesCore st \<and> \<not> touchesInfra st) \<and>
     list_all has (cs_serviceDirs st)"
  by (auto simp: change_errors_def Let_def filter_empty_conv list_all_iff)

text \<open>The commands that ran, and the first failure.\<close>

definition ran :: "gate_event list \<Rightarrow> command list" where
  "ran evs = concat (map (\<lambda>e. case e of Ran c \<Rightarrow> [c] | _ \<Rightarrow> []) evs)"

lemma ran_simps [simp]:
  "ran [] = []" "ran (LogErr t # evs) = ran evs" "ran (LogOut t # evs) = ran evs"
  "ran (Ran c # evs) = c # ran evs" "ran (evs @ fs) = ran evs @ ran fs"
  by (simp_all add: ran_def)

lemma ran_line [simp]: "ran (command_line c # evs) = ran evs"
  by (simp add: command_line_def split: prod.split)

lemma ran_print [simp]: "ran (map print_command cs) = []"
  by (induction cs) (auto simp: print_command_def split: prod.split)

lemma ran_errors [simp]: "ran (map (\<lambda>e. LogErr (f e)) es) = []"
  by (induction es) simp_all

lemma run_commands_ok:
  "run_commands child cs = (evs, None) \<Longrightarrow> ran evs = cs \<and> (\<forall>c \<in> set cs. status_or_1 (child c) = 0)"
  by (induction cs arbitrary: evs) (auto split: prod.splits if_splits)

lemma run_commands_fail:
  "run_commands child cs = (evs, Some e) \<Longrightarrow>
     \<exists>pre c. ran evs = pre @ [c] \<and> prefix (pre @ [c]) cs \<and> status_or_1 (child c) \<noteq> 0 \<and>
       (\<forall>c \<in> set pre. status_or_1 (child c) = 0)"
proof (induction cs arbitrary: evs)
  case (Cons c cs)
  show ?case
  proof (cases "status_or_1 (child c) = 0")
    case True
    with Cons.prems obtain evs' where evs: "run_commands child cs = (evs', Some e)" "ran evs = c # ran evs'"
      by (auto split: prod.splits)
    obtain pre d where "ran evs' = pre @ [d]" "prefix (pre @ [d]) cs" "status_or_1 (child d) \<noteq> 0"
      "\<forall>c \<in> set pre. status_or_1 (child c) = 0"
      using Cons.IH [OF evs(1)] by blast
    with evs(2) True show ?thesis by (intro exI [of _ "c # pre"] exI [of _ d]) simp
  next
    case False
    with Cons.prems have "ran evs = [c]" by (auto split: prod.splits)
    with False show ?thesis by (intro exI [of _ "[]"] exI [of _ c]) (simp add: prefix_def)
  qed
qed simp

section \<open>Properties\<close>

text \<open>C8: The gate's verdict on the changed files: a change set counts as a clean service change
exactly when its files lie in one service directory that still has its manifest, besides the
whitelisted shared files and files outside both the core and the services tree, and none of its
files is a forbidden artifact.\<close>

theorem classify_verdict:
  "cl_errors (classifyChanges has files) = [] \<and> cl_serviceDirs (classifyChanges has files) = [d] \<longleftrightarrow>
     has d \<and> (\<exists>f \<in> set files. in_service d (slashes f)) \<and>
     (\<forall>f \<in> set files. \<not> forbidden_file (slashes f) \<and> \<not> in_core (slashes f) \<and> \<not> in_infra (slashes f) \<and>
        (\<forall>d'. in_service d' (slashes f) \<longrightarrow> d' = d))"
proof -
  define st where "st = foldl classify_file change_init files"
  note st = fold_classify [of files, folded st_def]
  have one: "cs_serviceDirs st = [d] \<longleftrightarrow> set (cs_serviceDirs st) = {d}"
    using st(5) by (rule distinct_singleton)
  have "cl_errors (classifyChanges has files) = [] \<and> cl_serviceDirs (classifyChanges has files) = [d] \<longleftrightarrow>
     change_errors has st = [] \<and> cs_serviceDirs st = [d]"
  proof -
    have "sort (cs_serviceDirs st) = [d] \<longleftrightarrow> cs_serviceDirs st = [d]"
      using st(5) by (simp add: distinct_singleton)
    then show ?thesis by (simp add: classifyChanges_def st_def [symmetric] Let_def)
  qed
  also have "\<dots> \<longleftrightarrow> set (cs_serviceDirs st) = {d} \<and> has d \<and> forbiddenFiles st = [] \<and>
      \<not> touchesCore st \<and> \<not> touchesInfra st"
    by (auto simp: change_errors_Nil one [symmetric])
  also have "\<dots> \<longleftrightarrow> has d \<and> (\<exists>f \<in> set files. in_service d (slashes f)) \<and>
     (\<forall>f \<in> set files. \<not> forbidden_file (slashes f) \<and> \<not> in_core (slashes f) \<and> \<not> in_infra (slashes f) \<and>
        (\<forall>d'. in_service d' (slashes f) \<longrightarrow> d' = d))"
    by (auto simp: st filter_empty_conv)
  finally show ?thesis .
qed

theorem classify_verdict_witness:
  "cl_errors (classifyChanges (\<lambda>d. True) [''services/a__b/c'', ''doc'']) = []"
proof -
  let ?fs = "[''services/a__b/c'', ''doc'']"
  have s: "slashes ''services/a__b/c'' = ''services/a__b/c''"
    "slashes ''doc'' = ''doc''"
    by (simp_all add: slashes_def replace_char_def)
  have d: "first_segment ''services/a__b/c'' = ''a__b''"
    by (simp add: first_segment_def)
  have m: "rx_match SERVICE_DIR_RE ''a__b''"
    by (simp add: SERVICE_DIR_RE_def lit_char_def lower_alnum_def is_lower_def is_digit_def code_of_def)
  have nf: "\<not> forbidden_file ''services/a__b/c''" "\<not> forbidden_file ''doc''"
    by (simp_all add: forbidden_file_def FORBIDDEN_FILE_RE_def to_lower_def lower_char_def code_of_def
        anything_def lit_char_def opt_def)
  have nc: "\<not> in_core ''services/a__b/c''" "\<not> in_core ''doc''"
    by (simp_all add: in_core_def CORE_PREFIXES_def)
  have "cl_errors (classifyChanges (\<lambda>d. True) ?fs) = [] \<and>
        cl_serviceDirs (classifyChanges (\<lambda>d. True) ?fs) = [''a__b'']"
    unfolding classify_verdict using s d m nf nc by (auto simp: in_service_def in_infra_def)
  then show ?thesis ..
qed

text \<open>C9: For a change that touches a service and is not a dry run, the gate exits with 0 exactly
when the change set is clean and every planned command succeeded, and then the commands that ran are
the planned ones, in order.\<close>

theorem gate_passes:
  assumes "cl_serviceDirs (classifyChanges has files) \<noteq> []" and "\<not> dryRun opts"
    and "gate_run git child has repo opts files = (evs, code)"
    and "planned = map (at_root repo) (plannedCommands (cl_serviceDirs (classifyChanges has files))
       (skipSmoke opts) (skipInstall opts))"
  shows "(code = 0 \<longleftrightarrow> cl_errors (classifyChanges has files) = [] \<and>
       (\<forall>c \<in> set planned. status_or_1 (child c) = 0)) \<and>
     (code = 0 \<longrightarrow> ran evs = planned)"
proof (cases "cl_errors (classifyChanges has files) = []")
  case True
  show ?thesis
  proof (cases "run_commands child planned")
    case (Pair evs' e)
    show ?thesis
    proof (cases e)
      case None
      with Pair have "ran evs' = planned \<and> (\<forall>c \<in> set planned. status_or_1 (child c) = 0)"
        using run_commands_ok by blast
      then show ?thesis
        using assms True Pair None by (auto simp: gate_run_def Let_def)
    next
      case (Some x)
      with Pair obtain pre c where f: "prefix (pre @ [c]) planned" "status_or_1 (child c) \<noteq> 0"
        using run_commands_fail [of child planned evs' x] by blast
      then have "c \<in> set planned" using set_mono_prefix by fastforce
      then show ?thesis
        using assms True Pair Some f(2) by (auto simp: gate_run_def Let_def)
    qed
  qed
next
  case False
  then show ?thesis using assms(3) by (auto simp: gate_run_def Let_def)
qed

theorem gate_passes_witness:
  "snd (gate_run (\<lambda>_ _. \<lparr>status = Some 0, out_text = [], err_text = []\<rparr>)
     (\<lambda>c. \<lparr>status = Some 0, out_text = [], err_text = []\<rparr>) (\<lambda>d. False)
     ''/repo'' (gate_defaults None) [''services/a__b/c'']) \<noteq> 0"
proof -
  let ?fs = "[''services/a__b/c'']"
  let ?cl = "classifyChanges (\<lambda>d. False) ?fs"
  let ?git = "\<lambda>_ _. \<lparr>status = Some 0, out_text = [], err_text = []\<rparr>"
  let ?child = "\<lambda>c. \<lparr>status = Some 0, out_text = [], err_text = []\<rparr>"
  have st: "''a__b'' \<in> set (cs_serviceDirs (foldl classify_file change_init ?fs))"
    unfolding fold_classify(4)
    by (simp add: in_service_def slashes_def replace_char_def first_segment_def SERVICE_DIR_RE_def
        lit_char_def lower_alnum_def is_lower_def is_digit_def code_of_def)
  then have ne: "cl_serviceDirs ?cl \<noteq> []"
    by (auto simp: classifyChanges_def Let_def simp del: foldl_Cons)
  have bad: "cl_errors ?cl \<noteq> []"
    using st by (auto simp: classifyChanges_def Let_def change_errors_Nil list_all_iff simp del: foldl_Cons)
  obtain evs code where r: "gate_run ?git ?child (\<lambda>d. False) ''/repo'' (gate_defaults None) ?fs = (evs, code)"
    by (cases "gate_run ?git ?child (\<lambda>d. False) ''/repo'' (gate_defaults None) ?fs") blast
  show ?thesis
    using gate_passes [OF ne _ r refl] bad r by (simp add: gate_defaults_def)
qed

text \<open>Nothing runs for a change set that is not clean, that touches no service, or in a dry run;
otherwise the commands that ran are the planned ones up to the first failure.\<close>

lemma gate_runs_prefix:
  "(let cl = classifyChanges has files; executed = ran (fst (gate_run git child has repo opts files));
        planned = map (at_root repo) (plannedCommands (cl_serviceDirs cl) (skipSmoke opts) (skipInstall opts))
    in if cl_errors cl \<noteq> [] \<or> cl_serviceDirs cl = [] \<or> dryRun opts then executed = []
       else prefix executed planned \<and> list_all (\<lambda>c. status_or_1 (child c) = 0) (butlast executed))"
proof -
  define planned where "planned = map (at_root repo) (plannedCommands
    (cl_serviceDirs (classifyChanges has files)) (skipSmoke opts) (skipInstall opts))"
  obtain evs e where r: "run_commands child planned = (evs, e)" by (cases "run_commands child planned")
  have "prefix (ran evs) planned \<and> list_all (\<lambda>c. status_or_1 (child c) = 0) (butlast (ran evs))"
  proof (cases e)
    case None
    with r run_commands_ok [of child planned evs] show ?thesis
      by (auto simp: list_all_iff dest: in_set_butlastD)
  next
    case (Some x)
    with r run_commands_fail [of child planned evs x] show ?thesis
      by (auto simp: list_all_iff)
  qed
  with r show ?thesis
    by (auto simp: gate_run_def Let_def planned_def [symmetric] split: option.split)
qed

lemma gate_runs_prefix_example:
  "ran (fst (gate_run (\<lambda>_ _. \<lparr>status = Some 0, out_text = [], err_text = []\<rparr>)
     (\<lambda>c. \<lparr>status = Some 0, out_text = [], err_text = []\<rparr>) (\<lambda>d. True) ''/repo''
     ((gate_defaults None)\<lparr>dryRun := True\<rparr>) [''services/a__b/c''])) = []"
  using gate_runs_prefix [of "\<lambda>d. True" "[''services/a__b/c'']"
      "\<lambda>_ _. \<lparr>status = Some 0, out_text = [], err_text = []\<rparr>"
      "\<lambda>c. \<lparr>status = Some 0, out_text = [], err_text = []\<rparr>" "''/repo''"
      "(gate_defaults None)\<lparr>dryRun := True\<rparr>"]
  by (simp add: Let_def)

end
