(* ===== verification/NodeFS.thy ===== *)
theory NodeFS
  imports NodePath
begin

text \<open>
  The part of node:fs the programs use: a file system as a tree of directories and files (with their
  text and mode), without symbolic links.
\<close>

datatype node = File string nat | Dir "(string \<times> node) list"

fun node_at :: "node \<Rightarrow> string list \<Rightarrow> node option" where
  "node_at n [] = Some n"
| "node_at (Dir es) (s # ss) =
     (if s = [] \<or> s = ''.'' then node_at (Dir es) ss
      else (case map_of es s of Some n \<Rightarrow> node_at n ss | None \<Rightarrow> None))"
| "node_at (File t m) (s # ss) = None"

text \<open>Paths here are absolute and normal, so they name a node by their segments from the root.\<close>

definition stat :: "node \<Rightarrow> string \<Rightarrow> node option" where
  "stat fs p = node_at fs (segments p)"

definition exists_sync :: "node \<Rightarrow> string \<Rightarrow> bool" where
  "exists_sync fs p \<longleftrightarrow> stat fs p \<noteq> None"

definition is_dir :: "node \<Rightarrow> bool" where
  "is_dir n = (case n of Dir _ \<Rightarrow> True | File _ _ \<Rightarrow> False)"

definition read_file :: "node \<Rightarrow> string \<Rightarrow> string + string" where
  "read_file fs p = (case stat fs p of
     Some (File t m) \<Rightarrow> Inr t
   | Some (Dir _) \<Rightarrow> Inl ''EISDIR: illegal operation on a directory, read''
   | None \<Rightarrow> Inl (''ENOENT: no such file or directory, open '' @ [CHR 0x27] @ p @ [CHR 0x27]))"

end
