(* ===== verification/Validate.thy ===== *)
theory Validate
  imports ServiceNaming NodeFS
begin

text \<open>
  The check of a service package's layout (src/services/scripts/validate-service-package.mjs): the
  options, the checks of one path, of the root package.json and its dispatcher, of a service's
  manifest, wrapper, imports and contents, and the whole run. Every check returns the errors it
  pushes, in order, beside its result; \<open>Inl\<close> is a throw. The file system is a tree (no symbolic
  links); \<open>JSON.parse\<close> is an argument.
\<close>

section \<open>Reading JSON files\<close>

definition readJSON :: "(string \<Rightarrow> string + jsval) \<Rightarrow> node \<Rightarrow> string \<Rightarrow> string + jsval" where
  "readJSON parse fs p = (case bindE (read_file fs p) parse of
     Inl e \<Rightarrow> Inl (p @ '': failed to read JSON: '' @ e) | Inr v \<Rightarrow> Inr v)"

section \<open>Options\<close>

record validate_options =
  vo_root :: string
  vo_serviceDir :: "string option"

function validate_args ::
  "validate_options \<Rightarrow> string list \<Rightarrow> string + validate_options" where
  "validate_args opts [] = Inr opts"
| "validate_args opts (arg # rest) =
     (if arg = ''--root'' then
        (case rest of v # r \<Rightarrow> if v = [] then Inl ''--root must not be empty''
            else validate_args (opts\<lparr>vo_root := v\<rparr>) r
         | [] \<Rightarrow> Inl ''--root must not be empty'')
      else if starts_with arg ''--root='' then validate_args (opts\<lparr>vo_root := drop 7 arg\<rparr>) rest
      else if arg = ''--service-dir'' then
        (case rest of v # r \<Rightarrow> if v = [] then Inl ''--service-dir must not be empty''
            else validate_args (opts\<lparr>vo_serviceDir := Some v\<rparr>) r
         | [] \<Rightarrow> Inl ''--service-dir must not be empty'')
      else if starts_with arg ''--service-dir='' then
        validate_args (opts\<lparr>vo_serviceDir := Some (drop 14 arg)\<rparr>) rest
      else Inl (''unknown argument: '' @ arg))"
  by pat_completeness auto
termination by (relation "measure (\<lambda>(opts, args). length args)") auto

definition validate_parseArgs :: "string \<Rightarrow> string list \<Rightarrow> string + validate_options" where
  "validate_parseArgs cwd argv =
     bindE (validate_args \<lparr>vo_root = cwd, vo_serviceDir = None\<rparr> argv) (\<lambda>opts.
       if vo_root opts = [] then Inl ''--root must not be empty''
       else if vo_serviceDir opts = Some [] then Inl ''--service-dir must not be empty''
       else Inr (opts\<lparr>vo_root := path_resolve cwd [vo_root opts]\<rparr>))"

section \<open>Paths of the package\<close>

definition isPackagePrivateServiceDir :: "node \<Rightarrow> string \<Rightarrow> string \<times> node \<Rightarrow> bool" where
  "isPackagePrivateServiceDir fs dir dirent = (case dirent of (name, n) \<Rightarrow>
     if \<not> is_dir n then False
     else if name \<in> {''bin'', ''scripts'', ''tests'', ''node_modules''} then False
     else if starts_with name ''.'' then False
     else exists_sync fs (path_join [dir, name, ''service.json'']))"

definition packageBinEntries :: "jsval \<Rightarrow> (string \<times> jsval) list" where
  "packageBinEntries bin = (case bin of JStr s \<Rightarrow> [([], JStr s)] | JObj fs \<Rightarrow> fs | _ \<Rightarrow> [])"

definition validateRelativePackagePath :: "jsval \<Rightarrow> string \<Rightarrow> string list \<times> string option" where
  "validateRelativePackagePath value label =
     (if (case value of JStr s \<Rightarrow> s = [] | _ \<Rightarrow> True) then ([label @ '' must be a non-empty string''], None)
      else (let s = to_str value;
          normalized = path_normalize (replace_char CHR 0x5C ''/'' s);
          e1 = (if is_absolute s then [label @ '' must be a relative package path''] else []);
          e2 = (if normalized = ''.'' \<or> normalized = ''..'' \<or> starts_with normalized ''../''
            then [label @ '' must stay inside the package root''] else [])
        in (e1 @ e2, Some normalized)))"

definition quoted :: "string \<Rightarrow> string" where
  "quoted s = [CHR 0x22] @ s @ [CHR 0x22]"

definition validateExistingFile :: "node \<Rightarrow> string \<Rightarrow> jsval \<Rightarrow> string \<Rightarrow> string list \<times> string option" where
  "validateExistingFile fs dir relativePath label =
     (case validateRelativePackagePath relativePath label of
        (es, None) \<Rightarrow> (es, None)
      | (es, Some normalized) \<Rightarrow>
          (case stat fs (path_join [dir, normalized]) of
             None \<Rightarrow> (es @ [label @ '' '' @ quoted normalized @ '' must exist''], None)
           | Some (Dir _) \<Rightarrow> (es @ [label @ '' '' @ quoted normalized @ '' must be a file''], None)
           | Some (File _ _) \<Rightarrow> (es, Some normalized)))"

text \<open>\<open>(stat.mode & 0o111) === 0\<close>: none of the three execute bits.\<close>

definition no_exec_bit :: "nat \<Rightarrow> bool" where
  "no_exec_bit m \<longleftrightarrow> even m \<and> even (m div 8) \<and> even (m div 64)"

definition validateExecutableFile :: "node \<Rightarrow> string \<Rightarrow> jsval \<Rightarrow> string \<Rightarrow> string list \<times> string option" where
  "validateExecutableFile fs dir relativePath label =
     (case validateExistingFile fs dir relativePath label of
        (es, None) \<Rightarrow> (es, None)
      | (es, Some normalized) \<Rightarrow>
          (case stat fs (path_join [dir, normalized]) of
             Some (File _ mode) \<Rightarrow>
               (es @ (if no_exec_bit mode then [label @ '' '' @ quoted normalized @ '' must be executable''] else []),
                Some normalized)
           | _ \<Rightarrow> (es, Some normalized)))"

definition validateExistingDirectory :: "node \<Rightarrow> string \<Rightarrow> jsval \<Rightarrow> string \<Rightarrow> string list \<times> string option" where
  "validateExistingDirectory fs dir relativePath label =
     (case validateRelativePackagePath relativePath label of
        (es, None) \<Rightarrow> (es, None)
      | (es, Some normalized) \<Rightarrow>
          (case stat fs (path_join [dir, normalized]) of
             None \<Rightarrow> (es @ [label @ '' '' @ quoted normalized @ '' must exist''], None)
           | Some (File _ _) \<Rightarrow> (es @ [label @ '' '' @ quoted normalized @ '' must be a directory''], None)
           | Some (Dir _) \<Rightarrow> (es, Some normalized)))"

text \<open>\<open>walkFiles\<close>: the entries below a directory in the order they are visited, but nothing below a
directory named node_modules.\<close>

fun walk_entries :: "string \<Rightarrow> (string \<times> node) list \<Rightarrow> (string \<times> node) list" where
  "walk_entries rel [] = []"
| "walk_entries rel ((name, n) # es) = (
     let rp = (if rel = [] then name else path_join [rel, name])
     in (rp, n) # (case n of Dir cs \<Rightarrow> if name \<noteq> ''node_modules'' then walk_entries rp cs else []
                   | File _ _ \<Rightarrow> []) @ walk_entries rel es)"

definition walkFiles :: "node \<Rightarrow> string \<Rightarrow> (string \<times> node) list" where
  "walkFiles fs dir = (case stat fs dir of Some (Dir es) \<Rightarrow> walk_entries [] es | _ \<Rightarrow> [])"

section \<open>The root package\<close>

definition js_array :: "jsval \<Rightarrow> jsval list" where
  "js_array v = (case v of JArr vs \<Rightarrow> vs | _ \<Rightarrow> [])"

definition validateDependency :: "jsval \<Rightarrow> string \<Rightarrow> string list" where
  "validateDependency pkg name =
     (let dep = (if is_obj (pget pkg ''dependencies'') then pget (pget pkg ''dependencies'') name else JUndef)
      in (if (case dep of JStr s \<Rightarrow> s = [] | _ \<Rightarrow> True)
          then [''package.json dependencies must contain direct dependency '' @ quoted name] else []) @
         (if JStr name \<notin> set (js_array (pget pkg ''bundledDependencies''))
          then [''package.json bundledDependencies must include '' @ quoted name] else []))"

definition EXPECTED_PACKAGE_NAME :: string where
  "EXPECTED_PACKAGE_NAME = ''@chaitin-ai/octobus-tentacles''"

definition EXPECTED_ROOT_BIN_NAME :: string where
  "EXPECTED_ROOT_BIN_NAME = ''octobus-tentacles''"

definition dispatcher_snippets :: "string list" where
  "dispatcher_snippets = [''import { Command } from '' @ quoted ''commander'' @ '';'',
     ''.allowUnknownOption(true)'', ''.allowExcessArguments(true)'', ''.passThroughOptions()'',
     ''argv: program.args.slice(1)'',
     ''entryFile: fileURLToPath(new URL(selected.entryFile, import.meta.url))'']"

definition missing_snippets :: "string \<Rightarrow> string \<Rightarrow> string list \<Rightarrow> string list" where
  "missing_snippets text intro snippets =
     map (\<lambda>s. intro @ s) (filter (\<lambda>s. \<not> includes_str text s) snippets)"

text \<open>A file just found to be one is read without failing: the text of the node.\<close>

definition file_text :: "node \<Rightarrow> string \<Rightarrow> string" where
  "file_text fs p = (case stat fs p of Some (File t _) \<Rightarrow> t | _ \<Rightarrow> [])"

definition validateRootDispatcher ::
  "node \<Rightarrow> string \<Rightarrow> jsval \<Rightarrow> (string \<times> jsval) list \<Rightarrow> string list \<Rightarrow> string list \<times> string option" where
  "validateRootDispatcher fs dir pkg binEntries serviceDirs =
     (if serviceDirs = [] then ([], None)
      else (let es = validateDependency pkg ''@chaitin-ai/octobus-sdk'' @ validateDependency pkg ''commander''
        in case map_of binEntries EXPECTED_ROOT_BIN_NAME of
             None \<Rightarrow> (es @ [''package.json bin must contain default dispatcher '' @ quoted EXPECTED_ROOT_BIN_NAME], None)
           | Some v \<Rightarrow> (case validateExistingFile fs dir v (''package.json bin '' @ EXPECTED_ROOT_BIN_NAME @ '' target'') of
               (es2, None) \<Rightarrow> (es @ es2, None)
             | (es2, Some target) \<Rightarrow>
                 (let es3 = (if JStr target \<notin> set (js_array (pget pkg ''files''))
                        then [''package.json files must include default dispatcher '' @ quoted target] else []);
                      dispatcher = file_text fs (path_join [dir, target])
                  in (es @ es2 @ es3 @ missing_snippets dispatcher
                        (target @ '' must include dispatcher behavior: '') dispatcher_snippets,
                      Some dispatcher)))))"

definition entry_file_of :: "string \<Rightarrow> string \<Rightarrow> string" where
  "entry_file_of serviceDir rootBinTarget = path_join [''..'', serviceDir, ''bin'', path_basename rootBinTarget]"

definition validateRootWrapper :: "node \<Rightarrow> string \<Rightarrow> string \<Rightarrow> string \<Rightarrow> string \<Rightarrow> string list" where
  "validateRootWrapper fs dir serviceDir serviceName rootBinTarget = (
     let entryFile = entry_file_of serviceDir rootBinTarget;
         wrapper = file_text fs (path_join [dir, rootBinTarget]);
         intro = ''package.json bin '' @ serviceName @ '' target must ''
     in (if includes_str wrapper (''import { fileURLToPath } from '' @ quoted ''node:url'' @ '';'') then []
         else [intro @ ''import fileURLToPath'']) @
        (if includes_str wrapper ''runServiceMain(service, {'' then []
         else [intro @ ''pass runServiceMain options'']) @
        (if includes_str wrapper (''entryFile: fileURLToPath(new URL('' @ quoted entryFile @ '', import.meta.url))'')
         then [] else [intro @ ''set entryFile to '' @ quoted entryFile]))"

definition validatePackageFiles :: "jsval \<Rightarrow> string \<Rightarrow> string \<Rightarrow> string \<Rightarrow> string list" where
  "validatePackageFiles pkg serviceDir serviceName rootBinTarget = (
     let files = js_array (pget pkg ''files'')
     in (if JStr rootBinTarget \<in> set files then []
         else [''package.json files must include root wrapper '' @ quoted rootBinTarget @ '' for service '' @ quoted serviceName]) @
        (if JStr serviceDir \<in> set files then []
         else [''package.json files must include service root '' @ quoted serviceDir @ '' for service '' @ quoted serviceName]))"

definition service_snippets :: "string \<Rightarrow> string \<Rightarrow> string \<Rightarrow> string list" where
  "service_snippets serviceDir serviceName rootBinTarget =
     [quoted serviceName @ '': {'',
      ''entryFile: '' @ quoted (entry_file_of serviceDir rootBinTarget) @ '','',
      ''serviceModule: '' @ quoted (path_join [''..'', serviceDir, ''src'', ''service.js'']) @ '','']"

definition validateDispatcherService :: "string option \<Rightarrow> string \<Rightarrow> string \<Rightarrow> string \<Rightarrow> string list" where
  "validateDispatcherService dispatcher serviceDir serviceName rootBinTarget = (case dispatcher of
     None \<Rightarrow> []
   | Some text \<Rightarrow> missing_snippets text (''default dispatcher must include '' @ serviceName @ '' mapping snippet: '')
       (service_snippets serviceDir serviceName rootBinTarget))"

section \<open>Relative imports\<close>

text \<open>
  The matches of \<open>/\b(?:import|export)\s+(?:[^'"]+\s+from\s+)?["'](\.{1,2}\/[^"']+)["']/g\<close>, from left
  to right. No part of the pattern before the first quote crosses a quote, so the text between the
  keyword and that quote is white space, or ends in \<open>from\<close> between white space.
\<close>

definition is_quote :: "char \<Rightarrow> bool" where
  "is_quote c \<longleftrightarrow> c = CHR 0x22 \<or> c = CHR 0x27"

definition is_word :: "char \<Rightarrow> bool" where
  "is_word c \<longleftrightarrow> is_alnum c \<or> c = CHR ''_''"

definition import_gap :: "string \<Rightarrow> bool" where
  "import_gap u \<longleftrightarrow> u \<noteq> [] \<and> (list_all is_ws u \<or>
     (let v = trim_end u; a = take (length v - 4) v
      in v \<noteq> u \<and> ends_with v ''from'' \<and> length a \<ge> 3 \<and> is_ws (hd a) \<and> is_ws (last a)))"

definition relative_spec :: "string \<Rightarrow> bool" where
  "relative_spec s \<longleftrightarrow> (starts_with s ''./'' \<and> length s > 2) \<or> (starts_with s ''../'' \<and> length s > 3)"

definition after_keyword :: "string \<Rightarrow> string option" where
  "after_keyword s = (if starts_with s ''import'' \<or> starts_with s ''export'' then Some (drop 6 s) else None)"

definition import_at :: "string \<Rightarrow> (string \<times> string) option" where
  "import_at s = (case after_keyword s of
     None \<Rightarrow> None
   | Some t \<Rightarrow> (let u = takeWhile (\<lambda>c. \<not> is_quote c) t; r = dropWhile (\<lambda>c. \<not> is_quote c) t;
         spec = takeWhile (\<lambda>c. \<not> is_quote c) (tl r); rest = dropWhile (\<lambda>c. \<not> is_quote c) (tl r)
       in if r \<noteq> [] \<and> rest \<noteq> [] \<and> import_gap u \<and> relative_spec spec then Some (spec, tl rest) else None))"

lemma import_at_shorter: "import_at s = Some (spec, rest) \<Longrightarrow> length rest < length s"
proof -
  assume a: "import_at s = Some (spec, rest)"
  then obtain t where t: "after_keyword s = Some t" by (auto simp: import_at_def split: option.splits)
  then have "length t \<le> length s" by (auto simp: after_keyword_def split: if_splits)
  moreover have "rest = tl (dropWhile (\<lambda>c. \<not> is_quote c) (tl (dropWhile (\<lambda>c. \<not> is_quote c) t)))"
    "dropWhile (\<lambda>c. \<not> is_quote c) t \<noteq> []"
    using a t by (auto simp: import_at_def Let_def split: if_splits)
  moreover have "length (dropWhile P xs) \<le> length xs" for P and xs :: string
    by (rule length_dropWhile_le)
  ultimately show ?thesis
    by (metis (no_types, lifting) diff_le_self le_trans length_0_conv length_greater_0_conv
        length_tl diff_less less_le_trans zero_less_one order.strict_trans1)
qed

function scan_imports :: "bool \<Rightarrow> string \<Rightarrow> string list" where
  "scan_imports after_word [] = []"
| "scan_imports after_word (c # s) =
     (case (if after_word then None else import_at (c # s)) of
        Some (spec, rest) \<Rightarrow> spec # scan_imports False rest
      | None \<Rightarrow> scan_imports (is_word c) s)"
  by pat_completeness auto
termination
  by (relation "measure (\<lambda>(b, s). length s)") (auto split: if_splits dest!: import_at_shorter)

definition resolveRelativeImport :: "string \<Rightarrow> string \<Rightarrow> string" where
  "resolveRelativeImport importerPath specifier = (
     let basePath = path_resolve ''/'' [path_dirname importerPath, specifier]
     in if path_extname basePath \<noteq> [] then basePath else basePath @ ''.js'')"

text \<open>The loop over the matches, with the targets already checked.\<close>

fun check_imports :: "node \<Rightarrow> string \<Rightarrow> string \<Rightarrow> string \<Rightarrow> string list \<Rightarrow> string list \<Rightarrow> string list" where
  "check_imports fs serviceRoot serviceDir importer checked [] = []"
| "check_imports fs serviceRoot serviceDir importer checked (spec # specs) = (
     let target = resolveRelativeImport importer spec
     in if target \<in> set checked then check_imports fs serviceRoot serviceDir importer checked specs
        else (if \<not> starts_with target (serviceRoot @ ''/'')
            then [serviceDir @ ''/src/service.js import '' @ quoted spec @ '' must stay inside the service root'']
            else (case stat fs target of
                Some (File _ _) \<Rightarrow> []
              | _ \<Rightarrow> [serviceDir @ ''/src/service.js import target '' @
                    quoted (path_relative serviceRoot target) @ '' must exist''])) @
          check_imports fs serviceRoot serviceDir importer (target # checked) specs)"

definition validateServiceJSImports :: "node \<Rightarrow> string \<Rightarrow> string \<Rightarrow> string + string list" where
  "validateServiceJSImports fs serviceRoot serviceDir = (
     let p = path_join [serviceRoot, ''src'', ''service.js'']
     in if \<not> exists_sync fs p then Inr []
        else bindE (read_file fs p) (\<lambda>source.
          Inr (check_imports fs serviceRoot serviceDir p [] (scan_imports False source))))"

section \<open>Contents\<close>

definition FORBIDDEN_SERVICE_FILE_RE :: rx where
  "FORBIDDEN_SERVICE_FILE_RE =
     Alt (Seq (opt (Seq anything (Cls (\<lambda>c. c = CHR ''/'' \<or> c = CHR 0x5C)))) (alts [lit ''node_modules'', lit ''.env'']))
         (Seq anything (alts [lit ''.tgz'', lit ''.tar.gz'', lit ''.zip'', lit ''.log'', lit ''.png'',
            lit ''.jpg'', lit ''.jpeg'', lit ''.gif'', lit ''.webp'']))"

definition js_file_rx :: rx where
  "js_file_rx = Seq anything (alts [lit ''.js'', lit ''.cjs'', lit ''.mjs''])"

text \<open>\<open>/\[[^\]]+\]\s*:\s*(?:async\s*)?\(\s*[^,)]+\s*,\s*ctx\b/\<close>; the word boundary is the end of the text
or a character that is no word character.\<close>

definition EXPORTED_TWO_ARG_HANDLER_RE :: rx where
  "EXPORTED_TWO_ARG_HANDLER_RE = seqs [lit ''['', plus1 (Cls (\<lambda>c. c \<noteq> CHR '']'')), lit '']'',
     Star (Cls is_ws), lit '':'', Star (Cls is_ws), opt (Seq (lit ''async'') (Star (Cls is_ws))),
     lit ''('', Star (Cls is_ws), plus1 (Cls (\<lambda>c. c \<noteq> CHR '','' \<and> c \<noteq> CHR '')'')), Star (Cls is_ws),
     lit '','', Star (Cls is_ws), lit ''ctx'']"

definition two_arg_handler :: "string \<Rightarrow> bool" where
  "two_arg_handler s \<longleftrightarrow> rx_match (seqs [anything, EXPORTED_TWO_ARG_HANDLER_RE,
     opt (Seq (Cls (\<lambda>c. \<not> is_word c)) anything)]) s"

definition content_errors :: "string \<Rightarrow> string \<times> node \<Rightarrow> string list" where
  "content_errors serviceDir visit = (case visit of (rp, n) \<Rightarrow>
     (if rx_match FORBIDDEN_SERVICE_FILE_RE (to_lower rp)
      then [serviceDir @ '' must not contain forbidden package artifact '' @ quoted rp] else []) @
     (case n of
        File source _ \<Rightarrow>
          if \<not> starts_with rp ''src/'' \<or> \<not> rx_match js_file_rx rp then []
          else (let intro = serviceDir @ ''/'' @ rp
            in (if includes_str source ''NODE_TLS_REJECT_UNAUTHORIZED''
                then [intro @ '' must not modify NODE_TLS_REJECT_UNAUTHORIZED''] else []) @
               (if includes_str source ''globalThis.proxy'' then [intro @ '' must not depend on globalThis.proxy''] else []) @
               (if two_arg_handler source
                then [intro @ '' must not export handler entries with (req, ctx) signature''] else []))
      | Dir _ \<Rightarrow> []))"

definition validateServiceContent :: "node \<Rightarrow> string \<Rightarrow> string \<Rightarrow> string list" where
  "validateServiceContent fs serviceRoot serviceDir =
     concat (map (content_errors serviceDir) (walkFiles fs serviceRoot))"

definition validateStringArray :: "jsval \<Rightarrow> string \<Rightarrow> string list \<times> string list" where
  "validateStringArray v label = (case v of
     JArr (x # xs) \<Rightarrow>
       (concat (map (\<lambda>i. case i of JStr s \<Rightarrow> if s = [] then [label @ '' entries must be non-empty strings''] else []
                   | _ \<Rightarrow> [label @ '' entries must be non-empty strings'']) (x # xs)),
        concat (map (\<lambda>i. case i of JStr s \<Rightarrow> if s = [] then [] else [s] | _ \<Rightarrow> []) (x # xs)))
   | _ \<Rightarrow> ([label @ '' must be a non-empty array''], []))"

section \<open>The repository\<close>

definition bin_target_errors :: "node \<Rightarrow> string \<Rightarrow> string \<times> jsval \<Rightarrow> string list" where
  "bin_target_errors fs dir e = (case e of (name, target) \<Rightarrow>
     (if name \<noteq> [] \<and> \<not> rx_match SERVICE_NAME_RE name
      then [''package.json bin key '' @ quoted name @ '' must match /^[a-z0-9]+(?:-[a-z0-9]+)*$/''] else []) @
     fst (validateExecutableFile fs dir target
       (''package.json bin '' @ (if name \<noteq> [] then name else ''string'') @ '' target'')))"

text \<open>The manifest's name as a key of the entries: only a string is one.\<close>

definition bin_entry :: "(string \<times> jsval) list \<Rightarrow> jsval \<Rightarrow> jsval option" where
  "bin_entry binEntries name = (case name of JStr s \<Rightarrow> map_of binEntries s | _ \<Rightarrow> None)"

definition entry_errors :: "node \<Rightarrow> string \<Rightarrow> jsval \<Rightarrow> (string \<times> jsval) list \<Rightarrow> string option \<Rightarrow> string \<Rightarrow>
    jsval \<Rightarrow> string list" where
  "entry_errors fs dir pkg binEntries dispatcher serviceDir mname = (case bin_entry binEntries mname of
     None \<Rightarrow> [''package.json bin must contain an entry for service '' @ quoted (to_str mname)]
   | Some target \<Rightarrow>
       (case validateExistingFile fs dir target (''package.json bin '' @ to_str mname @ '' target'') of
          (es, None) \<Rightarrow> es
        | (es, Some rootBinTarget) \<Rightarrow> es @
            fst (validateExecutableFile fs (path_join [dir, serviceDir])
              (JStr (path_join [''bin'', path_basename rootBinTarget])) (serviceDir @ '' service entry'')) @
            validatePackageFiles pkg serviceDir (to_str mname) rootBinTarget @
            validateRootWrapper fs dir serviceDir (to_str mname) rootBinTarget @
            validateDispatcherService dispatcher serviceDir (to_str mname) rootBinTarget))"

definition proto_errors :: "node \<Rightarrow> string \<Rightarrow> string \<Rightarrow> jsval \<Rightarrow> string list" where
  "proto_errors fs serviceRoot serviceDir manifest = (
     let roots = validateStringArray (pget (pget manifest ''proto'') ''roots'') (serviceDir @ ''/service.json proto.roots'');
         files = validateStringArray (pget (pget manifest ''proto'') ''files'') (serviceDir @ ''/service.json proto.files'')
     in fst roots @
        concat (map (\<lambda>r. fst (validateExistingDirectory fs serviceRoot (JStr r)
          (serviceDir @ ''/service.json proto root''))) (snd roots)) @
        fst files @
        concat (map (\<lambda>f. fst (validateExistingFile fs serviceRoot (JStr f) (serviceDir @ ''/service.json proto file'')) @
          (if ends_with f ''.proto'' then []
           else [serviceDir @ ''/service.json proto file '' @ quoted f @ '' must end with .proto''])) (snd files)))"

definition manifest_errors :: "node \<Rightarrow> string \<Rightarrow> jsval \<Rightarrow> (string \<times> jsval) list \<Rightarrow> string option \<Rightarrow> string \<Rightarrow>
    jsval \<Rightarrow> string list" where
  "manifest_errors fs dir pkg binEntries dispatcher serviceDir manifest = (
     let mname = pget manifest ''name''; shown = to_str (coalesce mname (JStr []));
         serviceRoot = path_join [dir, serviceDir]
     in (if pget manifest ''schema'' = JStr ''chaitin.octobus.service.v1'' then []
         else [serviceDir @ ''/service.json schema must be chaitin.octobus.service.v1'']) @
        (if rx_match SERVICE_NAME_RE shown then []
         else [serviceDir @ ''/service.json name '' @ quoted shown @ '' must match /^[a-z0-9]+(?:-[a-z0-9]+)*$/'']) @
        entry_errors fs dir pkg binEntries dispatcher serviceDir mname @
        fst (validateExistingFile fs serviceRoot (JStr ''README.md'') (serviceDir @ ''/README.md'')) @
        fst (validateExistingFile fs serviceRoot (pget manifest ''configSchema'') (serviceDir @ ''/configSchema'')) @
        fst (validateExistingFile fs serviceRoot (pget manifest ''secretSchema'') (serviceDir @ ''/secretSchema'')) @
        proto_errors fs serviceRoot serviceDir manifest)"

text \<open>Reading a property of \<open>null\<close> throws.\<close>

definition reads :: "jsval \<Rightarrow> string \<Rightarrow> string + unit" where
  "reads v k = (if v = JNull then Inl (''Cannot read properties of null (reading '' @ [CHR 0x27] @ k @ [CHR 0x27] @ '')'')
     else Inr ())"

definition service_errors :: "(string \<Rightarrow> string + jsval) \<Rightarrow> node \<Rightarrow> string \<Rightarrow> jsval \<Rightarrow> (string \<times> jsval) list \<Rightarrow>
    string option \<Rightarrow> string \<Rightarrow> string + string list" where
  "service_errors parse fs dir pkg binEntries dispatcher serviceDir = (
     let e1 = fst (validateRelativePackagePath (JStr serviceDir) (''service dir '' @ quoted serviceDir));
         e2 = (if rx_match SERVICE_DIR_RE serviceDir then []
           else [''service root '' @ quoted serviceDir @ '' must match /^[a-z0-9][a-z0-9-]*__[a-z0-9][a-z0-9._-]*$/'']);
         serviceRoot = path_join [dir, serviceDir];
         manifestPath = path_join [serviceRoot, ''service.json'']
     in if \<not> exists_sync fs manifestPath then Inr (e1 @ e2 @ [serviceDir @ ''/service.json is required''])
        else bindE (readJSON parse fs manifestPath) (\<lambda>manifest.
          bindE (reads manifest ''schema'') (\<lambda>_.
          bindE (validateServiceJSImports fs serviceRoot serviceDir) (\<lambda>e3.
            Inr (e1 @ e2 @ manifest_errors fs dir pkg binEntries dispatcher serviceDir manifest @ e3 @
                 validateServiceContent fs serviceRoot serviceDir)))))"

definition service_dirs :: "node \<Rightarrow> string \<Rightarrow> string option \<Rightarrow> string list" where
  "service_dirs fs dir requested = (case requested of
     Some d \<Rightarrow> [d]
   | None \<Rightarrow> (case stat fs dir of
       Some (Dir es) \<Rightarrow> sort (map fst (filter (isPackagePrivateServiceDir fs dir) es))
     | _ \<Rightarrow> []))"

definition validateRepository ::
  "(string \<Rightarrow> string + jsval) \<Rightarrow> node \<Rightarrow> string \<Rightarrow> string option \<Rightarrow> string + string list" where
  "validateRepository parse fs dir requested = (
     let packagePath = path_join [dir, ''package.json'']
     in if \<not> exists_sync fs packagePath then Inr [packagePath @ '': missing root package.json'']
        else bindE (readJSON parse fs packagePath) (\<lambda>pkg.
          bindE (reads pkg ''name'') (\<lambda>_. (
            let dirs = service_dirs fs dir requested;
                binEntries = packageBinEntries (pget pkg ''bin'');
                e1 = (if pget pkg ''name'' = JStr EXPECTED_PACKAGE_NAME then []
                  else [''package.json name must be '' @ EXPECTED_PACKAGE_NAME]);
                e2 = (if binEntries = [] \<and> dirs \<noteq> []
                  then [''package.json bin must be an object with service command entries''] else []);
                disp = validateRootDispatcher fs dir pkg binEntries dirs;
                e4 = concat (map (bin_target_errors fs dir) binEntries)
            in bindE (mapE (service_errors parse fs dir pkg binEntries (snd disp)) dirs) (\<lambda>ess.
                 Inr (e1 @ e2 @ fst disp @ e4 @ concat ess))))))"

text \<open>\<open>main\<close> and the handler around it: the lines of standard error, those of standard output, the code.\<close>

definition validate_main ::
  "(string \<Rightarrow> string + jsval) \<Rightarrow> node \<Rightarrow> string \<Rightarrow> string list \<Rightarrow> string list \<times> string list \<times> int" where
  "validate_main parse fs cwd argv = (
     case bindE (validate_parseArgs cwd argv) (\<lambda>opts. validateRepository parse fs (vo_root opts) (vo_serviceDir opts)) of
       Inl e \<Rightarrow> ([''error: '' @ e], [], 1)
     | Inr [] \<Rightarrow> ([], [''service package naming checks passed''], 0)
     | Inr errors \<Rightarrow> (map (\<lambda>e. ''error: '' @ e) errors, [], 1))"

section \<open>Lemmas\<close>

lemma validateRelativePackagePath_ok:
  assumes "validateRelativePackagePath v label = ([], Some n)"
  shows "''..'' \<notin> set (segments n) \<and> n \<noteq> []"
proof -
  obtain s where s: "v = JStr s" "n = path_normalize (replace_char CHR 0x5C ''/'' s)"
    "n \<noteq> ''..''" "\<not> starts_with n ''../''"
    using assms by (cases v) (auto simp: validateRelativePackagePath_def Let_def split: if_splits)
  have "n \<noteq> []" unfolding s(2) path_normalize_def Let_def by simp
  with s normalize_no_dots show ?thesis by blast
qed

lemma validateExistingFile_Some:
  assumes "validateExistingFile fs dir v label = (es, Some n)"
  shows "validateRelativePackagePath v label = (es, Some n)"
    and "\<exists>t m. stat fs (path_join [dir, n]) = Some (File t m)"
  using assms
  by (auto simp: validateExistingFile_def split: prod.splits option.splits node.splits)

lemma validateExistingFile_Nil: "fst (validateExistingFile fs dir v label) = [] \<Longrightarrow>
   \<exists>n. validateExistingFile fs dir v label = ([], Some n)"
  by (auto simp: validateExistingFile_def validateRelativePackagePath_def Let_def
      split: prod.splits option.splits node.splits if_splits)

lemma validateExistingFile_not_None [simp]: "validateExistingFile fs dir v label \<noteq> ([], None)"
  using validateExistingFile_Nil [of fs dir v label] by auto

lemma validateExecutableFile_Nil: "fst (validateExecutableFile fs dir v label) = [] \<Longrightarrow>
   \<exists>n t m. validateExistingFile fs dir v label = ([], Some n) \<and>
     stat fs (path_join [dir, n]) = Some (File t m) \<and> \<not> no_exec_bit m"
  using validateExistingFile_Nil [of fs dir v label] validateExistingFile_Some [of fs dir v label]
  by (auto simp: validateExecutableFile_def split: prod.splits option.splits node.splits if_splits)

text \<open>The files below a directory without passing through a node_modules.\<close>

inductive below :: "(string \<times> node) list \<Rightarrow> string list \<Rightarrow> node \<Rightarrow> bool" where
  here: "(name, n) \<in> set es \<Longrightarrow> below es [name] n"
| down: "(name, Dir cs) \<in> set es \<Longrightarrow> name \<noteq> ''node_modules'' \<Longrightarrow> below cs names n \<Longrightarrow>
    below es (name # names) n"

lemma walk_entries_member:
  "(name, n) \<in> set es \<Longrightarrow> (if rel = [] then name else path_join [rel, name], n) \<in> set (walk_entries rel es)"
  by (induction es) (auto simp: Let_def)

lemma walk_entries_child:
  "(name, Dir cs) \<in> set es \<Longrightarrow> name \<noteq> ''node_modules'' \<Longrightarrow>
     set (walk_entries (if rel = [] then name else path_join [rel, name]) cs) \<subseteq> set (walk_entries rel es)"
  by (induction es) (auto simp: Let_def)

lemma below_nonempty: "below es names n \<Longrightarrow> names \<noteq> []"
  by (induction rule: below.induct) simp_all

text \<open>The walk visits each of them, under the path of its names.\<close>

lemma walk_below:
  assumes "below es names n" and "\<forall>w \<in> set (ws @ names). clean_seg w \<and> w \<noteq> ''..''"
  shows "(join ''/'' (ws @ names), n) \<in> set (walk_entries (join ''/'' ws) es)"
  using assms
proof (induction arbitrary: ws rule: below.induct)
  case (here name n es)
  show ?case
  proof (cases "ws = []")
    case True
    then show ?thesis using walk_entries_member [OF here(1), of "[]"] by simp
  next
    case False
    then have "join ''/'' ws \<noteq> []" using here(2) by (intro join_nonempty) (auto simp: clean_seg_def)
    then show ?thesis
      using walk_entries_member [OF here(1), of "join ''/'' ws"] path_join_clean [OF False here(2)] by simp
  qed
next
  case (down name cs es names n)
  have step: "(if join ''/'' ws = [] then name else path_join [join ''/'' ws, name]) = join ''/'' (ws @ [name])"
  proof (cases "ws = []")
    case False
    then have "join ''/'' ws \<noteq> []" using down(5) by (intro join_nonempty) (auto simp: clean_seg_def)
    moreover have "\<forall>w \<in> set (ws @ [name]). clean_seg w \<and> w \<noteq> ''..''" using down(5) by auto
    ultimately show ?thesis using path_join_clean [OF False] by simp
  qed simp
  have "(join ''/'' ((ws @ [name]) @ names), n) \<in> set (walk_entries (join ''/'' (ws @ [name])) cs)"
    using down by (intro down.IH) auto
  then show ?case
    using walk_entries_child [OF down(1,2), of "join ''/'' ws"] step by auto
qed

lemma check_imports_Nil:
  assumes "check_imports fs serviceRoot serviceDir importer checked specs = []"
    and "spec \<in> set specs" and "resolveRelativeImport importer spec \<notin> set checked"
  shows "starts_with (resolveRelativeImport importer spec) (serviceRoot @ ''/'') \<and>
    (\<exists>t m. stat fs (resolveRelativeImport importer spec) = Some (File t m))"
  using assms
proof (induction specs arbitrary: checked)
  case (Cons s specs)
  let ?t = "resolveRelativeImport importer"
  show ?case
  proof (cases "?t s = ?t spec")
    case True
    then show ?thesis
      using Cons.prems by (auto simp: Let_def split: if_splits option.splits node.splits)
  next
    case False
    then have "spec \<in> set specs" using Cons.prems(2) by auto
    then show ?thesis
      using False Cons.prems Cons.IH [of checked] Cons.IH [of "?t s # checked"]
      by (auto simp: Let_def split: if_splits)
  qed
qed simp

lemma missing_snippets_Nil: "missing_snippets text intro ss = [] \<longleftrightarrow> (\<forall>s \<in> set ss. includes_str text s)"
  by (auto simp: missing_snippets_def filter_empty_conv)

lemma entry_errors_Nil:
  assumes "entry_errors fs dir pkg bins disp d mname = []"
  shows "\<exists>name target t. mname = JStr name \<and> map_of bins name = Some target \<and>
    validateExistingFile fs dir target (''package.json bin '' @ name @ '' target'') = ([], Some t) \<and>
    validatePackageFiles pkg d name t = [] \<and>
    (\<forall>text \<in> set_option disp. \<forall>s \<in> set (service_snippets d name t). includes_str text s)"
  using assms
  by (auto simp: entry_errors_def bin_entry_def validateDispatcherService_def missing_snippets_Nil
      split: option.splits jsval.splits prod.splits)

text \<open>What a run without errors found, layer by layer.\<close>

lemma service_errors_Nil:
  assumes "service_errors parse fs dir pkg bins disp d = Inr []"
  shows "rx_match SERVICE_DIR_RE d"
    and "\<exists>manifest. readJSON parse fs (path_join [path_join [dir, d], ''service.json'']) = Inr manifest \<and>
       manifest_errors fs dir pkg bins disp d manifest = []"
    and "validateServiceJSImports fs (path_join [dir, d]) d = Inr []"
    and "validateServiceContent fs (path_join [dir, d]) d = []"
  using assms by (auto simp: service_errors_def Let_def split: if_splits)

lemma validateRepository_Nil:
  assumes "validateRepository parse fs dir requested = Inr []" and "d \<in> set (service_dirs fs dir requested)"
  shows "\<exists>pkg. readJSON parse fs (path_join [dir, ''package.json'']) = Inr pkg \<and>
    service_errors parse fs dir pkg (packageBinEntries (pget pkg ''bin''))
      (snd (validateRootDispatcher fs dir pkg (packageBinEntries (pget pkg ''bin'')) (service_dirs fs dir requested))) d = Inr [] \<and>
    fst (validateRootDispatcher fs dir pkg (packageBinEntries (pget pkg ''bin'')) (service_dirs fs dir requested)) = []"
proof -
  let ?ds = "service_dirs fs dir requested"
  obtain pkg ess where pkg: "readJSON parse fs (path_join [dir, ''package.json'']) = Inr pkg"
    and disp: "fst (validateRootDispatcher fs dir pkg (packageBinEntries (pget pkg ''bin'')) ?ds) = []"
    and ess: "mapE (service_errors parse fs dir pkg (packageBinEntries (pget pkg ''bin''))
      (snd (validateRootDispatcher fs dir pkg (packageBinEntries (pget pkg ''bin'')) ?ds))) ?ds = Inr ess"
      "concat ess = []"
    using assms(1) by (auto simp: validateRepository_def Let_def split: if_splits)
  from mapE_member [OF ess(1) assms(2)] obtain es where "es \<in> set ess"
    "service_errors parse fs dir pkg (packageBinEntries (pget pkg ''bin''))
      (snd (validateRootDispatcher fs dir pkg (packageBinEntries (pget pkg ''bin'')) ?ds)) d = Inr es"
    by blast
  with pkg disp ess(2) show ?thesis by auto
qed

lemma dispatcher_text:
  assumes "fst (validateRootDispatcher fs dir pkg bins ds) = []" and "ds \<noteq> []"
  shows "\<exists>text. snd (validateRootDispatcher fs dir pkg bins ds) = Some text \<and>
    (\<forall>s \<in> set dispatcher_snippets. includes_str text s)"
  using assms
  by (auto simp: validateRootDispatcher_def Let_def missing_snippets_Nil
      split: option.splits prod.splits if_splits)

section \<open>A small repository\<close>

text \<open>A repository of one service that passes, the input of the witness of C16.\<close>

lemmas path_eval = path_join_def path_normalize_def is_absolute_def segments_def norm_segs_def
  push_seg_def suffix_to_prefix replace_char_def path_basename_def strip_trailing_def

definition repo_dispatcher :: string where
  "repo_dispatcher = concat (dispatcher_snippets @ service_snippets ''a__b'' ''b'' ''bin/b.js'')"

definition repo_wrapper :: string where
  "repo_wrapper = ''import { fileURLToPath } from '' @ quoted ''node:url'' @ '';'' @ ''runServiceMain(service, {'' @
     ''entryFile: fileURLToPath(new URL('' @ quoted (entry_file_of ''a__b'' ''bin/b.js'') @ '', import.meta.url))''"

definition repo_fs :: node where
  "repo_fs = Dir [(''r'', Dir [(''package.json'', File ''P'' 420),
     (''bin'', Dir [(''octobus-tentacles.js'', File repo_dispatcher 493), (''b.js'', File repo_wrapper 493)]),
     (''a__b'', Dir [(''service.json'', File ''M'' 420), (''README.md'', File [] 420), (''c.json'', File [] 420),
        (''bin'', Dir [(''b.js'', File [] 493)]), (''proto'', Dir [(''x.proto'', File [] 420)])])])]"

definition repo_pkg :: jsval where
  "repo_pkg = JObj [(''name'', JStr EXPECTED_PACKAGE_NAME),
     (''dependencies'', JObj [(''@chaitin-ai/octobus-sdk'', JStr ''1''), (''commander'', JStr ''1'')]),
     (''bundledDependencies'', JArr [JStr ''@chaitin-ai/octobus-sdk'', JStr ''commander'']),
     (''bin'', JObj [(EXPECTED_ROOT_BIN_NAME, JStr ''bin/octobus-tentacles.js''), (''b'', JStr ''bin/b.js'')]),
     (''files'', JArr [JStr ''bin/octobus-tentacles.js'', JStr ''bin/b.js'', JStr ''a__b''])]"

definition repo_manifest :: jsval where
  "repo_manifest = JObj [(''schema'', JStr ''chaitin.octobus.service.v1''), (''name'', JStr ''b''),
     (''configSchema'', JStr ''c.json''), (''secretSchema'', JStr ''c.json''),
     (''proto'', JObj [(''roots'', JArr [JStr ''proto'']), (''files'', JArr [JStr ''proto/x.proto''])])]"

definition repo_parse :: "string \<Rightarrow> string + jsval" where
  "repo_parse t = (if t = ''P'' then Inr repo_pkg else if t = ''M'' then Inr repo_manifest else Inl ''bad'')"

lemma sublist_concat: "s \<in> set ss \<Longrightarrow> sublist s (concat ss)"
  by (auto simp: in_set_conv_decomp)

lemma repo_stats:
  "stat repo_fs (path_join [''/r'', ''package.json'']) = Some (File ''P'' 420)"
  "stat repo_fs (path_join [''/r'', ''bin/octobus-tentacles.js'']) = Some (File repo_dispatcher 493)"
  "stat repo_fs (path_join [''/r'', ''bin/b.js'']) = Some (File repo_wrapper 493)"
  "stat repo_fs (path_join [path_join [''/r'', ''a__b''], ''service.json'']) = Some (File ''M'' 420)"
  "stat repo_fs (path_join [path_join [''/r'', ''a__b''], ''README.md'']) = Some (File [] 420)"
  "stat repo_fs (path_join [path_join [''/r'', ''a__b''], ''c.json'']) = Some (File [] 420)"
  "stat repo_fs (path_join [path_join [''/r'', ''a__b''], ''bin/b.js'']) = Some (File [] 493)"
  "stat repo_fs (path_join [path_join [''/r'', ''a__b''], ''proto'']) = Some (Dir [(''x.proto'', File [] 420)])"
  "stat repo_fs (path_join [path_join [''/r'', ''a__b''], ''proto/x.proto'']) = Some (File [] 420)"
  "stat repo_fs (path_join [path_join [''/r'', ''a__b''], ''src'', ''service.js'']) = None"
  by (simp_all add: repo_fs_def stat_def path_eval)

lemma repo_paths:
  "validateRelativePackagePath (JStr ''bin/octobus-tentacles.js'') l = ([], Some ''bin/octobus-tentacles.js'')"
  "validateRelativePackagePath (JStr ''bin/b.js'') l = ([], Some ''bin/b.js'')"
  "validateRelativePackagePath (JStr ''README.md'') l = ([], Some ''README.md'')"
  "validateRelativePackagePath (JStr ''c.json'') l = ([], Some ''c.json'')"
  "validateRelativePackagePath (JStr ''proto'') l = ([], Some ''proto'')"
  "validateRelativePackagePath (JStr ''proto/x.proto'') l = ([], Some ''proto/x.proto'')"
  "validateRelativePackagePath (JStr ''a__b'') l = ([], Some ''a__b'')"
  "path_join [''bin'', path_basename ''bin/b.js''] = ''bin/b.js''"
  by (simp_all add: validateRelativePackagePath_def path_eval)

lemma repo_includes:
  "s \<in> set (dispatcher_snippets @ service_snippets ''a__b'' ''b'' ''bin/b.js'') \<Longrightarrow> sublist s repo_dispatcher"
  "validateRootWrapper repo_fs ''/r'' ''a__b'' ''b'' ''bin/b.js'' = []"
proof -
  show "s \<in> set (dispatcher_snippets @ service_snippets ''a__b'' ''b'' ''bin/b.js'') \<Longrightarrow> sublist s repo_dispatcher"
    unfolding repo_dispatcher_def by (rule sublist_concat)
  have w: "repo_wrapper = concat [''import { fileURLToPath } from '' @ quoted ''node:url'' @ '';'',
      ''runServiceMain(service, {'',
      ''entryFile: fileURLToPath(new URL('' @ quoted (entry_file_of ''a__b'' ''bin/b.js'') @ '', import.meta.url))'']"
    by (simp add: repo_wrapper_def)
  have i: "sublist s repo_wrapper" if "s \<in> {''import { fileURLToPath } from '' @ quoted ''node:url'' @ '';'',
      ''runServiceMain(service, {'',
      ''entryFile: fileURLToPath(new URL('' @ quoted (entry_file_of ''a__b'' ''bin/b.js'') @ '', import.meta.url))''}" for s
    unfolding w by (rule sublist_concat) (use that in simp)
  show "validateRootWrapper repo_fs ''/r'' ''a__b'' ''b'' ''bin/b.js'' = []"
    unfolding validateRootWrapper_def Let_def file_text_def repo_stats option.case node.case
    by (simp only: i insert_iff simp_thms if_True append.simps)
qed

lemma repo_rx:
  "rx_match SERVICE_DIR_RE ''a__b''" "rx_match SERVICE_NAME_RE ''b''" "rx_match SERVICE_NAME_RE EXPECTED_ROOT_BIN_NAME"
  by (simp_all add: SERVICE_DIR_RE_def SERVICE_NAME_RE_def lit_char_def plus1_def lower_alnum_def is_lower_def
      is_digit_def code_of_def EXPECTED_ROOT_BIN_NAME_def)


lemmas repo_eval = validateExistingFile_def validateExecutableFile_def validateExistingDirectory_def
  repo_paths repo_stats no_exec_bit_def

lemma repo_dispatch: "validateRootDispatcher repo_fs ''/r'' repo_pkg (packageBinEntries (pget repo_pkg ''bin'')) [''a__b'']
   = ([], Some repo_dispatcher)"
proof -
  have m: "missing_snippets repo_dispatcher i dispatcher_snippets = []" for i
    using repo_includes(1) by (simp add: missing_snippets_Nil)
  show ?thesis
    by (simp add: validateRootDispatcher_def Let_def packageBinEntries_def validateDependency_def is_obj_def
        repo_pkg_def js_array_def EXPECTED_ROOT_BIN_NAME_def repo_eval file_text_def m)
qed

lemma repo_entry: "entry_errors repo_fs ''/r'' repo_pkg (packageBinEntries (pget repo_pkg ''bin''))
   (Some repo_dispatcher) ''a__b'' (JStr ''b'') = []"
proof -
  have m: "missing_snippets repo_dispatcher i (service_snippets ''a__b'' ''b'' ''bin/b.js'') = []" for i
    using repo_includes(1) by (simp add: missing_snippets_Nil)
  show ?thesis
    by (simp add: entry_errors_def bin_entry_def packageBinEntries_def repo_eval EXPECTED_ROOT_BIN_NAME_def
        validatePackageFiles_def js_array_def validateDispatcherService_def m repo_includes(2) repo_pkg_def)
qed

lemma repo_manifest_ok: "manifest_errors repo_fs ''/r'' repo_pkg (packageBinEntries (pget repo_pkg ''bin''))
   (Some repo_dispatcher) ''a__b'' repo_manifest = []"
proof -
  have n: "pget repo_manifest ''name'' = JStr ''b''" by (simp add: repo_manifest_def)
  show ?thesis
    unfolding manifest_errors_def Let_def n
    by (simp add: repo_entry repo_rx coalesce_def nullish_def del: rx_match.simps)
      (simp add: repo_manifest_def repo_eval proto_errors_def validateStringArray_def suffix_to_prefix)
qed

lemma repo_content: "validateServiceContent repo_fs (path_join [''/r'', ''a__b'']) ''a__b'' = []"
proof -
  have w: "map fst (walkFiles repo_fs (path_join [''/r'', ''a__b''])) =
     [''service.json'', ''README.md'', ''c.json'', ''bin'', ''bin/b.js'', ''proto'', ''proto/x.proto'']"
    by (simp add: walkFiles_def repo_fs_def stat_def path_eval Let_def)
  have lo: "to_lower ''README.md'' = ''readme.md''"
    by (simp add: to_lower_def lower_char_def code_of_def char_of_eq_iff)
  have "content_errors ''a__b'' v = []" if "fst v \<in> set (map fst (walkFiles repo_fs (path_join [''/r'', ''a__b''])))" for v
    using that unfolding w
    by (cases v) (auto simp: content_errors_def lo FORBIDDEN_SERVICE_FILE_RE_def to_lower_def [of "CHR ''s'' # _"]
        to_lower_def [of "CHR ''c'' # _"] to_lower_def [of "CHR ''b'' # _"] to_lower_def [of "CHR ''p'' # _"] lower_char_def code_of_def
        anything_def lit_char_def opt_def split: node.split)
  then show ?thesis by (auto simp: validateServiceContent_def)
qed

lemma repo_ok: "validateRepository repo_parse repo_fs ''/r'' (Some ''a__b'') = Inr []"
proof -
  have pj: "readJSON repo_parse repo_fs (path_join [''/r'', ''package.json'']) = Inr repo_pkg"
    "readJSON repo_parse repo_fs (path_join [path_join [''/r'', ''a__b''], ''service.json'']) = Inr repo_manifest"
    by (simp_all add: readJSON_def read_file_def repo_stats repo_parse_def)
  have svc: "service_errors repo_parse repo_fs ''/r'' repo_pkg (packageBinEntries (pget repo_pkg ''bin''))
      (Some repo_dispatcher) ''a__b'' = Inr []"
    by (simp add: service_errors_def Let_def exists_sync_def repo_stats repo_paths repo_rx pj repo_content
        repo_manifest_ok validateServiceJSImports_def reads_def del: rx_match.simps) (simp add: repo_manifest_def)
  have bins: "bin_target_errors repo_fs ''/r'' e = []" if "e \<in> set (packageBinEntries (pget repo_pkg ''bin''))" for e
    using that by (auto simp: repo_pkg_def packageBinEntries_def bin_target_errors_def repo_rx repo_eval simp del: rx_match.simps)
  have ne: "packageBinEntries (pget repo_pkg ''bin'') \<noteq> []" "pget repo_pkg ''name'' = JStr EXPECTED_PACKAGE_NAME"
    "repo_pkg \<noteq> JNull"
    by (simp_all add: repo_pkg_def packageBinEntries_def)
  have cc: "concat (map (bin_target_errors repo_fs ''/r'') (packageBinEntries (pget repo_pkg ''bin''))) = []"
    using bins by simp
  show ?thesis
    unfolding validateRepository_def Let_def
    by (simp add: exists_sync_def repo_stats pj reads_def ne service_dirs_def repo_dispatch svc cc del: concat_eq_Nil_conv)
qed

section \<open>Properties\<close>

text \<open>A path the checks accept stays inside the directory it is checked against: when
validateExistingFile accepts a value without pushing an error, the file it found exists and lies
below that directory, whatever dots, backslashes or repeated slashes the value has.\<close>

lemma accepted_path_inside:
  assumes "is_absolute dir" and "validateExistingFile fs dir v label = ([], Some n)"
  shows "inside dir (path_join [dir, n]) \<and> (\<exists>t m. stat fs (path_join [dir, n]) = Some (File t m))"
  using validateExistingFile_Some [OF assms(2)] validateRelativePackagePath_ok inside_join [OF assms(1)]
  by blast

definition sample_fs :: node where
  "sample_fs = Dir [(''pkg'', Dir [(''src'', Dir [(''a.js'', File ''const a = 1;'' 420)])])]"

lemma sample_accepts: "validateExistingFile sample_fs ''/pkg'' (JStr ''lib/../src//a.js'') ''entry'' = ([], Some ''src/a.js'')"
  by (simp add: validateExistingFile_def validateRelativePackagePath_def replace_char_def path_normalize_def
      path_join_def is_absolute_def segments_def norm_segs_def push_seg_def stat_def sample_fs_def suffix_to_prefix)

lemma accepted_path_inside_example:
  "inside ''/pkg'' (path_join [''/pkg'', ''src/a.js''])"
  using accepted_path_inside [OF _ sample_accepts] by (simp add: is_absolute_def)

text \<open>The content rules reach every source file: when the contents of a service raise no error, no
script below its src directory, however deep and whatever its siblings, changes TLS verification,
depends on the global proxy or exports a two-argument handler - except below a node_modules.\<close>

lemma content_rules_complete:
  assumes "validateServiceContent fs serviceRoot d = []" and "stat fs serviceRoot = Some (Dir es)"
    and "below es (''src'' # names) (File source mode)"
    and "\<forall>w \<in> set names. clean_seg w \<and> w \<noteq> ''..''" and "names \<noteq> []"
    and "rx_match js_file_rx (join ''/'' (''src'' # names))"
  shows "\<not> includes_str source ''NODE_TLS_REJECT_UNAUTHORIZED'' \<and>
    \<not> includes_str source ''globalThis.proxy'' \<and> \<not> two_arg_handler source"
proof -
  let ?rp = "join ''/'' (''src'' # names)"
  have "\<forall>w \<in> set ([] @ ''src'' # names). clean_seg w \<and> w \<noteq> ''..''"
    using assms(4) by (simp add: clean_seg_def)
  from walk_below [OF assms(3) this]
  have "(?rp, File source mode) \<in> set (walkFiles fs serviceRoot)"
    using assms(2) by (simp add: walkFiles_def)
  then have "content_errors d (?rp, File source mode) = []"
    using assms(1) by (auto simp: validateServiceContent_def)
  moreover have "starts_with ?rp ''src/''" using assms(5) by (cases names) simp_all
  ultimately show ?thesis using assms(6) by (simp add: content_errors_def Let_def split: if_splits)
qed

lemma content_rules_complete_example:
  "\<not> includes_str ''const a = 1;'' ''globalThis.proxy''"
proof -
  have w: "walkFiles sample_fs ''/pkg'' = [(''src'', Dir [(''a.js'', File ''const a = 1;'' 420)]),
      (''src/a.js'', File ''const a = 1;'' 420)]"
    by (simp add: walkFiles_def sample_fs_def stat_def segments_def path_join_def path_normalize_def
        is_absolute_def norm_segs_def push_seg_def suffix_to_prefix)
  have rx: "rx_match js_file_rx ''src/a.js''"
    by (simp add: js_file_rx_def anything_def lit_char_def)
  have nf: "\<not> rx_match FORBIDDEN_SERVICE_FILE_RE (to_lower ''src'')"
    "\<not> rx_match FORBIDDEN_SERVICE_FILE_RE (to_lower ''src/a.js'')"
    by (simp_all add: FORBIDDEN_SERVICE_FILE_RE_def to_lower_def lower_char_def code_of_def anything_def
        lit_char_def opt_def)
  have nh: "\<not> two_arg_handler ''const a = 1;''"
    by (simp add: two_arg_handler_def EXPORTED_TWO_ARG_HANDLER_RE_def anything_def lit_char_def opt_def)
  have ok: "validateServiceContent sample_fs ''/pkg'' ''a__b'' = []"
    using rx nf nh
    by (simp add: validateServiceContent_def w content_errors_def Let_def sublist_Cons_right
        del: rx_match.simps)
  have st: "stat sample_fs ''/pkg'' = Some (Dir [(''src'', Dir [(''a.js'', File ''const a = 1;'' 420)])])"
    by (simp add: sample_fs_def stat_def segments_def)
  have b: "below [(''src'', Dir [(''a.js'', File ''const a = 1;'' 420)])] [''src'', ''a.js''] (File ''const a = 1;'' 420)"
    by (rule below.down [where cs = "[(''a.js'', File ''const a = 1;'' 420)]"]) (auto intro: below.here)
  show ?thesis
    using content_rules_complete [OF ok st b] rx by (simp add: clean_seg_def)
qed



text \<open>C12: Imports stay inside: when the imports of src/service.js raise no error, every relative import
the scan finds resolves to an existing file below the service's own directory.\<close>

theorem imports_inside:
  assumes "validateServiceJSImports fs serviceRoot d = Inr []"
    and "stat fs (path_join [serviceRoot, ''src'', ''service.js'']) = Some (File source mode)"
    and "spec \<in> set (scan_imports False source)"
  shows "(let target = resolveRelativeImport (path_join [serviceRoot, ''src'', ''service.js'']) spec
    in starts_with target (serviceRoot @ ''/'') \<and> (\<exists>t m. stat fs target = Some (File t m)))"
  using assms check_imports_Nil [of fs serviceRoot d _ "[]" "scan_imports False source" spec]
  by (auto simp: validateServiceJSImports_def exists_sync_def read_file_def Let_def)

definition sample_source :: string where
  "sample_source = ''import '' @ quoted ''./a.js'' @ '';''"

definition sample_service :: node where
  "sample_service = Dir [(''a__b'', Dir [(''src'', Dir
     [(''service.js'', File sample_source 420), (''a.js'', File [] 420)])])]"

theorem imports_inside_witness:
  "\<exists>t m. stat sample_service ''/a__b/src/a.js'' = Some (File t m)"
proof -
  have src: "stat sample_service (path_join [''/a__b'', ''src'', ''service.js'']) = Some (File sample_source 420)"
    by (simp add: sample_service_def stat_def segments_def path_join_def path_normalize_def is_absolute_def
        norm_segs_def push_seg_def suffix_to_prefix)
  have scan: "scan_imports False sample_source = [''./a.js'']"
    by (simp add: sample_source_def quoted_def import_at_def after_keyword_def is_quote_def import_gap_def
        relative_spec_def is_ws_def code_of_def)
  have target: "resolveRelativeImport (path_join [''/a__b'', ''src'', ''service.js'']) ''./a.js'' = ''/a__b/src/a.js''"
    by (simp add: resolveRelativeImport_def path_join_def path_normalize_def is_absolute_def segments_def
        norm_segs_def push_seg_def suffix_to_prefix path_dirname_def path_resolve_def path_extname_def
        path_basename_def strip_trailing_def Let_def)
  have "stat sample_service ''/a__b/src/a.js'' = Some (File [] 420)"
    by (simp add: sample_service_def stat_def segments_def)
  then have ok: "validateServiceJSImports sample_service ''/a__b'' ''a__b'' = Inr []"
    by (simp add: validateServiceJSImports_def exists_sync_def src read_file_def scan target)
  from imports_inside [OF ok src, of "''./a.js''"] show ?thesis by (simp add: scan target)
qed

end
