(* ===== verification/L2Lock.thy ===== *)
theory L2Lock
  imports JS_Base
begin

text \<open>
  The lock of the batch audit (src/scripts/service-l2-batch.mjs, \<open>withLock\<close> and \<open>lockIsStale\<close>): several
  batch processes share a pool of dependencies and take turns by a lock file. Every call to the file
  system is one step of the process that makes it, so that the steps of the processes interleave as
  the operating system schedules them. A lock file has an identity of its own: a process that
  created it keeps writing to that file, also when another one has taken its place under the path.

  A run is a list of scheduling actions: a step of a live process, a tick of the clock, the death of
  a process. The main result is mutual exclusion as long as no process unlinks, as stale, the lock
  of a live process; \<open>lock_race\<close> and \<open>lock_waiter_fails\<close> show two runs in which the code itself
  misses its aim.
\<close>

section \<open>The lock file and the world around it\<close>

record owner =
  o_pid :: nat
  o_created :: int
  o_token :: nat

text \<open>What the file holds: nothing yet (\<open>JSON.parse\<close> throws), or its owner.\<close>

datatype content = Unwritten | Owned owner

record lockfile =
  lf_inode :: nat
  lf_content :: content
  lf_mtime :: int

text \<open>\<open>w_fresh\<close> numbers the files and the tokens of \<open>crypto.randomUUID\<close>: none is used twice.\<close>

record lock_world =
  w_lock :: "lockfile option"
  w_clock :: int
  w_live :: "nat \<Rightarrow> bool"
  w_fresh :: nat

definition LOCK_STALE_MS :: int where
  "LOCK_STALE_MS = 30 * 60 * 1000"

definition LOCK_WAIT_MS :: int where
  "LOCK_WAIT_MS = 35 * 60 * 1000"

definition processIsAlive :: "(nat \<Rightarrow> bool) \<Rightarrow> nat \<Rightarrow> bool" where
  "processIsAlive live p \<longleftrightarrow> \<not> p < 1 \<and> live p"

section \<open>One process\<close>

datatype lock_error = ENOENT | BadJSON | TimedOut

text \<open>
  Where a process stands in \<open>withLock\<close>, named after the call it makes next: the exclusive open; the
  read of the lock for \<open>lockIsStale\<close> at the time \<open>now\<close>; the stat of a lock that could not be read;
  the unlink of a lock found stale; the wait; the write of the owner; the action; and, after the
  action, the read of the lock and its removal. A process keeps the file it opened and its token.
\<close>

datatype lock_pc =
  AtOpen int
| AtRead int int
| AtStat int int
| AtUnlink int
| AtWait int
| AtWrite nat
| InAction nat nat
| AtReadBack nat nat
| AtRelease nat nat
| Returned
| Threw lock_error

text \<open>\<open>lockIsStale\<close>, once the lock was read, or its time when it could not be.\<close>

definition stale_owner :: "int \<Rightarrow> int \<Rightarrow> (nat \<Rightarrow> bool) \<Rightarrow> owner \<Rightarrow> bool" where
  "stale_owner staleMs now live ow \<longleftrightarrow>
     staleMs < now - o_created ow \<or> \<not> processIsAlive live (o_pid ow)"

definition stale_mtime :: "int \<Rightarrow> int \<Rightarrow> int \<Rightarrow> bool" where
  "stale_mtime staleMs now mtime \<longleftrightarrow> staleMs < now - mtime"

definition judged :: "bool \<Rightarrow> int \<Rightarrow> lock_pc" where
  "judged stale startedAt = (if stale then AtUnlink startedAt else AtWait startedAt)"

text \<open>Writing through the descriptor: seen under the path only while the file is still there.\<close>

definition write_inode :: "nat \<Rightarrow> content \<Rightarrow> int \<Rightarrow> lockfile option \<Rightarrow> lockfile option" where
  "write_inode i c now lf = (case lf of
     Some f \<Rightarrow> Some (if lf_inode f = i then f\<lparr>lf_content := c, lf_mtime := now\<rparr> else f)
   | None \<Rightarrow> None)"

fun lock_step :: "int \<Rightarrow> int \<Rightarrow> nat \<Rightarrow> lock_world \<Rightarrow> lock_pc \<Rightarrow> lock_world \<times> lock_pc" where
  "lock_step staleMs waitMs p w (AtOpen startedAt) = (case w_lock w of
     None \<Rightarrow>
       (w\<lparr>w_lock := Some \<lparr>lf_inode = w_fresh w, lf_content = Unwritten, lf_mtime = w_clock w\<rparr>,
          w_fresh := w_fresh w + 1\<rparr>, AtWrite (w_fresh w))
   | Some f \<Rightarrow> (w, AtRead startedAt (w_clock w)))"
| "lock_step staleMs waitMs p w (AtRead startedAt now) = (case w_lock w of
     None \<Rightarrow> (w, AtStat startedAt now)
   | Some f \<Rightarrow> (case lf_content f of
       Unwritten \<Rightarrow> (w, AtStat startedAt now)
     | Owned ow \<Rightarrow> (w, judged (stale_owner staleMs now (w_live w) ow) startedAt)))"
| "lock_step staleMs waitMs p w (AtStat startedAt now) = (case w_lock w of
     None \<Rightarrow> (w, Threw ENOENT)
   | Some f \<Rightarrow> (w, judged (stale_mtime staleMs now (lf_mtime f)) startedAt))"
| "lock_step staleMs waitMs p w (AtUnlink startedAt) = (w\<lparr>w_lock := None\<rparr>, AtOpen startedAt)"
| "lock_step staleMs waitMs p w (AtWait startedAt) =
     (w, if waitMs \<le> w_clock w - startedAt then Threw TimedOut else AtOpen startedAt)"
| "lock_step staleMs waitMs p w (AtWrite i) =
     (w\<lparr>w_lock := write_inode i (Owned \<lparr>o_pid = p, o_created = w_clock w, o_token = w_fresh w\<rparr>)
          (w_clock w) (w_lock w), w_fresh := w_fresh w + 1\<rparr>, InAction i (w_fresh w))"
| "lock_step staleMs waitMs p w (InAction i t) = (w, AtReadBack i t)"
| "lock_step staleMs waitMs p w (AtReadBack i t) = (case w_lock w of
     None \<Rightarrow> (w, Returned)
   | Some f \<Rightarrow> (case lf_content f of
       Unwritten \<Rightarrow> (w, Threw BadJSON)
     | Owned ow \<Rightarrow> (w, if o_token ow = t then AtRelease i t else Returned)))"
| "lock_step staleMs waitMs p w (AtRelease i t) = (w\<lparr>w_lock := None\<rparr>, Returned)"
| "lock_step staleMs waitMs p w Returned = (w, Returned)"
| "lock_step staleMs waitMs p w (Threw e) = (w, Threw e)"

section \<open>The processes together\<close>

record lock_sys =
  s_world :: lock_world
  s_pc :: "nat \<Rightarrow> lock_pc"

datatype sched = Run nat | Tick nat | Die nat

fun sys_step :: "int \<Rightarrow> int \<Rightarrow> lock_sys \<Rightarrow> sched \<Rightarrow> lock_sys" where
  "sys_step staleMs waitMs s (Run p) = (
     if w_live (s_world s) p
     then (case lock_step staleMs waitMs p (s_world s) (s_pc s p) of
         (w, pc) \<Rightarrow> \<lparr>s_world = w, s_pc = (s_pc s)(p := pc)\<rparr>)
     else s)"
| "sys_step staleMs waitMs s (Tick d) =
     s\<lparr>s_world := (s_world s)\<lparr>w_clock := w_clock (s_world s) + int d\<rparr>\<rparr>"
| "sys_step staleMs waitMs s (Die p) =
     s\<lparr>s_world := (s_world s)\<lparr>w_live := (w_live (s_world s))(p := False)\<rparr>\<rparr>"

definition run_sched :: "int \<Rightarrow> int \<Rightarrow> lock_sys \<Rightarrow> sched list \<Rightarrow> lock_sys" where
  "run_sched staleMs waitMs s as = foldl (sys_step staleMs waitMs) s as"

text \<open>At the start every process of \<open>ps\<close> is alive, calls \<open>withLock\<close> and there is no lock.\<close>

definition lock_start :: "nat list \<Rightarrow> int \<Rightarrow> lock_sys" where
  "lock_start ps now =
     \<lparr>s_world = \<lparr>w_lock = None, w_clock = now, w_live = (\<lambda>p. p \<in> set ps), w_fresh = 0\<rparr>,
      s_pc = (\<lambda>_. AtOpen now)\<rparr>"

section \<open>Mutual exclusion\<close>

text \<open>The file a process has taken and not yet given back, and the processes inside the action.\<close>

definition held :: "lock_pc \<Rightarrow> nat option" where
  "held pc = (case pc of AtWrite i \<Rightarrow> Some i | InAction i t \<Rightarrow> Some i | AtReadBack i t \<Rightarrow> Some i
   | AtRelease i t \<Rightarrow> Some i | _ \<Rightarrow> None)"

definition in_action :: "lock_sys \<Rightarrow> nat \<Rightarrow> bool" where
  "in_action s p \<longleftrightarrow> w_live (s_world s) p \<and> (\<exists>i t. s_pc s p = InAction i t)"

text \<open>A step removes no live process's lock as stale.\<close>

definition honest_steal :: "lock_sys \<Rightarrow> sched \<Rightarrow> bool" where
  "honest_steal s a = (case a of
     Run p \<Rightarrow> (case s_pc s p of
       AtUnlink startedAt \<Rightarrow> (\<forall>f q. w_live (s_world s) p \<longrightarrow> w_lock (s_world s) = Some f \<longrightarrow>
          w_live (s_world s) q \<longrightarrow> held (s_pc s q) \<noteq> Some (lf_inode f))
     | _ \<Rightarrow> True)
   | _ \<Rightarrow> True)"

fun honest_run :: "int \<Rightarrow> int \<Rightarrow> lock_sys \<Rightarrow> sched list \<Rightarrow> bool" where
  "honest_run staleMs waitMs s [] = True"
| "honest_run staleMs waitMs s (a # as) =
     (honest_steal s a \<and> honest_run staleMs waitMs (sys_step staleMs waitMs s a) as)"

text \<open>
  The invariant: the file a live process holds is the one under the path, files are numbered below
  \<open>w_fresh\<close>, and two processes never hold the same file.
\<close>

definition lock_inv :: "lock_sys \<Rightarrow> bool" where
  "lock_inv s \<longleftrightarrow>
     (\<forall>p i. held (s_pc s p) = Some i \<longrightarrow> i < w_fresh (s_world s) \<and>
        (w_live (s_world s) p \<longrightarrow> map_option lf_inode (w_lock (s_world s)) = Some i) \<and>
        (\<forall>q. q \<noteq> p \<longrightarrow> held (s_pc s q) \<noteq> Some i)) \<and>
     (\<forall>f. w_lock (s_world s) = Some f \<longrightarrow> lf_inode f < w_fresh (s_world s))"

lemma held_simps [simp]:
  "held (AtOpen n) = None" "held (AtRead n m) = None" "held (AtStat n m) = None"
  "held (AtUnlink n) = None" "held (AtWait n) = None" "held (AtWrite i) = Some i"
  "held (InAction i t) = Some i" "held (AtReadBack i t) = Some i" "held (AtRelease i t) = Some i"
  "held Returned = None" "held (Threw e) = None"
  by (simp_all add: held_def)

lemma held_judged [simp]: "held (judged b n) = None"
  by (simp add: judged_def)

lemma inode_write_inode [simp]: "map_option lf_inode (write_inode i c n lf) = map_option lf_inode lf"
  by (auto simp: write_inode_def split: option.splits)

lemma write_inode_Some: "write_inode i c n lf = Some f \<Longrightarrow> \<exists>g. lf = Some g \<and> lf_inode f = lf_inode g"
  by (auto simp: write_inode_def split: option.splits if_splits)

text \<open>What a step changes, by what the process holds: it takes a new file, gives its own back,
or leaves the path as it is but for an unlink.\<close>

lemma lock_step_cases:
  assumes "lock_step sm wm p w pc = (w', pc')"
  shows "w_live w' = w_live w \<and> w_fresh w \<le> w_fresh w' \<and>
    ((held pc = None \<and> held pc' = None \<and> w_lock w' = w_lock w) \<or>
     (held pc = None \<and> held pc' = None \<and> w_lock w' = None \<and> (\<exists>n. pc = AtUnlink n)) \<or>
     (w_lock w = None \<and> held pc = None \<and> held pc' = Some (w_fresh w) \<and>
        map_option lf_inode (w_lock w') = Some (w_fresh w) \<and> w_fresh w < w_fresh w') \<or>
     (held pc = held pc' \<and> map_option lf_inode (w_lock w') = map_option lf_inode (w_lock w)) \<or>
     (held pc' = None \<and> w_lock w' = w_lock w) \<or>
     (held pc \<noteq> None \<and> held pc' = None \<and> w_lock w' = None))"
  using assms
  by (cases pc) (auto split: option.splits content.splits if_splits simp: write_inode_def)

lemma lock_invI:
  assumes "\<And>p i. held (s_pc s p) = Some i \<Longrightarrow> i < w_fresh (s_world s)"
    and "\<And>p i. held (s_pc s p) = Some i \<Longrightarrow> w_live (s_world s) p \<Longrightarrow>
           map_option lf_inode (w_lock (s_world s)) = Some i"
    and "\<And>p q i. held (s_pc s p) = Some i \<Longrightarrow> held (s_pc s q) = Some i \<Longrightarrow> q = p"
    and "\<And>f. w_lock (s_world s) = Some f \<Longrightarrow> lf_inode f < w_fresh (s_world s)"
  shows "lock_inv s"
  using assms unfolding lock_inv_def by blast

lemma lock_invD:
  assumes "lock_inv s"
  shows "held (s_pc s p) = Some i \<Longrightarrow> i < w_fresh (s_world s)"
    and "held (s_pc s p) = Some i \<Longrightarrow> w_live (s_world s) p \<Longrightarrow>
           map_option lf_inode (w_lock (s_world s)) = Some i"
    and "held (s_pc s p) = Some i \<Longrightarrow> held (s_pc s q) = Some i \<Longrightarrow> q = p"
    and "w_lock (s_world s) = Some f \<Longrightarrow> lf_inode f < w_fresh (s_world s)"
  using assms unfolding lock_inv_def by blast+

lemma lock_inv_run:
  assumes inv: "lock_inv s" and honest: "honest_steal s (Run p)" and live: "w_live (s_world s) p"
    and step: "lock_step sm wm p (s_world s) (s_pc s p) = (w', pc')"
  shows "lock_inv \<lparr>s_world = w', s_pc = (s_pc s)(p := pc')\<rparr>" (is "lock_inv ?t")
proof -
  let ?w = "s_world s" and ?pc = "s_pc s p"
  note c = lock_step_cases [OF step] and d = lock_invD [OF inv]
  have fresh: "w_fresh ?w \<le> w_fresh w'" and lv: "w_live w' = w_live ?w" using c by blast+
  consider
      (idle) "held pc' = None" "w_lock w' = w_lock ?w"
    | (steal) n where "held pc' = None" "w_lock w' = None" "?pc = AtUnlink n"
    | (take) "w_lock ?w = None" "held pc' = Some (w_fresh ?w)"
        "map_option lf_inode (w_lock w') = Some (w_fresh ?w)" "w_fresh ?w < w_fresh w'"
    | (keep) "held pc' = held ?pc" "map_option lf_inode (w_lock w') = map_option lf_inode (w_lock ?w)"
    | (give) i where "held ?pc = Some i" "held pc' = None" "w_lock w' = None"
    using c by auto
  then show ?thesis
  proof cases
    case idle
    show ?thesis using d fresh idle lv
      by (intro lock_invI) (fastforce split: if_splits)+
  next
    case (steal n)
    have "held (s_pc s q) = Some i \<Longrightarrow> w_live ?w q \<Longrightarrow> False" for q i
      using d(2) honest steal(3) live by (auto simp: honest_steal_def)
    with steal d fresh lv show ?thesis
      by (intro lock_invI) (fastforce split: if_splits)+
  next
    case take
    have new: "held (s_pc s q) \<noteq> Some (w_fresh ?w)" for q using d(1) [of q "w_fresh ?w"] by blast
    have none: "held (s_pc s q) = Some i \<Longrightarrow> w_live ?w q \<Longrightarrow> False" for q i
      using d(2) take(1) by fastforce
    have below: "w_lock w' = Some f \<Longrightarrow> lf_inode f < w_fresh w'" for f using take(3,4) by simp
    show ?thesis using d(1,3) new none below take lv
      by (intro lock_invI) (fastforce split: if_splits)+
  next
    case keep
    have below: "w_lock w' = Some f \<Longrightarrow> lf_inode f < w_fresh w'" for f
      using keep(2) d(4) fresh by (cases "w_lock ?w") fastforce+
    have h: "held (if q = p then pc' else s_pc s q) = held (s_pc s q)" for q using keep(1) by simp
    show ?thesis
    proof (rule lock_invI; simp only: lock_sys.simps fun_upd_apply h lv keep(2))
      show "held (s_pc s q) = Some i \<Longrightarrow> i < w_fresh w'" for q i using d(1) [of q i] fresh by linarith
      show "held (s_pc s q) = Some i \<Longrightarrow> w_live ?w q \<Longrightarrow> map_option lf_inode (w_lock ?w) = Some i" for q i
        by (rule d(2))
      show "held (s_pc s q) = Some i \<Longrightarrow> held (s_pc s r) = Some i \<Longrightarrow> r = q" for q r i by (rule d(3))
    qed (rule below)
  next
    case (give i)
    have only: "q = p" if "held (s_pc s q) = Some j" "w_live ?w q" for q j
    proof -
      have "j = i" using d(2) [OF that] d(2) [OF give(1) live] by simp
      with that(1) give(1) show ?thesis using d(3) by blast
    qed
    show ?thesis
    proof (rule lock_invI; simp only: lock_sys.simps fun_upd_apply lv give(3) split: if_splits)
      show "held (s_pc s q) = Some j \<Longrightarrow> j < w_fresh w'" for q j using d(1) [of q j] fresh by linarith
    qed (use give(2) only d(3) in auto)
  qed
qed

lemma lock_inv_step:
  assumes "lock_inv s" and "honest_steal s a"
  shows "lock_inv (sys_step sm wm s a)"
proof (cases a)
  case (Run p)
  then show ?thesis
    using lock_inv_run assms
    by (cases "lock_step sm wm p (s_world s) (s_pc s p)") auto
qed (use assms(1) in \<open>auto simp: lock_inv_def\<close>)

lemma lock_inv_start: "lock_inv (lock_start ps now)"
  by (simp add: lock_inv_def lock_start_def)

lemma lock_inv_reachable:
  "lock_inv s \<Longrightarrow> honest_run sm wm s as \<Longrightarrow> lock_inv (run_sched sm wm s as)"
  by (induction as arbitrary: s) (auto simp: run_sched_def lock_inv_step)

lemma lock_inv_mutex:
  assumes "lock_inv s" and "in_action s p" and "in_action s q"
  shows "p = q"
proof -
  obtain i t j u where pc: "s_pc s p = InAction i t" "s_pc s q = InAction j u"
    and lv: "w_live (s_world s) p" "w_live (s_world s) q"
    using assms(2,3) by (auto simp: in_action_def)
  have "i = j"
    using lock_invD(2) [OF assms(1), of p i] lock_invD(2) [OF assms(1), of q j] pc lv by simp
  then show ?thesis
    using lock_invD(3) [OF assms(1), of p i q] pc by simp
qed

section \<open>When a lock is honestly stale\<close>

text \<open>
  Within \<open>staleMs\<close> of the start no lock is old, so that one judged stale had an owner that was dead:
  a process about to unlink has outlived another.
\<close>

definition ticks :: "sched list \<Rightarrow> int" where
  "ticks as = sum_list (map (\<lambda>a. case a of Tick d \<Rightarrow> int d | _ \<Rightarrow> 0) as)"

definition young_file :: "nat list \<Rightarrow> int \<Rightarrow> lockfile \<Rightarrow> bool" where
  "young_file ps t0 f \<longleftrightarrow> t0 \<le> lf_mtime f \<and>
     (\<forall>ow. lf_content f = Owned ow \<longrightarrow> o_pid ow \<in> set ps \<and> t0 \<le> o_created ow)"

definition pc_fair :: "nat list \<Rightarrow> lock_world \<Rightarrow> lock_pc \<Rightarrow> bool" where
  "pc_fair ps w pc = (case pc of
     AtRead st n \<Rightarrow> n \<le> w_clock w
   | AtStat st n \<Rightarrow> n \<le> w_clock w
   | AtUnlink st \<Rightarrow> (\<exists>q \<in> set ps. \<not> w_live w q)
   | _ \<Rightarrow> True)"

definition fair_inv :: "nat list \<Rightarrow> int \<Rightarrow> lock_sys \<Rightarrow> bool" where
  "fair_inv ps t0 s \<longleftrightarrow> t0 \<le> w_clock (s_world s) \<and>
     (\<forall>p. w_live (s_world s) p \<longrightarrow> p \<in> set ps) \<and>
     (\<forall>f. w_lock (s_world s) = Some f \<longrightarrow> young_file ps t0 f) \<and>
     (\<forall>p. pc_fair ps (s_world s) (s_pc s p))"

lemma pc_fair_simps [simp]:
  "pc_fair ps w (AtOpen n)" "pc_fair ps w (AtRead st n) \<longleftrightarrow> n \<le> w_clock w"
  "pc_fair ps w (AtStat st n) \<longleftrightarrow> n \<le> w_clock w"
  "pc_fair ps w (AtUnlink st) \<longleftrightarrow> (\<exists>q \<in> set ps. \<not> w_live w q)" "pc_fair ps w (AtWait n)"
  "pc_fair ps w (AtWrite i)" "pc_fair ps w (InAction i t)" "pc_fair ps w (AtReadBack i t)"
  "pc_fair ps w (AtRelease i t)" "pc_fair ps w Returned" "pc_fair ps w (Threw e)"
  by (simp_all add: pc_fair_def)

lemma pc_fair_later:
  "pc_fair ps w pc \<Longrightarrow> w_clock w \<le> w_clock w' \<Longrightarrow> (\<And>q. w_live w' q \<Longrightarrow> w_live w q) \<Longrightarrow> pc_fair ps w' pc"
  by (cases pc) auto

lemma pc_fair_judged:
  assumes "stale \<Longrightarrow> \<exists>q \<in> set ps. \<not> w_live w q"
  shows "pc_fair ps w (judged stale st)"
  using assms by (simp add: judged_def)

lemma fair_lock_step:
  assumes step: "lock_step sm wm p w pc = (w', pc')" and pcs: "pc_fair ps w pc"
    and p: "p \<in> set ps" and pids: "0 \<notin> set ps" and t0: "t0 \<le> w_clock w" "w_clock w \<le> t0 + sm"
    and path: "\<And>f. w_lock w = Some f \<Longrightarrow> young_file ps t0 f"
  shows "w_clock w' = w_clock w \<and> w_live w' = w_live w \<and> pc_fair ps w' pc' \<and>
    (\<forall>f. w_lock w' = Some f \<longrightarrow> young_file ps t0 f)"
proof (cases pc)
  case (AtRead st n)
  show ?thesis
  proof (cases "w_lock w")
    case (Some f)
    note y = path [OF Some]
    show ?thesis
    proof (cases "lf_content f")
      case (Owned ow)
      have "\<exists>q \<in> set ps. \<not> w_live w q" if "stale_owner sm n (w_live w) ow"
      proof -
        have pid: "o_pid ow \<in> set ps" and c: "t0 \<le> o_created ow" using y Owned by (auto simp: young_file_def)
        have "o_pid ow \<noteq> 0" using pid pids by metis
        moreover have "n \<le> w_clock w" using pcs AtRead by simp
        ultimately show ?thesis
          using that pid c t0(2) by (auto simp: stale_owner_def processIsAlive_def)
      qed
      then show ?thesis
        using step AtRead Some Owned path by (auto intro: pc_fair_judged)
    qed (use step AtRead Some pcs path in auto)
  qed (use step AtRead pcs path in auto)
next
  case (AtStat st n)
  show ?thesis
  proof (cases "w_lock w")
    case (Some f)
    have "\<not> stale_mtime sm n (lf_mtime f)"
      using path [OF Some] pcs AtStat t0 by (simp add: stale_mtime_def young_file_def)
    then show ?thesis using step AtStat Some path by (auto simp: judged_def)
  qed (use step AtStat path in auto)
next
  case (AtWrite i)
  then show ?thesis
    using step path p t0 by (auto simp: write_inode_def young_file_def split: option.splits if_splits)
qed (use step path t0 in \<open>auto simp: young_file_def split: option.splits content.splits if_splits\<close>)

lemma lock_step_clock: "lock_step sm wm p w pc = (w', pc') \<Longrightarrow> w_clock w' = w_clock w"
  by (cases pc) (auto split: option.splits content.splits if_splits)

lemma fair_inv_step:
  assumes "fair_inv ps t0 s" and "0 \<notin> set ps"
    and "w_clock (s_world (sys_step sm wm s a)) \<le> t0 + sm"
  shows "fair_inv ps t0 (sys_step sm wm s a)"
proof (cases a)
  case (Run p)
  show ?thesis
  proof (cases "w_live (s_world s) p")
    case True
    obtain w' pc' where step: "lock_step sm wm p (s_world s) (s_pc s p) = (w', pc')"
      by (cases "lock_step sm wm p (s_world s) (s_pc s p)") auto
    have old: "pc_fair ps (s_world s) (s_pc s q)" for q using assms(1) by (simp add: fair_inv_def)
    have clock: "w_clock (s_world s) \<le> t0 + sm"
      using assms(3) Run True step lock_step_clock [OF step] by simp
    have "w_clock w' = w_clock (s_world s) \<and> w_live w' = w_live (s_world s) \<and> pc_fair ps w' pc' \<and>
        (\<forall>f. w_lock w' = Some f \<longrightarrow> young_file ps t0 f)"
      by (rule fair_lock_step [OF step old _ assms(2) _ clock]) (use assms(1) True in \<open>auto simp: fair_inv_def\<close>)
    moreover from this have "pc_fair ps w' (s_pc s q)" for q
      using pc_fair_later [OF old, of w' q] by simp
    ultimately show ?thesis
      using assms(1) Run True step by (simp add: fair_inv_def)
  qed (use assms(1) Run in simp)
next
  case (Tick d)
  have "pc_fair ps (s_world s) (s_pc s q)" for q using assms(1) by (simp add: fair_inv_def)
  then have "pc_fair ps (s_world (sys_step sm wm s a)) (s_pc s q)" for q
    by (rule pc_fair_later) (simp_all add: Tick)
  then show ?thesis using assms(1) by (simp add: fair_inv_def Tick)
next
  case (Die p)
  have "pc_fair ps (s_world s) (s_pc s q)" for q using assms(1) by (simp add: fair_inv_def)
  then have "pc_fair ps (s_world (sys_step sm wm s a)) (s_pc s q)" for q
    by (rule pc_fair_later) (simp_all add: Die split: if_splits)
  then show ?thesis using assms(1) by (simp add: fair_inv_def Die)
qed

text \<open>A lock is never stolen from a live process while nobody has died, nor among two processes: the
one that unlinks is alive, so that the dead one is the other.\<close>

lemma fair_honest:
  assumes fair: "fair_inv ps t0 s" and few: "(\<forall>q \<in> set ps. w_live (s_world s) q) \<or> card (set ps) \<le> 2"
  shows "honest_steal s a"
proof (cases a)
  case (Run p)
  show ?thesis
  proof (cases "\<exists>st. s_pc s p = AtUnlink st \<and> w_live (s_world s) p")
    case True
    then obtain st q where pc: "s_pc s p = AtUnlink st" "w_live (s_world s) p"
      and q: "q \<in> set ps" "\<not> w_live (s_world s) q"
      using fair unfolding fair_inv_def by (metis pc_fair_simps(4))
    have "r = p" if "w_live (s_world s) r" for r
    proof (rule ccontr)
      assume "r \<noteq> p"
      moreover have "p \<noteq> q" "r \<noteq> q" using pc(2) q(2) that by blast+
      moreover have "{p, q, r} \<subseteq> set ps" using fair pc(2) q(1) that by (auto simp: fair_inv_def)
      then have "card {p, q, r} \<le> card (set ps)" by (simp add: card_mono)
      ultimately show False using few q by simp
    qed
    then have "w_live (s_world s) r \<Longrightarrow> held (s_pc s r) = None" for r using pc(1) by fastforce
    then show ?thesis by (simp add: honest_steal_def Run pc(1))
  qed (auto simp: honest_steal_def Run split: lock_pc.splits)
qed (simp_all add: honest_steal_def)

definition no_death :: "sched list \<Rightarrow> bool" where
  "no_death as \<longleftrightarrow> (\<forall>a \<in> set as. case a of Die _ \<Rightarrow> False | _ \<Rightarrow> True)"

lemma sys_step_clock:
  "w_clock (s_world (sys_step sm wm s a)) = w_clock (s_world s) + ticks [a]"
proof (cases a)
  case (Run p)
  show ?thesis
    using lock_step_clock [of sm wm p "s_world s" "s_pc s p"]
    by (auto simp: Run ticks_def split: prod.splits)
qed (simp_all add: ticks_def)

lemma sys_step_live:
  "(case a of Die _ \<Rightarrow> False | _ \<Rightarrow> True) \<Longrightarrow> w_live (s_world (sys_step sm wm s a)) = w_live (s_world s)"
proof (cases a)
  case (Run p)
  then show ?thesis
    using lock_step_cases [of sm wm p "s_world s" "s_pc s p"] by (auto split: prod.splits)
qed simp_all

lemma ticks_Cons: "ticks (a # as) = ticks [a] + ticks as"
  by (simp add: ticks_def)

lemma ticks_nonneg: "0 \<le> ticks as"
  by (auto simp: ticks_def intro!: sum_list_nonneg split: sched.splits)

lemma honest_run_fair:
  assumes "fair_inv ps t0 s" and "0 \<notin> set ps" and "w_clock (s_world s) + ticks as \<le> t0 + sm"
    and "(no_death as \<and> (\<forall>q \<in> set ps. w_live (s_world s) q)) \<or> card (set ps) \<le> 2"
  shows "honest_run sm wm s as"
  using assms
proof (induction as arbitrary: s)
  case (Cons a as)
  let ?t = "sys_step sm wm s a"
  have clock: "w_clock (s_world ?t) + ticks as \<le> t0 + sm"
    using Cons.prems(3) sys_step_clock [of sm wm s a] ticks_Cons [of a as] by simp
  have "fair_inv ps t0 ?t"
    using fair_inv_step Cons.prems(1,2) clock ticks_nonneg [of as] by fastforce
  moreover have "(no_death as \<and> (\<forall>q \<in> set ps. w_live (s_world ?t) q)) \<or> card (set ps) \<le> 2"
    using Cons.prems(4) by (auto simp: no_death_def sys_step_live)
  ultimately have "honest_run sm wm ?t as" using Cons.IH Cons.prems(2) clock by blast
  moreover have "honest_steal s a"
    using fair_honest [OF Cons.prems(1)] Cons.prems(4) by blast
  ultimately show ?case by simp
qed simp

lemma fair_inv_start: "fair_inv ps t0 (lock_start ps t0)"
  by (simp add: fair_inv_def lock_start_def)

lemma honest_mutex:
  assumes "honest_run sm wm (lock_start ps now) as"
    and "in_action (run_sched sm wm (lock_start ps now) as) p"
    and "in_action (run_sched sm wm (lock_start ps now) as) q"
  shows "p = q"
  using lock_inv_mutex [OF lock_inv_reachable [OF lock_inv_start assms(1)]] assms(2,3) by blast

text \<open>C13: Mutual exclusion: in a run of batch processes that lasts no longer than the age at which a
lock counts as stale, and in which nobody dies or only two processes take part, at most one process is
inside the action of withLock at any time, however their calls to the file system interleave.\<close>

theorem lock_mutual_exclusion:
  assumes "0 \<notin> set ps" and "ticks as \<le> staleMs" and "no_death as \<or> card (set ps) \<le> 2"
    and "in_action (run_sched staleMs waitMs (lock_start ps now) as) p"
    and "in_action (run_sched staleMs waitMs (lock_start ps now) as) q"
  shows "p = q"
proof (rule honest_mutex [OF honest_run_fair [OF fair_inv_start]])
  show "0 \<notin> set ps" by (rule assms(1))
  show "w_clock (s_world (lock_start ps now)) + ticks as \<le> now + staleMs"
    using assms(2) by (simp add: lock_start_def)
  show "(no_death as \<and> (\<forall>q \<in> set ps. w_live (s_world (lock_start ps now)) q)) \<or> card (set ps) \<le> 2"
    using assms(3) by (auto simp: lock_start_def)
qed (rule assms(4,5))+

text \<open>Two processes: the second finds the lock, waits, and enters once the first has left.\<close>

definition two_turns :: "sched list" where
  "two_turns = [Run 1, Run 2, Run 1, Run 2, Run 2, Tick 250, Run 1, Run 1, Run 1, Run 2, Run 2]"

theorem lock_mutual_exclusion_witness:
  "{q. in_action (run_sched LOCK_STALE_MS LOCK_WAIT_MS (lock_start [1, 2] 0) two_turns) q} = {2}"
proof -
  have "in_action (run_sched LOCK_STALE_MS LOCK_WAIT_MS (lock_start [1, 2] 0) two_turns) 2"
    by (simp add: in_action_def run_sched_def two_turns_def lock_start_def write_inode_def
        stale_owner_def processIsAlive_def judged_def LOCK_STALE_MS_def LOCK_WAIT_MS_def)
  moreover from this have "q = 2" if "in_action (run_sched LOCK_STALE_MS LOCK_WAIT_MS (lock_start [1, 2] 0) two_turns) q" for q
    using that lock_mutual_exclusion [of "[1, 2]" two_turns LOCK_STALE_MS LOCK_WAIT_MS 0 q 2]
    by (simp add: ticks_def two_turns_def LOCK_STALE_MS_def no_death_def)
  ultimately show ?thesis by auto
qed

section \<open>Where the lock fails\<close>

text \<open>
  Three processes. The first dies inside its action. The others both read its lock and judge it stale;
  the second unlinks it and takes a lock of its own, and then the third unlinks that lock, which it
  never judged, and enters too.
\<close>

definition race :: "sched list" where
  "race = [Run 1, Run 1, Die 1, Run 2, Run 3, Run 2, Run 3, Run 2, Run 2, Run 2, Run 3, Run 3, Run 3]"

lemma lock_race:
  "let s = run_sched LOCK_STALE_MS LOCK_WAIT_MS (lock_start [1, 2, 3] 0) race
   in in_action s 2 \<and> in_action s 3"
  by (simp add: in_action_def run_sched_def race_def lock_start_def write_inode_def Let_def
      stale_owner_def processIsAlive_def judged_def LOCK_STALE_MS_def LOCK_WAIT_MS_def)

text \<open>
  A process that finds the lock and reads it just after its owner has released it does not try again:
  \<open>statSync\<close> throws \<open>ENOENT\<close>, and so does \<open>withLock\<close>.
\<close>

lemma lock_waiter_fails:
  "s_pc (run_sched LOCK_STALE_MS LOCK_WAIT_MS (lock_start [1, 2] 0)
     [Run 1, Run 1, Run 2, Run 1, Run 1, Run 1, Run 2, Run 2]) 2 = Threw ENOENT"
  by (simp add: run_sched_def lock_start_def write_inode_def LOCK_STALE_MS_def LOCK_WAIT_MS_def)

text \<open>A lock older than \<open>staleMs\<close> is taken from a process that still works.\<close>

lemma lock_taken_from_live:
  "let s = run_sched LOCK_STALE_MS LOCK_WAIT_MS (lock_start [1, 2] 0)
     [Run 1, Run 1, Tick 1800001, Run 2, Run 2, Run 2, Run 2, Run 2]
   in in_action s 1 \<and> in_action s 2"
  by (simp add: in_action_def run_sched_def lock_start_def write_inode_def Let_def
      stale_owner_def processIsAlive_def judged_def LOCK_STALE_MS_def LOCK_WAIT_MS_def)

end
