(* ===== verification/L2Pool.thy ===== *)
theory L2Pool
  imports JS_Base
begin

text \<open>
  The bounded concurrency of the batch audit (src/scripts/service-l2-batch.mjs, \<open>mapLimit\<close>): a fixed
  number of workers take the next index of a list each time the item before has settled. What runs
  between two awaits is one step; a run is the order in which the workers' items settle, which is
  arbitrary. The outcome of an item is given by \<open>f\<close>, the error of its rejection or its value.
\<close>

section \<open>Workers\<close>

text \<open>A worker awaits the item it took, has found no more items, or was ended by a rejection.\<close>

datatype worker = Awaiting nat | Done | Rejected nat

record ('e, 'r) pool =
  p_next :: nat
  p_results :: "'r option list"
  p_workers :: "worker list"
  p_calls :: "nat list"
  p_error :: "'e option"

text \<open>The loop of \<open>runWorker\<close> up to its next await: \<open>next++\<close>, and the call for that item.\<close>

definition take_item :: "nat \<Rightarrow> ('e, 'r) pool \<Rightarrow> ('e, 'r) pool \<times> worker" where
  "take_item n p = (let i = p_next p in
     if n \<le> i then (p\<lparr>p_next := i + 1\<rparr>, Done)
     else (p\<lparr>p_next := i + 1, p_calls := p_calls p @ [i]\<rparr>, Awaiting i))"

definition start_worker :: "nat \<Rightarrow> ('e, 'r) pool \<Rightarrow> ('e, 'r) pool" where
  "start_worker n p = (case take_item n p of (q, st) \<Rightarrow> q\<lparr>p_workers := p_workers q @ [st]\<rparr>)"

text \<open>\<open>Array.from({ length: Math.min(limit, items.length) }, runWorker)\<close>.\<close>

definition mapLimit_start :: "nat \<Rightarrow> nat \<Rightarrow> ('e, 'r) pool" where
  "mapLimit_start n limit = (start_worker n ^^ min limit n)
     \<lparr>p_next = 0, p_results = replicate n None, p_workers = [], p_calls = [], p_error = None\<rparr>"

text \<open>The item of worker \<open>w\<close> settles: its result is stored and the worker loops, or it is rejected
and with it, unless another was before, \<open>Promise.all\<close>.\<close>

definition settle :: "nat \<Rightarrow> (nat \<Rightarrow> 'e + 'r) \<Rightarrow> ('e, 'r) pool \<Rightarrow> nat \<Rightarrow> ('e, 'r) pool" where
  "settle n f p w = (case p_workers p ! w of
     Awaiting i \<Rightarrow> (case f i of
       Inr v \<Rightarrow> (case take_item n (p\<lparr>p_results := (p_results p)[i := Some v]\<rparr>) of
           (q, st) \<Rightarrow> q\<lparr>p_workers := (p_workers q)[w := st]\<rparr>)
     | Inl e \<Rightarrow> p\<lparr>p_workers := (p_workers p)[w := Rejected i],
           p_error := (if p_error p = None then Some e else p_error p)\<rparr>)
   | _ \<Rightarrow> p)"

definition awaiting :: "('e, 'r) pool \<Rightarrow> nat \<Rightarrow> bool" where
  "awaiting p w \<longleftrightarrow> w < length (p_workers p) \<and> (case p_workers p ! w of Awaiting i \<Rightarrow> True | _ \<Rightarrow> False)"

text \<open>A run: only items that are awaited settle.\<close>

fun mapLimit_run :: "nat \<Rightarrow> (nat \<Rightarrow> 'e + 'r) \<Rightarrow> ('e, 'r) pool \<Rightarrow> nat list \<Rightarrow> ('e, 'r) pool option" where
  "mapLimit_run n f p [] = Some p"
| "mapLimit_run n f p (w # ws) = (if awaiting p w then mapLimit_run n f (settle n f p w) ws else None)"

text \<open>What \<open>mapLimit\<close> returns: the first rejection, or the results once every worker is done.\<close>

definition mapLimit_outcome :: "('e, 'r) pool \<Rightarrow> ('e + 'r option list) option" where
  "mapLimit_outcome p = (case p_error p of
     Some e \<Rightarrow> Some (Inl e)
   | None \<Rightarrow> if list_all (\<lambda>st. st = Done) (p_workers p) then Some (Inr (p_results p)) else None)"

section \<open>The invariant of the workers\<close>

text \<open>The item a worker has taken and not turned into a result, and those of all workers.\<close>

definition taken :: "worker \<Rightarrow> nat list" where
  "taken st = (case st of Awaiting i \<Rightarrow> [i] | Rejected i \<Rightarrow> [i] | Done \<Rightarrow> [])"

definition taken_items :: "worker list \<Rightarrow> nat list" where
  "taken_items ws = concat (map taken ws)"

lemma taken_simps [simp]: "taken (Awaiting i) = [i]" "taken (Rejected i) = [i]" "taken Done = []"
  by (simp_all add: taken_def)

lemma taken_items_append [simp]: "taken_items (ws @ [st]) = taken_items ws @ taken st"
  by (simp add: taken_items_def)

text \<open>One worker's item among those of the others.\<close>

lemma taken_items_update:
  assumes "w < length ws"
  shows "\<exists>A B. taken_items ws = A @ taken (ws ! w) @ B \<and> (\<forall>st. taken_items (ws[w := st]) = A @ taken st @ B)"
proof (intro exI conjI allI)
  have "taken_items (xs @ st # ys) = taken_items xs @ taken st @ taken_items ys" for xs st ys
    by (simp add: taken_items_def)
  note split = this
  show "taken_items ws = taken_items (take w ws) @ taken (ws ! w) @ taken_items (drop (Suc w) ws)"
    using split id_take_nth_drop [OF assms] by metis
  show "taken_items (ws[w := st]) = taken_items (take w ws) @ taken st @ taken_items (drop (Suc w) ws)" for st
    using split by (simp add: upd_conv_take_nth_drop [OF assms])
qed

lemma set_update: "w < length ws \<Longrightarrow> set (ws[w := st]) = insert st (set (take w ws @ drop (Suc w) ws))"
  by (auto simp: upd_conv_take_nth_drop)

text \<open>
  The data of a pool: each item below \<open>next\<close> is with a worker or has its result, never both, and a
  result is what its item settled with.
\<close>

definition stored :: "'r option list \<Rightarrow> nat set" where
  "stored rs = {i. i < length rs \<and> rs ! i \<noteq> None}"

definition items_inv :: "nat \<Rightarrow> (nat \<Rightarrow> 'e + 'r) \<Rightarrow> nat \<Rightarrow> 'r option list \<Rightarrow> nat set \<Rightarrow> bool" where
  "items_inv n f k rs T \<longleftrightarrow> length rs = n \<and> T \<inter> stored rs = {} \<and> T \<union> stored rs = {..<min k n} \<and>
     (\<forall>i < n. \<forall>v. rs ! i = Some v \<longrightarrow> f i = Inr v)"

lemma items_take: "items_inv n f k rs T \<Longrightarrow> k < n \<Longrightarrow> items_inv n f (Suc k) rs (insert k T)"
proof -
  assume a: "items_inv n f k rs T" "k < n"
  then have "k \<notin> stored rs" by (auto simp: items_inv_def)
  moreover have "{..<min (Suc k) n} = insert k {..<min k n}" using a(2) by auto
  ultimately show ?thesis using a by (auto simp: items_inv_def)
qed

lemma items_end: "items_inv n f k rs T \<Longrightarrow> n \<le> k \<Longrightarrow> items_inv n f (Suc k) rs T"
  by (simp add: items_inv_def min_def)

lemma items_store:
  assumes "items_inv n f k rs T" and "i \<in> T" and "f i = Inr v"
  shows "items_inv n f k (rs[i := Some v]) (T - {i})"
proof -
  have "i < length rs" using assms(1,2) by (auto simp: items_inv_def)
  then have "stored (rs[i := Some v]) = insert i (stored rs)"
    by (auto simp: stored_def nth_list_update)
  moreover have "f j = Inr u" if "j < length rs" "rs[i := Some v] ! j = Some u" for j u
    using that assms by (cases "j = i") (auto simp: items_inv_def)
  ultimately show ?thesis using assms by (auto simp: items_inv_def)
qed

definition pool_inv :: "nat \<Rightarrow> (nat \<Rightarrow> 'e + 'r) \<Rightarrow> ('e, 'r) pool \<Rightarrow> bool" where
  "pool_inv n f p \<longleftrightarrow>
     items_inv n f (p_next p) (p_results p) (set (taken_items (p_workers p))) \<and>
     distinct (taken_items (p_workers p)) \<and> p_calls p = [0..<min (p_next p) n] \<and>
     (Done \<in> set (p_workers p) \<longrightarrow> n \<le> p_next p) \<and>
     (p_error p = None \<longleftrightarrow> (\<forall>i. Rejected i \<notin> set (p_workers p))) \<and>
     (\<forall>e. p_error p = Some e \<longrightarrow> (\<exists>i < n. f i = Inl e))"

text \<open>A worker that looks for an item, put among the others at its place.\<close>

lemma pool_inv_next:
  assumes items: "items_inv n f (p_next p) (p_results p) (set A \<union> set B)"
    and calls: "p_calls p = [0..<min (p_next p) n]" and dist: "distinct (A @ B)"
    and t: "take_item n p = (q, st)"
  shows "items_inv n f (p_next q) (p_results q) (set (A @ taken st @ B)) \<and> distinct (A @ taken st @ B) \<and>
    p_calls q = [0..<min (p_next q) n] \<and> (st = Done \<longrightarrow> n \<le> p_next q) \<and> p_next p \<le> p_next q \<and>
    p_workers q = p_workers p \<and> p_error q = p_error p \<and> p_results q = p_results p \<and> (\<forall>i. st \<noteq> Rejected i)"
proof (cases "n \<le> p_next p")
  case True
  then have "min (p_next p) n = min (Suc (p_next p)) n" by simp
  with True t items_end [OF items True] calls dist show ?thesis
    by (auto simp: take_item_def Let_def)
next
  case False
  then have new: "p_next p \<notin> set A \<union> set B" using items by (auto simp: items_inv_def)
  have "[0..<min (Suc (p_next p)) n] = [0..<min (p_next p) n] @ [p_next p]" using False by (simp add: min_def)
  with False t items_take [OF items] calls dist new show ?thesis
    by (auto simp: take_item_def Let_def)
qed

lemma pool_inv_start:
  fixes f :: "nat \<Rightarrow> 'e + 'r"
  shows "pool_inv n f (mapLimit_start n limit)"
proof -
  let ?zero = "\<lparr>p_next = 0, p_results = replicate n None, p_workers = [], p_calls = [], p_error = None\<rparr>
    :: ('e, 'r) pool"
  have "pool_inv n f ((start_worker n ^^ k) ?zero) \<and> length (p_workers ((start_worker n ^^ k) ?zero)) = k" for k
  proof (induction k)
    case 0
    show ?case by (auto simp: pool_inv_def items_inv_def stored_def taken_items_def)
  next
    case (Suc k)
    let ?p = "(start_worker n ^^ k) ?zero"
    obtain q st where t: "take_item n ?p = (q, st)" by (cases "take_item n ?p")
    have inv: "pool_inv n f ?p" using Suc by blast
    have nx: "items_inv n f (p_next q) (p_results q) (set (taken_items (p_workers ?p) @ taken st @ [])) \<and>
        distinct (taken_items (p_workers ?p) @ taken st @ []) \<and>
        p_calls q = [0..<min (p_next q) n] \<and> (st = Done \<longrightarrow> n \<le> p_next q) \<and> p_next ?p \<le> p_next q \<and>
        p_workers q = p_workers ?p \<and> p_error q = p_error ?p \<and> p_results q = p_results ?p \<and>
        (\<forall>i. st \<noteq> Rejected i)"
      by (rule pool_inv_next [OF _ _ _ t]) (use inv in \<open>simp_all add: pool_inv_def\<close>)
    have st: "(start_worker n ^^ Suc k) ?zero = q\<lparr>p_workers := p_workers q @ [st]\<rparr>"
      by (simp add: start_worker_def t)
    have "Done \<in> set (p_workers ?p) \<Longrightarrow> n \<le> p_next q" using inv nx by (simp add: pool_inv_def)
    moreover have "p_error q = None \<longleftrightarrow> (\<forall>i. Rejected i \<notin> set (p_workers q @ [st]))"
      using inv nx by (fastforce simp: pool_inv_def)
    moreover have "\<forall>e. p_error q = Some e \<longrightarrow> (\<exists>i < n. f i = Inl e)"
      using inv nx by (simp add: pool_inv_def)
    moreover have "length (p_workers q) = k" using Suc nx by simp
    ultimately show ?case
      unfolding st using nx by (auto simp: pool_inv_def)
  qed
  then show ?thesis by (simp add: mapLimit_start_def)
qed

lemma workers_settle: "length (p_workers (settle n f p w)) = length (p_workers p)"
  by (auto simp: settle_def take_item_def Let_def split: worker.splits sum.splits)

lemma workers_start: "length (p_workers (mapLimit_start n limit :: ('e, 'r) pool)) = min limit n"
proof -
  have "length (p_workers ((start_worker n ^^ k) p)) = length (p_workers p) + k" for k and p :: "('e, 'r) pool"
    by (induction k) (auto simp: start_worker_def take_item_def Let_def split: prod.splits)
  then show ?thesis by (simp add: mapLimit_start_def)
qed

lemma pool_inv_settle:
  assumes inv: "pool_inv n f p" and w: "awaiting p w"
  shows "pool_inv n f (settle n f p w)"
proof -
  let ?ws = "p_workers p"
  obtain i where i: "?ws ! w = Awaiting i" and len: "w < length ?ws"
    using w by (auto simp: awaiting_def split: worker.splits)
  obtain A B where AB: "taken_items ?ws = A @ [i] @ B" "\<And>st. taken_items (?ws[w := st]) = A @ taken st @ B"
    using taken_items_update [OF len] i by auto
  have others: "x \<in> set (?ws[w := st]) \<longleftrightarrow> x = st \<or> x \<in> set (take w ?ws @ drop (Suc w) ?ws)" for x st
    using set_update [OF len] by simp
  have mine: "x \<in> set ?ws \<longleftrightarrow> x = Awaiting i \<or> x \<in> set (take w ?ws @ drop (Suc w) ?ws)" for x
    using others [of x "?ws ! w"] i by (metis list_update_id)
  have fresh: "i \<notin> set A \<union> set B" "distinct (A @ B)" using inv AB(1) by (auto simp: pool_inv_def)
  show ?thesis
  proof (cases "f i")
    case (Inl e)
    have "i < n" using inv AB(1) by (auto simp: pool_inv_def items_inv_def)
    with inv Inl i show ?thesis
      using AB others mine by (auto simp: pool_inv_def settle_def)
  next
    case (Inr v)
    let ?p' = "p\<lparr>p_results := (p_results p)[i := Some v]\<rparr>"
    obtain q st where t: "take_item n ?p' = (q, st)" by (cases "take_item n ?p'")
    have s: "settle n f p w = q\<lparr>p_workers := (p_workers q)[w := st]\<rparr>"
      using i Inr t by (simp add: settle_def)
    have "set (A @ [i] @ B) - {i} = set A \<union> set B" using fresh(1) by auto
    then have items: "items_inv n f (p_next ?p') (p_results ?p') (set A \<union> set B)"
      using items_store [of n f "p_next p" "p_results p" "set (taken_items ?ws)" i v] inv AB(1) Inr
      by (simp add: pool_inv_def)
    have calls: "p_calls ?p' = [0..<min (p_next ?p') n]" using inv by (simp add: pool_inv_def)
    note nx = pool_inv_next [OF items calls fresh(2) t]
    have idle: "n \<le> p_next q" if "Done \<in> set (?ws[w := st])"
    proof -
      have "st = Done \<or> Done \<in> set ?ws"
        using that others [of Done st] mine [of Done] by blast
      then show ?thesis using nx inv by (auto simp: pool_inv_def)
    qed
    have rej: "Rejected j \<in> set (?ws[w := st]) \<longleftrightarrow> Rejected j \<in> set ?ws" for j
      using others [of "Rejected j" st] mine [of "Rejected j"] nx by blast
    have "p_error q = None \<longleftrightarrow> (\<forall>j. Rejected j \<notin> set (?ws[w := st]))"
      using inv nx rej by (simp add: pool_inv_def)
    moreover have "\<forall>e. p_error q = Some e \<longrightarrow> (\<exists>i < n. f i = Inl e)"
      using inv nx by (simp add: pool_inv_def)
    moreover have "p_workers q = ?ws" using nx by simp
    moreover have "items_inv n f (p_next q) (p_results q) (set (taken_items (?ws[w := st])))"
      "distinct (taken_items (?ws[w := st]))"
      unfolding AB(2) using nx by blast+
    moreover have "p_calls q = [0..<min (p_next q) n]" using nx by blast
    ultimately show ?thesis
      unfolding s pool_inv_def by (simp add: idle)
  qed
qed

lemma pool_inv_run:
  "pool_inv n f p \<Longrightarrow> mapLimit_run n f p ws = Some q \<Longrightarrow>
     pool_inv n f q \<and> length (p_workers q) = length (p_workers p)"
proof (induction ws arbitrary: p)
  case (Cons w ws)
  then have "awaiting p w" "mapLimit_run n f (settle n f p w) ws = Some q" by (auto split: if_splits)
  with Cons show ?case by (metis pool_inv_settle workers_settle)
qed simp

text \<open>Each settled item leaves the set of those still to settle.\<close>

lemma unsettled_settle:
  assumes inv: "pool_inv n f p" and w: "awaiting p w"
  shows "card {i. i < n \<and> p_results (settle n f p w) ! i = None \<and> Rejected i \<notin> set (p_workers (settle n f p w))} + 1
    = card {i. i < n \<and> p_results p ! i = None \<and> Rejected i \<notin> set (p_workers p)}"
    (is "card ?S' + 1 = card ?S")
proof -
  let ?ws = "p_workers p"
  obtain i where i: "?ws ! w = Awaiting i" and len: "w < length ?ws"
    using w by (auto simp: awaiting_def split: worker.splits)
  obtain A B where AB: "taken_items ?ws = A @ [i] @ B" "\<And>st. taken_items (?ws[w := st]) = A @ taken st @ B"
    using taken_items_update [OF len] i by auto
  have rejected: "Rejected j \<in> set xs \<Longrightarrow> j \<in> set (taken_items xs)" for j xs
    by (auto simp: taken_items_def intro!: bexI [of _ "Rejected j"])
  have dist: "distinct (A @ [i] @ B)" and items: "items_inv n f (p_next p) (p_results p) (set (A @ [i] @ B))"
    using inv AB(1) by (auto simp: pool_inv_def)
  have "i < n" "p_results p ! i = None" using items by (auto simp: items_inv_def stored_def)
  moreover have "Rejected i \<notin> set ?ws"
  proof
    assume "Rejected i \<in> set ?ws"
    then obtain v where v: "v < length ?ws" "?ws ! v = Rejected i" by (auto simp: in_set_conv_nth)
    then have "v \<noteq> w" using i by auto
    then have "Rejected i \<in> set (?ws[w := Done])"
      using v by (metis length_list_update nth_list_update_neq nth_mem)
    then show False using rejected [of i "?ws[w := Done]"] AB(2) [of Done] dist by auto
  qed
  ultimately have mem: "i \<in> ?S" by blast
  have rej: "Rejected j \<in> set (?ws[w := st]) \<longleftrightarrow> st = Rejected j \<or> Rejected j \<in> set ?ws" for j st
    using set_update [OF len, of st] set_update [OF len, of "?ws ! w"] i by (metis insert_iff list_update_id worker.distinct(3))
  have "?S' = ?S - {i}"
  proof (cases "f i")
    case (Inl e)
    then show ?thesis using i rej by (auto simp: settle_def)
  next
    case (Inr v)
    obtain q st where t: "take_item n (p\<lparr>p_results := (p_results p)[i := Some v]\<rparr>) = (q, st)"
      by (cases "take_item n (p\<lparr>p_results := (p_results p)[i := Some v]\<rparr>)")
    have q: "p_results q = (p_results p)[i := Some v]" "p_workers q = ?ws" "\<forall>j. st \<noteq> Rejected j"
      using t by (auto simp: take_item_def Let_def split: if_splits)
    have l: "length (p_results p) = n" using items by (simp add: items_inv_def)
    show ?thesis
      using i Inr t q rej l \<open>i < n\<close> by (auto simp: settle_def nth_list_update split: if_splits)
  qed
  moreover have "finite ?S" by simp
  ultimately show ?thesis using mem card_Suc_Diff1 [of ?S i] by simp
qed

lemma run_length:
  assumes "pool_inv n f p" and "mapLimit_run n f p ws = Some q"
  shows "length ws \<le> card {i. i < n \<and> p_results p ! i = None \<and> Rejected i \<notin> set (p_workers p)}"
  using assms
proof (induction ws arbitrary: p)
  case (Cons w ws)
  then have w: "awaiting p w" "mapLimit_run n f (settle n f p w) ws = Some q" by (auto split: if_splits)
  note Cons.IH [OF pool_inv_settle [OF Cons.prems(1) w(1)] w(2)]
  with unsettled_settle [OF Cons.prems(1) w(1)] show ?case by simp
qed simp

lemma all_done:
  assumes inv: "pool_inv n f p" and wk: "0 < n \<longrightarrow> p_workers p \<noteq> []"
    and idle: "list_all (\<lambda>st. st = Done) (p_workers p)"
  shows "p_calls p = [0..<n] \<and> list_all2 (\<lambda>i r. \<exists>v. r = Some v \<and> f i = Inr v) [0..<n] (p_results p)"
proof -
  have none: "taken_items (p_workers p) = []" using idle by (auto simp: taken_items_def list_all_iff)
  have "n \<le> p_next p"
  proof (cases "n = 0")
    case False
    then have "hd (p_workers p) \<in> set (p_workers p)" using wk by simp
    then show ?thesis using idle inv by (auto simp: list_all_iff pool_inv_def)
  qed simp
  have items: "items_inv n f (p_next p) (p_results p) {}"
    using inv none by (simp add: pool_inv_def)
  with \<open>n \<le> p_next p\<close> have st: "stored (p_results p) = {..<n}" and len: "length (p_results p) = n"
    by (simp_all add: items_inv_def min_def)
  have "\<exists>v. p_results p ! i = Some v \<and> f i = Inr v" if "i < n" for i
  proof -
    have "i \<in> stored (p_results p)" using that st by simp
    then obtain v where v: "p_results p ! i = Some v" by (auto simp: stored_def)
    moreover have "f i = Inr v" using items v that by (simp add: items_inv_def)
    ultimately show ?thesis by blast
  qed
  moreover have "p_calls p = [0..<n]" using inv \<open>n \<le> p_next p\<close> by (simp add: pool_inv_def min_def)
  ultimately show ?thesis by (simp add: list_all2_conv_all_nth len)
qed

lemma mapLimit_results:
  fixes f :: "nat \<Rightarrow> 'e + 'r"
  assumes "0 < limit" and "mapLimit_run n f (mapLimit_start n limit) ws = Some p"
    and "mapLimit_outcome p = Some (Inr rs)"
  shows "p_calls p = [0..<n] \<and> list_all2 (\<lambda>i r. \<exists>v. r = Some v \<and> f i = Inr v) [0..<n] rs"
proof -
  have inv: "pool_inv n f p" and len: "length (p_workers p) = min limit n"
    using pool_inv_run [OF pool_inv_start assms(2)] by (simp_all add: workers_start)
  have "0 < n \<longrightarrow> p_workers p \<noteq> []" using len assms(1) by auto
  from all_done [OF inv this] assms(3) show ?thesis
    by (auto simp: mapLimit_outcome_def split: option.splits if_splits)
qed

text \<open>C14: mapLimit with a positive limit, whatever the order in which its items settle: the items are
called in the order of the list, none twice, and at most limit of them are awaited at a time; no run
settles more items than there are, and when nothing is awaited any more there is an outcome, which is
either the results of all items in their places, every item having been called, or the error of one.\<close>

theorem mapLimit_exactly_once:
  fixes f :: "nat \<Rightarrow> 'e + 'r"
  assumes "0 < limit" and "mapLimit_run n f (mapLimit_start n limit) ws = Some p"
  shows "p_calls p = [0..<length (p_calls p)] \<and> length (p_calls p) \<le> n \<and> length ws \<le> n \<and>
    card {w. awaiting p w} \<le> limit \<and>
    ((\<forall>w. \<not> awaiting p w) \<longrightarrow> mapLimit_outcome p \<noteq> None) \<and>
    (case mapLimit_outcome p of
       Some (Inr rs) \<Rightarrow> p_calls p = [0..<n] \<and>
         list_all2 (\<lambda>i r. \<exists>v. r = Some v \<and> f i = Inr v) [0..<n] rs
     | Some (Inl e) \<Rightarrow> \<exists>i < n. f i = Inl e
     | None \<Rightarrow> True)"
proof -
  note inv0 = pool_inv_start [of n f limit]
  note run = pool_inv_run [OF inv0 assms(2)]
  have inv: "pool_inv n f p" and len: "length (p_workers p) = min limit n"
    using run by (simp_all add: workers_start)
  have calls: "p_calls p = [0..<min (p_next p) n]" using inv by (simp add: pool_inv_def)
  have "card {i. i < n \<and> p_results (mapLimit_start n limit :: ('e, 'r) pool) ! i = None \<and>
      Rejected i \<notin> set (p_workers (mapLimit_start n limit :: ('e, 'r) pool))} \<le> card {..<n}"
    by (intro card_mono) auto
  then have ws: "length ws \<le> n" using run_length [OF inv0 assms(2)] by simp
  have "card {w. awaiting p w} \<le> card {..<min limit n}"
    by (intro card_mono) (auto simp: awaiting_def len)
  then have busy: "card {w. awaiting p w} \<le> limit" by simp
  have ended: "mapLimit_outcome p \<noteq> None" if "\<forall>w. \<not> awaiting p w"
  proof (cases "p_error p")
    case None
    have "st = Done" if mem: "st \<in> set (p_workers p)" for st
    proof -
      obtain v where v: "v < length (p_workers p)" "p_workers p ! v = st"
        using mem by (auto simp: in_set_conv_nth)
      have "\<not> awaiting p v" using \<open>\<forall>w. \<not> awaiting p w\<close> by blast
      moreover have "st \<noteq> Rejected i" for i using None inv mem by (auto simp: pool_inv_def)
      ultimately show ?thesis using v by (auto simp: awaiting_def split: worker.splits)
    qed
    then show ?thesis using None by (simp add: mapLimit_outcome_def list_all_iff)
  qed (simp add: mapLimit_outcome_def)
  have res: "case mapLimit_outcome p of
       Some (Inr rs) \<Rightarrow> p_calls p = [0..<n] \<and>
         list_all2 (\<lambda>i r. \<exists>v. r = Some v \<and> f i = Inr v) [0..<n] rs
     | Some (Inl e) \<Rightarrow> \<exists>i < n. f i = Inl e
     | None \<Rightarrow> True"
    using mapLimit_results [OF assms] inv
    by (auto simp: mapLimit_outcome_def pool_inv_def split: option.splits)
  have "length (p_calls p) = min (p_next p) n" using calls by simp
  with calls ws busy ended res show ?thesis by simp
qed

theorem mapLimit_exactly_once_witness:
  "\<exists>p :: (string, nat) pool. mapLimit_run 3 (\<lambda>i. Inr (10 * i)) (mapLimit_start 3 2) [1, 1, 0] = Some p \<and>
     p_calls p = [0, 1, 2] \<and> card {w. awaiting p w} \<le> 2 \<and> p_results p = [Some 0, Some 10, Some 20]"
proof -
  let ?run = "mapLimit_run 3 (\<lambda>i. Inr (10 * i)) (mapLimit_start 3 2) [1, 1, 0] :: (string, nat) pool option"
  have r: "?run = Some \<lparr>p_next = 5, p_results = [Some 0, Some 10, Some 20], p_workers = [Done, Done],
      p_calls = [0, 1, 2], p_error = None\<rparr>"
    by (simp add: mapLimit_start_def start_worker_def take_item_def settle_def awaiting_def Let_def
        numeral_eq_Suc)
  from mapLimit_exactly_once [OF _ r] show ?thesis unfolding r by simp
qed

end
