(* ===== verification/JS_Effects.thy ===== *)
theory JS_Effects
  imports JS_Base
begin

text \<open>
  Code with effects: a list of the events it causes, in order, with the error it throws or the value it
  returns. What follows a step runs only when the step did not throw; the events of a step that threw
  have happened all the same. Errors are of any type, texts for the scripts (\<open>eff\<close>).
\<close>

type_synonym ('ev, 'a) eff = "'ev list \<times> (string + 'a)"

type_synonym ('ev, 'e, 'a) run = "'ev list \<times> ('e + 'a)"

definition thenA :: "('ev, 'e, 'a) run \<Rightarrow> ('a \<Rightarrow> ('ev, 'e, 'b) run) \<Rightarrow> ('ev, 'e, 'b) run" where
  "thenA m f = (case m of (evs, Inl e) \<Rightarrow> (evs, Inl e)
     | (evs, Inr x) \<Rightarrow> (case f x of (evs', r) \<Rightarrow> (evs @ evs', r)))"

definition doA :: "'ev \<Rightarrow> ('ev, 'e, unit) run" where
  "doA ev = ([ev], Inr ())"

definition retA :: "'a \<Rightarrow> ('ev, 'e, 'a) run" where
  "retA x = ([], Inr x)"

text \<open>A computation without effects that may throw.\<close>

definition liftA :: "'e + 'a \<Rightarrow> ('ev, 'e, 'a) run" where
  "liftA r = ([], r)"

fun seqA :: "('ev, 'e, 'a) run list \<Rightarrow> ('ev, 'e, unit) run" where
  "seqA [] = ([], Inr ())"
| "seqA (m # ms) = thenA m (\<lambda>_. seqA ms)"

text \<open>\<open>catch\<close>: the events stay, the error becomes a value.\<close>

definition catchA :: "('ev, 'e, 'a) run \<Rightarrow> ('e \<Rightarrow> ('ev, 'e, 'a) run) \<Rightarrow> ('ev, 'e, 'a) run" where
  "catchA m h = (case m of (evs, Inl e) \<Rightarrow> (case h e of (evs', r) \<Rightarrow> (evs @ evs', r))
     | (evs, Inr x) \<Rightarrow> (evs, Inr x))"

lemma thenA_Inr_iff:
  "thenA m f = (evs, Inr y) \<longleftrightarrow>
     (\<exists>evs1 x evs2. m = (evs1, Inr x) \<and> f x = (evs2, Inr y) \<and> evs = evs1 @ evs2)"
  by (auto simp: thenA_def split: prod.splits sum.splits)

lemma thenA_Inl_iff:
  "thenA m f = (evs, Inl e) \<longleftrightarrow> m = (evs, Inl e) \<or>
     (\<exists>evs1 x evs2. m = (evs1, Inr x) \<and> f x = (evs2, Inl e) \<and> evs = evs1 @ evs2)"
  by (auto simp: thenA_def split: prod.splits sum.splits)

lemma thenA_doA [simp]: "thenA (doA ev) f = (ev # fst (f ()), snd (f ()))"
  by (simp add: thenA_def doA_def split: prod.split)

lemma thenA_ret [simp]: "thenA (retA x) f = f x"
  by (simp add: thenA_def retA_def split: prod.split)

lemma thenA_lift [simp]: "thenA (liftA (Inr x)) f = f x" "thenA (liftA (Inl e)) f = ([], Inl e)"
  by (simp_all add: thenA_def liftA_def split: prod.split)

lemma thenA_first: "x \<in> set (fst m) \<Longrightarrow> x \<in> set (fst (thenA m f))"
  by (auto simp: thenA_def split: prod.splits sum.splits)

lemma fst_snd_eff [simp]:
  "fst (retA x) = []" "snd (retA x) = Inr x" "fst (doA e) = [e]" "snd (doA e) = Inr ()"
  "fst (liftA r) = []" "snd (liftA r) = r"
  by (simp_all add: retA_def doA_def liftA_def)

lemma snd_thenA: "snd (thenA m f) = (case snd m of Inl e \<Rightarrow> Inl e | Inr x \<Rightarrow> snd (f x))"
  by (auto simp: thenA_def split: prod.splits sum.splits)

lemma fst_thenA: "fst (thenA m f) = fst m @ (case snd m of Inl e \<Rightarrow> [] | Inr x \<Rightarrow> fst (f x))"
  by (auto simp: thenA_def split: prod.splits sum.splits)

lemma catchA_ok: "snd m = Inr x \<Longrightarrow> catchA m h = m"
  by (auto simp: catchA_def split: prod.splits)

lemma thenA_assoc: "thenA (thenA m f) g = thenA m (\<lambda>x. thenA (f x) g)"
  by (auto simp: thenA_def split: prod.splits sum.splits)

end
