(* ===== verification/L2Batch.thy ===== *)
theory L2Batch
  imports PRGate L2Pool JS_Effects
begin

text \<open>
  The batch audit of open pull requests (src/scripts/service-l2-batch.mjs) but for its lock (L2Lock) and
  its workers (L2Pool): options, the cache of results, the audit of one pull request, its comment and
  label, and the run. Git, gh, node, npm, the file system and the clock are arguments. The Chinese
  texts of the script, which are outside Latin-1, are those of an argument \<open>say\<close>.
\<close>

section \<open>Options\<close>

record l2_options =
  l2_repo :: string
  l2_exclude :: "jsnum list"
  l2_concurrency :: jsnum
  l2_publish :: bool
  l2_dryRun :: bool
  l2_keepWorktrees :: bool
  l2_force :: bool
  l2_prNumbers :: "jsnum list"
  l2_stateDir :: string
  l2_gateRef :: string

definition l2_defaults :: "string \<Rightarrow> l2_options" where
  "l2_defaults tmp = \<lparr>l2_repo = ''chaitin/OctoBus'', l2_exclude = [Fin 494], l2_concurrency = Fin 3,
     l2_publish = False, l2_dryRun = False, l2_keepWorktrees = False, l2_force = False,
     l2_prNumbers = [], l2_stateDir = path_join [tmp, ''octobus-service-l2-batch''],
     l2_gateRef = ''origin/ci/service-l2-gate''\<rparr>"

definition positiveInteger :: "string \<Rightarrow> string \<Rightarrow> string + jsnum" where
  "positiveInteger v flag = (let n = str_to_num v in
     if \<not> is_integer_num n \<or> num_lt n (Fin 1) then Inl (flag @ '' requires a positive integer'') else Inr n)"

text \<open>\<open>required(argv, ++i, arg)\<close> is \<open>requiredValue\<close> of the gate.\<close>

definition positive_arg :: "string \<Rightarrow> string list \<Rightarrow> string + jsnum \<times> string list" where
  "positive_arg flag rest = (case requiredValue flag rest of Inl e \<Rightarrow> Inl e
     | Inr (v, r) \<Rightarrow> (case positiveInteger v flag of Inl e \<Rightarrow> Inl e | Inr n \<Rightarrow> Inr (n, r)))"

text \<open>One turn of the loop over \<open>argv\<close>: the options so far, and what is left to read.\<close>

definition keep_rest :: "string + 'a \<times> string list \<Rightarrow> ('a \<Rightarrow> l2_options) \<Rightarrow> string + l2_options \<times> string list" where
  "keep_rest m f = (case m of Inl e \<Rightarrow> Inl e | Inr (v, r) \<Rightarrow> Inr (f v, r))"

definition l2_arg :: "string \<Rightarrow> l2_options \<Rightarrow> string \<Rightarrow> string list \<Rightarrow> string + l2_options \<times> string list" where
  "l2_arg cwd opts arg rest = (
     if arg = ''--repo'' then keep_rest (requiredValue arg rest) (\<lambda>v. opts\<lparr>l2_repo := v\<rparr>)
     else if arg = ''--gate-ref'' then keep_rest (requiredValue arg rest) (\<lambda>v. opts\<lparr>l2_gateRef := v\<rparr>)
     else if arg = ''--state-dir'' then
       keep_rest (requiredValue arg rest) (\<lambda>v. opts\<lparr>l2_stateDir := path_resolve cwd [v]\<rparr>)
     else if arg = ''--concurrency'' then
       keep_rest (positive_arg arg rest) (\<lambda>n. opts\<lparr>l2_concurrency := n\<rparr>)
     else if arg = ''--pr'' then
       keep_rest (positive_arg arg rest) (\<lambda>n. opts\<lparr>l2_prNumbers := l2_prNumbers opts @ [n]\<rparr>)
     else if arg = ''--exclude'' then
       keep_rest (positive_arg arg rest) (\<lambda>n. opts\<lparr>l2_exclude := add_once n (l2_exclude opts)\<rparr>)
     else if arg = ''--publish'' then Inr (opts\<lparr>l2_publish := True\<rparr>, rest)
     else if arg = ''--dry-run'' then Inr (opts\<lparr>l2_dryRun := True\<rparr>, rest)
     else if arg = ''--keep-worktrees'' then Inr (opts\<lparr>l2_keepWorktrees := True\<rparr>, rest)
     else if arg = ''--force'' then Inr (opts\<lparr>l2_force := True\<rparr>, rest)
     else Inl (''unknown argument: '' @ arg))"

lemma keep_rest_Inr: "keep_rest m f = Inr (o', r) \<longleftrightarrow> (\<exists>v. m = Inr (v, r) \<and> o' = f v)"
  by (auto simp: keep_rest_def split: sum.splits)

lemma l2_arg_shorter: "l2_arg cwd opts arg rest = Inr (o', r) \<Longrightarrow> length r \<le> length rest"
  unfolding l2_arg_def positive_arg_def keep_rest_Inr
  by (auto simp: keep_rest_Inr split: if_splits sum.splits dest: requiredValue_shorter)

function l2_args :: "string \<Rightarrow> l2_options \<Rightarrow> string list \<Rightarrow> string + l2_options" where
  "l2_args cwd opts [] = Inr opts"
| "l2_args cwd opts (arg # rest) = (case l2_arg cwd opts arg rest of
     Inl e \<Rightarrow> Inl e | Inr (o', r) \<Rightarrow> l2_args cwd o' r)"
  by pat_completeness auto
termination
  by (relation "measure (\<lambda>(cwd, opts, args). length args)") (auto dest: l2_arg_shorter)

definition l2_parseArgs :: "string \<Rightarrow> string \<Rightarrow> string list \<Rightarrow> string + l2_options" where
  "l2_parseArgs cwd tmp argv = l2_args cwd (l2_defaults tmp) argv"

lemma positiveInteger_pos: "positiveInteger v flag = Inr n \<Longrightarrow> \<exists>k. n = Fin (of_nat k) \<and> 0 < k"
proof -
  assume "positiveInteger v flag = Inr n"
  then have n: "is_integer_num n" "\<not> num_lt n (Fin 1)"
    by (auto simp: positiveInteger_def Let_def split: if_splits)
  then obtain r where r: "n = Fin r" "of_int (floor r) = r" by (auto simp: is_integer_num_def split: jsnum.splits)
  with n(2) have "1 \<le> floor r" by simp
  obtain m where m: "r = rat_of_int m" using r(2) by metis
  then have "rat_of_nat (nat m) = r" "0 < nat m" using \<open>1 \<le> floor r\<close> by simp_all
  then show ?thesis using r(1) by blast
qed

text \<open>The concurrency is always a positive integer.\<close>

definition positive_num :: "jsnum \<Rightarrow> bool" where
  "positive_num n \<longleftrightarrow> (\<exists>k. n = Fin (of_nat k) \<and> 0 < k)"

lemma positive_arg_num: "positive_arg flag rest = Inr (n, r) \<Longrightarrow> positive_num n"
  by (auto simp: positive_arg_def positive_num_def split: sum.splits dest: positiveInteger_pos)

lemma l2_arg_concurrency:
  "l2_arg cwd opts arg rest = Inr (o', r) \<Longrightarrow> positive_num (l2_concurrency opts) \<Longrightarrow>
     positive_num (l2_concurrency o')"
  unfolding l2_arg_def by (auto simp: keep_rest_Inr positive_arg_num split: if_splits)

lemma l2_args_concurrency:
  "l2_args cwd opts argv = Inr opts' \<Longrightarrow> positive_num (l2_concurrency opts) \<Longrightarrow>
     positive_num (l2_concurrency opts')"
  by (induction cwd opts argv rule: l2_args.induct)
    (auto split: sum.splits dest: l2_arg_concurrency)

lemma l2_parseArgs_concurrency:
  "l2_parseArgs cwd tmp argv = Inr opts \<Longrightarrow> positive_num (l2_concurrency opts)"
  using l2_args_concurrency [of cwd "l2_defaults tmp" argv opts]
  by (auto simp: l2_parseArgs_def l2_defaults_def positive_num_def intro!: exI [of _ 3])

section \<open>The world of an audit\<close>

datatype audit_event =
  AGit "string list"
| ARun string "string list" string
| AMkdir string
| AWrite string string
| ASave string jsval
| ARemove string
| ACopy string string
| ASymlink string string
| AAppend string string

text \<open>
  What one audit finds: the answers of git, the stored result of the pull request as JSON.parse reads
  it, the files, the lock of the dependency pool (an error or its turn), npm, the gate's dry run, the
  gate's process (its failure to start, its exit code) and its log, SHA-256, and the two times.
\<close>

record audit_world =
  aw_git :: "string list \<Rightarrow> spawned"
  aw_cached :: "(string + jsval) option"
  aw_exists :: "string \<Rightarrow> bool"
  aw_read :: "string \<Rightarrow> string"
  aw_lock :: "string \<Rightarrow> string option"
  aw_npm :: spawned
  aw_preflight :: spawned
  aw_start_error :: "string option"
  aw_exit :: "int option"
  aw_log :: "string option"
  aw_sha256 :: "string \<Rightarrow> string"
  aw_startedAt :: string
  aw_finishedAt :: string

type_synonym 'a audit = "(audit_event, 'a) eff"

text \<open>\<open>run\<close>: a command that fails throws, with what it printed.\<close>

definition run_message :: "string \<Rightarrow> string list \<Rightarrow> spawned \<Rightarrow> string" where
  "run_message cmd args r = cmd @ '' '' @ join '' '' args @ '' failed: '' @
     (if err_text r \<noteq> [] then err_text r else out_text r)"

definition run_sync :: "string \<Rightarrow> string list \<Rightarrow> spawned \<Rightarrow> string + spawned" where
  "run_sync cmd args r = (if status_or_1 r \<noteq> 0 then Inl (run_message cmd args r) else Inr r)"

definition git_strict :: "audit_world \<Rightarrow> string list \<Rightarrow> spawned audit" where
  "git_strict aw args = ([AGit args], run_sync ''git'' args (aw_git aw args))"

definition git_lenient :: "audit_world \<Rightarrow> string list \<Rightarrow> spawned audit" where
  "git_lenient aw args = ([AGit args], Inr (aw_git aw args))"

section \<open>Stored results\<close>

definition pr_number :: "jsval \<Rightarrow> string" where
  "pr_number pr = to_str (pget pr ''number'')"

definition l2_resultPath :: "l2_options \<Rightarrow> string \<Rightarrow> string" where
  "l2_resultPath opts number = path_join [l2_stateDir opts, ''results'', number @ ''.json'']"

definition readCached :: "audit_world \<Rightarrow> l2_options \<Rightarrow> jsval \<Rightarrow> string \<Rightarrow> string + jsval option" where
  "readCached aw opts pr gateSHA = (
     if l2_dryRun opts \<or> l2_force opts then Inr None
     else (case aw_cached aw of
         None \<Rightarrow> Inr None
       | Some (Inl e) \<Rightarrow> Inl e
       | Some (Inr cached) \<Rightarrow>
           if pget cached ''status'' = JStr ''blocked'' then Inr None
           else if pget cached ''headSHA'' = pget pr ''headRefOid'' \<and> pget cached ''gateSHA'' = JStr gateSHA
           then Inr (Some cached) else Inr None))"

definition writeResult :: "l2_options \<Rightarrow> jsval \<Rightarrow> unit audit" where
  "writeResult opts result = (let p = l2_resultPath opts (to_str (pget result ''number'')) in
     thenA (doA (AMkdir (path_dirname p))) (\<lambda>_. doA (ASave p result)))"

definition finish_audit :: "audit_world \<Rightarrow> l2_options \<Rightarrow> (string \<times> jsval) list \<Rightarrow> jsval audit" where
  "finish_audit aw opts result = (let r = JObj (set_key result ''finishedAt'' (JStr (aw_finishedAt aw))) in
     thenA (writeResult opts r) (\<lambda>_. ([], Inr r)))"

section \<open>The worktree and the gate\<close>

definition fetchMergeRef :: "audit_world \<Rightarrow> jsval \<Rightarrow> string option audit" where
  "fetchMergeRef aw pr = (let ref = ''refs/l2-audit/pr-'' @ pr_number pr in
     thenA (git_lenient aw [''fetch'', ''--force'', ''origin'', ''pull/'' @ pr_number pr @ ''/merge:'' @ ref])
       (\<lambda>fetched. ([], Inr (if status fetched = Some 0 then Some ref else None))))"

definition worktree_path :: "l2_options \<Rightarrow> jsval \<Rightarrow> string" where
  "worktree_path opts pr = path_join [l2_stateDir opts, ''worktrees'', ''pr-'' @ pr_number pr]"

definition removal :: "string \<Rightarrow> string list" where
  "removal worktree = [''worktree'', ''remove'', ''--force'', worktree]"

definition prepareWorktree :: "audit_world \<Rightarrow> l2_options \<Rightarrow> jsval \<Rightarrow> string \<Rightarrow> string audit" where
  "prepareWorktree aw opts pr mergeRef = (let worktree = worktree_path opts pr in
     thenA (if aw_exists aw worktree then thenA (git_lenient aw (removal worktree)) (\<lambda>_. ([], Inr ()))
            else ([], Inr ())) (\<lambda>_.
     thenA (doA (AMkdir (path_dirname worktree))) (\<lambda>_.
     thenA (git_strict aw [''worktree'', ''add'', ''--detach'', worktree, mergeRef]) (\<lambda>_.
     ([], Inr worktree)))))"

definition GATE_FILES :: "string list" where
  "GATE_FILES = [''services/scripts/service-pr-gate.mjs'', ''services/scripts/run-tests.mjs'',
     ''services/scripts/validate-service-package.mjs'', ''scripts/service-package-smoke.mjs'']"

definition gate_show :: "string \<Rightarrow> string \<Rightarrow> string list" where
  "gate_show gateSHA f = [''show'', gateSHA @ '':'' @ f]"

fun overlayGate :: "audit_world \<Rightarrow> string \<Rightarrow> string \<Rightarrow> string list \<Rightarrow> unit audit" where
  "overlayGate aw worktree gateSHA [] = ([], Inr ())"
| "overlayGate aw worktree gateSHA (f # fs) =
     thenA (git_lenient aw (gate_show gateSHA f)) (\<lambda>shown.
     if status shown \<noteq> Some 0 then ([], Inl (''gate file is missing at '' @ gateSHA @ '': '' @ f))
     else (let target = path_join [worktree, f] in
       thenA (doA (AMkdir (path_dirname target))) (\<lambda>_.
       thenA (doA (AWrite target (out_text shown))) (\<lambda>_.
       overlayGate aw worktree gateSHA fs))))"

definition dependencyFingerprint :: "audit_world \<Rightarrow> string \<Rightarrow> string" where
  "dependencyFingerprint aw worktree = (let found = filter (aw_exists aw) (map (\<lambda>f. path_join [worktree, f])
       [''services/package.json'', ''services/package-lock.json'', ''services/npm-shrinkwrap.json''])
     in take 20 (aw_sha256 aw (concat (map (aw_read aw) found))))"

definition NPM_INSTALL :: "string list" where
  "NPM_INSTALL = [''install'', ''--ignore-scripts'', ''--no-audit'', ''--no-fund'']"

text \<open>The action under the lock: the pool is installed unless it is complete.\<close>

definition install_pool :: "audit_world \<Rightarrow> string \<Rightarrow> string \<Rightarrow> string \<Rightarrow> unit audit" where
  "install_pool aw worktree pool fingerprint = (
     let modules = path_join [pool, ''node_modules'']; complete = path_join [pool, ''.install-complete''] in
     if \<not> aw_exists aw modules \<or> \<not> aw_exists aw complete then
       thenA (seqA [doA (ARemove modules), doA (ARemove complete), doA (AMkdir pool)]) (\<lambda>_.
       thenA (seqA (map (\<lambda>f. let source = path_join [worktree, ''services'', f] in
           if aw_exists aw source then doA (ACopy source (path_join [pool, f])) else ([], Inr ()))
         [''package.json'', ''package-lock.json'', ''npm-shrinkwrap.json''])) (\<lambda>_.
       thenA ([ARun ''npm'' NPM_INSTALL pool], run_sync ''npm'' NPM_INSTALL (aw_npm aw)) (\<lambda>_.
       doA (AWrite complete (fingerprint @ [CHR 0x0A])))))
     else ([], Inr ()))"

definition attachDependencyPool :: "audit_world \<Rightarrow> l2_options \<Rightarrow> string \<Rightarrow> string audit" where
  "attachDependencyPool aw opts worktree = (
     let fingerprint = dependencyFingerprint aw worktree;
         pool = path_join [l2_stateDir opts, ''dependency-pool'', fingerprint];
         target = path_join [worktree, ''services'', ''node_modules'']
     in thenA (case aw_lock aw (pool @ ''.lock'') of Some e \<Rightarrow> ([], Inl e)
          | None \<Rightarrow> install_pool aw worktree pool fingerprint) (\<lambda>_.
        thenA (if aw_exists aw target then doA (ARemove target) else ([], Inr ())) (\<lambda>_.
        thenA (doA (ASymlink (path_join [pool, ''node_modules'']) target)) (\<lambda>_.
        ([], Inr fingerprint)))))"

text \<open>\<open>execute\<close>: the first of the child's error and its end settles the call; a signal counts as 1.\<close>

definition execute_gate :: "audit_world \<Rightarrow> string \<Rightarrow> string \<Rightarrow> string list \<Rightarrow> string \<Rightarrow> int audit" where
  "execute_gate aw logPath cmd args cwd = (case aw_start_error aw of
     Some e \<Rightarrow> ([ARun cmd args cwd, AAppend logPath (''error: failed to start '' @ cmd @ '': '' @ e @ [CHR 0x0A])], Inr 1)
   | None \<Rightarrow> ([ARun cmd args cwd], Inr (case aw_exit aw of Some c \<Rightarrow> c | None \<Rightarrow> 1)))"

definition NO_SERVICE :: string where
  "NO_SERVICE = ''no service implementation changed''"

definition GATE_DRY :: "string list" where
  "GATE_DRY = [''services/scripts/service-pr-gate.mjs'', ''--base'', ''HEAD^1'', ''--head'', ''HEAD'',
     ''--dry-run'', ''--skip-install'', ''--skip-smoke'']"

definition GATE_RUN :: "string list" where
  "GATE_RUN = [''services/scripts/service-pr-gate.mjs'', ''--base'', ''HEAD^1'', ''--head'', ''HEAD'', ''--skip-install'']"

definition preflight_output :: "audit_world \<Rightarrow> string" where
  "preflight_output aw = out_text (aw_preflight aw) @ [CHR 0x0A] @ err_text (aw_preflight aw)"

text \<open>
  The lines of a log worth showing: those with one of the prefixes (two of which begin with a sign
  outside Latin-1, given by \<open>marks\<close>), or else its last lines.
\<close>

definition log_lines :: "string \<Rightarrow> string list" where
  "log_lines s = (let ws = split_on CHR 0x0A s;
       cut = (\<lambda>w. if w \<noteq> [] \<and> last w = CHR 0x0D then butlast w else w)
     in map cut (butlast ws) @ [last ws])"

definition last_n :: "nat \<Rightarrow> 'a list \<Rightarrow> 'a list" where
  "last_n n xs = drop (length xs - n) xs"

definition summarizeLog :: "string list \<Rightarrow> string option \<Rightarrow> string" where
  "summarizeLog marks logged = (
     let lines = log_lines (case logged of Some t \<Rightarrow> t | None \<Rightarrow> []);
         shown = filter (\<lambda>l. \<exists>m \<in> set ([''error:''] @ marks @
            [''service gate:'', ''service gate L2 candidates:'']). starts_with l m) lines
     in take 6000 (join [CHR 0x0A] (last_n 30 (if shown \<noteq> [] then shown
          else last_n 20 (filter (\<lambda>l. l \<noteq> []) lines)))))"

section \<open>The audit of one pull request\<close>

text \<open>The Chinese reasons of a result, and the other texts outside Latin-1.\<close>

datatype wording = DraftReason | NoMergeReason | DryOkReason | DryFailedReason | NoServiceReason
| PassedReason | FailedReason | AuditorError | CommentTitle | CommentStatus | CommentHead | CommentGate
| CommentReason | CommentOutput | CommentEnd | LabelPassed | LabelFailed | LabelBlocked | LabelNone

type_synonym wordings = "wording \<Rightarrow> string"

definition pr_base :: "jsval \<Rightarrow> string \<Rightarrow> (string \<times> jsval) list" where
  "pr_base pr gateSHA = [(''number'', pget pr ''number''), (''title'', pget pr ''title''),
     (''headSHA'', pget pr ''headRefOid''), (''gateSHA'', JStr gateSHA)]"

definition l2_result :: "jsval \<Rightarrow> string \<Rightarrow> string \<Rightarrow> string \<Rightarrow> (string \<times> jsval) list \<Rightarrow> (string \<times> jsval) list" where
  "l2_result pr gateSHA st reason rest = pr_base pr gateSHA @
     [(''status'', JStr st), (''reason'', JStr reason)] @ rest"

text \<open>How the guarded part of the audit ends: a value returned from inside, a result for \<open>finish\<close>.\<close>

datatype audit_end = Returns jsval | Finishes "(string \<times> jsval) list"

definition audit_inside :: "wordings \<Rightarrow> string list \<Rightarrow> audit_world \<Rightarrow> l2_options \<Rightarrow> jsval \<Rightarrow> string \<Rightarrow>
    string \<Rightarrow> string \<Rightarrow> audit_end audit" where
  "audit_inside say marks aw opts pr gateSHA worktree logPath = (
     let startedAt = (''startedAt'', JStr (aw_startedAt aw)) in
     thenA (overlayGate aw worktree gateSHA GATE_FILES) (\<lambda>_.
     thenA (doA (ARun ''node'' GATE_DRY worktree)) (\<lambda>_.
     let outp = preflight_output aw; clean = (status_or_1 (aw_preflight aw) = 0) in
     if l2_dryRun opts then ([], Inr (Returns (JObj (l2_result pr gateSHA
         (if clean then ''not-applicable'' else ''failed'') (say (if clean then DryOkReason else DryFailedReason))
         [(''summary'', JStr (last_n 6000 (trim outp))), startedAt,
          (''finishedAt'', JStr (aw_finishedAt aw)), (''executed'', JBool False)]))))
     else if includes_str outp NO_SERVICE then ([], Inr (Finishes (l2_result pr gateSHA ''not-applicable'' (say NoServiceReason)
         [(''summary'', JStr ''service gate: no service implementation changed; L2 service checks are not applicable''), startedAt])))
     else thenA (attachDependencyPool aw opts worktree) (\<lambda>fingerprint.
       thenA (execute_gate aw logPath ''node'' GATE_RUN worktree) (\<lambda>code.
       let summary = summarizeLog marks (aw_log aw); noService = includes_str summary NO_SERVICE in
       ([], Inr (Finishes (pr_base pr gateSHA @ [(''dependencyFingerprint'', JStr fingerprint),
         (''status'', JStr (if code = 0 then (if noService then ''not-applicable'' else ''passed'') else ''failed'')),
         (''reason'', JStr (say (if code = 0 then (if noService then NoServiceReason else PassedReason) else FailedReason))),
         (''summary'', JStr summary), (''logPath'', JStr logPath), startedAt]))))))))"

text \<open>\<open>finally\<close>: the worktree goes, however the guarded part ended.\<close>

definition cleanup :: "audit_world \<Rightarrow> l2_options \<Rightarrow> string \<Rightarrow> unit audit" where
  "cleanup aw opts worktree = (if l2_keepWorktrees opts then ([], Inr ())
     else thenA (git_lenient aw (removal worktree)) (\<lambda>_. ([], Inr ())))"

definition audit_guarded :: "wordings \<Rightarrow> string list \<Rightarrow> audit_world \<Rightarrow> l2_options \<Rightarrow> jsval \<Rightarrow> string \<Rightarrow>
    string \<Rightarrow> string \<Rightarrow> jsval audit" where
  "audit_guarded say marks aw opts pr gateSHA worktree logPath = (
     case audit_inside say marks aw opts pr gateSHA worktree logPath of (evs, r) \<Rightarrow>
       thenA (evs, Inr (case r of Inr x \<Rightarrow> x
         | Inl e \<Rightarrow> Finishes (l2_result pr gateSHA ''failed'' (say AuditorError @ e)
             [(''summary'', JStr (summarizeLog marks (aw_log aw))), (''logPath'', JStr logPath),
              (''startedAt'', JStr (aw_startedAt aw))]))) (\<lambda>x.
       thenA (cleanup aw opts worktree) (\<lambda>_.
       case x of Returns v \<Rightarrow> ([], Inr v) | Finishes result \<Rightarrow> finish_audit aw opts result)))"

definition auditPR :: "wordings \<Rightarrow> string list \<Rightarrow> audit_world \<Rightarrow> l2_options \<Rightarrow> jsval \<Rightarrow> string \<Rightarrow> jsval audit" where
  "auditPR say marks aw opts pr gateSHA = (case readCached aw opts pr gateSHA of
     Inl e \<Rightarrow> ([], Inl e)
   | Inr (Some cached) \<Rightarrow> ([], Inr cached)
   | Inr None \<Rightarrow> (let startedAt = [(''startedAt'', JStr (aw_startedAt aw))] in
       if truthy (pget pr ''isDraft'') then
         finish_audit aw opts (l2_result pr gateSHA ''blocked'' (say DraftReason) startedAt)
       else thenA (fetchMergeRef aw pr) (\<lambda>mergeRef. (case mergeRef of
           None \<Rightarrow> finish_audit aw opts (l2_result pr gateSHA ''blocked'' (say NoMergeReason) startedAt)
         | Some ref \<Rightarrow>
             thenA (prepareWorktree aw opts pr ref) (\<lambda>worktree.
             let logPath = path_join [l2_stateDir opts, ''logs'', ''pr-'' @ pr_number pr @ ''.log''] in
             thenA (doA (AMkdir (path_dirname logPath))) (\<lambda>_.
             audit_guarded say marks aw opts pr gateSHA worktree logPath))))))"

section \<open>Comments and labels\<close>

definition LABELS :: "(string \<times> string \<times> string \<times> wording) list" where
  "LABELS = [(''passed'', ''l2:passed'', ''1f883d'', LabelPassed), (''failed'', ''l2:failed'', ''d1242f'', LabelFailed),
     (''blocked'', ''l2:blocked'', ''bf8700'', LabelBlocked),
     (''not-applicable'', ''l2:not-applicable'', ''6e7781'', LabelNone)]"

definition label_names :: "string list" where
  "label_names = map (\<lambda>(s, name, _). name) LABELS"

definition label_of :: "string \<Rightarrow> string option" where
  "label_of st = map_option fst (map_of LABELS st)"

definition MARKER :: string where
  "MARKER = ''<!-- octobus-service-l2-batch -->''"

definition code_span :: "string \<Rightarrow> string" where
  "code_span t = [CHR 0x60] @ t @ [CHR 0x60]"

definition nl :: string where
  "nl = [CHR 0x0A]"

definition fence :: string where
  "fence = [CHR 0x60, CHR 0x60, CHR 0x60]"

definition commentBody :: "wordings \<Rightarrow> string \<Rightarrow> jsval \<Rightarrow> string" where
  "commentBody say label result = (let text_of = (\<lambda>k. to_str (pget result k)) in
     MARKER @ nl @ ''## '' @ say CommentTitle @ label @ nl @ nl @
     ''- '' @ say CommentStatus @ ''**'' @ text_of ''status'' @ ''**'' @ nl @
     ''- '' @ say CommentHead @ code_span (text_of ''headSHA'') @ nl @
     ''- '' @ say CommentGate @ code_span (text_of ''gateSHA'') @ nl @
     ''- '' @ say CommentReason @ text_of ''reason'' @ nl @ nl @
     (if truthy (pget result ''summary'') then ''### '' @ say CommentOutput @ nl @ nl @ fence @ ''text'' @ nl @
        text_of ''summary'' @ nl @ fence @ nl @ nl else []) @ say CommentEnd)"

text \<open>The commands of gh, as its arguments; the comments of the pull request are those it answered.\<close>

definition ensureLabels :: "wordings \<Rightarrow> l2_options \<Rightarrow> string list list" where
  "ensureLabels say opts = map (\<lambda>(st, name, color, description). [''label'', ''create'', name, ''-R'', l2_repo opts,
     ''--color'', color, ''--description'', say description, ''--force'']) LABELS"

definition has_marker :: "jsval \<Rightarrow> bool" where
  "has_marker comment = (case pget comment ''body'' of JStr b \<Rightarrow> includes_str b MARKER | _ \<Rightarrow> False)"

definition label_args :: "l2_options \<Rightarrow> string \<Rightarrow> string \<Rightarrow> string list" where
  "label_args opts number label = [''pr'', ''edit'', number, ''-R'', l2_repo opts, ''--add-label'', label] @
     concat (map (\<lambda>l. [''--remove-label'', l]) (filter (\<lambda>l. l \<noteq> label) label_names))"

definition publishResult :: "wordings \<Rightarrow> l2_options \<Rightarrow> jsval list \<Rightarrow> jsval \<Rightarrow> string + string list list" where
  "publishResult say opts comments result = (
     let number = to_str (pget result ''number'');
         ask = [''api'', ''repos/'' @ l2_repo opts @ ''/issues/'' @ number @ ''/comments'', ''--paginate'']
     in case label_of (to_str (pget result ''status'')) of
          None \<Rightarrow> Inl ''Cannot read properties of undefined (reading 'name')''
        | Some label \<Rightarrow> (let body = commentBody say label result in
            Inr [ask,
              (case find has_marker comments of
                 Some existing \<Rightarrow> [''api'', ''--method'', ''PATCH'', ''repos/'' @ l2_repo opts @ ''/issues/comments/'' @
                   to_str (pget existing ''id''), ''--field'', ''body='' @ body]
               | None \<Rightarrow> [''pr'', ''comment'', number, ''-R'', l2_repo opts, ''--body'', body]),
              label_args opts number label]))"

section \<open>The run\<close>

text \<open>
  What the run finds: git and gh (a failure throws), the pull requests the answers of gh hold, the
  audit of each, the order in which the audits settle, and the comments of a pull request.
\<close>

record batch_world =
  bw_git :: "string list \<Rightarrow> spawned"
  bw_gh :: "string list \<Rightarrow> spawned"
  bw_parse :: "string \<Rightarrow> string + jsval"
  bw_audit :: "string \<Rightarrow> jsval \<Rightarrow> string + jsval"
  bw_order :: "nat list"
  bw_comments :: "jsval \<Rightarrow> jsval list"

definition PR_FIELDS :: string where
  "PR_FIELDS = ''number,title,url,isDraft,headRefOid,mergeable,mergeStateStatus''"

definition gh_json :: "batch_world \<Rightarrow> string list \<Rightarrow> string + jsval" where
  "gh_json bw args = bindE (run_sync ''gh'' args (bw_gh bw args)) (\<lambda>r. bw_parse bw (out_text r))"

definition listPRs :: "batch_world \<Rightarrow> l2_options \<Rightarrow> string + jsval list" where
  "listPRs bw opts = (if l2_prNumbers opts \<noteq> [] then
       mapE (\<lambda>n. gh_json bw [''pr'', ''view'', num_str n, ''-R'', l2_repo opts, ''--json'', PR_FIELDS]) (l2_prNumbers opts)
     else bindE (gh_json bw [''pr'', ''list'', ''-R'', l2_repo opts, ''--state'', ''open'', ''--limit'', ''1000'',
          ''--json'', PR_FIELDS]) (\<lambda>v. Inr (case v of JArr prs \<Rightarrow> prs | _ \<Rightarrow> [])))"

definition excluded :: "l2_options \<Rightarrow> jsval \<Rightarrow> bool" where
  "excluded opts pr = (case pget pr ''number'' of JNum n \<Rightarrow> n \<in> set (l2_exclude opts) | _ \<Rightarrow> False)"

definition status_counts :: "jsval list \<Rightarrow> (string \<times> jsval) list" where
  "status_counts results = map (\<lambda>(st, _). (st, JInt (int (length
     (filter (\<lambda>r. pget r ''status'' = JStr st) results))))) LABELS"

definition batch_summary :: "string \<Rightarrow> jsval list \<Rightarrow> jsval" where
  "batch_summary gateSHA results = JObj [(''gateSHA'', JStr gateSHA), (''counts'', JObj (status_counts results)),
     (''results'', JArr results)]"

definition limit_of :: "l2_options \<Rightarrow> nat" where
  "limit_of opts = (case l2_concurrency opts of Fin r \<Rightarrow> nat (floor r) | _ \<Rightarrow> 0)"

text \<open>The results in the order of the pull requests; \<open>None\<close> while audits are running.\<close>

definition batch_results :: "batch_world \<Rightarrow> l2_options \<Rightarrow> string \<Rightarrow> jsval list \<Rightarrow> (string + jsval list) option" where
  "batch_results bw opts gateSHA prs = (
     let n = length prs in
     case mapLimit_run n (\<lambda>i. bw_audit bw gateSHA (prs ! i)) (mapLimit_start n (limit_of opts)) (bw_order bw) of
       None \<Rightarrow> None
     | Some p \<Rightarrow> (case mapLimit_outcome p of
         None \<Rightarrow> None
       | Some (Inl e) \<Rightarrow> Some (Inl e)
       | Some (Inr rs) \<Rightarrow> Some (Inr (map (\<lambda>r. case r of Some v \<Rightarrow> v | None \<Rightarrow> JUndef) rs))))"

text \<open>The selected pull requests and the gate's commit: the part of \<open>main\<close> before the audits.\<close>

definition batch_plan :: "batch_world \<Rightarrow> l2_options \<Rightarrow> string + string \<times> jsval list" where
  "batch_plan bw opts = bindE (run_sync ''git'' [''fetch'', ''origin'', ''main'', ''ci/service-l2-gate'']
       (bw_git bw [''fetch'', ''origin'', ''main'', ''ci/service-l2-gate''])) (\<lambda>_.
     bindE (run_sync ''git'' [''rev-parse'', l2_gateRef opts] (bw_git bw [''rev-parse'', l2_gateRef opts])) (\<lambda>r.
     bindE (listPRs bw opts) (\<lambda>prs. Inr (trim (out_text r), filter (\<lambda>pr. \<not> excluded opts pr) prs))))"

text \<open>The commands of gh that publish, one result after the other: the first failure ends the run.\<close>

fun publish_all :: "wordings \<Rightarrow> batch_world \<Rightarrow> l2_options \<Rightarrow> jsval list \<Rightarrow> string + string list list" where
  "publish_all say bw opts [] = Inr []"
| "publish_all say bw opts (r # rs) =
     bindE (publishResult say opts (bw_comments bw r) r) (\<lambda>calls.
     bindE (mapE (\<lambda>c. run_sync ''gh'' c (bw_gh bw c)) calls) (\<lambda>_.
     bindE (publish_all say bw opts rs) (\<lambda>more. Inr (calls @ more))))"

text \<open>\<open>main\<close>: the commands that publish and the summary it writes, an error, or still running.\<close>

definition batch_main :: "wordings \<Rightarrow> batch_world \<Rightarrow> string \<Rightarrow> string \<Rightarrow> string list \<Rightarrow>
    (string + string list list \<times> jsval) option" where
  "batch_main say bw cwd tmp argv = (case l2_parseArgs cwd tmp argv of
     Inl e \<Rightarrow> Some (Inl e)
   | Inr opts \<Rightarrow> (case batch_plan bw opts of
       Inl e \<Rightarrow> Some (Inl e)
     | Inr (gateSHA, prs) \<Rightarrow> (case batch_results bw opts gateSHA prs of
         None \<Rightarrow> None
       | Some (Inl e) \<Rightarrow> Some (Inl e)
       | Some (Inr results) \<Rightarrow> Some (
           bindE (if l2_publish opts then
               bindE (mapE (\<lambda>c. run_sync ''gh'' c (bw_gh bw c)) (ensureLabels say opts)) (\<lambda>_.
               bindE (publish_all say bw opts results) (\<lambda>calls. Inr (ensureLabels say opts @ calls)))
             else Inr []) (\<lambda>calls. Inr (calls, batch_summary gateSHA results))))))"

section \<open>Lemmas\<close>

definition git_calls :: "audit_event list \<Rightarrow> string list list" where
  "git_calls evs = concat (map (\<lambda>ev. case ev of AGit args \<Rightarrow> [args] | _ \<Rightarrow> []) evs)"

lemma git_calls_simps [simp]:
  "git_calls [] = []" "git_calls (xs @ ys) = git_calls xs @ git_calls ys"
  "git_calls (AGit a # xs) = a # git_calls xs" "git_calls (AMkdir d # xs) = git_calls xs"
  "git_calls (ASave d v # xs) = git_calls xs"
  by (simp_all add: git_calls_def)

lemma finish_audit_eq:
  "finish_audit aw opts result = ([AMkdir (path_dirname (l2_resultPath opts (to_str (pget (JObj (set_key result ''finishedAt''
      (JStr (aw_finishedAt aw)))) ''number'')))), ASave (l2_resultPath opts (to_str (pget (JObj (set_key result ''finishedAt''
      (JStr (aw_finishedAt aw)))) ''number''))) (JObj (set_key result ''finishedAt'' (JStr (aw_finishedAt aw))))],
     Inr (JObj (set_key result ''finishedAt'' (JStr (aw_finishedAt aw)))))"
  by (simp add: finish_audit_def writeResult_def Let_def doA_def thenA_def del: pget_obj)

lemma finish_audit_status:
  "snd (finish_audit aw opts result) = Inr v \<Longrightarrow> pget v ''status'' = pget (JObj result) ''status''"
  by (auto simp: finish_audit_eq)

lemma l2_result_status [simp]: "map_of (l2_result pr gateSHA st reason rest) ''status'' = Some (JStr st)"
  by (simp add: l2_result_def pr_base_def)

lemma overlayGate_ok:
  assumes "overlayGate aw worktree gateSHA fs = (evs, Inr ())" and "f \<in> set fs"
  shows "status (aw_git aw (gate_show gateSHA f)) = Some 0 \<and>
    AWrite (path_join [worktree, f]) (out_text (aw_git aw (gate_show gateSHA f))) \<in> set evs"
  using assms
proof (induction fs arbitrary: evs)
  case (Cons g fs)
  have g: "status (aw_git aw (gate_show gateSHA g)) = Some 0"
    using Cons.prems(1) by (auto simp: thenA_Inr_iff git_lenient_def split: if_splits)
  obtain evs' where r: "overlayGate aw worktree gateSHA fs = (evs', Inr ())"
    and evs: "evs = [AGit (gate_show gateSHA g), AMkdir (path_dirname (path_join [worktree, g])),
      AWrite (path_join [worktree, g]) (out_text (aw_git aw (gate_show gateSHA g)))] @ evs'"
    using Cons.prems(1) g
    by (cases "overlayGate aw worktree gateSHA fs") (auto simp: thenA_Inr_iff git_lenient_def Let_def)
  show ?case using Cons.IH [OF r] Cons.prems(2) g evs by auto
qed simp

lemma overlayGate_fails:
  "(\<exists>e. snd (overlayGate aw worktree gateSHA fs) = Inl e) \<longleftrightarrow>
     (\<exists>f \<in> set fs. status (aw_git aw (gate_show gateSHA f)) \<noteq> Some 0)"
  by (induction fs) (auto simp: thenA_def git_lenient_def Let_def doA_def split: prod.splits sum.splits)

text \<open>What the guarded part says of a pull request that passes.\<close>

definition gate_green :: "string list \<Rightarrow> audit_world \<Rightarrow> l2_options \<Rightarrow> string \<Rightarrow> string \<Rightarrow> bool" where
  "gate_green marks aw opts gateSHA worktree \<longleftrightarrow> \<not> l2_dryRun opts \<and>
     (\<forall>f \<in> set GATE_FILES. status (aw_git aw (gate_show gateSHA f)) = Some 0) \<and>
     \<not> includes_str (preflight_output aw) NO_SERVICE \<and>
     (\<exists>fp. snd (attachDependencyPool aw opts worktree) = Inr fp) \<and>
     aw_start_error aw = None \<and> aw_exit aw = Some 0 \<and>
     \<not> includes_str (summarizeLog marks (aw_log aw)) NO_SERVICE"

definition end_status :: "string + audit_end \<Rightarrow> jsval" where
  "end_status r = (case r of Inl e \<Rightarrow> JStr ''failed''
   | Inr (Returns v) \<Rightarrow> pget v ''status'' | Inr (Finishes fs) \<Rightarrow> pget (JObj fs) ''status'')"

lemma execute_gate_code:
  "\<exists>c. snd (execute_gate aw logPath cmd args cwd) = Inr c \<and>
     (c = 0 \<longleftrightarrow> aw_start_error aw = None \<and> aw_exit aw = Some 0)"
proof (cases "aw_start_error aw")
  case None
  then show ?thesis by (cases "aw_exit aw") (simp_all add: execute_gate_def)
qed (simp add: execute_gate_def)

lemma audit_inside_status:
  "end_status (snd (audit_inside say marks aw opts pr gateSHA worktree logPath)) = JStr ''passed'' \<longleftrightarrow>
     gate_green marks aw opts gateSHA worktree"
proof -
  obtain evs1 r1 where o: "overlayGate aw worktree gateSHA GATE_FILES = (evs1, r1)"
    by (cases "overlayGate aw worktree gateSHA GATE_FILES")
  obtain evs2 r2 where a: "attachDependencyPool aw opts worktree = (evs2, r2)"
    by (cases "attachDependencyPool aw opts worktree")
  obtain evs3 c where x: "execute_gate aw logPath ''node'' GATE_RUN worktree = (evs3, Inr c)"
    and c: "c = 0 \<longleftrightarrow> aw_start_error aw = None \<and> aw_exit aw = Some 0"
    using execute_gate_code [of aw logPath "''node''" GATE_RUN worktree] by (metis prod.collapse)
  show ?thesis
  proof (cases r1)
    case (Inl e)
    then have "\<exists>f \<in> set GATE_FILES. status (aw_git aw (gate_show gateSHA f)) \<noteq> Some 0"
      using overlayGate_fails [of aw worktree gateSHA GATE_FILES] o by simp
    then show ?thesis using o Inl by (auto simp: audit_inside_def thenA_def end_status_def gate_green_def Let_def)
  next
    case (Inr u)
    then have ok: "\<forall>f \<in> set GATE_FILES. status (aw_git aw (gate_show gateSHA f)) = Some 0"
      using overlayGate_fails [of aw worktree gateSHA GATE_FILES] o by auto
    show ?thesis
    proof (cases r2)
      case (Inl e)
      with o \<open>r1 = Inr u\<close> a show ?thesis
        by (simp add: audit_inside_def thenA_def end_status_def gate_green_def Let_def doA_def)
    next
      case r2: (Inr fp)
      with o \<open>r1 = Inr u\<close> a x c ok show ?thesis
        by (simp add: audit_inside_def thenA_def end_status_def gate_green_def Let_def doA_def pr_base_def)
    qed
  qed
qed

text \<open>The guarded part runs the gate's own files only when it is green.\<close>

lemma audit_inside_overlay:
  assumes "gate_green marks aw opts gateSHA worktree" and "f \<in> set GATE_FILES"
  shows "AWrite (path_join [worktree, f]) (out_text (aw_git aw (gate_show gateSHA f)))
    \<in> set (fst (audit_inside say marks aw opts pr gateSHA worktree logPath))"
proof -
  obtain evs1 r1 where o: "overlayGate aw worktree gateSHA GATE_FILES = (evs1, r1)"
    by (cases "overlayGate aw worktree gateSHA GATE_FILES")
  have "r1 = Inr ()"
    using overlayGate_fails [of aw worktree gateSHA GATE_FILES] o assms(1) by (cases r1) (auto simp: gate_green_def)
  with o overlayGate_ok [of aw worktree gateSHA GATE_FILES evs1 f] assms(2)
  have "AWrite (path_join [worktree, f]) (out_text (aw_git aw (gate_show gateSHA f)))
      \<in> set (fst (overlayGate aw worktree gateSHA GATE_FILES))"
    by simp
  then show ?thesis unfolding audit_inside_def Let_def by (rule thenA_first)
qed

lemma audit_guarded_ends:
  "\<exists>evs v tail. audit_guarded say marks aw opts pr gateSHA worktree logPath = (evs @ tail, Inr v) \<and>
     pget v ''status'' = end_status (snd (audit_inside say marks aw opts pr gateSHA worktree logPath)) \<and>
     evs = fst (audit_inside say marks aw opts pr gateSHA worktree logPath) \<and>
     git_calls tail = (if l2_keepWorktrees opts then [] else [removal worktree])"
proof -
  obtain evs r where i: "audit_inside say marks aw opts pr gateSHA worktree logPath = (evs, r)"
    by (cases "audit_inside say marks aw opts pr gateSHA worktree logPath")
  show ?thesis
    by (cases r; cases "projr r")
      (auto simp: audit_guarded_def i thenA_def cleanup_def git_lenient_def end_status_def finish_audit_eq
        split: audit_end.splits sum.splits)
qed

text \<open>C15: The verdict of an audit that is not answered from the cache: the result says passed exactly
when the pull request is no draft, its merge with main was fetched, it is no dry run, every file of the
gate was taken from the commit of the gate, neither the dry run of the gate nor its log says that no
service is concerned, the dependencies are there and the gate's process exited with 0; the audited tree
then holds the gate's own files, and unless worktrees are kept the last thing git is told is to remove
the worktree.\<close>

theorem audit_passed:
  assumes "readCached aw opts pr gateSHA = Inr None"
    and "auditPR say marks aw opts pr gateSHA = (evs, Inr v)"
  shows "(pget v ''status'' = JStr ''passed'' \<longleftrightarrow> \<not> truthy (pget pr ''isDraft'') \<and>
       snd (fetchMergeRef aw pr) \<noteq> Inr None \<and> gate_green marks aw opts gateSHA (worktree_path opts pr)) \<and>
     (pget v ''status'' = JStr ''passed'' \<longrightarrow> (\<forall>f \<in> set GATE_FILES.
       AWrite (path_join [worktree_path opts pr, f]) (out_text (aw_git aw (gate_show gateSHA f))) \<in> set evs)) \<and>
     (pget v ''status'' \<noteq> JStr ''blocked'' \<and> \<not> l2_keepWorktrees opts \<longrightarrow>
       last (git_calls evs) = removal (worktree_path opts pr))"
proof (cases "truthy (pget pr ''isDraft'')")
  case True
  with assms have "snd (finish_audit aw opts (l2_result pr gateSHA ''blocked'' (say DraftReason)
      [(''startedAt'', JStr (aw_startedAt aw))])) = Inr v"
    by (simp add: auditPR_def Let_def)
  from finish_audit_status [OF this] show ?thesis using True by simp
next
  case draft: False
  define ref where "ref = ''refs/l2-audit/pr-'' @ pr_number pr"
  obtain evs0 r0 where m: "fetchMergeRef aw pr = (evs0, Inr r0)"
    by (auto simp: fetchMergeRef_def git_lenient_def thenA_def Let_def)
  show ?thesis
  proof (cases r0)
    case None
    with assms draft m have "snd (finish_audit aw opts (l2_result pr gateSHA ''blocked'' (say NoMergeReason)
        [(''startedAt'', JStr (aw_startedAt aw))])) = Inr v"
      by (auto simp: auditPR_def thenA_def Let_def split: prod.splits)
    from finish_audit_status [OF this] show ?thesis using m None by simp
  next
    case (Some ref)
    let ?w = "worktree_path opts pr" and ?log = "path_join [l2_stateDir opts, ''logs'', ''pr-'' @ pr_number pr @ ''.log'']"
    obtain evs1 w where pw: "prepareWorktree aw opts pr ref = (evs1, Inr w)"
      using assms draft m Some by (auto simp: auditPR_def thenA_def Let_def split: prod.splits sum.splits)
    have w: "w = ?w" using pw
      by (simp add: prepareWorktree_def Let_def thenA_def doA_def split: prod.splits sum.splits)
    obtain evs2 u tail where g: "audit_guarded say marks aw opts pr gateSHA ?w ?log = (evs2 @ tail, Inr u)"
      and u: "pget u ''status'' = end_status (snd (audit_inside say marks aw opts pr gateSHA ?w ?log))"
      and evs2: "evs2 = fst (audit_inside say marks aw opts pr gateSHA ?w ?log)"
      and tail: "git_calls tail = (if l2_keepWorktrees opts then [] else [removal ?w])"
      using audit_guarded_ends [of say marks aw opts pr gateSHA ?w ?log] by blast
    have r: "v = u" "evs = evs0 @ evs1 @ AMkdir (path_dirname ?log) # evs2 @ tail"
      using assms draft m Some pw w g by (auto simp: auditPR_def thenA_def Let_def doA_def)
    have green: "pget v ''status'' = JStr ''passed'' \<longleftrightarrow> gate_green marks aw opts gateSHA ?w"
      using u audit_inside_status [of say marks aw opts pr gateSHA ?w ?log] r(1) by simp
    have "AWrite (path_join [?w, f]) (out_text (aw_git aw (gate_show gateSHA f))) \<in> set evs"
      if "gate_green marks aw opts gateSHA ?w" "f \<in> set GATE_FILES" for f
      using audit_inside_overlay [OF that, of say pr ?log] evs2 r(2) by simp
    moreover have "\<not> l2_keepWorktrees opts \<longrightarrow> last (git_calls evs) = removal ?w"
      using r(2) tail by simp
    ultimately show ?thesis using green draft m Some by simp
  qed
qed

text \<open>Once there is a worktree an audit always returns a result.\<close>

lemma auditPR_returns:
  assumes "readCached aw opts pr gateSHA = Inr None" and "\<not> truthy (pget pr ''isDraft'')"
    and "snd (fetchMergeRef aw pr) = Inr (Some ref)" and "snd (prepareWorktree aw opts pr ref) = Inr w"
  shows "\<exists>evs v. auditPR say marks aw opts pr gateSHA = (evs, Inr v)"
proof -
  obtain e1 where 1: "fetchMergeRef aw pr = (e1, Inr (Some ref))" using assms(3) by (metis prod.collapse)
  obtain e2 where 2: "prepareWorktree aw opts pr ref = (e2, Inr w)" using assms(4) by (metis prod.collapse)
  obtain e3 u where 3: "audit_guarded say marks aw opts pr gateSHA w
      (path_join [l2_stateDir opts, ''logs'', ''pr-'' @ pr_number pr @ ''.log'']) = (e3, Inr u)"
    using audit_guarded_ends by blast
  show ?thesis using assms(1,2) 1 2 3 by (simp add: auditPR_def thenA_def doA_def Let_def)
qed

definition green_world :: audit_world where
  "green_world = \<lparr>aw_git = (\<lambda>_. \<lparr>status = Some 0, out_text = ''x'', err_text = []\<rparr>), aw_cached = None,
     aw_exists = (\<lambda>_. True), aw_read = (\<lambda>_. []), aw_lock = (\<lambda>_. None),
     aw_npm = \<lparr>status = Some 0, out_text = [], err_text = []\<rparr>,
     aw_preflight = \<lparr>status = Some 0, out_text = [], err_text = []\<rparr>, aw_start_error = None,
     aw_exit = Some 0, aw_log = None, aw_sha256 = (\<lambda>_. ''0''), aw_startedAt = ''t0'', aw_finishedAt = ''t1''\<rparr>"

lemma green_world_green: "gate_green marks green_world (l2_defaults ''/tmp'') ''abc'' w"
proof -
  have "summarizeLog marks None = []"
    by (simp add: summarizeLog_def log_lines_def last_n_def Let_def)
  moreover have "\<not> sublist ''no service implementation changed'' [CHR 0x0A]"
    by (auto dest: sublist_length_le)
  ultimately show ?thesis
    by (simp add: gate_green_def green_world_def l2_defaults_def preflight_output_def NO_SERVICE_def
        attachDependencyPool_def install_pool_def Let_def thenA_def doA_def)
qed

theorem audit_passed_witness:
  "\<exists>evs v. auditPR (\<lambda>_. []) [] green_world (l2_defaults ''/tmp'') (JObj [(''number'', JInt 7)]) ''abc'' = (evs, Inr v) \<and>
     pget v ''status'' = JStr ''passed'' \<and>
     last (git_calls evs) = removal (worktree_path (l2_defaults ''/tmp'') (JObj [(''number'', JInt 7)]))"
proof -
  let ?opts = "l2_defaults ''/tmp''" and ?pr = "JObj [(''number'', JInt 7)]"
  obtain evs r where a: "auditPR (\<lambda>_. []) [] green_world ?opts ?pr ''abc'' = (evs, r)"
    by (cases "auditPR (\<lambda>_. []) [] green_world ?opts ?pr ''abc''")
  have fresh: "readCached green_world ?opts ?pr ''abc'' = Inr None"
    by (simp add: readCached_def green_world_def)
  have f: "snd (fetchMergeRef green_world ?pr) = Inr (Some (''refs/l2-audit/pr-'' @ pr_number ?pr))"
    by (simp add: fetchMergeRef_def git_lenient_def thenA_def Let_def green_world_def)
  have w: "snd (prepareWorktree green_world ?opts ?pr ref) = Inr (worktree_path ?opts ?pr)" for ref
    by (simp add: prepareWorktree_def git_lenient_def git_strict_def run_sync_def status_or_1_def doA_def thenA_def Let_def green_world_def)
  have d: "\<not> truthy (pget ?pr ''isDraft'')" by (simp add: truthy_def)
  obtain v where v: "r = Inr v"
    using auditPR_returns [OF fresh d f w, of "\<lambda>_. []" "[]"] a by auto
  have "\<not> l2_keepWorktrees ?opts" by (simp add: l2_defaults_def)
  note r = audit_passed [OF fresh a [unfolded v]]
  have "snd (fetchMergeRef green_world ?pr) \<noteq> Inr None" unfolding f by simp
  then have "pget v ''status'' = JStr ''passed''"
    using conjunct1 [OF r] d green_world_green by blast
  moreover from this have "pget v ''status'' \<noteq> JStr ''blocked''" by simp
  then have "last (git_calls evs) = removal (worktree_path ?opts ?pr)"
    using r \<open>\<not> l2_keepWorktrees ?opts\<close> by blast
  ultimately show ?thesis using a v by blast
qed

text \<open>A dry run may still write a result: that of a draft, or of a pull request without a merge.\<close>

lemma dry_run_writes:
  assumes "truthy (pget pr ''isDraft'')"
  shows "\<exists>p v. ASave p v \<in> set (fst (auditPR say marks aw ((l2_defaults tmp)\<lparr>l2_dryRun := True\<rparr>) pr gateSHA)) \<and>
    pget v ''status'' = JStr ''blocked''"
proof -
  let ?opts = "(l2_defaults tmp)\<lparr>l2_dryRun := True\<rparr>"
  let ?r = "l2_result pr gateSHA ''blocked'' (say DraftReason) [(''startedAt'', JStr (aw_startedAt aw))]"
  have "auditPR say marks aw ?opts pr gateSHA = finish_audit aw ?opts ?r"
    using assms by (simp add: auditPR_def readCached_def Let_def)
  moreover have "\<exists>p. ASave p (JObj (set_key ?r ''finishedAt'' (JStr (aw_finishedAt aw))))
      \<in> set (fst (finish_audit aw ?opts ?r))"
    unfolding finish_audit_eq by auto
  moreover have "pget (JObj (set_key ?r ''finishedAt'' (JStr (aw_finishedAt aw)))) ''status'' = JStr ''blocked''"
    by simp
  ultimately show ?thesis by metis
qed

text \<open>A pull request ends up with its own label and none of the others, as gh takes the flags.\<close>

fun edit_labels :: "string list \<Rightarrow> string set \<Rightarrow> string set" where
  "edit_labels (flag # l # args) labels = edit_labels args (
     if flag = ''--add-label'' then insert l labels
     else if flag = ''--remove-label'' then labels - {l} else labels)"
| "edit_labels _ labels = labels"

lemma edit_labels_remove:
  "edit_labels (concat (map (\<lambda>l. [''--remove-label'', l]) ls)) labels = labels - set ls"
  by (induction ls arbitrary: labels) auto

lemma label_args_exclusive:
  "label \<in> set label_names \<Longrightarrow>
     edit_labels (drop 5 (label_args opts number label)) labels \<inter> set label_names = {label}"
  by (auto simp: label_args_def edit_labels_remove)

text \<open>A stored result is used again for the same head and the same gate only, and never a blocked one.\<close>

lemma readCached_fresh:
  "readCached aw opts pr gateSHA = Inr (Some v) \<Longrightarrow> aw_cached aw = Some (Inr v) \<and> \<not> l2_force opts \<and> \<not> l2_dryRun opts \<and>
     pget v ''status'' \<noteq> JStr ''blocked'' \<and> pget v ''headSHA'' = pget pr ''headRefOid'' \<and> pget v ''gateSHA'' = JStr gateSHA"
  by (auto simp: readCached_def split: if_splits option.splits sum.splits simp del: pget_obj)

text \<open>The results a run ends with are those of the audits, in the order of the pull requests.\<close>

lemma batch_results_audits:
  assumes "batch_results bw opts gateSHA prs = Some (Inr results)" and "positive_num (l2_concurrency opts)"
  shows "list_all2 (\<lambda>pr r. bw_audit bw gateSHA pr = Inr r) prs results"
proof -
  let ?n = "length prs" and ?f = "\<lambda>i. bw_audit bw gateSHA (prs ! i)"
  have limit: "0 < limit_of opts" using assms(2) by (auto simp: limit_of_def positive_num_def)
  obtain p rs where p: "mapLimit_run ?n ?f (mapLimit_start ?n (limit_of opts)) (bw_order bw) = Some p"
    and o: "mapLimit_outcome p = Some (Inr rs)" and r: "results = map (\<lambda>r. case r of Some v \<Rightarrow> v | None \<Rightarrow> JUndef) rs"
    using assms(1) by (auto simp: batch_results_def Let_def split: option.splits sum.splits)
  have "list_all2 (\<lambda>i r. \<exists>v. r = Some v \<and> ?f i = Inr v) [0..<?n] rs"
    using mapLimit_results [OF limit p] o by simp
  then show ?thesis unfolding r by (force simp: list_all2_conv_all_nth)
qed

end
