(* ===== verification/SmokeSchema.thy ===== *)
theory SmokeSchema
  imports JS_Values Regex
begin

text \<open>
  The values the smoke test of service packages makes up from a JSON schema
  (src/scripts/service-package-smoke.mjs, \<open>synthesizeSchema\<close> and the samples): configuration and
  secrets from the schema files of a package, requests from the OpenAPI document of a capset. A request
  follows references into the document, so that a schema that refers to itself makes it run forever;
  the definition is a partial function and its value \<open>None\<close> then.
\<close>

section \<open>Reading a schema\<close>

text \<open>\<open>o?.[k]\<close> of a JSON value, and \<open>xs?.length\<close> as a condition.\<close>

definition jget :: "jsval \<Rightarrow> string \<Rightarrow> jsval" where
  "jget v k = (case map_of (entries_of v) k of Some x \<Rightarrow> x | None \<Rightarrow> JUndef)"

definition has_items :: "jsval \<Rightarrow> bool" where
  "has_items v = (case v of JArr vs \<Rightarrow> vs \<noteq> [] | JStr s \<Rightarrow> s \<noteq> [] | _ \<Rightarrow> truthy (pget v ''length''))"

lemma pget_undef [simp]: "pget JUndef k = JUndef"
  by (simp add: pget_def)

lemma has_items_undef [simp]: "\<not> has_items JUndef"
  by (simp add: has_items_def pget_def truthy_def)

text \<open>\<open>for (const x of v ?? [])\<close>.\<close>

definition iterate :: "jsval \<Rightarrow> string + jsval list" where
  "iterate v = (case v of JUndef \<Rightarrow> Inr [] | JNull \<Rightarrow> Inr [] | JArr vs \<Rightarrow> Inr vs
   | JStr s \<Rightarrow> Inr (map (\<lambda>c. JStr [c]) s) | _ \<Rightarrow> Inl ''object is not iterable'')"

definition resolveSchema :: "jsval \<Rightarrow> jsval \<Rightarrow> string + jsval" where
  "resolveSchema schema doc = (
     if \<not> truthy (pget schema ''$ref'') \<or> \<not> truthy doc then Inr (coalesce schema (JObj []))
     else (case pget schema ''$ref'' of
         JStr r \<Rightarrow> if \<not> starts_with r ''#/'' then Inr schema
           else Inr (coalesce (foldl jget doc (split_on CHR ''/'' (drop 2 r))) schema)
       | _ \<Rightarrow> Inl ''schema.$ref.startsWith is not a function''))"

definition OPTIONAL_NAMES :: "string list" where
  "OPTIONAL_NAMES = [''url'', ''host'', ''endpoint'', ''token'', ''key'', ''secret'', ''password'', ''username'',
     ''timeout'', ''region'', ''tenant'', ''webhook'']"

definition shouldPopulateOptional :: "string \<Rightarrow> jsval \<Rightarrow> bool" where
  "shouldPopulateOptional name schema \<longleftrightarrow> (let lower = to_lower name in
     list_ex (includes_str lower) OPTIONAL_NAMES \<or> pget schema ''format'' = JStr ''uri'')"

section \<open>Samples\<close>

definition MOCK_DEFAULT :: string where
  "MOCK_DEFAULT = ''http://127.0.0.1:1''"

text \<open>The texts by parts of a name, in the order of the code; \<open>host_of\<close> is \<open>new URL(u).host\<close>.\<close>

definition named_samples :: "string \<Rightarrow> (bool \<times> string) list" where
  "named_samples lower = (let has = includes_str lower in [
     (has ''ip'', ''127.0.0.1''), (has ''cve'', ''CVE-2024-0001''), (has ''domain'', ''example.com''),
     (has ''url'', ''''), (has ''port'', ''443''), (has ''email'', ''smoke@example.com''), (has ''method'', ''GET''),
     (has ''path'', ''/smoke''), (has ''region'', ''cn-smoke''), (has ''username'' \<or> lower = ''user'', ''smoke-user''),
     (has ''password'', ''smoke-password''),
     (has ''token'' \<or> has ''secret'' \<or> has ''key'' \<or> has ''cookie'' \<or> has ''ak'' \<or> has ''sk'', ''smoke-secret''),
     (has ''id'', ''smoke-id''), (has ''time'' \<or> has ''date'', ''2026-06-30T00:00:00Z'')])"

definition stringSample :: "(string \<Rightarrow> string) \<Rightarrow> string \<Rightarrow> jsval \<Rightarrow> string \<Rightarrow> string \<Rightarrow> string" where
  "stringSample host_of name schema mockBaseURL kind = (let lower = to_lower name; has = includes_str lower in
     if pget schema ''format'' = JStr ''uri'' \<or> has ''url'' \<or> has ''endpoint'' \<or> has ''webhook''
     then (if mockBaseURL \<noteq> [] then mockBaseURL else MOCK_DEFAULT)
     else if lower = ''host'' \<or> ends_with lower ''host'' \<or> has ''hostname'' \<or> has ''server''
     then (if mockBaseURL \<noteq> [] then host_of mockBaseURL else ''127.0.0.1'')
     else (case find fst (named_samples lower) of
         Some (_, t) \<Rightarrow> if t \<noteq> [] then t
           else if mockBaseURL \<noteq> [] then mockBaseURL @ ''/smoke'' else MOCK_DEFAULT @ ''/smoke''
       | None \<Rightarrow> if kind = ''request'' then ''smoke'' else ''smoke-value''))"

definition num_add :: "jsnum \<Rightarrow> rat \<Rightarrow> jsnum" where
  "num_add n k = (case n of Fin r \<Rightarrow> Fin (r + k) | _ \<Rightarrow> n)"

definition num_min :: "jsnum \<Rightarrow> jsnum \<Rightarrow> jsnum" where
  "num_min a b = (if a = NaN \<or> b = NaN then NaN else if num_lt b a then b else a)"

definition END_TIME_RE :: rx where
  "END_TIME_RE = seqs [alts [lit ''end'', lit ''to''],
     alts (map lit [''time'', ''_time'', ''timestamp'', ''_timestamp'', ''ts'', ''_ts'', ''date'', ''_date'']),
     opt (lit ''_ms'')]"

definition numberSample :: "string \<Rightarrow> jsval \<Rightarrow> jsnum" where
  "numberSample name schema = (let lower = to_lower name in
     if includes_str lower ''timeout'' then Fin 5000
     else if includes_str lower ''port'' then Fin 443
     else (let exmin = pget schema ''exclusiveMinimum''; exmax = pget schema ''exclusiveMaximum'';
         lowerBound = (case coalesce (pget schema ''minimum'') exmin of
             JNum m \<Rightarrow> num_add m (if exmin \<noteq> JUndef then 1 else 0) | _ \<Rightarrow> Fin 1);
         upper = (case coalesce (pget schema ''maximum'') exmax of
             JNum m \<Rightarrow> num_add m (if exmax \<noteq> JUndef then -1 else 0) | _ \<Rightarrow> PosInf);
         base = num_min lowerBound upper
       in if rx_match END_TIME_RE lower then num_min (num_add base 1) upper else base))"

definition booleanSample :: "string \<Rightarrow> bool" where
  "booleanSample name \<longleftrightarrow> \<not> (includes_str (to_lower name) ''skip'' \<or> includes_str (to_lower name) ''insecure'')"

section \<open>Synthesis\<close>

definition schema_type :: "jsval \<Rightarrow> jsval" where
  "schema_type schema = (case pget schema ''type'' of
     JArr ts \<Rightarrow> (case find (\<lambda>t. t \<noteq> JStr ''null'') ts of Some t \<Rightarrow> t | None \<Rightarrow> JUndef)
   | t \<Rightarrow> t)"

definition schema_enum :: "jsval \<Rightarrow> jsval list" where
  "schema_enum schema = (case pget schema ''enum'' of JArr vs \<Rightarrow> vs | _ \<Rightarrow> [])"

text \<open>The properties that get a value: all of a request, else the required and the telling ones.\<close>

definition chosen_properties :: "string \<Rightarrow> jsval \<Rightarrow> string + (string \<times> jsval) list" where
  "chosen_properties kind schema =
     bindE (iterate (pget schema ''required'')) (\<lambda>required.
     bindE (iterate (pget (jget (pget schema ''oneOf'') ''0'') ''required'')) (\<lambda>more.
     Inr (filter (\<lambda>(name, child). kind = ''request'' \<or> JStr name \<in> set (required @ more) \<or>
          (\<not> truthy (pget schema ''oneOf'') \<and> shouldPopulateOptional name child))
        (entries_of (pget schema ''properties'')))))"

definition array_size :: "string \<Rightarrow> jsval \<Rightarrow> string + nat" where
  "array_size kind schema = (case to_num (coalesce (pget schema ''minItems'') (JInt (if kind = ''request'' then 1 else 0))) of
     Fin r \<Rightarrow> Inr (nat (trunc_rat r)) | NaN \<Rightarrow> Inr 0 | NegInf \<Rightarrow> Inr 0 | PosInf \<Rightarrow> Inl ''Invalid array length'')"

text \<open>A map whose function may throw or not return; it stops at the first that does.\<close>

primrec mapEO :: "('a \<Rightarrow> (string + 'b) option) \<Rightarrow> 'a list \<Rightarrow> (string + 'b list) option" where
  "mapEO f [] = Some (Inr [])"
| "mapEO f (x # xs) = Option.bind (f x) (\<lambda>r. case r of Inl e \<Rightarrow> Some (Inl e)
     | Inr y \<Rightarrow> Option.bind (mapEO f xs) (\<lambda>rs. case rs of Inl e \<Rightarrow> Some (Inl e) | Inr ys \<Rightarrow> Some (Inr (y # ys))))"

lemma mapEO_mono [partial_function_mono]:
  assumes "\<And>x. mono_option (\<lambda>f. F f x)"
  shows "mono_option (\<lambda>f. mapEO (F f) xs)"
proof (induction xs)
  case Nil
  show ?case by (simp add: option.const_mono)
next
  case (Cons x xs)
  show ?case unfolding mapEO.simps
    by (rule bind_mono [OF assms], rename_tac r, case_tac r)
      (simp_all add: option.const_mono, rule bind_mono [OF Cons], simp add: option.const_mono)
qed

lemma mapEO_Some: "(\<And>x. x \<in> set xs \<Longrightarrow> \<exists>r. f x = Some r) \<Longrightarrow> \<exists>r. mapEO f xs = Some r"
proof (induction xs)
  case (Cons x xs)
  then obtain r rs where "f x = Some r" "mapEO f xs = Some rs" by (meson list.set_intros)
  then show ?case by (cases r; cases rs) simp_all
qed simp

partial_function (option) synthesizeSchema ::
  "(string \<Rightarrow> string) \<Rightarrow> string \<Rightarrow> string \<Rightarrow> jsval \<Rightarrow> string \<Rightarrow> jsval \<Rightarrow> (string + jsval) option" where
  "synthesizeSchema host_of base kind doc name unresolved = (case resolveSchema unresolved doc of
     Inl e \<Rightarrow> Some (Inl e)
   | Inr schema \<Rightarrow>
       if pget schema ''const'' \<noteq> JUndef then Some (Inr (pget schema ''const''))
       else if schema_enum schema \<noteq> [] then Some (Inr (hd (schema_enum schema)))
       else if pget schema ''default'' \<noteq> JUndef \<and> \<not> shouldPopulateOptional name schema
       then Some (Inr (pget schema ''default''))
       else if schema_type schema = JStr ''object'' \<or> truthy (pget schema ''properties'') then
         (case chosen_properties kind schema of
            Inl e \<Rightarrow> Some (Inl e)
          | Inr props \<Rightarrow> Option.bind (mapEO (\<lambda>p. synthesizeSchema host_of base kind doc (fst p) (snd p)) props)
              (\<lambda>r. case r of Inl e \<Rightarrow> Some (Inl e)
               | Inr vs \<Rightarrow> if props = [] \<and> has_items (pget schema ''oneOf'')
                   then synthesizeSchema host_of base kind doc name (jget (pget schema ''oneOf'') ''0'')
                   else Some (Inr (JObj (from_entries (zip (map fst props) vs))))))
       else if has_items (pget schema ''oneOf'')
       then synthesizeSchema host_of base kind doc name (jget (pget schema ''oneOf'') ''0'')
       else if has_items (pget schema ''anyOf'')
       then synthesizeSchema host_of base kind doc name (jget (pget schema ''anyOf'') ''0'')
       else if schema_type schema = JStr ''array'' then
         (case array_size kind schema of
            Inl e \<Rightarrow> Some (Inl e)
          | Inr n \<Rightarrow> Option.bind (mapEO (\<lambda>c. synthesizeSchema host_of base kind doc name c)
                (replicate n (coalesce (pget schema ''items'') (JObj [(''type'', JStr ''string'')]))))
              (\<lambda>r. Some (map_sum (\<lambda>e. e) JArr r)))
       else if schema_type schema = JStr ''integer'' \<or> schema_type schema = JStr ''number''
       then Some (Inr (JNum (numberSample name schema)))
       else if schema_type schema = JStr ''boolean'' then Some (Inr (JBool (booleanSample name)))
       else Some (Inr (JStr (stringSample host_of name schema base kind))))"

section \<open>Termination\<close>

lemma size_pget: "pget v k \<noteq> JUndef \<Longrightarrow> size (pget v k) < size v"
proof -
  assume a: "pget v k \<noteq> JUndef"
  then obtain fs where v: "v = JObj fs" by (cases v) (auto simp: pget_def)
  then have "(k, pget v k) \<in> set fs" using a by (auto split: option.splits dest: map_of_SomeD)
  then have "size_prod (\<lambda>_. 0) size (k, pget v k) \<le> size_list (size_prod (\<lambda>_. 0) size) fs"
    by (rule size_list_estimation'[OF _ order_refl])
  then show ?thesis unfolding v by (simp add: v)
qed

lemma size_entries: "(k, c) \<in> set (entries_of v) \<Longrightarrow> size c \<le> size v"
proof (cases v)
  case (JObj fs)
  assume "(k, c) \<in> set (entries_of v)"
  then have "size_prod (\<lambda>_. 0) size (k, c) \<le> size_list (size_prod (\<lambda>_. 0) size) fs"
    by (intro size_list_estimation' [OF _ order_refl]) (simp add: JObj entries_of_def)
  then show ?thesis by (simp add: JObj)
next
  case (JArr vs)
  assume "(k, c) \<in> set (entries_of v)"
  then have "c \<in> set vs" by (auto simp: JArr entries_of_def dest: set_zip_rightD)
  then have "size c \<le> size_list size vs" by (intro size_list_estimation' [OF _ order_refl])
  then show ?thesis by (simp add: JArr)
next
  case (JStr s)
  assume "(k, c) \<in> set (entries_of v)"
  then have "c \<in> set (map (\<lambda>c. JStr [c]) s)" unfolding JStr entries_of_def by (auto dest: set_zip_rightD)
  then obtain a where "a \<in> set s" "c = JStr [a]" by auto
  then show ?thesis by (cases s) (auto simp: JStr)
qed (auto simp: entries_of_def)

lemma size_jget: "jget v k \<noteq> JUndef \<Longrightarrow> size (jget v k) \<le> size v"
  by (auto simp: jget_def split: option.splits intro: size_entries dest!: map_of_SomeD)

lemma resolve_without_document: "resolveSchema v JUndef = Inr (coalesce v (JObj []))"
  by (simp add: resolveSchema_def truthy_def)

text \<open>A value read below a schema without document is smaller, or undefined and then at once sampled.\<close>

lemma synthesize_undefined: "\<exists>r. synthesizeSchema host_of base kind JUndef name JUndef = Some r"
  by (subst synthesizeSchema.simps)
    (simp add: resolve_without_document coalesce_def nullish_def schema_enum_def schema_type_def truthy_def)

lemma synthesize_without_document:
  "\<exists>r. synthesizeSchema host_of base kind JUndef name v = Some r"
proof (induction "size v" arbitrary: v name rule: less_induct)
  case less
  let ?s = "coalesce v (JObj [])"
  show ?case
  proof (cases "nullish v")
    case True
    then have "?s = JObj []" by (simp add: coalesce_def)
    then show ?thesis
      by (subst synthesizeSchema.simps)
        (simp add: resolve_without_document schema_enum_def schema_type_def truthy_def)
  next
    case False
    then have s: "?s = v" by (simp add: coalesce_def)
    have below: "\<exists>r. synthesizeSchema host_of base kind JUndef n c = Some r"
      if "c = JUndef \<or> size c < size v" for n c
      using that less synthesize_undefined by blast
    have alt: "\<exists>r. synthesizeSchema host_of base kind JUndef n (jget (pget v k) i) = Some r" for n k i
    proof (rule below)
      show "jget (pget v k) i = JUndef \<or> size (jget (pget v k) i) < size v"
      proof (cases "jget (pget v k) i = JUndef")
        case False
        then have "pget v k \<noteq> JUndef" by (auto simp: jget_def entries_of_def)
        with False size_jget [of "pget v k" i] size_pget [of v k] show ?thesis by linarith
      qed simp
    qed
    have props: "\<exists>r. mapEO (\<lambda>p. synthesizeSchema host_of base kind JUndef (fst p) (snd p)) ps = Some r"
      if "chosen_properties kind v = Inr ps" for ps
    proof (rule mapEO_Some, rule below)
      fix p assume "p \<in> set ps"
      then have p: "(fst p, snd p) \<in> set (entries_of (pget v ''properties''))"
        using that by (auto simp: chosen_properties_def)
      then have "pget v ''properties'' \<noteq> JUndef" by (auto simp: entries_of_def)
      with size_entries [OF p] size_pget show "snd p = JUndef \<or> size (snd p) < size v"
        by (meson le_less_trans)
    qed
    have items: "\<exists>r. mapEO (\<lambda>c. synthesizeSchema host_of base kind JUndef n c)
        (replicate k (coalesce (pget v ''items'') (JObj [(''type'', JStr ''string'')]))) = Some r" for n k
    proof (rule mapEO_Some)
      fix c assume "c \<in> set (replicate k (coalesce (pget v ''items'') (JObj [(''type'', JStr ''string'')])))"
      then consider "c = JObj [(''type'', JStr ''string'')]" | "c = pget v ''items''" "c \<noteq> JUndef"
        by (auto simp: coalesce_def nullish_def split: if_splits)
      then show "\<exists>r. synthesizeSchema host_of base kind JUndef n c = Some r"
      proof cases
        case 1
        then show ?thesis
          by (subst synthesizeSchema.simps)
            (simp add: resolve_without_document coalesce_def nullish_def schema_enum_def schema_type_def
              truthy_def)
      next
        case 2
        then show ?thesis using below size_pget by blast
      qed
    qed
    have arrays: "\<exists>r. Option.bind (mapEO (synthesizeSchema host_of base kind JUndef n)
        (replicate k (coalesce (pget v ''items'') (JObj [(''type'', JStr ''string'')])))) (\<lambda>r. Some (g r)) = Some r"
      for n k and g :: "string + jsval list \<Rightarrow> string + jsval"
      using items [of n k] by auto
    show ?thesis
    proof (cases "chosen_properties kind v")
      case (Inl e)
      then show ?thesis
        using alt arrays
        by (subst synthesizeSchema.simps) (simp add: resolve_without_document s split: sum.split)
    next
      case (Inr ps)
      obtain r where r: "mapEO (\<lambda>p. synthesizeSchema host_of base kind JUndef (fst p) (snd p)) ps = Some r"
        using props [OF Inr] by blast
      show ?thesis
        using alt arrays r Inr
        by (subst synthesizeSchema.simps) (simp add: resolve_without_document s split: sum.split)
    qed
  qed
qed

text \<open>A request for a message that contains itself: a document as the daemon writes it for such a message.\<close>

definition NODE_REF :: jsval where
  "NODE_REF = JObj [(''$ref'', JStr ''#/schemas/Node'')]"

definition NODE_DOC :: jsval where
  "NODE_DOC = JObj [(''schemas'', JObj [(''Node'', JObj [(''type'', JStr ''object''),
     (''properties'', JObj [(''child'', NODE_REF)])])])]"

lemma resolve_node: "resolveSchema NODE_REF NODE_DOC = Inr (JObj [(''type'', JStr ''object''),
     (''properties'', JObj [(''child'', NODE_REF)])])"
  by (simp add: resolveSchema_def NODE_REF_def NODE_DOC_def truthy_def jget_def entries_of_def coalesce_def nullish_def)

lemma recursive_request_step:
  "synthesizeSchema host_of base ''request'' NODE_DOC name NODE_REF = Some r \<Longrightarrow> False"
proof (rule synthesizeSchema.raw_induct [where P = "\<lambda>h b k d n u r. d = NODE_DOC \<longrightarrow> u = NODE_REF \<longrightarrow> k \<noteq> ''request''",
      THEN mp, THEN mp, THEN notE])
  fix f :: "(string \<Rightarrow> string) \<Rightarrow> string \<Rightarrow> string \<Rightarrow> jsval \<Rightarrow> string \<Rightarrow> jsval \<Rightarrow> (string + jsval) option"
    and h b k d n u r
  assume IH: "\<And>h b k d n u r. f h b k d n u = Some r \<Longrightarrow> d = NODE_DOC \<longrightarrow> u = NODE_REF \<longrightarrow> k \<noteq> ''request''"
  assume body: "(case resolveSchema u d of
     Inl e \<Rightarrow> Some (Inl e)
   | Inr schema \<Rightarrow>
       if pget schema ''const'' \<noteq> JUndef then Some (Inr (pget schema ''const''))
       else if schema_enum schema \<noteq> [] then Some (Inr (hd (schema_enum schema)))
       else if pget schema ''default'' \<noteq> JUndef \<and> \<not> shouldPopulateOptional n schema
       then Some (Inr (pget schema ''default''))
       else if schema_type schema = JStr ''object'' \<or> truthy (pget schema ''properties'') then
         (case chosen_properties k schema of
            Inl e \<Rightarrow> Some (Inl e)
          | Inr props \<Rightarrow> Option.bind (mapEO (\<lambda>p. f h b k d (fst p) (snd p)) props)
              (\<lambda>r. case r of Inl e \<Rightarrow> Some (Inl e)
               | Inr vs \<Rightarrow> if props = [] \<and> has_items (pget schema ''oneOf'')
                   then f h b k d n (jget (pget schema ''oneOf'') ''0'')
                   else Some (Inr (JObj (from_entries (zip (map fst props) vs))))))
       else if has_items (pget schema ''oneOf'')
       then f h b k d n (jget (pget schema ''oneOf'') ''0'')
       else if has_items (pget schema ''anyOf'')
       then f h b k d n (jget (pget schema ''anyOf'') ''0'')
       else if schema_type schema = JStr ''array'' then
         (case array_size k schema of
            Inl e \<Rightarrow> Some (Inl e)
          | Inr m \<Rightarrow> Option.bind (mapEO (\<lambda>c. f h b k d n c)
                (replicate m (coalesce (pget schema ''items'') (JObj [(''type'', JStr ''string'')]))))
              (\<lambda>r. Some (map_sum (\<lambda>e. e) JArr r)))
       else if schema_type schema = JStr ''integer'' \<or> schema_type schema = JStr ''number''
       then Some (Inr (JNum (numberSample n schema)))
       else if schema_type schema = JStr ''boolean'' then Some (Inr (JBool (booleanSample n)))
       else Some (Inr (JStr (stringSample h n schema b k)))) = Some r"
  show "d = NODE_DOC \<longrightarrow> u = NODE_REF \<longrightarrow> k \<noteq> ''request''"
  proof (intro impI notI)
    assume eq: "d = NODE_DOC" "u = NODE_REF" "k = ''request''"
    have "f h b ''request'' NODE_DOC ''child'' NODE_REF = None"
      using IH [of h b "''request''" NODE_DOC "''child''" NODE_REF] by (cases "f h b ''request'' NODE_DOC ''child'' NODE_REF") auto
    with body show False
      by (simp add: eq resolve_node schema_enum_def schema_type_def chosen_properties_def iterate_def entries_of_def jget_def)
  qed
qed auto

lemma recursive_request: "synthesizeSchema host_of base ''request'' NODE_DOC name NODE_REF = None"
  using recursive_request_step by (cases "synthesizeSchema host_of base ''request'' NODE_DOC name NODE_REF") auto

section \<open>Samples and their schema\<close>

text \<open>The sample of a url by the parts of its name is never reached: \<open>url\<close> was tested before.\<close>

lemma url_sample_unreachable:
  "includes_str (to_lower name) ''url'' \<Longrightarrow>
     stringSample host_of name schema base kind = (if base \<noteq> [] then base else MOCK_DEFAULT)"
  by (simp add: stringSample_def)

definition satisfies_bounds :: "jsval \<Rightarrow> rat \<Rightarrow> bool" where
  "satisfies_bounds schema r \<longleftrightarrow>
     (\<forall>m. pget schema ''minimum'' = JNum (Fin m) \<longrightarrow> m \<le> r) \<and>
     (\<forall>m. pget schema ''exclusiveMinimum'' = JNum (Fin m) \<longrightarrow> m < r) \<and>
     (\<forall>m. pget schema ''maximum'' = JNum (Fin m) \<longrightarrow> r \<le> m) \<and>
     (\<forall>m. pget schema ''exclusiveMaximum'' = JNum (Fin m) \<longrightarrow> r < m)"

definition integer_bound :: "jsval \<Rightarrow> bool" where
  "integer_bound v \<longleftrightarrow> v = JUndef \<or> (\<exists>i. v = JInt i)"

text \<open>The two ends of the range, and the sample between them.\<close>

lemma between_sample:
  fixes lo :: int and hi :: jsnum
  assumes hi: "hi = PosInf \<or> (\<exists>h. hi = Fin (of_int h) \<and> lo \<le> h)"
    and base: "base = num_min (Fin (of_int lo)) hi"
  shows "\<exists>r. (if e then num_min (num_add base 1) hi else base) = Fin (of_int r) \<and> lo \<le> r \<and>
    (\<forall>h. hi = Fin (of_int h) \<longrightarrow> r \<le> h)"
proof -
  have b: "base = Fin (of_int lo)" using hi by (auto simp: base num_min_def)
  show ?thesis
  proof (cases "hi = PosInf")
    case True
    then show ?thesis
      by (auto simp: b num_min_def num_add_def intro: exI [of _ "lo + 1"] exI [of _ lo])
  next
    case False
    with hi obtain h where h: "hi = Fin (of_int h)" "lo \<le> h" by blast
    have "num_min (num_add base 1) hi = Fin (of_int (min (lo + 1) h))"
      by (auto simp: b h(1) num_min_def num_add_def min_def)
    with h show ?thesis
      by (auto simp: b intro: exI [of _ "min (lo + 1) h"] exI [of _ lo])
  qed
qed

lemma num_add_Fin [simp]: "num_add (Fin r) k = Fin (r + k)"
  by (simp add: num_add_def)

text \<open>The sample made up for a number satisfies the integer bounds of its schema, whenever some integer
does and each side of the range is given by one keyword; only names that speak of a timeout or a port get
their fixed values.\<close>

lemma number_sample_in_bounds:
  assumes "integer_bound (pget schema ''minimum'')" and "integer_bound (pget schema ''exclusiveMinimum'')"
    and "integer_bound (pget schema ''maximum'')" and "integer_bound (pget schema ''exclusiveMaximum'')"
    and "pget schema ''minimum'' = JUndef \<or> pget schema ''exclusiveMinimum'' = JUndef"
    and "pget schema ''maximum'' = JUndef \<or> pget schema ''exclusiveMaximum'' = JUndef"
    and "satisfies_bounds schema (of_int i)"
    and "\<not> includes_str (to_lower name) ''timeout''" and "\<not> includes_str (to_lower name) ''port''"
  shows "\<exists>r. numberSample name schema = Fin (of_int r) \<and> satisfies_bounds schema (of_int r)"
proof -
  let ?exmin = "pget schema ''exclusiveMinimum''" and ?exmax = "pget schema ''exclusiveMaximum''"
  define lo where "lo = (case coalesce (pget schema ''minimum'') ?exmin of
    JNum m \<Rightarrow> num_add m (if ?exmin \<noteq> JUndef then 1 else 0) | _ \<Rightarrow> Fin 1)"
  define hi where "hi = (case coalesce (pget schema ''maximum'') ?exmax of
    JNum m \<Rightarrow> num_add m (if ?exmax \<noteq> JUndef then -1 else 0) | _ \<Rightarrow> PosInf)"
  have sample: "numberSample name schema = (if rx_match END_TIME_RE (to_lower name)
      then num_min (num_add (num_min lo hi) 1) hi else num_min lo hi)"
    using assms(8,9) by (simp add: numberSample_def Let_def lo_def hi_def)
  consider (none) "lo = Fin 1" "pget schema ''minimum'' = JUndef" "?exmin = JUndef"
    | (le) l where "lo = Fin (of_int l)" "pget schema ''minimum'' = JInt l" "?exmin = JUndef" "l \<le> i"
    | (less) l where "lo = Fin (of_int (l + 1))" "pget schema ''minimum'' = JUndef" "?exmin = JInt l" "l + 1 \<le> i"
    using assms(1,2,5,7) by (fastforce simp: integer_bound_def lo_def coalesce_def nullish_def satisfies_bounds_def)
  note lower = this
  consider (none) "hi = PosInf" "pget schema ''maximum'' = JUndef" "?exmax = JUndef"
    | (le) h where "hi = Fin (of_int h)" "pget schema ''maximum'' = JInt h" "?exmax = JUndef" "i \<le> h"
    | (less) h where "hi = Fin (of_int (h - 1))" "pget schema ''maximum'' = JUndef" "?exmax = JInt h" "i \<le> h - 1"
    using assms(3,4,6,7) by (fastforce simp: integer_bound_def hi_def coalesce_def nullish_def satisfies_bounds_def)
  note upper = this
  have hi': "hi = PosInf \<or> (\<exists>h. hi = Fin (of_int h) \<and> i \<le> h)"
    using upper
  proof cases
    case (less h)
    then show ?thesis by (intro disjI2 exI [of _ "h - 1"]) simp
  qed auto
  define l where "l = (case lo of Fin r \<Rightarrow> floor r | _ \<Rightarrow> 1)"
  have lo: "lo = Fin (of_int l)" using lower by cases (simp_all add: l_def)
  obtain k where k: "num_min lo hi = num_min (Fin (of_int k)) hi" "hi = PosInf \<or> (\<exists>h. hi = Fin (of_int h) \<and> k \<le> h)"
    and below: "k = l \<or> (pget schema ''minimum'' = JUndef \<and> ?exmin = JUndef)"
  proof (cases "hi = PosInf \<or> l \<le> i")
    case True
    then show ?thesis using that [of l] lo hi' by fastforce
  next
    case False
    have none: "pget schema ''minimum'' = JUndef \<and> ?exmin = JUndef" using lower
    proof cases
      case (less l')
      then have "l = l' + 1" by (simp add: l_def)
      with False less(4) show ?thesis by simp
    next
      case (le l')
      then have "l = l'" by (simp add: l_def)
      with False le(4) show ?thesis by simp
    qed simp
    obtain h where h: "hi = Fin (of_int h)" using hi' False by blast
    have "num_min lo hi = num_min (Fin (of_int (min l h))) hi" by (auto simp: lo h num_min_def min_def)
    then show ?thesis using that [of "min l h"] none h by auto
  qed
  obtain r where r: "numberSample name schema = Fin (of_int r)" "k \<le> r" "\<forall>h. hi = Fin (of_int h) \<longrightarrow> r \<le> h"
    using between_sample [OF k(2) k(1), of "rx_match END_TIME_RE (to_lower name)"] sample by auto
  have "(\<forall>m. pget schema ''minimum'' = JNum (Fin m) \<longrightarrow> m \<le> of_int r) \<and>
      (\<forall>m. ?exmin = JNum (Fin m) \<longrightarrow> m < of_int r)"
    using lower
  proof cases
    case (le l')
    then have "k = l'" using below by (auto simp: l_def)
    with le r(2) show ?thesis by simp
  next
    case (less l')
    then have "lo = Fin (of_int (l' + 1))" by simp
    then have "l = l' + 1" unfolding l_def by (simp only: jsnum.case floor_of_int)
    then have "k = l' + 1" using below less by auto
    then have "of_int l' < rat_of_int r" using r(2) by simp
    with less show ?thesis by simp
  qed simp
  moreover have "(\<forall>m. pget schema ''maximum'' = JNum (Fin m) \<longrightarrow> of_int r \<le> m) \<and>
      (\<forall>m. ?exmax = JNum (Fin m) \<longrightarrow> of_int r < m)"
    using upper
  proof cases
    case (le h)
    then show ?thesis using r(3) by simp
  next
    case (less h)
    then have "r \<le> h - 1" using r(3) [THEN spec, of "h - 1"] by simp
    then have "rat_of_int r < of_int h" by linarith
    with less show ?thesis by simp
  qed simp
  ultimately show ?thesis using r(1) by (auto simp: satisfies_bounds_def)
qed

lemma number_sample_in_bounds_example:
  "\<exists>r. numberSample ''size'' (JObj [(''minimum'', JInt 3), (''exclusiveMaximum'', JInt 5)]) = Fin (of_int r) \<and>
     satisfies_bounds (JObj [(''minimum'', JInt 3), (''exclusiveMaximum'', JInt 5)]) (of_int r)"
proof (rule number_sample_in_bounds)
  show "satisfies_bounds (JObj [(''minimum'', JInt 3), (''exclusiveMaximum'', JInt 5)]) (of_int 4)"
    by (simp add: satisfies_bounds_def)
  have i: "integer_bound (JNum (Fin 3))" "integer_bound (JNum (Fin 5))"
    by (auto simp: integer_bound_def intro: exI [of _ "3::int"] exI [of _ "5::int"])
  show "integer_bound (pget (JObj [(''minimum'', JInt 3), (''exclusiveMaximum'', JInt 5)]) ''minimum'')"
    "integer_bound (pget (JObj [(''minimum'', JInt 3), (''exclusiveMaximum'', JInt 5)]) ''exclusiveMaximum'')"
    using i by simp_all
  show "\<not> includes_str (to_lower ''size'') ''timeout''" "\<not> includes_str (to_lower ''size'') ''port''"
    by (simp_all add: to_lower_def lower_char_def code_of_def sublist_code)
qed (simp_all add: integer_bound_def)

text \<open>Making up a configuration or a secret from a schema file always ends; making up a request does
not for a message that contains itself, since all its properties get values and references are followed.\<close>

lemma synthesis_termination:
  "(\<exists>r. synthesizeSchema host_of base kind JUndef name schema = Some r) \<and>
   synthesizeSchema host_of base ''request'' NODE_DOC name NODE_REF = None"
  using synthesize_without_document recursive_request by blast

end
