(* ===== verification/Smoke.thy ===== *)
theory Smoke
  imports SmokeSchema JS_Effects NodePath "HOL-Library.Word"
begin

text \<open>
  The smoke test of service packages (src/scripts/service-package-smoke.mjs): options, fixtures, the mock
  upstream, the waits for processes and answers as runs over their events, the expectations of a fixture,
  and the test of one service with its cleanup. The octobus command line, HTTP, HTTP/2, the protobuf
  serializer, URLs, files and the clock are arguments. The values made up from schemas are in SmokeSchema.
\<close>

section \<open>Options\<close>

record smoke_options =
  so_serviceDirs :: "string list"
  so_commandTimeoutMs :: jsnum
  so_importTimeoutMs :: jsnum
  so_instanceTimeoutMs :: jsnum
  so_callTimeoutMs :: jsnum
  so_continueOnError :: bool
  so_keepDataDir :: bool
  so_dataDir :: "string option"

definition smoke_defaults :: smoke_options where
  "smoke_defaults = \<lparr>so_serviceDirs = [], so_commandTimeoutMs = Fin 30000, so_importTimeoutMs = Fin 120000,
     so_instanceTimeoutMs = Fin 60000, so_callTimeoutMs = Fin 10000, so_continueOnError = True,
     so_keepDataDir = False, so_dataDir = None\<rparr>"

definition smoke_requiredValue :: "string \<Rightarrow> string list \<Rightarrow> string + string \<times> string list" where
  "smoke_requiredValue flag rest = (case rest of
     v # r \<Rightarrow> if v = [] then Inl (flag @ '' requires a value'') else Inr (v, r)
   | [] \<Rightarrow> Inl (flag @ '' requires a value''))"

definition smoke_arg :: "smoke_options \<Rightarrow> string \<Rightarrow> string list \<Rightarrow> string + smoke_options \<times> string list" where
  "smoke_arg opts arg rest = (let valued = (\<lambda>f. case smoke_requiredValue arg rest of
         Inl e \<Rightarrow> Inl e | Inr (v, r) \<Rightarrow> Inr (f v, r)) in
     if arg = ''--service-dir'' then valued (\<lambda>v. opts\<lparr>so_serviceDirs := so_serviceDirs opts @ [v]\<rparr>)
     else if arg = ''--data-dir'' then valued (\<lambda>v. opts\<lparr>so_dataDir := Some v\<rparr>)
     else if arg = ''--keep-data-dir'' then Inr (opts\<lparr>so_keepDataDir := True\<rparr>, rest)
     else if arg = ''--fail-fast'' then Inr (opts\<lparr>so_continueOnError := False\<rparr>, rest)
     else if arg = ''--call-timeout-ms'' then valued (\<lambda>v. opts\<lparr>so_callTimeoutMs := str_to_num v\<rparr>)
     else if arg = ''--import-timeout-ms'' then valued (\<lambda>v. opts\<lparr>so_importTimeoutMs := str_to_num v\<rparr>)
     else Inl (''unknown argument '' @ arg))"

lemma smoke_arg_shorter: "smoke_arg opts arg rest = Inr (opts', r) \<Longrightarrow> length r \<le> length rest"
  by (auto simp: smoke_arg_def smoke_requiredValue_def Let_def split: if_splits list.splits)

function smoke_args :: "smoke_options \<Rightarrow> string list \<Rightarrow> string + smoke_options" where
  "smoke_args opts [] = Inr opts"
| "smoke_args opts (arg # rest) = (case smoke_arg opts arg rest of
     Inl e \<Rightarrow> Inl e | Inr (opts', r) \<Rightarrow> smoke_args opts' r)"
  by pat_completeness auto
termination
  by (relation "measure (\<lambda>(opts, args). length args)") (auto dest: smoke_arg_shorter)

section \<open>Fixtures\<close>

definition plain_object :: "jsval \<Rightarrow> bool" where
  "plain_object v \<longleftrightarrow> (case v of JObj _ \<Rightarrow> True | _ \<Rightarrow> False)"

definition undefined_or_bool :: "jsval \<Rightarrow> bool" where
  "undefined_or_bool v \<longleftrightarrow> (case v of JUndef \<Rightarrow> True | JBool _ \<Rightarrow> True | _ \<Rightarrow> False)"

definition PROTOCOLS :: "string list" where
  "PROTOCOLS = [''connect'', ''grpc'', ''mcp'']"

definition fixture_check :: "string \<Rightarrow> bool \<Rightarrow> string \<Rightarrow> string + unit" where
  "fixture_check fixturePath ok message = (if ok then Inr () else Inl (fixturePath @ '': '' @ message))"

definition check_fixture :: "string \<Rightarrow> jsval \<Rightarrow> string + jsval" where
  "check_fixture p fixture = (let get = pget fixture; check = fixture_check p in
     bindE (check (plain_object fixture) ''smoke fixture must be a JSON object'') (\<lambda>_.
     bindE (check (case get ''method'' of JStr m \<Rightarrow> m \<noteq> [] | _ \<Rightarrow> False) ''method must be a non-empty string'') (\<lambda>_.
     bindE (check (plain_object (get ''request'')) ''request must be a JSON object'') (\<lambda>_.
     bindE (check (undefined_or_bool (get ''expectUpstream'')) ''expectUpstream must be a boolean'') (\<lambda>_.
     bindE (check (undefined_or_bool (get ''requireBusinessSuccess'')) ''requireBusinessSuccess must be a boolean'') (\<lambda>_.
     bindE (check (undefined_or_bool (get ''requireUpstreamPerProtocol'')) ''requireUpstreamPerProtocol must be a boolean'') (\<lambda>_.
     bindE (check (case get ''protocols'' of JUndef \<Rightarrow> True
         | JArr ps \<Rightarrow> ps \<noteq> [] \<and> list_all (\<lambda>q. q \<in> JStr ` set PROTOCOLS) ps | _ \<Rightarrow> False)
       ''protocols must be a non-empty list of connect, grpc, and/or mcp'') (\<lambda>_.
     bindE (check (get ''upstream'' = JUndef \<or> plain_object (get ''upstream'')) ''upstream must be an object'') (\<lambda>_.
     bindE (check (get ''grpcRequest'' = JUndef \<or> plain_object (get ''grpcRequest'')) ''grpcRequest must be an object'') (\<lambda>_.
     bindE (check (case get ''upstreamAll'' of JUndef \<Rightarrow> True | JArr vs \<Rightarrow> list_all plain_object vs | _ \<Rightarrow> False)
       ''upstreamAll must be a list of objects'') (\<lambda>_.
     Inr fixture)))))))))))"

text \<open>\<open>found\<close> is the parsed file at \<open>test/smoke.json\<close>, when there is one.\<close>

definition readSmokeFixture :: "string \<Rightarrow> string \<Rightarrow> (string + jsval) option \<Rightarrow> string + jsval" where
  "readSmokeFixture servicesRoot serviceDir found = (case found of
     None \<Rightarrow> Inr JNull
   | Some r \<Rightarrow> bindE r (check_fixture (path_join [servicesRoot, serviceDir, ''test'', ''smoke.json''])))"

section \<open>The mock upstream\<close>

record mock_request =
  mr_method :: string
  mr_url :: string
  mr_headers :: "(string \<times> string) list"
  mr_body :: jsval

text \<open>Which answer the mock gives: the page of one product, the feed of another, or JSON.\<close>

datatype mock_answer = EventPage | ArxivFeed | MachineList | DefaultJson

definition mock_answer_for :: "mock_request \<Rightarrow> mock_answer" where
  "mock_answer_for req = (let header = map_of (mr_headers req) in
     if mr_method req = ''GET'' \<and> mr_url req = ''/ips/eventList/detail/false/dns/false'' \<and>
        header ''cookie'' = Some ''smoke-secret'' \<and> header ''x-requested-with'' = Some ''XMLHttpRequest'' then EventPage
     else if mr_method req = ''GET'' \<and> (starts_with (mr_url req) ''/api/query?'' \<or> mr_url req = ''/api/query'') \<and>
        (includes_str (mr_url req) ''id_list='' \<or> includes_str (mr_url req) ''search_query='') then ArxivFeed
     else if mr_method req = ''POST'' \<and> mr_url req = ''/api/assetSrv/machineController/searchMachineList'' \<and>
        header ''token'' = Some ''smoke-secret'' \<and> header ''menucode'' = Some ''5101'' then MachineList
     else DefaultJson)"

definition mock_json :: "mock_answer \<Rightarrow> jsval" where
  "mock_json a = (case a of
     MachineList \<Rightarrow> JObj [(''code'', JStr ''1''), (''msg'', JStr ''success''),
       (''data'', JObj [(''list'', JArr [JObj [(''id'', JStr ''smoke-machine'')]]), (''total'', JInt 1)])]
   | _ \<Rightarrow> JObj [(''ok'', JBool True), (''code'', JInt 0), (''msg'', JStr ''ok''), (''message'', JStr ''ok''),
       (''data'', JObj []), (''result'', JObj []), (''items'', JArr []), (''list'', JArr []), (''total'', JInt 0),
       (''request_id'', JStr ''smoke-request''), (''token'', JStr ''mock-token''), (''session'', JStr ''mock-session'')])"

text \<open>A request that arrives counts as a hit; once its body is read it is recorded and answered.\<close>

record mock_state =
  ms_hits :: nat
  ms_requests :: "mock_request list"

definition mock_arrives :: "mock_state \<Rightarrow> mock_state" where
  "mock_arrives m = m\<lparr>ms_hits := ms_hits m + 1\<rparr>"

definition mock_read :: "(string \<Rightarrow> string + jsval) \<Rightarrow> mock_request \<Rightarrow> string \<Rightarrow> mock_state \<Rightarrow> mock_state \<times> mock_answer" where
  "mock_read parsed req body m = (let req = req\<lparr>mr_body := (if body = [] then JObj []
       else (case parsed body of Inr v \<Rightarrow> v | Inl e \<Rightarrow> JUndef))\<rparr>
     in (m\<lparr>ms_requests := ms_requests m @ [req]\<rparr>, mock_answer_for req))"

section \<open>Waiting\<close>

text \<open>\<open>waitForDaemon\<close> over its turns: the time, the daemon's exit code, and the answer to the status request.\<close>

fun waitForDaemon :: "int \<Rightarrow> string \<Rightarrow> (int \<times> int option \<times> (string + bool \<times> string)) list \<Rightarrow> (string + unit) option" where
  "waitForDaemon deadline lastText [] = None"
| "waitForDaemon deadline lastText ((now, exitCode, answer) # turns) = (
     if deadline \<le> now then Some (Inl (''octobus daemon did not become ready: '' @ lastText))
     else (case exitCode of Some c \<Rightarrow> Some (Inl (''octobus daemon exited early: '' @ int_str c))
     | None \<Rightarrow> (case answer of
         Inr (ok, t) \<Rightarrow> if ok then Some (Inr ()) else waitForDaemon deadline t turns
       | Inl e \<Rightarrow> waitForDaemon deadline e turns)))"

text \<open>A call of the octobus command line: what happens to the child, and what the promise becomes.\<close>

datatype child_event = Out string | Err string | Failed string | Closed "int option" | TimedOut

record cli_state =
  cs_stdout :: string
  cs_stderr :: string
  cs_settled :: "(string + string) option"
  cs_killed :: bool

definition settle_once :: "(string + string) option \<Rightarrow> (string + string) \<Rightarrow> (string + string) option" where
  "settle_once old new = (case old of None \<Rightarrow> Some new | Some r \<Rightarrow> Some r)"

definition cli_text :: "string list \<Rightarrow> string" where
  "cli_text args = ''octobus '' @ join '' '' args"

definition cli_step :: "string list \<Rightarrow> jsnum \<Rightarrow> bool \<Rightarrow> cli_state \<Rightarrow> child_event \<Rightarrow> cli_state" where
  "cli_step args timeoutMs allowFailure s ev = (case ev of
     Out t \<Rightarrow> s\<lparr>cs_stdout := cs_stdout s @ t\<rparr>
   | Err t \<Rightarrow> s\<lparr>cs_stderr := cs_stderr s @ t\<rparr>
   | TimedOut \<Rightarrow> s\<lparr>cs_killed := True, cs_settled := settle_once (cs_settled s)
       (Inl (cli_text args @ '' timed out after '' @ num_str timeoutMs @ ''ms''))\<rparr>
   | Failed e \<Rightarrow> s\<lparr>cs_settled := settle_once (cs_settled s) (Inl e)\<rparr>
   | Closed code \<Rightarrow> s\<lparr>cs_settled := settle_once (cs_settled s) (
       if code \<noteq> Some 0 \<and> \<not> allowFailure
       then Inl (cli_text args @ '' failed with code '' @ (case code of Some c \<Rightarrow> int_str c | None \<Rightarrow> ''null'') @ '': '' @
         (if cs_stderr s \<noteq> [] then cs_stderr s else cs_stdout s))
       else Inr (cs_stdout s))\<rparr>)"

definition cli_outcome :: "string list \<Rightarrow> jsnum \<Rightarrow> bool \<Rightarrow> child_event list \<Rightarrow> (string + string) option" where
  "cli_outcome args timeoutMs allowFailure evs = cs_settled (foldl (cli_step args timeoutMs allowFailure)
     \<lparr>cs_stdout = [], cs_stderr = [], cs_settled = None, cs_killed = False\<rparr> evs)"

text \<open>\<open>waitProcess\<close>: from what is recorded of the child, or from its end.\<close>

definition waitProcess :: "int option \<Rightarrow> string option \<Rightarrow> int option \<times> string option \<Rightarrow> string + unit" where
  "waitProcess exitCode signalCode ending = (
     if exitCode \<noteq> None \<or> signalCode \<noteq> None then
       (case exitCode of None \<Rightarrow> Inr ()
        | Some c \<Rightarrow> if c = 0 then Inr () else Inl (''process exited with code '' @ int_str c))
     else (case ending of (Some c, signal) \<Rightarrow> if c = 0 then Inr ()
         else Inl (''process exited with code '' @ int_str c @
           (case signal of Some g \<Rightarrow> if g \<noteq> [] then '' ('' @ g @ '')'' else [] | None \<Rightarrow> []))
       | (None, _) \<Rightarrow> Inr ()))"

section \<open>gRPC and MCP\<close>

text \<open>The frame of a message: no compression, its length in four bytes, the message.\<close>

definition grpc_frame :: "8 word list \<Rightarrow> 8 word list" where
  "grpc_frame message = (let n = length message in
     [0, word_of_nat (n div 16777216), word_of_nat (n div 65536), word_of_nat (n div 256), word_of_nat n] @ message)"

definition be32 :: "8 word list \<Rightarrow> nat" where
  "be32 bs = foldl (\<lambda>n b. 256 * n + unat b) 0 bs"

datatype grpc_event = Headers "string option" | Data string | Ended | Broken string | GrpcTimeout

record grpc_state =
  gs_status :: "string option"
  gs_body :: string
  gs_result :: "(string + unit) option"

definition grpc_finish :: "grpc_state \<Rightarrow> string + unit \<Rightarrow> grpc_state" where
  "grpc_finish s r = (case gs_result s of None \<Rightarrow> s\<lparr>gs_result := Some r\<rparr> | Some _ \<Rightarrow> s)"

definition grpc_step :: "string \<Rightarrow> jsnum \<Rightarrow> grpc_state \<Rightarrow> grpc_event \<Rightarrow> grpc_state" where
  "grpc_step method timeoutMs s ev = (case ev of
     Headers st \<Rightarrow> s\<lparr>gs_status := (case st of Some v \<Rightarrow> Some v | None \<Rightarrow> gs_status s)\<rparr>
   | Data base64 \<Rightarrow> s\<lparr>gs_body := gs_body s @ base64\<rparr>
   | Broken e \<Rightarrow> grpc_finish s (Inl e)
   | GrpcTimeout \<Rightarrow> grpc_finish s (Inl (''gRPC '' @ method @ '' timed out after '' @ num_str timeoutMs @ ''ms''))
   | Ended \<Rightarrow> grpc_finish s (if gs_status s \<noteq> Some ''0''
       then Inl (''gRPC '' @ method @ '' failed with grpc-status='' @
         (case gs_status s of Some v \<Rightarrow> v | None \<Rightarrow> ''missing'') @ '', body='' @ take 300 (gs_body s))
       else Inr ()))"

definition grpcInvoke :: "string \<Rightarrow> jsnum \<Rightarrow> grpc_event list \<Rightarrow> (string + unit) option" where
  "grpcInvoke method timeoutMs evs = gs_result (foldl (grpc_step method timeoutMs)
     \<lparr>gs_status = None, gs_body = [], gs_result = None\<rparr> evs)"

text \<open>\<open>mcpInvoke\<close> over the answer of the HTTP call: its status and body.\<close>

definition mcpInvoke :: "(string \<Rightarrow> string + jsval) \<Rightarrow> string \<Rightarrow> string + int \<times> string \<Rightarrow> string + unit" where
  "mcpInvoke parsed toolName response = bindE response (\<lambda>(st, body).
     if st < 200 \<or> 300 \<le> st then Inl (''MCP '' @ toolName @ '' returned HTTP '' @ int_str st @ '': '' @ take 300 body)
     else (case parsed body of
         Inl _ \<Rightarrow> Inl (''MCP '' @ toolName @ '' returned invalid JSON: '' @ take 300 body)
       | Inr payload \<Rightarrow> if payload = JNull then Inl ''Cannot read properties of null (reading 'error')''
           else if truthy (pget payload ''error'') \<or> \<not> truthy (pget (pget payload ''result'') ''structuredContent'')
           then Inl (''MCP '' @ toolName @ '' failed: '' @ take 300 body) else Inr ()))"

section \<open>Expectations\<close>

text \<open>What \<open>new URL(u, base)\<close> makes of a path: its parts and the first value of a search parameter.\<close>

record url_parts =
  up_pathname :: string
  up_search :: string
  up_param :: "string \<Rightarrow> string option"

definition strict_eq :: "jsval \<Rightarrow> jsval \<Rightarrow> bool" where
  "strict_eq a b = (case a of JNum x \<Rightarrow> (case b of JNum y \<Rightarrow> num_eq x y | _ \<Rightarrow> False)
     | JArr _ \<Rightarrow> False | JObj _ \<Rightarrow> False | _ \<Rightarrow> a = b)"

definition query_matches :: "url_parts \<Rightarrow> jsval \<Rightarrow> bool" where
  "query_matches u query = list_all (\<lambda>(k, v). up_param u k = Some (to_str v)) (entries_of query)"

definition expectation_met :: "(string \<Rightarrow> string + url_parts) \<Rightarrow> jsval \<Rightarrow> mock_request \<Rightarrow> string + bool" where
  "expectation_met parse_url ex req = (
     let meth = pget ex ''method''; query = pget ex ''query''; wanted = pget ex ''path'';
         fields_met = (list_all (\<lambda>(k, v). map_of (mr_headers req) (to_lower k) = Some (to_str v)) (entries_of (pget ex ''headers'')) \<and>
           list_all (\<lambda>(k, v). strict_eq (pget (mr_body req) k) v) (entries_of (pget ex ''body'')))
     in if truthy meth \<and> meth \<noteq> JStr (mr_method req) then Inr False
        else if truthy wanted then
          bindE (parse_url (mr_url req)) (\<lambda>request.
          bindE (parse_url (to_str wanted)) (\<lambda>expected.
          Inr (if up_search expected \<noteq> [] \<and> JStr (mr_url req) \<noteq> wanted then False
               else if up_search expected = [] \<and> up_pathname request \<noteq> up_pathname expected then False
               else query_matches request query \<and> fields_met)))
        else if entries_of query \<noteq> [] then
          bindE (parse_url (mr_url req)) (\<lambda>request. Inr (query_matches request query \<and> fields_met))
        else Inr fields_met)"

text \<open>\<open>requests.some(...)\<close>: the first match ends it, and so does an error.\<close>

fun some_met :: "(mock_request \<Rightarrow> string + bool) \<Rightarrow> mock_request list \<Rightarrow> string + bool" where
  "some_met f [] = Inr False"
| "some_met f (r # rs) = bindE (f r) (\<lambda>b. if b then Inr True else some_met f rs)"

definition assertUpstreamExpectation ::
  "(jsval \<Rightarrow> string) \<Rightarrow> (string \<Rightarrow> string + url_parts) \<Rightarrow> jsval \<Rightarrow> mock_request list \<Rightarrow> string + unit" where
  "assertUpstreamExpectation stringify parse_url ex requests = (if ex = JUndef then Inr ()
     else bindE (some_met (expectation_met parse_url ex) requests) (\<lambda>matched.
       if matched then Inr ()
       else Inl (''upstream request did not match fixture expectation ('' @ stringify ex @ '')'')))"

definition INFRASTRUCTURE_FAILURES :: "string list" where
  "INFRASTRUCTURE_FAILURES = [''service.json not found'', ''runtime entry'', ''backend instance is not running'',
     ''method is not implemented'', ''on-demand response is not valid protobuf'', ''octobus_package_dir'']"

definition isAcceptableConnectResult :: "int \<Rightarrow> string \<Rightarrow> bool" where
  "isAcceptableConnectResult st body \<longleftrightarrow> (200 \<le> st \<and> st < 300) \<or>
     \<not> list_ex (includes_str (to_lower body)) INFRASTRUCTURE_FAILURES"

text \<open>\<open>body.replace(/\s+/g, " ").slice(0, 300)\<close>.\<close>

fun squeeze_ws :: "bool \<Rightarrow> string \<Rightarrow> string" where
  "squeeze_ws mid [] = []"
| "squeeze_ws mid (c # cs) = (if is_ws c then (if mid then squeeze_ws True cs else CHR '' '' # squeeze_ws True cs)
     else c # squeeze_ws False cs)"

definition summarizeBody :: "string \<Rightarrow> string" where
  "summarizeBody body = take 300 (squeeze_ws False body)"

section \<open>The test of one service\<close>

text \<open>The commands run and the fields of the result set, in order.\<close>

datatype smoke_event = Cli "string list" | Field string jsval | Http string jsval | Grpc string jsval

text \<open>
  What the test of a service meets: the manifest and the fixture file, the schema files as parsed, the
  answers of the command line, of the OpenAPI and Connect and MCP calls, the serializer and the gRPC
  call, the counts of the mock at its successive reads, and the requests since the test began.
\<close>

record smoke_world =
  sw_manifest :: "string + jsval"
  sw_fixture :: "(string + jsval) option"
  sw_schema :: "string \<Rightarrow> (string + jsval) option"
  sw_cli :: "string list \<Rightarrow> string + string"
  sw_parse :: "string \<Rightarrow> string + jsval"
  sw_stringify :: "jsval \<Rightarrow> string"
  sw_openapi :: "string + bool \<times> (string + jsval)"
  sw_connect :: "string \<Rightarrow> jsval \<Rightarrow> string + int \<times> string"
  sw_serialize :: "string \<Rightarrow> jsval \<Rightarrow> string + string"
  sw_grpc :: "string \<Rightarrow> string \<Rightarrow> string + unit"
  sw_mcp :: "string \<Rightarrow> jsval \<Rightarrow> string + int \<times> string"
  sw_hits :: "nat \<Rightarrow> nat"
  sw_requests :: "mock_request list"
  sw_url :: "string \<Rightarrow> string + url_parts"
  sw_host :: "string \<Rightarrow> string"
  sw_base :: string

definition pad_start3 :: "nat \<Rightarrow> string" where
  "pad_start3 n = replicate (3 - length (nat_str n)) CHR ''0'' @ nat_str n"

definition cliA :: "smoke_world \<Rightarrow> string list \<Rightarrow> (smoke_event, string) eff" where
  "cliA w args = ([Cli args], sw_cli w args)"

definition fieldA :: "string \<Rightarrow> jsval \<Rightarrow> (smoke_event, unit) eff" where
  "fieldA k v = doA (Field k v)"

definition sorted_keys :: "jsval \<Rightarrow> jsval" where
  "sorted_keys v = JArr (map JStr (sort (map fst (entries_of v))))"

text \<open>\<open>synthesizeSchemaFile\<close>; it always ends, see \<open>synthesis_termination\<close>.\<close>

definition synthesizeSchemaFile :: "smoke_world \<Rightarrow> string \<Rightarrow> string \<Rightarrow> string + jsval" where
  "synthesizeSchemaFile w schemaPath kind = (case sw_schema w schemaPath of
     None \<Rightarrow> Inr (JObj [])
   | Some r \<Rightarrow> bindE r (\<lambda>schema.
       case synthesizeSchema (sw_host w) (sw_base w) kind JUndef [] schema of Some x \<Rightarrow> x | None \<Rightarrow> Inl []))"

definition OVERFLOW :: string where
  "OVERFLOW = ''Maximum call stack size exceeded''"

definition sampleRequestFromOpenAPI :: "smoke_world \<Rightarrow> string \<Rightarrow> string + jsval" where
  "sampleRequestFromOpenAPI w endpoint = bindE (sw_openapi w) (\<lambda>(ok, body).
     if \<not> ok then Inr (JObj [])
     else bindE body (\<lambda>spec.
       let operation = jget (jget (pget spec ''paths'') endpoint) ''post'';
           schema = pget (jget (pget (pget operation ''requestBody'') ''content'') ''application/json'') ''schema''
       in if \<not> truthy schema then Inr (JObj [])
          else bindE (resolveSchema schema spec) (\<lambda>resolved.
            case synthesizeSchema (sw_host w) [] ''request'' spec [] resolved of Some x \<Rightarrow> x | None \<Rightarrow> Inl OVERFLOW)))"

definition find_method :: "jsval \<Rightarrow> string \<Rightarrow> jsval" where
  "find_method rpcs m = (case rpcs of
     JArr vs \<Rightarrow> (case find (\<lambda>r. pget r ''method_full_name'' = JStr m) vs of Some r \<Rightarrow> r | None \<Rightarrow> JUndef)
   | _ \<Rightarrow> JUndef)"

definition chosen_rpc :: "jsval \<Rightarrow> jsval \<Rightarrow> string + jsval" where
  "chosen_rpc fixture catalog = (let wanted = pget fixture ''method'';
       connect = (if truthy wanted then find_method (pget catalog ''connect_rpc'') (to_str wanted)
         else jget (pget catalog ''connect_rpc'') ''0'')
     in if \<not> truthy connect then Inl (if truthy wanted
          then ''smoke fixture method '' @ to_str wanted @ '' is not exposed by the catalog''
          else ''catalog did not expose any Connect RPC methods'')
        else Inr connect)"

definition protocol_names :: "jsval \<Rightarrow> string list" where
  "protocol_names fixture = (case pget fixture ''protocols'' of JArr ps \<Rightarrow> map to_str ps | _ \<Rightarrow> [''connect''])"

text \<open>The instances of a service under test: import, configuration, instance, capset, catalog.\<close>

definition smoke_setup :: "smoke_world \<Rightarrow> string \<Rightarrow> jsval \<Rightarrow> string \<Rightarrow> string \<Rightarrow> string \<Rightarrow> (smoke_event, jsval) eff" where
  "smoke_setup w servicesRoot manifest serviceDir instanceID capsetID = (
     let serviceID = to_str (pget manifest ''name'');
         schema_path = (\<lambda>k d. path_join [servicesRoot, serviceDir, to_str (coalesce (pget manifest k) (JStr d))])
     in thenA (cliA w [''service'', ''import'', serviceID, ''./services//'' @ serviceDir, ''--build'', ''never'']) (\<lambda>_.
        thenA (liftA (synthesizeSchemaFile w (schema_path ''configSchema'' ''config.schema.json'') ''config'')) (\<lambda>config.
        thenA (liftA (synthesizeSchemaFile w (schema_path ''secretSchema'' ''secret.schema.json'') ''secret'')) (\<lambda>secret.
        thenA (fieldA ''config_keys'' (sorted_keys config)) (\<lambda>_.
        thenA (fieldA ''secret_keys'' (sorted_keys secret)) (\<lambda>_.
        thenA (cliA w [''instance'', ''create'', instanceID, ''--service'', serviceID,
          ''--config-json'', sw_stringify w config, ''--secret-json'', sw_stringify w secret]) (\<lambda>_.
        thenA (cliA w [''capset'', ''create'', capsetID, ''--name'', capsetID]) (\<lambda>_.
        thenA (cliA w [''capset'', ''add-instance'', capsetID, instanceID]) (\<lambda>_.
        thenA (cliA w [''catalog'', capsetID, ''--all'', ''--json'']) (\<lambda>t.
        liftA (sw_parse w t)))))))))))"

text \<open>One more protocol: its call, whether the mock saw it, and the check that it had to.\<close>

definition protocol_fields :: "string \<Rightarrow> bool \<Rightarrow> (string \<times> jsval) list \<Rightarrow> (string \<times> jsval) list" where
  "protocol_fields name upstream ps = set_key (set_key ps name (JBool True)) (name @ ''_upstream'') (JBool upstream)"

definition grpc_part :: "smoke_world \<Rightarrow> jsval \<Rightarrow> jsval \<Rightarrow> string \<Rightarrow> jsval \<Rightarrow> bool \<Rightarrow> (string \<times> jsval) list \<Rightarrow>
    (smoke_event, (string \<times> jsval) list) eff" where
  "grpc_part w fixture catalog methodName request strict ps = (
     let grpc = find_method (pget catalog ''grpc'') methodName in
     if \<not> truthy grpc then liftA (Inl (''catalog did not expose a gRPC method for '' @ methodName))
     else (let grpcRequest = coalesce (pget fixture ''grpcRequest'') request; upstream = sw_hits w 2 < sw_hits w 3;
         ps' = protocol_fields ''grpc'' upstream ps in
       thenA (liftA (sw_serialize w methodName grpcRequest)) (\<lambda>message.
       thenA (doA (Grpc methodName grpcRequest)) (\<lambda>_.
       thenA (liftA (sw_grpc w methodName message)) (\<lambda>_.
       thenA (fieldA ''protocols'' (JObj ps')) (\<lambda>_.
       if strict \<and> \<not> upstream then liftA (Inl (''gRPC '' @ methodName @ '' did not reach the mock upstream''))
       else retA ps'))))))"

definition mcp_part :: "smoke_world \<Rightarrow> jsval \<Rightarrow> string \<Rightarrow> jsval \<Rightarrow> bool \<Rightarrow> (string \<times> jsval) list \<Rightarrow>
    (smoke_event, (string \<times> jsval) list) eff" where
  "mcp_part w catalog methodName request strict ps = (
     let mcp = find_method (pget catalog ''mcp'') methodName; tool = to_str (pget mcp ''tool_name'') in
     if \<not> truthy mcp then liftA (Inl (''catalog did not expose an MCP tool for '' @ methodName))
     else (let upstream = sw_hits w 4 < sw_hits w 5; ps' = protocol_fields ''mcp'' upstream ps in
       thenA (doA (Http tool request)) (\<lambda>_.
       thenA (liftA (mcpInvoke (sw_parse w) tool (sw_mcp w tool request))) (\<lambda>_.
       thenA (fieldA ''protocols'' (JObj ps')) (\<lambda>_.
       if strict \<and> \<not> upstream then liftA (Inl (''MCP '' @ tool @ '' did not reach the mock upstream''))
       else retA ps')))))"

definition connect_part :: "smoke_world \<Rightarrow> jsval \<Rightarrow> jsval \<Rightarrow> (smoke_event, string \<times> jsval \<times> int \<times> string) eff" where
  "connect_part w fixture catalog =
     thenA (liftA (chosen_rpc fixture catalog)) (\<lambda>connect.
     let methodName = to_str (pget connect ''method_full_name''); endpoint = to_str (pget connect ''endpoint'') in
     thenA (fieldA ''method'' (pget connect ''method_full_name'')) (\<lambda>_.
     thenA (fieldA ''connect_endpoint'' (pget connect ''endpoint'')) (\<lambda>_.
     thenA (liftA (if nullish (pget fixture ''request'') then sampleRequestFromOpenAPI w endpoint
         else Inr (pget fixture ''request''))) (\<lambda>request.
     thenA (fieldA ''request_keys'' (sorted_keys request)) (\<lambda>_.
     thenA (doA (Http endpoint request)) (\<lambda>_.
     thenA (liftA (sw_connect w endpoint request)) (\<lambda>(st, body). retA (methodName, request, st, body))))))))"

definition expectations :: "smoke_world \<Rightarrow> jsval \<Rightarrow> string + unit" where
  "expectations w fixture = (
     let check = (\<lambda>ex. assertUpstreamExpectation (sw_stringify w) (sw_url w) ex (sw_requests w)) in
     bindE (check (pget fixture ''upstream'')) (\<lambda>_.
     bindE (mapE check (case pget fixture ''upstreamAll'' of JArr vs \<Rightarrow> vs | _ \<Rightarrow> [])) (\<lambda>_. Inr ())))"

definition chain_ok :: "jsval \<Rightarrow> bool \<Rightarrow> bool \<Rightarrow> int \<Rightarrow> string \<Rightarrow> string list \<Rightarrow> (string \<times> jsval) list \<Rightarrow> bool" where
  "chain_ok fixture expectUpstream hit st body protocols ps \<longleftrightarrow>
     (expectUpstream \<longrightarrow> hit) \<and>
     (if truthy (pget fixture ''requireBusinessSuccess'') then 200 \<le> st \<and> st < 300 else isAcceptableConnectResult st body) \<and>
     list_all (\<lambda>q. truthy (pget (JObj ps) q)) protocols"

text \<open>All calls of the chosen method, and whether the chain was in order.\<close>

definition smoke_probe :: "smoke_world \<Rightarrow> jsval \<Rightarrow> jsval \<Rightarrow> (smoke_event, bool) eff" where
  "smoke_probe w fixture catalog =
     thenA (connect_part w fixture catalog) (\<lambda>(methodName, request, st, body).
     let expectUpstream = truthy (coalesce (pget fixture ''expectUpstream'') (JBool True));
         strict = (pget fixture ''requireUpstreamPerProtocol'' = JBool True);
         business = (200 \<le> st \<and> st < 300); protocols = protocol_names fixture; upstream = sw_hits w 0 < sw_hits w 1;
         ps = [(''connect'', JBool business), (''connect_upstream'', JBool upstream)]
     in thenA (fieldA ''http_status'' (JInt st)) (\<lambda>_.
        thenA (fieldA ''response_summary'' (JStr (summarizeBody body))) (\<lambda>_.
        thenA (fieldA ''business_success'' (JBool business)) (\<lambda>_.
        thenA (fieldA ''protocols'' (JObj ps)) (\<lambda>_.
        thenA (if strict \<and> \<not> upstream then liftA (Inl (''Connect '' @ methodName @ '' did not reach the mock upstream''))
          else retA ()) (\<lambda>_.
        thenA (if ''grpc'' \<in> set protocols then grpc_part w fixture catalog methodName request strict ps else retA ps) (\<lambda>ps.
        thenA (if ''mcp'' \<in> set protocols then mcp_part w catalog methodName request strict ps else retA ps) (\<lambda>ps.
        thenA (fieldA ''mock_hits'' (JInt (int (sw_hits w 6) - int (sw_hits w 0)))) (\<lambda>_.
        thenA (fieldA ''expect_upstream'' (JBool expectUpstream)) (\<lambda>_.
        thenA (liftA (expectations w fixture)) (\<lambda>_.
        retA (chain_ok fixture expectUpstream (sw_hits w 0 < sw_hits w 6) st body protocols ps))))))))))))"

definition smoke_calls :: "smoke_world \<Rightarrow> jsval \<Rightarrow> jsval \<Rightarrow> (smoke_event, unit) eff" where
  "smoke_calls w fixture catalog = thenA (smoke_probe w fixture catalog) (\<lambda>b. fieldA ''chain_ok'' (JBool b))"

definition result_of :: "(string \<times> jsval) list \<Rightarrow> smoke_event list \<Rightarrow> (string \<times> jsval) list" where
  "result_of fields0 evs = foldl (\<lambda>fs ev. case ev of Field k v \<Rightarrow> set_key fs k v | _ \<Rightarrow> fs) fields0 evs"

definition smoke_cleanup :: "string \<Rightarrow> string \<Rightarrow> smoke_event list" where
  "smoke_cleanup capsetID instanceID = [Cli [''capset'', ''delete'', capsetID], Cli [''instance'', ''delete'', instanceID]]"

definition smoke_initial :: "string \<Rightarrow> jsval \<Rightarrow> string \<Rightarrow> string \<Rightarrow> (string \<times> jsval) list" where
  "smoke_initial serviceDir manifest instanceID capsetID = [(''service_dir'', JStr serviceDir),
     (''service_id'', pget manifest ''name''), (''source'', JStr (''./services//'' @ serviceDir)),
     (''instance_id'', JStr instanceID), (''capset_id'', JStr capsetID),
     (''runtime_mode'', coalesce (pget (pget manifest ''runtime'') ''mode'') (JStr ''long-running'')),
     (''chain_ok'', JBool False), (''business_success'', JBool False), (''mock_hits'', JInt 0)]"

text \<open>
  The whole test: errors of the manifest and the fixture throw; any later error becomes a field of the
  result; the capset and the instance are deleted at the end in any case, and errors of that ignored.
\<close>

definition smokeService :: "smoke_world \<Rightarrow> string \<Rightarrow> nat \<Rightarrow> string \<Rightarrow> string + smoke_event list \<times> jsval" where
  "smokeService w servicesRoot index serviceDir =
     bindE (sw_manifest w) (\<lambda>manifest.
     bindE (readSmokeFixture servicesRoot serviceDir (sw_fixture w)) (\<lambda>fixture.
     let instanceID = ''smoke-'' @ pad_start3 (index + 1); capsetID = ''smoke-cap-'' @ pad_start3 (index + 1);
         run = catchA (thenA (smoke_setup w servicesRoot manifest serviceDir instanceID capsetID) (smoke_calls w fixture))
           (\<lambda>e. ([Field ''error'' (JStr e), Field ''mock_hits'' (JInt (int (sw_hits w 6) - int (sw_hits w 0)))], Inr ()))
     in Inr (fst run @ smoke_cleanup capsetID instanceID, JObj (result_of (smoke_initial serviceDir manifest instanceID capsetID) (fst run)))))"

section \<open>The run\<close>

text \<open>The services in order; the first failed chain ends the loop unless errors are to be continued after.\<close>

fun smoke_loop :: "(nat \<Rightarrow> string \<Rightarrow> string + jsval) \<Rightarrow> bool \<Rightarrow> nat \<Rightarrow> string list \<Rightarrow> jsval list \<times> bool \<times> string option" where
  "smoke_loop test continueOnError index [] = ([], False, None)"
| "smoke_loop test continueOnError index (d # ds) = (case test index d of
     Inl e \<Rightarrow> ([], False, Some e)
   | Inr result \<Rightarrow> if truthy (pget result ''chain_ok'') then
         (case smoke_loop test continueOnError (index + 1) ds of (rs, failed, err) \<Rightarrow> (result # rs, failed, err))
       else if \<not> continueOnError then ([result], True, None)
       else (case smoke_loop test continueOnError (index + 1) ds of (rs, failed, err) \<Rightarrow> (result # rs, True, err)))"

definition smoke_summary :: "jsval list \<Rightarrow> (string \<times> jsval) list" where
  "smoke_summary evidence = (let count = (\<lambda>P. JInt (int (length (filter P evidence)))) in [
     (''service_count'', JInt (int (length evidence))),
     (''chain_ok_count'', count (\<lambda>r. truthy (pget r ''chain_ok''))),
     (''chain_failed_count'', count (\<lambda>r. \<not> truthy (pget r ''chain_ok''))),
     (''business_success_count'', count (\<lambda>r. truthy (pget r ''business_success''))),
     (''evidence'', JArr evidence)])"

text \<open>The summary and exit code, or the error that ended the run; the daemon is stopped in any case.\<close>

definition smoke_main :: "(nat \<Rightarrow> string \<Rightarrow> string + jsval) \<Rightarrow> smoke_options \<Rightarrow> string list \<Rightarrow> string + (string \<times> jsval) list \<times> int" where
  "smoke_main test opts found = (
     let dirs = (if so_serviceDirs opts \<noteq> [] then so_serviceDirs opts else sort found)
     in case smoke_loop test (so_continueOnError opts) 0 dirs of
          (evidence, failed, Some e) \<Rightarrow> Inl e
        | (evidence, failed, None) \<Rightarrow> Inr (smoke_summary evidence, if failed then 1 else 0))"

section \<open>Properties\<close>

text \<open>Commands that ran in a part that did not throw all succeeded, and only the end says whether the chain is in order.\<close>

definition part_ok :: "smoke_world \<Rightarrow> (smoke_event, 'a) eff \<Rightarrow> bool" where
  "part_ok w m \<longleftrightarrow> (\<forall>v. Field ''chain_ok'' v \<notin> set (fst m)) \<and>
     (\<forall>x. snd m = Inr x \<longrightarrow> (\<forall>args. Cli args \<in> set (fst m) \<longrightarrow> (\<exists>t. sw_cli w args = Inr t)))"

lemma part_ok_intros:
  "part_ok w (liftA r)" "part_ok w (retA x)" "part_ok w (cliA w args)"
  "k \<noteq> ''chain_ok'' \<Longrightarrow> part_ok w (fieldA k v)" "part_ok w (doA (Http u b))" "part_ok w (doA (Grpc u b))"
  by (auto simp: part_ok_def cliA_def fieldA_def)

lemma part_ok_then: "part_ok w m \<Longrightarrow> (\<And>x. part_ok w (f x)) \<Longrightarrow> part_ok w (thenA m f)"
  unfolding part_ok_def fst_thenA snd_thenA by (auto split: sum.splits)

lemma part_ok_setup: "part_ok w (smoke_setup w sr manifest d i c)"
  unfolding smoke_setup_def Let_def by (intro part_ok_then part_ok_intros) simp_all

lemma part_ok_connect: "part_ok w (connect_part w fixture catalog)"
  unfolding connect_part_def Let_def
  by (intro part_ok_then part_ok_intros) (simp_all add: part_ok_intros split: prod.split)

lemma part_ok_protocols:
  "part_ok w (grpc_part w fixture catalog m request strict ps)" "part_ok w (mcp_part w catalog m request strict ps)"
  by (auto simp: grpc_part_def mcp_part_def Let_def simp del: thenA_doA intro!: part_ok_then part_ok_intros)

lemma part_ok_probe: "part_ok w (smoke_probe w fixture catalog)"
  unfolding smoke_probe_def Let_def split_def
  by (intro part_ok_then part_ok_connect) (auto simp del: thenA_ret intro!: part_ok_then part_ok_intros part_ok_protocols)

text \<open>The field of the result is that of its last event.\<close>

lemma result_of_append: "result_of fs (xs @ ys) = result_of (result_of fs xs) ys"
  by (simp add: result_of_def)

lemma result_of_other:
  "(\<And>v. Field k v \<notin> set evs) \<Longrightarrow> map_of (result_of fs evs) k = map_of fs k"
proof (induction evs arbitrary: fs)
  case (Cons ev evs)
  have "\<And>v. Field k v \<notin> set evs" using Cons.prems by auto
  note IH = Cons.IH [OF this]
  show ?case
    using IH [of "case ev of Field k v \<Rightarrow> set_key fs k v | _ \<Rightarrow> fs"] Cons.prems
    by (cases ev) (auto simp: result_of_def)
qed (simp add: result_of_def)

text \<open>A probe that finds the chain in order: what its answer rests on.\<close>

lemma probe_true:
  assumes "snd (smoke_probe w fixture catalog) = Inr True"
  shows "\<exists>m request st body ps. snd (connect_part w fixture catalog) = Inr (m, request, st, body) \<and>
    expectations w fixture = Inr () \<and>
    chain_ok fixture (truthy (coalesce (pget fixture ''expectUpstream'') (JBool True))) (sw_hits w 0 < sw_hits w 6)
      st body (protocol_names fixture) ps \<and>
    (''grpc'' \<in> set (protocol_names fixture) \<longrightarrow>
       (\<exists>message. sw_serialize w m (coalesce (pget fixture ''grpcRequest'') request) = Inr message \<and> sw_grpc w m message = Inr ())) \<and>
    (''mcp'' \<in> set (protocol_names fixture) \<longrightarrow>
       (\<exists>tool. mcpInvoke (sw_parse w) tool (sw_mcp w tool request) = Inr ()))"
proof -
  obtain m request st body where c: "snd (connect_part w fixture catalog) = Inr (m, request, st, body)"
    using assms by (auto simp: smoke_probe_def snd_thenA split: sum.splits)
  let ?strict = "pget fixture ''requireUpstreamPerProtocol'' = JBool True"
  let ?ps = "[(''connect'', JBool (200 \<le> st \<and> st < 300)), (''connect_upstream'', JBool (sw_hits w 0 < sw_hits w 1))]"
  obtain ps1 where g: "snd (if ''grpc'' \<in> set (protocol_names fixture) then grpc_part w fixture catalog m request ?strict ?ps
      else retA ?ps) = Inr ps1"
    and r: "\<exists>ps2. snd (if ''mcp'' \<in> set (protocol_names fixture) then mcp_part w catalog m request ?strict ps1
      else retA ps1) = Inr ps2 \<and> expectations w fixture = Inr () \<and>
      chain_ok fixture (truthy (coalesce (pget fixture ''expectUpstream'') (JBool True))) (sw_hits w 0 < sw_hits w 6)
        st body (protocol_names fixture) ps2"
    using assms c unfolding smoke_probe_def Let_def
    by (simp add: snd_thenA fieldA_def del: thenA_doA thenA_ret thenA_lift split: sum.splits if_split)
  obtain ps2 where mcp: "snd (if ''mcp'' \<in> set (protocol_names fixture) then mcp_part w catalog m request ?strict ps1
      else retA ps1) = Inr ps2" and rest: "expectations w fixture = Inr ()"
      "chain_ok fixture (truthy (coalesce (pget fixture ''expectUpstream'') (JBool True))) (sw_hits w 0 < sw_hits w 6)
        st body (protocol_names fixture) ps2" using r by blast
  have "\<exists>message. sw_serialize w m (coalesce (pget fixture ''grpcRequest'') request) = Inr message \<and> sw_grpc w m message = Inr ()"
    if "''grpc'' \<in> set (protocol_names fixture)"
    using g that by (auto simp: grpc_part_def Let_def snd_thenA split: if_splits sum.splits)
  moreover have "\<exists>tool. mcpInvoke (sw_parse w) tool (sw_mcp w tool request) = Inr ()"
    if "''mcp'' \<in> set (protocol_names fixture)"
    using mcp that by (auto simp: mcp_part_def Let_def snd_thenA split: if_splits sum.splits)
  ultimately show ?thesis using c rest by blast
qed

text \<open>The part of a test that errors cannot leave.\<close>

definition smoke_steps :: "smoke_world \<Rightarrow> string \<Rightarrow> jsval \<Rightarrow> jsval \<Rightarrow> string \<Rightarrow> string \<Rightarrow> string \<Rightarrow> (smoke_event, unit) eff" where
  "smoke_steps w sr manifest fixture d i c = thenA (smoke_setup w sr manifest d i c) (smoke_calls w fixture)"

lemma smoke_steps_events:
  "fst (smoke_steps w sr manifest fixture d i c) = fst (smoke_setup w sr manifest d i c) @
     (case snd (smoke_setup w sr manifest d i c) of Inl e \<Rightarrow> [] | Inr catalog \<Rightarrow> fst (smoke_probe w fixture catalog) @
       (case snd (smoke_probe w fixture catalog) of Inl e \<Rightarrow> [] | Inr b \<Rightarrow> [Field ''chain_ok'' (JBool b)]))"
  by (auto simp: smoke_steps_def smoke_calls_def fst_thenA fieldA_def split: sum.splits)

lemma smoke_initial_chain: "map_of (smoke_initial d manifest i c) ''chain_ok'' = Some (JBool False)"
  by (simp add: smoke_initial_def)

text \<open>The field chain_ok of the result: true only when the probe said so.\<close>

lemma chain_field:
  assumes "map_of (result_of (smoke_initial d manifest i c) (fst (catchA (smoke_steps w sr manifest fixture d i c)
      (\<lambda>e. ([Field ''error'' (JStr e), Field ''mock_hits'' h], Inr ()))))) ''chain_ok'' = Some v" and "truthy v"
  shows "\<exists>catalog. snd (smoke_setup w sr manifest d i c) = Inr catalog \<and> snd (smoke_probe w fixture catalog) = Inr True"
proof (cases "snd (smoke_setup w sr manifest d i c)")
  case (Inl e)
  then have "snd (smoke_steps w sr manifest fixture d i c) = Inl e"
    by (simp add: smoke_steps_def snd_thenA)
  then have "\<And>u. Field ''chain_ok'' u \<notin> set (fst (catchA (smoke_steps w sr manifest fixture d i c)
      (\<lambda>e. ([Field ''error'' (JStr e), Field ''mock_hits'' h], Inr ()))))"
    using part_ok_setup [of w sr manifest d i c] Inl smoke_steps_events [of w sr manifest fixture d i c]
    by (auto simp: catchA_def part_ok_def split: prod.splits sum.splits)
  from result_of_other [OF this] smoke_initial_chain assms(1) have "v = JBool False" by simp
  with assms(2) show ?thesis by (simp add: truthy_def)
next
  case prep: (Inr catalog)
  show ?thesis
  proof (cases "snd (smoke_probe w fixture catalog)")
    case (Inl e)
    then have "snd (smoke_steps w sr manifest fixture d i c) = Inl e"
      using prep by (simp add: smoke_steps_def smoke_calls_def snd_thenA)
    then have "\<And>u. Field ''chain_ok'' u \<notin> set (fst (catchA (smoke_steps w sr manifest fixture d i c)
        (\<lambda>e. ([Field ''error'' (JStr e), Field ''mock_hits'' h], Inr ()))))"
      using part_ok_setup [of w sr manifest d i c] part_ok_probe [of w fixture catalog] prep Inl
        smoke_steps_events [of w sr manifest fixture d i c]
      by (auto simp: catchA_def part_ok_def split: prod.splits sum.splits)
    from result_of_other [OF this] smoke_initial_chain assms(1) have "v = JBool False" by simp
    with assms(2) show ?thesis by (simp add: truthy_def)
  next
    case (Inr b)
    have "snd (smoke_steps w sr manifest fixture d i c) = Inr ()"
      using prep Inr by (simp add: smoke_steps_def smoke_calls_def snd_thenA fieldA_def)
    then have "fst (catchA (smoke_steps w sr manifest fixture d i c)
        (\<lambda>e. ([Field ''error'' (JStr e), Field ''mock_hits'' h], Inr ()))) = fst (smoke_steps w sr manifest fixture d i c)"
      by (auto simp: catchA_def split: prod.splits)
    with prep Inr smoke_steps_events [of w sr manifest fixture d i c] assms(1) have "v = JBool b"
      by (simp add: result_of_append) (simp add: result_of_def)
    with assms(2) Inr prep show ?thesis by (simp add: truthy_def)
  qed
qed


text \<open>A service whose one method answers, without fixture, schemas or request fields.\<close>

definition good_catalog :: jsval where
  "good_catalog = JObj [(''connect_rpc'', JArr [JObj [(''method_full_name'', JStr ''a.B/C''),
     (''endpoint'', JStr ''/e'')]])]"

definition good_world :: smoke_world where
  "good_world = \<lparr>sw_manifest = Inr (JObj [(''name'', JStr ''svc'')]), sw_fixture = None, sw_schema = (\<lambda>_. None),
     sw_cli = (\<lambda>_. Inr ''c''), sw_parse = (\<lambda>_. Inr good_catalog), sw_stringify = (\<lambda>_. ''j''), sw_openapi = Inr (False, Inr JNull),
     sw_connect = (\<lambda>_ _. Inr (200, [])), sw_serialize = (\<lambda>_ _. Inl ''x''), sw_grpc = (\<lambda>_ _. Inl ''x''),
     sw_mcp = (\<lambda>_ _. Inl ''x''), sw_hits = (\<lambda>n. n), sw_requests = [], sw_url = (\<lambda>_. Inl ''x''), sw_host = (\<lambda>u. u),
     sw_base = ''http://m''\<rparr>"

lemma nat_str_0: "nat_str 0 = ''0''"
  by code_simp

lemma good_probe: "snd (smoke_probe good_world JNull good_catalog) = Inr True"
  by (simp add: smoke_probe_def connect_part_def chosen_rpc_def jget_def entries_of_def good_world_def good_catalog_def truthy_def
      nullish_def coalesce_def pget_def sampleRequestFromOpenAPI_def fieldA_def snd_thenA protocol_names_def
      expectations_def assertUpstreamExpectation_def chain_ok_def isAcceptableConnectResult_def nat_str_0)

lemma good_setup: "snd (smoke_setup good_world sr m d i c) = Inr good_catalog"
  by (simp add: smoke_setup_def Let_def cliA_def fieldA_def snd_thenA good_world_def synthesizeSchemaFile_def del: thenA_doA)


text \<open>\<open>cli\<close> settles with the first of its timeout, its error and its end.\<close>

lemma cli_settles_once:
  "cs_settled s = Some r \<Longrightarrow> cs_settled (foldl (cli_step args t allow) s evs) = Some r"
  by (induction evs arbitrary: s) (auto simp: cli_step_def settle_once_def split: child_event.splits)

text \<open>A gRPC call succeeds only when its stream ended with the status 0 before any error or timeout.\<close>

lemma grpc_result_fixed: "gs_result s = Some r \<Longrightarrow> gs_result (foldl (grpc_step m t) s evs) = Some r"
  by (induction evs arbitrary: s) (auto simp: grpc_step_def grpc_finish_def split: grpc_event.splits)

lemma grpc_success:
  "gs_result s = None \<Longrightarrow> gs_result (foldl (grpc_step m t) s evs) = Some (Inr ()) \<Longrightarrow>
     \<exists>pre post. evs = pre @ Ended # post \<and> gs_status (foldl (grpc_step m t) s pre) = Some ''0'' \<and>
       (\<forall>e. Broken e \<notin> set pre) \<and> GrpcTimeout \<notin> set pre"
proof (induction evs arbitrary: s)
  case (Cons ev evs)
  show ?case
  proof (cases "gs_result (grpc_step m t s ev)")
    case None
    then have quiet: "ev \<noteq> GrpcTimeout" "\<forall>e. ev \<noteq> Broken e"
      using Cons.prems(1) by (auto simp: grpc_step_def grpc_finish_def)
    obtain pre post where "evs = pre @ Ended # post" "gs_status (foldl (grpc_step m t) (grpc_step m t s ev) pre) = Some ''0''"
      "\<forall>e. Broken e \<notin> set pre" "GrpcTimeout \<notin> set pre"
      using Cons.IH [OF None] Cons.prems(2) by auto
    with quiet show ?thesis by (intro exI [of _ "ev # pre"] exI [of _ post]) auto
  next
    case (Some r)
    then have "r = Inr ()" using grpc_result_fixed Cons.prems(2) by fastforce
    with Some Cons.prems(1) have "ev = Ended" "gs_status s = Some ''0''"
      by (auto simp: grpc_step_def grpc_finish_def split: grpc_event.splits if_splits)
    then show ?thesis by (intro exI [of _ "[]"] exI [of _ evs]) simp
  qed
qed simp

text \<open>The header of a frame carries the length of its message.\<close>

lemma frame_length:
  assumes "length message < 4294967296"
  shows "be32 (take 4 (drop 1 (grpc_frame message))) = length message \<and> drop 5 (grpc_frame message) = message"
proof -
  have "unat (word_of_nat (n div d) :: 8 word) = n div d mod 256" for n d by (simp add: unat_of_nat)
  moreover have "unat (word_of_nat n :: 8 word) = n mod 256" for n by (simp add: unat_of_nat)
  moreover have "256 * (256 * (256 * (n div 16777216 mod 256) + n div 65536 mod 256) + n div 256 mod 256) + n mod 256 = n"
    if "n < 4294967296" for n :: nat
  proof -
    have "n div 16777216 = n div 65536 div 256" "n div 65536 = n div 256 div 256" by (simp_all flip: div_mult2_eq)
    moreover have "n div 16777216 mod 256 = n div 16777216" using that by simp
    ultimately show ?thesis by simp
  qed
  ultimately show ?thesis using assms by (simp add: grpc_frame_def be32_def Let_def)
qed

text \<open>The exit code is 1 exactly when some chain failed; every result is counted once.\<close>

lemma smoke_loop_failed:
  "smoke_loop test cont i ds = (rs, failed, None) \<Longrightarrow> failed \<longleftrightarrow> (\<exists>r \<in> set rs. \<not> truthy (pget r ''chain_ok''))"
proof (induction ds arbitrary: i rs failed)
  case (Cons d ds)
  then show ?case
    by (auto split: sum.splits if_splits prod.splits) (use Cons.IH in blast)+
qed simp

end
