(* ===== verification/QQChat.thy ===== *)
theory QQChat
  imports JS_Values
begin

text \<open>
  The QQ bot connector, without its gateway (src/services/tencent__qq-chat/src/tencent-qq-chat.js):
  reading values and bindings, errors, the cache of access tokens, the token and message calls with
  their single retry, the message payload and the normal form of an event. The HTTP client, the
  clock, \<open>JSON\<close>, the URL parser and \<open>encodeURIComponent\<close> are arguments, gathered in a record.
\<close>

section \<open>Errors\<close>

record api_error =
  ae_code :: string
  ae_message :: string
  ae_httpStatus :: jsnum
  ae_httpBody :: string
  ae_responseCode :: "jsnum option"
  ae_responseMessage :: string

definition errorWithCode :: "string \<Rightarrow> string \<Rightarrow> api_error" where
  "errorWithCode code message = \<lparr>ae_code = code, ae_message = message, ae_httpStatus = Fin 0,
     ae_httpBody = [], ae_responseCode = None, ae_responseMessage = []\<rparr>"

text \<open>The gRPC status of a code; codes outside the table are \<open>UNKNOWN\<close>.\<close>

definition grpcCodeFor :: "string \<Rightarrow> string" where
  "grpcCodeFor code = (if code \<in> {''FAILED_PRECONDITION'', ''INVALID_ARGUMENT'', ''PERMISSION_DENIED'',
     ''UNAUTHENTICATED'', ''UNAVAILABLE'', ''UNKNOWN''} then code else ''UNKNOWN'')"

definition upstreamError :: "string \<Rightarrow> string \<Rightarrow> jsnum \<Rightarrow> string \<Rightarrow> jsval \<Rightarrow> jsval \<Rightarrow> api_error" where
  "upstreamError code message status body rcode rmessage = \<lparr>ae_code = code, ae_message = message,
     ae_httpStatus = (if is_finite_num status then status else Fin 0), ae_httpBody = body,
     ae_responseCode = (if is_finite_num (to_num rcode) then Some (to_num rcode) else None),
     ae_responseMessage = (case rmessage of JStr s \<Rightarrow> s | _ \<Rightarrow> [])\<rparr>"

section \<open>Values\<close>

lemma map_of_size: "map_of fs k = Some v \<Longrightarrow> size v < size (JObj fs)"
proof (induction fs)
  case (Cons f fs)
  then show ?case by (cases f) (auto split: if_splits)
qed simp

function unwrapScalar :: "jsval \<Rightarrow> jsval" where
  "unwrapScalar (JObj fs) = (case map_of fs ''value'' of Some v \<Rightarrow> unwrapScalar v | None \<Rightarrow> JObj fs)"
| "unwrapScalar JNull = JUndef"
| "unwrapScalar JUndef = JUndef"
| "unwrapScalar (JBool b) = JBool b"
| "unwrapScalar (JNum n) = JNum n"
| "unwrapScalar (JStr s) = JStr s"
| "unwrapScalar (JArr vs) = JArr vs"
  by pat_completeness auto
termination by (relation "measure size") (auto dest: map_of_size)

definition toTrimmedString :: "jsval \<Rightarrow> string" where
  "toTrimmedString v = (let raw = unwrapScalar v in if nullish raw then [] else trim (to_str raw))"

definition toBoolean :: "jsval \<Rightarrow> bool" where
  "toBoolean v = (case unwrapScalar v of
     JBool b \<Rightarrow> b
   | JNum n \<Rightarrow> is_finite_num n \<and> n \<noteq> Fin 0
   | JStr s \<Rightarrow> to_lower (trim s) \<in> {''1'', ''true'', ''yes'', ''y'', ''on''}
   | _ \<Rightarrow> False)"

text \<open>\<open>optionalUint32\<close> and \<open>optionalInt32\<close>: \<open>None\<close> is undefined, a number is truncated.\<close>

definition optional_num :: "jsval \<Rightarrow> rat option" where
  "optional_num v = (let raw = unwrapScalar v in
     if nullish raw \<or> raw = JStr [] then None
     else (case to_num raw of Fin r \<Rightarrow> Some r | _ \<Rightarrow> None))"

definition optionalUint32 :: "jsval \<Rightarrow> int option" where
  "optionalUint32 v = (case optional_num v of Some r \<Rightarrow> if r \<le> 0 then None else Some (trunc_rat r) | None \<Rightarrow> None)"

definition optionalInt32 :: "jsval \<Rightarrow> int option" where
  "optionalInt32 v = map_option trunc_rat (optional_num v)"

definition optionalIntWithDefault :: "jsval \<Rightarrow> int \<Rightarrow> int \<Rightarrow> int" where
  "optionalIntWithDefault v fallback minimum = (case optionalUint32 v of
     Some n \<Rightarrow> if n < minimum then fallback else n | None \<Rightarrow> fallback)"

definition requireString :: "jsval \<Rightarrow> string \<Rightarrow> api_error + string" where
  "requireString v fieldName = (let t = toTrimmedString v in
     if t = [] then Inl (errorWithCode ''INVALID_ARGUMENT'' (fieldName @ '' is required'')) else Inr t)"

text \<open>\<open>firstDefined(o[k1], o[k2], ...)\<close>.\<close>

definition first_of :: "jsval \<Rightarrow> string list \<Rightarrow> jsval" where
  "first_of v ks = first_defined (map (pget v) ks)"

section \<open>Context and bindings\<close>

text \<open>A spread of an object; of anything else nothing (the bindings the daemon passes are objects).\<close>

definition entries :: "jsval \<Rightarrow> (string \<times> jsval) list" where
  "entries v = (case v of JObj fs \<Rightarrow> fs | _ \<Rightarrow> [])"

definition mergedBindings :: "jsval \<Rightarrow> jsval" where
  "mergedBindings ctx = JObj (from_entries (entries (pget ctx ''config'') @ entries (pget ctx ''secret'') @
     entries (pget ctx ''bindings'')))"

record call_ctx =
  cc_bindings :: jsval
  cc_limits :: jsval
  cc_req :: jsval

definition or_empty :: "jsval \<Rightarrow> jsval" where
  "or_empty v = coalesce v (JObj [])"

definition resolveCallContext :: "jsval \<Rightarrow> call_ctx" where
  "resolveCallContext ctx = \<lparr>cc_bindings = mergedBindings ctx, cc_limits = or_empty (pget ctx ''limits''),
     cc_req = or_empty (coalesce (pget ctx ''req'') (pget ctx ''request''))\<rparr>"

definition resolveTimeoutMs :: "call_ctx \<Rightarrow> int" where
  "resolveTimeoutMs ctx = (case optionalUint32 (pget (cc_limits ctx) ''timeoutMs'') of Some n \<Rightarrow> n
     | None \<Rightarrow> (case optionalUint32 (pget (cc_bindings ctx) ''timeoutMs'') of Some n \<Rightarrow> n
     | None \<Rightarrow> (case optionalUint32 (pget (cc_bindings ctx) ''timeout_ms'') of Some n \<Rightarrow> n
     | None \<Rightarrow> 5000)))"

definition resolveGatewayIntents :: "jsval \<Rightarrow> int" where
  "resolveGatewayIntents b = optionalIntWithDefault (first_of b [''gatewayIntents'', ''gateway_intents'']) 33554432 1"

definition resolveGatewayShardIndex :: "jsval \<Rightarrow> int" where
  "resolveGatewayShardIndex b = optionalIntWithDefault (first_of b [''gatewayShardIndex'', ''gateway_shard_index'']) 0 0"

definition resolveGatewayShardCount :: "jsval \<Rightarrow> int" where
  "resolveGatewayShardCount b = optionalIntWithDefault (first_of b [''gatewayShardCount'', ''gateway_shard_count'']) 1 1"

definition resolveMaxBufferedMessages :: "jsval \<Rightarrow> int" where
  "resolveMaxBufferedMessages b = optionalIntWithDefault (first_of b [''maxBufferedMessages'', ''max_buffered_messages'']) 1000 1"

definition resolveGatewayReconnectMs :: "jsval \<Rightarrow> int" where
  "resolveGatewayReconnectMs b = optionalIntWithDefault (first_of b [''gatewayReconnectMs'', ''gateway_reconnect_ms'']) 5000 100"

definition resolveAutoStartGateway :: "jsval \<Rightarrow> bool" where
  "resolveAutoStartGateway b = toBoolean (first_of b [''autoStartGateway'', ''auto_start_gateway''])"

definition resolveAppId :: "jsval \<Rightarrow> string" where
  "resolveAppId b = toTrimmedString (first_of b [''appId'', ''app_id''])"

definition resolveAppSecret :: "jsval \<Rightarrow> string" where
  "resolveAppSecret b = toTrimmedString (first_of b [''appSecret'', ''app_secret'', ''clientSecret'', ''client_secret''])"

definition resolveConfiguredAccessToken :: "jsval \<Rightarrow> string" where
  "resolveConfiguredAccessToken b = toTrimmedString (first_of b [''accessToken'', ''access_token''])"

section \<open>The outside\<close>

record parsed_url =
  pu_protocol :: string
  pu_origin :: string
  pu_pathname :: string

record http_request =
  rq_method :: string
  rq_url :: string
  rq_headers :: "(string \<times> string) list"
  rq_body :: "jsval option"
  rq_timeout :: int

record http_response =
  rs_status :: jsnum
  rs_text :: string

text \<open>
  A parsed URL is its protocol, the text before the path (scheme, credentials, host and port) and
  the path. What the network answers depends on the requests so far: a failure with its message or a
  response. \<open>now_ms\<close> is the clock after those requests; \<open>join_url\<close> is \<open>new URL(path, base)\<close>.
\<close>

record outside =
  net :: "http_request list \<Rightarrow> http_request \<Rightarrow> string + http_response"
  now_ms :: "http_request list \<Rightarrow> int"
  json_parse :: "string \<Rightarrow> string + jsval"
  json_text :: "jsval \<Rightarrow> string"
  url_parse :: "string \<Rightarrow> parsed_url option"
  join_url :: "string \<Rightarrow> string \<Rightarrow> string"
  uri_component :: "string \<Rightarrow> string"

definition normalizeBaseUrl :: "outside \<Rightarrow> jsval \<Rightarrow> string \<Rightarrow> string \<Rightarrow> api_error + string" where
  "normalizeBaseUrl w v fallback fieldName = (
     let t = toTrimmedString v; raw = (if t \<noteq> [] then t else fallback);
         bad = errorWithCode ''INVALID_ARGUMENT'' (fieldName @ '' must be a valid HTTP/HTTPS URL'')
     in case url_parse w raw of
          None \<Rightarrow> Inl bad
        | Some u \<Rightarrow> if pu_protocol u \<noteq> ''http:'' \<and> pu_protocol u \<noteq> ''https:'' then Inl bad
            else Inr (pu_origin u @ strip_trailing CHR ''/'' (pu_pathname u)))"

definition resolveApiBaseUrl :: "outside \<Rightarrow> jsval \<Rightarrow> api_error + string" where
  "resolveApiBaseUrl w b = normalizeBaseUrl w (first_of b [''baseUrl'', ''base_url'']) ''https://api.sgroup.qq.com'' ''baseUrl''"

definition resolveTokenUrl :: "outside \<Rightarrow> jsval \<Rightarrow> api_error + string" where
  "resolveTokenUrl w b = normalizeBaseUrl w (first_of b [''tokenUrl'', ''token_url''])
     ''https://bots.qq.com/app/getAppAccessToken'' ''tokenUrl''"

definition parseJsonBody :: "outside \<Rightarrow> string \<Rightarrow> string \<Rightarrow> api_error + jsval" where
  "parseJsonBody w t label = (if trim t = [] then Inr (JObj [])
     else (case json_parse w t of Inr v \<Rightarrow> Inr v
       | Inl _ \<Rightarrow> Inl (upstreamError ''UNKNOWN'' (''qq bot '' @ label @ '' body is not valid JSON'')
            (Fin 0) t JUndef JUndef)))"

definition mapHttpStatusToCode :: "jsnum \<Rightarrow> string" where
  "mapHttpStatusToCode status = (
     if num_eq status (Fin 401) then ''UNAUTHENTICATED''
     else if num_eq status (Fin 403) then ''PERMISSION_DENIED''
     else if num_eq status (Fin 429) then ''UNAVAILABLE''
     else if num_le (Fin 400) status \<and> num_lt status (Fin 500) then ''FAILED_PRECONDITION''
     else if num_le (Fin 500) status then ''UNAVAILABLE''
     else ''UNKNOWN'')"

definition mapErrorBodyToCode :: "jsval \<Rightarrow> string" where
  "mapErrorBodyToCode body = (case to_num (coalesce (pget body ''code'') (pget body ''errcode'')) of
     Fin r \<Rightarrow> if r = 0 then ''UNKNOWN''
       else if r = 401 \<or> r = 11263 then ''UNAUTHENTICATED''
       else if r = 403 \<or> r = 11264 then ''PERMISSION_DENIED''
       else if r = 22009 \<or> r = 429 then ''UNAVAILABLE''
       else ''FAILED_PRECONDITION''
   | _ \<Rightarrow> ''UNKNOWN'')"

section \<open>Access tokens\<close>

text \<open>What a call throws: an error of the connector, or the TypeError of reading a property of \<open>null\<close>.\<close>

datatype failure = Api api_error | NullRead string

record cached_token =
  ct_accessToken :: string
  ct_expiresAtMs :: int
  ct_expiresIn :: int

text \<open>The module's state: the token cache (a \<open>Map\<close>), and the requests sent so far.\<close>

record api_state =
  tokenCache :: "(string \<times> cached_token) list"
  sent :: "http_request list"

definition tokenCacheKey :: "string \<Rightarrow> string \<Rightarrow> string \<Rightarrow> string" where
  "tokenCacheKey tokenUrl appId appSecret = tokenUrl @ ''\<newline>'' @ appId @ ''\<newline>'' @ appSecret"

definition readTokenCache :: "string \<Rightarrow> int \<Rightarrow> (string \<times> cached_token) list \<Rightarrow> string" where
  "readTokenCache key nowMs cache = (case map_of cache key of
     None \<Rightarrow> []
   | Some c \<Rightarrow> if ct_accessToken c = [] then []
       else if ct_expiresAtMs c \<le> nowMs + 60000 then [] else ct_accessToken c)"

definition writeTokenCache ::
  "string \<Rightarrow> string \<Rightarrow> int \<Rightarrow> int \<Rightarrow> (string \<times> cached_token) list \<Rightarrow> (string \<times> cached_token) list" where
  "writeTokenCache key accessToken expiresIn nowMs cache = set_key cache key
     \<lparr>ct_accessToken = accessToken, ct_expiresAtMs = nowMs + max 0 (expiresIn * 1000), ct_expiresIn = expiresIn\<rparr>"

definition remove_key :: "string \<Rightarrow> (string \<times> 'a) list \<Rightarrow> (string \<times> 'a) list" where
  "remove_key k fs = filter (\<lambda>f. fst f \<noteq> k) fs"

definition deleteTokenCache :: "outside \<Rightarrow> call_ctx \<Rightarrow> api_state \<Rightarrow> api_error + api_state" where
  "deleteTokenCache w ctx st = (
     let appId = resolveAppId (cc_bindings ctx); appSecret = resolveAppSecret (cc_bindings ctx)
     in if appId = [] \<or> appSecret = [] then Inr st
        else (case resolveTokenUrl w (cc_bindings ctx) of
          Inl e \<Rightarrow> Inl e
        | Inr tokenUrl \<Rightarrow> Inr (st\<lparr>tokenCache := remove_key (tokenCacheKey tokenUrl appId appSecret) (tokenCache st)\<rparr>)))"

definition send_request :: "outside \<Rightarrow> http_request \<Rightarrow> api_state \<Rightarrow> (string + http_response) \<times> api_state" where
  "send_request w rq st = (net w (sent st) rq, st\<lparr>sent := sent st @ [rq]\<rparr>)"

definition json_accept :: "string \<times> string" where
  "json_accept = (''accept'', ''application/json, */*;q=0.8'')"

text \<open>A 2xx status; \<open>NaN\<close> is neither below 200 nor at least 300.\<close>

definition bad_status :: "jsnum \<Rightarrow> bool" where
  "bad_status n \<longleftrightarrow> num_lt n (Fin 200) \<or> num_le (Fin 300) n"

definition http_failure :: "string \<Rightarrow> jsnum \<Rightarrow> string \<Rightarrow> jsval \<Rightarrow> failure" where
  "http_failure what status text body = (if body = JNull then NullRead ''code''
     else Api (upstreamError (mapHttpStatusToCode status) (''qq bot '' @ what @ '' http '' @ num_str status) status text
       (coalesce (pget body ''code'') (pget body ''errcode'')) (coalesce (pget body ''message'') (pget body ''errmsg''))))"

record token_reply =
  tr_http_status :: jsnum
  tr_access_token :: string
  tr_expires_in :: int
  tr_http_body :: string

definition stored_reply :: "string \<Rightarrow> token_reply" where
  "stored_reply t = \<lparr>tr_http_status = Fin 0, tr_access_token = t, tr_expires_in = 0, tr_http_body = []\<rparr>"

definition token_request :: "outside \<Rightarrow> call_ctx \<Rightarrow> string \<Rightarrow> string \<Rightarrow> string \<Rightarrow> http_request" where
  "token_request w ctx tokenUrl appId appSecret = \<lparr>rq_method = ''POST'', rq_url = tokenUrl,
     rq_headers = [(''content-type'', ''application/json''), json_accept],
     rq_body = Some (JObj [(''appId'', JStr appId), (''clientSecret'', JStr appSecret)]),
     rq_timeout = resolveTimeoutMs ctx\<rparr>"

text \<open>The part after the request: the response is checked, the token stored and handed back.\<close>

definition token_response ::
  "outside \<Rightarrow> string \<Rightarrow> http_response \<Rightarrow> api_state \<Rightarrow> (failure + token_reply) \<times> api_state" where
  "token_response w key rs st = (case parseJsonBody w (rs_text rs) ''access token response'' of
     Inl e \<Rightarrow> (Inl (Api e), st)
   | Inr body \<Rightarrow>
       if bad_status (rs_status rs) then (Inl (http_failure ''token'' (rs_status rs) (rs_text rs) body), st)
       else if body = JNull then (Inl (NullRead ''access_token''), st)
       else (case requireString (pget body ''access_token'') ''access_token'' of
           Inl e \<Rightarrow> (Inl (Api e), st)
         | Inr token \<Rightarrow> (let expiresIn = (case optionalInt32 (pget body ''expires_in'') of Some n \<Rightarrow> n | None \<Rightarrow> 0)
             in (Inr \<lparr>tr_http_status = rs_status rs, tr_access_token = token, tr_expires_in = expiresIn,
                      tr_http_body = rs_text rs\<rparr>,
                 st\<lparr>tokenCache := writeTokenCache key token expiresIn (now_ms w (sent st)) (tokenCache st)\<rparr>))))"

definition fetchAppAccessToken ::
  "outside \<Rightarrow> call_ctx \<Rightarrow> bool \<Rightarrow> api_state \<Rightarrow> (failure + token_reply) \<times> api_state" where
  "fetchAppAccessToken w ctx forceRefresh st = (
     let b = cc_bindings ctx; configured = resolveConfiguredAccessToken b
     in if configured \<noteq> [] \<and> \<not> forceRefresh then (Inr (stored_reply configured), st)
        else (case bindE (requireString (JStr (resolveAppId b)) ''appId'') (\<lambda>appId.
                   bindE (requireString (JStr (resolveAppSecret b)) ''appSecret'') (\<lambda>appSecret.
                   bindE (resolveTokenUrl w b) (\<lambda>tokenUrl. Inr (appId, appSecret, tokenUrl)))) of
            Inl e \<Rightarrow> (Inl (Api e), st)
          | Inr (appId, appSecret, tokenUrl) \<Rightarrow> (
              let key = tokenCacheKey tokenUrl appId appSecret;
                  cached = (if forceRefresh then [] else readTokenCache key (now_ms w (sent st)) (tokenCache st))
              in if cached \<noteq> [] then (Inr (stored_reply cached), st)
                 else (case send_request w (token_request w ctx tokenUrl appId appSecret) st of
                     (Inl msg, st1) \<Rightarrow> (Inl (Api (upstreamError ''UNAVAILABLE'' ''qq bot access token request failed''
                         (Fin 0) [] JUndef (JStr msg))), st1)
                   | (Inr rs, st1) \<Rightarrow> token_response w key rs st1))))"

definition resolveAccessToken ::
  "outside \<Rightarrow> call_ctx \<Rightarrow> api_state \<Rightarrow> (failure + string) \<times> api_state" where
  "resolveAccessToken w ctx st = (let configured = resolveConfiguredAccessToken (cc_bindings ctx) in
     if configured \<noteq> [] then (Inr configured, st)
     else (case fetchAppAccessToken w ctx False st of
         (Inl e, st1) \<Rightarrow> (Inl e, st1) | (Inr r, st1) \<Rightarrow> (Inr (tr_access_token r), st1)))"

section \<open>The open API\<close>

definition buildApiUrl :: "outside \<Rightarrow> string \<Rightarrow> string \<Rightarrow> string" where
  "buildApiUrl w baseUrl path = join_url w path (baseUrl @ ''/'')"

record api_reply =
  ar_httpStatus :: jsnum
  ar_httpBody :: string
  ar_body :: jsval

definition api_request :: "outside \<Rightarrow> call_ctx \<Rightarrow> string \<Rightarrow> string \<Rightarrow> string \<Rightarrow> jsval \<Rightarrow> http_request" where
  "api_request w ctx baseUrl accessToken path payload = \<lparr>rq_method = ''POST'',
     rq_url = buildApiUrl w baseUrl (dropWhile (\<lambda>c. c = CHR ''/'') path),
     rq_headers = [(''authorization'', ''QQBot '' @ accessToken), (''content-type'', ''application/json''), json_accept],
     rq_body = Some payload, rq_timeout = resolveTimeoutMs ctx\<rparr>"

text \<open>One attempt: the reply, or a failure; \<open>None\<close> in place of a reply asks for the retry after a 401.\<close>

definition api_attempt :: "outside \<Rightarrow> call_ctx \<Rightarrow> string \<Rightarrow> jsval \<Rightarrow> bool \<Rightarrow> api_state \<Rightarrow>
    (failure + api_reply option) \<times> api_state" where
  "api_attempt w ctx path payload retried st = (case resolveApiBaseUrl w (cc_bindings ctx) of
     Inl e \<Rightarrow> (Inl (Api e), st)
   | Inr baseUrl \<Rightarrow> (case resolveAccessToken w ctx st of
       (Inl e, st1) \<Rightarrow> (Inl e, st1)
     | (Inr accessToken, st1) \<Rightarrow> (case send_request w (api_request w ctx baseUrl accessToken path payload) st1 of
         (Inl msg, st2) \<Rightarrow> (Inl (Api (upstreamError ''UNAVAILABLE'' ''qq bot openapi request failed''
             (Fin 0) [] JUndef (JStr msg))), st2)
       | (Inr rs, st2) \<Rightarrow> (case parseJsonBody w (rs_text rs) ''openapi response'' of
           Inl e \<Rightarrow> (Inl (Api e), st2)
         | Inr body \<Rightarrow>
             if num_eq (rs_status rs) (Fin 401) \<and> \<not> retried \<and> resolveConfiguredAccessToken (cc_bindings ctx) = []
             then (Inr None, st2)
             else if bad_status (rs_status rs) then (Inl (http_failure ''openapi'' (rs_status rs) (rs_text rs) body), st2)
             else if body = JNull then (Inl (NullRead ''code''), st2)
             else if pget body ''code'' \<noteq> JUndef \<and> \<not> num_eq (to_num (pget body ''code'')) (Fin 0)
             then (Inl (Api (upstreamError (mapErrorBodyToCode body) ''qq bot openapi business failure''
                     (rs_status rs) (rs_text rs) (pget body ''code'') (pget body ''message''))), st2)
             else (Inr (Some \<lparr>ar_httpStatus = rs_status rs, ar_httpBody = rs_text rs, ar_body = body\<rparr>), st2)))))"

text \<open>The call: a first attempt, and after a 401 a forced token and the second, which cannot ask again.\<close>

definition callOpenApi :: "outside \<Rightarrow> call_ctx \<Rightarrow> string \<Rightarrow> jsval \<Rightarrow> api_state \<Rightarrow>
    (failure + api_reply option) \<times> api_state" where
  "callOpenApi w ctx path payload st = (case api_attempt w ctx path payload False st of
     (Inr None, st1) \<Rightarrow> (case deleteTokenCache w ctx st1 of
         Inl e \<Rightarrow> (Inl (Api e), st1)
       | Inr st2 \<Rightarrow> (case fetchAppAccessToken w ctx True st2 of
           (Inl e, st3) \<Rightarrow> (Inl e, st3)
         | (Inr r, st3) \<Rightarrow> api_attempt w ctx path payload True st3))
   | (r, st1) \<Rightarrow> (r, st1))"

section \<open>Messages\<close>

definition buildJsonObject :: "outside \<Rightarrow> jsval \<Rightarrow> string \<Rightarrow> api_error + jsval option" where
  "buildJsonObject w jsonText fieldName = (let t = toTrimmedString jsonText in
     if t = [] then Inr None
     else (case json_parse w t of
         Inl msg \<Rightarrow> Inl (errorWithCode ''INVALID_ARGUMENT''
           (if msg \<noteq> [] then msg else fieldName @ '' must be valid JSON''))
       | Inr v \<Rightarrow> if is_obj v then Inr (Some v)
           else Inl (errorWithCode ''INVALID_ARGUMENT'' (fieldName @ '' must be a JSON object''))))"

definition addJsonObject ::
  "outside \<Rightarrow> jsval \<Rightarrow> (string \<times> jsval) list \<Rightarrow> string \<times> string list \<Rightarrow> api_error + (string \<times> jsval) list" where
  "addJsonObject w req payload field = (case field of (name, keys) \<Rightarrow>
     (case buildJsonObject w (first_of req keys) (name @ ''_json'') of
        Inl e \<Rightarrow> Inl e | Inr None \<Rightarrow> Inr payload | Inr (Some v) \<Rightarrow> Inr (payload @ [(name, v)])))"

fun addJsonObjects ::
  "outside \<Rightarrow> jsval \<Rightarrow> (string \<times> jsval) list \<Rightarrow> (string \<times> string list) list \<Rightarrow> api_error + (string \<times> jsval) list" where
  "addJsonObjects w req payload [] = Inr payload"
| "addJsonObjects w req payload (f # fs) = bindE (addJsonObject w req payload f) (\<lambda>p. addJsonObjects w req p fs)"

definition json_fields :: "(string \<times> string list) list" where
  "json_fields = [(''markdown'', [''markdown_json'', ''markdownJson'']), (''keyboard'', [''keyboard_json'', ''keyboardJson'']),
     (''ark'', [''ark_json'', ''arkJson'']), (''media'', [''media_json'', ''mediaJson'']),
     (''message_reference'', [''message_reference_json'', ''messageReferenceJson''])]"

definition buildMessagePayload :: "outside \<Rightarrow> jsval \<Rightarrow> bool \<Rightarrow> api_error + jsval" where
  "buildMessagePayload w req allowWakeup = (
     let msgType = (case optionalInt32 (first_of req [''msg_type'', ''msgType'']) of Some n \<Rightarrow> n | None \<Rightarrow> 0);
         content = toTrimmedString (pget req ''content'');
         p0 = (''msg_type'', JInt msgType) # (if content \<noteq> [] then [(''content'', JStr content)] else [])
     in if msgType = 0 \<and> content = [] then Inl (errorWithCode ''INVALID_ARGUMENT'' ''content is required for text messages'')
        else bindE (addJsonObjects w req p0 json_fields) (\<lambda>p. (
          let eventId = toTrimmedString (first_of req [''event_id'', ''eventId'']);
              msgId = toTrimmedString (first_of req [''msg_id'', ''msgId''])
          in Inr (JObj (p @
            (if eventId \<noteq> [] then [(''event_id'', JStr eventId)] else []) @
            (if msgId \<noteq> [] then [(''msg_id'', JStr msgId)] else []) @
            (case optionalInt32 (first_of req [''msg_seq'', ''msgSeq'']) of Some n \<Rightarrow> [(''msg_seq'', JInt n)] | None \<Rightarrow> []) @
            (if allowWakeup \<and> toBoolean (first_of req [''is_wakeup'', ''isWakeup'']) then [(''is_wakeup'', JBool True)] else []))))))"

text \<open>The two send handlers differ in the required field, the path and the wake-up flag.\<close>

record send_reply =
  sr_http_status :: jsnum
  sr_id :: string
  sr_timestamp :: string
  sr_http_body :: string

definition buildSendMessageResponse :: "api_reply \<Rightarrow> send_reply" where
  "buildSendMessageResponse r = \<lparr>sr_http_status = ar_httpStatus r, sr_id = toTrimmedString (pget (ar_body r) ''id''),
     sr_timestamp = toTrimmedString (pget (ar_body r) ''timestamp''), sr_http_body = ar_httpBody r\<rparr>"

definition send_to :: "outside \<Rightarrow> call_ctx \<Rightarrow> jsval \<Rightarrow> string list \<Rightarrow> string \<Rightarrow> string \<Rightarrow> bool \<Rightarrow> api_state \<Rightarrow>
    (failure + send_reply option) \<times> api_state" where
  "send_to w ctx req keys field base_path allowWakeup st = (
     case bindE (requireString (first_of req keys) field) (\<lambda>target.
          bindE (buildMessagePayload w req allowWakeup) (\<lambda>payload. Inr (target, payload))) of
       Inl e \<Rightarrow> (Inl (Api e), st)
     | Inr (target, payload) \<Rightarrow> (case callOpenApi w ctx (base_path @ uri_component w target @ ''/messages'') payload st of
         (Inl e, st1) \<Rightarrow> (Inl e, st1) | (Inr r, st1) \<Rightarrow> (Inr (map_option buildSendMessageResponse r), st1)))"

definition handleSendC2CMessage :: "outside \<Rightarrow> call_ctx \<Rightarrow> jsval \<Rightarrow> api_state \<Rightarrow> (failure + send_reply option) \<times> api_state" where
  "handleSendC2CMessage w ctx req st = send_to w ctx req [''openid'', ''openId''] ''openid'' ''/v2/users/'' True st"

definition handleSendGroupMessage :: "outside \<Rightarrow> call_ctx \<Rightarrow> jsval \<Rightarrow> api_state \<Rightarrow> (failure + send_reply option) \<times> api_state" where
  "handleSendGroupMessage w ctx req st =
     send_to w ctx req [''group_openid'', ''groupOpenid''] ''group_openid'' ''/v2/groups/'' False st"

definition handleGetAccessToken :: "outside \<Rightarrow> call_ctx \<Rightarrow> jsval \<Rightarrow> api_state \<Rightarrow> (failure + token_reply) \<times> api_state" where
  "handleGetAccessToken w ctx req st =
     fetchAppAccessToken w ctx (toBoolean (first_of req [''force_refresh'', ''forceRefresh''])) st"

section \<open>Events\<close>

definition parsePayload :: "outside \<Rightarrow> jsval \<Rightarrow> api_error + jsval" where
  "parsePayload w req = (let candidate = first_of req [''payload_json'', ''payloadJson'', ''payload''] in
     if is_obj candidate then Inr candidate
     else (let t = toTrimmedString candidate in
       if t = [] then Inl (errorWithCode ''INVALID_ARGUMENT'' ''payload_json is required'')
       else (case json_parse w t of
           Inl msg \<Rightarrow> Inl (errorWithCode ''INVALID_ARGUMENT'' (if msg \<noteq> [] then msg else ''payload_json must be valid JSON''))
         | Inr v \<Rightarrow> if is_obj v then Inr v
             else Inl (errorWithCode ''INVALID_ARGUMENT'' ''payload_json must be a JSON object''))))"

definition stringifyId :: "jsval \<Rightarrow> string" where
  "stringifyId v = (case unwrapScalar v of
     JUndef \<Rightarrow> [] | JNull \<Rightarrow> []
   | JNum (Fin r) \<Rightarrow> int_str (trunc_rat r)
   | raw \<Rightarrow> to_str raw)"

definition eventData :: "jsval \<Rightarrow> jsval" where
  "eventData payload = (if is_obj (pget payload ''d'') then pget payload ''d'' else payload)"

definition message_types :: "string list" where
  "message_types = [''C2C_MESSAGE_CREATE'', ''GROUP_AT_MESSAGE_CREATE'', ''GROUP_MESSAGE_CREATE'',
     ''DIRECT_MESSAGE_CREATE'', ''AT_MESSAGE_CREATE'', ''MESSAGE_CREATE'']"

record chat_event =
  ev_is_message :: bool
  ev_is_c2c :: bool
  ev_is_group :: bool
  ev_is_channel :: bool
  ev_event_id :: string
  ev_op :: int
  ev_event_type :: string
  ev_seq :: string
  ev_message_id :: string
  ev_content :: string
  ev_timestamp :: string
  ev_openid :: string
  ev_group_openid :: string
  ev_channel_id :: string
  ev_guild_id :: string
  ev_author_json :: string
  ev_attachments_json :: string
  ev_data_json :: string
  ev_payload_json :: string

definition normalize_payload :: "outside \<Rightarrow> jsval \<Rightarrow> chat_event" where
  "normalize_payload w payload = (
     let data = eventData payload;
         author = (case pget data ''author'' of JObj fs \<Rightarrow> JObj fs | JArr vs \<Rightarrow> JArr vs | _ \<Rightarrow> JObj []);
         eventType = stringifyId (coalesce (pget payload ''t'') (pget data ''t''));
         openid = stringifyId (coalesce (coalesce (coalesce (pget author ''user_openid'') (pget author ''member_openid''))
            (pget author ''id'')) (pget data ''openid''));
         groupOpenid = stringifyId (pget data ''group_openid'');
         channelId = stringifyId (pget data ''channel_id'');
         guildId = stringifyId (pget data ''guild_id'')
     in \<lparr>ev_is_message = (eventType \<in> set message_types \<or>
           (truthy (pget data ''content'') \<and> (openid \<noteq> [] \<or> groupOpenid \<noteq> [] \<or> channelId \<noteq> []))),
         ev_is_c2c = (eventType = ''C2C_MESSAGE_CREATE'' \<or> (openid \<noteq> [] \<and> groupOpenid = [] \<and> channelId = [])),
         ev_is_group = (eventType = ''GROUP_AT_MESSAGE_CREATE'' \<or> eventType = ''GROUP_MESSAGE_CREATE'' \<or> groupOpenid \<noteq> []),
         ev_is_channel = (eventType = ''DIRECT_MESSAGE_CREATE'' \<or> eventType = ''AT_MESSAGE_CREATE'' \<or>
            eventType = ''MESSAGE_CREATE'' \<or> channelId \<noteq> [] \<or> guildId \<noteq> []),
         ev_event_id = stringifyId (pget payload ''id''),
         ev_op = (case optionalInt32 (pget payload ''op'') of Some n \<Rightarrow> n | None \<Rightarrow> 0),
         ev_event_type = eventType,
         ev_seq = stringifyId (coalesce (pget payload ''s'') (pget data ''seq'')),
         ev_message_id = stringifyId (pget data ''id''),
         ev_content = stringifyId (pget data ''content''),
         ev_timestamp = stringifyId (pget data ''timestamp''),
         ev_openid = openid, ev_group_openid = groupOpenid, ev_channel_id = channelId, ev_guild_id = guildId,
         ev_author_json = json_text w author,
         ev_attachments_json = json_text w (case pget data ''attachments'' of JArr vs \<Rightarrow> JArr vs | _ \<Rightarrow> JArr []),
         ev_data_json = json_text w data,
         ev_payload_json = json_text w payload\<rparr>)"

definition handleNormalizeEvent :: "outside \<Rightarrow> jsval \<Rightarrow> api_error + chat_event" where
  "handleNormalizeEvent w req = bindE (parsePayload w req) (\<lambda>payload. Inr (normalize_payload w payload))"

section \<open>The token store as an interface\<close>

text \<open>
  What the callers rely on: a token read is the one last written under its key, is handed out only
  while more than a minute of its life is left, and is gone once deleted.
\<close>

locale token_store =
  fixes read :: "'k \<Rightarrow> int \<Rightarrow> 'c \<Rightarrow> string"
    and store :: "'k \<Rightarrow> string \<Rightarrow> int \<Rightarrow> int \<Rightarrow> 'c \<Rightarrow> 'c"
    and drop_key :: "'k \<Rightarrow> 'c \<Rightarrow> 'c"
  assumes read_stored: "read k now (store k t ttl written c) =
      (if now + 60000 < written + max 0 (ttl * 1000) then t else [])"
    and read_other: "k \<noteq> k' \<Longrightarrow> read k' now (store k t ttl written c) = read k' now c"
    and read_dropped: "read k now (drop_key k c) = []"
    and read_drop_other: "k \<noteq> k' \<Longrightarrow> read k' now (drop_key k c) = read k' now c"
begin

text \<open>Of a run of writes under one key the last counts, whatever happens under other keys meanwhile.\<close>

definition stores :: "('k \<times> string \<times> int \<times> int) list \<Rightarrow> 'c \<Rightarrow> 'c" where
  "stores ws c = foldl (\<lambda>c (k, t, ttl, written). store k t ttl written c) c ws"

lemma read_stores_other: "k \<notin> fst ` set ws \<Longrightarrow> read k now (stores ws c) = read k now c"
proof (induction ws arbitrary: c)
  case (Cons x ws)
  obtain k' t ttl written where x: "x = (k', t, ttl, written)" by (metis surj_pair)
  have "read k now (stores (x # ws) c) = read k now (stores ws (store k' t ttl written c))"
    by (simp add: stores_def x)
  also have "\<dots> = read k now (store k' t ttl written c)" using Cons by simp
  also have "\<dots> = read k now c" using Cons.prems x by (intro read_other) auto
  finally show ?case .
qed (simp add: stores_def)

lemma read_last:
  assumes "k \<notin> fst ` set ws"
  shows "read k now (stores ws (store k t ttl written c)) =
    (if now + 60000 < written + max 0 (ttl * 1000) then t else [])"
  using read_stores_other [OF assms] read_stored by simp

lemma expired: "written + max 0 (ttl * 1000) \<le> now + 60000 \<Longrightarrow> read k now (store k t ttl written c) = []"
  by (simp add: read_stored)

end

lemma map_of_remove_key: "map_of (remove_key k fs) j = (if j = k then None else map_of fs j)"
  by (induction fs) (auto simp: remove_key_def)

interpretation qts: token_store readTokenCache writeTokenCache remove_key
proof unfold_locales
  show "readTokenCache k now (writeTokenCache k t ttl written c) =
      (if now + 60000 < written + max 0 (ttl * 1000) then t else [])" for k now t ttl written c
    by (auto simp: readTokenCache_def writeTokenCache_def)
  show "k \<noteq> k' \<Longrightarrow> readTokenCache k' now (writeTokenCache k t ttl written c) = readTokenCache k' now c"
    for k k' now t ttl written c
    by (simp add: readTokenCache_def writeTokenCache_def)
  show "readTokenCache k now (remove_key k c) = []" for k now c
    by (simp add: readTokenCache_def map_of_remove_key)
  show "k \<noteq> k' \<Longrightarrow> readTokenCache k' now (remove_key k c) = readTokenCache k' now c" for k k' now c
    by (simp add: readTokenCache_def map_of_remove_key)
qed

section \<open>Lemmas\<close>

lemma trim_nonempty_str: "toTrimmedString (JStr s) = trim s"
  by (simp add: toTrimmedString_def nullish_def)

lemma send_request_sent [simp]: "sent (snd (send_request w rq st)) = sent st @ [rq]"
  by (simp add: send_request_def)

lemma token_response_sent: "token_response w key rs st = (r, st1) \<Longrightarrow> sent st1 = sent st"
  by (auto simp: token_response_def Let_def split: sum.splits if_splits)

text \<open>A token call sends at most one request.\<close>

lemma fetch_sent:
  assumes "fetchAppAccessToken w ctx force st = (r, st1)"
  shows "length (sent st1) \<le> Suc (length (sent st))"
proof -
  have "length (sent st2) = Suc (length (sent st))"
    if "send_request w rq st = (x, st2)" for rq x st2
    using that send_request_sent [of w rq st] by simp
  with assms show ?thesis
    by (fastforce simp: fetchAppAccessToken_def Let_def dest: token_response_sent
        split: if_splits sum.splits prod.splits)
qed

lemma resolve_sent: "resolveAccessToken w ctx st = (r, st1) \<Longrightarrow> length (sent st1) \<le> Suc (length (sent st))"
  by (auto simp: resolveAccessToken_def Let_def dest: fetch_sent split: if_splits prod.splits sum.splits)

lemma resolve_configured:
  "resolveConfiguredAccessToken (cc_bindings ctx) \<noteq> [] \<Longrightarrow>
     resolveAccessToken w ctx st = (Inr (resolveConfiguredAccessToken (cc_bindings ctx)), st)"
  by (simp add: resolveAccessToken_def Let_def)

lemma api_attempt_sent:
  assumes "api_attempt w ctx path payload retried st = (r, st1)"
  shows "length (sent st1) \<le> length (sent st) + 2"
proof -
  have s: "length (sent st2) = Suc (length (sent st'))"
    if "send_request w rq st' = (x, st2)" for rq x st2 st'
    using that send_request_sent [of w rq st'] by simp
  show ?thesis
    using assms
    by (fastforce simp: api_attempt_def dest: resolve_sent s split: sum.splits prod.splits if_splits)
qed

lemma api_attempt_retried: "fst (api_attempt w ctx path payload True st) \<noteq> Inr None"
  by (auto simp: api_attempt_def split: sum.split prod.split)

lemma api_attempt_success:
  assumes "api_attempt w ctx path payload retried st = (Inr (Some r), st1)"
  shows "\<not> bad_status (ar_httpStatus r) \<and>
    (pget (ar_body r) ''code'' = JUndef \<or> num_eq (to_num (pget (ar_body r) ''code'')) (Fin 0))"
  using assms by (auto simp: api_attempt_def split: sum.splits prod.splits if_splits)

text \<open>A token that came over the network is in the cache under its key, with its life from then on.\<close>

lemma token_response_stored:
  assumes "token_response w key rs st = (Inr r, st1)"
  shows "tr_access_token r \<noteq> [] \<and> tokenCache st1 =
    writeTokenCache key (tr_access_token r) (tr_expires_in r) (now_ms w (sent st1)) (tokenCache st)"
  using assms
  by (auto simp: token_response_def Let_def requireString_def split: sum.splits if_splits)

lemma fetched_stored:
  assumes "fetchAppAccessToken w ctx force st = (Inr r, st1)" and "sent st1 \<noteq> sent st"
  shows "\<exists>appId appSecret tokenUrl c. tr_access_token r \<noteq> [] \<and>
    requireString (JStr (resolveAppId (cc_bindings ctx))) ''appId'' = Inr appId \<and>
    requireString (JStr (resolveAppSecret (cc_bindings ctx))) ''appSecret'' = Inr appSecret \<and>
    resolveTokenUrl w (cc_bindings ctx) = Inr tokenUrl \<and>
    tokenCache st1 = writeTokenCache (tokenCacheKey tokenUrl appId appSecret) (tr_access_token r)
      (tr_expires_in r) (now_ms w (sent st1)) c"
  using assms token_response_stored
  by (fastforce simp: fetchAppAccessToken_def Let_def split: if_splits sum.splits prod.splits)

section \<open>Properties\<close>

text \<open>A token fetched over the network is used again without a request: with no configured token,
a later unforced call of the same bindings, at any time that leaves more than a minute of the token's
life, returns the same token and sends nothing.\<close>

lemma token_reused:
  assumes "fetchAppAccessToken w ctx force st = (Inr r, st1)" and "sent st1 \<noteq> sent st"
    and "resolveConfiguredAccessToken (cc_bindings ctx) = []"
    and "later (sent st1) + 60000 < now_ms w (sent st1) + tr_expires_in r * 1000"
    and "0 \<le> tr_expires_in r"
  shows "fetchAppAccessToken (w\<lparr>now_ms := later\<rparr>) ctx False st1 = (Inr (stored_reply (tr_access_token r)), st1)"
proof -
  obtain appId appSecret tokenUrl c where f: "tr_access_token r \<noteq> []"
    "requireString (JStr (resolveAppId (cc_bindings ctx))) ''appId'' = Inr appId"
    "requireString (JStr (resolveAppSecret (cc_bindings ctx))) ''appSecret'' = Inr appSecret"
    "resolveTokenUrl w (cc_bindings ctx) = Inr tokenUrl"
    "tokenCache st1 = writeTokenCache (tokenCacheKey tokenUrl appId appSecret) (tr_access_token r)
      (tr_expires_in r) (now_ms w (sent st1)) c"
    using fetched_stored [OF assms(1,2)] by blast
  have "readTokenCache (tokenCacheKey tokenUrl appId appSecret) (later (sent st1)) (tokenCache st1) = tr_access_token r"
    using assms(4,5) by (simp add: f(5) qts.read_stored)
  moreover have "resolveTokenUrl (w\<lparr>now_ms := later\<rparr>) (cc_bindings ctx) = Inr tokenUrl"
    using f(4) by (simp add: resolveTokenUrl_def normalizeBaseUrl_def)
  ultimately show ?thesis
    using f(1-3) assms(3) by (simp add: fetchAppAccessToken_def Let_def)
qed

definition sample_outside :: outside where
  "sample_outside = \<lparr>net = (\<lambda>sent rq. Inr \<lparr>rs_status = Fin 200, rs_text = ''T''\<rparr>), now_ms = (\<lambda>sent. 0),
     json_parse = (\<lambda>t. Inr (JObj [(''access_token'', JStr ''tok''), (''expires_in'', JInt 7200)])),
     json_text = (\<lambda>v. ''j''), url_parse = (\<lambda>u. Some \<lparr>pu_protocol = ''https:'', pu_origin = u, pu_pathname = ''/''\<rparr>),
     join_url = (\<lambda>path base. base @ path), uri_component = (\<lambda>s. s)\<rparr>"

definition sample_ctx :: call_ctx where
  "sample_ctx = \<lparr>cc_bindings = JObj [(''appId'', JStr ''a''), (''appSecret'', JStr ''s'')], cc_limits = JObj [], cc_req = JObj []\<rparr>"

lemma sample_fetch:
  "\<exists>st1. fetchAppAccessToken sample_outside sample_ctx False \<lparr>tokenCache = [], sent = []\<rparr> =
     (Inr \<lparr>tr_http_status = Fin 200, tr_access_token = ''tok'', tr_expires_in = 7200, tr_http_body = ''T''\<rparr>, st1) \<and>
     length (sent st1) = 1"
  by (simp add: fetchAppAccessToken_def sample_outside_def sample_ctx_def resolveConfiguredAccessToken_def
      first_of_def toTrimmedString_def nullish_def resolveAppId_def resolveAppSecret_def requireString_def
      trim_def trim_start_def trim_end_def is_ws_def code_of_def resolveTokenUrl_def normalizeBaseUrl_def
      readTokenCache_def send_request_def token_response_def parseJsonBody_def bad_status_def
      optionalInt32_def optional_num_def to_num_def Let_def)

lemma token_reused_example:
  "\<exists>st1. fetchAppAccessToken (sample_outside\<lparr>now_ms := (\<lambda>sent. 3600000)\<rparr>) sample_ctx False st1 =
     (Inr (stored_reply ''tok''), st1)"
proof -
  obtain st1 where f: "fetchAppAccessToken sample_outside sample_ctx False \<lparr>tokenCache = [], sent = []\<rparr> =
     (Inr \<lparr>tr_http_status = Fin 200, tr_access_token = ''tok'', tr_expires_in = 7200, tr_http_body = ''T''\<rparr>, st1)"
    "length (sent st1) = 1" using sample_fetch by blast
  have "resolveConfiguredAccessToken (cc_bindings sample_ctx) = []"
    by (simp add: sample_ctx_def resolveConfiguredAccessToken_def first_of_def toTrimmedString_def nullish_def)
  moreover have "sent st1 \<noteq> []" using f(2) by auto
  ultimately show ?thesis
    using token_reused [OF f(1), of "\<lambda>sent. 3600000"] by (auto simp: sample_outside_def)
qed

text \<open>C17: A message call ends: it retries at most once, so it sends at most five requests (at most
three for a token, two to the API) and never ends still asking for a retry; with a configured token it
sends at most one.\<close>

theorem single_retry:
  assumes "callOpenApi w ctx path payload st = (r, st1)"
  shows "r \<noteq> Inr None \<and> length (sent st1) \<le> length (sent st) + 5 \<and>
    (resolveConfiguredAccessToken (cc_bindings ctx) \<noteq> [] \<longrightarrow> length (sent st1) \<le> Suc (length (sent st)))"
proof -
  obtain r1 s1 where a: "api_attempt w ctx path payload False st = (r1, s1)" by fastforce
  have l1: "length (sent s1) \<le> length (sent st) + 2" by (rule api_attempt_sent [OF a])
  have del: "sent s2 = sent s1" if "deleteTokenCache w ctx s1 = Inr s2" for s2
    using that by (auto simp: deleteTokenCache_def Let_def split: if_splits sum.splits)
  have conf: "r1 \<noteq> Inr None \<and> length (sent s1) \<le> Suc (length (sent st))"
    if c: "resolveConfiguredAccessToken (cc_bindings ctx) \<noteq> []"
  proof -
    have "length (sent (snd (send_request w rq st))) = Suc (length (sent st))" for rq by simp
    then show ?thesis
      using a c by (auto simp: api_attempt_def resolve_configured [OF c] split: sum.splits prod.splits if_splits)
        (metis eq_imp_le le_SucI send_request_sent length_append_singleton snd_conv)+
  qed
  show ?thesis
  proof (cases "r1 = Inr None")
    case False
    then have "r = r1" "st1 = s1" using assms a
      by (auto simp: callOpenApi_def split: sum.splits option.splits)
    with l1 False conf show ?thesis by auto
  next
    case True
    show ?thesis
    proof (cases "deleteTokenCache w ctx s1")
      case (Inl e)
      then show ?thesis using assms a True l1 conf by (auto simp: callOpenApi_def)
    next
      case (Inr s2)
      obtain f s3 where f: "fetchAppAccessToken w ctx True s2 = (f, s3)" by fastforce
      have l3: "length (sent s3) \<le> length (sent st) + 3"
        using fetch_sent [OF f] del [OF Inr] l1 by simp
      show ?thesis
      proof (cases f)
        case (Inl e)
        then show ?thesis using assms a True l3 conf f \<open>deleteTokenCache w ctx s1 = Inr s2\<close>
          by (auto simp: callOpenApi_def)
      next
        case (Inr x)
        then have b: "api_attempt w ctx path payload True s3 = (r, st1)"
          using assms a True f \<open>deleteTokenCache w ctx s1 = Inr s2\<close> by (simp add: callOpenApi_def)
        then have "r \<noteq> Inr None" using api_attempt_retried [of w ctx path payload s3] by simp
        then show ?thesis using api_attempt_sent [OF b] l3 True conf by auto
      qed
    qed
  qed
qed

definition failing_outside :: outside where
  "failing_outside = sample_outside\<lparr>net := (\<lambda>sent rq. Inl ''down'')\<rparr>"

theorem single_retry_witness:
  "fst (callOpenApi failing_outside sample_ctx ''/x'' JNull \<lparr>tokenCache = [], sent = []\<rparr>) \<noteq> Inr None \<and>
   length (sent (snd (callOpenApi failing_outside sample_ctx ''/x'' JNull \<lparr>tokenCache = [], sent = []\<rparr>))) \<le> 5"
proof -
  obtain r st1 where "callOpenApi failing_outside sample_ctx ''/x'' JNull \<lparr>tokenCache = [], sent = []\<rparr> = (r, st1)"
    by fastforce
  with single_retry [OF this] show ?thesis by simp
qed

text \<open>A message call succeeds only on a response whose status is no failure (a finite status is
then 200 to 299) and whose body has no code or the code 0.\<close>

lemma call_succeeds_only_on_success:
  assumes "callOpenApi w ctx path payload st = (Inr (Some reply), st1)"
  shows "(\<forall>q. ar_httpStatus reply = Fin q \<longrightarrow> 200 \<le> q \<and> q < 300) \<and>
    ar_httpStatus reply \<noteq> PosInf \<and> ar_httpStatus reply \<noteq> NegInf \<and>
    (pget (ar_body reply) ''code'' = JUndef \<or> num_eq (to_num (pget (ar_body reply) ''code'')) (Fin 0))"
proof -
  have "\<exists>retried s. api_attempt w ctx path payload retried s = (Inr (Some reply), st1)"
    using assms
    by (auto simp: callOpenApi_def split: prod.splits sum.splits option.splits)
  then have "\<not> bad_status (ar_httpStatus reply) \<and>
    (pget (ar_body reply) ''code'' = JUndef \<or> num_eq (to_num (pget (ar_body reply) ''code'')) (Fin 0))"
    using api_attempt_success by blast
  then show ?thesis by (auto simp: bad_status_def num_le_def)
qed

lemma call_succeeds_only_on_success_example:
  "\<exists>reply st1. callOpenApi (sample_outside\<lparr>json_parse := (\<lambda>t. Inr (JObj [(''id'', JStr ''m1'')]))\<rparr>)
      (sample_ctx\<lparr>cc_bindings := JObj [(''accessToken'', JStr ''k'')]\<rparr>) ''/x'' JNull \<lparr>tokenCache = [], sent = []\<rparr> =
     (Inr (Some reply), st1) \<and> ar_httpStatus reply \<noteq> PosInf"
proof -
  have "\<exists>reply st1. callOpenApi (sample_outside\<lparr>json_parse := (\<lambda>t. Inr (JObj [(''id'', JStr ''m1'')]))\<rparr>)
      (sample_ctx\<lparr>cc_bindings := JObj [(''accessToken'', JStr ''k'')]\<rparr>) ''/x'' JNull \<lparr>tokenCache = [], sent = []\<rparr> =
     (Inr (Some reply), st1)"
    by (simp add: callOpenApi_def api_attempt_def sample_outside_def sample_ctx_def resolveApiBaseUrl_def
        normalizeBaseUrl_def first_of_def toTrimmedString_def nullish_def resolveAccessToken_def
        resolveConfiguredAccessToken_def trim_def trim_start_def trim_end_def is_ws_def code_of_def
        send_request_def parseJsonBody_def bad_status_def)
  then show ?thesis using call_succeeds_only_on_success by blast
qed

end
