(* ===== verification/QQGateway.thy ===== *)
theory QQGateway
  imports QQChat
begin

text \<open>
  The gateway of the QQ bot connector (src/services/tencent__qq-chat/src/tencent-qq-chat.js): the
  module's single state object, the connect / start / stop / heartbeat / reconnect machinery, the
  payloads of the socket and the queue of messages. The platform's timers and sockets are part of
  the state; each \<open>await\<close> that leaves the module is a pending entry that a later step resumes. The
  text of a time stamp is an argument of the step that takes it.
\<close>

section \<open>State\<close>

record message =
  local_id :: string
  received_at :: string
  event :: chat_event

text \<open>A socket: the connection and token its listeners closed over, and what the platform knows.\<close>

record socket =
  sk_connId :: nat
  sk_token :: string
  sk_open :: bool
  sk_intentional :: bool
  sk_sent :: "jsval list"

datatype origin = FromStart | FromTimer
datatype phase = AwaitToken | AwaitInfo string

record pending =
  pc_connId :: nat
  pc_origin :: origin
  pc_phase :: phase

record gateway =
  running :: bool
  ready :: bool
  gstate :: string
  sessionId :: string
  gatewayUrl :: string
  lastEventType :: string
  lastError :: string
  startedAt :: string
  lastEventAt :: string
  lastHeartbeatAckAt :: string
  queue :: "message list"
  droppedMessages :: nat
  reconnectCount :: nat
  intents :: int
  seq_no :: jsval
  ws :: "nat option"
  heartbeatTimer :: "nat option"
  reconnectTimer :: "nat option"
  awaitingHeartbeatAck :: bool
  gctx :: "call_ctx option"
  localMessageSeq :: nat
  connectionId :: nat
  sockets :: "socket list"
  intervals :: "(nat \<times> jsnum) list"
  timeouts :: "(nat \<times> int) list"
  next_timer :: nat
  connects :: "pending list"
  starts :: "call_ctx list"

definition gateway_init :: gateway where
  "gateway_init = \<lparr>running = False, ready = False, gstate = ''stopped'', sessionId = [], gatewayUrl = [],
     lastEventType = [], lastError = [], startedAt = [], lastEventAt = [], lastHeartbeatAckAt = [],
     queue = [], droppedMessages = 0, reconnectCount = 0, intents = 33554432, seq_no = JNull, ws = None,
     heartbeatTimer = None, reconnectTimer = None, awaitingHeartbeatAck = False, gctx = None,
     localMessageSeq = 0, connectionId = 0, sockets = [], intervals = [], timeouts = [], next_timer = 0,
     connects = [], starts = []\<rparr>"

definition bindings_of :: "gateway \<Rightarrow> jsval" where
  "bindings_of g = (case gctx g of Some c \<Rightarrow> cc_bindings c | None \<Rightarrow> JObj [])"

section \<open>Timers and the socket\<close>

definition clearInterval :: "nat option \<Rightarrow> gateway \<Rightarrow> gateway" where
  "clearInterval t g = (case t of None \<Rightarrow> g | Some i \<Rightarrow> g\<lparr>intervals := filter (\<lambda>x. fst x \<noteq> i) (intervals g)\<rparr>)"

definition clearTimeout :: "nat option \<Rightarrow> gateway \<Rightarrow> gateway" where
  "clearTimeout t g = (case t of None \<Rightarrow> g | Some i \<Rightarrow> g\<lparr>timeouts := filter (\<lambda>x. fst x \<noteq> i) (timeouts g)\<rparr>)"

definition clearGatewayTimers :: "gateway \<Rightarrow> gateway" where
  "clearGatewayTimers g = (let g1 = clearInterval (heartbeatTimer g) g; g2 = clearTimeout (reconnectTimer g1) g1
     in g2\<lparr>heartbeatTimer := None, reconnectTimer := None\<rparr>)"

definition upd_socket :: "nat \<Rightarrow> (socket \<Rightarrow> socket) \<Rightarrow> gateway \<Rightarrow> gateway" where
  "upd_socket s f g = (if s < length (sockets g) then g\<lparr>sockets := (sockets g)[s := f (sockets g ! s)]\<rparr> else g)"

text \<open>\<open>ws.close()\<close> starts the closing handshake; the socket is not open any more.\<close>

definition closeGatewaySocket :: "gateway \<Rightarrow> gateway" where
  "closeGatewaySocket g = (let g1 = clearGatewayTimers (g\<lparr>ws := None\<rparr>) in
     case ws g of None \<Rightarrow> g1
     | Some s \<Rightarrow> upd_socket s (\<lambda>k. k\<lparr>sk_intentional := True, sk_open := False\<rparr>) g1)"

definition ws_send :: "jsval \<Rightarrow> gateway \<Rightarrow> gateway" where
  "ws_send frame g = (case ws g of None \<Rightarrow> g | Some s \<Rightarrow> upd_socket s (\<lambda>k. k\<lparr>sk_sent := sk_sent k @ [frame]\<rparr>) g)"

definition scheduleGatewayReconnect :: "gateway \<Rightarrow> gateway" where
  "scheduleGatewayReconnect g = (if \<not> running g \<or> reconnectTimer g \<noteq> None then g
     else g\<lparr>gstate := ''reconnecting'',
            reconnectTimer := Some (next_timer g),
            timeouts := timeouts g @ [(next_timer g, resolveGatewayReconnectMs (bindings_of g))],
            next_timer := Suc (next_timer g)\<rparr>)"

definition identifyGateway :: "string \<Rightarrow> gateway \<Rightarrow> gateway" where
  "identifyGateway accessToken g = ws_send (JObj [(''op'', JInt 2), (''d'', JObj [
     (''token'', JStr (''QQBot '' @ accessToken)), (''intents'', JInt (intents g)),
     (''shard'', JArr [JInt (resolveGatewayShardIndex (bindings_of g)), JInt (resolveGatewayShardCount (bindings_of g))]),
     (''properties'', JObj [])])]) g"

definition resumeGateway :: "string \<Rightarrow> gateway \<Rightarrow> gateway" where
  "resumeGateway accessToken g = ws_send (JObj [(''op'', JInt 6), (''d'', JObj [
     (''token'', JStr (''QQBot '' @ accessToken)), (''session_id'', JStr (sessionId g)), (''seq'', seq_no g)])]) g"

definition ws_is_open :: "gateway \<Rightarrow> bool" where
  "ws_is_open g = (case ws g of None \<Rightarrow> False | Some s \<Rightarrow> s < length (sockets g) \<and> sk_open (sockets g ! s))"

definition sendHeartbeat :: "gateway \<Rightarrow> gateway" where
  "sendHeartbeat g = (if \<not> ws_is_open g then g
     else if awaitingHeartbeatAck g then
       scheduleGatewayReconnect (closeGatewaySocket
         (g\<lparr>lastError := ''gateway heartbeat acknowledgement timed out''\<rparr>))
     else (ws_send (JObj [(''op'', JInt 1), (''d'', seq_no g)]) g)\<lparr>awaitingHeartbeatAck := True\<rparr>)"

section \<open>The queue\<close>

text \<open>\<open>while (queue.length > maxBuffered) { queue.shift(); dropped += 1 }\<close>\<close>

function drop_oldest :: "nat \<Rightarrow> 'm list \<Rightarrow> nat \<Rightarrow> 'm list \<times> nat" where
  "drop_oldest m q d = (if m < length q then drop_oldest m (tl q) (Suc d) else (q, d))"
  by pat_completeness auto
termination by (relation "measure (\<lambda>(m, q, d). length q)") auto

declare drop_oldest.simps [simp del]

definition buffer_limit :: "gateway \<Rightarrow> nat" where
  "buffer_limit g = nat (resolveMaxBufferedMessages (bindings_of g))"

definition enqueueGatewayMessage :: "outside \<Rightarrow> string \<Rightarrow> jsval \<Rightarrow> gateway \<Rightarrow> api_error + gateway" where
  "enqueueGatewayMessage w now payload g = (case handleNormalizeEvent w (JObj [(''payload_json'', JStr (json_text w payload))]) of
     Inl e \<Rightarrow> Inl e
   | Inr ev \<Rightarrow> if \<not> ev_is_message ev then Inr g
       else (let n = Suc (localMessageSeq g);
                 m = \<lparr>local_id = nat_str n, received_at = now, event = ev\<rparr>;
                 (q, d) = drop_oldest (buffer_limit g) (queue g @ [m]) (droppedMessages g)
             in Inr (g\<lparr>localMessageSeq := n, queue := q, droppedMessages := d\<rparr>)))"

definition pollMessages :: "jsval \<Rightarrow> gateway \<Rightarrow> (message list \<times> nat) \<times> gateway" where
  "pollMessages req g = (
     let maxMessages = optionalIntWithDefault (first_of req [''max_messages'', ''maxMessages'']) 10 1;
         messages = take (nat maxMessages) (queue g);
         g1 = (if toBoolean (pget req ''ack'') then g\<lparr>queue := drop (length messages) (queue g)\<rparr> else g)
     in ((messages, length (queue g1)), g1))"

definition acked_ids :: "jsval \<Rightarrow> string list" where
  "acked_ids req = (case first_of req [''local_id'', ''localId''] of
     JArr vs \<Rightarrow> filter (\<lambda>s. s \<noteq> []) (map toTrimmedString vs) | _ \<Rightarrow> [])"

definition ackMessage :: "jsval \<Rightarrow> gateway \<Rightarrow> (nat \<times> nat) \<times> gateway" where
  "ackMessage req g = (
     if toBoolean (pget req ''all'') then ((length (queue g), 0), g\<lparr>queue := []\<rparr>)
     else (let q = filter (\<lambda>m. local_id m \<notin> set (acked_ids req)) (queue g)
           in ((length (queue g) - length q, length q), g\<lparr>queue := q\<rparr>)))"

section \<open>Payloads\<close>

definition op_is :: "jsval \<Rightarrow> int \<Rightarrow> bool" where
  "op_is payload n \<longleftrightarrow> pget payload ''op'' = JInt n"

text \<open>The two assignments at the top, then a branch per operation; \<open>Inl\<close> is what the listener catches.\<close>

definition note_payload :: "jsval \<Rightarrow> gateway \<Rightarrow> gateway" where
  "note_payload payload g = (
     let g1 = (if nullish (pget payload ''s'') then g else g\<lparr>seq_no := pget payload ''s''\<rparr>)
     in if truthy (pget payload ''t'') then g1\<lparr>lastEventType := to_str (pget payload ''t'')\<rparr> else g1)"

definition hello_payload :: "jsval \<Rightarrow> string \<Rightarrow> gateway \<Rightarrow> gateway" where
  "hello_payload payload accessToken g = (
     let interval = to_num (or_else (pget (pget payload ''d'') ''heartbeat_interval'') (JInt 45000));
         g1 = clearInterval (heartbeatTimer g) g;
         g2 = g1\<lparr>heartbeatTimer := Some (next_timer g1), intervals := intervals g1 @ [(next_timer g1, interval)],
                 next_timer := Suc (next_timer g1), awaitingHeartbeatAck := False\<rparr>
     in if sessionId g2 \<noteq> [] \<and> seq_no g2 \<noteq> JNull then resumeGateway accessToken g2 else identifyGateway accessToken g2)"

definition reconnect_payload :: "bool \<Rightarrow> gateway \<Rightarrow> gateway" where
  "reconnect_payload invalid g = scheduleGatewayReconnect (closeGatewaySocket
     (if invalid then g\<lparr>lastError := ''gateway invalid session'', sessionId := [], seq_no := JNull\<rparr>
      else g\<lparr>lastError := ''gateway requested reconnect''\<rparr>))"

definition handleGatewayPayload ::
  "outside \<Rightarrow> string \<Rightarrow> jsval \<Rightarrow> string \<Rightarrow> gateway \<Rightarrow> gateway \<times> string option" where
  "handleGatewayPayload w now payload accessToken g = (
     if payload = JNull then (g, Some (''Cannot read properties of null (reading '' @ [CHR 0x27] @ ''s'' @ [CHR 0x27] @ '')''))
     else (let g1 = note_payload payload g in
       if op_is payload 10 then (hello_payload payload accessToken g1, None)
       else if op_is payload 11 then (g1\<lparr>awaitingHeartbeatAck := False, lastHeartbeatAckAt := now\<rparr>, None)
       else if op_is payload 7 \<or> op_is payload 9 then (reconnect_payload (op_is payload 9) g1, None)
       else if \<not> op_is payload 0 then (g1, None)
       else (let g2 = g1\<lparr>lastEventAt := now\<rparr> in
         if pget payload ''t'' = JStr ''READY'' then
           (g2\<lparr>ready := True, gstate := ''ready'', sessionId := toTrimmedString (pget (pget payload ''d'') ''session_id'')\<rparr>, None)
         else if to_str (pget payload ''t'') \<in> set message_types
           then (case enqueueGatewayMessage w now payload g2 of Inl e \<Rightarrow> (g2, Some (ae_message e)) | Inr g3 \<Rightarrow> (g3, None))
         else (g2, None))))"

section \<open>Connecting\<close>

text \<open>\<open>connectGateway\<close> up to its first \<open>await\<close>; nothing when the gateway is stopped meanwhile.\<close>

definition connect_begin :: "origin \<Rightarrow> gateway \<Rightarrow> gateway" where
  "connect_begin from g = (if \<not> running g \<or> gctx g = None then g
     else (let g1 = closeGatewaySocket (clearGatewayTimers (g\<lparr>connectionId := Suc (connectionId g),
              gstate := ''connecting'', ready := False, lastError := [], awaitingHeartbeatAck := False\<rparr>))
       in g1\<lparr>connects := connects g1 @ [\<lparr>pc_connId = connectionId g1, pc_origin = from, pc_phase = AwaitToken\<rparr>]\<rparr>))"

definition remove_nth :: "nat \<Rightarrow> 'a list \<Rightarrow> 'a list" where
  "remove_nth i xs = take i xs @ drop (Suc i) xs"

text \<open>The token arrived: the second request is under way.\<close>

definition connect_token :: "nat \<Rightarrow> string \<Rightarrow> gateway \<Rightarrow> gateway" where
  "connect_token i token g = (if i < length (connects g) \<and> pc_phase (connects g ! i) = AwaitToken
     then g\<lparr>connects := (connects g)[i := (connects g ! i)\<lparr>pc_phase := AwaitInfo token\<rparr>]\<rparr> else g)"

text \<open>The catch of the caller: \<open>startGateway\<close> sets the state itself, the timer leaves it to the schedule.\<close>

definition connect_caught :: "origin \<Rightarrow> string \<Rightarrow> gateway \<Rightarrow> gateway" where
  "connect_caught from msg g = (case from of
     FromStart \<Rightarrow> scheduleGatewayReconnect (g\<lparr>lastError := msg, gstate := ''reconnecting''\<rparr>)
   | FromTimer \<Rightarrow> scheduleGatewayReconnect (g\<lparr>lastError := msg\<rparr>))"

definition connect_failed :: "nat \<Rightarrow> string \<Rightarrow> gateway \<Rightarrow> gateway" where
  "connect_failed i msg g = (if i < length (connects g)
     then connect_caught (pc_origin (connects g ! i)) msg (g\<lparr>connects := remove_nth i (connects g)\<rparr>) else g)"

text \<open>The gateway's address arrived: a socket is made (when the runtime has one) and its listeners set.\<close>

definition no_websocket :: string where
  "no_websocket = ''global WebSocket is not available in this Node.js runtime''"

definition connect_info :: "bool \<Rightarrow> nat \<Rightarrow> jsval \<Rightarrow> gateway \<Rightarrow> gateway" where
  "connect_info has_websocket i url g = (if i < length (connects g) then
       (case pc_phase (connects g ! i) of
          AwaitToken \<Rightarrow> g
        | AwaitInfo token \<Rightarrow> (
            let p = connects g ! i;
                g1 = g\<lparr>connects := remove_nth i (connects g), gatewayUrl := toTrimmedString url\<rparr>
            in if \<not> has_websocket then connect_caught (pc_origin p) no_websocket g1
               else g1\<lparr>ws := Some (length (sockets g1)),
                       sockets := sockets g1 @ [\<lparr>sk_connId = pc_connId p, sk_token = token, sk_open = False,
                          sk_intentional = False, sk_sent = []\<rparr>]\<rparr>))
     else g)"

section \<open>Socket listeners\<close>

text \<open>Whether an event of socket \<open>s\<close> is of the current socket and connection.\<close>

definition current_socket :: "nat \<Rightarrow> gateway \<Rightarrow> bool" where
  "current_socket s g \<longleftrightarrow> ws g = Some s \<and> s < length (sockets g) \<and> sk_connId (sockets g ! s) = connectionId g"

definition on_open :: "nat \<Rightarrow> gateway \<Rightarrow> gateway" where
  "on_open s g = (let g1 = upd_socket s (\<lambda>k. if sk_intentional k then k else k\<lparr>sk_open := True\<rparr>) g
     in if current_socket s g1 then g1\<lparr>gstate := ''open''\<rparr> else g1)"

definition on_message :: "outside \<Rightarrow> string \<Rightarrow> nat \<Rightarrow> string \<Rightarrow> gateway \<Rightarrow> gateway" where
  "on_message w now s data g = (if \<not> current_socket s g then g
     else (case json_parse w data of
         Inl msg \<Rightarrow> g\<lparr>lastError := msg\<rparr>
       | Inr payload \<Rightarrow> (case handleGatewayPayload w now payload (sk_token (sockets g ! s)) g of
           (g1, None) \<Rightarrow> g1 | (g1, Some msg) \<Rightarrow> g1\<lparr>lastError := msg\<rparr>)))"

definition on_error :: "nat \<Rightarrow> string \<Rightarrow> gateway \<Rightarrow> gateway" where
  "on_error s msg g = (if \<not> current_socket s g then g
     else g\<lparr>lastError := (if msg \<noteq> [] then msg else ''gateway websocket error'')\<rparr>)"

definition on_close :: "nat \<Rightarrow> gateway \<Rightarrow> gateway" where
  "on_close s g = (let g1 = upd_socket s (\<lambda>k. k\<lparr>sk_open := False\<rparr>) g
     in if \<not> current_socket s g1 then g1
        else (let g2 = clearGatewayTimers (g1\<lparr>ws := None, ready := False\<rparr>)
          in if sk_intentional (sockets g2 ! s) then (if running g2 then g2 else g2\<lparr>gstate := ''stopped''\<rparr>)
             else if running g2 then scheduleGatewayReconnect g2 else g2\<lparr>gstate := ''stopped''\<rparr>))"

section \<open>Timers firing, and the calls\<close>

definition heartbeat_tick :: "nat \<Rightarrow> gateway \<Rightarrow> gateway" where
  "heartbeat_tick t g = (if t \<in> fst ` set (intervals g) then sendHeartbeat g else g)"

definition reconnect_tick :: "nat \<Rightarrow> gateway \<Rightarrow> gateway" where
  "reconnect_tick t g = (if t \<in> fst ` set (timeouts g)
     then connect_begin FromTimer (g\<lparr>timeouts := filter (\<lambda>x. fst x \<noteq> t) (timeouts g), reconnectTimer := None,
       reconnectCount := Suc (reconnectCount g)\<rparr>)
     else g)"

definition stopGateway :: "gateway \<Rightarrow> gateway" where
  "stopGateway g = closeGatewaySocket (clearGatewayTimers
     (g\<lparr>running := False, ready := False, gstate := ''stopped'', awaitingHeartbeatAck := False\<rparr>))"

text \<open>\<open>startGateway\<close> up to \<open>await stopGateway()\<close>, and what follows once that resolves.\<close>

definition start_begin :: "call_ctx \<Rightarrow> bool \<Rightarrow> gateway \<Rightarrow> gateway" where
  "start_begin ctx forceRestart g = (if running g \<and> \<not> forceRestart then g
     else (let g1 = stopGateway g in g1\<lparr>starts := starts g1 @ [ctx]\<rparr>))"

definition start_continue :: "string \<Rightarrow> gateway \<Rightarrow> gateway" where
  "start_continue now g = (case starts g of
     [] \<Rightarrow> g
   | ctx # rest \<Rightarrow> connect_begin FromStart (g\<lparr>starts := rest, running := True, ready := False, gstate := ''starting'',
       startedAt := now, gctx := Some ctx, intents := resolveGatewayIntents (cc_bindings ctx), seq_no := JNull\<rparr>))"

text \<open>Everything that can happen to the module, one step at a time.\<close>

inductive gateway_step :: "outside \<Rightarrow> gateway \<Rightarrow> gateway \<Rightarrow> bool" for w where
  start_call: "gateway_step w g (start_begin ctx force g)"
| start_resumed: "gateway_step w g (start_continue now g)"
| stop_call: "gateway_step w g (stopGateway g)"
| poll_call: "gateway_step w g (snd (pollMessages req g))"
| ack_call: "gateway_step w g (snd (ackMessage req g))"
| token_arrived: "gateway_step w g (connect_token i token g)"
| info_arrived: "gateway_step w g (connect_info has_websocket i url g)"
| connect_error: "gateway_step w g (connect_failed i msg g)"
| socket_open: "gateway_step w g (on_open s g)"
| socket_message: "gateway_step w g (on_message w now s data g)"
| socket_error: "gateway_step w g (on_error s msg g)"
| socket_close: "gateway_step w g (on_close s g)"
| heartbeat_fired: "gateway_step w g (heartbeat_tick t g)"
| reconnect_fired: "gateway_step w g (reconnect_tick j g)"

inductive_cases gateway_stepE: "gateway_step w g g'"

abbreviation gateway_reach :: "outside \<Rightarrow> gateway \<Rightarrow> bool" where
  "gateway_reach w g \<equiv> (gateway_step w)\<^sup>*\<^sup>* gateway_init g"

text \<open>\<open>gatewayStatus\<close>, with the fields the replies have.\<close>

record status_reply =
  st_running :: bool
  st_ready :: bool
  st_state :: string
  st_session_id :: string
  st_gateway_url :: string
  st_last_event_type :: string
  st_last_error :: string
  st_started_at :: string
  st_last_event_at :: string
  st_last_heartbeat_ack_at :: string
  st_queue_size :: nat
  st_dropped_messages :: nat
  st_reconnect_count :: nat
  st_intents :: int

definition gatewayStatus :: "gateway \<Rightarrow> status_reply" where
  "gatewayStatus g = \<lparr>st_running = running g, st_ready = ready g, st_state = gstate g,
     st_session_id = sessionId g, st_gateway_url = gatewayUrl g, st_last_event_type = lastEventType g,
     st_last_error = lastError g, st_started_at = startedAt g, st_last_event_at = lastEventAt g,
     st_last_heartbeat_ack_at = lastHeartbeatAckAt g, st_queue_size = length (queue g), st_dropped_messages = droppedMessages g,
     st_reconnect_count = reconnectCount g, st_intents = intents g\<rparr>"

section \<open>The queue as an interface\<close>

text \<open>
  What poll, acknowledge and the status rely on: putting a message in keeps the newest ones up to
  the limit and counts the ones it drops; taking messages out removes exactly those.
\<close>

locale bounded_queue =
  fixes items :: "'q \<Rightarrow> 'm list"
    and lost :: "'q \<Rightarrow> nat"
    and put :: "nat \<Rightarrow> 'm \<Rightarrow> 'q \<Rightarrow> 'q"
    and take_out :: "('m \<Rightarrow> bool) \<Rightarrow> 'q \<Rightarrow> 'q"
  assumes items_put: "items (put n m q) = drop (Suc (length (items q)) - n) (items q @ [m])"
    and lost_put: "lost (put n m q) = lost q + (Suc (length (items q)) - n)"
    and items_take: "items (take_out P q) = filter (\<lambda>m. \<not> P m) (items q)"
    and lost_take: "lost (take_out P q) = lost q"
begin

lemma put_bounded: "length (items (put n m q)) \<le> n"
  by (simp add: items_put)

lemma put_conserves: "length (items (put n m q)) + lost (put n m q) = Suc (length (items q) + lost q)"
  by (simp add: items_put lost_put)

lemma put_newest: "0 < n \<Longrightarrow> last (items (put n m q)) = m"
  by (simp add: items_put)

text \<open>Any numbering of the messages that grows with each put stays increasing.\<close>

lemma put_increasing:
  assumes "sorted_wrt (<) (map k (items q))" and "\<And>x. x \<in> set (items q) \<Longrightarrow> k x < (k m :: nat)"
  shows "sorted_wrt (<) (map k (items (put n m q)))"
proof -
  have "sorted_wrt (<) (map k (items q @ [m]))" using assms by (auto simp: sorted_wrt_append)
  then show ?thesis by (simp only: items_put drop_map [symmetric] sorted_wrt_drop)
qed

lemma take_increasing:
  "sorted_wrt (<) (map k (items q)) \<Longrightarrow> sorted_wrt (<) (map k (items (take_out P q)) :: nat list)"
  by (simp add: items_take sorted_wrt_map sorted_wrt_filter)

end

lemma drop_oldest_eq: "drop_oldest m q d = (drop (length q - m) q, d + (length q - m))"
proof (induction m q d rule: drop_oldest.induct)
  case (1 m q d)
  show ?case
  proof (cases "m < length q")
    case True
    then have "drop_oldest m q d = drop_oldest m (tl q) (Suc d)" by (simp add: drop_oldest.simps)
    also have "\<dots> = (drop (length (tl q) - m) (tl q), Suc d + (length (tl q) - m))" using 1 True by blast
    also have "\<dots> = (drop (length q - m) q, d + (length q - m))"
      using True by (cases q) (auto simp: Suc_diff_le less_Suc_eq_le)
    finally show ?thesis .
  qed (simp add: drop_oldest.simps)
qed

definition put_message :: "nat \<Rightarrow> message \<Rightarrow> message list \<times> nat \<Rightarrow> message list \<times> nat" where
  "put_message n m q = drop_oldest n (fst q @ [m]) (snd q)"

definition take_messages :: "(message \<Rightarrow> bool) \<Rightarrow> message list \<times> nat \<Rightarrow> message list \<times> nat" where
  "take_messages P q = (filter (\<lambda>m. \<not> P m) (fst q), snd q)"

interpretation mq: bounded_queue fst snd put_message take_messages
  by unfold_locales (simp_all add: put_message_def take_messages_def drop_oldest_eq)

section \<open>Frame lemmas\<close>

named_theorems gateway_frame \<open>what the small operations leave alone\<close>

lemma upd_socket_frame [gateway_frame]:
  "queue (upd_socket s f g) = queue g" "localMessageSeq (upd_socket s f g) = localMessageSeq g"
  "droppedMessages (upd_socket s f g) = droppedMessages g"
  "running (upd_socket s f g) = running g" "ready (upd_socket s f g) = ready g" "gstate (upd_socket s f g) = gstate g"
  "ws (upd_socket s f g) = ws g" "connectionId (upd_socket s f g) = connectionId g"
  "heartbeatTimer (upd_socket s f g) = heartbeatTimer g" "reconnectTimer (upd_socket s f g) = reconnectTimer g"
  "intervals (upd_socket s f g) = intervals g" "timeouts (upd_socket s f g) = timeouts g"
  "next_timer (upd_socket s f g) = next_timer g" "connects (upd_socket s f g) = connects g"
  "starts (upd_socket s f g) = starts g" "gctx (upd_socket s f g) = gctx g"
  "length (sockets (upd_socket s f g)) = length (sockets g)"
  "sessionId (upd_socket s f g) = sessionId g" "seq_no (upd_socket s f g) = seq_no g"
  by (simp_all add: upd_socket_def)

lemma clear_frame [gateway_frame]:
  "queue (clearGatewayTimers g) = queue g" "localMessageSeq (clearGatewayTimers g) = localMessageSeq g"
  "droppedMessages (clearGatewayTimers g) = droppedMessages g"
  "running (clearGatewayTimers g) = running g" "ready (clearGatewayTimers g) = ready g"
  "gstate (clearGatewayTimers g) = gstate g"
  "ws (clearGatewayTimers g) = ws g" "connectionId (clearGatewayTimers g) = connectionId g"
  "heartbeatTimer (clearGatewayTimers g) = None" "reconnectTimer (clearGatewayTimers g) = None"
  "next_timer (clearGatewayTimers g) = next_timer g" "connects (clearGatewayTimers g) = connects g"
  "starts (clearGatewayTimers g) = starts g" "gctx (clearGatewayTimers g) = gctx g"
  "sockets (clearGatewayTimers g) = sockets g"
  by (simp_all add: clearGatewayTimers_def clearInterval_def clearTimeout_def Let_def split: option.split)

lemma close_frame [gateway_frame]:
  "queue (closeGatewaySocket g) = queue g" "localMessageSeq (closeGatewaySocket g) = localMessageSeq g"
  "droppedMessages (closeGatewaySocket g) = droppedMessages g"
  "running (closeGatewaySocket g) = running g" "ready (closeGatewaySocket g) = ready g"
  "gstate (closeGatewaySocket g) = gstate g"
  "ws (closeGatewaySocket g) = None" "connectionId (closeGatewaySocket g) = connectionId g"
  "heartbeatTimer (closeGatewaySocket g) = None" "reconnectTimer (closeGatewaySocket g) = None"
  "next_timer (closeGatewaySocket g) = next_timer g" "connects (closeGatewaySocket g) = connects g"
  "starts (closeGatewaySocket g) = starts g" "gctx (closeGatewaySocket g) = gctx g"
  by (simp_all add: closeGatewaySocket_def gateway_frame Let_def split: option.split)

lemma ws_send_frame [gateway_frame]:
  "queue (ws_send f g) = queue g" "localMessageSeq (ws_send f g) = localMessageSeq g"
  "droppedMessages (ws_send f g) = droppedMessages g"
  "running (ws_send f g) = running g" "heartbeatTimer (ws_send f g) = heartbeatTimer g"
  "reconnectTimer (ws_send f g) = reconnectTimer g" "intervals (ws_send f g) = intervals g"
  "timeouts (ws_send f g) = timeouts g" "next_timer (ws_send f g) = next_timer g"
  "ws (ws_send f g) = ws g" "connects (ws_send f g) = connects g" "starts (ws_send f g) = starts g"
  by (simp_all add: ws_send_def gateway_frame split: option.split)

lemma schedule_frame [gateway_frame]:
  "queue (scheduleGatewayReconnect g) = queue g"
  "localMessageSeq (scheduleGatewayReconnect g) = localMessageSeq g"
  "droppedMessages (scheduleGatewayReconnect g) = droppedMessages g"
  "running (scheduleGatewayReconnect g) = running g" "ws (scheduleGatewayReconnect g) = ws g"
  "ready (scheduleGatewayReconnect g) = ready g"
  by (simp_all add: scheduleGatewayReconnect_def)

lemma begin_frame [gateway_frame]:
  "queue (connect_begin from g) = queue g" "localMessageSeq (connect_begin from g) = localMessageSeq g"
  by (simp_all add: connect_begin_def gateway_frame Let_def)

lemma payload_frame [gateway_frame]:
  "queue (note_payload p g) = queue g" "localMessageSeq (note_payload p g) = localMessageSeq g"
  "queue (hello_payload p t g) = queue g" "localMessageSeq (hello_payload p t g) = localMessageSeq g"
  "queue (reconnect_payload b g) = queue g" "localMessageSeq (reconnect_payload b g) = localMessageSeq g"
  "queue (connect_caught from m g) = queue g" "localMessageSeq (connect_caught from m g) = localMessageSeq g"
  by (simp_all add: note_payload_def hello_payload_def reconnect_payload_def connect_caught_def Let_def
      resumeGateway_def identifyGateway_def clearInterval_def gateway_frame split: option.split origin.split)

lemma step_frame [gateway_frame]:
  "queue (connect_token i t g) = queue g" "localMessageSeq (connect_token i t g) = localMessageSeq g"
  "queue (connect_info b i u g) = queue g" "localMessageSeq (connect_info b i u g) = localMessageSeq g"
  "queue (connect_failed i m g) = queue g" "localMessageSeq (connect_failed i m g) = localMessageSeq g"
  "queue (on_open s g) = queue g" "localMessageSeq (on_open s g) = localMessageSeq g"
  "queue (on_error s m g) = queue g" "localMessageSeq (on_error s m g) = localMessageSeq g"
  "queue (on_close s g) = queue g" "localMessageSeq (on_close s g) = localMessageSeq g"
  "queue (sendHeartbeat g) = queue g" "localMessageSeq (sendHeartbeat g) = localMessageSeq g"
  "queue (heartbeat_tick j g) = queue g" "localMessageSeq (heartbeat_tick j g) = localMessageSeq g"
  "queue (reconnect_tick j g) = queue g" "localMessageSeq (reconnect_tick j g) = localMessageSeq g"
  "queue (stopGateway g) = queue g" "localMessageSeq (stopGateway g) = localMessageSeq g"
  "queue (start_begin c b g) = queue g" "localMessageSeq (start_begin c b g) = localMessageSeq g"
  "queue (start_continue n g) = queue g" "localMessageSeq (start_continue n g) = localMessageSeq g"
  by (simp_all add: connect_token_def connect_info_def connect_failed_def on_open_def on_error_def on_close_def
      sendHeartbeat_def heartbeat_tick_def reconnect_tick_def stopGateway_def start_begin_def start_continue_def
      gateway_frame Let_def split: phase.split list.split)

section \<open>Invariants\<close>

text \<open>Every live timer is the one the state refers to.\<close>

definition timer_inv :: "gateway \<Rightarrow> bool" where
  "timer_inv g \<longleftrightarrow>
     map fst (intervals g) = (case heartbeatTimer g of None \<Rightarrow> [] | Some t \<Rightarrow> [t]) \<and>
     map fst (timeouts g) = (case reconnectTimer g of None \<Rightarrow> [] | Some t \<Rightarrow> [t])"

lemma clear_live: "timer_inv g \<Longrightarrow> intervals (clearGatewayTimers g) = [] \<and> timeouts (clearGatewayTimers g) = []"
  by (auto simp: timer_inv_def clearGatewayTimers_def clearInterval_def clearTimeout_def Let_def
      filter_empty_conv split: option.splits)

lemma clear_inv: "timer_inv g \<Longrightarrow> timer_inv (clearGatewayTimers g)"
  using clear_live [of g] by (simp add: timer_inv_def gateway_frame)

lemma close_live: "timer_inv g \<Longrightarrow> intervals (closeGatewaySocket g) = [] \<and> timeouts (closeGatewaySocket g) = []"
  using clear_live [of "g\<lparr>ws := None\<rparr>"]
  by (auto simp: closeGatewaySocket_def gateway_frame Let_def timer_inv_def split: option.split)

lemma close_inv: "timer_inv g \<Longrightarrow> timer_inv (closeGatewaySocket g)"
  using close_live [of g] by (simp add: timer_inv_def gateway_frame)

lemma schedule_inv: "timer_inv g \<Longrightarrow> timer_inv (scheduleGatewayReconnect g)"
  by (auto simp: timer_inv_def scheduleGatewayReconnect_def split: option.splits)

lemma timer_inv_cong:
  "intervals g = intervals h \<Longrightarrow> timeouts g = timeouts h \<Longrightarrow> heartbeatTimer g = heartbeatTimer h \<Longrightarrow>
     reconnectTimer g = reconnectTimer h \<Longrightarrow> timer_inv g = timer_inv h"
  by (simp add: timer_inv_def)

lemma ws_send_inv [simp]: "timer_inv (ws_send f g) = timer_inv g"
  by (rule timer_inv_cong) (simp_all add: gateway_frame)

lemma upd_socket_inv [simp]: "timer_inv (upd_socket s f g) = timer_inv g"
  by (rule timer_inv_cong) (simp_all add: gateway_frame)

lemma note_inv [simp]: "timer_inv (note_payload p g) = timer_inv g"
  by (rule timer_inv_cong) (simp_all add: note_payload_def Let_def)

lemma hello_inv: "timer_inv g \<Longrightarrow> timer_inv (hello_payload p t g)"
proof -
  assume inv: "timer_inv g"
  then have none: "intervals (clearInterval (heartbeatTimer g) g) = []"
    by (auto simp: timer_inv_def clearInterval_def filter_empty_conv split: option.splits)
  have same: "timeouts (clearInterval h g) = timeouts g" "reconnectTimer (clearInterval h g) = reconnectTimer g" for h
    by (simp_all add: clearInterval_def split: option.split)
  show ?thesis
    using inv none same by (simp add: hello_payload_def Let_def resumeGateway_def identifyGateway_def)
      (simp add: timer_inv_def)
qed

lemma timer_inv_updates [simp]:
  "timer_inv (g\<lparr>lastError := x1\<rparr>) = timer_inv g" "timer_inv (g\<lparr>gstate := x2\<rparr>) = timer_inv g"
  "timer_inv (g\<lparr>awaitingHeartbeatAck := x3\<rparr>) = timer_inv g" "timer_inv (g\<lparr>lastEventAt := x4\<rparr>) = timer_inv g"
  "timer_inv (g\<lparr>connects := x5\<rparr>) = timer_inv g" "timer_inv (g\<lparr>starts := x6\<rparr>) = timer_inv g"
  "timer_inv (g\<lparr>queue := x7\<rparr>) = timer_inv g" "timer_inv (g\<lparr>ws := x8\<rparr>) = timer_inv g"
  "timer_inv (g\<lparr>ready := x9\<rparr>) = timer_inv g" "timer_inv (g\<lparr>gatewayUrl := x10\<rparr>) = timer_inv g"
  "timer_inv (g\<lparr>running := x11\<rparr>) = timer_inv g" "timer_inv (g\<lparr>sockets := x12\<rparr>) = timer_inv g"
  "timer_inv (g\<lparr>lastHeartbeatAckAt := x13\<rparr>) = timer_inv g" "timer_inv (g\<lparr>sessionId := x14\<rparr>) = timer_inv g"
  "timer_inv (g\<lparr>seq_no := x15\<rparr>) = timer_inv g" "timer_inv (g\<lparr>localMessageSeq := x16\<rparr>) = timer_inv g"
  "timer_inv (g\<lparr>droppedMessages := x17\<rparr>) = timer_inv g" "timer_inv (g\<lparr>connectionId := x18\<rparr>) = timer_inv g"
  "timer_inv (g\<lparr>startedAt := x19\<rparr>) = timer_inv g" "timer_inv (g\<lparr>gctx := x20\<rparr>) = timer_inv g"
  "timer_inv (g\<lparr>intents := x21\<rparr>) = timer_inv g" "timer_inv (g\<lparr>reconnectCount := x22\<rparr>) = timer_inv g"
  by (simp_all add: timer_inv_def)

lemma begin_inv: "timer_inv g \<Longrightarrow> timer_inv (connect_begin from g)"
  by (simp add: connect_begin_def Let_def close_inv clear_inv)

lemma caught_inv: "timer_inv g \<Longrightarrow> timer_inv (connect_caught from m g)"
  by (simp add: connect_caught_def schedule_inv split: origin.split)

lemma enqueue_inv: "enqueueGatewayMessage w now p g = Inr g' \<Longrightarrow> timer_inv g' = timer_inv g"
  by (auto simp: enqueueGatewayMessage_def Let_def split: sum.splits if_splits prod.splits)

lemma payload_inv: "timer_inv g \<Longrightarrow> timer_inv (fst (handleGatewayPayload w now p t g))"
  by (auto simp: handleGatewayPayload_def Let_def hello_inv reconnect_payload_def schedule_inv close_inv
      enqueue_inv split: sum.split)

lemma timer_step: "gateway_step w g g' \<Longrightarrow> timer_inv g \<Longrightarrow> timer_inv g'"
proof (induction rule: gateway_step.induct)
  case (socket_message g now s data)
  then show ?case
    using payload_inv [of g w now _ "sk_token (sockets g ! s)"]
    by (auto simp: on_message_def split: sum.split prod.split option.split) (metis fst_conv)+
next
  case (socket_close g s)
  then show ?case by (simp add: on_close_def Let_def clear_inv schedule_inv)
next
  case (reconnect_fired g j)
  then have "timer_inv (g\<lparr>timeouts := filter (\<lambda>x. fst x \<noteq> j) (timeouts g), reconnectTimer := None,
       reconnectCount := Suc (reconnectCount g)\<rparr>)" if "j \<in> fst ` set (timeouts g)"
    using that by (auto simp: timer_inv_def filter_empty_conv split: option.splits)
  then show ?case using reconnect_fired by (simp add: reconnect_tick_def begin_inv)
qed (simp_all add: start_begin_def start_continue_def stopGateway_def pollMessages_def ackMessage_def
    connect_token_def connect_info_def connect_failed_def on_open_def on_error_def heartbeat_tick_def
    sendHeartbeat_def Let_def close_inv clear_inv schedule_inv begin_inv caught_inv
    split: list.split phase.split)

text \<open>The numbers of the buffered messages: increasing, and not beyond the last one given.\<close>

definition msg_no :: "message \<Rightarrow> nat" where
  "msg_no m = dec_val (local_id m)"

definition queue_inv :: "gateway \<Rightarrow> bool" where
  "queue_inv g \<longleftrightarrow> sorted_wrt (<) (map msg_no (queue g)) \<and>
     (\<forall>m \<in> set (queue g). local_id m = nat_str (msg_no m) \<and> msg_no m \<le> localMessageSeq g)"

lemma queue_inv_cong: "queue g = queue h \<Longrightarrow> localMessageSeq g = localMessageSeq h \<Longrightarrow> queue_inv g = queue_inv h"
  by (simp add: queue_inv_def)

text \<open>What an enqueue does, stated through the interface of the queue.\<close>

lemma enqueue_cases:
  assumes "enqueueGatewayMessage w now payload g = Inr g'"
  obtains "g' = g" | m where "local_id m = nat_str (Suc (localMessageSeq g))"
    and "localMessageSeq g' = Suc (localMessageSeq g)"
    and "(queue g', droppedMessages g') = put_message (buffer_limit g) m (queue g, droppedMessages g)"
proof (cases "handleNormalizeEvent w (JObj [(''payload_json'', JStr (json_text w payload))])")
  case (Inl e)
  then show thesis using assms by (simp add: enqueueGatewayMessage_def)
next
  case (Inr ev)
  show thesis
  proof (cases "ev_is_message ev")
    case False
    then show thesis using assms Inr that(1) by (simp add: enqueueGatewayMessage_def)
  next
    case True
    define m where "m = \<lparr>local_id = nat_str (Suc (localMessageSeq g)), received_at = now, event = ev\<rparr>"
    obtain q d where qd: "drop_oldest (buffer_limit g) (queue g @ [m]) (droppedMessages g) = (q, d)"
      by fastforce
    then have g': "g' = g\<lparr>localMessageSeq := Suc (localMessageSeq g), queue := q, droppedMessages := d\<rparr>"
      using assms Inr True by (simp add: enqueueGatewayMessage_def Let_def m_def)
    show thesis by (rule that(2) [of m]) (simp_all add: g' m_def qd put_message_def qd [unfolded m_def])
  qed
qed

lemma enqueue_queue_inv:
  assumes "enqueueGatewayMessage w now payload g = Inr g'" and "queue_inv g"
  shows "queue_inv g'"
  using assms(1)
proof (cases rule: enqueue_cases)
  case (2 m)
  let ?q = "(queue g, droppedMessages g)"
  have no: "msg_no m = Suc (localMessageSeq g)" using 2(1) by (simp add: msg_no_def)
  have q': "queue g' = fst (put_message (buffer_limit g) m ?q)" using 2(3) by (metis fst_conv)
  have "sorted_wrt (<) (map msg_no (queue g'))"
    unfolding q' by (rule mq.put_increasing)
      (use assms(2) no in \<open>auto simp: queue_inv_def le_imp_less_Suc\<close>)
  moreover have "set (queue g') \<subseteq> insert m (set (queue g))"
    unfolding q' mq.items_put using set_drop_subset by fastforce
  ultimately show ?thesis
    using assms(2) no 2(1,2) by (fastforce simp: queue_inv_def)
qed (use assms(2) in simp)

lemma queue_inv_updates [simp]:
  "queue_inv (g\<lparr>lastError := x1\<rparr>) = queue_inv g" "queue_inv (g\<lparr>lastEventAt := x2\<rparr>) = queue_inv g"
  by (simp_all add: queue_inv_def)

lemma payload_queue_inv: "queue_inv g \<Longrightarrow> queue_inv (fst (handleGatewayPayload w now p t g))"
proof -
  assume inv: "queue_inv g"
  have n: "queue_inv (note_payload p g)" using inv by (subst queue_inv_cong [of _ g]) (simp_all add: gateway_frame)
  have frame: "queue_inv (f (note_payload p g))"
    if "queue (f (note_payload p g)) = queue (note_payload p g)"
      "localMessageSeq (f (note_payload p g)) = localMessageSeq (note_payload p g)" for f
    using n that queue_inv_cong by blast
  show ?thesis
    using inv n frame [of "hello_payload p t"] frame [of "reconnect_payload True"] frame [of "reconnect_payload False"]
      enqueue_queue_inv [of w now p "(note_payload p g)\<lparr>lastEventAt := now\<rparr>"]
    by (auto simp: handleGatewayPayload_def Let_def gateway_frame queue_inv_def split: sum.split)
qed

lemma queue_step: "gateway_step w g g' \<Longrightarrow> queue_inv g \<Longrightarrow> queue_inv g'"
proof (induction rule: gateway_step.induct)
  case (socket_message g now s data)
  then show ?case
    using payload_queue_inv [of g w now _ "sk_token (sockets g ! s)"]
    by (auto simp: on_message_def split: sum.split prod.split option.split) (metis fst_conv)+
next
  case (poll_call g req)
  then show ?case
    by (auto simp: pollMessages_def Let_def queue_inv_def drop_map [symmetric] sorted_wrt_drop dest: in_set_dropD)
next
  case (ack_call g req)
  then show ?case
    using mq.take_increasing [of msg_no "(queue g, 0)" "\<lambda>m. local_id m \<in> set (acked_ids req)"]
    by (auto simp: ackMessage_def Let_def queue_inv_def take_messages_def)
qed (auto simp: gateway_frame cong: queue_inv_cong intro: queue_inv_cong [THEN iffD2])

text \<open>Stopped with nothing under way.\<close>

definition quiet :: "gateway \<Rightarrow> bool" where
  "quiet g \<longleftrightarrow> \<not> running g \<and> \<not> ready g \<and> gstate g = ''stopped'' \<and> ws g = None \<and>
     intervals g = [] \<and> timeouts g = [] \<and> connects g = [] \<and> starts g = []"

lemma stop_quiet: "timer_inv g \<Longrightarrow> connects g = [] \<Longrightarrow> starts g = [] \<Longrightarrow> quiet (stopGateway g)"
  by (simp add: quiet_def stopGateway_def gateway_frame close_live clear_inv)

lemma quiet_timers: "quiet g \<Longrightarrow> timer_inv g \<Longrightarrow> heartbeatTimer g = None \<and> reconnectTimer g = None"
  by (auto simp: quiet_def timer_inv_def split: option.splits)

lemma quiet_step:
  assumes "gateway_step w g g'" and "quiet g" and "timer_inv g" and "starts g' = []"
  shows "quiet g'"
  using assms
proof (induction rule: gateway_step.induct)
  case (start_call g ctx force)
  then show ?case by (simp add: start_begin_def quiet_def Let_def)
next
  case (stop_call g)
  then show ?case by (intro stop_quiet) (simp_all add: quiet_def)
qed (auto simp: quiet_def start_continue_def pollMessages_def ackMessage_def connect_token_def connect_info_def
    connect_failed_def on_open_def on_message_def on_error_def on_close_def current_socket_def heartbeat_tick_def
    reconnect_tick_def Let_def gateway_frame)

lemma gateway_reach_timer: "gateway_reach w g \<Longrightarrow> timer_inv g"
proof (induction rule: rtranclp_induct)
  case base
  show ?case by (simp add: timer_inv_def gateway_init_def)
qed (rule timer_step)

lemma gateway_reach_queue: "gateway_reach w g \<Longrightarrow> queue_inv g"
proof (induction rule: rtranclp_induct)
  case base
  show ?case by (simp add: queue_inv_def gateway_init_def)
qed (rule queue_step)

lemma poll_split:
  assumes "toBoolean (pget req ''ack'')" and "pollMessages req g = ((m, n), g')"
  shows "queue g = m @ queue g' \<and> n = length (queue g')"
proof -
  define k where "k = nat (optionalIntWithDefault (first_of req [''max_messages'', ''maxMessages'']) 10 1)"
  have "drop (length (take k (queue g))) (queue g) = drop k (queue g)" by (simp add: min_def)
  moreover have "m = take k (queue g)" "queue g' = drop (length (take k (queue g))) (queue g)" "n = length (queue g')"
    using assms by (auto simp: pollMessages_def Let_def k_def)
  ultimately show ?thesis by simp
qed

lemma current_socket_upd:
  "(\<And>k. sk_connId (f k) = sk_connId k) \<Longrightarrow> current_socket s (upd_socket s f g) = current_socket s g"
  by (auto simp: current_socket_def upd_socket_def)

text \<open>A connect under way when the gateway is stopped.\<close>

definition sample_call :: call_ctx where
  "sample_call = \<lparr>cc_bindings = JObj [], cc_limits = JObj [], cc_req = JObj []\<rparr>"

definition connecting :: gateway where
  "connecting = connect_token 0 ''tok'' (start_continue ''now'' (start_begin sample_call False gateway_init))"

lemma connecting_reach: "gateway_reach w connecting"
  unfolding connecting_def
  by (meson start_call start_resumed token_arrived rtranclp.rtrancl_into_rtrancl rtranclp.rtrancl_refl)

lemmas gateway_eval = connecting_def start_begin_def start_continue_def connect_token_def connect_begin_def
  stopGateway_def closeGatewaySocket_def clearGatewayTimers_def clearInterval_def clearTimeout_def gateway_init_def
  connect_info_def upd_socket_def remove_nth_def on_open_def current_socket_def ws_is_open_def Let_def

section \<open>Properties\<close>

text \<open>C18: No timer leaks: in every reachable state the live heartbeat intervals and reconnect timeouts
of the process are exactly those the state refers to, so there is never more than one of each.\<close>

theorem timers_owned:
  assumes "gateway_reach w g"
  shows "map fst (intervals g) = (case heartbeatTimer g of None \<Rightarrow> [] | Some t \<Rightarrow> [t]) \<and>
    map fst (timeouts g) = (case reconnectTimer g of None \<Rightarrow> [] | Some t \<Rightarrow> [t]) \<and>
    length (intervals g) \<le> 1 \<and> length (timeouts g) \<le> 1"
proof -
  have t: "map fst (intervals g) = (case heartbeatTimer g of None \<Rightarrow> [] | Some t \<Rightarrow> [t])"
    "map fst (timeouts g) = (case reconnectTimer g of None \<Rightarrow> [] | Some t \<Rightarrow> [t])"
    using gateway_reach_timer [OF assms] by (simp_all add: timer_inv_def)
  have "length (intervals g) = length (map fst (intervals g))" "length (timeouts g) = length (map fst (timeouts g))"
    by simp_all
  then show ?thesis unfolding t by (simp add: t split: option.split)
qed

theorem timers_owned_witness: "length (timeouts connecting) \<le> 1"
  using timers_owned [OF connecting_reach [of sample_outside]] by blast

text \<open>C19: Messages keep their order: in every reachable state the numbers of the buffered messages
strictly increase towards the newest and do not exceed the last one given, so no two have the same id.\<close>

theorem queue_in_order:
  assumes "gateway_reach w g"
  shows "sorted_wrt (<) (map msg_no (queue g)) \<and> distinct (map local_id (queue g)) \<and>
    (\<forall>m \<in> set (queue g). msg_no m \<le> localMessageSeq g)"
proof -
  have inv: "sorted_wrt (<) (map msg_no (queue g))"
    "\<forall>m \<in> set (queue g). local_id m = nat_str (msg_no m) \<and> msg_no m \<le> localMessageSeq g"
    using gateway_reach_queue [OF assms] by (auto simp: queue_inv_def)
  have "distinct (map msg_no (queue g))" using inv(1) by (simp add: strict_sorted_iff)
  moreover have "map local_id (queue g) = map nat_str (map msg_no (queue g))" using inv(2) by simp
  moreover have "inj nat_str" by (rule injI) (simp add: nat_str_inj)
  ultimately have "distinct (map local_id (queue g))"
    by (metis distinct_map inj_on_subset subset_UNIV)
  with inv show ?thesis by blast
qed

theorem queue_in_order_witness: "distinct (map local_id (queue connecting))"
  using queue_in_order [OF connecting_reach [of sample_outside]] by blast

text \<open>C20: Buffering is bounded and accounted for: a buffered message takes the next number, the queue
never exceeds the configured limit after it, and the messages given a number are those still queued,
those dropped (counted) and those taken out before.\<close>

theorem buffering_bounded:
  assumes "enqueueGatewayMessage w now payload g = Inr g'" and "g' \<noteq> g"
  shows "length (queue g') \<le> buffer_limit g \<and> localMessageSeq g' = Suc (localMessageSeq g) \<and>
    length (queue g') + droppedMessages g' = Suc (length (queue g) + droppedMessages g) \<and>
    (\<exists>m. suffix (queue g') (queue g @ [m]) \<and> local_id m = nat_str (localMessageSeq g'))"
  using assms(1)
proof (cases rule: enqueue_cases)
  case (2 m)
  let ?q = "(queue g, droppedMessages g)"
  have "queue g' = fst (put_message (buffer_limit g) m ?q)" "droppedMessages g' = snd (put_message (buffer_limit g) m ?q)"
    using 2(3) by (metis fst_conv, metis snd_conv)
  moreover have "suffix (fst (put_message (buffer_limit g) m ?q)) (queue g @ [m])"
    unfolding mq.items_put by (simp only: fst_conv suffix_drop)
  ultimately show ?thesis
    using mq.put_bounded [of "buffer_limit g" m ?q] mq.put_conserves [of "buffer_limit g" m ?q] 2(1,2) by auto
qed (use assms(2) in simp)

definition chat_outside :: outside where
  "chat_outside = sample_outside\<lparr>json_parse := (\<lambda>t. Inr (JObj [(''t'', JStr ''MESSAGE_CREATE'')]))\<rparr>"

lemma sample_enqueue: "\<exists>g'. enqueueGatewayMessage chat_outside ''now'' (JObj []) gateway_init = Inr g' \<and>
    g' \<noteq> gateway_init"
proof -
  have "\<exists>ev. handleNormalizeEvent chat_outside (JObj [(''payload_json'', JStr ''j'')]) = Inr ev \<and> ev_is_message ev"
    by (simp add: handleNormalizeEvent_def parsePayload_def first_of_def nullish_def is_obj_def
        toTrimmedString_def trim_def trim_start_def trim_end_def is_ws_def code_of_def Let_def chat_outside_def
        sample_outside_def normalize_payload_def eventData_def coalesce_def stringifyId_def message_types_def)
  then obtain ev where "handleNormalizeEvent chat_outside (JObj [(''payload_json'', JStr ''j'')]) = Inr ev"
    "ev_is_message ev" by blast
  moreover have "json_text chat_outside v = ''j''" for v by (simp add: chat_outside_def sample_outside_def)
  ultimately show ?thesis
    by (auto simp: enqueueGatewayMessage_def Let_def gateway_init_def split: prod.split)
qed

theorem buffering_bounded_witness:
  "\<exists>g'. enqueueGatewayMessage chat_outside ''now'' (JObj []) gateway_init = Inr g' \<and>
     length (queue g') \<le> buffer_limit gateway_init"
  using sample_enqueue buffering_bounded [of chat_outside "''now''" "JObj []" gateway_init] by blast

text \<open>Polling with acknowledgement hands out the queue in order and without loss: two such polls
return consecutive stretches and leave exactly the rest; without acknowledgement nothing changes.\<close>

lemma poll_in_order:
  "(if toBoolean (pget req ''ack'')
    then (case pollMessages req g of ((m1, n1), g1) \<Rightarrow> (case pollMessages req g1 of ((m2, n2), g2) \<Rightarrow>
       queue g = m1 @ m2 @ queue g2 \<and> n1 = length (queue g1) \<and> n2 = length (queue g2)))
    else snd (pollMessages req g) = g)"
proof (cases "toBoolean (pget req ''ack'')")
  case True
  obtain m1 n1 g1 where p1: "pollMessages req g = ((m1, n1), g1)" by (metis surj_pair)
  obtain m2 n2 g2 where p2: "pollMessages req g1 = ((m2, n2), g2)" by (metis surj_pair)
  show ?thesis using True p1 p2 poll_split [OF True p1] poll_split [OF True p2] by simp
qed (simp add: pollMessages_def Let_def)

text \<open>Events of a socket that is not the current one of the current connection are ignored: its
messages and errors change nothing, and its opening and closing change nothing but the socket itself.\<close>

lemma stale_socket_ignored:
  assumes "\<not> current_socket s g"
  shows "on_message w now s data g = g \<and> on_error s msg g = g \<and>
    (\<exists>f. on_open s g = upd_socket s f g) \<and> (\<exists>f. on_close s g = upd_socket s f g)"
proof -
  have "\<not> current_socket s (upd_socket s (\<lambda>k. if sk_intentional k then k else k\<lparr>sk_open := True\<rparr>) g)"
    "\<not> current_socket s (upd_socket s (\<lambda>k. k\<lparr>sk_open := False\<rparr>) g)"
    using assms by (simp_all add: current_socket_upd)
  then show ?thesis
    using assms by (auto simp: on_message_def on_error_def on_open_def on_close_def Let_def)
qed

lemma stale_socket_ignored_example:
  "on_message sample_outside ''now'' 0 ''{}'' connecting = connecting"
  using stale_socket_ignored [of 0 connecting] by (simp add: gateway_eval)

text \<open>C21: Stopping with no connect under way is final: the socket and the timers are gone at once, and
whatever sockets, timers, polls and acknowledgements do afterwards the gateway stays stopped, until
the next call of StartGateway.\<close>

theorem stop_is_final:
  assumes "gateway_reach w g" and "connects g = []" and "starts g = []"
    and "(\<lambda>a b. gateway_step w a b \<and> starts b = [])\<^sup>*\<^sup>* (stopGateway g) g'"
  shows "quiet g'"
proof -
  have "quiet g' \<and> timer_inv g'"
    using assms(4)
  proof (induction rule: rtranclp_induct)
    case base
    have "timer_inv (stopGateway g)"
      using timer_step [OF stop_call] gateway_reach_timer [OF assms(1)] by blast
    then show ?case using stop_quiet [OF gateway_reach_timer [OF assms(1)] assms(2,3)] by blast
  next
    case (step a b)
    then show ?case using quiet_step timer_step by blast
  qed
  then show ?thesis ..
qed

theorem stop_is_final_witness: "quiet (stopGateway gateway_init)"
proof (rule stop_is_final)
  show "gateway_reach sample_outside gateway_init" by simp
  show "connects gateway_init = []" "starts gateway_init = []" by (simp_all add: gateway_init_def)
  show "(\<lambda>a b. gateway_step sample_outside a b \<and> starts b = [])\<^sup>*\<^sup>* (stopGateway gateway_init) (stopGateway gateway_init)"
    by simp
qed

text \<open>Stopping while a connect is under way is not final: the connect goes on after the stop, so a
state is reachable in which the gateway is not running and yet has an open socket, which nothing
closes, and reports itself as open.\<close>

lemma stop_during_connect_leaks:
  "\<exists>g. gateway_reach w g \<and> \<not> running g \<and> ws_is_open g \<and> st_state (gatewayStatus g) = ''open''"
proof -
  let ?g = "on_open 0 (connect_info True 0 (JStr ''wss'') (stopGateway connecting))"
  have "gateway_reach w ?g"
    using connecting_reach [of w]
    by (meson stop_call info_arrived socket_open rtranclp.rtrancl_into_rtrancl)
  moreover have "\<not> running ?g \<and> ws_is_open ?g \<and> st_state (gatewayStatus ?g) = ''open''"
    by (simp add: gateway_eval gatewayStatus_def)
  ultimately show ?thesis by blast
qed

text \<open>After a requested reconnect the gateway still reports itself as ready.\<close>

lemma ready_after_reconnect_request:
  "ready (reconnect_payload invalid g) = ready g \<and> (running g \<longrightarrow> gstate (reconnect_payload invalid g) = ''reconnecting'')"
  by (simp add: reconnect_payload_def gateway_frame) (simp add: scheduleGatewayReconnect_def gateway_frame)

end
