(* ===== verification/JS_URI.thy ===== *)
theory JS_URI
  imports JS_Values
begin

text \<open>
  \<open>encodeURIComponent\<close> and \<open>decodeURIComponent\<close> of texts within Latin-1: decoding gives back what was
  encoded, and an encoded text has no character that means something in a path or a query.
\<close>

section \<open>Encoding and decoding\<close>

definition uri_unreserved :: "char \<Rightarrow> bool" where
  "uri_unreserved c \<longleftrightarrow> is_alnum c \<or> c \<in> set ''-_.!~*()'' \<or> c = CHR 0x27"

definition hex_upper :: "nat \<Rightarrow> char" where
  "hex_upper d = (if d < 10 then char_of (48 + d) else char_of (55 + d))"

definition percent :: "nat \<Rightarrow> string" where
  "percent b = [CHR ''%'', hex_upper (b div 16), hex_upper (b mod 16)]"

text \<open>\<open>encodeURIComponent\<close>: the bytes of UTF-8, percent-encoded but for the unreserved characters.\<close>

definition uri_char :: "char \<Rightarrow> string" where
  "uri_char c = (let n = code_of c in
     if uri_unreserved c then [c] else if n < 128 then percent n
     else percent (192 + n div 64) @ percent (128 + n mod 64))"

definition encodeURIComponent :: "string \<Rightarrow> string" where
  "encodeURIComponent s = concat (map uri_char s)"

text \<open>\<open>decodeURIComponent\<close> of a text whose characters are within Latin-1.\<close>

definition hex_pair :: "char \<Rightarrow> char \<Rightarrow> nat option" where
  "hex_pair a b = (case (hex_val a, hex_val b) of (Some x, Some y) \<Rightarrow> Some (16 * x + y) | _ \<Rightarrow> None)"

fun percent_bytes :: "string \<Rightarrow> nat list option" where
  "percent_bytes [] = Some []"
| "percent_bytes (c # s) = (
     if c = CHR ''%'' then (case s of a # b # r \<Rightarrow> (case hex_pair a b of
         Some v \<Rightarrow> map_option (Cons v) (percent_bytes r) | None \<Rightarrow> None) | _ \<Rightarrow> None)
     else map_option (Cons (code_of c)) (percent_bytes s))"

fun utf8_latin1 :: "nat list \<Rightarrow> string option" where
  "utf8_latin1 [] = Some []"
| "utf8_latin1 (v # vs) = (
     if v < 128 then map_option (Cons (char_of v)) (utf8_latin1 vs)
     else if v = 194 \<or> v = 195 then (case vs of w # ws \<Rightarrow>
         if 128 \<le> w \<and> w < 192 then map_option (Cons (char_of ((v - 192) * 64 + (w - 128)))) (utf8_latin1 ws) else None
       | [] \<Rightarrow> None)
     else None)"

definition decodeURIComponent :: "string \<Rightarrow> string option" where
  "decodeURIComponent s = Option.bind (percent_bytes s) utf8_latin1"

section \<open>Lemmas\<close>

lemma hex_upper_val: "d < 16 \<Longrightarrow> hex_val (hex_upper d) = Some d"
  by (auto simp: hex_upper_def hex_val_def is_digit_def code_of_def)

lemma percent_bytes_percent: "b < 256 \<Longrightarrow> percent_bytes (percent b @ s) = map_option (Cons b) (percent_bytes s)"
proof -
  assume "b < 256"
  then have "hex_pair (hex_upper (b div 16)) (hex_upper (b mod 16)) = Some b"
    by (simp add: hex_pair_def hex_upper_val)
  then show ?thesis by (simp add: percent_def)
qed

definition utf8_of :: "char \<Rightarrow> nat list" where
  "utf8_of c = (let n = code_of c in if n < 128 then [n] else [192 + n div 64, 128 + n mod 64])"

lemma code_less: "code_of c < 256"
  by (simp add: code_of_def)

lemma unreserved_ascii: "uri_unreserved c \<Longrightarrow> code_of c < 128 \<and> c \<noteq> CHR ''%''"
  by (auto simp: uri_unreserved_def is_alnum_def is_digit_def is_lower_def is_upper_def code_of_def)

lemma append_eq_Cons_fun: "(@) [x] = (#) x"
  by (simp add: fun_eq_iff)

lemma append_eq_Cons_fun2: "(@) [x, y] = (\<lambda>zs. x # y # zs)"
  by (simp add: fun_eq_iff)

lemma percent_bytes_char: "percent_bytes (uri_char c @ s) = map_option ((@) (utf8_of c)) (percent_bytes s)"
proof (cases "uri_unreserved c")
  case True
  then show ?thesis using unreserved_ascii [OF True] by (simp add: uri_char_def utf8_of_def append_eq_Cons_fun)
next
  case False
  have n: "code_of c < 256" by (rule code_less)
  show ?thesis
  proof (cases "code_of c < 128")
    case True
    then show ?thesis using False by (simp add: uri_char_def utf8_of_def percent_bytes_percent append_eq_Cons_fun)
  next
    case big: False
    have "192 + code_of c div 64 < 256" "128 + code_of c mod 64 < 256" using n by simp_all
    with big False show ?thesis
      by (simp add: uri_char_def utf8_of_def percent_bytes_percent Let_def append_eq_Cons_fun2)
        (cases "percent_bytes s"; simp)
  qed
qed

lemma percent_bytes_encode: "percent_bytes (encodeURIComponent s) = Some (concat (map utf8_of s))"
  by (induction s) (simp_all add: encodeURIComponent_def percent_bytes_char)

lemma utf8_latin1_char: "utf8_latin1 (utf8_of c @ vs) = map_option (Cons c) (utf8_latin1 vs)"
proof (cases "code_of c < 128")
  case True
  then show ?thesis by (simp add: utf8_of_def) (simp add: code_of_def)
next
  case False
  then have d: "code_of c div 64 = 2 \<or> code_of c div 64 = 3" using code_less [of c] by auto
  have "code_of c div 64 * 64 + code_of c mod 64 = code_of c" by (rule div_mult_mod_eq)
  then have "code_of c div 64 = 2 \<Longrightarrow> 128 + code_of c mod 64 = code_of c"
    "code_of c div 64 = 3 \<Longrightarrow> 192 + code_of c mod 64 = code_of c" by linarith+
  with d have "(code_of c div 64 = 2 \<and> 128 + code_of c mod 64 = code_of c) \<or>
      (code_of c div 64 = 3 \<and> 192 + code_of c mod 64 = code_of c)" by blast
  moreover have "char_of (code_of c) = c" by (simp add: code_of_def)
  ultimately show ?thesis using False by (auto simp: utf8_of_def)
qed

lemma decode_encode: "decodeURIComponent (encodeURIComponent s) = Some s"
proof -
  have "utf8_latin1 (concat (map utf8_of s)) = Some s"
    by (induction s) (simp_all add: utf8_latin1_char)
  then show ?thesis by (simp add: decodeURIComponent_def percent_bytes_encode)
qed

lemma hex_upper_unreserved: "d < 16 \<Longrightarrow> uri_unreserved (hex_upper d)"
  by (auto simp: uri_unreserved_def hex_upper_def is_alnum_def is_digit_def is_upper_def code_of_def)

lemma percent_chars: "c \<in> set (percent b) \<Longrightarrow> b < 256 \<Longrightarrow> uri_unreserved c \<or> c = CHR ''%''"
  by (auto simp: percent_def hex_upper_unreserved)

lemma encode_chars: "c \<in> set (encodeURIComponent s) \<Longrightarrow> uri_unreserved c \<or> c = CHR ''%''"
proof -
  have "192 + code_of x div 64 < 256" "128 + code_of x mod 64 < 256" for x using code_less [of x] by simp_all
  then show "c \<in> set (encodeURIComponent s) \<Longrightarrow> uri_unreserved c \<or> c = CHR ''%''"
    by (auto simp: encodeURIComponent_def uri_char_def Let_def split: if_splits dest: percent_chars)
qed

lemma not_encoded:
  "\<not> uri_unreserved c \<Longrightarrow> c \<noteq> CHR ''%'' \<Longrightarrow> c \<notin> set (encodeURIComponent s)"
  using encode_chars by blast

lemma reserved_chars [simp]:
  "\<not> uri_unreserved CHR ''/''" "\<not> uri_unreserved CHR ''&''" "\<not> uri_unreserved CHR ''=''" "\<not> uri_unreserved CHR ''?''"
  by (simp_all add: uri_unreserved_def is_alnum_def is_digit_def is_lower_def is_upper_def code_of_def)

lemma encode_no_slash: "CHR ''/'' \<notin> set (encodeURIComponent s)"
  by (rule not_encoded) simp_all

end
