(* ===== verification/Connector.thy ===== *)
theory Connector
  imports JS_Values JS_Effects JS_URI
begin

text \<open>
  What the connectors of upstream products share: HTTP requests and responses as their code sees them,
  the outside world of a call (\<open>fetch\<close>, \<open>JSON.parse\<close> and \<open>JSON.stringify\<close>), the errors they throw, and
  runs whose events are the requests sent.
\<close>

section \<open>HTTP\<close>

record http_request =
  hr_method :: string
  hr_url :: string
  hr_headers :: "(string \<times> jsval) list"
  hr_body :: "string option"
  hr_timeoutMs :: jsnum
  hr_skipTls :: bool \<comment> \<open>accept any certificate\<close>

record upstream_response =
  ur_status :: nat
  ur_contentType :: string
  ur_text :: "string + string" \<comment> \<open>reading the body may fail\<close>

text \<open>
  \<open>fetch\<close> fails with the messages of its error's cause and of the error, empty where there is none, or
  gives a response; \<open>JSON.stringify\<close> may throw.
\<close>

record upstream =
  up_fetch :: "http_request \<Rightarrow> (string \<times> string) + upstream_response"
  up_parse :: "string \<Rightarrow> string + jsval"
  up_stringify :: "jsval \<Rightarrow> string + string"

definition response_ok :: "upstream_response \<Rightarrow> bool" where
  "response_ok r \<longleftrightarrow> 200 \<le> ur_status r \<and> ur_status r \<le> 299"

text \<open>An error with a status of its own, by the name of the status, or any other error.\<close>

datatype failure = Failure string string | Crash string

type_synonym 'a calls = "(http_request, failure, 'a) run"

text \<open>A member of an object is smaller than the object.\<close>

lemma member_size [termination_simp]:
  "map_of kvs k = Some v \<Longrightarrow> size v < Suc (size_list (\<lambda>x. Suc (size (snd x))) kvs)"
  by (induction kvs) (auto split: if_splits)

text \<open>Objects: \<open>{...a, ...b}\<close> and \<open>a || b\<close>.\<close>

definition spread :: "jsval list \<Rightarrow> (string \<times> jsval) list" where
  "spread vs = from_entries (concat (map entries_of vs))"

definition or_js :: "jsval \<Rightarrow> jsval \<Rightarrow> jsval" where
  "or_js a b = (if truthy a then a else b)"

definition in_quotes :: "string \<Rightarrow> string" where
  "in_quotes s = CHR 0x22 # s @ [CHR 0x22]"

text \<open>\<open>/^https?:\/\//i\<close>.\<close>

definition is_http :: "string \<Rightarrow> bool" where
  "is_http s \<longleftrightarrow> to_lower (take 7 s) = ''http://'' \<or> to_lower (take 8 s) = ''https://''"

section \<open>Every request of a run\<close>

definition all_sent :: "('ev \<Rightarrow> bool) \<Rightarrow> ('ev, 'e, 'a) run \<Rightarrow> bool" where
  "all_sent P m = list_all P (fst m)"

lemma all_sent_intros:
  "all_sent P (liftA r)" "all_sent P (retA x)" "P rq \<Longrightarrow> all_sent P ([rq], r)"
  by (simp_all add: all_sent_def)

lemma all_sent_none [simp]: "all_sent P ([], r)"
  by (simp add: all_sent_def)

lemma all_sent_thenA:
  "all_sent P m \<Longrightarrow> (\<And>x. snd m = Inr x \<Longrightarrow> all_sent P (f x)) \<Longrightarrow> all_sent P (thenA m f)"
  by (auto simp: all_sent_def fst_thenA split: sum.split)

lemma all_sent_catchA:
  "all_sent P m \<Longrightarrow> (\<And>e. snd m = Inl e \<Longrightarrow> all_sent P (h e)) \<Longrightarrow> all_sent P (catchA m h)"
  by (auto simp: all_sent_def catchA_def split: prod.split sum.split)

end
