(* ===== verification/CloudAtlas.thy ===== *)
theory CloudAtlas
  imports Connector
begin

text \<open>
  The CloudAtlas connector (src/services/chaitin__cloudatlas/src/cloudatlas.js): 52 methods that read a
  request's fields, call the product's REST API with the token of the instance and map its answers. The
  handler's context and request are JavaScript values; writing to the console is left out.
\<close>

section \<open>Reading bindings and requests\<close>

definition mergedBindings :: "jsval \<Rightarrow> jsval" where
  "mergedBindings ctx = JObj (spread [coalesce (pget ctx ''config'') (JObj []), coalesce (pget ctx ''bindings'') (JObj []),
     coalesce (pget ctx ''secret'') (JObj [])])"

definition parseHeaders :: "upstream \<Rightarrow> jsval \<Rightarrow> (string \<times> jsval) list" where
  "parseHeaders w v = (case v of
     JObj kvs \<Rightarrow> kvs
   | JStr s \<Rightarrow> if s = [] then [] else (case up_parse w s of Inr (JObj kvs) \<Rightarrow> kvs | _ \<Rightarrow> [])
   | _ \<Rightarrow> [])"

definition strip_slash :: "string \<Rightarrow> string" where
  "strip_slash s = (if s \<noteq> [] \<and> last s = CHR ''/'' then butlast s else s)"

definition normalizeBaseUrl :: "jsval \<Rightarrow> string option" where
  "normalizeBaseUrl url = (let base = trim (to_str (or_js url (JStr []))) in
     if \<not> is_http base then None else Some (strip_slash base))"

text \<open>The payload: the \<open>data\<close> of an answer, when that is an object or an array.\<close>

definition payload :: "jsval \<Rightarrow> jsval" where
  "payload json = (case pget json ''data'' of JObj kvs \<Rightarrow> JObj kvs | JArr vs \<Rightarrow> JArr vs | _ \<Rightarrow> json)"

fun first_array :: "jsval list \<Rightarrow> jsval" where
  "first_array [] = JArr []"
| "first_array (JArr vs # _) = JArr vs"
| "first_array (_ # rest) = first_array rest"

definition normalizeListResponse :: "jsval \<Rightarrow> jsval" where
  "normalizeListResponse json = (let data = payload json in
     first_array [data, pget data ''results'', pget data ''items'', pget json ''results'', pget json ''items''])"

definition getTotal :: "jsval \<Rightarrow> jsval" where
  "getTotal json = (let data = payload json in coalesce (pget data ''count'') (coalesce (pget data ''total'')
     (coalesce (pget json ''count'') (coalesce (pget json ''total'') (JNum (Fin 0))))))"

definition unwrapString :: "jsval \<Rightarrow> string" where
  "unwrapString source = (if nullish source then [] else (case source of
     JObj kvs \<Rightarrow> (case map_of kvs ''value'' of Some v \<Rightarrow> to_str (coalesce v (JStr [])) | None \<Rightarrow> to_str source)
   | _ \<Rightarrow> to_str source))"

definition unwrapList :: "jsval \<Rightarrow> jsval" where
  "unwrapList source = (if nullish source then JUndef else (case source of
     JObj kvs \<Rightarrow> (case map_of kvs ''values'' of Some v \<Rightarrow> v | None \<Rightarrow> source)
   | _ \<Rightarrow> source))"

fun toQueryNumber :: "jsval \<Rightarrow> bool \<Rightarrow> jsval" where
  "toQueryNumber (JObj kvs) allowZero = (case map_of kvs ''value'' of Some v \<Rightarrow> toQueryNumber v allowZero | None \<Rightarrow> JUndef)"
| "toQueryNumber v allowZero = (if nullish v then JUndef else (case to_num v of
     Fin r \<Rightarrow> if of_int (floor r) = r \<and> (if allowZero then 0 \<le> r else 0 < r) then JNum (Fin r) else JUndef
   | _ \<Rightarrow> JUndef))"

definition bool_text :: "string \<Rightarrow> bool option" where
  "bool_text s = (let lower = to_lower (trim s) in if lower = ''true'' then Some True else if lower = ''false'' then Some False else None)"

definition toBooleanStrict :: "jsval \<Rightarrow> bool" where
  "toBooleanStrict v = (case v of
     JStr s \<Rightarrow> (case bool_text s of Some b \<Rightarrow> b
       | None \<Rightarrow> let lower = to_lower (trim s) in if lower = ''1'' then True else if lower = ''0'' then False else s \<noteq> [])
   | _ \<Rightarrow> truthy v)"

fun toBooleanOrNull :: "jsval \<Rightarrow> bool option" where
  "toBooleanOrNull (JBool b) = Some b"
| "toBooleanOrNull (JObj kvs) = (case map_of kvs ''value'' of Some v \<Rightarrow> toBooleanOrNull v | None \<Rightarrow> None)"
| "toBooleanOrNull (JStr s) = bool_text s"
| "toBooleanOrNull (JNum n) = (if n = Fin 1 then Some True else if n = Fin 0 then Some False else None)"
| "toBooleanOrNull v = None"

definition buildQuery :: "(string \<times> jsval) list \<Rightarrow> string" where
  "buildQuery params = (let parts = map (\<lambda>(k, v). encodeURIComponent k @ ''='' @ encodeURIComponent (to_str v))
       (filter (\<lambda>(k, v). \<not> nullish v \<and> v \<noteq> JStr []) params)
     in if parts = [] then [] else ''?'' @ join ''&'' parts)"

definition VALID_SEED_RESOURCE_TYPES :: "string list" where
  "VALID_SEED_RESOURCE_TYPES = [''enterprise'', ''keyword'', ''domain'', ''email-domain'', ''cert'', ''icon'', ''web-title'']"

definition VALID_ASSET_RESOURCE_TYPES_STATUS :: "string list" where
  "VALID_ASSET_RESOURCE_TYPES_STATUS = [''root-domain'', ''subdomain'', ''dns'', ''ip'', ''cert'']"

definition VALID_ASSET_RESOURCE_TYPES_DELETE :: "string list" where
  "VALID_ASSET_RESOURCE_TYPES_DELETE = [''root-domain'', ''subdomain'', ''dns'', ''ip'']"

section \<open>The instance\<close>

record cloudatlas =
  ca_baseUrl :: jsval
  ca_space :: jsval
  ca_timeoutMs :: jsval
  ca_headers :: "(string \<times> jsval) list"
  ca_meta :: jsval
  ca_skipTls :: bool
  ca_token :: string

definition DEFAULT_TIMEOUT_MS :: jsnum where
  "DEFAULT_TIMEOUT_MS = Fin 15000"

definition cloudatlas_of :: "upstream \<Rightarrow> jsval \<Rightarrow> cloudatlas" where
  "cloudatlas_of w ctx = (let bindings = mergedBindings ctx; b = pget bindings in \<lparr>
     ca_baseUrl = or_js (b ''baseUrl'') (or_js (b ''restBaseUrl'') (or_js (b ''rest_base_url'') (or_js (b ''base_url'')
       (or_js (b ''endpoint'') (JStr []))))),
     ca_space = coalesce (b ''space'') (coalesce (b ''defaultSpace'') (b ''default_space'')),
     ca_timeoutMs = or_js (pget (pget ctx ''limits'') ''timeoutMs'') (or_js (b ''timeoutMs'') (JNum DEFAULT_TIMEOUT_MS)),
     ca_headers = parseHeaders w (b ''headers''),
     ca_meta = or_js (pget ctx ''meta'') (JObj []),
     ca_skipTls = truthy (b ''tlsInsecureSkipVerify'') \<or> truthy (b ''skipTlsVerify'') \<or> truthy (b ''skip_tls_verify'') \<or>
       truthy (b ''tls_insecure_skip_verify''),
     ca_token = trim (to_str (or_js (first_defined [b ''token'', b ''Token'']) (JStr [])))\<rparr>)"

text \<open>The request as the handlers see it: without its token, with the default space; the condition that
would return it as it is never holds.\<close>

definition requestWithDefaults :: "cloudatlas \<Rightarrow> jsval \<Rightarrow> jsval" where
  "requestWithDefaults c req = (let space = first_defined [pget req ''space'', pget req ''Space'', ca_space c];
       rest = filter (\<lambda>(k, v). k \<noteq> ''token'' \<and> k \<noteq> ''Token'') (entries_of req)
     in JObj (from_entries ((if nullish space then [] else [(''space'', space)]) @ rest)))"

definition meta_id :: "cloudatlas \<Rightarrow> string \<Rightarrow> string \<Rightarrow> jsval" where
  "meta_id c a b = or_js (pget (ca_meta c) a) (or_js (pget (ca_meta c) b) (JStr ''unknown''))"

definition buildHeaders :: "cloudatlas \<Rightarrow> string \<Rightarrow> (string \<times> jsval) list" where
  "buildHeaders c token = from_entries (ca_headers c @ [(''TOKEN'', JStr token),
     (''x-engine-instance'', meta_id c ''instance_id'' ''instanceId''), (''x-request-id'', meta_id c ''request_id'' ''requestId'')])"

section \<open>Calling upstream\<close>

definition cloudatlas_code :: "string \<Rightarrow> nat" where
  "cloudatlas_code code = (case map_of [(''INVALID_ARGUMENT'', 3), (''FAILED_PRECONDITION'', 9), (''PERMISSION_DENIED'', 7),
     (''UNAVAILABLE'', 14), (''DEADLINE_EXCEEDED'', 4)] code of Some n \<Rightarrow> n | None \<Rightarrow> 2)"

text \<open>The status and message of a failure with a code; any other error is the SDK's to report.\<close>

definition errorWithCode :: "failure \<Rightarrow> (nat \<times> string) option" where
  "errorWithCode f = (case f of Failure code message \<Rightarrow> Some (cloudatlas_code code, code @ '': '' @ message) | Crash e \<Rightarrow> None)"

definition timeout_of :: "jsval \<Rightarrow> jsnum" where
  "timeout_of v = (case to_num v of Fin r \<Rightarrow> if 0 < r then Fin r else DEFAULT_TIMEOUT_MS | _ \<Rightarrow> DEFAULT_TIMEOUT_MS)"

definition fetchCloudAtlas :: "upstream \<Rightarrow> http_request \<Rightarrow> upstream_response calls" where
  "fetchCloudAtlas w rq = ([rq], case up_fetch w rq of
     Inr r \<Rightarrow> Inr r
   | Inl (cause, message) \<Rightarrow> Inl (Failure ''UNAVAILABLE'' (if cause \<noteq> [] then cause else if message \<noteq> [] then message else ''fetch failed'')))"

definition throwForHttpError :: "nat \<Rightarrow> string \<Rightarrow> failure" where
  "throwForHttpError status body = Failure
     (if status = 401 \<or> status = 403 then ''PERMISSION_DENIED''
      else if 400 \<le> status \<and> status < 500 then ''FAILED_PRECONDITION'' else ''UNAVAILABLE'')
     (''upstream http '' @ nat_str status @ '': '' @ body)"

text \<open>An answer with a \<open>code\<close> other than 200 and 0 is a business error.\<close>

definition business_error :: "jsval \<Rightarrow> failure option" where
  "business_error json = (case json of
     JObj kvs \<Rightarrow> (case map_of kvs ''code'' of
         Some code \<Rightarrow> if code = JNum (Fin 200) \<or> code = JNum (Fin 0) then None
           else Some (Failure ''FAILED_PRECONDITION'' (''CloudAtlas code '' @ to_str code @ '': '' @
             to_str (or_js (pget json ''message'') (JStr ''unknown error''))))
       | None \<Rightarrow> None)
   | _ \<Rightarrow> None)"

definition readJsonResponse :: "upstream \<Rightarrow> jsval \<Rightarrow> upstream_response \<Rightarrow> failure + jsval" where
  "readJsonResponse w emptyValue res = (case ur_text res of
     Inl e \<Rightarrow> Inl (Crash e)
   | Inr body \<Rightarrow>
       if \<not> response_ok res then Inl (throwForHttpError (ur_status res) body)
       else if trim body = [] then Inr emptyValue
       else (case up_parse w body of
           Inl e \<Rightarrow> Inl (if includes_str (ur_contentType res) ''application/json'' then Crash e
             else Failure ''UNKNOWN'' ''response is not valid JSON'')
         | Inr json \<Rightarrow> (case business_error json of Some e \<Rightarrow> Inl e | None \<Rightarrow> Inr json)))"

definition ensureTokenAndBaseUrl :: "cloudatlas \<Rightarrow> failure + string \<times> string" where
  "ensureTokenAndBaseUrl c = (if ca_token c = [] then Inl (Failure ''INVALID_ARGUMENT'' ''token is required'')
     else (case normalizeBaseUrl (ca_baseUrl c) of
         None \<Rightarrow> Inl (Failure ''INVALID_ARGUMENT'' ''baseUrl is required (http/https)'')
       | Some baseUrl \<Rightarrow> Inr (ca_token c, baseUrl)))"

definition request_of :: "cloudatlas \<Rightarrow> string \<Rightarrow> string \<Rightarrow> (string \<times> jsval) list \<Rightarrow> string option \<Rightarrow> http_request" where
  "request_of c verb url headers body = \<lparr>hr_method = verb, hr_url = url, hr_headers = headers, hr_body = body,
     hr_timeoutMs = timeout_of (ca_timeoutMs c), hr_skipTls = ca_skipTls c\<rparr>"

definition callGet :: "cloudatlas \<Rightarrow> upstream \<Rightarrow> string \<Rightarrow> string \<Rightarrow> jsval calls" where
  "callGet c w token url = thenA (fetchCloudAtlas w (request_of c ''GET'' url (buildHeaders c token) None))
     (\<lambda>res. liftA (readJsonResponse w (JObj []) res))"

definition call_with_body :: "string \<Rightarrow> cloudatlas \<Rightarrow> upstream \<Rightarrow> string \<Rightarrow> string \<Rightarrow> jsval \<Rightarrow> jsval calls" where
  "call_with_body verb c w token url body =
     thenA (liftA (case up_stringify w body of Inl e \<Rightarrow> Inl (Crash e) | Inr s \<Rightarrow> Inr s)) (\<lambda>text.
     thenA (fetchCloudAtlas w (request_of c verb url (set_key (buildHeaders c token) ''content-type'' (JStr ''application/json'')) (Some text)))
     (\<lambda>res. liftA (readJsonResponse w (JObj []) res)))"

definition callPost :: "cloudatlas \<Rightarrow> upstream \<Rightarrow> string \<Rightarrow> string \<Rightarrow> jsval \<Rightarrow> jsval calls" where
  "callPost = call_with_body ''POST''"

definition callDeleteWithBody :: "cloudatlas \<Rightarrow> upstream \<Rightarrow> string \<Rightarrow> string \<Rightarrow> jsval \<Rightarrow> jsval calls" where
  "callDeleteWithBody = call_with_body ''DELETE''"

section \<open>The shapes of handlers\<close>

type_synonym handler = "cloudatlas \<Rightarrow> upstream \<Rightarrow> jsval \<Rightarrow> jsval calls"

definition api :: "string \<Rightarrow> string \<Rightarrow> string" where
  "api baseUrl path = baseUrl @ ''/openapi/v1/'' @ path"

text \<open>The query parameters that a handler reads from its request.\<close>

datatype query = QSpace | QStr string | QBool string | QNum string bool

definition space_of :: "cloudatlas \<Rightarrow> jsval \<Rightarrow> (string \<times> jsval) list" where
  "space_of c req = (let space = first_defined [pget req ''space'', ca_space c] in
     if nullish space then [] else [(''space'', coalesce (toQueryNumber space True) space)])"

fun query_param :: "cloudatlas \<Rightarrow> jsval \<Rightarrow> query \<Rightarrow> (string \<times> jsval) list" where
  "query_param c req QSpace = space_of c req"
| "query_param c req (QStr k) = (let v = unwrapString (pget req k) in if v = [] then [] else [(k, JStr v)])"
| "query_param c req (QBool k) = (case toBooleanOrNull (pget req k) of Some b \<Rightarrow> [(k, JBool b)] | None \<Rightarrow> [])"
| "query_param c req (QNum k allowZero) = (let v = toQueryNumber (pget req k) allowZero in if v = JUndef then [] else [(k, v)])"

definition query_params :: "cloudatlas \<Rightarrow> jsval \<Rightarrow> query list \<Rightarrow> (string \<times> jsval) list" where
  "query_params c req qs = concat (map (query_param c req) qs)"

definition paging :: "query list" where
  "paging = [QStr ''sort'', QNum ''page'' True, QNum ''size'' False]"

definition item_list :: "jsval \<Rightarrow> jsval" where
  "item_list json = JObj [(''items'', normalizeListResponse json), (''total'', getTotal json)]"

definition list_call :: "string \<Rightarrow> query list \<Rightarrow> handler" where
  "list_call path qs c w req = thenA (liftA (ensureTokenAndBaseUrl c)) (\<lambda>(token, baseUrl).
     thenA (callGet c w token (api baseUrl path @ buildQuery (query_params c req (qs @ paging)))) (\<lambda>json.
     retA (item_list json)))"

definition required_list :: "string \<Rightarrow> jsval \<Rightarrow> failure + jsval" where
  "required_list k req = (case unwrapList (pget req k) of
     JArr (v # vs) \<Rightarrow> Inr (JArr (v # vs))
   | _ \<Rightarrow> Inl (Failure ''INVALID_ARGUMENT'' (k @ '' must be a non-empty array'')))"

text \<open>\<open>body.space = ...\<close>.\<close>

definition space_entry :: "cloudatlas \<Rightarrow> jsval \<Rightarrow> (string \<times> jsval) list \<Rightarrow> (string \<times> jsval) list" where
  "space_entry c req body = foldl (\<lambda>b (k, v). set_key b k v) body (space_of c req)"

definition with_space :: "cloudatlas \<Rightarrow> jsval \<Rightarrow> (string \<times> jsval) list \<Rightarrow> jsval" where
  "with_space c req body = JObj (space_entry c req body)"

definition affected :: "jsval \<Rightarrow> jsval" where
  "affected json = JObj [(''affected_count'', coalesce (pget json ''affected_count'') (coalesce (pget json ''count'') (JNum (Fin 0)))),
     (''message'', coalesce (pget json ''message'') (JStr []))]"

definition batch_create :: "string \<Rightarrow> handler" where
  "batch_create path c w req = thenA (liftA (ensureTokenAndBaseUrl c)) (\<lambda>(token, baseUrl).
     thenA (liftA (required_list ''entries'' req)) (\<lambda>entries.
     thenA (callPost c w token (api baseUrl path) (with_space c req [(''entries'', entries)])) (\<lambda>json.
     retA (affected json))))"

definition raw_pk :: "jsval \<Rightarrow> jsval" where
  "raw_pk req = first_defined [pget req ''pk'', pget req ''Pk'', pget req ''id'', pget req ''Id'']"

definition checked_pk :: "jsval \<Rightarrow> failure + string" where
  "checked_pk v = (if is_integer_num (to_num v) then Inr (num_str (to_num v))
     else Inl (Failure ''INVALID_ARGUMENT'' ''pk must be an integer''))"

text \<open>With a \<open>pk\<close> the one item, which becomes a list, without the list.\<close>

definition detail_list :: "jsval \<Rightarrow> jsval" where
  "detail_list json = (let found = (case json of JArr vs \<Rightarrow> vs | _ \<Rightarrow> [json]) in
     JObj [(''items'', JArr found), (''total'', JNum (Fin (of_nat (length found))))])"

definition detail_or_list :: "(string \<Rightarrow> string) \<Rightarrow> string \<Rightarrow> query list \<Rightarrow> handler" where
  "detail_or_list detail path qs c w req = thenA (liftA (ensureTokenAndBaseUrl c)) (\<lambda>(token, baseUrl).
     if \<not> nullish (raw_pk req) then thenA (liftA (checked_pk (raw_pk req))) (\<lambda>pk.
       thenA (callGet c w token (api baseUrl (detail pk))) (\<lambda>json. retA (detail_list json)))
     else thenA (callGet c w token (api baseUrl path @ buildQuery (query_params c req (qs @ paging)))) (\<lambda>json.
       retA (item_list json)))"

text \<open>With \<open>options\<close> the options of the resource, without the list.\<close>

definition options_or_list :: "string \<Rightarrow> query list \<Rightarrow> handler" where
  "options_or_list path qs c w req = thenA (liftA (ensureTokenAndBaseUrl c)) (\<lambda>(token, baseUrl).
     if toBooleanStrict (first_defined [pget req ''options'', pget req ''fetch_options'', pget req ''fetchOptions''])
     then thenA (callGet c w token (api baseUrl (path @ ''/options'') @ buildQuery (query_params c req [QSpace]))) (\<lambda>json.
       retA (item_list json))
     else thenA (callGet c w token (api baseUrl path @ buildQuery (query_params c req (qs @ paging)))) (\<lambda>json.
       retA (item_list json)))"

section \<open>The methods\<close>

definition callListEnterpriseSubjects :: handler where
  "callListEnterpriseSubjects = list_call ''seed/enterprise'' [QSpace, QStr ''name'', QBool ''enable'', QStr ''confidence'', QStr ''status'']"

definition callBatchCreateEnterpriseSubjects :: handler where
  "callBatchCreateEnterpriseSubjects = batch_create ''seed/enterprise/batch-create''"

definition callBatchDeleteEnterpriseSubjects :: handler where
  "callBatchDeleteEnterpriseSubjects c w req = thenA (liftA (ensureTokenAndBaseUrl c)) (\<lambda>(token, baseUrl).
     thenA (liftA (required_list ''ids'' req)) (\<lambda>ids.
     thenA (callDeleteWithBody c w token (api baseUrl ''seed/enterprise/batch-delete'') (with_space c req [(''ids'', ids)])) (\<lambda>json.
     retA (affected json))))"

definition callListKeywords :: handler where
  "callListKeywords = list_call ''seed/keyword'' [QSpace, QStr ''name'', QBool ''enable'', QStr ''confidence'', QStr ''type'']"

definition callBatchCreateKeywords :: handler where
  "callBatchCreateKeywords = batch_create ''seed/keyword/batch-create''"

definition callListSeedDomains :: handler where
  "callListSeedDomains = list_call ''seed/domain'' [QSpace, QStr ''name'', QBool ''enable'', QStr ''confidence'']"

definition callBatchCreateSeedDomains :: handler where
  "callBatchCreateSeedDomains = batch_create ''seed/domain/batch-create''"

definition callListSeedCerts :: handler where
  "callListSeedCerts = list_call ''seed/cert'' [QSpace, QStr ''name'']"

definition callListSeedIcons :: handler where
  "callListSeedIcons = list_call ''seed/icon'' [QSpace, QStr ''name'']"

definition callListSeedWebTitles :: handler where
  "callListSeedWebTitles = list_call ''seed/web-title'' [QSpace, QStr ''name'']"

definition seed_resource :: "string \<Rightarrow> string" where
  "seed_resource t = (if t = ''email_domain'' then ''email-domain'' else if t = ''web_title'' then ''web-title'' else t)"

definition callBatchUpdateSeeds :: handler where
  "callBatchUpdateSeeds c w req = thenA (liftA (ensureTokenAndBaseUrl c)) (\<lambda>(token, baseUrl).
     let resourceType = unwrapString (pget req ''resource_type''); apiResourceType = seed_resource resourceType in
     thenA (liftA (if resourceType = [] then Inl (Failure ''INVALID_ARGUMENT'' ''resource_type is required'')
       else if apiResourceType \<notin> set VALID_SEED_RESOURCE_TYPES then Inl (Failure ''INVALID_ARGUMENT''
         (''resource_type must be one of: '' @ join '', '' VALID_SEED_RESOURCE_TYPES))
       else Inr ())) (\<lambda>_.
     thenA (liftA (required_list ''ids'' req)) (\<lambda>ids.
     let updateType = unwrapString (pget req ''update_type'');
         post = (\<lambda>action body. thenA (callPost c w token (api baseUrl (''seed/'' @ apiResourceType @ ''/'' @ action)) (with_space c req body))
           (\<lambda>json. retA (affected json))) in
     if updateType = [] then liftA (Inl (Failure ''INVALID_ARGUMENT'' ''update_type is required (switch or confidence)''))
     else if updateType = ''switch'' then (case toBooleanOrNull (pget req ''enable'') of
         None \<Rightarrow> liftA (Inl (Failure ''INVALID_ARGUMENT'' ''enable is required for switch operation''))
       | Some enable \<Rightarrow> post ''switch'' [(''ids'', ids), (''enable'', JBool enable)])
     else if updateType = ''confidence'' \<or> updateType = ''update-confidence'' then
       (let confidence = unwrapString (pget req ''confidence'') in
        if confidence = [] then liftA (Inl (Failure ''INVALID_ARGUMENT'' ''confidence is required for confidence operation''))
        else post ''update-confidence'' [(''ids'', ids), (''confidence'', JStr confidence)])
     else liftA (Inl (Failure ''INVALID_ARGUMENT'' (''update_type must be '' @ in_quotes ''switch'' @ '' or '' @
       in_quotes ''confidence'' @ '', got '' @ in_quotes updateType))))))"

definition callListRootDomains :: handler where
  "callListRootDomains = list_call ''asset/root-domain'' [QSpace, QStr ''name'']"

definition callBatchCreateRootDomains :: handler where
  "callBatchCreateRootDomains = batch_create ''asset/root-domain/batch-create''"

definition callListSubdomains :: handler where
  "callListSubdomains = list_call ''asset/subdomain'' [QSpace, QStr ''hostname'', QBool ''enable'']"

definition callListDNS :: handler where
  "callListDNS = list_call ''asset/dns'' [QSpace, QStr ''hostname'', QStr ''view_mode'']"

definition callListIPs :: handler where
  "callListIPs = list_call ''asset/ip'' [QSpace, QStr ''ip'', QStr ''hostname'']"

definition callBatchCreateIPs :: handler where
  "callBatchCreateIPs = batch_create ''asset/ip/batch-create''"

definition callListAssetCerts :: handler where
  "callListAssetCerts = list_call ''asset/cert'' [QSpace, QStr ''name'']"

definition asset_resource :: "string \<Rightarrow> string" where
  "asset_resource t = (if t = ''root_domain'' then ''root-domain'' else t)"

text \<open>The checks of the resource type, common to the two handlers on assets.\<close>

definition checked_resource :: "string list \<Rightarrow> jsval \<Rightarrow> failure + string" where
  "checked_resource valid req = (let resourceType = unwrapString (pget req ''resource_type'') in
     if resourceType = [] then Inl (Failure ''INVALID_ARGUMENT'' ''resource_type is required'')
     else if asset_resource resourceType \<notin> set valid then Inl (Failure ''INVALID_ARGUMENT'' (''resource_type must be one of: '' @ join '', '' valid))
     else Inr (asset_resource resourceType))"

definition callBatchUpdateAssetStatus :: handler where
  "callBatchUpdateAssetStatus c w req = thenA (liftA (ensureTokenAndBaseUrl c)) (\<lambda>(token, baseUrl).
     thenA (liftA (checked_resource VALID_ASSET_RESOURCE_TYPES_STATUS req)) (\<lambda>apiResourceType.
     thenA (liftA (required_list ''ids'' req)) (\<lambda>ids.
     let status = unwrapString (pget req ''status'') in
     if status = [] then liftA (Inl (Failure ''INVALID_ARGUMENT'' ''status is required''))
     else thenA (callPost c w token (api baseUrl (''asset/'' @ apiResourceType @ ''/status''))
         (with_space c req [(''ids'', ids), (''status'', JStr status)])) (\<lambda>json. retA (affected json)))))"

definition callBatchDeleteAssets :: handler where
  "callBatchDeleteAssets c w req = thenA (liftA (ensureTokenAndBaseUrl c)) (\<lambda>(token, baseUrl).
     thenA (liftA (checked_resource VALID_ASSET_RESOURCE_TYPES_DELETE req)) (\<lambda>apiResourceType.
     thenA (liftA (required_list ''ids'' req)) (\<lambda>ids.
     thenA (callDeleteWithBody c w token (api baseUrl (''asset/'' @ apiResourceType @ ''/batch-delete''))
       (with_space c req [(''ids'', ids)])) (\<lambda>json. retA (affected json)))))"

definition callListPorts :: handler where
  "callListPorts = list_call ''attack/port'' [QSpace, QStr ''ip'', QNum ''port'' True, QStr ''hostname'']"

definition callListOpenPorts :: handler where
  "callListOpenPorts = list_call ''attack/openport'' [QSpace, QStr ''ip'']"

definition callListWebEntities :: handler where
  "callListWebEntities = list_call ''attack/web'' [QSpace, QStr ''hostname'', QStr ''url'']"

definition callListWebPaths :: handler where
  "callListWebPaths = list_call ''attack/dir'' [QSpace, QStr ''url'', QStr ''view_mode'']"

definition callListWebFingerprints :: handler where
  "callListWebFingerprints = list_call ''attack/appfinger'' [QSpace, QStr ''name'']"

definition callListCrawlerData :: handler where
  "callListCrawlerData = list_call ''attack/crawler'' [QSpace, QStr ''url'']"

definition callListVulnerabilities :: handler where
  "callListVulnerabilities = list_call ''risk/high-risk'' [QSpace, QStr ''hostname'', QStr ''status'']"

definition callBatchUpdateVulnStatus :: handler where
  "callBatchUpdateVulnStatus c w req = thenA (liftA (ensureTokenAndBaseUrl c)) (\<lambda>(token, baseUrl).
     thenA (liftA (required_list ''ids'' req)) (\<lambda>ids.
     let updateType = unwrapString (pget req ''update_type'') in
     if updateType = [] then liftA (Inl (Failure ''INVALID_ARGUMENT'' ''update_type is required (status or recheck)''))
     else if updateType = ''status'' then (let status = unwrapString (pget req ''status'') in
       if status = [] then liftA (Inl (Failure ''INVALID_ARGUMENT'' ''status is required for status update''))
       else thenA (callPost c w token (api baseUrl ''risk/high-risk/status'')
           (JObj (set_key (space_entry c req [(''ids'', ids)]) ''status'' (JStr status)))) (\<lambda>json. retA (affected json)))
     else if updateType = ''recheck'' then
       thenA (callPost c w token (api baseUrl ''risk/high-risk/recheck'') (with_space c req [(''ids'', ids)])) (\<lambda>json. retA (affected json))
     else liftA (Inl (Failure ''INVALID_ARGUMENT'' (''update_type must be '' @ in_quotes ''status'' @ '' or '' @
       in_quotes ''recheck'' @ '', got '' @ in_quotes updateType)))))"

definition callListHighRiskApps :: handler where
  "callListHighRiskApps = list_call ''risk/product'' [QSpace, QStr ''name'']"

definition callGetHighRiskAppFingers :: handler where
  "callGetHighRiskAppFingers c w req = thenA (liftA (ensureTokenAndBaseUrl c)) (\<lambda>(token, baseUrl).
     if nullish (raw_pk req) then liftA (Inl (Failure ''INVALID_ARGUMENT'' ''pk is required''))
     else thenA (liftA (checked_pk (raw_pk req))) (\<lambda>pk.
       thenA (callGet c w token (api baseUrl (''risk/product/'' @ pk @ ''/finger'') @ buildQuery (query_params c req [QSpace]))) (\<lambda>json.
       retA (item_list json))))"

definition callListHighRiskServices :: handler where
  "callListHighRiskServices = list_call ''risk/service'' [QSpace, QStr ''name'']"

definition callListVendors :: handler where
  "callListVendors = list_call ''kb/vendor'' [QSpace, QStr ''name'']"

definition callListProducts :: handler where
  "callListProducts = detail_or_list (\<lambda>pk. ''kb/product/'' @ pk) ''kb/product'' [QSpace, QStr ''name'']"

definition callListVulnSubjects :: handler where
  "callListVulnSubjects = list_call ''kb/subject'' [QSpace, QStr ''name'']"

definition callListKBVulns :: handler where
  "callListKBVulns c w req = thenA (liftA (ensureTokenAndBaseUrl c)) (\<lambda>(token, baseUrl).
     if \<not> nullish (raw_pk req) then thenA (liftA (checked_pk (raw_pk req))) (\<lambda>pk.
       thenA (callGet c w token (api baseUrl (''kb/vuln/'' @ pk @ ''/product'') @ buildQuery (query_params c req [QSpace]))) (\<lambda>json.
       retA (item_list json)))
     else thenA (callGet c w token (api baseUrl ''kb/vuln'' @ buildQuery (query_params c req ([QSpace, QStr ''name''] @ paging)))) (\<lambda>json.
       retA (item_list json)))"

definition callListMonitoringRules :: handler where
  "callListMonitoringRules = detail_or_list (\<lambda>pk. ''drps/rule/'' @ pk) ''drps/rule'' [QSpace, QStr ''name'']"

definition callBatchCreateMonitoringRules :: handler where
  "callBatchCreateMonitoringRules = batch_create ''drps/rule/batch-create''"

definition callListGithubLeaks :: handler where
  "callListGithubLeaks = list_call ''drps/github'' [QSpace, QStr ''name'']"

definition callListDiskLeaks :: handler where
  "callListDiskLeaks = list_call ''drps/disk'' [QSpace, QStr ''name'']"

definition callListDocLeaks :: handler where
  "callListDocLeaks = list_call ''drps/doc'' [QSpace, QStr ''name'']"

definition callListDarknetIntel :: handler where
  "callListDarknetIntel = list_call ''drps/darknet'' [QSpace, QStr ''name'']"

definition callListStolenData :: handler where
  "callListStolenData = list_call ''drps/stealer-log'' [QSpace, QStr ''name'']"

definition callListEmailLeaks :: handler where
  "callListEmailLeaks = list_call ''drps/email'' [QSpace, QStr ''name'']"

definition callListMobileApps :: handler where
  "callListMobileApps = list_call ''drps/app'' [QSpace, QStr ''name'']"

definition callListSocialMedia :: handler where
  "callListSocialMedia = list_call ''drps/media'' [QSpace, QStr ''name'']"

definition callListTaskSchedules :: handler where
  "callListTaskSchedules = detail_or_list (\<lambda>pk. ''task/schedule/'' @ pk) ''task/schedule'' [QSpace, QStr ''task_type'', QStr ''name'']"

text \<open>\<open>typeof v === 'object' && v !== null ? v : {}\<close>, spread.\<close>

definition object_entries :: "jsval \<Rightarrow> (string \<times> jsval) list" where
  "object_entries v = (case v of JObj kvs \<Rightarrow> kvs | JArr vs \<Rightarrow> entries_of (JArr vs) | _ \<Rightarrow> [])"

definition named :: "string \<Rightarrow> string \<Rightarrow> (string \<times> jsval) list" where
  "named k v = (if v = [] then [] else [(k, JStr v)])"

definition created_id :: "jsval \<Rightarrow> rat" where
  "created_id json = (case to_num (pget json ''id'') of Fin r \<Rightarrow> if of_int (floor r) = r then r else 0 | _ \<Rightarrow> 0)"

definition created :: "jsval \<Rightarrow> jsval" where
  "created json = JObj [(''id'', JNum (Fin (created_id json))), (''message'', coalesce (pget json ''message'') (JStr []))]"

text \<open>Running the new schedule at once is optional: its failure is only written to the console.\<close>

definition callCreateTaskSchedule :: handler where
  "callCreateTaskSchedule c w req = thenA (liftA (ensureTokenAndBaseUrl c)) (\<lambda>(token, baseUrl).
     let name = unwrapString (pget req ''name''); taskType = unwrapString (pget req ''task_type'');
         schedule = coalesce (pget req ''schedule'') (coalesce (pget req ''config'') (JObj []));
         extra = coalesce (pget req ''extra'') (JObj []);
         body = with_space c req (from_entries (named ''name'' name @ named ''task_type'' taskType @ object_entries schedule @ object_entries extra))
     in thenA (callPost c w token (api baseUrl ''task/schedule'') body) (\<lambda>json.
        if toBooleanStrict (pget req ''run_immediately'') \<and> created_id json \<noteq> 0
        then thenA (catchA (thenA (callPost c w token (api baseUrl (''task/schedule/'' @ num_str (Fin (created_id json)) @ ''/run-immediately'')) (JObj []))
            (\<lambda>_. retA ())) (\<lambda>_. retA ())) (\<lambda>_. retA (created json))
        else retA (created json)))"

definition callListTaskInstances :: handler where
  "callListTaskInstances = detail_or_list (\<lambda>pk. ''task/session/'' @ pk) ''task/session'' [QSpace, QStr ''task_type'', QStr ''name'']"

definition callCreateTaskInstance :: handler where
  "callCreateTaskInstance c w req = thenA (liftA (ensureTokenAndBaseUrl c)) (\<lambda>(token, baseUrl).
     let taskType = unwrapString (pget req ''task_type''); name = unwrapString (pget req ''name'');
         extra = coalesce (pget req ''extra'') (JObj []);
         body = with_space c req (from_entries (named ''task_type'' taskType @ named ''name'' name @ object_entries extra))
     in thenA (callPost c w token (api baseUrl ''task/session'') body) (\<lambda>json. retA (created json)))"

text \<open>The space module takes no space parameter.\<close>

definition callListSpaces :: handler where
  "callListSpaces = detail_or_list (\<lambda>pk. ''space/space/'' @ pk) ''space/space'' [QStr ''name'']"

definition callListTags :: handler where
  "callListTags = options_or_list ''space/tag'' [QSpace, QStr ''name'']"

definition callListBusinessUnits :: handler where
  "callListBusinessUnits = options_or_list ''space/bu'' [QSpace, QStr ''name'']"

section \<open>Dispatch\<close>

definition SERVICE_PATH :: string where
  "SERVICE_PATH = ''CloudAtlas.CloudAtlas/''"

text \<open>The table that \<open>rpcdef\<close> returns, by the names of the methods.\<close>

definition rpcdef_table :: "(string \<times> handler) list" where
  "rpcdef_table = [
     (''ListEnterpriseSubjects'', callListEnterpriseSubjects), (''BatchCreateEnterpriseSubjects'', callBatchCreateEnterpriseSubjects),
     (''BatchDeleteEnterpriseSubjects'', callBatchDeleteEnterpriseSubjects), (''ListKeywords'', callListKeywords),
     (''BatchCreateKeywords'', callBatchCreateKeywords), (''ListSeedDomains'', callListSeedDomains),
     (''BatchCreateSeedDomains'', callBatchCreateSeedDomains), (''ListSeedCerts'', callListSeedCerts),
     (''ListSeedIcons'', callListSeedIcons), (''ListSeedWebTitles'', callListSeedWebTitles),
     (''BatchUpdateSeeds'', callBatchUpdateSeeds), (''ListRootDomains'', callListRootDomains),
     (''BatchCreateRootDomains'', callBatchCreateRootDomains), (''ListSubdomains'', callListSubdomains),
     (''ListDNS'', callListDNS), (''ListIPs'', callListIPs),
     (''BatchCreateIPs'', callBatchCreateIPs), (''ListAssetCerts'', callListAssetCerts),
     (''BatchUpdateAssetStatus'', callBatchUpdateAssetStatus), (''BatchDeleteAssets'', callBatchDeleteAssets),
     (''ListPorts'', callListPorts), (''ListOpenPorts'', callListOpenPorts),
     (''ListWebEntities'', callListWebEntities), (''ListWebPaths'', callListWebPaths),
     (''ListWebFingerprints'', callListWebFingerprints), (''ListCrawlerData'', callListCrawlerData),
     (''ListVulnerabilities'', callListVulnerabilities), (''BatchUpdateVulnStatus'', callBatchUpdateVulnStatus),
     (''ListHighRiskApps'', callListHighRiskApps), (''GetHighRiskAppFingers'', callGetHighRiskAppFingers),
     (''ListHighRiskServices'', callListHighRiskServices), (''ListVendors'', callListVendors),
     (''ListProducts'', callListProducts), (''ListVulnSubjects'', callListVulnSubjects),
     (''ListKBVulns'', callListKBVulns), (''ListMonitoringRules'', callListMonitoringRules),
     (''BatchCreateMonitoringRules'', callBatchCreateMonitoringRules), (''ListGithubLeaks'', callListGithubLeaks),
     (''ListDiskLeaks'', callListDiskLeaks), (''ListDocLeaks'', callListDocLeaks),
     (''ListDarknetIntel'', callListDarknetIntel), (''ListStolenData'', callListStolenData),
     (''ListEmailLeaks'', callListEmailLeaks), (''ListMobileApps'', callListMobileApps),
     (''ListSocialMedia'', callListSocialMedia), (''ListTaskSchedules'', callListTaskSchedules),
     (''CreateTaskSchedule'', callCreateTaskSchedule), (''ListTaskInstances'', callListTaskInstances),
     (''CreateTaskInstance'', callCreateTaskInstance), (''ListSpaces'', callListSpaces),
     (''ListTags'', callListTags), (''ListBusinessUnits'', callListBusinessUnits)]"

definition mergeCtx :: "jsval \<Rightarrow> jsval \<Rightarrow> jsval" where
  "mergeCtx baseCtx innerCtx = (let merged = (\<lambda>k. JObj (spread [coalesce (pget baseCtx k) (JObj []), coalesce (pget innerCtx k) (JObj [])]));
       either = (\<lambda>k d. coalesce (pget innerCtx k) (coalesce (pget baseCtx k) d))
     in JObj (spread [coalesce baseCtx (JObj []), coalesce innerCtx (JObj []),
       JObj [(''bindings'', merged ''bindings''), (''config'', merged ''config''), (''secret'', merged ''secret''),
         (''limits'', either ''limits'' (JObj [])), (''meta'', either ''meta'' (JObj [])),
         (''metadata'', either ''metadata'' (JObj [])), (''getMetadata'', coalesce (pget innerCtx ''getMetadata'') (pget baseCtx ''getMetadata''))]]))"

definition resolveCallContext :: "jsval \<Rightarrow> jsval \<Rightarrow> jsval \<Rightarrow> jsval \<times> jsval" where
  "resolveCallContext baseCtx reqOrCtx maybeInnerCtx = (
     if maybeInnerCtx \<noteq> JUndef then (coalesce reqOrCtx (JObj []), mergeCtx baseCtx maybeInnerCtx)
     else (let innerCtx = coalesce reqOrCtx (JObj []) in
       (coalesce (pget innerCtx ''request'') (coalesce (pget innerCtx ''req'') (JObj [])), mergeCtx baseCtx innerCtx)))"

text \<open>A registered handler, called with a context or with a request and a context.\<close>

definition wrapLegacyHandler :: "upstream \<Rightarrow> jsval \<Rightarrow> handler \<Rightarrow> jsval \<Rightarrow> jsval \<Rightarrow> jsval calls" where
  "wrapLegacyHandler w baseCtx h reqOrCtx maybeInnerCtx = (let (req, ctx) = resolveCallContext baseCtx reqOrCtx maybeInnerCtx;
       c = cloudatlas_of w (JObj (spread [ctx, JObj [(''req'', req)]]))
     in h c w (requestWithDefaults c req))"

definition registerHandlers :: "upstream \<Rightarrow> jsval \<Rightarrow> (string \<times> (jsval \<Rightarrow> jsval \<Rightarrow> jsval calls)) list" where
  "registerHandlers w ctx = map (\<lambda>(m, h). (CHR ''/'' # SERVICE_PATH @ m, wrapLegacyHandler w ctx h)) rpcdef_table"

text \<open>The handlers of the service, by full name without the slash; they are given a context only.\<close>

definition cloudatlas_handlers :: "upstream \<Rightarrow> (string \<times> (jsval \<Rightarrow> jsval calls)) list" where
  "cloudatlas_handlers w = map (\<lambda>(path, f). (tl path, \<lambda>ctx. f ctx JUndef)) (registerHandlers w (JObj []))"

section \<open>What is sent\<close>

text \<open>A request of an instance: to its API, with its token, within a positive time.\<close>

definition authorised :: "cloudatlas \<Rightarrow> http_request \<Rightarrow> bool" where
  "authorised c rq \<longleftrightarrow> ca_token c \<noteq> [] \<and> map_of (hr_headers rq) ''TOKEN'' = Some (JStr (ca_token c)) \<and>
     (case normalizeBaseUrl (ca_baseUrl c) of Some base \<Rightarrow> starts_with (hr_url rq) (base @ ''/openapi/v1/'') | None \<Rightarrow> False) \<and>
     num_lt (Fin 0) (hr_timeoutMs rq) \<and> is_finite_num (hr_timeoutMs rq)"

definition unusable :: "cloudatlas \<Rightarrow> bool" where
  "unusable c \<longleftrightarrow> ca_token c = [] \<or> normalizeBaseUrl (ca_baseUrl c) = None"

lemma timeout_positive: "num_lt (Fin 0) (timeout_of v) \<and> is_finite_num (timeout_of v)"
  by (simp add: timeout_of_def DEFAULT_TIMEOUT_MS_def split: jsnum.split)

lemma token_header: "map_of (buildHeaders c token) ''TOKEN'' = Some (JStr token)"
  by (simp add: buildHeaders_def map_of_from_entries)

lemma fetch_sends: "P rq \<Longrightarrow> all_sent P (fetchCloudAtlas w rq)"
  by (simp add: fetchCloudAtlas_def all_sent_intros)

lemma instance_cases:
  "(\<And>base. ca_token c \<noteq> [] \<Longrightarrow> normalizeBaseUrl (ca_baseUrl c) = Some base \<Longrightarrow> all_sent (authorised c) (f (ca_token c) base)) \<Longrightarrow>
     all_sent (authorised c) (thenA (liftA (ensureTokenAndBaseUrl c)) (\<lambda>(token, base). f token base))"
  by (rule all_sent_thenA) (auto simp: all_sent_intros ensureTokenAndBaseUrl_def split: if_splits option.splits)

lemma get_authorised:
  "ca_token c \<noteq> [] \<Longrightarrow> normalizeBaseUrl (ca_baseUrl c) = Some base \<Longrightarrow> starts_with url (base @ ''/openapi/v1/'') \<Longrightarrow>
     all_sent (authorised c) (callGet c w (ca_token c) url)"
  unfolding callGet_def
  by (intro all_sent_thenA fetch_sends all_sent_intros) (simp add: authorised_def request_of_def token_header timeout_positive)

lemma body_authorised:
  "ca_token c \<noteq> [] \<Longrightarrow> normalizeBaseUrl (ca_baseUrl c) = Some base \<Longrightarrow> starts_with url (base @ ''/openapi/v1/'') \<Longrightarrow>
     all_sent (authorised c) (call_with_body verb c w (ca_token c) url body)"
  unfolding call_with_body_def
  by (intro all_sent_thenA fetch_sends all_sent_intros) (simp add: authorised_def request_of_def token_header timeout_positive)

lemma api_prefix [simp]: "starts_with (api base path @ q) (base @ ''/openapi/v1/'')" "starts_with (api base path) (base @ ''/openapi/v1/'')"
  by (simp_all add: api_def)

lemmas authorised_intros = instance_cases all_sent_thenA get_authorised body_authorised all_sent_intros all_sent_catchA

lemma shapes_authorised:
  "all_sent (authorised c) (list_call path qs c w req)" "all_sent (authorised c) (batch_create path c w req)"
  "all_sent (authorised c) (detail_or_list detail path qs c w req)" "all_sent (authorised c) (options_or_list path qs c w req)"
  unfolding list_call_def batch_create_def detail_or_list_def options_or_list_def callPost_def
  by (auto intro!: authorised_intros simp: prod.case_eq_if)

lemma single_authorised:
  "all_sent (authorised c) (callBatchDeleteEnterpriseSubjects c w req)" "all_sent (authorised c) (callBatchUpdateSeeds c w req)"
  "all_sent (authorised c) (callBatchUpdateAssetStatus c w req)" "all_sent (authorised c) (callBatchDeleteAssets c w req)"
  "all_sent (authorised c) (callBatchUpdateVulnStatus c w req)" "all_sent (authorised c) (callGetHighRiskAppFingers c w req)"
  "all_sent (authorised c) (callListKBVulns c w req)" "all_sent (authorised c) (callCreateTaskSchedule c w req)"
  "all_sent (authorised c) (callCreateTaskInstance c w req)"
  unfolding callBatchDeleteEnterpriseSubjects_def callBatchUpdateSeeds_def callBatchUpdateAssetStatus_def callBatchDeleteAssets_def
    callBatchUpdateVulnStatus_def callGetHighRiskAppFingers_def callListKBVulns_def callCreateTaskSchedule_def callCreateTaskInstance_def
    callPost_def callDeleteWithBody_def Let_def
  by (auto intro!: authorised_intros split: option.split)

lemmas listing_defs = callListEnterpriseSubjects_def callListKeywords_def callListSeedDomains_def callListSeedCerts_def
  callListSeedIcons_def callListSeedWebTitles_def callListRootDomains_def callListSubdomains_def callListDNS_def callListIPs_def
  callListAssetCerts_def callListPorts_def callListOpenPorts_def callListWebEntities_def callListWebPaths_def
  callListWebFingerprints_def callListCrawlerData_def callListVulnerabilities_def callListHighRiskApps_def
  callListHighRiskServices_def callListVendors_def callListVulnSubjects_def callListGithubLeaks_def callListDiskLeaks_def
  callListDocLeaks_def callListDarknetIntel_def callListStolenData_def callListEmailLeaks_def callListMobileApps_def
  callListSocialMedia_def callListProducts_def callListMonitoringRules_def callListTaskSchedules_def callListTaskInstances_def
  callListSpaces_def callListTags_def callListBusinessUnits_def callBatchCreateEnterpriseSubjects_def
  callBatchCreateKeywords_def callBatchCreateSeedDomains_def callBatchCreateRootDomains_def callBatchCreateIPs_def
  callBatchCreateMonitoringRules_def

lemmas single_defs = callBatchDeleteEnterpriseSubjects_def callBatchUpdateSeeds_def callBatchUpdateAssetStatus_def
  callBatchDeleteAssets_def callBatchUpdateVulnStatus_def callGetHighRiskAppFingers_def callListKBVulns_def
  callCreateTaskSchedule_def callCreateTaskInstance_def

text \<open>The shapes the methods have.\<close>

definition shaped :: "handler \<Rightarrow> bool" where
  "shaped h \<longleftrightarrow> (\<exists>path qs. h = list_call path qs) \<or> (\<exists>path. h = batch_create path) \<or> (\<exists>detail path qs. h = detail_or_list detail path qs) \<or>
    (\<exists>path qs. h = options_or_list path qs) \<or> h \<in> {callBatchDeleteEnterpriseSubjects, callBatchUpdateSeeds,
      callBatchUpdateAssetStatus, callBatchDeleteAssets, callBatchUpdateVulnStatus, callGetHighRiskAppFingers, callListKBVulns,
      callCreateTaskSchedule, callCreateTaskInstance}"

lemma shaped_intros:
  "shaped (list_call path qs)" "shaped (batch_create path)" "shaped (detail_or_list detail path qs)" "shaped (options_or_list path qs)"
  "shaped callBatchDeleteEnterpriseSubjects" "shaped callBatchUpdateSeeds" "shaped callBatchUpdateAssetStatus"
  "shaped callBatchDeleteAssets" "shaped callBatchUpdateVulnStatus" "shaped callGetHighRiskAppFingers" "shaped callListKBVulns"
  "shaped callCreateTaskSchedule" "shaped callCreateTaskInstance"
  unfolding shaped_def by blast+

lemma table_handlers: "(m, h) \<in> set rpcdef_table \<Longrightarrow> shaped h"
proof -
  have "list_all shaped (map snd rpcdef_table)"
    by (simp add: rpcdef_table_def listing_defs shaped_intros)
  then show "(m, h) \<in> set rpcdef_table \<Longrightarrow> shaped h" by (auto simp: list_all_iff)
qed

text \<open>Without a token or an address of the API every method refuses.\<close>

definition refusal :: "cloudatlas \<Rightarrow> string" where
  "refusal c = (if ca_token c = [] then ''token is required'' else ''baseUrl is required (http/https)'')"

lemma refused: "unusable c \<Longrightarrow> thenA (liftA (ensureTokenAndBaseUrl c)) f = ([], Inl (Failure ''INVALID_ARGUMENT'' (refusal c)))"
  by (auto simp: unusable_def ensureTokenAndBaseUrl_def refusal_def)

text \<open>C23: Every request that the connector sends is the instance's own. Whichever of its methods is called and
whatever the request says, all that is sent goes below the API of the configured address, with the
configured token in its header, over any header of that name in the configuration, and with a positive
timeout; and without a token or an http address each method refuses and sends nothing.\<close>

theorem cloudatlas_requests_authorised:
  assumes "(m, h) \<in> set rpcdef_table"
  shows "all_sent (authorised c) (h c w req) \<and>
    (unusable c \<longrightarrow> h c w req = ([], Inl (Failure ''INVALID_ARGUMENT'' (refusal c))))"
  using table_handlers [OF assms] unfolding shaped_def
  by (auto simp: shapes_authorised single_authorised)
    (simp_all add: list_call_def batch_create_def detail_or_list_def options_or_list_def single_defs refused)

definition sample_instance :: cloudatlas where
  "sample_instance = \<lparr>ca_baseUrl = JStr ''https://atlas/'', ca_space = JUndef, ca_timeoutMs = JStr ''-5'',
     ca_headers = [(''TOKEN'', JStr ''other'')], ca_meta = JObj [], ca_skipTls = False, ca_token = ''secret''\<rparr>"

definition sample_upstream :: upstream where
  "sample_upstream = \<lparr>up_fetch = (\<lambda>_. Inl ([], [])), up_parse = (\<lambda>_. Inl []), up_stringify = (\<lambda>_. Inr ''{}'')\<rparr>"

theorem cloudatlas_requests_authorised_witness:
  "all_sent (authorised sample_instance) (callListBusinessUnits sample_instance sample_upstream (JObj [])) \<and>
   callListBusinessUnits (sample_instance\<lparr>ca_token := []\<rparr>) sample_upstream (JObj []) = ([], Inl (Failure ''INVALID_ARGUMENT'' ''token is required''))"
proof -
  have member: "(''ListBusinessUnits'', callListBusinessUnits) \<in> set rpcdef_table" by (simp add: rpcdef_table_def)
  have "unusable (sample_instance\<lparr>ca_token := []\<rparr>)" by (simp add: unusable_def)
  then show ?thesis
    using cloudatlas_requests_authorised [OF member] by (simp add: refusal_def)
qed

section \<open>Queries\<close>

text \<open>A query string says exactly the parameters. Whatever their names and values, it is empty when no
parameter has a value, and else splits at its separators into as many parts as there are parameters with a
value, each of which splits at the equals sign into a name and a value that decode to what was given.\<close>

lemma query_roundtrip:
  assumes "filter (\<lambda>(k, v). \<not> nullish v \<and> v \<noteq> JStr []) params = kept"
  shows "if kept = [] then buildQuery params = [] else hd (buildQuery params) = CHR ''?'' \<and>
    map (\<lambda>part. map decodeURIComponent (split_on CHR ''='' part)) (split_on CHR ''&'' (tl (buildQuery params))) =
      map (\<lambda>(k, v). [Some k, Some (to_str v)]) kept"
proof (cases "kept = []")
  case True
  then show ?thesis using assms by (simp add: buildQuery_def)
next
  case False
  define enc where "enc = (\<lambda>(k, v). encodeURIComponent k @ ''='' @ encodeURIComponent (to_str v))"
  have q: "buildQuery params = ''?'' @ join ''&'' (map enc kept)"
    using False assms by (simp add: buildQuery_def enc_def)
  have "CHR ''&'' \<notin> set (enc kv)" for kv
    by (cases kv) (auto simp: enc_def not_encoded)
  then have parts: "split_on CHR ''&'' (join ''&'' (map enc kept)) = map enc kept"
    by (intro split_on_join) (use False in auto)
  have "map decodeURIComponent (split_on CHR ''='' (enc kv)) = (case kv of (k, v) \<Rightarrow> [Some k, Some (to_str v)])" for kv
    by (cases kv) (simp add: enc_def split_on_append split_on_no_sep not_encoded decode_encode)
  with False show ?thesis unfolding q by (simp add: parts comp_def)
qed

lemma query_roundtrip_example:
  "map (\<lambda>part. map decodeURIComponent (split_on CHR ''='' part))
     (split_on CHR ''&'' (tl (buildQuery [(''name'', JStr ''a&b=c''), (''page'', JUndef), (''size'', JNum (Fin 20))]))) =
     [[Some ''name'', Some ''a&b=c''], [Some ''size'', Some ''20'']]"
proof -
  have "num_str (Fin 20) = ''20''" by code_simp
  then show ?thesis
    using query_roundtrip [OF refl, of "[(''name'', JStr ''a&b=c''), (''page'', JUndef), (''size'', JNum (Fin 20))]"]
    by (simp add: nullish_def)
qed

section \<open>Requests as the SDK decodes them\<close>

text \<open>
  The view of a decoded request answers to the names of its proto file, but its own keys are those of the
  message; the copy that \<open>requestWithDefaults\<close> makes has only these.
\<close>

lemma declared_name_lost:
  assumes "k \<notin> fst ` set m" and "k \<noteq> ''space''"
  shows "pget (requestWithDefaults c (JObj m)) k = JUndef"
proof -
  have "map_of (rev (filter (\<lambda>(j, v). j \<noteq> ''token'' \<and> j \<noteq> ''Token'') m)) k = None"
    using assms(1) by (auto simp: map_of_eq_None_iff)
  with assms(2) show ?thesis
    by (auto simp: requestWithDefaults_def Let_def entries_of_def map_of_from_entries map_add_def split: option.split)
qed

lemma update_needs_own_name:
  assumes "''resource_type'' \<notin> fst ` set m" and "\<not> unusable c"
  shows "callBatchUpdateSeeds c w (requestWithDefaults c (JObj m)) = ([], Inl (Failure ''INVALID_ARGUMENT'' ''resource_type is required''))"
    "callBatchUpdateAssetStatus c w (requestWithDefaults c (JObj m)) = ([], Inl (Failure ''INVALID_ARGUMENT'' ''resource_type is required''))"
    "callBatchDeleteAssets c w (requestWithDefaults c (JObj m)) = ([], Inl (Failure ''INVALID_ARGUMENT'' ''resource_type is required''))"
proof -
  have "unwrapString (pget (requestWithDefaults c (JObj m)) ''resource_type'') = []"
    using declared_name_lost [OF assms(1)] by (simp add: unwrapString_def nullish_def)
  then show "callBatchUpdateSeeds c w (requestWithDefaults c (JObj m)) = ([], Inl (Failure ''INVALID_ARGUMENT'' ''resource_type is required''))"
    "callBatchUpdateAssetStatus c w (requestWithDefaults c (JObj m)) = ([], Inl (Failure ''INVALID_ARGUMENT'' ''resource_type is required''))"
    "callBatchDeleteAssets c w (requestWithDefaults c (JObj m)) = ([], Inl (Failure ''INVALID_ARGUMENT'' ''resource_type is required''))"
    using assms(2) by (auto simp: unusable_def ensureTokenAndBaseUrl_def checked_resource_def Let_def
      callBatchUpdateSeeds_def callBatchUpdateAssetStatus_def callBatchDeleteAssets_def)
qed

text \<open>An unset number of a request is 0 there: then the list is never asked for, and neither is the default space.\<close>

lemma unset_pk_is_an_item:
  assumes "pget req ''pk'' = JNum (Fin 0)" and "normalizeBaseUrl (ca_baseUrl c) = Some base" and "ca_token c \<noteq> []"
  shows "map hr_url (fst (callListSpaces c w req)) = [base @ ''/openapi/v1/space/space/0'']"
proof -
  have "checked_pk (raw_pk req) = Inr ''0''"
  proof -
    have "num_str (Fin 0) = ''0''" by code_simp
    then show ?thesis using assms(1) by (simp add: checked_pk_def raw_pk_def nullish_def to_num_def is_integer_num_def)
  qed
  moreover have "\<not> nullish (raw_pk req)" using assms(1) by (simp add: raw_pk_def nullish_def)
  ultimately show ?thesis using assms(2,3)
    by (auto simp: callListSpaces_def detail_or_list_def ensureTokenAndBaseUrl_def callGet_def fetchCloudAtlas_def request_of_def
        api_def fst_thenA split: sum.split)
qed

lemma unset_space_hides_default:
  "pget req ''space'' = JNum (Fin 0) \<Longrightarrow> space_of c req = [(''space'', JNum (Fin 0))]"
  by (simp add: space_of_def nullish_def coalesce_def to_num_def)

end
