(* ===== verification/Hermes.thy ===== *)
theory Hermes
  imports Connector
begin

text \<open>
  The Hermes gateway connector (src/services/hermes__gateway/src): two methods over HTTP
  (hermes-client.js) and thirty that run the Hermes command, here or over ssh (hermes-cli.js), with the
  errors and the table of service.js. Contexts, requests and results are JavaScript values. What a call
  does to the world is a run of at most one effect: a process or a request.
\<close>

section \<open>Effects and errors\<close>

record spawned =
  sp_command :: string
  sp_args :: "string list"
  sp_env :: "(string \<times> jsval) list"
  sp_stdin :: string
  sp_timeout :: rat

datatype effect = Spawned spawned | Requested http_request

text \<open>A \<open>HermesClientError\<close> has a code, a message and details; any other error is the text reported of it.\<close>

datatype hermes_error = HermesClientError string string jsval | Thrown string

abbreviation hermes_fail :: "string \<Rightarrow> string \<Rightarrow> hermes_error" where
  "hermes_fail code message \<equiv> HermesClientError code message (JObj [])"

type_synonym hermes_run = "(effect, hermes_error, jsval) run"

text \<open>
  The world: a child process gives its output in chunks and then closes with a code, or with none when a
  signal ended it, or fails to start, or does not end before its time is over; \<open>spawn\<close> itself throws on
  arguments it cannot pass on. A fetch fails with the name and the message of its error.
\<close>

datatype child_end = Closed "int option" | ChildError string | StillRunning

record child =
  ch_stdout :: "string list"
  ch_stderr :: "string list"
  ch_end :: child_end

record hermes_url =
  hu_protocol :: string
  hu_before_path :: string \<comment> \<open>scheme, credentials, host and port\<close>
  hu_pathname :: string

record answer =
  an_status :: nat
  an_statusText :: string
  an_headers :: "(string \<times> string) list"
  an_text :: "(string \<times> string) + string" \<comment> \<open>reading the body may fail\<close>

record hermes_world =
  hw_environ :: "(string \<times> jsval) list"
  hw_spawn :: "spawned \<Rightarrow> string + child"
  hw_fetch :: "http_request \<Rightarrow> (string \<times> string) + answer"
  hw_url :: "string \<Rightarrow> hermes_url option"
  hw_parse :: "string \<Rightarrow> string + jsval"
  hw_stringify :: "jsval \<Rightarrow> string"
  hw_pretty :: "jsval \<Rightarrow> string"
  hw_hmac :: "string \<Rightarrow> string \<Rightarrow> string"

section \<open>Limits and texts\<close>

definition clamp_num :: "rat \<Rightarrow> rat \<Rightarrow> rat \<Rightarrow> jsnum \<Rightarrow> rat" where
  "clamp_num lo hi fallback n = (case n of Fin r \<Rightarrow> if r \<le> 0 then fallback else max lo (min r hi) | _ \<Rightarrow> fallback)"

definition DEFAULT_MAX_OUTPUT_BYTES :: rat where
  "DEFAULT_MAX_OUTPUT_BYTES = 1048576"

definition maxOutputBytes :: "jsval \<Rightarrow> rat" where
  "maxOutputBytes config = clamp_num 4096 5242880 DEFAULT_MAX_OUTPUT_BYTES
     (to_num (or_js (pget config ''maxOutputBytes'') (JNum (Fin DEFAULT_MAX_OUTPUT_BYTES))))"

text \<open>\<open>timeoutMs(config, requested)\<close> over the configured value; the default is 10 seconds.\<close>

definition timeoutMs :: "jsval \<Rightarrow> jsval \<Rightarrow> rat" where
  "timeoutMs configured requested = clamp_num 1000 120000 10000
     (to_num (or_js requested (or_js configured (JNum (Fin 10000)))))"

text \<open>The length is counted in bytes of UTF-8, the cut made in characters.\<close>

definition utf8_length :: "string \<Rightarrow> nat" where
  "utf8_length s = length (concat (map utf8_of s))"

definition truncateOutput :: "string \<Rightarrow> rat \<Rightarrow> string" where
  "truncateOutput s limit = (if of_nat (utf8_length s) \<le> limit then s
     else take (nat (trunc_rat limit)) s @ ''\<newline>... truncated ...'')"

definition collect_output :: "rat \<Rightarrow> string list \<Rightarrow> string" where
  "collect_output limit chunks = foldl (\<lambda>acc chunk. truncateOutput (acc @ chunk) limit) [] chunks"

text \<open>\<open>s.replaceAll(p, r)\<close> for a text \<open>p\<close> that is not empty.\<close>

function replace_text :: "string \<Rightarrow> string \<Rightarrow> string \<Rightarrow> string" where
  "replace_text p r s = (if p = [] \<or> s = [] then s
     else if prefix p s then r @ replace_text p r (drop (length p) s)
     else hd s # replace_text p r (tl s))"
  by pat_completeness auto
termination by (relation "measure (\<lambda>(p, r, s). length s)") auto

declare replace_text.simps [simp del]

definition redactText :: "string \<Rightarrow> string list \<Rightarrow> string" where
  "redactText s redactions = foldl (\<lambda>acc secret. if secret = [] then acc else replace_text secret ''******'' acc) s redactions"

section \<open>Arguments\<close>

definition class_upto :: "string \<Rightarrow> nat \<Rightarrow> string \<Rightarrow> bool" where
  "class_upto extra n s \<longleftrightarrow> 1 \<le> length s \<and> length s \<le> n \<and> list_all (\<lambda>c. is_alnum c \<or> c \<in> set extra) s"

definition trimmed :: "jsval \<Rightarrow> string" where
  "trimmed v = trim (str_or_empty v)"

definition validatePlainToken :: "jsval \<Rightarrow> string \<Rightarrow> (string \<Rightarrow> bool) \<Rightarrow> hermes_error + string" where
  "validatePlainToken v what ok = (let raw = trimmed v in
     if raw = [] \<or> \<not> ok raw then Inl (hermes_fail ''INVALID_ARGUMENT'' (what @ '' contains unsupported characters'')) else Inr raw)"

definition validateOptionalPlainToken :: "jsval \<Rightarrow> string \<Rightarrow> (string \<Rightarrow> bool) \<Rightarrow> hermes_error + string" where
  "validateOptionalPlainToken v what ok = (let raw = trimmed v in
     if raw = [] then Inr [] else validatePlainToken (JStr raw) what ok)"

definition validateName :: "string \<Rightarrow> jsval \<Rightarrow> hermes_error + string" where
  "validateName what v = validatePlainToken v what (class_upto ''_.:@/-'' 128)"

definition validatePlatform :: "jsval \<Rightarrow> hermes_error + string" where
  "validatePlatform v = bindE (validateOptionalPlainToken (or_js v (JStr ''cli'')) ''platform'' (class_upto ''_.-'' 64))
     (\<lambda>p. Inr (if p = [] then ''cli'' else p))"

definition validateCommaList :: "string \<Rightarrow> jsval \<Rightarrow> hermes_error + string" where
  "validateCommaList what v = validateOptionalPlainToken v what (class_upto ''_.:@,/-'' 512)"

definition validateDeliver :: "jsval \<Rightarrow> hermes_error + string" where
  "validateDeliver v = validateOptionalPlainToken v ''deliver'' (class_upto ''_.:@#=+/-'' 256)"

definition validateJsonString :: "hermes_world \<Rightarrow> jsval \<Rightarrow> string \<Rightarrow> hermes_error + string" where
  "validateJsonString w v what = (let raw = trimmed v in
     if raw = [] then Inr []
     else (case hw_parse w raw of
         Inl e \<Rightarrow> Inl (hermes_fail ''INVALID_ARGUMENT'' (what @ '' must be valid JSON: '' @ e))
       | Inr _ \<Rightarrow> Inr raw))"

definition quoted :: "string \<Rightarrow> string" where
  "quoted s = CHR 0x27 # s @ [CHR 0x27]"

definition validateWorkdir :: "jsval \<Rightarrow> hermes_error + string" where
  "validateWorkdir v = (let raw = trimmed v in
     if raw = [] then Inr []
     else if \<not> starts_with raw ''/'' \<or> includes_str raw ''..'' \<or> 512 < length raw
     then Inl (hermes_fail ''INVALID_ARGUMENT'' (''workdir must be an absolute path without '' @ quoted ''..'')) else Inr raw)"

text \<open>
  \<open>secrets[name]\<close> as a text, empty when there is none: an own property, or what every object inherits,
  the text of a built-in function.
\<close>

definition inherited_text :: "string \<Rightarrow> string" where
  "inherited_text name = (if name = ''__proto__'' then ''[object Object]''
     else if name \<in> set object_prototype_names
     then ''function '' @ (if name = ''constructor'' then ''Object'' else name) @ ''() { [native code] }'' else [])"

definition named_secret :: "jsval \<Rightarrow> string \<Rightarrow> string" where
  "named_secret secret name = (case or_js (pget secret ''webhookHmacSecrets'') (JObj []) of
     JObj kvs \<Rightarrow> (case map_of kvs name of Some v \<Rightarrow> str_or_empty v | None \<Rightarrow> inherited_text name)
   | JArr vs \<Rightarrow> str_or_empty (case map_of (entries_of (JArr vs)) name of Some v \<Rightarrow> v | None \<Rightarrow> JUndef)
   | _ \<Rightarrow> [])"

definition secret_or_fail :: "jsval \<Rightarrow> string \<Rightarrow> hermes_error + string" where
  "secret_or_fail secret name = (let s = named_secret secret name in
     if s = [] then Inl (hermes_fail ''FAILED_PRECONDITION'' (''webhook HMAC secret '' @ quoted name @ '' is not configured'')) else Inr s)"

definition resolveNamedSecret :: "jsval \<Rightarrow> jsval \<Rightarrow> string \<Rightarrow> hermes_error + string" where
  "resolveNamedSecret secret v what = (let secretName = trimmed v in
     if secretName = [] then Inr []
     else if \<not> class_upto ''_.:-'' 128 secretName then Inl (hermes_fail ''INVALID_ARGUMENT'' (what @ '' contains unsupported characters''))
     else secret_or_fail secret secretName)"

section \<open>Running the command\<close>

definition cliMode :: "jsval \<Rightarrow> string" where
  "cliMode config = trim (to_str (or_js (pget config ''cliMode'') (JStr ''disabled'')))"

definition validateCliMode :: "jsval \<Rightarrow> hermes_error + string" where
  "validateCliMode config = (let mode = cliMode config in
     if mode \<notin> set [''disabled'', ''local'', ''ssh''] then Inl (hermes_fail ''INVALID_ARGUMENT'' ''config.cliMode must be disabled, local, or ssh'')
     else if mode = ''disabled'' then Inl (hermes_fail ''FAILED_PRECONDITION'' ''Hermes CLI methods require config.cliMode to be local or ssh'')
     else Inr mode)"

definition shellQuote :: "string \<Rightarrow> string" where
  "shellQuote arg = quoted (replace_char CHR 0x27 [CHR 0x27, CHR 0x5C, CHR 0x27, CHR 0x27] arg)"

definition cliBinary :: "jsval \<Rightarrow> string" where
  "cliBinary config = to_str (or_js (pget config ''cliBinary'') (JStr ''hermes''))"

definition quoted_line :: "string list \<Rightarrow> string" where
  "quoted_line words = join '' '' (map shellQuote words)"

definition commandForEvidence :: "string \<Rightarrow> jsval \<Rightarrow> string list \<Rightarrow> string" where
  "commandForEvidence mode config args = (if mode = ''ssh''
     then ''ssh '' @ str_or_empty (pget config ''sshTarget'') @ '' '' @ quoted_line (cliBinary config # args)
     else quoted_line (cliBinary config # args))"

definition spawnSpec :: "string \<Rightarrow> jsval \<Rightarrow> string list \<Rightarrow> hermes_error + string \<times> string list" where
  "spawnSpec mode config args = (if mode = ''ssh''
     then let target = trimmed (pget config ''sshTarget'') in
       if target = [] then Inl (hermes_fail ''INVALID_ARGUMENT'' ''config.sshTarget is required when cliMode is ssh'')
       else Inr (''ssh'', strings_of (pget config ''sshOptions'') @ [target, quoted_line (cliBinary config # args)])
     else Inr (cliBinary config, args))"

definition or_text :: "string \<Rightarrow> string \<Rightarrow> string" where
  "or_text a b = (if a = [] then b else a)"

definition cli_evidence :: "string \<Rightarrow> string \<Rightarrow> int \<Rightarrow> string \<Rightarrow> string \<Rightarrow> string" where
  "cli_evidence command stdin exitCode stdout stderr = join ''\<newline>''
     [''# Command'', command, [], ''# Stdin'', if stdin = [] then ''<empty>'' else ''<provided via stdin>'', [],
      ''# Response'', ''exit_code='' @ int_str exitCode, [], ''## Stdout'', or_text stdout ''<empty>'', [],
      ''## Stderr'', or_text stderr ''<empty>'']"

record cli_options =
  co_timeoutMs :: jsval
  co_stdin :: string
  co_redactValues :: "string list"

definition plain_options :: cli_options where
  "plain_options = \<lparr>co_timeoutMs = JUndef, co_stdin = [], co_redactValues = []\<rparr>"

definition options_for :: "jsval \<Rightarrow> cli_options" where
  "options_for v = plain_options\<lparr>co_timeoutMs := v\<rparr>"

definition part_of :: "jsval \<Rightarrow> string \<Rightarrow> jsval" where
  "part_of ctx k = or_js (pget ctx k) (JObj [])"

text \<open>What is made of a child that closed: an exit code of none counts as 0.\<close>

definition cli_result :: "string \<Rightarrow> cli_options \<Rightarrow> string \<Rightarrow> string \<Rightarrow> int option \<Rightarrow> hermes_error + jsval" where
  "cli_result command opts stdout stderr code = (
     let exitCode = (case code of Some n \<Rightarrow> n | None \<Rightarrow> 0);
         red = (\<lambda>s. redactText s (co_redactValues opts));
         result = JObj [(''ok'', JBool (exitCode = 0)), (''exitCode'', JInt exitCode), (''command'', JStr (red command)),
           (''stdout'', JStr (red stdout)), (''stderr'', JStr (red stderr)),
           (''evidence'', JStr (cli_evidence (red command) (co_stdin opts) exitCode (red stdout) (red stderr)))]
     in if exitCode \<noteq> 0
        then Inl (HermesClientError ''FAILED_PRECONDITION'' (or_text stderr (or_text stdout ''Hermes CLI command failed'')) result)
        else Inr result)"

definition spawned_for :: "hermes_world \<Rightarrow> jsval \<Rightarrow> cli_options \<Rightarrow> string \<times> string list \<Rightarrow> spawned" where
  "spawned_for w ctx opts spec = \<lparr>sp_command = fst spec, sp_args = snd spec,
     sp_env = from_entries (hw_environ w @ entries_of (or_js (pget (part_of ctx ''config'') ''env'') (JObj []))),
     sp_stdin = co_stdin opts,
     sp_timeout = timeoutMs (JNum (Fin 30000)) (or_js (co_timeoutMs opts) (pget (pget ctx ''request'') ''timeoutMs''))\<rparr>"

definition await_child :: "jsval \<Rightarrow> string \<Rightarrow> cli_options \<Rightarrow> child \<Rightarrow> hermes_error + jsval" where
  "await_child config command opts ch = (case ch_end ch of
     Closed code \<Rightarrow> cli_result command opts (collect_output (maxOutputBytes config) (ch_stdout ch))
       (collect_output (maxOutputBytes config) (ch_stderr ch)) code
   | ChildError message \<Rightarrow> Inl (hermes_fail ''UNAVAILABLE'' (or_text message ''Hermes CLI command failed to start''))
   | StillRunning \<Rightarrow> Inl (hermes_fail ''DEADLINE_EXCEEDED'' ''Hermes CLI command timed out''))"

definition runHermesCli :: "hermes_world \<Rightarrow> jsval \<Rightarrow> string list \<Rightarrow> cli_options \<Rightarrow> hermes_run" where
  "runHermesCli w ctx args opts = (let config = part_of ctx ''config'' in
     thenA (liftA (bindE (validateCliMode config) (\<lambda>mode.
         bindE (spawnSpec mode config args) (\<lambda>spec. Inr (mode, spec))))) (\<lambda>(mode, spec).
     let sp = spawned_for w ctx opts spec in
       ([Spawned sp], case hw_spawn w sp of Inl e \<Rightarrow> Inl (Thrown e)
          | Inr ch \<Rightarrow> await_child config (commandForEvidence mode config args) opts ch)))"

section \<open>The commands\<close>

type_synonym hermes_handler = "hermes_world \<Rightarrow> jsval \<Rightarrow> hermes_run"

definition req :: "jsval \<Rightarrow> string \<Rightarrow> jsval" where
  "req ctx k = pget (part_of ctx ''request'') k"

definition request_options :: "jsval \<Rightarrow> cli_options" where
  "request_options ctx = options_for (req ctx ''timeoutMs'')"

definition slow_options :: "jsval \<Rightarrow> cli_options" where
  "slow_options ctx = options_for (or_js (req ctx ''timeoutMs'') (JInt 120000))"

text \<open>The arguments of a command are built in parts, any of which may throw.\<close>

type_synonym arg_part = "hermes_error + string list"

definition with_args :: "hermes_world \<Rightarrow> jsval \<Rightarrow> arg_part list \<Rightarrow> cli_options \<Rightarrow> hermes_run" where
  "with_args w ctx parts opts = thenA (liftA (mapE (\<lambda>p. p) parts)) (\<lambda>ps. runHermesCli w ctx (concat ps) opts)"

definition words :: "string list \<Rightarrow> arg_part" where
  "words ws = Inr ws"

definition one_word :: "hermes_error + string \<Rightarrow> arg_part" where
  "one_word r = bindE r (\<lambda>s. Inr [s])"

definition flag :: "string \<Rightarrow> jsval \<Rightarrow> arg_part" where
  "flag name v = Inr (if truthy v then [name] else [])"

definition sliced :: "string \<Rightarrow> nat \<Rightarrow> jsval \<Rightarrow> arg_part" where
  "sliced name n v = Inr (if truthy v then [name, take n (to_str v)] else [])"

definition checked :: "string \<Rightarrow> (jsval \<Rightarrow> hermes_error + string) \<Rightarrow> jsval \<Rightarrow> arg_part" where
  "checked name check v = (if truthy v then bindE (check v) (\<lambda>s. Inr [name, s]) else Inr [])"

definition int_between :: "int \<Rightarrow> int \<Rightarrow> string \<Rightarrow> jsval \<Rightarrow> hermes_error + string" where
  "int_between lo hi message v = (let n = to_num v in
     if \<not> is_integer_num n \<or> num_lt n (Fin (of_int lo)) \<or> num_lt (Fin (of_int hi)) n
     then Inl (hermes_fail ''INVALID_ARGUMENT'' message) else Inr (num_str n))"

definition one_of :: "string list \<Rightarrow> string \<Rightarrow> string \<Rightarrow> hermes_error + string" where
  "one_of allowed message s = (if s \<in> set allowed then Inr s else Inl (hermes_fail ''INVALID_ARGUMENT'' message))"

definition getGatewayStatus :: hermes_handler where
  "getGatewayStatus w ctx = runHermesCli w ctx [''gateway'', ''status''] plain_options"

definition getComponentStatus :: hermes_handler where
  "getComponentStatus w ctx = runHermesCli w ctx [''status'', ''--all''] plain_options"

definition listSendTargets :: hermes_handler where
  "listSendTargets w ctx = runHermesCli w ctx [''send'', ''--list'', ''--json''] plain_options"

definition listWebhookSubscriptions :: hermes_handler where
  "listWebhookSubscriptions w ctx = runHermesCli w ctx [''webhook'', ''list''] plain_options"

definition listCronJobs :: hermes_handler where
  "listCronJobs w ctx = runHermesCli w ctx [''cron'', ''list''] plain_options"

definition listPlugins :: hermes_handler where
  "listPlugins w ctx = runHermesCli w ctx [''plugins'', ''list'', ''--plain'', ''--no-bundled''] plain_options"

definition listMcpServers :: hermes_handler where
  "listMcpServers w ctx = runHermesCli w ctx [''mcp'', ''list''] plain_options"

definition testMcpServer :: hermes_handler where
  "testMcpServer w ctx = with_args w ctx [words [''mcp'', ''test''], one_word (validateName ''name'' (req ctx ''name''))] (request_options ctx)"

definition SKILL_SOURCES :: "string list" where
  "SKILL_SOURCES = [''all'', ''hub'', ''builtin'', ''local'']"

definition listSkills :: hermes_handler where
  "listSkills w ctx = with_args w ctx [words [''skills'', ''list''],
     checked ''--source'' (\<lambda>v. one_of SKILL_SOURCES ''source must be all, hub, builtin, or local'' (trim (to_str v))) (req ctx ''source''),
     flag ''--enabled-only'' (req ctx ''enabledOnly'')] (request_options ctx)"

definition listTools :: hermes_handler where
  "listTools w ctx = with_args w ctx [words [''tools'', ''list'', ''--platform''], one_word (validatePlatform (req ctx ''platform''))]
     (request_options ctx)"

definition array_items :: "jsval \<Rightarrow> jsval list" where
  "array_items v = (case v of JArr vs \<Rightarrow> vs | _ \<Rightarrow> [])"

definition tool_names :: "jsval \<Rightarrow> hermes_error + string list" where
  "tool_names v = bindE (mapE (validateName ''names'') (array_items v)) (\<lambda>names.
     if names = [] then Inl (hermes_fail ''INVALID_ARGUMENT'' ''names must contain at least one tool name'') else Inr names)"

definition toolsMutation :: "string \<Rightarrow> hermes_handler" where
  "toolsMutation action w ctx = thenA (liftA (tool_names (req ctx ''names''))) (\<lambda>names.
     with_args w ctx [words [''tools'', action, ''--platform''], one_word (validatePlatform (req ctx ''platform'')), words names]
       (request_options ctx))"

definition enableTools :: hermes_handler where
  "enableTools = toolsMutation ''enable''"

definition disableTools :: hermes_handler where
  "disableTools = toolsMutation ''disable''"

definition getMemoryStatus :: hermes_handler where
  "getMemoryStatus w ctx = runHermesCli w ctx [''memory'', ''status''] plain_options"

definition configCheck :: hermes_handler where
  "configCheck w ctx = runHermesCli w ctx [''config'', ''check''] plain_options"

definition doctor :: hermes_handler where
  "doctor w ctx = with_args w ctx [words [''doctor''], flag ''--fix'' (req ctx ''fix''),
     checked ''--ack'' (validateName ''ack'') (req ctx ''ack'')] (slow_options ctx)"

definition securityAudit :: hermes_handler where
  "securityAudit w ctx = runHermesCli w ctx [''security'', ''audit''] (slow_options ctx)"

definition webhook_secret :: "jsval \<Rightarrow> hermes_error + string" where
  "webhook_secret ctx = bindE (resolveNamedSecret (part_of ctx ''secret'') (req ctx ''secretName'') ''secretName'') (\<lambda>s.
     Inr (if s \<noteq> [] then s else if truthy (req ctx ''secret'') then to_str (req ctx ''secret'') else []))"

definition subscribe_parts :: "jsval \<Rightarrow> arg_part list" where
  "subscribe_parts ctx = [words [''webhook'', ''subscribe''], one_word (validateName ''name'' (req ctx ''name'')),
     sliced ''--prompt'' 12000 (req ctx ''prompt''),
     checked ''--events'' (validateCommaList ''events'') (req ctx ''events''),
     sliced ''--description'' 1000 (req ctx ''description''),
     checked ''--skills'' (validateCommaList ''skills'') (req ctx ''skills''),
     checked ''--deliver'' validateDeliver (req ctx ''deliver''),
     checked ''--deliver-chat-id'' validateDeliver (req ctx ''deliverChatId'')]"

definition createWebhookSubscription :: hermes_handler where
  "createWebhookSubscription w ctx = thenA (liftA (bindE (mapE (\<lambda>p. p) (subscribe_parts ctx)) (\<lambda>ps.
       bindE (webhook_secret ctx) (\<lambda>secret. Inr (concat ps, secret))))) (\<lambda>(args, secret).
     runHermesCli w ctx (args @ (if secret \<noteq> [] then [''--secret'', take 512 secret] else []) @
         (if truthy (req ctx ''deliverOnly'') then [''--deliver-only''] else []))
       ((request_options ctx)\<lparr>co_redactValues := [secret]\<rparr>))"

definition testWebhookSubscription :: hermes_handler where
  "testWebhookSubscription w ctx = with_args w ctx [words [''webhook'', ''test''], one_word (validateName ''name'' (req ctx ''name'')),
     bindE (validateJsonString w (req ctx ''payloadJson'') ''payloadJson'') (\<lambda>s. Inr (if s = [] then [] else [''--payload'', s]))]
     (request_options ctx)"

definition removeWebhookSubscription :: hermes_handler where
  "removeWebhookSubscription w ctx = with_args w ctx [words [''webhook'', ''remove''], one_word (validateName ''name'' (req ctx ''name''))] (request_options ctx)"

definition cron_schedule :: "jsval \<Rightarrow> hermes_error + string" where
  "cron_schedule v = (let schedule = trimmed v in
     if schedule = [] \<or> 128 < length schedule \<or> \<not> list_all (\<lambda>c. is_alnum c \<or> c \<in> set ''_ */,@.-'') schedule
     then Inl (hermes_fail ''INVALID_ARGUMENT'' ''schedule is required and contains unsupported characters'') else Inr schedule)"

definition createCronJob :: hermes_handler where
  "createCronJob w ctx = with_args w ctx ([words [''cron'', ''create''], one_word (cron_schedule (req ctx ''schedule'')),
     Inr (if truthy (req ctx ''prompt'') then [take 12000 (to_str (req ctx ''prompt''))] else []),
     sliced ''--name'' 200 (req ctx ''name''),
     checked ''--deliver'' validateDeliver (req ctx ''deliver''),
     checked ''--repeat'' (int_between 1 10000 ''repeat must be between 1 and 10000'') (req ctx ''repeat'')] @
     map (\<lambda>skill. bindE (validateName ''skills'' skill) (\<lambda>s. Inr [''--skill'', s])) (array_items (req ctx ''skills'')) @
     [checked ''--script'' (validateName ''script'') (req ctx ''script''),
      flag ''--no-agent'' (req ctx ''noAgent''),
      checked ''--workdir'' validateWorkdir (req ctx ''workdir'')]) (request_options ctx)"

definition pauseCronJob :: hermes_handler where
  "pauseCronJob w ctx = with_args w ctx [words [''cron'', ''pause''], one_word (validateName ''job_id'' (req ctx ''name''))] (request_options ctx)"

definition resumeCronJob :: hermes_handler where
  "resumeCronJob w ctx = with_args w ctx [words [''cron'', ''resume''], one_word (validateName ''job_id'' (req ctx ''name''))] (request_options ctx)"

definition runCronJob :: hermes_handler where
  "runCronJob w ctx = with_args w ctx [words [''cron'', ''run''], one_word (validateName ''job_id'' (req ctx ''name''))] (slow_options ctx)"

definition removeCronJob :: hermes_handler where
  "removeCronJob w ctx = with_args w ctx [words [''cron'', ''remove''], one_word (validateName ''job_id'' (req ctx ''name''))] (request_options ctx)"

definition enablePlugin :: hermes_handler where
  "enablePlugin w ctx = with_args w ctx [words [''plugins'', ''enable''], one_word (validateName ''name'' (req ctx ''name''))] (request_options ctx)"

definition disablePlugin :: hermes_handler where
  "disablePlugin w ctx = with_args w ctx [words [''plugins'', ''disable''], one_word (validateName ''name'' (req ctx ''name''))] (request_options ctx)"

definition listSessions :: hermes_handler where
  "listSessions w ctx = with_args w ctx [words [''sessions'', ''list''],
     checked ''--source'' validatePlatform (req ctx ''source''),
     checked ''--limit'' (int_between 1 500 ''limit must be between 1 and 500'') (req ctx ''limit'')] (request_options ctx)"

definition getSessionsStats :: hermes_handler where
  "getSessionsStats w ctx = runHermesCli w ctx [''sessions'', ''stats''] plain_options"

definition LOG_NAMES :: "string list" where
  "LOG_NAMES = [''agent'', ''errors'', ''gateway'', ''gui'', ''desktop'', ''list'']"

definition LEVELS :: "string list" where
  "LEVELS = [''DEBUG'', ''INFO'', ''WARNING'', ''ERROR'']"

definition is_since :: "string \<Rightarrow> bool" where
  "is_since s \<longleftrightarrow> 2 \<le> length s \<and> list_all is_digit (butlast s) \<and> last s \<in> set ''mhd''"

definition getLogs :: hermes_handler where
  "getLogs w ctx = with_args w ctx [words [''logs''],
     one_word (one_of LOG_NAMES ''logName must be one of agent, errors, gateway, gui, desktop, list''
       (if truthy (req ctx ''logName'') then trim (to_str (req ctx ''logName'')) else ''agent'')),
     words [''--lines''],
     one_word (int_between 1 1000 ''lines must be an integer between 1 and 1000'' (or_js (req ctx ''lines'') (JInt 50))),
     checked ''--since'' (\<lambda>v. validatePlainToken v ''since'' is_since) (req ctx ''since''),
     checked ''--level'' (\<lambda>v. one_of LEVELS ''level must be DEBUG, INFO, WARNING, or ERROR'' (to_upper (trim (to_str v)))) (req ctx ''level''),
     checked ''--component'' (\<lambda>v. validatePlainToken v ''component'' (class_upto ''_.-'' 64)) (req ctx ''component'')]
     (request_options ctx)"

definition normalizeMessageTarget :: "jsval \<Rightarrow> hermes_error + string" where
  "normalizeMessageTarget v = (let raw = trimmed v in
     if \<not> class_upto ''_+@:#=./-'' 256 raw
     then Inl (hermes_fail ''INVALID_ARGUMENT'' ''target is required and contains unsupported characters'') else Inr raw)"

definition DEFAULT_SIGNATURE :: string where
  "DEFAULT_SIGNATURE = ''From XY@Agent''"

definition signature_of :: "jsval \<Rightarrow> string" where
  "signature_of config = trim (to_str (or_js (pget config ''messageSignature'') (JStr DEFAULT_SIGNATURE)))"

definition ensureSignature :: "string \<Rightarrow> jsval \<Rightarrow> jsval \<Rightarrow> string" where
  "ensureSignature target message config = (
     let s = str_or_empty message; signature = signature_of config; trimmed_s = trim_end s;
         finalSuffix = trim (last (split_on CHR ''\<newline>'' signature))
     in if \<not> starts_with target ''dingtalk'' \<or> signature = [] then s
        else if ends_with trimmed_s signature then s
        else if finalSuffix \<noteq> [] \<and> finalSuffix \<noteq> signature \<and> ends_with trimmed_s finalSuffix
        then trim_end (take (length trimmed_s - length finalSuffix) trimmed_s) @ ''\<newline>'' @ signature
        else trimmed_s @ ''\<newline>'' @ signature)"

definition checked_message :: "jsval \<Rightarrow> hermes_error + string \<times> string" where
  "checked_message ctx = bindE (normalizeMessageTarget (req ctx ''target'')) (\<lambda>target.
     let config = part_of ctx ''config''; message = ensureSignature target (req ctx ''message'') config;
         allowedTargets = strings_of (pget config ''allowedTargets'')
     in if trim message = [] then Inl (hermes_fail ''INVALID_ARGUMENT'' ''message is required'')
        else if allowedTargets \<noteq> [] \<and> target \<notin> set allowedTargets
        then Inl (hermes_fail ''PERMISSION_DENIED'' (''target '' @ target @ '' is not in config.allowedTargets''))
        else Inr (target, message))"

definition sendMessage :: hermes_handler where
  "sendMessage w ctx = thenA (liftA (checked_message ctx)) (\<lambda>(target, message).
     with_args w ctx [words [''send'', ''--to'', target, ''--json'', ''--file'', ''-''], sliced ''--subject'' 200 (req ctx ''subject'')]
       ((request_options ctx)\<lparr>co_stdin := message\<rparr>))"

section \<open>HTTP\<close>

definition normalizeBaseUrl :: "hermes_world \<Rightarrow> jsval \<Rightarrow> hermes_error + string" where
  "normalizeBaseUrl w v = (let raw = trimmed v in
     if raw = [] then Inl (hermes_fail ''INVALID_ARGUMENT'' ''config.baseUrl is required'')
     else (case hw_url w raw of
         None \<Rightarrow> Inl (hermes_fail ''INVALID_ARGUMENT'' ''config.baseUrl must be a valid URL'')
       | Some u \<Rightarrow> if hu_protocol u \<notin> set [''http:'', ''https:'']
           then Inl (hermes_fail ''INVALID_ARGUMENT'' ''config.baseUrl must use http or https'')
           else Inr (hu_before_path u @ strip_trailing CHR ''/'' (hu_pathname u))))"

definition normalizePath :: "jsval \<Rightarrow> hermes_error + string" where
  "normalizePath v = (let raw = trimmed v in
     if \<not> starts_with raw ''/'' \<or> starts_with raw ''//'' \<or> includes_str raw ''://''
     then Inl (hermes_fail ''INVALID_ARGUMENT'' ''path must be an absolute local path such as /webhook'')
     else if includes_str raw ''..'' then Inl (hermes_fail ''INVALID_ARGUMENT'' (''path must not contain '' @ quoted ''..''))
     else Inr raw)"

definition path_matches :: "string \<Rightarrow> string \<Rightarrow> bool" where
  "path_matches path allowedPath = (if ends_with allowedPath ''*''
     then 1 < length (butlast allowedPath) \<and> starts_with path (butlast allowedPath) else allowedPath = path)"

definition assertAllowedPath :: "string \<Rightarrow> jsval list \<Rightarrow> hermes_error + unit" where
  "assertAllowedPath path allowedPaths = bindE (mapE normalizePath (filter (\<lambda>v. trimmed v \<noteq> []) allowedPaths)) (\<lambda>allowed.
     if allowed = [] then Inl (hermes_fail ''INVALID_ARGUMENT'' ''config.allowedPaths must contain at least one path'')
     else if list_ex (path_matches path) allowed then Inr ()
     else Inl (hermes_fail ''PERMISSION_DENIED'' (''path '' @ path @ '' is not in config.allowedPaths'')))"

text \<open>\<open>[...(v || [])]\<close>: an array or a text has elements, nothing else can be spread.\<close>

definition spread_list :: "jsval \<Rightarrow> hermes_error + jsval list" where
  "spread_list v = (if \<not> truthy v then Inr [] else (case v of
     JArr vs \<Rightarrow> Inr vs | JStr s \<Rightarrow> Inr (map (\<lambda>c. JStr [c]) s)
   | _ \<Rightarrow> Inl (Thrown ''Spread syntax requires ...iterable[Symbol.iterator] to be a function'')))"

definition parsePayloadJson :: "hermes_world \<Rightarrow> jsval \<Rightarrow> hermes_error + jsval" where
  "parsePayloadJson w v = (let raw = trimmed v in
     if raw = [] then Inr (JObj [])
     else (case hw_parse w raw of
         Inl e \<Rightarrow> Inl (hermes_fail ''INVALID_ARGUMENT'' (''payloadJson must be valid JSON: '' @ e))
       | Inr x \<Rightarrow> Inr x))"

definition redactHeaders :: "(string \<times> jsval) list \<Rightarrow> jsval \<Rightarrow> (string \<times> jsval) list" where
  "redactHeaders headers secret = (let authName = to_lower (str_or_empty (pget secret ''authHeaderName'')) in
     map (\<lambda>(k, v). if to_lower k \<in> set [''authorization'', authName, ''x-webhook-signature''] then (k, JStr ''******'') else (k, v)) headers)"

definition MAX_BODY_BYTES :: nat where
  "MAX_BODY_BYTES = 1048576"

definition truncateBody :: "string \<Rightarrow> string" where
  "truncateBody body = (if length body \<le> MAX_BODY_BYTES then body
     else take MAX_BODY_BYTES body @ ''\<newline>... truncated '' @ nat_str (length body - MAX_BODY_BYTES) @ '' bytes ...'')"

definition header_lines :: "(string \<times> jsval) list \<Rightarrow> string" where
  "header_lines hs = join ''\<newline>'' (map (\<lambda>(k, v). k @ '': '' @ to_str v) hs)"

definition headersObject :: "answer \<Rightarrow> (string \<times> jsval) list" where
  "headersObject a = from_entries (map (\<lambda>(k, v). (k, JStr v)) (an_headers a))"

definition http_evidence :: "string \<Rightarrow> string \<Rightarrow> (string \<times> jsval) list \<Rightarrow> string \<Rightarrow> answer \<Rightarrow> string \<Rightarrow> string" where
  "http_evidence method url requestHeaders requestBody a responseBody = join ''\<newline>''
     [''# Request'', method @ '' '' @ url, header_lines requestHeaders, [], or_text requestBody ''<empty>'', [],
      ''# Response'', trim (''HTTP/1.1 '' @ nat_str (an_status a) @ '' '' @ an_statusText a), header_lines (headersObject a), [],
      or_text responseBody ''<empty>'']"

definition final_headers :: "jsval \<Rightarrow> jsval \<Rightarrow> string \<Rightarrow> (string \<times> jsval) list \<Rightarrow> (string \<times> jsval) list" where
  "final_headers config secret requestBody headers = (
     let hs = from_entries ([(''Accept'', JStr ''application/json, text/plain, */*''),
           (''User-Agent'', JStr (to_str (or_js (pget config ''userAgent'') (JStr ''octobus-hermes-gateway/0.1.0''))))] @ headers);
         hs1 = (if requestBody = [] then hs
           else set_key hs ''Content-Type'' (or_js (pget (JObj hs) ''Content-Type'') (JStr ''application/json'')))
     in if truthy (pget secret ''authHeaderName'') \<and> truthy (pget secret ''authHeaderValue'')
        then set_key hs1 (to_str (pget secret ''authHeaderName'')) (JStr (to_str (pget secret ''authHeaderValue''))) else hs1)"

record hermes_call =
  hc_method :: string
  hc_path :: jsval
  hc_body :: jsval \<comment> \<open>undefined for none\<close>
  hc_headers :: "(string \<times> jsval) list"
  hc_timeout :: jsval

definition request_body :: "hermes_world \<Rightarrow> hermes_call \<Rightarrow> string" where
  "request_body w c = (if hc_body c = JUndef then [] else hw_stringify w (hc_body c))"

definition hermes_request :: "hermes_world \<Rightarrow> jsval \<Rightarrow> jsval \<Rightarrow> hermes_call \<Rightarrow> hermes_error + http_request" where
  "hermes_request w config secret c =
     bindE (normalizeBaseUrl w (pget config ''baseUrl'')) (\<lambda>baseUrl.
     bindE (normalizePath (hc_path c)) (\<lambda>finalPath.
     bindE (spread_list (pget config ''allowedPaths'')) (\<lambda>allowedPaths.
     bindE (assertAllowedPath finalPath (pget config ''healthPath'' # pget config ''defaultPath'' # allowedPaths)) (\<lambda>_.
       Inr \<lparr>hr_method = hc_method c, hr_url = baseUrl @ finalPath,
         hr_headers = final_headers config secret (request_body w c) (hc_headers c),
         hr_body = (if request_body w c = [] then None else Some (request_body w c)),
         hr_timeoutMs = Fin (timeoutMs (pget config ''timeoutMs'') (hc_timeout c)),
         hr_skipTls = (truthy (pget config ''skipTlsVerify'') \<and> starts_with baseUrl ''https://'')\<rparr>))))"

definition hermes_answer :: "hermes_world \<Rightarrow> jsval \<Rightarrow> http_request \<Rightarrow> string \<Rightarrow> answer \<Rightarrow> string \<Rightarrow> hermes_error + jsval" where
  "hermes_answer w secret rq requestBody a responseBody = (
     let redacted = redactHeaders (hr_headers rq) secret; st = an_status a;
         result = JObj [(''ok'', JBool (200 \<le> st \<and> st \<le> 299)), (''statusCode'', JInt (int st)), (''statusText'', JStr (an_statusText a)),
           (''requestMethod'', JStr (hr_method rq)), (''requestUrl'', JStr (hr_url rq)),
           (''requestHeadersJson'', JStr (hw_pretty w (JObj redacted))), (''requestBody'', JStr requestBody),
           (''responseHeadersJson'', JStr (hw_pretty w (JObj (headersObject a)))), (''responseBody'', JStr responseBody),
           (''evidence'', JStr (http_evidence (hr_method rq) (hr_url rq) redacted requestBody a responseBody))]
     in if st = 401 then Inl (HermesClientError ''UNAUTHENTICATED'' (or_text responseBody ''Hermes authentication failed'') result)
        else if st = 403 then Inl (HermesClientError ''PERMISSION_DENIED'' (or_text responseBody ''Hermes permission denied'') result)
        else if 500 \<le> st then Inl (HermesClientError ''UNAVAILABLE'' (or_text responseBody ''Hermes upstream error'') result)
        else Inr result)"

definition fetch_failed :: "string \<times> string \<Rightarrow> hermes_error" where
  "fetch_failed e = hermes_fail (if fst e = ''AbortError'' then ''DEADLINE_EXCEEDED'' else ''UNAVAILABLE'')
     (or_text (snd e) ''Hermes request failed'')"

definition callHermes :: "hermes_world \<Rightarrow> jsval \<Rightarrow> jsval \<Rightarrow> hermes_call \<Rightarrow> hermes_run" where
  "callHermes w config secret c = thenA (liftA (hermes_request w config secret c)) (\<lambda>rq.
     ([Requested rq], case hw_fetch w rq of Inl e \<Rightarrow> Inl (fetch_failed e)
        | Inr a \<Rightarrow> (case an_text a of Inl e \<Rightarrow> Inl (fetch_failed e)
            | Inr t \<Rightarrow> hermes_answer w secret rq (request_body w c) a (truncateBody t))))"

definition healthCheck :: hermes_handler where
  "healthCheck w ctx = (let config = part_of ctx ''config'' in callHermes w config (part_of ctx ''secret'')
     \<lparr>hc_method = ''GET'', hc_path = or_js (pget config ''healthPath'') (JStr ''/health''), hc_body = JUndef, hc_headers = [],
       hc_timeout = pget (pget ctx ''request'') ''timeoutMs''\<rparr>)"

definition resolveWebhookHmacSecret :: "jsval \<Rightarrow> jsval \<Rightarrow> hermes_error + string" where
  "resolveWebhookHmacSecret request secret = (let secretName = trimmed (pget request ''hmacSecretName'') in
     if secretName \<noteq> [] then secret_or_fail secret secretName else Inr (str_or_empty (pget request ''hmacSecret'')))"

definition webhook_headers :: "hermes_world \<Rightarrow> jsval \<Rightarrow> jsval \<Rightarrow> string \<Rightarrow> (string \<times> jsval) list" where
  "webhook_headers w request body hmacSecret = (
     let hs = entries_of (or_js (pget request ''headers'') (JObj []));
         put = (\<lambda>name key hs. if truthy (pget request key) then set_key hs name (JStr (to_str (pget request key))) else hs);
         hs1 = put ''X-Correlation-ID'' ''correlationId'' (put ''Idempotency-Key'' ''idempotencyKey'' hs)
     in if hmacSecret \<noteq> [] \<and> \<not> truthy (pget (JObj hs1) ''X-Webhook-Signature'')
        then set_key hs1 ''X-Webhook-Signature'' (JStr (hw_hmac w hmacSecret (hw_stringify w body))) else hs1)"

definition sendWebhook :: hermes_handler where
  "sendWebhook w ctx = (let request = part_of ctx ''request''; config = part_of ctx ''config''; secret = part_of ctx ''secret'' in
     thenA (liftA (bindE (parsePayloadJson w (pget request ''payloadJson'')) (\<lambda>body.
       bindE (resolveWebhookHmacSecret request secret) (\<lambda>hmacSecret. Inr (body, hmacSecret))))) (\<lambda>(body, hmacSecret).
     callHermes w config secret \<lparr>hc_method = ''POST'',
       hc_path = or_js (pget request ''path'') (or_js (pget config ''defaultPath'') (JStr ''/webhook'')), hc_body = body,
       hc_headers = webhook_headers w request body hmacSecret, hc_timeout = pget request ''timeoutMs''\<rparr>))"

section \<open>The service\<close>

definition hermes_status :: "string list" where
  "hermes_status = [''INVALID_ARGUMENT'', ''UNAUTHENTICATED'', ''PERMISSION_DENIED'', ''DEADLINE_EXCEEDED'', ''FAILED_PRECONDITION'', ''UNAVAILABLE'']"

definition mapError :: "hermes_error \<Rightarrow> failure" where
  "mapError e = (case e of
     HermesClientError code message _ \<Rightarrow> Failure (if code \<in> set hermes_status then code else ''UNKNOWN'') message
   | Thrown message \<Rightarrow> Failure ''UNKNOWN'' message)"

definition wrap :: "hermes_handler \<Rightarrow> hermes_world \<Rightarrow> jsval \<Rightarrow> (effect, failure, jsval) run" where
  "wrap h w ctx = (case h w ctx of (evs, Inl e) \<Rightarrow> (evs, Inl (mapError e)) | (evs, Inr v) \<Rightarrow> (evs, Inr v))"

text \<open>The methods of hermes.v1.HermesGateway, each wrapped in \<open>wrap\<close>.\<close>

definition hermes_handlers :: "(string \<times> hermes_handler) list" where
  "hermes_handlers = [
     (''HealthCheck'', healthCheck),
     (''SendWebhook'', sendWebhook),
     (''GetGatewayStatus'', getGatewayStatus),
     (''GetComponentStatus'', getComponentStatus),
     (''ListSendTargets'', listSendTargets),
     (''ListWebhookSubscriptions'', listWebhookSubscriptions),
     (''ListCronJobs'', listCronJobs),
     (''ListPlugins'', listPlugins),
     (''ListMcpServers'', listMcpServers),
     (''TestMcpServer'', testMcpServer),
     (''ListSkills'', listSkills),
     (''ListTools'', listTools),
     (''EnableTools'', enableTools),
     (''DisableTools'', disableTools),
     (''GetMemoryStatus'', getMemoryStatus),
     (''ConfigCheck'', configCheck),
     (''Doctor'', doctor),
     (''SecurityAudit'', securityAudit),
     (''CreateWebhookSubscription'', createWebhookSubscription),
     (''TestWebhookSubscription'', testWebhookSubscription),
     (''RemoveWebhookSubscription'', removeWebhookSubscription),
     (''CreateCronJob'', createCronJob),
     (''PauseCronJob'', pauseCronJob),
     (''ResumeCronJob'', resumeCronJob),
     (''RunCronJob'', runCronJob),
     (''RemoveCronJob'', removeCronJob),
     (''EnablePlugin'', enablePlugin),
     (''DisablePlugin'', disablePlugin),
     (''ListSessions'', listSessions),
     (''GetSessionsStats'', getSessionsStats),
     (''GetLogs'', getLogs),
     (''SendMessage'', sendMessage)]"

section \<open>What a shell makes of a line\<close>

text \<open>
  The words of a POSIX command line in which nothing is expanded and nothing is an operator: blanks
  separate, single quotes and the backslash quote. A line with any other special character outside
  quotes, or with an open quote, has no words in this sense. The first argument is the word so far, the
  second says whether a quote is open.
\<close>

definition plain_in_shell :: "char \<Rightarrow> bool" where
  "plain_in_shell c \<longleftrightarrow> is_alnum c \<or> c \<in> set ''_-./:@,+''"

definition word_so_far :: "string option \<Rightarrow> string" where
  "word_so_far cur = (case cur of Some w \<Rightarrow> w | None \<Rightarrow> [])"

fun sh_scan :: "string option \<Rightarrow> bool \<Rightarrow> string \<Rightarrow> string list option" where
  "sh_scan cur True [] = None"
| "sh_scan cur True (c # s) = (if c = CHR 0x27 then sh_scan cur False s else sh_scan (Some (word_so_far cur @ [c])) True s)"
| "sh_scan cur False [] = Some (case cur of Some w \<Rightarrow> [w] | None \<Rightarrow> [])"
| "sh_scan cur False (c # s) = (
     if c = CHR 0x27 then sh_scan (Some (word_so_far cur)) True s
     else if c = CHR 0x5C then (case s of d # r \<Rightarrow> if d = CHR 0x0A then None else sh_scan (Some (word_so_far cur @ [d])) False r | [] \<Rightarrow> None)
     else if c = CHR 0x20 \<or> c = CHR 0x09
     then (case cur of Some w \<Rightarrow> map_option (Cons w) (sh_scan None False s) | None \<Rightarrow> sh_scan None False s)
     else if plain_in_shell c then sh_scan (Some (word_so_far cur @ [c])) False s
     else None)"

definition sh_words :: "string \<Rightarrow> string list option" where
  "sh_words line = sh_scan None False line"

lemma scan_quoted:
  "sh_scan (Some w) True (replace_char CHR 0x27 [CHR 0x27, CHR 0x5C, CHR 0x27, CHR 0x27] a @ CHR 0x27 # s) = sh_scan (Some (w @ a)) False s"
  by (induction a arbitrary: w) (simp_all add: replace_char_def word_so_far_def)

lemma scan_word: "sh_scan None False (shellQuote a @ s) = sh_scan (Some a) False s"
  using scan_quoted [of "[]" a s] by (simp add: shellQuote_def quoted_def word_so_far_def)

lemma quoted_line_words: "ws \<noteq> [] \<Longrightarrow> sh_words (quoted_line ws) = Some ws"
proof (induction ws rule: induct_list012)
  case (2 a)
  show ?case using scan_word [of a "[]"] by (simp add: sh_words_def quoted_line_def)
next
  case (3 a b ws)
  then show ?case by (simp add: sh_words_def quoted_line_def scan_word)
qed simp

text \<open>C25: Over ssh exactly the command runs that would run here. Whatever the arguments, quotes, blanks and
special characters included, the last argument given to ssh is a line of which the shell on the other
side makes the very words that are spawned in local mode, the configured binary first, with nothing
expanded and no second command.\<close>

theorem ssh_runs_the_local_command:
  assumes "spawnSpec ''ssh'' config args = Inr (command, ssh_args)"
  shows "command = ''ssh'' \<and> map_option (\<lambda>ws. Inr (hd ws, tl ws)) (sh_words (last ssh_args)) = Some (spawnSpec ''local'' config args)"
proof -
  have "sh_words (quoted_line (cliBinary config # args)) = Some (cliBinary config # args)"
    by (rule quoted_line_words) simp
  then show ?thesis using assms by (auto simp: spawnSpec_def Let_def split: if_splits)
qed

theorem ssh_runs_the_local_command_witness:
  "map_option (\<lambda>ws. Inr (hd ws, tl ws)) (sh_words (last [''host'', quoted_line [''hermes'', ''cron'', [CHR 0x27] @ ''; id $(x)'']])) =
     Some (spawnSpec ''local'' (JObj [(''sshTarget'', JStr ''host'')]) [''cron'', [CHR 0x27] @ ''; id $(x)''])"
proof -
  define config where "config = JObj [(''sshTarget'', JStr ''host'')]"
  have "trimmed (pget config ''sshTarget'') = ''host''" "cliBinary config = ''hermes''" "strings_of (pget config ''sshOptions'') = []"
    unfolding config_def by code_simp+
  then have "spawnSpec ''ssh'' config [''cron'', [CHR 0x27] @ ''; id $(x)''] =
      Inr (''ssh'', [''host'', quoted_line [''hermes'', ''cron'', [CHR 0x27] @ ''; id $(x)'']])"
    by (simp add: spawnSpec_def)
  from conjunct2 [OF ssh_runs_the_local_command [OF this]] show ?thesis by (simp add: config_def)
qed

section \<open>At most one effect, of the method's own kind\<close>

definition at_most_one :: "('ev \<Rightarrow> bool) \<Rightarrow> ('ev, 'e, 'a) run \<Rightarrow> bool" where
  "at_most_one P m \<longleftrightarrow> fst m = [] \<or> (\<exists>ev. fst m = [ev] \<and> P ev)"

lemma at_most_one_lift: "(\<And>x. r = Inr x \<Longrightarrow> at_most_one P (f x)) \<Longrightarrow> at_most_one P (thenA (liftA r) f)"
  by (cases r) (auto simp: at_most_one_def)

definition command_table :: "(string \<times> string list) list" where
  "command_table = [(''GetGatewayStatus'', [''gateway'', ''status'']), (''GetComponentStatus'', [''status'', ''--all'']),
     (''ListSendTargets'', [''send'', ''--list'', ''--json'']), (''ListWebhookSubscriptions'', [''webhook'', ''list'']),
     (''ListCronJobs'', [''cron'', ''list'']), (''ListPlugins'', [''plugins'', ''list'', ''--plain'', ''--no-bundled'']),
     (''ListMcpServers'', [''mcp'', ''list'']), (''TestMcpServer'', [''mcp'', ''test'']), (''ListSkills'', [''skills'', ''list'']),
     (''ListTools'', [''tools'', ''list'', ''--platform'']), (''EnableTools'', [''tools'', ''enable'', ''--platform'']),
     (''DisableTools'', [''tools'', ''disable'', ''--platform'']), (''GetMemoryStatus'', [''memory'', ''status'']),
     (''ConfigCheck'', [''config'', ''check'']), (''Doctor'', [''doctor'']), (''SecurityAudit'', [''security'', ''audit'']),
     (''CreateWebhookSubscription'', [''webhook'', ''subscribe'']), (''TestWebhookSubscription'', [''webhook'', ''test'']),
     (''RemoveWebhookSubscription'', [''webhook'', ''remove'']), (''CreateCronJob'', [''cron'', ''create'']),
     (''PauseCronJob'', [''cron'', ''pause'']), (''ResumeCronJob'', [''cron'', ''resume'']), (''RunCronJob'', [''cron'', ''run'']),
     (''RemoveCronJob'', [''cron'', ''remove'']), (''EnablePlugin'', [''plugins'', ''enable'']), (''DisablePlugin'', [''plugins'', ''disable'']),
     (''ListSessions'', [''sessions'', ''list'']), (''GetSessionsStats'', [''sessions'', ''stats'']), (''GetLogs'', [''logs'']),
     (''SendMessage'', [''send'', ''--to''])]"

text \<open>A process of a command: the configured binary, here or over ssh, whose arguments begin with the command's words.\<close>

definition runs_command :: "jsval \<Rightarrow> string list \<Rightarrow> effect \<Rightarrow> bool" where
  "runs_command ctx ws ev \<longleftrightarrow> (let config = part_of ctx ''config'' in \<exists>sp args. ev = Spawned sp \<and> prefix ws args \<and>
     1000 \<le> sp_timeout sp \<and> sp_timeout sp \<le> 120000 \<and>
     (cliMode config = ''local'' \<and> sp_command sp = cliBinary config \<and> sp_args sp = args \<or>
      cliMode config = ''ssh'' \<and> sp_command sp = ''ssh'' \<and> sh_words (last (sp_args sp)) = Some (cliBinary config # args)))"

definition configured_path :: "jsval \<Rightarrow> string \<Rightarrow> bool" where
  "configured_path config p \<longleftrightarrow> (\<exists>v vs. spread_list (pget config ''allowedPaths'') = Inr vs \<and>
     v \<in> set (pget config ''healthPath'' # pget config ''defaultPath'' # vs) \<and> normalizePath v = Inr p)"

text \<open>A request to an allowed path below the configured address.\<close>

definition asks_hermes :: "hermes_world \<Rightarrow> jsval \<Rightarrow> effect \<Rightarrow> bool" where
  "asks_hermes w ctx ev \<longleftrightarrow> (let config = part_of ctx ''config'' in \<exists>rq base path t allowed. ev = Requested rq \<and>
     hr_url rq = base @ path \<and> normalizeBaseUrl w (pget config ''baseUrl'') = Inr base \<and>
     starts_with path ''/'' \<and> \<not> starts_with path ''//'' \<and> \<not> includes_str path ''..'' \<and>
     path_matches path allowed \<and> configured_path config allowed \<and>
     hr_timeoutMs rq = Fin t \<and> 1000 \<le> t \<and> t \<le> 120000)"

definition method_effect :: "hermes_world \<Rightarrow> jsval \<Rightarrow> string \<Rightarrow> effect \<Rightarrow> bool" where
  "method_effect w ctx m = (case map_of command_table m of Some ws \<Rightarrow> runs_command ctx ws | None \<Rightarrow> asks_hermes w ctx)"

lemma clamp_bounds: "lo \<le> fallback \<Longrightarrow> fallback \<le> hi \<Longrightarrow> lo \<le> clamp_num lo hi fallback n \<and> clamp_num lo hi fallback n \<le> hi"
  by (auto simp: clamp_num_def split: jsnum.split)

lemma timeout_bounds: "1000 \<le> timeoutMs c r" "timeoutMs c r \<le> 120000"
  unfolding timeoutMs_def using clamp_bounds [of 1000 10000 120000] by simp_all

lemma run_confined: "prefix ws args \<Longrightarrow> at_most_one (runs_command ctx ws) (runHermesCli w ctx args opts)"
  unfolding runHermesCli_def Let_def
proof (rule at_most_one_lift, clarsimp simp: prod.case_eq_if)
  fix command mode and ssh_args :: "string list"
  assume ws: "prefix ws args" and mode: "validateCliMode (part_of ctx ''config'') = Inr mode"
    and spec: "spawnSpec mode (part_of ctx ''config'') args = Inr (command, ssh_args)"
  have words: "sh_words (quoted_line (cliBinary c # args)) = Some (cliBinary c # args)" for c
    by (rule quoted_line_words) simp
  show "at_most_one (runs_command ctx ws) ([Spawned (spawned_for w ctx opts (command, ssh_args))], r)" for r :: "hermes_error + jsval"
    using ws mode spec words
    by (auto simp: at_most_one_def runs_command_def spawned_for_def timeout_bounds validateCliMode_def spawnSpec_def Let_def split: if_splits)
qed

lemma args_confined: "prefix ws ws' \<Longrightarrow> at_most_one (runs_command ctx ws) (with_args w ctx (words ws' # parts) opts)"
  unfolding with_args_def words_def
  by (rule at_most_one_lift) (auto intro: run_confined)

lemma allowed_path_configured:
  "assertAllowedPath path vs = Inr u \<Longrightarrow> \<exists>v \<in> set vs. \<exists>p. normalizePath v = Inr p \<and> path_matches path p"
proof -
  assume "assertAllowedPath path vs = Inr u"
  then obtain allowed p where "mapE normalizePath (filter (\<lambda>v. trimmed v \<noteq> []) vs) = Inr allowed" "p \<in> set allowed" "path_matches path p"
    by (auto simp: assertAllowedPath_def list_ex_iff split: if_splits)
  moreover then obtain v where "v \<in> set (filter (\<lambda>v. trimmed v \<noteq> []) vs)" "normalizePath v = Inr p"
    unfolding mapE_Inr_iff by (metis (mono_tags, lifting) list_all2_conv_all_nth in_set_conv_nth)
  ultimately show ?thesis by auto
qed

lemma normal_path: "normalizePath v = Inr path \<Longrightarrow> starts_with path ''/'' \<and> \<not> starts_with path ''//'' \<and> \<not> includes_str path ''..''"
  by (auto simp: normalizePath_def Let_def split: if_splits)

lemma call_confined: "at_most_one (asks_hermes w ctx) (callHermes w (part_of ctx ''config'') secret c)"
  unfolding callHermes_def
proof (rule at_most_one_lift)
  fix rq r
  assume rq: "hermes_request w (part_of ctx ''config'') secret c = Inr rq"
  then obtain base path vs u where parts: "normalizeBaseUrl w (pget (part_of ctx ''config'') ''baseUrl'') = Inr base"
      "normalizePath (hc_path c) = Inr path" "spread_list (pget (part_of ctx ''config'') ''allowedPaths'') = Inr vs"
      "assertAllowedPath path (pget (part_of ctx ''config'') ''healthPath'' # pget (part_of ctx ''config'') ''defaultPath'' # vs) = Inr u"
    and sent: "hr_url rq = base @ path" "hr_timeoutMs rq = Fin (timeoutMs (pget (part_of ctx ''config'') ''timeoutMs'') (hc_timeout c))"
    by (auto simp: hermes_request_def)
  from allowed_path_configured [OF parts(4)] parts(3) obtain p where "configured_path (part_of ctx ''config'') p" "path_matches path p"
    unfolding configured_path_def by blast
  with parts sent normal_path [OF parts(2)] timeout_bounds show "at_most_one (asks_hermes w ctx) ([Requested rq], r)"
    unfolding at_most_one_def asks_hermes_def Let_def by fastforce
qed

lemmas command_handler_defs = getGatewayStatus_def getComponentStatus_def listSendTargets_def listWebhookSubscriptions_def
  listCronJobs_def listPlugins_def listMcpServers_def testMcpServer_def listSkills_def listTools_def getMemoryStatus_def
  configCheck_def doctor_def securityAudit_def testWebhookSubscription_def removeWebhookSubscription_def createCronJob_def
  pauseCronJob_def resumeCronJob_def runCronJob_def removeCronJob_def enablePlugin_def disablePlugin_def listSessions_def
  getSessionsStats_def getLogs_def

lemma tools_confined: "at_most_one (runs_command ctx [''tools'', action, ''--platform'']) (toolsMutation action w ctx)"
  unfolding toolsMutation_def by (auto intro!: at_most_one_lift args_confined)

lemma message_confined: "at_most_one (runs_command ctx [''send'', ''--to'']) (sendMessage w ctx)"
  unfolding sendMessage_def by (auto intro!: at_most_one_lift args_confined)

lemma subscribe_confined: "at_most_one (runs_command ctx [''webhook'', ''subscribe'']) (createWebhookSubscription w ctx)"
  unfolding createWebhookSubscription_def subscribe_parts_def words_def
  by (rule at_most_one_lift) (auto intro!: run_confined)

lemma http_confined: "at_most_one (asks_hermes w ctx) (healthCheck w ctx)" "at_most_one (asks_hermes w ctx) (sendWebhook w ctx)"
  unfolding healthCheck_def sendWebhook_def Let_def by (auto intro!: at_most_one_lift call_confined)

lemma handlers_confined: "list_all (\<lambda>(m, h). at_most_one (method_effect w ctx m) (h w ctx)) hermes_handlers"
  by (simp add: hermes_handlers_def method_effect_def command_table_def http_confined message_confined subscribe_confined
      tools_confined enableTools_def disableTools_def command_handler_defs run_confined args_confined)

lemma fst_wrap: "fst (wrap h w ctx) = fst (h w ctx)"
  by (auto simp: wrap_def split: prod.split sum.split)


definition idle_world :: hermes_world where
  "idle_world = \<lparr>hw_environ = [], hw_spawn = (\<lambda>_. Inr \<lparr>ch_stdout = [''ok''], ch_stderr = [], ch_end = Closed (Some 0)\<rparr>),
     hw_fetch = (\<lambda>_. Inl ([], [])), hw_url = (\<lambda>u. Some \<lparr>hu_protocol = ''http:'', hu_before_path = u, hu_pathname = ''/''\<rparr>),
     hw_parse = (\<lambda>_. Inl []), hw_stringify = (\<lambda>_. []), hw_pretty = (\<lambda>_. []), hw_hmac = (\<lambda>_ _. [])\<rparr>"

definition local_ctx :: "(string \<times> jsval) list \<Rightarrow> jsval" where
  "local_ctx request = JObj [(''config'', JObj [(''cliMode'', JStr ''local'')]), (''request'', JObj request)]"


section \<open>Redaction\<close>

text \<open>
  What replaces a secret has none of its characters when the secret has no star; then the secret does not
  occur in what is left.
\<close>

lemma replace_text_step:
  "replace_text p r [] = []" "p \<noteq> [] \<Longrightarrow> prefix p (c # s) \<Longrightarrow> replace_text p r (c # s) = r @ replace_text p r (drop (length p) (c # s))"
  "p \<noteq> [] \<Longrightarrow> \<not> prefix p (c # s) \<Longrightarrow> replace_text p r (c # s) = c # replace_text p r s"
  by (subst replace_text.simps; simp)+

lemma replace_text_starts:
  assumes "p \<noteq> []" and "r \<noteq> []" and "c \<notin> set r" and "replace_text p r s = c # t"
  shows "\<exists>t'. s = c # t' \<and> replace_text p r t' = t"
proof (cases s)
  case Nil
  then show ?thesis using assms(4) by (simp add: replace_text_step)
next
  case (Cons d u)
  show ?thesis
  proof (cases "prefix p s")
    case True
    then have "hd (replace_text p r s) = hd r" using assms(1,2) Cons by (simp add: replace_text_step)
    then show ?thesis using assms(2-4) hd_in_set by force
  next
    case False
    then show ?thesis using assms(1,4) Cons by (simp add: replace_text_step)
  qed
qed

lemma replace_text_prefix:
  "p \<noteq> [] \<Longrightarrow> r \<noteq> [] \<Longrightarrow> set q \<inter> set r = {} \<Longrightarrow> prefix q (replace_text p r s) \<Longrightarrow> prefix q s"
proof (induction q arbitrary: s)
  case (Cons c q)
  then obtain t where t: "replace_text p r s = c # t" "prefix q t" by (auto simp: prefix_def)
  moreover have "c \<notin> set r" using Cons.prems(3) by simp
  ultimately obtain t' where t': "s = c # t'" "replace_text p r t' = t"
    using replace_text_starts [of p r c s t] Cons.prems(1,2) by blast
  have "prefix q t'" by (rule Cons.IH) (use Cons.prems t t' in simp_all)
  then show ?case using t'(1) by simp
qed simp

lemma sublist_skip: "p \<noteq> [] \<Longrightarrow> set p \<inter> set x = {} \<Longrightarrow> sublist p (x @ t) \<longleftrightarrow> sublist p t"
proof (induction x)
  case (Cons c x)
  then show ?case by (cases p) (auto simp: sublist_Cons_right)
qed simp

lemma replace_text_removes:
  assumes "p \<noteq> []" and "r \<noteq> []" and "set p \<inter> set r = {}"
  shows "\<not> sublist p (replace_text p r s)"
proof (induction s rule: length_induct)
  case (1 s)
  show ?case
  proof (cases s)
    case Nil
    then show ?thesis using assms(1) by (simp add: replace_text_step)
  next
    case (Cons c u)
    show ?thesis
    proof (cases "prefix p s")
      case True
      have "\<not> sublist p (replace_text p r (drop (length p) s))" using 1 Cons assms(1) by simp
      then show ?thesis using True Cons assms by (simp add: replace_text_step sublist_skip)
    next
      case False
      have "\<not> prefix p (replace_text p r s)" using replace_text_prefix [of p r p s] assms False by blast
      moreover have "\<not> sublist p (replace_text p r u)" using 1 Cons by simp
      ultimately show ?thesis using False Cons assms(1) by (simp add: replace_text_step sublist_Cons_right)
    qed
  qed
qed

lemma redaction_removes: "secret \<noteq> [] \<Longrightarrow> CHR ''*'' \<notin> set secret \<Longrightarrow> \<not> includes_str (redactText s [secret]) secret"
  unfolding redactText_def using replace_text_removes [of secret "''******''" s] by simp

lemma replace_text_absent: "p \<noteq> [] \<Longrightarrow> \<not> sublist p s \<Longrightarrow> replace_text p r s = s"
  by (induction s) (auto simp: replace_text_step sublist_Cons_right)

lemma redaction_absent: "\<not> includes_str s secret \<Longrightarrow> redactText s [secret] = s"
  by (simp add: redactText_def replace_text_absent)

text \<open>
  A result of the call that hands the secret of a webhook on hides it in its command, output and error
  output, as far as the secret is there as it is.
\<close>

lemma result_hides_secret:
  assumes "cli_result command (opts\<lparr>co_redactValues := [secret]\<rparr>) stdout stderr code = Inr result"
    and "secret \<noteq> []" and "CHR ''*'' \<notin> set secret" and "k \<in> {''command'', ''stdout'', ''stderr''}"
  shows "\<exists>s. pget result k = JStr s \<and> \<not> includes_str s secret"
  using assms redaction_removes [of secret] by (auto simp: cli_result_def Let_def split: if_splits)

text \<open>But the error output becomes the message of an error as it is,\<close>

lemma failure_shows_secret:
  "cli_result command opts stdout (''bad secret '' @ secret) (Some 1) = Inl (HermesClientError code message details) \<Longrightarrow>
     mapError (HermesClientError code message details) = Failure ''FAILED_PRECONDITION'' (''bad secret '' @ secret)"
  by (auto simp: cli_result_def Let_def or_text_def mapError_def hermes_status_def)

text \<open>and on the command line a secret with a quote is written in another way, one of more than 512 characters in part.\<close>

lemma quoted_secret_shown:
  "redactText (quoted_line [''--secret'', ''pa'' @ [CHR 0x27] @ ''ss'']) [''pa'' @ [CHR 0x27] @ ''ss''] =
     quoted_line [''--secret'', ''pa'' @ [CHR 0x27] @ ''ss'']"
  by code_simp

lemma long_secret_shown:
  assumes "512 < length secret" and "last secret \<notin> set (quoted_line (args @ [''--secret'', take 512 secret]))"
  shows "redactText (quoted_line (args @ [''--secret'', take 512 secret])) [secret] = quoted_line (args @ [''--secret'', take 512 secret])"
proof (rule redaction_absent)
  have "last secret \<in> set secret" using assms(1) by (intro last_in_set) auto
  then show "\<not> includes_str (quoted_line (args @ [''--secret'', take 512 secret])) secret"
    using assms(2) set_mono_sublist by blast
qed

section \<open>Outcomes of a child\<close>

text \<open>A child that a signal ended has no exit code, and counts as a success.\<close>

lemma killed_child_succeeds:
  assumes "ch_end ch = Closed None"
  shows "\<exists>result. await_child config command opts ch = Inr result \<and> pget result ''ok'' = JBool True \<and> pget result ''exitCode'' = JInt 0"
  using assms by (auto simp: await_child_def cli_result_def Let_def)

text \<open>The limit of the output is in bytes, the cut in characters: a text may be kept whole and marked as cut.\<close>

lemma whole_text_marked:
  assumes "of_nat (utf8_length s) > limit" and "of_nat (length s) \<le> limit"
  shows "truncateOutput s limit = s @ ''\<newline>... truncated ...''"
proof -
  have "length s \<le> nat (trunc_rat limit)"
    using assms(2) of_nat_0_le_iff [of "length s", where 'a = rat] by (simp add: trunc_rat_def le_nat_iff le_floor_iff del: of_nat_0_le_iff)
  then show ?thesis using assms(1) by (simp add: truncateOutput_def)
qed

lemma whole_text_marked_example: "truncateOutput (replicate 3000 (CHR 0xE9)) 4096 = replicate 3000 (CHR 0xE9) @ ''\<newline>... truncated ...''"
proof (rule whole_text_marked)
  have "length (utf8_of (CHR 0xE9)) = 2" by code_simp
  then have "utf8_length (replicate 3000 (CHR 0xE9)) = 6000" by (simp add: utf8_length_def length_concat sum_list_replicate)
  then show "4096 < rat_of_nat (utf8_length (replicate 3000 (CHR 0xE9)))" by simp
qed simp

section \<open>Names, paths and signatures\<close>

text \<open>A secret that is not configured is refused by name, unless every object inherits something of that name.\<close>

lemma unknown_secret_refused:
  "pget secret ''webhookHmacSecrets'' = JObj kvs \<Longrightarrow> name \<notin> fst ` set kvs \<Longrightarrow> name \<notin> set object_prototype_names \<Longrightarrow>
     \<exists>message. secret_or_fail secret name = Inl (hermes_fail ''FAILED_PRECONDITION'' message)"
  by (auto simp: secret_or_fail_def named_secret_def or_js_def truthy_def inherited_text_def object_prototype_names_def
      map_of_eq_None_iff [symmetric])

lemma inherited_secret_accepted:
  "resolveNamedSecret (JObj []) (JStr ''constructor'') ''secretName'' = Inr ''function Object() { [native code] }''"
  by code_simp

text \<open>A name may be an option.\<close>

lemma name_may_be_option: "validateName ''name'' (JStr ''--all'') = Inr ''--all''"
  by code_simp

text \<open>Parent steps are looked for as they are written, not as the URL parser reads them.\<close>

lemma encoded_parent_allowed:
  "normalizePath (JStr ''/webhooks/%2e%2e/admin'') = Inr ''/webhooks/%2e%2e/admin''"
  "path_matches ''/webhooks/%2e%2e/admin'' ''/webhooks/*''"
  by code_simp+

text \<open>The default path of HealthCheck is no configured path: with the address alone configured the check is refused.\<close>

lemma default_health_refused:
  assumes "normalizeBaseUrl w (JStr address) = Inr base" and "address \<noteq> []"
  shows "healthCheck w (JObj [(''config'', JObj [(''baseUrl'', JStr address)])]) =
    ([], Inl (hermes_fail ''INVALID_ARGUMENT'' ''config.allowedPaths must contain at least one path''))"
proof -
  have path: "normalizePath (JStr ''/health'') = Inr ''/health''" by code_simp
  have none: "assertAllowedPath ''/health'' [JUndef, JUndef] = Inl (hermes_fail ''INVALID_ARGUMENT'' ''config.allowedPaths must contain at least one path'')"
    by code_simp
  show ?thesis using assms path none
    by (simp add: healthCheck_def callHermes_def hermes_request_def part_of_def or_js_def truthy_def spread_list_def Let_def)
qed

text \<open>A webhook is signed over the very body that is sent, when the caller gives no signature of its own.\<close>

lemma signature_covers_body:
  assumes "s \<noteq> []" and "\<not> truthy (pget (JObj (webhook_headers w request body [])) ''X-Webhook-Signature'')"
  shows "pget (JObj (webhook_headers w request body s)) ''X-Webhook-Signature'' =
    JStr (hw_hmac w s (request_body w \<lparr>hc_method = ''POST'', hc_path = p, hc_body = body, hc_headers = hs, hc_timeout = t\<rparr>)) \<or> body = JUndef"
  using assms by (auto simp: webhook_headers_def request_body_def Let_def)

text \<open>A message to DingTalk ends with the signature, and signing it again changes nothing.\<close>

lemma trim_end_append: "s \<noteq> [] \<Longrightarrow> \<not> is_ws (last s) \<Longrightarrow> trim_end (x @ s) = x @ s"
  by (cases s rule: rev_cases) (simp_all add: trim_end_def)

lemma trim_last: "trim s \<noteq> [] \<Longrightarrow> \<not> is_ws (last (trim s))"
proof -
  assume "trim s \<noteq> []"
  then have "dropWhile is_ws (rev (trim_start s)) \<noteq> []" by (simp add: trim_def trim_end_def)
  from hd_dropWhile [OF this] show ?thesis by (simp add: trim_def trim_end_def last_rev)
qed

lemma message_signed:
  assumes "starts_with target ''dingtalk''" and "signature_of config \<noteq> []"
  shows "ends_with (trim_end (ensureSignature target message config)) (signature_of config)"
proof -
  have "\<not> is_ws (last (signature_of config))" using assms(2) trim_last unfolding signature_of_def by blast
  then have "trim_end (x @ signature_of config) = x @ signature_of config" for x
    using assms(2) by (simp add: trim_end_append)
  then have "ends_with (trim_end (x @ ''\<newline>'' @ signature_of config)) (signature_of config)" for x
    by (metis append.assoc suffixI)
  then show ?thesis using assms unfolding ensureSignature_def Let_def by simp
qed

lemma signing_idempotent:
  assumes "starts_with target ''dingtalk''" and "signature_of config \<noteq> []"
  shows "ensureSignature target (JStr (ensureSignature target message config)) config = ensureSignature target message config"
proof -
  have "str_or_empty (JStr s) = s" for s by (simp add: str_or_empty_def truthy_def)
  then show ?thesis using message_signed [OF assms, of message] assms
    unfolding ensureSignature_def [of target "JStr m" for m] Let_def by simp
qed

end
