(* ===== verification/Conversation.thy ===== *)
theory Conversation
  imports JS_Base
begin

text \<open>
  Code that talks to the outside: a computation reads what has happened so far, the list of its events,
  and goes on with more of them to an error or a value. What the outside answers may depend on all that
  happened before, so the same request may be answered differently later.
\<close>

type_synonym ('ev, 'e, 'a) talk = "'ev list \<Rightarrow> 'ev list \<times> ('e + 'a)"

definition retT :: "'a \<Rightarrow> ('ev, 'e, 'a) talk" where
  "retT x h = (h, Inr x)"

definition liftT :: "'e + 'a \<Rightarrow> ('ev, 'e, 'a) talk" where
  "liftT r h = (h, r)"

definition thenT :: "('ev, 'e, 'a) talk \<Rightarrow> ('a \<Rightarrow> ('ev, 'e, 'b) talk) \<Rightarrow> ('ev, 'e, 'b) talk" where
  "thenT m f h = (case m h of (h1, Inl e) \<Rightarrow> (h1, Inl e) | (h1, Inr x) \<Rightarrow> f x h1)"

text \<open>An event, and what is read of the outside with it.\<close>

definition askT :: "'ev \<Rightarrow> ('ev list \<Rightarrow> 'e + 'a) \<Rightarrow> ('ev, 'e, 'a) talk" where
  "askT ev answer h = (h @ [ev], answer h)"

text \<open>\<open>try\<close>: the error becomes a value.\<close>

definition tryT :: "('ev, 'e, 'a) talk \<Rightarrow> ('ev, 'e, 'e + 'a) talk" where
  "tryT m h = (case m h of (h1, r) \<Rightarrow> (h1, Inr r))"

fun forT :: "('b \<Rightarrow> ('ev, 'e, 'a) talk) \<Rightarrow> 'b list \<Rightarrow> ('ev, 'e, 'a list) talk" where
  "forT f [] = retT []"
| "forT f (x # xs) = thenT (f x) (\<lambda>y. thenT (forT f xs) (\<lambda>ys. retT (y # ys)))"

text \<open>
  \<open>keeps P m\<close>: from any events with \<open>P\<close> the computation ends with such events, however it ends.
  \<open>yields P m Q\<close>: and its value has \<open>Q\<close> with them.
\<close>

definition yields :: "('ev list \<Rightarrow> bool) \<Rightarrow> ('ev, 'e, 'a) talk \<Rightarrow> ('a \<Rightarrow> 'ev list \<Rightarrow> bool) \<Rightarrow> bool" where
  "yields P m Q \<longleftrightarrow> (\<forall>h. P h \<longrightarrow> P (fst (m h)) \<and> (\<forall>x. snd (m h) = Inr x \<longrightarrow> Q x (fst (m h))))"

abbreviation keeps :: "('ev list \<Rightarrow> bool) \<Rightarrow> ('ev, 'e, 'a) talk \<Rightarrow> bool" where
  "keeps P m \<equiv> yields P m (\<lambda>x. P)"

lemma keeps_iff: "keeps P m \<longleftrightarrow> (\<forall>h. P h \<longrightarrow> P (fst (m h)))"
  by (auto simp: yields_def)

lemma keeps_ret [intro!, simp]: "keeps P (retT x)" "keeps P (liftT r)"
  by (auto simp: keeps_iff retT_def liftT_def)

lemma keeps_then [intro!]: "keeps P m \<Longrightarrow> (\<And>x. keeps P (f x)) \<Longrightarrow> keeps P (thenT m f)"
  by (auto simp: keeps_iff thenT_def split: prod.splits sum.splits)

lemma keeps_lift_then: "(\<And>x. r = Inr x \<Longrightarrow> keeps P (f x)) \<Longrightarrow> keeps P (thenT (liftT r) f)"
  by (cases r) (auto simp: keeps_iff thenT_def liftT_def)

lemma keeps_try [intro!]: "keeps P m \<Longrightarrow> keeps P (tryT m)"
  by (auto simp: keeps_iff tryT_def split: prod.splits)

lemma keeps_for [intro!]: "(\<And>x. keeps P (f x)) \<Longrightarrow> keeps P (forT f xs)"
  by (induction xs) auto

text \<open>After a value that brings a stronger condition, the rest need only keep that.\<close>

lemma keeps_then_strong:
  "yields P m Q \<Longrightarrow> (\<And>x h. Q x h \<Longrightarrow> P (fst (f x h))) \<Longrightarrow> keeps P (thenT m f)"
  by (auto simp: yields_def thenT_def split: prod.splits sum.splits)

lemma fst_thenT: "fst (thenT m f h) = (case snd (m h) of Inl e \<Rightarrow> fst (m h) | Inr x \<Rightarrow> fst (f x (fst (m h))))"
  by (auto simp: thenT_def split: prod.splits sum.splits)

lemma thenT_lift [simp]: "thenT (liftT (Inr x)) f = f x" "thenT (liftT (Inl e)) f = liftT (Inl e)"
  by (auto simp: thenT_def liftT_def)

lemma thenT_ret [simp]: "thenT (retT x) f = f x"
  by (auto simp: thenT_def retT_def)

end
