(* ===== verification/SdkErrors.thy ===== *)
theory SdkErrors
  imports JS_Values Regex
begin

text \<open>
  Errors and redaction of the SDK (src/sdk/src/errors.ts, grpc-error.ts, status.ts) and its HTTP
  helpers (src/sdk/src/http.ts). \<open>JSON.parse\<close> and \<open>JSON.stringify\<close> are arguments. The regular
  expressions of the redaction are written as scanners: each has one way to match at a position, as
  its parts share no first characters. Values are trees, so the \<open>seen\<close> set, which replaces an object
  reached a second time by the text [Circular], is not modelled; nor is an error object as a value.
\<close>

section \<open>Status codes and errors\<close>

definition code_to_status :: "(string \<times> nat) list" where
  "code_to_status = [(''ABORTED'', 10), (''ALREADY_EXISTS'', 6), (''CANCELLED'', 1), (''DATA_LOSS'', 15),
     (''DEADLINE_EXCEEDED'', 4), (''FAILED_PRECONDITION'', 9), (''INTERNAL'', 13), (''INVALID_ARGUMENT'', 3),
     (''NOT_FOUND'', 5), (''OUT_OF_RANGE'', 11), (''PERMISSION_DENIED'', 7), (''RESOURCE_EXHAUSTED'', 8),
     (''UNAUTHENTICATED'', 16), (''UNAVAILABLE'', 14), (''UNIMPLEMENTED'', 12), (''UNKNOWN'', 2)]"

text \<open>For the codes of the type \<open>ServiceErrorCode\<close> and other names that objects do not inherit.\<close>

definition grpcCodeFor :: "string \<Rightarrow> nat" where
  "grpcCodeFor code = (case map_of code_to_status code of Some n \<Rightarrow> n | None \<Rightarrow> 2)"

record summary =
  sm_status :: jsnum
  sm_statusText :: "string option"
  sm_body :: "(string \<times> bool) option" \<comment> \<open>bodySnippet and bodyTruncated, set together\<close>

record grpc_error =
  ge_code :: nat
  ge_message :: string
  ge_legacyCode :: "string option"
  ge_details :: "summary option"

definition grpcError :: "nat \<Rightarrow> string \<Rightarrow> grpc_error" where
  "grpcError code message = \<lparr>ge_code = code, ge_message = message, ge_legacyCode = None, ge_details = None\<rparr>"

definition serviceError :: "string \<Rightarrow> string \<Rightarrow> summary option \<Rightarrow> grpc_error" where
  "serviceError code message details = \<lparr>ge_code = grpcCodeFor code, ge_message = message,
     ge_legacyCode = Some code, ge_details = details\<rparr>"

definition missingSecretError :: "string \<Rightarrow> grpc_error" where
  "missingSecretError field = serviceError ''UNAUTHENTICATED'' (field @ '' is required'') None"

definition mapHttpStatusToCode :: "jsnum \<Rightarrow> string" where
  "mapHttpStatusToCode code = (
     if num_eq code (Fin 400) then ''INVALID_ARGUMENT''
     else if num_eq code (Fin 401) then ''UNAUTHENTICATED''
     else if num_eq code (Fin 403) then ''PERMISSION_DENIED''
     else if num_eq code (Fin 404) then ''NOT_FOUND''
     else if num_eq code (Fin 408) then ''DEADLINE_EXCEEDED''
     else if num_eq code (Fin 409) then ''FAILED_PRECONDITION''
     else if num_eq code (Fin 429) then ''UNAVAILABLE''
     else if num_le (Fin 500) code \<and> num_le code (Fin 599) then ''UNAVAILABLE''
     else ''UNAVAILABLE'')"

section \<open>The scanners of the redaction\<close>

definition is_word :: "char \<Rightarrow> bool" where
  "is_word c \<longleftrightarrow> is_alnum c \<or> c = CHR ''_''"

definition is_quote :: "char \<Rightarrow> bool" where
  "is_quote c \<longleftrightarrow> c = CHR 0x22 \<or> c = CHR 0x27"

text \<open>A prefix test that ignores case.\<close>

definition starts_ci :: "string \<Rightarrow> string \<Rightarrow> bool" where
  "starts_ci p s \<longleftrightarrow> to_lower (take (length p) s) = p"

text \<open>
  \<open>s.replace(re, f)\<close> for a global expression: \<open>m prev s\<close> is a match at the head of \<open>s\<close>, after the
  character \<open>prev\<close>, as its length (never 0) and its replacement.
\<close>

type_synonym matcher = "char option \<Rightarrow> string \<Rightarrow> (nat \<times> string) option"

function replace_all :: "matcher \<Rightarrow> char option \<Rightarrow> string \<Rightarrow> string" where
  "replace_all m prev [] = []"
| "replace_all m prev (c # s) = (case m prev (c # s) of
     Some (n, r) \<Rightarrow> r @ replace_all m (Some ((c # s) ! (min (max n 1) (length (c # s)) - 1))) (drop (max n 1) (c # s))
   | None \<Rightarrow> c # replace_all m (Some c) s)"
  by pat_completeness auto
termination by (relation "measure (\<lambda>(m, prev, s). length s)") auto

definition boundary_before :: "char option \<Rightarrow> bool" where
  "boundary_before prev = (case prev of None \<Rightarrow> True | Some c \<Rightarrow> \<not> is_word c)"

text \<open>\<open>AUTH_HEADER_RE\<close>.\<close>

definition token_char :: "char \<Rightarrow> bool" where
  "token_char c \<longleftrightarrow> is_alnum c \<or> c \<in> set ''._~+/=-''"

definition auth_match :: matcher where
  "auth_match prev s = (
     let k = (if starts_ci ''bearer'' s then 6 else if starts_ci ''basic'' s then 5 else 0);
         rest = drop k s; ws = takeWhile is_ws rest; tok = takeWhile token_char (dropWhile is_ws rest)
     in if boundary_before prev \<and> k \<noteq> 0 \<and> ws \<noteq> [] \<and> tok \<noteq> []
        then Some (k + length ws + length tok, take k s @ '' ***'') else None)"

text \<open>\<open>WEBHOOK_URL_RE\<close>: hook is a substring of every alternative.\<close>

definition url_char :: "char \<Rightarrow> bool" where
  "url_char c \<longleftrightarrow> \<not> is_ws c \<and> \<not> is_quote c \<and> c \<noteq> CHR ''<'' \<and> c \<noteq> CHR ''>''"

definition webhook_match :: matcher where
  "webhook_match prev s = (
     let k = (if starts_ci ''https://'' s then 8 else if starts_ci ''http://'' s then 7 else 0);
         rest = takeWhile url_char (drop k s)
     in if boundary_before prev \<and> k \<noteq> 0 \<and> includes_str (to_lower rest) ''hook''
        then Some (k + length rest, ''[REDACTED_URL]'') else None)"

text \<open>\<open>SENSITIVE_ASSIGNMENT_RE\<close> and \<open>SENSITIVE_KEY_RE\<close>.\<close>

definition sensitive_words :: "string list" where
  "sensitive_words = [''authorization'', ''cookie'', ''password'', ''passwd'', ''secret'', ''token'',
     ''apikey'', ''api_key'', ''api-key'', ''accesskey'', ''access_key'', ''access-key'', ''webhook'', ''signature'']"

definition word_at :: "string \<Rightarrow> nat" where
  "word_at s = (case find (\<lambda>w. starts_ci w s) sensitive_words of Some w \<Rightarrow> length w | None \<Rightarrow> 0)"

definition quote_at :: "string \<Rightarrow> nat" where
  "quote_at s = (case s of c # _ \<Rightarrow> if is_quote c then 1 else 0 | [] \<Rightarrow> 0)"

definition value_char :: "char \<Rightarrow> bool" where
  "value_char c \<longleftrightarrow> \<not> is_ws c \<and> \<not> is_quote c \<and> c \<notin> set '',&;}''"

definition ws_at :: "string \<Rightarrow> nat" where
  "ws_at s = length (takeWhile is_ws s)"

definition assignment_match :: matcher where
  "assignment_match prev s = (
     let a = quote_at s; b = word_at (drop a s); p = a + b;
         c = p + quote_at (drop p s); d = c + ws_at (drop c s);
         sep = (case drop d s of x # _ \<Rightarrow> x = CHR ''='' \<or> x = CHR '':'' | [] \<Rightarrow> False);
         e = d + 1 + ws_at (drop (d + 1) s); f = e + quote_at (drop e s);
         v = takeWhile value_char (drop f s)
     in if b \<noteq> 0 \<and> sep \<and> v \<noteq> [] then Some (f + length v, take f s @ ''***'') else None)"

definition sensitive_key :: "string \<Rightarrow> bool" where
  "sensitive_key key \<longleftrightarrow> list_ex (\<lambda>w. includes_str (to_lower key) w) sensitive_words"

text \<open>The last replacement: runs of stars separated by white space become one.\<close>

function star_run :: "string \<Rightarrow> nat" where
  "star_run s = (let n = ws_at s in if n \<noteq> 0 \<and> take 3 (drop n s) = ''***'' then n + 3 + star_run (drop (n + 3) s) else 0)"
  by pat_completeness auto
termination by (relation "measure length") (auto simp: ws_at_def dest!: arg_cong [of _ _ length])

declare star_run.simps [simp del]

definition stars_match :: matcher where
  "stars_match prev s = (
     let n = (if take 3 s = ''***'' then star_run (drop 3 s) else 0)
     in if n \<noteq> 0 then Some (3 + n, ''***'') else None)"

definition redact_plain :: "string \<Rightarrow> string" where
  "redact_plain value = replace_all stars_match None (replace_all assignment_match None
     (replace_all webhook_match None (replace_all auth_match None value)))"

section \<open>Redaction\<close>

record json =
  json_parse :: "string \<Rightarrow> jsval option"
  json_text :: "jsval \<Rightarrow> string"

text \<open>\<open>those\<close> of the results of a list.\<close>

fun redact_value :: "(string \<Rightarrow> string option) \<Rightarrow> jsval \<Rightarrow> jsval option" where
  "redact_value f (JStr s) = map_option JStr (f s)"
| "redact_value f (JArr vs) = map_option JArr (those (map (redact_value f) vs))"
| "redact_value f (JObj fs) = map_option JObj (those (map (\<lambda>p.
     if sensitive_key (fst p) then Some (fst p, JStr ''***'')
     else map_option (Pair (fst p)) (redact_value f (snd p))) fs))"
| "redact_value f JUndef = Some JUndef"
| "redact_value f JNull = Some JNull"
| "redact_value f (JBool b) = Some (JBool b)"
| "redact_value f (JNum n) = Some (JNum n)"

text \<open>
  A string that is JSON text is redacted as the value it denotes, whose strings may be JSON text in
  turn: fuel counts this nesting, and \<open>None\<close> is out of fuel.
\<close>

definition redactJsonString :: "json \<Rightarrow> (string \<Rightarrow> string option) \<Rightarrow> string \<Rightarrow> string option option" where
  "redactJsonString j f value = (let trimmed = trim value in
     if trimmed = [] \<or> (hd trimmed \<noteq> CHR ''{'' \<and> hd trimmed \<noteq> CHR ''['') then Some None
     else (case json_parse j trimmed of
         None \<Rightarrow> Some None
       | Some v \<Rightarrow> map_option (\<lambda>r. Some (json_text j r)) (redact_value f v)))"

primrec redactString :: "json \<Rightarrow> nat \<Rightarrow> string \<Rightarrow> string option" where
  "redactString j 0 value = None"
| "redactString j (Suc n) value = (case redactJsonString j (redactString j n) value of
     None \<Rightarrow> None
   | Some (Some text) \<Rightarrow> Some text
   | Some None \<Rightarrow> Some (redact_plain value))"

definition redactSensitive :: "json \<Rightarrow> jsval \<Rightarrow> jsval option" where
  "redactSensitive j value = redact_value (\<lambda>s. redactString j (Suc (length s)) s) value"


section \<open>Error summaries\<close>

text \<open>\<open>String(redactSensitive(text))\<close> of a text.\<close>

definition redacted_text :: "json \<Rightarrow> string \<Rightarrow> string option" where
  "redacted_text j value = redactString j (Suc (length value)) value"

text \<open>\<open>response?.k\<close> of a response that may be missing is \<open>pget\<close> of a value that may be \<open>undefined\<close>.\<close>

definition safeErrorSummary :: "json \<Rightarrow> jsval \<Rightarrow> jsval \<Rightarrow> jsval \<Rightarrow> summary option" where
  "safeErrorSummary j response body maxBody = (
     let maxBodyChars = (case maxBody of JNum (Fin r) \<Rightarrow> r | _ \<Rightarrow> 160);
         raw = to_num (coalesce (coalesce (pget response ''status'') (pget response ''statusCode'')) (JInt 0));
         statusText = trim (to_str (coalesce (pget response ''statusText'') (JStr [])))
     in map_option (\<lambda>redacted. \<lparr>sm_status = (if is_finite_num raw then raw else Fin 0),
          sm_statusText = (if statusText \<noteq> [] then Some statusText else None),
          sm_body = (if redacted \<noteq> []
            then Some (take (nat (trunc_rat (max 0 maxBodyChars))) redacted, of_nat (length redacted) > maxBodyChars)
            else None)\<rparr>)
        (redacted_text j (to_str (coalesce body (JStr [])))))"

text \<open>\<open>summary.status || 0\<close> keeps a finite status as it is.\<close>

definition httpStatusError :: "json \<Rightarrow> jsval \<Rightarrow> jsval \<Rightarrow> grpc_error option" where
  "httpStatusError j response body = map_option (\<lambda>sm.
     serviceError (mapHttpStatusToCode (sm_status sm))
       (''upstream http '' @ num_str (sm_status sm) @
        (case sm_statusText sm of Some t \<Rightarrow> '' '' @ t | None \<Rightarrow> []))
       (Some sm)) (safeErrorSummary j response body JUndef)"

section \<open>HTTP\<close>

definition normalizeTimeoutMs :: "jsval \<Rightarrow> jsnum \<Rightarrow> jsnum" where
  "normalizeTimeoutMs value fallback = (let t = to_num value in
     if is_finite_num t \<and> num_lt (Fin 0) t then t else fallback)"

text \<open>
  A call of \<open>fetchWithTimeout\<close>: what happens to it before its request settles, in order, and how the
  request settles: with a response, or with an error, whose message is given when it is an \<open>Error\<close>.
\<close>

datatype call_event = TimerFired | SignalAborted

record flags =
  timedOut :: bool
  externalAborted :: bool
  request_aborted :: bool

text \<open>An already aborted signal acts at once; the timer and a later abort set their flag and abort the request.\<close>

fun on_event :: "call_event \<Rightarrow> flags \<Rightarrow> flags" where
  "on_event TimerFired fl = fl\<lparr>timedOut := True, request_aborted := True\<rparr>"
| "on_event SignalAborted fl = fl\<lparr>externalAborted := True, request_aborted := True\<rparr>"

definition call_start :: "bool \<Rightarrow> flags" where
  "call_start aborted = (let fl = \<lparr>timedOut = False, externalAborted = False, request_aborted = False\<rparr>
     in if aborted then on_event SignalAborted fl else fl)"

definition fetchWithTimeout ::
  "json \<Rightarrow> jsval \<Rightarrow> jsval \<Rightarrow> bool \<Rightarrow> call_event list \<Rightarrow> string option + 'response \<Rightarrow> (grpc_error + 'response) option" where
  "fetchWithTimeout j optTimeout initTimeout aborted evs settled = (
     let timeoutMs = normalizeTimeoutMs (coalesce optTimeout initTimeout) (Fin 30000);
         fl = fold on_event evs (call_start aborted)
     in case settled of
          Inr response \<Rightarrow> Some (Inr response)
        | Inl message \<Rightarrow>
            if timedOut fl then Some (Inl (serviceError ''DEADLINE_EXCEEDED''
              (''upstream request timed out after '' @ num_str timeoutMs @ ''ms'') None))
            else if externalAborted fl then Some (Inl (serviceError ''CANCELLED'' ''upstream request aborted'' None))
            else map_option (\<lambda>t. Inl (serviceError ''UNAVAILABLE'' t None))
              (redacted_text j (case message of Some t \<Rightarrow> t | None \<Rightarrow> ''upstream request failed'')))"

text \<open>\<open>response.text()\<close> that fails gives the message of its error, if it is an \<open>Error\<close>.\<close>

definition readResponseText :: "json \<Rightarrow> string option + jsval \<Rightarrow> (grpc_error + string) option" where
  "readResponseText j body = (case body of
     Inr v \<Rightarrow> Some (Inr (to_str (coalesce v (JStr []))))
   | Inl message \<Rightarrow> map_option (\<lambda>t. Inl (serviceError ''UNAVAILABLE'' (''failed to read upstream response body: '' @ t) None))
       (redacted_text j (case message of Some t \<Rightarrow> t | None \<Rightarrow> ''unknown error'')))"

text \<open>The message of the error of \<open>JSON.parse\<close> is the argument \<open>why\<close>.\<close>

definition readResponseJson :: "json \<Rightarrow> (string \<Rightarrow> string) \<Rightarrow> string option + jsval \<Rightarrow> (grpc_error + string \<times> jsval) option" where
  "readResponseJson j why body = (case readResponseText j body of
     None \<Rightarrow> None
   | Some (Inl e) \<Rightarrow> Some (Inl e)
   | Some (Inr t) \<Rightarrow> if t = [] then Some (Inr (t, JUndef))
       else (case json_parse j t of
           Some v \<Rightarrow> Some (Inr (t, v))
         | None \<Rightarrow> map_option (\<lambda>m. Inl (serviceError ''INTERNAL'' (''failed to parse upstream JSON response: '' @ m) None))
             (redacted_text j (why t))))"

definition assertOkResponse :: "json \<Rightarrow> jsval \<Rightarrow> string option + jsval \<Rightarrow> (grpc_error + jsval) option" where
  "assertOkResponse j response body = (if truthy (pget response ''ok'') then Some (Inr response)
     else (case readResponseText j body of
         None \<Rightarrow> None
       | Some (Inl e) \<Rightarrow> Some (Inl e)
       | Some (Inr t) \<Rightarrow> map_option Inl (httpStatusError j response (JStr t))))"

section \<open>Fuel\<close>

text \<open>A property of every string of a value, keys aside.\<close>

fun all_strings :: "(string \<Rightarrow> bool) \<Rightarrow> jsval \<Rightarrow> bool" where
  "all_strings P (JStr s) = P s"
| "all_strings P (JArr vs) = (\<forall>v \<in> set vs. all_strings P v)"
| "all_strings P (JObj fs) = (\<forall>p \<in> set fs. all_strings P (snd p))"
| "all_strings P JUndef = True"
| "all_strings P JNull = True"
| "all_strings P (JBool b) = True"
| "all_strings P (JNum n) = True"

text \<open>The strings of a value written as JSON text are shorter than the text.\<close>

definition json_shrinks :: "json \<Rightarrow> bool" where
  "json_shrinks j \<longleftrightarrow> (\<forall>t v. json_parse j t = Some v \<longrightarrow> all_strings (\<lambda>s. length s < length t) v)"

lemma those_Some_iff: "those xs = Some ys \<longleftrightarrow> xs = map Some ys"
  by (induction xs arbitrary: ys) (auto simp: Cons_eq_map_conv split: option.splits)

lemma those_map_ex: "(\<And>x. x \<in> set xs \<Longrightarrow> \<exists>y. g x = Some y) \<Longrightarrow> \<exists>ys. those (map g xs) = Some ys"
  by (induction xs) (auto split: option.splits)

lemma redact_value_total: "all_strings (\<lambda>s. f s \<noteq> None) v \<Longrightarrow> \<exists>r. redact_value f v = Some r"
proof (induction v)
  case (JArr vs)
  then have "\<exists>ys. those (map (redact_value f) vs) = Some ys" by (intro those_map_ex) auto
  then show ?case by auto
next
  case (JObj fs)
  have "\<exists>ys. those (map (\<lambda>p. if sensitive_key (fst p) then Some (fst p, JStr ''***'')
     else map_option (Pair (fst p)) (redact_value f (snd p))) fs) = Some ys"
  proof (rule those_map_ex)
    fix p assume p: "p \<in> set fs"
    then have "\<exists>r. redact_value f (snd p) = Some r"
      using JObj.IH [of p "snd p"] JObj.prems by (cases p) (auto simp: snds.simps)
    then show "\<exists>y. (if sensitive_key (fst p) then Some (fst p, JStr ''***'')
      else map_option (Pair (fst p)) (redact_value f (snd p))) = Some y" by auto
  qed
  then show ?case by auto
qed auto

lemma length_trim: "length (trim s) \<le> length s"
  by (simp add: trim_def trim_end_def trim_start_def)
     (metis length_dropWhile_le length_rev order_trans)

lemma all_strings_mono: "all_strings P v \<Longrightarrow> (\<And>s. P s \<Longrightarrow> Q s) \<Longrightarrow> all_strings Q v"
  by (induction v) (auto simp: snds.simps)

lemma redactString_enough:
  assumes "json_shrinks j"
  shows "length s < n \<Longrightarrow> redactString j n s \<noteq> None"
proof (induction n arbitrary: s)
  case (Suc n)
  have "redactJsonString j (redactString j n) s \<noteq> None"
  proof (cases "json_parse j (trim s)")
    case (Some v)
    then have "all_strings (\<lambda>t. length t < length (trim s)) v" using assms by (auto simp: json_shrinks_def)
    then have "all_strings (\<lambda>t. redactString j n t \<noteq> None) v"
      using Suc length_trim [of s] by (elim all_strings_mono) simp
    from redact_value_total [OF this] Some show ?thesis
      by (auto simp: redactJsonString_def Let_def)
  qed (simp add: redactJsonString_def Let_def)
  then show ?case by (auto split: option.splits)
qed simp

lemma all_strings_true: "(\<And>s. P s) \<Longrightarrow> all_strings P v"
  by (induction v) (auto simp: snds.simps)

lemma redactSensitive_total: "json_shrinks j \<Longrightarrow> \<exists>r. redactSensitive j v = Some r"
  unfolding redactSensitive_def
  by (rule redact_value_total, rule all_strings_true) (rule redactString_enough, auto)

text \<open>More fuel does not change a result.\<close>

lemma those_map_mono:
  assumes "\<And>x y. x \<in> set xs \<Longrightarrow> g x = Some y \<Longrightarrow> h x = Some y" and "those (map g xs) = Some ys"
  shows "those (map h xs) = Some ys"
  using assms by (induction xs arbitrary: ys) (auto split: option.splits)

lemma redact_value_mono:
  assumes fg: "\<And>s r. f s = Some r \<Longrightarrow> g s = Some r"
  shows "redact_value f v = Some r \<Longrightarrow> redact_value g v = Some r"
proof (induction v arbitrary: r)
  case (JArr vs)
  then obtain ys where ys: "those (map (redact_value f) vs) = Some ys" "r = JArr ys" by auto
  from those_map_mono [OF _ ys(1), of "redact_value g"] JArr.IH
  have "those (map (redact_value g) vs) = Some ys" by blast
  with ys(2) show ?case by simp
next
  case (JObj fs)
  let ?h = "\<lambda>f p. if sensitive_key (fst p) then Some (fst p, JStr ''***'')
     else map_option (Pair (fst p)) (redact_value f (snd p))"
  obtain ys where ys: "those (map (?h f) fs) = Some ys" "r = JObj ys" using JObj.prems by auto
  have "those (map (?h g) fs) = Some ys"
  proof (rule those_map_mono [OF _ ys(1)])
    fix p y assume p: "p \<in> set fs" "?h f p = Some y"
    show "?h g p = Some y"
    proof (cases "sensitive_key (fst p)")
      case False
      with p(2) obtain x where x: "redact_value f (snd p) = Some x" "y = (fst p, x)" by auto
      from JObj.IH [of p "snd p" x] p(1) x(1) have "redact_value g (snd p) = Some x"
        by (cases p) (auto simp: snds.simps)
      with x(2) False show ?thesis by simp
    qed (use p(2) in simp)
  qed
  with ys(2) show ?case by simp
qed (auto simp: fg)

lemma redactJsonString_mono:
  assumes "\<And>s r. f s = Some r \<Longrightarrow> g s = Some r" and "redactJsonString j f s = Some x"
  shows "redactJsonString j g s = Some x"
proof (cases "json_parse j (trim s)")
  case (Some v)
  show ?thesis
  proof (cases "redact_value f v")
    case None
    with assms(2) Some show ?thesis by (simp add: redactJsonString_def Let_def split: if_splits)
  next
    case r: (Some r)
    with assms(1) have "redact_value g v = Some r" by (rule redact_value_mono)
    with assms(2) Some r show ?thesis by (auto simp: redactJsonString_def Let_def split: if_splits)
  qed
qed (use assms(2) in \<open>simp add: redactJsonString_def Let_def split: if_splits\<close>)

lemma redactString_Suc: "redactString j n s = Some r \<Longrightarrow> redactString j (Suc n) s = Some r"
proof (induction n arbitrary: s r)
  case (Suc n)
  obtain x where x: "redactJsonString j (redactString j n) s = Some x"
    using Suc.prems by (auto split: option.splits)
  from redactJsonString_mono [OF Suc.IH this]
  have "redactJsonString j (redactString j (Suc n)) s = Some x" .
  with x Suc.prems show ?case by (simp only: redactString.simps option.case)
qed simp

lemma redactString_more:
  assumes "redactString j n s = Some r" and "n \<le> m"
  shows "redactString j m s = Some r"
  using assms(2) assms(1)
  by (induction m rule: dec_induct) (simp_all only: redactString_Suc)

section \<open>Properties\<close>

text \<open>Every field with a sensitive name, at every depth, holds three stars.\<close>

fun masked :: "jsval \<Rightarrow> bool" where
  "masked (JArr vs) = (\<forall>v \<in> set vs. masked v)"
| "masked (JObj fs) = (\<forall>p \<in> set fs. if sensitive_key (fst p) then snd p = JStr ''***'' else masked (snd p))"
| "masked _ = True"

lemma redact_value_masked: "redact_value f v = Some r \<Longrightarrow> masked r"
proof (induction v arbitrary: r)
  case (JArr vs)
  then obtain ys where ys: "map (redact_value f) vs = map Some ys" "r = JArr ys"
    by (auto simp: those_Some_iff)
  have "masked y" if "y \<in> set ys" for y
  proof -
    have "Some y \<in> set (map (redact_value f) vs)" using ys(1) that by simp
    with JArr.IH show ?thesis by auto
  qed
  with ys(2) show ?case by simp
next
  case (JObj fs)
  let ?h = "\<lambda>p. if sensitive_key (fst p) then Some (fst p, JStr ''***'')
     else map_option (Pair (fst p)) (redact_value f (snd p))"
  obtain ys where ys: "map ?h fs = map Some ys" "r = JObj ys"
    using JObj.prems by (auto simp: those_Some_iff)
  have "if sensitive_key (fst y) then snd y = JStr ''***'' else masked (snd y)" if "y \<in> set ys" for y
  proof -
    have "Some y \<in> set (map ?h fs)" using ys(1) that by simp
    then obtain p where p: "p \<in> set fs" "Some y = ?h p" by auto
    show ?thesis
    proof (cases "sensitive_key (fst p)")
      case False
      with p(2) obtain x where x: "redact_value f (snd p) = Some x" "y = (fst p, x)"
        by (cases "redact_value f (snd p)") auto
      from JObj.IH [of p "snd p" x] p(1) x(1) have "masked x" by (auto simp: snds.simps)
      with x(2) False show ?thesis by simp
    qed (use p(2) in simp)
  qed
  with ys(2) show ?case by simp
qed auto

lemma redaction_hides_sensitive_fields_facts:
  assumes "json_shrinks j"
  shows "\<exists>r. redactSensitive j v = Some r \<and> masked r"
    and "json_parse j (trim t) = Some w \<Longrightarrow> hd (trim t) \<in> {CHR ''{'', CHR ''[''} \<Longrightarrow> trim t \<noteq> [] \<Longrightarrow>
      \<exists>r. redacted_text j t = Some (json_text j r) \<and> masked r"
proof -
  from redactSensitive_total [OF assms] show "\<exists>r. redactSensitive j v = Some r \<and> masked r"
    unfolding redactSensitive_def using redact_value_masked by blast
next
  assume p: "json_parse j (trim t) = Some w" "hd (trim t) \<in> {CHR ''{'', CHR ''[''}" "trim t \<noteq> []"
  from redactString_enough [OF assms, of t "Suc (length t)"]
  have "redactString j (Suc (length t)) t \<noteq> None" by simp
  then obtain r where r: "redact_value (redactString j (length t)) w = Some r"
    using p by (auto simp: redactJsonString_def Let_def split: option.splits)
  then have "redacted_text j t = Some (json_text j r)"
    using p by (auto simp: redacted_text_def redactJsonString_def Let_def)
  with redact_value_masked [OF r] show "\<exists>r. redacted_text j t = Some (json_text j r) \<and> masked r" by blast
qed

text \<open>A parser of one text, enough to try the redaction.\<close>

definition sample_json :: json where
  "sample_json = \<lparr>json_parse = (\<lambda>t. if t = ''{...}'' then
       Some (JObj [(''user'', JStr ''u''), (''n'', JObj [(''apiKey'', JStr ''k'')])]) else None),
     json_text = (\<lambda>v. case v of JObj [(a, _), (b, JObj [(c, JStr d)])] \<Rightarrow> d | _ \<Rightarrow> [])\<rparr>"

lemma sample_json_shrinks: "json_shrinks sample_json"
  by (simp add: json_shrinks_def sample_json_def)



lemma flags_after: "timedOut (fold on_event evs fl) \<longleftrightarrow> timedOut fl \<or> TimerFired \<in> set evs"
  "externalAborted (fold on_event evs fl) \<longleftrightarrow> externalAborted fl \<or> SignalAborted \<in> set evs"
proof (induction evs arbitrary: fl)
  case (Cons e evs)
  { case 1 show ?case using Cons by (cases e) auto }
  { case 2 show ?case using Cons by (cases e) auto }
qed simp_all

lemma fetch_failure_status_facts:
  assumes "json_shrinks j"
  shows "\<exists>r. fetchWithTimeout j ot it aborted evs settled = Some r"
    and "fetchWithTimeout j ot it aborted evs settled = Some (Inr x) \<longleftrightarrow> settled = Inr x"
    and "fetchWithTimeout j ot it aborted evs settled = Some (Inl e) \<Longrightarrow>
      ge_code e = (if TimerFired \<in> set evs then 4 else if aborted \<or> SignalAborted \<in> set evs then 1 else 14)"
    and "fetchWithTimeout j ot it aborted evs (Inl (Some m)) = Some (Inl e) \<Longrightarrow> ge_code e = 14 \<Longrightarrow>
      redacted_text j m = Some (ge_message e)"
proof -
  have total: "\<exists>x. redacted_text j t = Some x" for t
    using redactString_enough [OF assms, of t "Suc (length t)"] by (auto simp: redacted_text_def)
  show "\<exists>r. fetchWithTimeout j ot it aborted evs settled = Some r"
    using total [of "case projl settled of Some t \<Rightarrow> t | None \<Rightarrow> ''upstream request failed''"]
    by (auto simp: fetchWithTimeout_def Let_def split: sum.splits)
  show "fetchWithTimeout j ot it aborted evs settled = Some (Inr x) \<longleftrightarrow> settled = Inr x"
    by (auto simp: fetchWithTimeout_def Let_def split: sum.splits if_splits)
  have codes: "grpcCodeFor ''DEADLINE_EXCEEDED'' = 4" "grpcCodeFor ''CANCELLED'' = 1" "grpcCodeFor ''UNAVAILABLE'' = 14"
    by (simp_all add: grpcCodeFor_def code_to_status_def)
  show "ge_code e = (if TimerFired \<in> set evs then 4 else if aborted \<or> SignalAborted \<in> set evs then 1 else 14)"
    if "fetchWithTimeout j ot it aborted evs settled = Some (Inl e)"
    using that by (auto simp: fetchWithTimeout_def Let_def serviceError_def flags_after call_start_def codes
        split: sum.splits if_splits)
  show "redacted_text j m = Some (ge_message e)"
    if "fetchWithTimeout j ot it aborted evs (Inl (Some m)) = Some (Inl e)" "ge_code e = 14"
    using that by (auto simp: fetchWithTimeout_def Let_def serviceError_def codes split: if_splits)
qed

text \<open>C31: A request with a timeout fails only when the underlying request fails, and then with the status
of its cause: DEADLINE_EXCEEDED (4) when the timer fired, CANCELLED (1) when it did not and the caller
aborted, before or during the call, and UNAVAILABLE (14) otherwise, with the redacted message of the error.\<close>
theorem fetch_failure_status:
  assumes "json_shrinks j"
  shows "(\<exists>r. fetchWithTimeout j ot it aborted evs settled = Some r) \<and>
    (fetchWithTimeout j ot it aborted evs settled = Some (Inr x) \<longleftrightarrow> settled = Inr x) \<and>
    (fetchWithTimeout j ot it aborted evs settled = Some (Inl e) \<longrightarrow>
      ge_code e = (if TimerFired \<in> set evs then 4 else if aborted \<or> SignalAborted \<in> set evs then 1 else 14)) \<and>
    (settled = Inl (Some m) \<and> fetchWithTimeout j ot it aborted evs settled = Some (Inl e) \<and> ge_code e = 14 \<longrightarrow>
      redacted_text j m = Some (ge_message e))"
proof (intro conjI impI)
  note facts = fetch_failure_status_facts [OF assms]
  show "\<exists>r. fetchWithTimeout j ot it aborted evs settled = Some r" by (rule facts(1))
  show "fetchWithTimeout j ot it aborted evs settled = Some (Inr x) \<longleftrightarrow> settled = Inr x" by (rule facts(2))
  show "ge_code e = (if TimerFired \<in> set evs then 4 else if aborted \<or> SignalAborted \<in> set evs then 1 else 14)"
    if "fetchWithTimeout j ot it aborted evs settled = Some (Inl e)" by (rule facts(3) [OF that])
  show "redacted_text j m = Some (ge_message e)"
    if "settled = Inl (Some m) \<and> fetchWithTimeout j ot it aborted evs settled = Some (Inl e) \<and> ge_code e = 14"
  proof -
    from that have f: "fetchWithTimeout j ot it aborted evs settled = Some (Inl e)"
      and s: "settled = Inl (Some m)" and c: "ge_code e = 14" by blast+
    show ?thesis by (rule facts(4) [OF f [unfolded s] c])
  qed
qed

theorem fetch_failure_status_witness:
  "\<exists>r. fetchWithTimeout sample_json (JInt 50) JUndef False [SignalAborted, TimerFired] (Inl None :: string option + unit) = Some r"
  by (rule fetch_failure_status [OF sample_json_shrinks, THEN conjunct1])

text \<open>The error of a status: its body appears only as a redacted snippet of at most 160 characters.\<close>

lemma http_error_snippet:
  assumes "httpStatusError j response body = Some e"
  shows "\<exists>sm. ge_details e = Some sm \<and> (\<forall>t b. sm_body sm = Some (t, b) \<longrightarrow> length t \<le> 160 \<and>
    (\<exists>r. redacted_text j (to_str (coalesce body (JStr []))) = Some r \<and> prefix t r))"
  using assms by (auto simp: httpStatusError_def safeErrorSummary_def Let_def serviceError_def take_is_prefix)

text \<open>The second cookie of a header is not redacted, nor is what follows white space in a value.\<close>

lemma redaction_leaks:
  "redact_plain ''Cookie: a=1; b=2'' = ''Cookie: ***; b=2''"
  "redact_plain ''password=ab cd'' = ''password=*** cd''"
  by code_simp+

end
