(* ===== verification/AnswerNdr.thy ===== *)
theory AnswerNdr
  imports Connector Conversation SdkErrors
begin

text \<open>
  The T-Answer NDR connector (src/services/chaitin__t-answer-ndr/src/t-answer-ndr.js): 76 methods over the
  product's JSON-RPC, with an API token or a session of the web console, some of them of many calls that
  depend on each other. A computation is a talk over the requests sent, the waits and the readings of the
  clock so far. A result is kept as the value whose JSON text is returned; JSON.parse of that text is the
  value itself. Texts are Latin-1, so the Chinese words by which errors are classed do not occur in them.
\<close>

section \<open>The outside\<close>

text \<open>A body is none, the text of a JSON-RPC call with its id, method and parameters, or a form of files.\<close>

datatype ndr_body = NoBody | Rpc string jsval jsval | Form "(string \<times> string) list"

record ndr_request =
  nq_method :: string
  nq_url :: string
  nq_headers :: "(string \<times> jsval) list"
  nq_body :: ndr_body
  nq_timeoutMs :: int
  nq_skipTls :: bool

datatype ndr_event = Sent ndr_request | Slept int | ClockRead

record ndr_answer =
  na_status :: nat
  na_json :: "string + jsval" \<comment> \<open>\<open>response.json()\<close>\<close>
  na_bytes :: "string + string" \<comment> \<open>\<open>response.arrayBuffer()\<close>\<close>
  na_cookies :: "string list" \<comment> \<open>the Set-Cookie headers\<close>
  na_header :: "string \<Rightarrow> string option"

record ndr_world =
  nw_fetch :: "ndr_event list \<Rightarrow> ndr_request \<Rightarrow> (string \<times> string) + ndr_answer"
  nw_now :: "ndr_event list \<Rightarrow> int"
  nw_requestId :: "ndr_event list \<Rightarrow> string"
  nw_parse :: "string \<Rightarrow> string + jsval"
  nw_stringify :: "jsval \<Rightarrow> string"
  nw_base64 :: "string \<Rightarrow> string"
  nw_unbase64 :: "string \<Rightarrow> string"

type_synonym 'a ndr_talk = "(ndr_event, failure, 'a) talk"

abbreviation invalid_argument :: "string \<Rightarrow> failure" where
  "invalid_argument message \<equiv> Failure ''INVALID_ARGUMENT'' message"

section \<open>Configuration\<close>

record ndr_config =
  nc_endpoint :: string
  nc_timeoutMs :: int
  nc_skipTlsVerify :: bool
  nc_maxDownloadBytes :: int
  nc_apiToken :: jsval

definition DEFAULT_TIMEOUT_MS :: int where "DEFAULT_TIMEOUT_MS = 5000"
definition DEFAULT_MAX_DOWNLOAD_BYTES :: int where "DEFAULT_MAX_DOWNLOAD_BYTES = 33554432"
definition DEFAULT_LOOKBACK_DAYS :: int where "DEFAULT_LOOKBACK_DAYS = 30"
definition DEFAULT_PAGE_SIZE :: int where "DEFAULT_PAGE_SIZE = 20"
definition DEFAULT_PCAP_ANALYSIS_TIMEOUT_MS :: int where "DEFAULT_PCAP_ANALYSIS_TIMEOUT_MS = 60000"
definition MAX_PCAP_ANALYSIS_TIMEOUT_MS :: int where "MAX_PCAP_ANALYSIS_TIMEOUT_MS = 600000"
definition DEFAULT_PCAP_POLL_INTERVAL_MS :: int where "DEFAULT_PCAP_POLL_INTERVAL_MS = 5000"
definition MAX_PCAP_POLL_INTERVAL_MS :: int where "MAX_PCAP_POLL_INTERVAL_MS = 60000"
definition MIN_PCAP_DURATION_MS :: int where "MIN_PCAP_DURATION_MS = 1000"

definition normalizeEndpoint :: "jsval \<Rightarrow> failure + string" where
  "normalizeEndpoint v = (let s = trim (str_or_empty v) in
     if is_http s then Inr (strip_trailing CHR ''/'' s) else Inl (invalid_argument ''config.endpoint must be an http(s) URL''))"

text \<open>\<open>Number.isInteger(v) && v > 0 ? v : fallback\<close>, and the same of \<open>Number(v)\<close>.\<close>

definition positive_num :: "jsnum \<Rightarrow> int option" where
  "positive_num n = (case n of Fin r \<Rightarrow> if of_int (floor r) = r \<and> 0 < r then Some (floor r) else None | _ \<Rightarrow> None)"

definition natural_num :: "jsnum \<Rightarrow> int option" where
  "natural_num n = (case n of Fin r \<Rightarrow> if of_int (floor r) = r \<and> 0 \<le> r then Some (floor r) else None | _ \<Rightarrow> None)"

definition or_default :: "int option \<Rightarrow> int \<Rightarrow> int" where
  "or_default n fallback = (case n of Some i \<Rightarrow> i | None \<Rightarrow> fallback)"

definition configured_int :: "jsval \<Rightarrow> int \<Rightarrow> int" where
  "configured_int v fallback = (case v of JNum n \<Rightarrow> or_default (positive_num n) fallback | _ \<Rightarrow> fallback)"

definition getConfig :: "jsval \<Rightarrow> failure + ndr_config" where
  "getConfig ctx = (let config = pget ctx ''config''; secret = pget ctx ''secret'' in
     if \<not> truthy (pget secret ''apiToken'') then Inl (Failure ''UNAUTHENTICATED'' ''secret.apiToken is required'')
     else bindE (normalizeEndpoint (pget config ''endpoint'')) (\<lambda>endpoint. Inr
       \<lparr>nc_endpoint = endpoint, nc_timeoutMs = configured_int (pget config ''timeoutMs'') DEFAULT_TIMEOUT_MS,
        nc_skipTlsVerify = truthy (pget config ''skipTlsVerify''),
        nc_maxDownloadBytes = configured_int (pget config ''maxDownloadBytes'') DEFAULT_MAX_DOWNLOAD_BYTES,
        nc_apiToken = pget secret ''apiToken''\<rparr>))"

definition getWebCredentials :: "jsval \<Rightarrow> failure + string \<times> string" where
  "getWebCredentials ctx = (let secret = pget ctx ''secret'';
       username = trim (str_or_empty (pget secret ''webUsername'')); password = str_or_empty (pget secret ''webPassword'')
     in if username = [] \<or> password = []
        then Inl (Failure ''UNAUTHENTICATED'' ''secret.webUsername and secret.webPassword are required for pcap upload/task operations'')
        else Inr (username, password))"

section \<open>Calls\<close>

definition mentions :: "string \<Rightarrow> string list \<Rightarrow> bool" where
  "mentions message ws \<longleftrightarrow> list_ex (includes_str (to_lower message)) ws"

definition statusForJsonRpcError :: "jsval \<Rightarrow> string" where
  "statusForJsonRpcError err = (let code = pget err ''code''; message = str_or_empty (pget err ''message'') in
     if \<not> (case err of JObj _ \<Rightarrow> True | JArr _ \<Rightarrow> True | _ \<Rightarrow> False) then ''UNKNOWN''
     else if code = JInt 1 then ''UNAUTHENTICATED''
     else if code = JInt 2 \<or> code = JInt 3 \<or> mentions message [''permission'', ''forbidden''] then ''PERMISSION_DENIED''
     else if code = JInt (-32602) \<or> code = JInt (-32000) \<or> mentions message [''invalid''] then ''INVALID_ARGUMENT''
     else ''FAILED_PRECONDITION'')"

text \<open>The parts that the requests share: all go to the endpoint, with its timeout and its TLS options.\<close>

definition ndr_request :: "ndr_config \<Rightarrow> string \<Rightarrow> string \<Rightarrow> (string \<times> jsval) list \<Rightarrow> ndr_body \<Rightarrow> ndr_request" where
  "ndr_request c method path headers body = \<lparr>nq_method = method, nq_url = nc_endpoint c @ path, nq_headers = headers,
     nq_body = body, nq_timeoutMs = nc_timeoutMs c, nq_skipTls = nc_skipTlsVerify c\<rparr>"

definition json_type :: "string \<times> jsval" where
  "json_type = (''content-type'', JStr ''application/json;charset=UTF-8'')"

definition token_rpc :: "ndr_config \<Rightarrow> string \<Rightarrow> jsval \<Rightarrow> jsval \<Rightarrow> ndr_request" where
  "token_rpc c rid method params = ndr_request c ''POST'' ''/rpc'' [json_type, (''API-Token'', nc_apiToken c)] (Rpc rid method params)"

definition login_rpc :: "ndr_config \<Rightarrow> string \<Rightarrow> string \<Rightarrow> string \<Rightarrow> ndr_request" where
  "login_rpc c rid username password = ndr_request c ''POST'' ''/rpc'' [json_type]
     (Rpc rid (JStr ''HeraAccountNoAuthService.Login'') (JObj [(''username'', JStr username), (''password'', JStr password)]))"

definition session_rpc :: "ndr_config \<Rightarrow> string \<Rightarrow> string \<Rightarrow> jsval \<Rightarrow> jsval \<Rightarrow> ndr_request" where
  "session_rpc c cookie rid method params = ndr_request c ''POST'' ''/rpc'' [json_type, (''cookie'', JStr cookie)] (Rpc rid method params)"

text \<open>A request, and how its failure is told: \<open>what\<close> names the kind of request in the messages.\<close>

definition fetch_error :: "ndr_config \<Rightarrow> string \<Rightarrow> string \<times> string \<Rightarrow> failure" where
  "fetch_error c what e = (if fst e = ''AbortError''
     then Failure ''DEADLINE_EXCEEDED'' (what @ '' timeout after '' @ int_str (nc_timeoutMs c) @ ''ms'')
     else Failure ''UNAVAILABLE'' (what @ '' request failed: '' @ snd e))"

definition sendT :: "ndr_world \<Rightarrow> ndr_config \<Rightarrow> string \<Rightarrow> (string \<Rightarrow> ndr_request) \<Rightarrow> ndr_answer ndr_talk" where
  "sendT w c what mk h = (let rq = mk (nw_requestId w h) in
     (h @ [Sent rq], case nw_fetch w h rq of Inl e \<Rightarrow> Inl (fetch_error c what e) | Inr a \<Rightarrow> Inr a))"

definition ok_status :: "ndr_answer \<Rightarrow> bool" where
  "ok_status a \<longleftrightarrow> 200 \<le> na_status a \<and> na_status a \<le> 299"

definition token_status :: "ndr_answer \<Rightarrow> failure + unit" where
  "token_status a = (
     if ok_status a then Inr ()
     else if na_status a = 401 then Inl (Failure ''UNAUTHENTICATED'' ''upstream rejected API token'')
     else if na_status a = 403 then Inl (Failure ''PERMISSION_DENIED'' ''upstream permission denied'')
     else Inl (Failure (if 500 \<le> na_status a then ''UNAVAILABLE'' else ''FAILED_PRECONDITION'') (''upstream HTTP '' @ nat_str (na_status a))))"

definition web_status :: "string \<Rightarrow> ndr_answer \<Rightarrow> failure + unit" where
  "web_status what a = (if ok_status a then Inr () else Inl (Failure ''UNAVAILABLE'' (what @ '' HTTP '' @ nat_str (na_status a))))"

definition parseJsonResponse :: "string \<Rightarrow> ndr_answer \<Rightarrow> failure + jsval" where
  "parseJsonResponse what a = (case na_json a of
     Inl e \<Rightarrow> Inl (Failure ''UNKNOWN'' (what @ '' returned non-JSON response: '' @ e)) | Inr v \<Rightarrow> Inr v)"

text \<open>The result of an answer, \<open>null\<close> when it has none; an error in it is thrown.\<close>

definition rpc_result :: "ndr_world \<Rightarrow> jsval \<Rightarrow> failure + jsval" where
  "rpc_result w payload = (let err = pget payload ''error'' in
     if truthy err then Inl (Failure (statusForJsonRpcError err)
       (if truthy (pget err ''message'') then to_str (pget err ''message'') else nw_stringify w err))
     else Inr (coalesce (pget payload ''result'') JNull))"

definition answer_result :: "ndr_world \<Rightarrow> string \<Rightarrow> failure + unit \<Rightarrow> ndr_answer \<Rightarrow> failure + jsval" where
  "answer_result w what status a = bindE status (\<lambda>_. bindE (parseJsonResponse what a) (rpc_result w))"

definition callJsonRpc :: "ndr_world \<Rightarrow> jsval \<Rightarrow> jsval \<Rightarrow> jsval \<Rightarrow> jsval ndr_talk" where
  "callJsonRpc w ctx method params = thenT (liftT (getConfig ctx)) (\<lambda>c.
     thenT (sendT w c ''upstream JSON-RPC'' (\<lambda>rid. token_rpc c rid method params)) (\<lambda>a.
     liftT (answer_result w ''upstream'' (token_status a) a)))"

definition cookieFromHeaders :: "ndr_answer \<Rightarrow> failure + string" where
  "cookieFromHeaders a = (let raw = (case na_cookies a of s # _ \<Rightarrow> s | [] \<Rightarrow> []); cookie = trim (hd (split_on CHR '';'' raw)) in
     if cookie = [] then Inl (Failure ''UNAUTHENTICATED'' ''web login did not return a session cookie'') else Inr cookie)"

definition webLogin :: "ndr_world \<Rightarrow> jsval \<Rightarrow> string ndr_talk" where
  "webLogin w ctx = thenT (liftT (bindE (getConfig ctx) (\<lambda>c. bindE (getWebCredentials ctx) (\<lambda>(u, p). Inr (c, u, p))))) (\<lambda>(c, u, p).
     thenT (sendT w c ''web login'' (\<lambda>rid. login_rpc c rid u p)) (\<lambda>a.
     liftT (bindE (answer_result w ''web login'' (web_status ''web login'' a) a) (\<lambda>_. cookieFromHeaders a))))"

text \<open>The session is the one given, or a new one; an empty cookie is none.\<close>

definition session :: "ndr_world \<Rightarrow> jsval \<Rightarrow> string option \<Rightarrow> string ndr_talk" where
  "session w ctx given = (case given of Some c \<Rightarrow> if c = [] then webLogin w ctx else retT c | None \<Rightarrow> webLogin w ctx)"

definition callWebJsonRpc :: "ndr_world \<Rightarrow> jsval \<Rightarrow> jsval \<Rightarrow> jsval \<Rightarrow> string option \<Rightarrow> jsval ndr_talk" where
  "callWebJsonRpc w ctx method params given = thenT (liftT (getConfig ctx)) (\<lambda>c.
     thenT (session w ctx given) (\<lambda>cookie.
     thenT (sendT w c ''upstream web JSON-RPC'' (\<lambda>rid. session_rpc c cookie rid method params)) (\<lambda>a.
     liftT (answer_result w ''upstream web JSON-RPC'' (web_status ''upstream web JSON-RPC'' a) a))))"

section \<open>Reading requests\<close>

text \<open>The first own member of these names that is neither null nor empty.\<close>

fun firstPresent :: "jsval \<Rightarrow> string list \<Rightarrow> jsval" where
  "firstPresent ob [] = JUndef"
| "firstPresent ob (key # keys) = (let v = pget ob key in
     if v \<noteq> JUndef \<and> v \<noteq> JNull \<and> v \<noteq> JStr [] then v else firstPresent ob keys)"

lemma size_of_member: "size_prod (\<lambda>x. 0) size = (\<lambda>x :: 'a \<times> jsval. Suc (size (snd x)))"
  by (rule ext) (simp add: split_beta size_prod_simp)

lemma size_in_members: "(j, v) \<in> set kvs \<Longrightarrow> size v < Suc (size_list (\<lambda>x. Suc (size (snd x))) kvs)"
  by (induction kvs) auto

lemma nested_member_size [termination_simp]:
  "map_of kvs k = Some (JObj lk) \<Longrightarrow> (j, v) \<in> set lk \<Longrightarrow> size v < Suc (size_list (\<lambda>x. Suc (size (snd x))) kvs)"
  using member_size [of kvs k "JObj lk"] size_in_members [of j v lk] by (simp add: size_of_member)

lemma nested_item_size [termination_simp]:
  "map_of kvs k = Some (JObj lk) \<Longrightarrow> map_of lk i = Some (JArr vs) \<Longrightarrow> v \<in> set vs \<Longrightarrow>
     size v < Suc (size_list (\<lambda>x. Suc (size (snd x))) kvs)"
  using member_size [of kvs k "JObj lk"] member_size [of lk i "JArr vs"] size_list_estimation' [of v vs "size v" size] by (simp add: size_of_member)

text \<open>
  Values of google.protobuf.Value and Struct in their JSON-like form, and any others, as plain values. A
  list or a struct that is none of these forms inside is read as empty.
\<close>

fun fromValue :: "jsval \<Rightarrow> jsval" and fromStruct :: "jsval \<Rightarrow> jsval" where
  "fromValue (JArr vs) = JArr (map fromValue vs)"
| "fromValue (JObj kvs) = (case map_of kvs ''nullValue'' of Some _ \<Rightarrow> JNull | None \<Rightarrow>
     (case map_of kvs ''numberValue'' of Some v \<Rightarrow> v | None \<Rightarrow>
     (case map_of kvs ''stringValue'' of Some v \<Rightarrow> v | None \<Rightarrow>
     (case map_of kvs ''boolValue'' of Some v \<Rightarrow> v | None \<Rightarrow>
     (case map_of kvs ''listValue'' of
        Some (JObj lk) \<Rightarrow> (case map_of lk ''values'' of Some (JArr vs) \<Rightarrow> JArr (map fromValue vs) | _ \<Rightarrow> JArr [])
      | Some _ \<Rightarrow> JArr [] | None \<Rightarrow>
     (case map_of kvs ''structValue'' of Some v \<Rightarrow> fromStruct v | None \<Rightarrow>
     (case map_of kvs ''fields'' of
        Some (JObj fk) \<Rightarrow> JObj (map (\<lambda>(k, v). (k, fromValue v)) fk)
      | Some _ \<Rightarrow> JObj []
      | None \<Rightarrow> JObj (map (\<lambda>(k, v). (k, fromValue v)) kvs))))))))"
| "fromValue v = v"
| "fromStruct (JObj sk) = (case map_of sk ''fields'' of Some (JObj fk) \<Rightarrow> JObj (map (\<lambda>(k, v). (k, fromValue v)) fk) | _ \<Rightarrow> JObj [])"
| "fromStruct v = JObj []"

type_synonym params = "(string \<times> jsval) list"

text \<open>The functions that add to the parameters, and what a list of them builds.\<close>

definition addIfPresent :: "jsval \<Rightarrow> string \<Rightarrow> string list \<Rightarrow> params \<Rightarrow> params" where
  "addIfPresent req outKey keys params = (let v = firstPresent req keys in
     if v \<noteq> JUndef then set_key params outKey (fromValue v) else params)"

definition addNumericIfPositive :: "jsval \<Rightarrow> string \<Rightarrow> string list \<Rightarrow> params \<Rightarrow> params" where
  "addNumericIfPositive req outKey keys params = (case positive_num (to_num (firstPresent req keys)) of
     Some i \<Rightarrow> set_key params outKey (JInt i) | None \<Rightarrow> params)"

definition addNumericIfNonNegative :: "jsval \<Rightarrow> string \<Rightarrow> string list \<Rightarrow> params \<Rightarrow> params" where
  "addNumericIfNonNegative req outKey keys params = (let raw = firstPresent req keys in
     if raw = JUndef then params
     else (case natural_num (to_num raw) of Some i \<Rightarrow> set_key params outKey (JInt i) | None \<Rightarrow> params))"

definition addArrayIfPresent :: "jsval \<Rightarrow> string \<Rightarrow> string list \<Rightarrow> params \<Rightarrow> params" where
  "addArrayIfPresent req outKey keys params = (let v = firstPresent req keys in
     if v = JUndef then params
     else set_key params outKey (case v of JArr vs \<Rightarrow> JArr (map fromValue vs) | _ \<Rightarrow> fromValue v))"

text \<open>\<open>name.replace(/_([a-z])/g, ...)\<close>.\<close>

fun snakeToCamel :: "string \<Rightarrow> string" where
  "snakeToCamel (a # b # s) = (if a = CHR ''_'' \<and> is_lower b then upper_char b # snakeToCamel s else a # snakeToCamel (b # s))"
| "snakeToCamel s = s"

definition addFilter :: "jsval \<Rightarrow> string \<Rightarrow> params \<Rightarrow> params" where
  "addFilter req name params = (case firstPresent req [name, snakeToCamel name] of
     JArr (v # vs) \<Rightarrow> set_key params name (JArr (map (\<lambda>item. JObj
       [(''oper'', coalesce (firstPresent item [''oper'']) (JStr ''='')), (''target'', fromValue (firstPresent item [''target'']))]) (v # vs)))
   | _ \<Rightarrow> params)"

definition built :: "(params \<Rightarrow> params) list \<Rightarrow> params" where
  "built adds = fold (\<lambda>add params. add params) adds []"

definition raw_params_of :: "jsval \<Rightarrow> jsval" where
  "raw_params_of req = firstPresent req [''raw_params_json'', ''rawParamsJson'']"

definition parseRawParams :: "ndr_world \<Rightarrow> jsval \<Rightarrow> failure + jsval" where
  "parseRawParams w v = (let bad = (\<lambda>m. Inl (invalid_argument (''invalid raw_params_json: '' @ m))) in
     if v = JUndef then Inr (JObj [])
     else (case nw_parse w (to_str v) of
         Inl e \<Rightarrow> bad e
       | Inr (JObj kvs) \<Rightarrow> Inr (JObj kvs)
       | Inr (JArr vs) \<Rightarrow> Inr (JArr vs)
       | Inr _ \<Rightarrow> bad ''raw_params_json must decode to an object or array''))"

definition mergeRawParams :: "ndr_world \<Rightarrow> jsval \<Rightarrow> params \<Rightarrow> failure + jsval" where
  "mergeRawParams w req params = bindE (parseRawParams w (raw_params_of req)) (\<lambda>raw. Inr (JObj (spread [JObj params, raw])))"

definition buildRawParams :: "ndr_world \<Rightarrow> jsval \<Rightarrow> failure + jsval" where
  "buildRawParams w req = parseRawParams w (raw_params_of req)"

definition parsePositiveInteger :: "jsval \<Rightarrow> int \<Rightarrow> int" where
  "parsePositiveInteger v fallback = or_default (positive_num (to_num v)) fallback"

definition parseNonNegativeInteger :: "jsval \<Rightarrow> int \<Rightarrow> int" where
  "parseNonNegativeInteger v fallback = or_default (natural_num (to_num v)) fallback"

definition normalizedString :: "jsval \<Rightarrow> string" where
  "normalizedString v = trim (to_str (coalesce v (JStr [])))"

definition eqFilter :: "jsval \<Rightarrow> jsval" where
  "eqFilter target = JArr [JObj [(''oper'', JStr ''=''), (''target'', target)]]"

definition addStringArray :: "string \<Rightarrow> jsval \<Rightarrow> params \<Rightarrow> params" where
  "addStringArray outKey v params = (let t = normalizedString v in
     if t = [] then params else set_key params outKey (JArr [JStr t]))"

definition addEqFilter :: "bool \<Rightarrow> string \<Rightarrow> jsval \<Rightarrow> params \<Rightarrow> params" where
  "addEqFilter numeric outKey v params = (let t = normalizedString v in
     if t = [] then params else set_key params outKey (eqFilter (if numeric then JNum (str_to_num t) else JStr t)))"

text \<open>The clock is read only when the request does not give both ends of the range.\<close>

definition read_clock :: "ndr_world \<Rightarrow> int ndr_talk" where
  "read_clock w = askT ClockRead (\<lambda>h. Inr (nw_now w h))"

definition time_range :: "int \<Rightarrow> int \<Rightarrow> params" where
  "time_range from_ms to_ms = [(''time_range_start'', JInt from_ms), (''time_range_end'', JInt to_ms)]"

definition buildTimeRange :: "ndr_world \<Rightarrow> jsval \<Rightarrow> params ndr_talk" where
  "buildTimeRange w req = (
     let explicitStart = positive_num (to_num (firstPresent req [''time_range_start'', ''timeRangeStart'', ''start_time'', ''startTime'']));
         explicitEnd = positive_num (to_num (firstPresent req [''time_range_end'', ''timeRangeEnd'', ''end_time'', ''endTime'']));
         days = parsePositiveInteger (firstPresent req [''days'']) DEFAULT_LOOKBACK_DAYS;
         back_from = (\<lambda>to_ms. time_range (to_ms - days * 86400000) to_ms)
     in (case (explicitStart, explicitEnd) of
         (Some s, Some e) \<Rightarrow> retT (time_range s e)
       | (None, Some e) \<Rightarrow> retT (back_from e)
       | (_, None) \<Rightarrow> thenT (read_clock w) (\<lambda>now. retT (back_from now))))"

definition newest_first :: "string \<times> jsval" where
  "newest_first = (''sort'', JArr [JObj [(''field'', JStr ''timestamp''), (''ascending'', JBool False)]])"

definition page :: "jsval \<Rightarrow> int \<Rightarrow> params" where
  "page req defaultCount = [(''offset'', JInt (parseNonNegativeInteger (firstPresent req [''offset'']) 0)),
     (''count'', JInt (parsePositiveInteger (firstPresent req [''count'']) defaultCount)), newest_first]"

definition scenario_filters :: "jsval \<Rightarrow> (params \<Rightarrow> params) list" where
  "scenario_filters req = (let attackName = firstPresent req [''attack_name'', ''attackName''] in
     [addEqFilter False ''name'' attackName,
      (if truthy attackName then (\<lambda>p. p) else addStringArray ''keyword'' (firstPresent req [''query'', ''keyword''])),
      addEqFilter False ''attacker'' (firstPresent req [''attacker_ip'', ''attackerIp'']),
      addEqFilter False ''victim'' (firstPresent req [''victim_ip'', ''victimIp'']),
      addStringArray ''asset_ip'' (firstPresent req [''asset_ip'', ''assetIp'']),
      addEqFilter True ''severity'' (firstPresent req [''severity'']),
      addEqFilter False ''result'' (firstPresent req [''result''])])"

definition buildScenarioAlertParams :: "ndr_world \<Rightarrow> jsval \<Rightarrow> int \<Rightarrow> jsval ndr_talk" where
  "buildScenarioAlertParams w req defaultCount = thenT (buildTimeRange w req) (\<lambda>tr.
     liftT (mergeRawParams w req (fold (\<lambda>add p. add p) (scenario_filters req) (tr @ page req defaultCount))))"

definition buildTrafficLogParams :: "ndr_world \<Rightarrow> jsval \<Rightarrow> jsval ndr_talk" where
  "buildTrafficLogParams w req = thenT (buildTimeRange w req) (\<lambda>tr.
     liftT (mergeRawParams w req (fold (\<lambda>add p. add p)
       [addEqFilter False ''src_ip'' (firstPresent req [''src_ip'', ''srcIp'']),
        addEqFilter False ''dest_ip'' (firstPresent req [''dest_ip'', ''destIp'']),
        addStringArray ''keyword'' (firstPresent req [''keyword'', ''query''])] (tr @ page req DEFAULT_PAGE_SIZE))))"

definition requireId :: "jsval \<Rightarrow> failure + int" where
  "requireId req = (case positive_num (to_num (firstPresent req [''id''])) of
     Some i \<Rightarrow> Inr i | None \<Rightarrow> Inl (invalid_argument ''id must be a positive integer''))"

definition requireDocId :: "jsval \<Rightarrow> failure + string" where
  "requireDocId req = (let docId = trim (str_or_empty (firstPresent req [''doc_id'', ''docId''])) in
     if docId = [] then Inl (invalid_argument ''doc_id is required'') else Inr docId)"

definition buildIdParams :: "ndr_world \<Rightarrow> jsval \<Rightarrow> failure + jsval" where
  "buildIdParams w req = bindE (requireId req) (\<lambda>i. mergeRawParams w req [(''id'', JInt i)])"

definition buildIdsParams :: "ndr_world \<Rightarrow> jsval \<Rightarrow> failure + jsval" where
  "buildIdsParams w req = (
     let ids = (case firstPresent req [''ids''] of JArr vs \<Rightarrow> List.map_filter (\<lambda>v. positive_num (to_num (fromValue v))) vs | _ \<Rightarrow> [])
     in if ids = [] \<and> raw_params_of req = JUndef then Inl (invalid_argument ''ids must contain at least one positive integer'')
        else mergeRawParams w req (if ids = [] then [] else [(''ids'', JArr (map (\<lambda>i. JInt i) ids))]))"

definition buildIdsActionParams :: "ndr_world \<Rightarrow> jsval \<Rightarrow> failure + jsval" where
  "buildIdsActionParams w req = bindE (buildIdsParams w req) (\<lambda>params.
     Inr (JObj (addIfPresent req ''action'' [''action''] (entries_of params))))"

definition buildListAlertsParams :: "ndr_world \<Rightarrow> jsval \<Rightarrow> failure + jsval" where
  "buildListAlertsParams w req = mergeRawParams w req (built ([
     addNumericIfNonNegative req ''offset'' [''offset''], addNumericIfPositive req ''count'' [''count''],
     addNumericIfPositive req ''time_range_start'' [''time_range_start'', ''timeRangeStart''],
     addNumericIfPositive req ''time_range_end'' [''time_range_end'', ''timeRangeEnd''],
     addArrayIfPresent req ''sort'' [''sort'']] @
     map (addFilter req) [''src_ip'', ''dest_ip'', ''attacker'', ''victim'', ''severity'', ''result'', ''keyword'', ''name'', ''tag'']))"

definition buildListAssetsParams :: "ndr_world \<Rightarrow> jsval \<Rightarrow> failure + jsval" where
  "buildListAssetsParams w req = mergeRawParams w req (built [
     addNumericIfNonNegative req ''offset'' [''offset''], addNumericIfPositive req ''count'' [''count''],
     addNumericIfPositive req ''id'' [''id''], addNumericIfPositive req ''group_id'' [''group_id'', ''groupId''],
     addNumericIfPositive req ''importance'' [''importance''], addIfPresent req ''ip'' [''ip''], addIfPresent req ''mac'' [''mac''],
     addIfPresent req ''name'' [''name''], addIfPresent req ''asset_type'' [''asset_type'', ''assetType''],
     addArrayIfPresent req ''tag_id'' [''tag_id'', ''tagId'']])"

definition buildDiscoveredAssetsParams :: "ndr_world \<Rightarrow> jsval \<Rightarrow> failure + jsval" where
  "buildDiscoveredAssetsParams w req = mergeRawParams w req (built [
     addNumericIfNonNegative req ''offset'' [''offset''], addNumericIfPositive req ''count'' [''count''],
     addNumericIfPositive req ''group_id'' [''group_id'', ''groupId''], addNumericIfPositive req ''importance'' [''importance''],
     addNumericIfPositive req ''port'' [''port''], addNumericIfPositive req ''time_start'' [''time_start'', ''timeStart''],
     addNumericIfPositive req ''time_end'' [''time_end'', ''timeEnd''], addIfPresent req ''ip_addr'' [''ip_addr'', ''ipAddr''],
     addIfPresent req ''mac'' [''mac''], addIfPresent req ''name'' [''name''], addIfPresent req ''os'' [''os''],
     addIfPresent req ''asset_type'' [''asset_type'', ''assetType''], addArrayIfPresent req ''service'' [''service''],
     addArrayIfPresent req ''tag_id'' [''tag_id'', ''tagId'']])"

section \<open>Files\<close>

definition indexed :: "string \<Rightarrow> nat \<Rightarrow> string \<Rightarrow> string" where
  "indexed what i rest = what @ ''['' @ nat_str i @ '']'' @ rest"

definition pcap_file :: "ndr_world \<Rightarrow> nat \<times> jsval \<Rightarrow> failure + string \<times> string" where
  "pcap_file w = (\<lambda>(i, item).
     let fileName = trim (str_or_empty (firstPresent item [''file_name'', ''fileName'']));
         contentBase64 = str_or_empty (firstPresent item [''content_base64'', ''contentBase64'']);
         bytes = nw_unbase64 w contentBase64
     in if fileName = [] then Inl (invalid_argument (indexed ''pcap_files'' i ''.file_name is required''))
        else if contentBase64 = [] then Inl (invalid_argument (indexed ''pcap_files'' i ''.content_base64 is required''))
        else if bytes = [] then Inl (invalid_argument (indexed ''pcap_files'' i '' is empty''))
        else Inr (fileName, bytes))"

definition getPcapFiles :: "ndr_world \<Rightarrow> jsval \<Rightarrow> failure + (string \<times> string) list" where
  "getPcapFiles w req = (case firstPresent req [''pcap_files'', ''pcapFiles''] of
     JArr (v # vs) \<Rightarrow> mapE (pcap_file w) (List.enumerate 0 (v # vs))
   | _ \<Rightarrow> Inl (invalid_argument ''pcap_files must contain at least one file''))"

definition UPLOAD :: string where
  "UPLOAD = ''PcapDetectUploadService.UploadPcapDetectFiles''"

definition upload_request :: "ndr_config \<Rightarrow> string \<Rightarrow> (string \<times> string) list \<Rightarrow> ndr_request" where
  "upload_request c cookie pcapFiles = ndr_request c ''POST'' (''/api/upload?id='' @ encodeURIComponent UPLOAD)
     [(''cookie'', JStr cookie)] (Form pcapFiles)"

definition uploadPcapDetectFilesInternal :: "ndr_world \<Rightarrow> jsval \<Rightarrow> (string \<times> string) list \<Rightarrow> string option \<Rightarrow> jsval ndr_talk" where
  "uploadPcapDetectFilesInternal w ctx pcapFiles given = thenT (liftT (getConfig ctx)) (\<lambda>c.
     thenT (session w ctx given) (\<lambda>cookie.
     thenT (sendT w c ''pcap upload'' (\<lambda>_. upload_request c cookie pcapFiles)) (\<lambda>a.
     liftT (answer_result w ''pcap upload'' (web_status ''pcap upload'' a) a))))"

definition uploaded_file :: "nat \<times> jsval \<Rightarrow> failure + jsval" where
  "uploaded_file = (\<lambda>(i, item).
     let fileId = trim (str_or_empty (firstPresent item [''id'']));
         fileName = trim (str_or_empty (firstPresent item [''file_name'', ''fileName'']))
     in if fileId = [] then Inl (invalid_argument (indexed ''files'' i ''.id is required''))
        else if fileName = [] then Inl (invalid_argument (indexed ''files'' i ''.file_name is required''))
        else Inr (JObj [(''id'', JStr fileId), (''file_name'', JStr fileName)]))"

definition uploadedFilesFromRequest :: "jsval \<Rightarrow> failure + jsval list" where
  "uploadedFilesFromRequest req = (case firstPresent req [''files''] of
     JArr vs \<Rightarrow> mapE uploaded_file (List.enumerate 0 vs) | _ \<Rightarrow> Inr [])"

definition detect_pattern :: "jsval \<Rightarrow> jsval" where
  "detect_pattern req = JInt (or_default (natural_num (to_num (firstPresent req [''detect_pattern'', ''detectPattern'']))) 2)"

definition buildPcapDetectTaskParams :: "ndr_world \<Rightarrow> jsval \<Rightarrow> failure + jsval" where
  "buildPcapDetectTaskParams w req = bindE (uploadedFilesFromRequest req) (\<lambda>uploads.
     mergeRawParams w req ((if uploads = [] then [] else [(''files'', JArr uploads)]) @ [(''detect_pattern'', detect_pattern req)]))"

definition buildDeletePcapDetectTaskParams :: "ndr_world \<Rightarrow> jsval \<Rightarrow> failure + jsval" where
  "buildDeletePcapDetectTaskParams w req = bindE (requireId req) (\<lambda>i. mergeRawParams w req [(''id'', JInt i),
     (''delete_strategy'', JInt (parsePositiveInteger (firstPresent req [''delete_strategy'', ''deleteStrategy'']) 1))])"

definition normalizeDurationMs :: "jsval \<Rightarrow> int \<Rightarrow> int \<Rightarrow> int \<Rightarrow> int" where
  "normalizeDurationMs raw fallback minimum maximum = (case to_num raw of
     Fin r \<Rightarrow> if r \<le> 0 then fallback else min (max (trunc_rat r) minimum) maximum | _ \<Rightarrow> fallback)"

section \<open>Calls that may fail\<close>

definition failure_value :: "failure \<Rightarrow> jsval" where
  "failure_value e = (case e of
     Failure status message \<Rightarrow> JObj [(''message'', JStr message), (''code'', JInt (int (SdkErrors.grpcCodeFor status)))]
   | Crash message \<Rightarrow> JObj [(''message'', JStr message), (''code'', JUndef)])"

definition safe_outcome :: "jsval \<Rightarrow> failure + jsval \<Rightarrow> jsval" where
  "safe_outcome params r = (case r of
     Inr v \<Rightarrow> JObj [(''ok'', JBool True), (''params'', params), (''result'', v)]
   | Inl e \<Rightarrow> JObj [(''ok'', JBool False), (''params'', params), (''error'', failure_value e)])"

text \<open>\<open>safeCall\<close> over the API token, and over a session of the web console.\<close>

definition safeCall :: "ndr_world \<Rightarrow> jsval \<Rightarrow> jsval \<Rightarrow> jsval \<Rightarrow> jsval ndr_talk" where
  "safeCall w ctx method params = thenT (tryT (callJsonRpc w ctx method params)) (\<lambda>r. retT (safe_outcome params r))"

definition safeWebCall :: "ndr_world \<Rightarrow> jsval \<Rightarrow> string option \<Rightarrow> jsval \<Rightarrow> jsval \<Rightarrow> jsval ndr_talk" where
  "safeWebCall w ctx given method params = thenT (tryT (callWebJsonRpc w ctx method params given)) (\<lambda>r. retT (safe_outcome params r))"

text \<open>\<open>await webLogin(ctx).catch(() => undefined)\<close>.\<close>

definition try_login :: "ndr_world \<Rightarrow> jsval \<Rightarrow> string option ndr_talk" where
  "try_login w ctx = thenT (tryT (webLogin w ctx)) (\<lambda>r. retT (case r of Inr c \<Rightarrow> Some c | Inl _ \<Rightarrow> None))"

section \<open>Summaries\<close>

definition resultRows :: "jsval \<Rightarrow> jsval list" where
  "resultRows v = (case (pget v ''data'', pget v ''list'', pget (pget v ''result'') ''data'') of
     (JArr vs, _) \<Rightarrow> vs | (_, JArr vs, _) \<Rightarrow> vs | (_, _, JArr vs) \<Rightarrow> vs | _ \<Rightarrow> [])"

text \<open>A read of a member throws on null.\<close>

definition member_of :: "string \<Rightarrow> jsval \<Rightarrow> failure + jsval" where
  "member_of k v = (if nullish v then Inl (Crash (''Cannot read properties of '' @ to_str v @ '' (reading '' @ [CHR 0x27] @ k @ [CHR 0x27] @ '')''))
     else Inr (pget v k))"

fun first_member :: "jsval \<Rightarrow> string list \<Rightarrow> jsval" where
  "first_member v [] = JUndef"
| "first_member v [k] = pget v k"
| "first_member v (k # ks) = coalesce (pget v k) (first_member v ks)"

definition agg_entry :: "jsval \<Rightarrow> failure + jsval \<times> jsval" where
  "agg_entry item = bindE (member_of ''key'' item) (\<lambda>_. Inr
     (coalesce (first_member item [''key'', ''name'', ''value'']) (JStr []),
      JNum (to_num (coalesce (first_member item [''doc_count'', ''count'']) (JInt 0)))))"

definition summarizeAgg :: "jsval \<Rightarrow> failure + jsval" where
  "summarizeAgg call = bindE (mapE agg_entry (resultRows (pget call ''result''))) (\<lambda>entries.
     Inr (JArr (map (\<lambda>(k, n). JObj [(''key'', k), (''count'', n)]) (filter (\<lambda>(k, n). k \<noteq> JStr []) entries))))"

definition alert_summary :: "jsval \<Rightarrow> failure + jsval" where
  "alert_summary item = bindE (member_of ''doc_id'' item) (\<lambda>docId. Inr (JObj
     [(''doc_id'', docId), (''name'', pget item ''name''), (''severity'', pget item ''severity''), (''result'', pget item ''result''),
      (''attacker'', first_member item [''attacker'', ''attacker_ip'', ''src_ip'']),
      (''victim'', first_member item [''victim'', ''victim_ip'', ''dest_ip'']),
      (''src_ip'', pget item ''src_ip''), (''dest_ip'', pget item ''dest_ip''), (''timestamp'', pget item ''timestamp''), (''msg'', pget item ''msg'')]))"

definition summarizeAlerts :: "jsval \<Rightarrow> int \<Rightarrow> failure + jsval list" where
  "summarizeAlerts call limit = mapE alert_summary (take (nat limit) (resultRows (coalesce (pget call ''result'') call)))"

definition totalOf :: "jsval \<Rightarrow> jsnum" where
  "totalOf call = to_num (coalesce (pget (coalesce (pget call ''result'') call) ''total'') (JInt 0))"

fun unique :: "'a list \<Rightarrow> 'a list" where
  "unique [] = []"
| "unique (x # xs) = x # filter (\<lambda>y. y \<noteq> x) (unique xs)"

definition uniqueStrings :: "jsval list \<Rightarrow> jsval list" where
  "uniqueStrings vs = unique (filter (\<lambda>v. case v of JStr s \<Rightarrow> trim s \<noteq> [] | _ \<Rightarrow> False) vs)"

definition trafficTotals :: "(string \<times> jsval) list \<Rightarrow> jsval" where
  "trafficTotals rawLogs = JObj (map (\<lambda>(k, v). (k, if truthy (pget v ''ok'') then JNum (totalOf v) else JNull)) rawLogs)"

definition collectPivotIps :: "jsval list list \<Rightarrow> jsval" where
  "collectPivotIps samples = JArr (uniqueStrings (concat (map (\<lambda>item. filter truthy
     [pget item ''attacker'', pget item ''victim'', pget item ''src_ip'', pget item ''dest_ip'']) (concat samples))))"

section \<open>Scenarios\<close>

definition request_of_ctx :: "jsval \<Rightarrow> jsval" where
  "request_of_ctx ctx = coalesce (pget ctx ''request'') (JObj [])"

abbreviation LIST_ALERTS :: jsval where "LIST_ALERTS \<equiv> JStr ''AlarmService.SearchAlarmList''"
abbreviation ALERT_AGG_TOP :: jsval where "ALERT_AGG_TOP \<equiv> JStr ''AlarmService.SearchAlarmAggTop''"
abbreviation LIST_ASSETS :: jsval where "LIST_ASSETS \<equiv> JStr ''AssetService.GetAssetList''"
abbreviation HTTP_LOGS :: jsval where "HTTP_LOGS \<equiv> JStr ''LogSearchService.SearchOrigDataHTTPLog''"
abbreviation DNS_LOGS :: jsval where "DNS_LOGS \<equiv> JStr ''LogSearchService.SearchOrigDataDNSLog''"
abbreviation TCP_UDP_LOGS :: jsval where "TCP_UDP_LOGS \<equiv> JStr ''LogSearchService.SearchOrigDataTCPUDPLog''"
abbreviation OTHER_LOGS :: jsval where "OTHER_LOGS \<equiv> JStr ''LogSearchService.SearchOtherOrigDataLog''"

definition searchAttackRecords :: "ndr_world \<Rightarrow> jsval \<Rightarrow> jsval ndr_talk" where
  "searchAttackRecords w ctx = thenT (buildScenarioAlertParams w (request_of_ctx ctx) DEFAULT_PAGE_SIZE) (callJsonRpc w ctx LIST_ALERTS)"

text \<open>\<open>{ ...base, attacker: eqFilter(ip) }\<close> and the calls of the profiles: a name, a method and the parameters.\<close>

definition with_filter :: "params \<Rightarrow> string \<Rightarrow> string \<Rightarrow> jsval" where
  "with_filter base k ip = JObj (set_key base k (eqFilter (JStr ip)))"

definition top_of :: "params \<Rightarrow> string \<Rightarrow> params" where
  "top_of base agg = from_entries (base @ [(''agg'', JStr agg), (''top'', JInt 10)])"

definition safe_calls :: "ndr_world \<Rightarrow> jsval \<Rightarrow> (string \<times> jsval \<times> jsval) list \<Rightarrow> (string \<times> jsval) list ndr_talk" where
  "safe_calls w ctx calls = forT (\<lambda>(name, method, params). thenT (safeCall w ctx method params) (\<lambda>r. retT (name, r))) calls"

definition safe_tops :: "ndr_world \<Rightarrow> jsval \<Rightarrow> string option \<Rightarrow> (string \<times> params) list \<Rightarrow> (string \<times> jsval) list ndr_talk" where
  "safe_tops w ctx given calls = forT (\<lambda>(name, params). thenT (safeWebCall w ctx given ALERT_AGG_TOP (JObj params)) (\<lambda>r. retT (name, r))) calls"

definition ip_of :: "jsval \<Rightarrow> failure + string" where
  "ip_of req = (let ip = normalizedString (firstPresent req [''ip'']) in
     if ip = [] then Inl (invalid_argument ''ip is required'') else Inr ip)"

definition asset_params :: "string \<Rightarrow> jsval" where
  "asset_params ip = JObj [(''ip'', JStr ip), (''offset'', JInt 0), (''count'', JInt 5)]"

definition wants_raw_logs :: "jsval \<Rightarrow> bool" where
  "wants_raw_logs req = truthy (firstPresent req [''include_raw_logs'', ''includeRawLogs''])"

definition ip_guidance :: jsval where
  "ip_guidance = JArr [JStr ''alerts_as_attacker shows attacks where the IP is the attacker.'',
     JStr ''alerts_as_victim shows attacks where the IP is the victim.'',
     JStr ''asset summarizes the managed asset record when the IP is known to the device.'']"

definition analyze_role :: "ndr_world \<Rightarrow> jsval \<Rightarrow> string option \<Rightarrow> params \<Rightarrow> params \<Rightarrow> string \<Rightarrow> string \<Rightarrow> params ndr_talk" where
  "analyze_role w ctx given tr base ip as = thenT (safeCall w ctx LIST_ALERTS (with_filter base as ip)) (\<lambda>alerts.
     thenT (safeWebCall w ctx given ALERT_AGG_TOP (with_filter (top_of tr ''name'') as ip)) (\<lambda>names.
     retT [(''alerts_as_'' @ as, alerts), (''top_attack_names_as_'' @ as, names)]))"

definition ip_base :: "jsval \<Rightarrow> int \<Rightarrow> params \<Rightarrow> params" where
  "ip_base req count tr = tr @ [(''offset'', JInt 0), (''count'', JInt (parsePositiveInteger (firstPresent req [''count'']) count)), newest_first]"

definition analyzeIpActivity :: "ndr_world \<Rightarrow> jsval \<Rightarrow> jsval ndr_talk" where
  "analyzeIpActivity w ctx = (let req = request_of_ctx ctx in thenT (liftT (ip_of req)) (\<lambda>ip.
     let r = to_lower (normalizedString (firstPresent req [''role''])); role = (if r = [] then ''any'' else r) in
     thenT (buildTimeRange w req) (\<lambda>tr.
     let base = ip_base req 10 tr in
     thenT (safeCall w ctx LIST_ASSETS (asset_params ip)) (\<lambda>asset.
     thenT (if role \<in> set [''any'', ''attacker'', ''victim''] then try_login w ctx else retT None) (\<lambda>given.
     thenT (if role \<in> set [''any'', ''attacker''] then analyze_role w ctx given tr base ip ''attacker'' else retT []) (\<lambda>attacker.
     thenT (if role \<in> set [''any'', ''victim''] then analyze_role w ctx given tr base ip ''victim'' else retT []) (\<lambda>victim.
     thenT (if wants_raw_logs req then thenT (safe_calls w ctx
         [(''http_src'', HTTP_LOGS, with_filter base ''src_ip'' ip), (''http_dest'', HTTP_LOGS, with_filter base ''dest_ip'' ip),
          (''dns_src'', DNS_LOGS, with_filter base ''src_ip'' ip), (''dns_dest'', DNS_LOGS, with_filter base ''dest_ip'' ip)])
         (\<lambda>logs. retT [(''raw_logs'', JObj logs)]) else retT []) (\<lambda>logs.
     retT (JObj ([(''ip'', JStr ip), (''role'', JStr role), (''timeRange'', JObj tr), (''guidance'', ip_guidance), (''asset'', asset)] @
       attacker @ victim @ logs)))))))))) "

definition topic_keys :: "string list" where
  "topic_keys = [''name'', ''keyword'', ''attacker'', ''victim'', ''asset_ip'', ''severity'', ''result'']"

definition range_of :: "jsval \<Rightarrow> params" where
  "range_of p = [(''time_range_start'', pget p ''time_range_start''), (''time_range_end'', pget p ''time_range_end'')]"

definition top_base :: "jsval \<Rightarrow> params" where
  "top_base p = range_of p @ map (\<lambda>k. (k, pget p k)) (filter (\<lambda>k. pget p k \<noteq> JUndef) topic_keys)"

definition query_of :: "jsval \<Rightarrow> jsval" where
  "query_of req = coalesce (firstPresent req [''query'', ''keyword'', ''attack_name'', ''attackName'']) (JStr [])"

definition huntThreats :: "ndr_world \<Rightarrow> jsval \<Rightarrow> jsval ndr_talk" where
  "huntThreats w ctx = (let req = request_of_ctx ctx in
     thenT (buildScenarioAlertParams w req (parsePositiveInteger (firstPresent req [''count'']) 20)) (\<lambda>alertParams.
     thenT (safeCall w ctx LIST_ALERTS alertParams) (\<lambda>alerts.
     thenT (try_login w ctx) (\<lambda>given.
     thenT (safe_tops w ctx given [(''top_attack_names'', top_of (top_base alertParams) ''name''),
         (''top_attackers'', top_of (top_base alertParams) ''attacker''), (''top_victims'', top_of (top_base alertParams) ''victim'')]) (\<lambda>tops.
     retT (JObj ([(''query'', query_of req), (''alertParams'', alertParams), (''alerts'', alerts)] @ tops)))))))"

text \<open>The summaries of the aggregations of a campaign or a profile, under their names.\<close>

definition agg_summaries :: "(string \<times> string) list \<Rightarrow> (string \<times> jsval) list \<Rightarrow> failure + (string \<times> jsval) list" where
  "agg_summaries names calls = mapE (\<lambda>(shown, name). bindE (summarizeAgg (pget (JObj calls) name)) (\<lambda>s. Inr (shown, s))) names"

definition investigateAttackCampaign :: "ndr_world \<Rightarrow> jsval \<Rightarrow> jsval ndr_talk" where
  "investigateAttackCampaign w ctx = (let req = request_of_ctx ctx; count = parsePositiveInteger (firstPresent req [''count'']) 10 in
     thenT (buildScenarioAlertParams w req count) (\<lambda>alertParams.
     thenT (safeCall w ctx LIST_ALERTS alertParams) (\<lambda>alerts.
     thenT (try_login w ctx) (\<lambda>given.
     thenT (safe_tops w ctx given [(''top_attack_names'', top_of (top_base alertParams) ''name''),
         (''top_attackers'', top_of (top_base alertParams) ''attacker''), (''top_victims'', top_of (top_base alertParams) ''victim''),
         (''top_results'', top_of (top_base alertParams) ''result'')]) (\<lambda>tops.
     thenT (liftT (summarizeAlerts alerts count)) (\<lambda>sampleAlerts.
     thenT (liftT (agg_summaries (map (\<lambda>(k, v). (k, k)) tops) tops)) (\<lambda>summaries.
     retT (JObj [(''type'', JStr ''attack_campaign_investigation''), (''query'', query_of req), (''timeRange'', JObj (range_of alertParams)),
       (''filters'', alertParams),
       (''summary'', JObj ([(''total_alerts'', JNum (totalOf alerts))] @ summaries @ [(''pivot_ips'', collectPivotIps [sampleAlerts])])),
       (''evidence'', JObj [(''sample_alerts'', JArr sampleAlerts)]),
       (''raw'', JObj ((''alerts'', alerts) # tops))]))))))))"

definition dominant_role :: "jsnum \<Rightarrow> jsnum \<Rightarrow> string" where
  "dominant_role a v = (if num_eq a (Fin 0) \<and> num_eq v (Fin 0) then ''none'' else if num_eq a v then ''mixed''
     else if num_lt v a then ''attacker'' else ''victim'')"

definition profile_tops :: "params \<Rightarrow> string \<Rightarrow> (string \<times> params) list" where
  "profile_tops tr ip = (let top = (\<lambda>agg as. set_key (top_of tr agg) as (eqFilter (JStr ip))) in
     [(''top_attack_names_as_attacker'', top ''name'' ''attacker''), (''top_victims_when_attacker'', top ''victim'' ''attacker''),
      (''top_attack_names_as_victim'', top ''name'' ''victim''), (''top_attackers_when_victim'', top ''attacker'' ''victim''),
      (''top_results_as_attacker'', top ''result'' ''attacker''), (''top_results_as_victim'', top ''result'' ''victim'')])"

definition profile_logs :: "params \<Rightarrow> string \<Rightarrow> (string \<times> jsval \<times> jsval) list" where
  "profile_logs base ip = concat (map (\<lambda>(name, method).
     [(name @ ''_src'', method, with_filter base ''src_ip'' ip), (name @ ''_dest'', method, with_filter base ''dest_ip'' ip)])
     [(''http'', HTTP_LOGS), (''dns'', DNS_LOGS), (''tcp_udp'', TCP_UDP_LOGS), (''other'', OTHER_LOGS)])"

definition summary_order :: "string list" where
  "summary_order = [''top_attack_names_as_attacker'', ''top_victims_when_attacker'', ''top_results_as_attacker'',
     ''top_attack_names_as_victim'', ''top_attackers_when_victim'', ''top_results_as_victim'']"

definition profile_result :: "string \<Rightarrow> params \<Rightarrow> int \<Rightarrow> jsval \<Rightarrow> jsval \<Rightarrow> jsval \<Rightarrow> (string \<times> jsval) list \<Rightarrow> (string \<times> jsval) list option \<Rightarrow> failure + jsval" where
  "profile_result ip tr count asset asAttacker asVictim tops logs =
     bindE (summarizeAlerts asAttacker count) (\<lambda>attackerSamples.
     bindE (summarizeAlerts asVictim count) (\<lambda>victimSamples.
     bindE (agg_summaries (map (\<lambda>k. (k, k)) summary_order) tops) (\<lambda>summaries.
     Inr (JObj [(''type'', JStr ''ip_threat_profile''), (''ip'', JStr ip), (''timeRange'', JObj tr),
       (''summary'', JObj ([(''asset_query_ok'', JBool (truthy (pget asset ''ok''))),
          (''asset_known'', JBool (num_lt (Fin 0) (totalOf asset) \<or> resultRows (pget asset ''result'') \<noteq> [])),
          (''alerts_as_attacker'', JNum (totalOf asAttacker)), (''alerts_as_victim'', JNum (totalOf asVictim)),
          (''dominant_role'', JStr (dominant_role (totalOf asAttacker) (totalOf asVictim)))] @ summaries @
          [(''traffic_totals'', (case logs of Some ls \<Rightarrow> trafficTotals ls | None \<Rightarrow> JUndef)),
           (''pivot_ips'', collectPivotIps [attackerSamples, victimSamples])])),
       (''evidence'', JObj [(''asset'', pget asset ''result''), (''sample_alerts_as_attacker'', JArr attackerSamples),
          (''sample_alerts_as_victim'', JArr victimSamples)]),
       (''raw'', JObj ([(''asset'', asset), (''alerts_as_attacker'', asAttacker), (''alerts_as_victim'', asVictim)] @
          map (\<lambda>k. (k, pget (JObj tops) k)) summary_order @
          [(''raw_logs'', (case logs of Some ls \<Rightarrow> JObj ls | None \<Rightarrow> JUndef))]))]))))"

definition assessIpThreatProfile :: "ndr_world \<Rightarrow> jsval \<Rightarrow> jsval ndr_talk" where
  "assessIpThreatProfile w ctx = (let req = request_of_ctx ctx; count = parsePositiveInteger (firstPresent req [''count'']) 5 in
     thenT (liftT (ip_of req)) (\<lambda>ip.
     thenT (buildTimeRange w req) (\<lambda>tr.
     let base = ip_base req 5 tr in
     thenT (safeCall w ctx LIST_ASSETS (asset_params ip)) (\<lambda>asset.
     thenT (safeCall w ctx LIST_ALERTS (with_filter base ''attacker'' ip)) (\<lambda>asAttacker.
     thenT (safeCall w ctx LIST_ALERTS (with_filter base ''victim'' ip)) (\<lambda>asVictim.
     thenT (try_login w ctx) (\<lambda>given.
     thenT (safe_tops w ctx given (profile_tops tr ip)) (\<lambda>tops.
     thenT (if wants_raw_logs req then thenT (safe_calls w ctx (profile_logs base ip)) (\<lambda>ls. retT (Some ls)) else retT None) (\<lambda>logs.
     liftT (profile_result ip tr count asset asAttacker asVictim tops logs))))))))))"

text \<open>
  The method of a protocol as the lookup in a plain object finds it: a name that every object inherits
  finds a function, which has no JSON text, or the prototype.
\<close>

definition method_by_protocol :: "string \<Rightarrow> jsval option" where
  "method_by_protocol p = (case map_of [(''http'', HTTP_LOGS), (''dns'', DNS_LOGS), (''tcp_udp'', TCP_UDP_LOGS), (''tcpudp'', TCP_UDP_LOGS),
       (''tcp/udp'', TCP_UDP_LOGS), (''other'', OTHER_LOGS)] p of
     Some m \<Rightarrow> Some m
   | None \<Rightarrow> if p = ''__proto__'' then Some (JObj []) else if p \<in> set object_prototype_names then Some JUndef else None)"

definition selected_protocols :: "string \<Rightarrow> failure + (string \<times> jsval) list" where
  "selected_protocols protocol = (
     if protocol = ''all'' then Inr [(''http'', HTTP_LOGS), (''dns'', DNS_LOGS), (''tcp_udp'', TCP_UDP_LOGS), (''other'', OTHER_LOGS)]
     else (case method_by_protocol protocol of
         None \<Rightarrow> Inl (invalid_argument ''protocol must be one of all, http, dns, tcp_udp, tcpudp, tcp/udp, other'')
       | Some m \<Rightarrow> Inr [(protocol, m)]))"

definition traffic_calls :: "jsval \<Rightarrow> string \<Rightarrow> string \<times> jsval \<Rightarrow> (string \<times> jsval \<times> jsval) list" where
  "traffic_calls params ip = (\<lambda>(name, method). [(name @ ''_src'', method, with_filter (entries_of params) ''src_ip'' ip),
     (name @ ''_dest'', method, with_filter (entries_of params) ''dest_ip'' ip)])"

definition searchTrafficLogs :: "ndr_world \<Rightarrow> jsval \<Rightarrow> jsval ndr_talk" where
  "searchTrafficLogs w ctx = (let req = request_of_ctx ctx; p = to_lower (normalizedString (firstPresent req [''protocol'']));
       protocol = (if p = [] then ''all'' else p); ip = normalizedString (firstPresent req [''ip'']) in
     thenT (liftT (selected_protocols protocol)) (\<lambda>selected.
     thenT (buildTrafficLogParams w req) (\<lambda>params.
     if ip = [] then (if length selected = 1 then callJsonRpc w ctx (snd (hd selected)) params
        else thenT (safe_calls w ctx (map (\<lambda>(name, method). (name, method, params)) selected)) (\<lambda>results.
          retT (JObj [(''protocol'', JStr protocol), (''params'', params), (''results'', JObj results)])))
     else thenT (safe_calls w ctx (concat (map (traffic_calls params ip) selected))) (\<lambda>results.
       retT (JObj [(''protocol'', JStr protocol), (''ip'', JStr ip), (''params'', params), (''results'', JObj results)])))))"

section \<open>Offline detection\<close>

definition CREATE_TASK :: jsval where "CREATE_TASK = JStr ''PcapDetectService.CreatePcapDetectTask''"
definition LIST_TASKS :: jsval where "LIST_TASKS = JStr ''PcapDetectService.GetPcapDetectTaskList''"
definition LIST_TASK_ALERTS :: jsval where "LIST_TASK_ALERTS = JStr ''PcapDetectService.SearchPcapDetectAlarmList''"

definition array_or_empty :: "jsval \<Rightarrow> jsval list" where
  "array_or_empty v = (case v of JArr vs \<Rightarrow> vs | _ \<Rightarrow> [])"

definition task_ids :: "jsval \<Rightarrow> int list" where
  "task_ids createTask = List.map_filter (\<lambda>item. positive_num (to_num (firstPresent item [''pcap_detect_task_id'', ''pcapDetectTaskId''])))
     (array_or_empty (pget createTask ''pcap_detect_tasks''))"

text \<open>The created tasks in a list of tasks, and whether they are all there and finished.\<close>

definition own_task :: "int list \<Rightarrow> jsval \<Rightarrow> failure + bool" where
  "own_task ids item = bindE (member_of ''id'' item) (\<lambda>v. Inr (\<exists>i \<in> set ids. to_num v = Fin (of_int i)))"

definition own_tasks :: "int list \<Rightarrow> jsval \<Rightarrow> failure + jsval list" where
  "own_tasks ids taskList = (let listed = array_or_empty (pget taskList ''pcap_detect_task_list'') in
     bindE (mapE (own_task ids) listed) (\<lambda>flags. Inr (map fst (filter snd (zip listed flags)))))"

definition all_finished :: "int list \<Rightarrow> jsval list \<Rightarrow> bool" where
  "all_finished ids tasks \<longleftrightarrow> length ids \<le> length tasks \<and>
     list_all (\<lambda>item. to_num (pget item ''replay_status'') \<in> {Fin 2, Fin 3}) tasks"

definition list_tasks :: "ndr_world \<Rightarrow> jsval \<Rightarrow> int list \<Rightarrow> jsval list ndr_talk" where
  "list_tasks w ctx ids = thenT (callJsonRpc w ctx LIST_TASKS (JObj [(''limit'', JInt 100), (''offset'', JInt 0)]))
     (\<lambda>taskList. liftT (own_tasks ids taskList))"

text \<open>
  \<open>while (Date.now() <= deadline)\<close>: the loop ends when the tasks are finished, when a call throws or when
  the clock is past the deadline; on a clock that stands still it may not end, which is no value.
\<close>

partial_function (option) poll_tasks ::
  "ndr_world \<Rightarrow> jsval \<Rightarrow> int list \<Rightarrow> int \<Rightarrow> int \<Rightarrow> jsval list \<Rightarrow> ndr_event list \<Rightarrow> (ndr_event list \<times> (failure + jsval list)) option" where
  "poll_tasks w ctx ids interval deadline tasks h = (
     if deadline < nw_now w h then Some (h @ [ClockRead], Inr tasks)
     else case list_tasks w ctx ids (h @ [ClockRead]) of
         (h1, Inl e) \<Rightarrow> Some (h1, Inl e)
       | (h1, Inr ts) \<Rightarrow> if all_finished ids ts then Some (h1, Inr ts)
           else poll_tasks w ctx ids interval deadline ts (h1 @ [Slept interval]))"

definition wait_for_tasks :: "ndr_world \<Rightarrow> jsval \<Rightarrow> int list \<Rightarrow> ndr_event list \<Rightarrow> (ndr_event list \<times> (failure + jsval list)) option" where
  "wait_for_tasks w ctx ids h = (let req = request_of_ctx ctx;
       timeoutMs = normalizeDurationMs (firstPresent req [''timeout_ms'', ''timeoutMs'']) DEFAULT_PCAP_ANALYSIS_TIMEOUT_MS
         MIN_PCAP_DURATION_MS MAX_PCAP_ANALYSIS_TIMEOUT_MS;
       pollIntervalMs = normalizeDurationMs (firstPresent req [''poll_interval_ms'', ''pollIntervalMs'']) DEFAULT_PCAP_POLL_INTERVAL_MS
         MIN_PCAP_DURATION_MS MAX_PCAP_POLL_INTERVAL_MS
     in if truthy (firstPresent req [''wait_for_completion'', ''waitForCompletion''])
        then poll_tasks w ctx ids pollIntervalMs (nw_now w h + timeoutMs) [] (h @ [ClockRead])
        else Some (h, Inr []))"

definition task_alerts :: "ndr_world \<Rightarrow> jsval \<Rightarrow> int \<Rightarrow> jsval ndr_talk" where
  "task_alerts w ctx taskId = thenT (callJsonRpc w ctx LIST_TASK_ALERTS (JObj [(''count'', JInt 100), (''offset'', JInt 0),
       (''pcap_detect_task_id'', eqFilter (JStr (int_str taskId)))])) (\<lambda>r.
     retT (JObj [(''taskId'', JInt taskId), (''result'', r)]))"

text \<open>A result that is returned as JSON text, or a file.\<close>

datatype ndr_reply = ResultJson jsval | Download string string string

definition pcap_result :: "jsval \<Rightarrow> jsval \<Rightarrow> jsval list \<Rightarrow> jsval list \<Rightarrow> ndr_reply" where
  "pcap_result upload createTask tasks alerts = ResultJson (JObj [(''upload'', upload), (''createTask'', createTask),
     (''tasks'', JArr tasks), (''alerts'', JArr alerts)])"

definition start_analysis :: "ndr_world \<Rightarrow> jsval \<Rightarrow> (jsval \<times> jsval option) ndr_talk" where
  "start_analysis w ctx = (let req = request_of_ctx ctx in
     thenT (liftT (getPcapFiles w req)) (\<lambda>pcapFiles.
     thenT (webLogin w ctx) (\<lambda>cookie.
     thenT (uploadPcapDetectFilesInternal w ctx pcapFiles (Some cookie)) (\<lambda>upload.
     let files' = coalesce (pget upload ''files'') (JArr []) in
     if array_or_empty files' = [] then retT (upload, None)
     else thenT (callWebJsonRpc w ctx CREATE_TASK (JObj [(''files'', files'), (''detect_pattern'', detect_pattern req)]) (Some cookie))
       (\<lambda>createTask. retT (upload, Some createTask))))))"

definition analyzePcapFiles :: "ndr_world \<Rightarrow> jsval \<Rightarrow> ndr_event list \<Rightarrow> (ndr_event list \<times> (failure + ndr_reply)) option" where
  "analyzePcapFiles w ctx h = (case start_analysis w ctx h of
     (h1, Inl e) \<Rightarrow> Some (h1, Inl e)
   | (h1, Inr (upload, None)) \<Rightarrow> Some (h1, Inr (pcap_result upload JNull [] []))
   | (h1, Inr (upload, Some createTask)) \<Rightarrow> (case wait_for_tasks w ctx (task_ids createTask) h1 of
         None \<Rightarrow> None
       | Some (h2, Inl e) \<Rightarrow> Some (h2, Inl e)
       | Some (h2, Inr tasks) \<Rightarrow> Some (thenT (forT (task_alerts w ctx) (task_ids createTask))
           (\<lambda>alerts. retT (pcap_result upload createTask tasks alerts)) h2)))"

section \<open>Downloads\<close>

text \<open>\<open>/filename\*=UTF-8''([^;]+)/i\<close>, the first place where it matches, and \<open>/filename="?([^";]+)"?/i\<close>.\<close>

fun utf8_name :: "string \<Rightarrow> string option" where
  "utf8_name s = (let p = ''filename*=utf-8'' @ [CHR 0x27, CHR 0x27]; g = takeWhile (\<lambda>c. c \<noteq> CHR '';'') (drop (length p) s) in
     if to_lower (take (length p) s) = p \<and> g \<noteq> [] then Some g else (case s of [] \<Rightarrow> None | _ # r \<Rightarrow> utf8_name r))"

fun ascii_name :: "string \<Rightarrow> string option" where
  "ascii_name s = (let p = ''filename=''; r = drop (length p) s; r1 = (if starts_with r [CHR 0x22] then tl r else r);
       g = takeWhile (\<lambda>c. c \<noteq> CHR 0x22 \<and> c \<noteq> CHR '';'') r1 in
     if to_lower (take (length p) s) = p \<and> g \<noteq> [] then Some g else (case s of [] \<Rightarrow> None | _ # r \<Rightarrow> ascii_name r))"

declare utf8_name.simps [simp del] ascii_name.simps [simp del]

definition strip_quotes :: "string \<Rightarrow> string" where
  "strip_quotes s = (let s1 = (if starts_with s [CHR 0x22] then tl s else s) in
     if s1 \<noteq> [] \<and> last s1 = CHR 0x22 then butlast s1 else s1)"

definition parseFilename :: "string \<Rightarrow> string" where
  "parseFilename v = (case Option.bind (utf8_name v) (\<lambda>g. decodeURIComponent (strip_quotes (trim g))) of
     Some s \<Rightarrow> s | None \<Rightarrow> (case ascii_name v of Some g \<Rightarrow> trim g | None \<Rightarrow> []))"

text \<open>\<open>URLSearchParams.toString()\<close>.\<close>

definition form_char :: "char \<Rightarrow> string" where
  "form_char c = (if is_alnum c \<or> c \<in> set ''*-._'' then [c] else if c = CHR '' '' then ''+'' else concat (map percent (utf8_of c)))"

definition form_text :: "string \<Rightarrow> string" where
  "form_text s = concat (map form_char s)"

definition download_query :: "ndr_world \<Rightarrow> jsval \<Rightarrow> failure + string" where
  "download_query w req = (let fileId = trim (str_or_empty (firstPresent req [''id''])); query = trim (str_or_empty (firstPresent req [''query'']));
       queryJson = firstPresent req [''query_json'', ''queryJson''] in
     if fileId = [] then Inl (invalid_argument ''id is required'')
     else if query = [] \<and> queryJson = JUndef then Inl (invalid_argument ''query or query_json is required'')
     else Inr (''id='' @ form_text fileId @ ''&query='' @
       form_text (if query \<noteq> [] then query else nw_base64 w (concat (map (map char_of \<circ> utf8_of) (to_str queryJson))))))"

definition download_request :: "ndr_config \<Rightarrow> string \<Rightarrow> ndr_request" where
  "download_request c query = ndr_request c ''GET'' (''/api/download?'' @ query) [(''API-Token'', nc_apiToken c)] NoBody"

definition downloaded :: "ndr_world \<Rightarrow> ndr_config \<Rightarrow> ndr_answer \<Rightarrow> failure + ndr_reply" where
  "downloaded w c a = bindE (token_status a) (\<lambda>_. case na_bytes a of
     Inl e \<Rightarrow> Inl (Crash e)
   | Inr bytes \<Rightarrow> if nc_maxDownloadBytes c < int (length bytes)
       then Inl (Failure ''RESOURCE_EXHAUSTED'' (''upstream download exceeds '' @ int_str (nc_maxDownloadBytes c) @ '' bytes''))
       else Inr (Download (case na_header a ''content-type'' of Some t \<Rightarrow> t | None \<Rightarrow> [])
         (parseFilename (case na_header a ''content-disposition'' of Some d \<Rightarrow> d | None \<Rightarrow> [])) (nw_base64 w bytes)))"

definition download :: "ndr_world \<Rightarrow> jsval \<Rightarrow> ndr_reply ndr_talk" where
  "download w ctx = thenT (liftT (bindE (getConfig ctx) (\<lambda>c. bindE (download_query w (request_of_ctx ctx)) (\<lambda>q. Inr (c, q))))) (\<lambda>(c, q).
     thenT (sendT w c ''upstream download'' (\<lambda>_. download_request c q)) (\<lambda>a. liftT (downloaded w c a)))"

section \<open>The methods\<close>

type_synonym ndr_method = "ndr_world \<Rightarrow> jsval \<Rightarrow> ndr_event list \<Rightarrow> (ndr_event list \<times> (failure + ndr_reply)) option"

definition direct :: "(ndr_world \<Rightarrow> jsval \<Rightarrow> jsval ndr_talk) \<Rightarrow> ndr_method" where
  "direct f w ctx h = Some (thenT (f w ctx) (\<lambda>v. retT (ResultJson v)) h)"

definition rpc_method :: "string \<Rightarrow> (ndr_world \<Rightarrow> jsval \<Rightarrow> failure + jsval) \<Rightarrow> ndr_method" where
  "rpc_method method build = direct (\<lambda>w ctx. thenT (liftT (build w (request_of_ctx ctx))) (callJsonRpc w ctx (JStr method)))"

definition web_method :: "string \<Rightarrow> (ndr_world \<Rightarrow> jsval \<Rightarrow> failure + jsval) \<Rightarrow> ndr_method" where
  "web_method method build = direct (\<lambda>w ctx. thenT (liftT (build w (request_of_ctx ctx))) (\<lambda>p. callWebJsonRpc w ctx (JStr method) p None))"

definition downloadFile :: ndr_method where
  "downloadFile w ctx h = Some (download w ctx h)"

definition uploadPcapDetectFiles :: "ndr_world \<Rightarrow> jsval \<Rightarrow> jsval ndr_talk" where
  "uploadPcapDetectFiles w ctx = thenT (liftT (getPcapFiles w (request_of_ctx ctx)))
     (\<lambda>pcapFiles. uploadPcapDetectFilesInternal w ctx pcapFiles None)"

definition docIdParams :: "ndr_world \<Rightarrow> jsval \<Rightarrow> failure + jsval" where
  "docIdParams w req = bindE (requireDocId req) (\<lambda>d. Inr (JObj [(''doc_id'', JStr d)]))"

definition idParams :: "ndr_world \<Rightarrow> jsval \<Rightarrow> failure + jsval" where
  "idParams w req = bindE (requireId req) (\<lambda>i. Inr (JObj [(''id'', JInt i)]))"

definition assetTreeParams :: "ndr_world \<Rightarrow> jsval \<Rightarrow> failure + jsval" where
  "assetTreeParams w req = mergeRawParams w req (built [addIfPresent req ''keyword'' [''keyword'']])"

definition assetGroupsParams :: "ndr_world \<Rightarrow> jsval \<Rightarrow> failure + jsval" where
  "assetGroupsParams w req = mergeRawParams w req (built [addNumericIfPositive req ''id'' [''id''], addIfPresent req ''name'' [''name'']])"

definition assetTagsParams :: "ndr_world \<Rightarrow> jsval \<Rightarrow> failure + jsval" where
  "assetTagsParams w req = mergeRawParams w req (built [addNumericIfNonNegative req ''offset'' [''offset''],
     addNumericIfPositive req ''count'' [''count''], addIfPresent req ''name'' [''name'']])"

text \<open>The methods of chaitin.t_answer_ndr.v1.TAnswerNdrService.\<close>

definition ndr_handlers :: "(string \<times> ndr_method) list" where
  "ndr_handlers = [
     (''ListAlerts'', rpc_method ''AlarmService.SearchAlarmList'' buildListAlertsParams),
     (''SearchAttackRecords'', direct searchAttackRecords),
     (''AnalyzeIpActivity'', direct analyzeIpActivity),
     (''HuntThreats'', direct huntThreats),
     (''InvestigateAttackCampaign'', direct investigateAttackCampaign),
     (''AssessIpThreatProfile'', direct assessIpThreatProfile),
     (''GetAlert'', rpc_method ''AlarmService.GetAlarm'' docIdParams),
     (''GetAlertRawDocument'', rpc_method ''AlarmService.GetAlarmDocument'' docIdParams),
     (''CountAlerts'', web_method ''AlarmService.SearchAlarmCount'' buildRawParams),
     (''ListAlertAggregations'', web_method ''AlarmService.SearchAlarmAggList'' buildRawParams),
     (''ListAlertAggregationsT2'', web_method ''AlarmService.SearchAlarmAggListT2'' buildRawParams),
     (''ListAlertAggTop'', web_method ''AlarmService.SearchAlarmAggTop'' buildRawParams),
     (''ListAlertChart'', web_method ''AlarmService.SearchAlarmListChart'' buildRawParams),
     (''LoadAlertPcapFile'', web_method ''AlarmService.LoadPcapFile'' buildRawParams),
     (''ListAlertPcapFrames'', web_method ''AlarmService.ListPcapFrames'' buildRawParams),
     (''FilterAlertPcapFrames'', web_method ''AlarmService.FilterPcapFrames'' buildRawParams),
     (''GetAlertPcapFrame'', web_method ''AlarmService.GetPcapFrame'' buildRawParams),
     (''CheckAlertPcapDownload'', web_method ''AlarmService.DownloadCheckPcap'' buildRawParams),
     (''ListCustomIntelligences'', rpc_method ''AlarmService.SearchAlarmCustomIntelligenceList'' buildRawParams),
     (''CreateCustomIntelligence'', rpc_method ''AlarmService.CreateAlarmCustomIntelligence'' buildRawParams),
     (''UpdateCustomIntelligence'', rpc_method ''AlarmService.UpdateAlarmCustomIntelligence'' buildRawParams),
     (''UpdateCustomIntelligenceStatus'', rpc_method ''AlarmService.UpdateAlarmCustomIntelligenceStatus'' buildRawParams),
     (''DeleteCustomIntelligence'', rpc_method ''AlarmService.DeleteAlarmCustomIntelligence'' buildIdsParams),
     (''ListCustomRules'', rpc_method ''AlarmService.SearchAlarmCustomRuleList'' buildRawParams),
     (''CreateCustomRule'', rpc_method ''AlarmService.CreateAlarmCustomRule'' buildRawParams),
     (''UpdateCustomRule'', rpc_method ''AlarmService.UpdateAlarmCustomRule'' buildRawParams),
     (''UpdateCustomRuleStatus'', rpc_method ''AlarmService.UpdateAlarmCustomRuleStatus'' buildRawParams),
     (''DeleteCustomRule'', rpc_method ''AlarmService.DeleteAlarmCustomRule'' buildIdsParams),
     (''CreateAlarmWhiteList'', rpc_method ''AlarmService.CreateWhiteList'' buildRawParams),
     (''UpdateAlarmWhiteList'', rpc_method ''AlarmService.UpdateWhiteList'' buildRawParams),
     (''DeleteAlarmWhiteList'', rpc_method ''AlarmService.DeleteWhiteList'' buildIdsActionParams),
     (''ListAssets'', rpc_method ''AssetService.GetAssetList'' buildListAssetsParams),
     (''GetAsset'', rpc_method ''AssetService.GetAssetInfo'' idParams),
     (''SearchAssetTree'', rpc_method ''AssetService.SearchAssetTree'' assetTreeParams),
     (''ListAssetGroups'', rpc_method ''AssetService.SearchGroups'' assetGroupsParams),
     (''ListAssetTags'', rpc_method ''AssetService.SearchTags'' assetTagsParams),
     (''ListDiscoveredAssets'', rpc_method ''AssetIdentifyApi.SearchAssetIdentify'' buildDiscoveredAssetsParams),
     (''BatchCreateFirewallWhiteList'', rpc_method ''FirewallService.BatchCreateWhiteList'' buildRawParams),
     (''CreateFirewallWhiteList'', rpc_method ''FirewallService.CreateWhiteList'' buildRawParams),
     (''UpdateFirewallWhiteList'', rpc_method ''FirewallService.UpdateWhiteList'' buildRawParams),
     (''UpdateFirewallWhiteListStatus'', rpc_method ''FirewallService.UpdateWhiteListStatus'' buildRawParams),
     (''DeleteFirewallWhiteList'', rpc_method ''FirewallService.DeleteWhiteList'' buildIdsParams),
     (''DeleteAllFirewallWhiteList'', rpc_method ''FirewallService.DeleteAllWhiteList'' buildRawParams),
     (''CreateBlockRules'', rpc_method ''RulesService.CreateBlockRules'' buildRawParams),
     (''UpdateBlockRules'', rpc_method ''RulesService.UpdateBlockRules'' buildRawParams),
     (''UpdateBlockRulesStatus'', rpc_method ''RulesService.UpdateBlockRulesStatus'' buildRawParams),
     (''DeleteAllBlockRules'', rpc_method ''RulesService.DeleteAllBlockRules'' buildRawParams),
     (''ListBlockRules'', rpc_method ''RulesService.SearchBlockRules'' buildRawParams),
     (''ListBlockRulesTrend'', rpc_method ''RulesService.SearchBlockRulesTrend'' buildRawParams),
     (''ListTapBlockRecords'', rpc_method ''RulesService.SearchTapBlockRecordList'' buildRawParams),
     (''CountTapBlocks'', rpc_method ''RulesService.TapBlockCountStatistics'' buildRawParams),
     (''ListTopTapBlocks'', rpc_method ''RulesService.TapBlockTop'' buildRawParams),
     (''ListPcapDetectTasks'', rpc_method ''PcapDetectService.GetPcapDetectTaskList'' buildRawParams),
     (''UploadPcapDetectFiles'', direct uploadPcapDetectFiles),
     (''CreatePcapDetectTask'', web_method ''PcapDetectService.CreatePcapDetectTask'' buildPcapDetectTaskParams),
     (''DeletePcapDetectTask'', web_method ''PcapDetectService.DeletePcapDetectTask'' buildDeletePcapDetectTaskParams),
     (''AnalyzePcapFiles'', analyzePcapFiles),
     (''ListPcapDetectAlerts'', rpc_method ''PcapDetectService.SearchPcapDetectAlarmList'' buildRawParams),
     (''GetPcapDetectAlert'', rpc_method ''PcapDetectService.GetAlarm'' docIdParams),
     (''GetPcapDetectAlertRawDocument'', web_method ''PcapDetectService.GetAlarmDocument'' docIdParams),
     (''DownloadPcap'', rpc_method ''PcapDownloadService.DownloadPcap'' buildRawParams),
     (''MultiDownloadPcap'', rpc_method ''PcapDownloadService.MultiDownloadPcap'' buildRawParams),
     (''SearchHttpLogs'', rpc_method ''LogSearchService.SearchOrigDataHTTPLog'' buildRawParams),
     (''SearchDnsLogs'', rpc_method ''LogSearchService.SearchOrigDataDNSLog'' buildRawParams),
     (''SearchTcpUdpLogs'', rpc_method ''LogSearchService.SearchOrigDataTCPUDPLog'' buildRawParams),
     (''SearchOtherLogs'', rpc_method ''LogSearchService.SearchOtherOrigDataLog'' buildRawParams),
     (''SearchTrafficLogs'', direct searchTrafficLogs),
     (''GetOriginalLogDetail'', rpc_method ''LogSearchService.GetOrigDataLogDetail'' buildRawParams),
     (''MultiDownloadLogJson'', rpc_method ''LogSearchService.MultiDownloadLogJSON'' buildRawParams),
     (''ListTcpdumpProcesses'', rpc_method ''TcpdumpService.SearchTcpdumpProcess'' buildRawParams),
     (''CreateTcpdumpProcess'', rpc_method ''TcpdumpService.CreateTcpdumpProcess'' buildRawParams),
     (''UpdateTcpdumpProcess'', rpc_method ''TcpdumpService.UpdateTcpdumpProcess'' buildRawParams),
     (''StartTcpdumpProcess'', rpc_method ''TcpdumpService.StartTcpdumpProcess'' buildIdParams),
     (''CancelTcpdumpProcess'', rpc_method ''TcpdumpService.CancelTcpdumpProcess'' buildIdParams),
     (''DeleteTcpdumpProcess'', rpc_method ''TcpdumpService.DeleteTcpdumpProcess'' buildIdsParams),
     (''DownloadFile'', downloadFile)]"

end
