(* ===== verification/AnswerNdrOwn.thy ===== *)
theory AnswerNdrOwn
  imports AnswerNdr
begin

text \<open>
  The properties of the T-Answer NDR connector: all its requests are the instance's own, an analysis of
  captures ends, and what some requests come to that their callers may not expect.
\<close>

section \<open>Whose requests they are\<close>

definition token_call :: "ndr_config \<Rightarrow> ndr_request \<Rightarrow> bool" where
  "token_call c rq \<longleftrightarrow> (\<exists>rid method params. rq = token_rpc c rid method params) \<or> (\<exists>query. rq = download_request c query)"

definition session_call :: "ndr_config \<Rightarrow> string \<Rightarrow> ndr_request \<Rightarrow> bool" where
  "session_call c cookie rq \<longleftrightarrow> (\<exists>rid method params. rq = session_rpc c cookie rid method params) \<or>
     (\<exists>pcapFiles. rq = upload_request c cookie pcapFiles)"

definition login_call :: "jsval \<Rightarrow> ndr_config \<Rightarrow> ndr_request \<Rightarrow> bool" where
  "login_call ctx c rq \<longleftrightarrow> (\<exists>u p rid. getWebCredentials ctx = Inr (u, p) \<and> rq = login_rpc c rid u p)"

text \<open>A cookie that the answer to a login among these events has set.\<close>

definition session_given :: "ndr_world \<Rightarrow> jsval \<Rightarrow> ndr_event list \<Rightarrow> string \<Rightarrow> bool" where
  "session_given w ctx h cookie \<longleftrightarrow> (\<exists>past rq rest c a. h = past @ Sent rq # rest \<and> getConfig ctx = Inr c \<and> login_call ctx c rq \<and>
     nw_fetch w past rq = Inr a \<and> cookieFromHeaders a = Inr cookie)"

definition own_event :: "ndr_world \<Rightarrow> jsval \<Rightarrow> ndr_event list \<Rightarrow> ndr_event \<Rightarrow> bool" where
  "own_event w ctx past ev = (case ev of
     Sent rq \<Rightarrow> (\<exists>c. getConfig ctx = Inr c \<and> (token_call c rq \<or> login_call ctx c rq \<or>
       (\<exists>cookie. session_given w ctx past cookie \<and> session_call c cookie rq)))
   | Slept ms \<Rightarrow> 1000 \<le> ms \<and> ms \<le> 60000
   | ClockRead \<Rightarrow> True)"

definition own_events :: "ndr_world \<Rightarrow> jsval \<Rightarrow> ndr_event list \<Rightarrow> bool" where
  "own_events w ctx h \<longleftrightarrow> (\<forall>i < length h. own_event w ctx (take i h) (h ! i))"

lemma own_events_Nil [simp]: "own_events w ctx []"
  by (simp add: own_events_def)

lemma own_events_snoc: "own_events w ctx (h @ [ev]) \<longleftrightarrow> own_events w ctx h \<and> own_event w ctx h ev"
  by (auto simp: own_events_def less_Suc_eq nth_append)

text \<open>Own events, and a session that is given, if it is not empty.\<close>

definition own_with :: "ndr_world \<Rightarrow> jsval \<Rightarrow> string option \<Rightarrow> ndr_event list \<Rightarrow> bool" where
  "own_with w ctx given h \<longleftrightarrow> own_events w ctx h \<and> (\<forall>c. given = Some c \<longrightarrow> c \<noteq> [] \<longrightarrow> session_given w ctx h c)"

lemma session_given_snoc: "session_given w ctx h c \<Longrightarrow> session_given w ctx (h @ [ev]) c"
  unfolding session_given_def by (metis append.assoc append_Cons)

lemma own_with_snoc: "own_with w ctx given h \<Longrightarrow> own_event w ctx h ev \<Longrightarrow> own_with w ctx given (h @ [ev])"
  by (auto simp: own_with_def own_events_snoc session_given_snoc)

lemma own_with_None: "own_with w ctx None = own_events w ctx" "own_with w ctx given h \<Longrightarrow> own_events w ctx h"
  by (auto simp: own_with_def)

lemma keeps_send:
  "(\<And>h rid. own_with w ctx given h \<Longrightarrow> own_event w ctx h (Sent (mk rid))) \<Longrightarrow> keeps (own_with w ctx given) (sendT w c what mk)"
  by (auto simp: keeps_iff sendT_def Let_def own_with_snoc)

lemma keeps_rpc: "keeps (own_with w ctx given) (callJsonRpc w ctx method params)"
  unfolding callJsonRpc_def
  by (intro keeps_lift_then keeps_then keeps_send keeps_ret) (auto simp: own_event_def token_call_def)

lemma login_yields: "yields (own_with w ctx given) (webLogin w ctx) (\<lambda>cookie h. own_with w ctx given h \<and> session_given w ctx h cookie)"
proof -
  have sends: "own_with w ctx given (h @ [Sent (login_rpc c rid u p)])"
    if "own_with w ctx given h" "getConfig ctx = Inr c" "getWebCredentials ctx = Inr (u, p)" for h c rid u p
    using that by (auto intro!: own_with_snoc simp: own_event_def login_call_def)
  have gives: "session_given w ctx (h @ [Sent (login_rpc c rid u p)]) cookie"
    if "getConfig ctx = Inr c" "getWebCredentials ctx = Inr (u, p)" "nw_fetch w h (login_rpc c rid u p) = Inr a" "cookieFromHeaders a = Inr cookie"
    for h c rid u p a cookie
    using that unfolding session_given_def login_call_def by blast
  show ?thesis
    unfolding yields_def webLogin_def thenT_def liftT_def sendT_def Let_def
    by (auto simp: sends gives split: sum.splits prod.splits)
qed

lemma session_yields: "yields (own_with w ctx given) (session w ctx given) (\<lambda>cookie h. own_with w ctx given h \<and> session_given w ctx h cookie)"
  using login_yields [of w ctx given] unfolding session_def
  by (cases given) (auto simp: yields_def retT_def own_with_def)

lemma keeps_session_then:
  assumes "\<And>c cookie rid. getConfig ctx = Inr c \<Longrightarrow> session_call c cookie (mk c cookie rid)"
  shows "keeps (own_with w ctx given) (thenT (liftT (getConfig ctx)) (\<lambda>c. thenT (session w ctx given) (\<lambda>cookie.
     thenT (sendT w c what (mk c cookie)) (\<lambda>a. liftT (f a)))))"
proof (rule keeps_lift_then)
  fix c assume c: "getConfig ctx = Inr c"
  show "keeps (own_with w ctx given) (thenT (session w ctx given) (\<lambda>cookie. thenT (sendT w c what (mk c cookie)) (\<lambda>a. liftT (f a))))"
  proof (rule keeps_then_strong [OF session_yields])
    fix cookie h assume h: "own_with w ctx given h \<and> session_given w ctx h cookie"
    have "own_event w ctx h (Sent (mk c cookie rid))" for rid
      using assms [OF c, of cookie rid] c h unfolding own_event_def by auto
    then have "own_with w ctx given (h @ [Sent (mk c cookie rid)])" for rid
      using h by (blast intro: own_with_snoc)
    then show "own_with w ctx given (fst (thenT (sendT w c what (mk c cookie)) (\<lambda>a. liftT (f a)) h))"
      by (simp add: fst_thenT sendT_def liftT_def Let_def split: sum.split)
  qed
qed

lemma keeps_web: "keeps (own_with w ctx given) (callWebJsonRpc w ctx method params given)"
  unfolding callWebJsonRpc_def by (rule keeps_session_then) (auto simp: session_call_def)

lemma keeps_upload: "keeps (own_with w ctx given) (uploadPcapDetectFilesInternal w ctx pcapFiles given)"
  unfolding uploadPcapDetectFilesInternal_def by (rule keeps_session_then) (auto simp: session_call_def)

lemma keeps_clock: "keeps (own_with w ctx given) (read_clock w)"
  by (auto simp: keeps_iff read_clock_def askT_def own_event_def intro!: own_with_snoc)

lemma keeps_time_range: "keeps (own_with w ctx given) (buildTimeRange w req)"
  unfolding buildTimeRange_def Let_def by (auto intro!: keeps_then keeps_clock split: option.split)

lemma keeps_safe: "keeps (own_with w ctx given) (safeCall w ctx method params)" "keeps (own_with w ctx given) (safeWebCall w ctx given method params)"
  unfolding safeCall_def safeWebCall_def by (intro keeps_then keeps_try keeps_rpc keeps_web keeps_ret)+


lemma login_then:
  assumes "\<And>cookie. keeps (own_with w ctx (Some cookie)) (f cookie)"
  shows "keeps (own_events w ctx) (thenT (webLogin w ctx) f)"
proof (rule keeps_then_strong)
  show "yields (own_events w ctx) (webLogin w ctx) (\<lambda>cookie. own_with w ctx (Some cookie))"
    using login_yields [of w ctx None] unfolding yields_def own_with_def by simp
next
  fix x h assume "own_with w ctx (Some x) h"
  then show "own_events w ctx (fst (f x h))" using assms [of x] own_with_None(2) unfolding keeps_iff by blast
qed

lemma try_login_then:
  assumes "\<And>given. keeps (own_with w ctx given) (f given)"
  shows "keeps (own_events w ctx) (thenT (try_login w ctx) f)"
proof (rule keeps_then_strong)
  have "own_with w ctx (case r of Inr c \<Rightarrow> Some c | Inl _ \<Rightarrow> None) h'" if "own_events w ctx h" "webLogin w ctx h = (h', r)" for h h' r
    using login_yields [of w ctx None] that unfolding yields_def own_with_def by (cases r) force+
  then show "yields (own_events w ctx) (try_login w ctx) (own_with w ctx)"
    using login_yields [of w ctx None] unfolding yields_def try_login_def thenT_def tryT_def retT_def own_with_def
    by (auto split: prod.splits)
next
  fix x h assume "own_with w ctx (x) h"
  then show "own_events w ctx (fst (f x h))" using assms [of x] own_with_None(2) unfolding keeps_iff by blast
qed

lemmas keeps_own = keeps_rpc [of w ctx None for w ctx, unfolded own_with_None(1)]
  keeps_safe [of w ctx None for w ctx, unfolded own_with_None(1)]
  keeps_upload [of w ctx None for w ctx, unfolded own_with_None(1)]
  keeps_web [of w ctx None for w ctx, unfolded own_with_None(1)]
  keeps_time_range [of w ctx None for w ctx, unfolded own_with_None(1)]

lemma keeps_params:
  "keeps (own_events w ctx) (buildScenarioAlertParams w req n)" "keeps (own_events w ctx) (buildTrafficLogParams w req)"
  unfolding buildScenarioAlertParams_def buildTrafficLogParams_def by (intro keeps_then keeps_own keeps_ret)+

lemma keeps_calls:
  "keeps (own_with w ctx given) (safe_calls w ctx calls)" "keeps (own_with w ctx given) (safe_tops w ctx given tops)"
  unfolding safe_calls_def safe_tops_def by (auto intro!: keeps_for keeps_then keeps_safe simp: split_beta)

lemma keeps_role: "keeps (own_with w ctx given) (analyze_role w ctx given tr base ip as)"
  unfolding analyze_role_def by (intro keeps_then keeps_safe keeps_ret)

lemma keeps_calls_own: "keeps (own_events w ctx) (safe_calls w ctx calls)"
  using keeps_calls(1) [of w ctx None] by (simp add: own_with_None(1))

lemma keeps_hunt: "keeps (own_events w ctx) (huntThreats w ctx)"
  unfolding huntThreats_def Let_def by (intro keeps_then keeps_params keeps_own try_login_then keeps_calls keeps_ret)

lemma keeps_campaign: "keeps (own_events w ctx) (investigateAttackCampaign w ctx)"
  unfolding investigateAttackCampaign_def Let_def
  by (intro keeps_lift_then keeps_then keeps_params keeps_own try_login_then keeps_calls keeps_ret)

lemma keeps_profile: "keeps (own_events w ctx) (assessIpThreatProfile w ctx)"
  unfolding assessIpThreatProfile_def Let_def
  by (intro keeps_lift_then keeps_then keeps_own try_login_then keeps_calls keeps_ret) (auto intro!: keeps_then keeps_calls)

lemma keeps_activity: "keeps (own_events w ctx) (analyzeIpActivity w ctx)"
proof -
  have rest: "keeps (own_with w ctx given) (if p then m else retT x)" if "keeps (own_with w ctx given) m" for given p m and x :: params
    using that by simp
  have login: "keeps (own_events w ctx) (thenT (if p then try_login w ctx else retT None) f)"
    if "\<And>given. keeps (own_with w ctx given) (f given)" for p f
  proof (cases p)
    case False
    then show ?thesis using that [of None] by (simp add: own_with_None(1))
  qed (simp add: try_login_then that)
  show ?thesis
    unfolding analyzeIpActivity_def Let_def
    by (intro keeps_lift_then keeps_then keeps_own login rest keeps_role keeps_calls keeps_ret)
qed

lemma keeps_traffic: "keeps (own_events w ctx) (searchTrafficLogs w ctx)"
  unfolding searchTrafficLogs_def Let_def by (auto intro!: keeps_lift_then keeps_then keeps_params keeps_own keeps_calls_own)

lemma keeps_records: "keeps (own_events w ctx) (searchAttackRecords w ctx)"
  unfolding searchAttackRecords_def by (intro keeps_then keeps_params keeps_own)

lemma keeps_start: "keeps (own_events w ctx) (start_analysis w ctx)"
  unfolding start_analysis_def Let_def
  by (auto intro!: keeps_lift_then login_then keeps_then keeps_upload keeps_web)

lemma keeps_download: "keeps (own_events w ctx) (download w ctx)"
  unfolding download_def own_with_None(1) [symmetric]
  by (auto intro!: keeps_lift_then keeps_then keeps_send simp: own_event_def token_call_def)


text \<open>The loop keeps what it began with, when it ends.\<close>

lemma keeps_list_tasks: "keeps (own_events w ctx) (list_tasks w ctx ids)"
  unfolding list_tasks_def by (intro keeps_then keeps_own keeps_ret)

lemma poll_keeps:
  assumes "poll_tasks w ctx ids interval deadline tasks h = Some y" and "1000 \<le> interval" and "interval \<le> 60000"
    and "own_events w ctx h"
  shows "own_events w ctx (fst y)"
proof -
  define goal where "goal = (\<lambda>w ctx (ids :: int list) (interval :: int) (deadline :: int) (tasks :: jsval list) h (y :: ndr_event list \<times> (failure + jsval list)).
    1000 \<le> interval \<longrightarrow> interval \<le> 60000 \<longrightarrow> own_events w ctx h \<longrightarrow> own_events w ctx (fst y))"
  have "goal w ctx ids interval deadline tasks h y"
  proof (rule poll_tasks.raw_induct [OF _ assms(1), where P = goal])
    fix loop w ctx ids interval deadline tasks h y
    assume IH: "\<And>w ctx ids interval deadline tasks h y. loop w ctx ids interval deadline tasks h = Some y \<Longrightarrow> goal w ctx ids interval deadline tasks h y"
      and body: "(if deadline < nw_now w h then Some (h @ [ClockRead], Inr tasks)
        else case list_tasks w ctx ids (h @ [ClockRead]) of (h1, Inl e) \<Rightarrow> Some (h1, Inl e)
          | (h1, Inr ts) \<Rightarrow> if all_finished ids ts then Some (h1, Inr ts) else loop w ctx ids interval deadline ts (h1 @ [Slept interval])) = Some y"
    show "goal w ctx ids interval deadline tasks h y"
      unfolding goal_def
    proof (intro impI)
      assume bounds: "1000 \<le> interval" "interval \<le> 60000" and h: "own_events w ctx h"
      then have clock: "own_events w ctx (h @ [ClockRead])" by (simp add: own_events_snoc own_event_def)
      obtain h1 q where lt: "list_tasks w ctx ids (h @ [ClockRead]) = (h1, q)" by fastforce
      with clock keeps_list_tasks have h1: "own_events w ctx h1" unfolding keeps_iff by (metis fst_conv)
      then have "own_events w ctx (h1 @ [Slept interval])" using bounds by (simp add: own_events_snoc own_event_def)
      then have "own_events w ctx (fst y)" if "loop w ctx ids interval deadline ts (h1 @ [Slept interval]) = Some y" for ts
        using IH [OF that] bounds by (simp add: goal_def)
      then show "own_events w ctx (fst y)" using body h1 clock unfolding lt by (auto split: sum.splits if_splits)
    qed
  qed
  then show ?thesis using assms by (simp add: goal_def)
qed

lemma duration_bounds: "0 < lo \<Longrightarrow> lo \<le> fallback \<Longrightarrow> fallback \<le> hi \<Longrightarrow> lo \<le> normalizeDurationMs v fallback lo hi \<and> normalizeDurationMs v fallback lo hi \<le> hi"
  by (auto simp: normalizeDurationMs_def split: jsnum.split)

lemma interval_bounds:
  "1000 \<le> normalizeDurationMs v DEFAULT_PCAP_POLL_INTERVAL_MS MIN_PCAP_DURATION_MS MAX_PCAP_POLL_INTERVAL_MS"
  "normalizeDurationMs v DEFAULT_PCAP_POLL_INTERVAL_MS MIN_PCAP_DURATION_MS MAX_PCAP_POLL_INTERVAL_MS \<le> 60000"
  "normalizeDurationMs v DEFAULT_PCAP_ANALYSIS_TIMEOUT_MS MIN_PCAP_DURATION_MS MAX_PCAP_ANALYSIS_TIMEOUT_MS \<le> 600000"
  using duration_bounds [of 1000 5000 60000 v] duration_bounds [of 1000 60000 600000 v]
  by (simp_all add: DEFAULT_PCAP_POLL_INTERVAL_MS_def MIN_PCAP_DURATION_MS_def MAX_PCAP_POLL_INTERVAL_MS_def
      DEFAULT_PCAP_ANALYSIS_TIMEOUT_MS_def MAX_PCAP_ANALYSIS_TIMEOUT_MS_def)

lemma wait_keeps: "wait_for_tasks w ctx ids h = Some y \<Longrightarrow> own_events w ctx h \<Longrightarrow> own_events w ctx (fst y)"
  unfolding wait_for_tasks_def Let_def
  by (auto split: if_splits simp: own_events_snoc own_event_def simp del: firstPresent.simps dest!: poll_keeps [OF _ interval_bounds(1,2)])

lemma keeps_task_alerts: "keeps (own_events w ctx) (task_alerts w ctx i)"
  unfolding task_alerts_def by (intro keeps_then keeps_own keeps_ret)

text \<open>A method that, from own events, ends with own events if it ends.\<close>

definition own_method :: "ndr_method \<Rightarrow> bool" where
  "own_method f \<longleftrightarrow> (\<forall>w ctx h y. f w ctx h = Some y \<longrightarrow> own_events w ctx h \<longrightarrow> own_events w ctx (fst y))"

lemma own_direct:
  assumes "\<And>w ctx. keeps (own_events w ctx) (f w ctx)"
  shows "own_method (direct f)"
proof -
  have "keeps (own_events w ctx) (thenT (f w ctx) (\<lambda>v. retT (ResultJson v)))" for w ctx by (intro keeps_then assms keeps_ret)
  then show ?thesis unfolding own_method_def direct_def keeps_iff by auto
qed

lemma own_rpc: "own_method (rpc_method m b)" "own_method (web_method m b)"
  unfolding rpc_method_def web_method_def by (intro own_direct keeps_lift_then keeps_own)+

lemma own_upload: "own_method (direct uploadPcapDetectFiles)"
  unfolding uploadPcapDetectFiles_def by (intro own_direct keeps_lift_then keeps_own)

lemma own_download: "own_method downloadFile"
  using keeps_download unfolding own_method_def downloadFile_def keeps_iff by auto

lemma own_analysis: "own_method analyzePcapFiles"
  unfolding own_method_def
proof (intro allI impI)
  fix w ctx h y assume y: "analyzePcapFiles w ctx h = Some y" and h: "own_events w ctx h"
  obtain h1 q where start: "start_analysis w ctx h = (h1, q)" by fastforce
  with h keeps_start have h1: "own_events w ctx h1" unfolding keeps_iff by (metis fst_conv)
  have tail: "own_events w ctx (fst (thenT (forT (task_alerts w ctx) ids) (\<lambda>alerts. retT (g alerts)) h2))" if "own_events w ctx h2"
    for ids h2 and g :: "jsval list \<Rightarrow> ndr_reply"
  proof -
    have "keeps (own_events w ctx) (thenT (forT (task_alerts w ctx) ids) (\<lambda>alerts. retT (g alerts)))"
      by (intro keeps_then keeps_for keeps_task_alerts keeps_ret)
    then show ?thesis using that unfolding keeps_iff by blast
  qed
  show "own_events w ctx (fst y)"
    using y start h1 tail wait_keeps [OF _ h1]
    by (auto simp: analyzePcapFiles_def split: sum.splits prod.splits option.splits) 
qed

lemmas own_methods = own_rpc own_upload own_download own_analysis
  own_direct [OF keeps_records] own_direct [OF keeps_activity] own_direct [OF keeps_hunt] own_direct [OF keeps_campaign]
  own_direct [OF keeps_profile] own_direct [OF keeps_traffic]

lemma all_own: "list_all (\<lambda>(m, f). own_method f) ndr_handlers"
  unfolding ndr_handlers_def by (simp only: list.pred_inject prod.case own_methods simp_thms)


lemma own_event_sent:
  assumes "own_events w ctx h" and "Sent rq \<in> set h"
  shows "\<exists>c. getConfig ctx = Inr c"
proof -
  from assms(2) obtain i where "i < length h" "h ! i = Sent rq" by (auto simp: in_set_conv_nth)
  with assms(1) have "own_event w ctx (take i h) (Sent rq)" unfolding own_events_def by metis
  then show ?thesis by (auto simp: own_event_def)
qed


definition refusing_world :: ndr_world where
  "refusing_world = \<lparr>nw_fetch = (\<lambda>_ _. Inr \<lparr>na_status = 401, na_json = Inr JNull, na_bytes = Inr [], na_cookies = [], na_header = (\<lambda>_. None)\<rparr>),
     nw_now = (\<lambda>h. sum_list (map (\<lambda>ev. case ev of Slept ms \<Rightarrow> max 0 ms | _ \<Rightarrow> 0) h)), nw_requestId = (\<lambda>_. ''id''),
     nw_parse = (\<lambda>_. Inl []), nw_stringify = (\<lambda>_. []), nw_base64 = (\<lambda>_. []), nw_unbase64 = (\<lambda>s. s)\<rparr>"

definition ndr_ctx :: jsval where
  "ndr_ctx = JObj [(''config'', JObj [(''endpoint'', JStr ''https://ndr/'')]), (''secret'', JObj [(''apiToken'', JStr ''token'')])]"

definition ndr_sample_config :: ndr_config where
  "ndr_sample_config = \<lparr>nc_endpoint = ''https://ndr'', nc_timeoutMs = 5000, nc_skipTlsVerify = False, nc_maxDownloadBytes = 33554432,
     nc_apiToken = JStr ''token''\<rparr>"


section \<open>The end of an analysis\<close>

definition is_sleep :: "ndr_event \<Rightarrow> bool" where
  "is_sleep ev = (case ev of Slept _ \<Rightarrow> True | _ \<Rightarrow> False)"

definition sleeps :: "ndr_event list \<Rightarrow> nat" where
  "sleeps h = length (filter is_sleep h)"

text \<open>A clock that does not go back and goes on while the program waits.\<close>

definition steady_clock :: "ndr_world \<Rightarrow> bool" where
  "steady_clock w \<longleftrightarrow> (\<forall>h ev. nw_now w h \<le> nw_now w (h @ [ev])) \<and> (\<forall>h ms. nw_now w h + ms \<le> nw_now w (h @ [Slept ms]))"

text \<open>What follows some events without a wait.\<close>

definition awake_since :: "ndr_event list \<Rightarrow> ndr_event list \<Rightarrow> bool" where
  "awake_since h0 h \<longleftrightarrow> (\<exists>evs. h = h0 @ evs \<and> list_all (\<lambda>ev. \<not> is_sleep ev) evs)"

lemma awake_snoc: "awake_since h0 h \<Longrightarrow> \<not> is_sleep ev \<Longrightarrow> awake_since h0 (h @ [ev])"
  by (fastforce simp: awake_since_def)

lemma awake_sleeps: "awake_since h0 h \<Longrightarrow> sleeps h = sleeps h0"
  by (auto simp: awake_since_def sleeps_def list_all_iff filter_empty_conv)

lemma later: "steady_clock w \<Longrightarrow> nw_now w h \<le> nw_now w (h @ evs)"
proof (induction evs rule: rev_induct)
  case (snoc ev evs)
  then have "nw_now w (h @ evs) \<le> nw_now w ((h @ evs) @ [ev])" unfolding steady_clock_def by blast
  then show ?case using snoc by simp
qed simp

lemma awake_later: "steady_clock w \<Longrightarrow> awake_since h0 h \<Longrightarrow> nw_now w h0 \<le> nw_now w h"
  by (auto simp: awake_since_def later)

lemma awake_send [intro!]: "keeps (awake_since h0) (sendT w c what mk)"
  by (auto simp: keeps_iff sendT_def Let_def is_sleep_def intro!: awake_snoc)

lemma awake_calls [intro!]:
  "keeps (awake_since h0) (callJsonRpc w ctx method params)" "keeps (awake_since h0) (webLogin w ctx)"
  unfolding callJsonRpc_def webLogin_def by (auto intro!: keeps_lift_then)

lemma awake_session [intro!]: "keeps (awake_since h0) (session w ctx given)"
  unfolding session_def by (auto split: option.split)

lemma awake_web [intro!]:
  "keeps (awake_since h0) (callWebJsonRpc w ctx method params given)" "keeps (awake_since h0) (uploadPcapDetectFilesInternal w ctx pcapFiles given)"
  unfolding callWebJsonRpc_def uploadPcapDetectFilesInternal_def by (auto intro!: keeps_lift_then)

lemma awake_analysis:
  "keeps (awake_since h0) (start_analysis w ctx)" "keeps (awake_since h0) (list_tasks w ctx ids)" "keeps (awake_since h0) (task_alerts w ctx i)"
  unfolding start_analysis_def list_tasks_def task_alerts_def Let_def by (auto intro!: keeps_lift_then)

lemma awake_refl [simp]: "awake_since h h"
  by (simp add: awake_since_def)

lemma keepsD: "keeps P m \<Longrightarrow> P h \<Longrightarrow> m h = (h', r) \<Longrightarrow> P h'"
  unfolding keeps_iff by (metis fst_conv)

lemma poll_ends:
  assumes "steady_clock w" and "0 < interval"
  shows "deadline - nw_now w h < int n * interval \<Longrightarrow>
    \<exists>h' r. poll_tasks w ctx ids interval deadline tasks h = Some (h', r) \<and> sleeps h' \<le> sleeps h + n"
proof (induction n arbitrary: h tasks)
  case 0
  then show ?case by (subst poll_tasks.simps) (simp add: sleeps_def is_sleep_def)
next
  case (Suc n)
  show ?case
  proof (cases "deadline < nw_now w h")
    case True
    then show ?thesis by (subst poll_tasks.simps) (simp add: sleeps_def is_sleep_def)
  next
    case False
    obtain h1 q where lt: "list_tasks w ctx ids (h @ [ClockRead]) = (h1, q)" by fastforce
    have "awake_since h (h @ [ClockRead])" by (simp add: awake_snoc is_sleep_def)
    then have h1: "awake_since h h1" by (rule keepsD [OF awake_analysis(2) _ lt])
    have "nw_now w h1 + interval \<le> nw_now w (h1 @ [Slept interval])" using assms(1) by (simp add: steady_clock_def)
    then have "deadline - nw_now w (h1 @ [Slept interval]) < int n * interval"
      using Suc.prems awake_later [OF assms(1) h1] by (simp add: distrib_right)
    from Suc.IH [OF this] have rest: "\<exists>h' r. poll_tasks w ctx ids interval deadline ts (h1 @ [Slept interval]) = Some (h', r) \<and> sleeps h' \<le> sleeps h + Suc n" for ts
      using awake_sleeps [OF h1] by (fastforce simp: sleeps_def is_sleep_def)
    show ?thesis
    proof (cases q)
      case (Inl e)
      then show ?thesis using False lt awake_sleeps [OF h1] by (subst poll_tasks.simps) simp
    next
      case (Inr ts)
      show ?thesis
      proof (cases "all_finished ids ts")
        case True
        then show ?thesis using Inr False lt awake_sleeps [OF h1] by (subst poll_tasks.simps) simp
      next
        case unfinished: False
        then show ?thesis using rest [of ts] Inr False lt by (subst poll_tasks.simps) simp
      qed
    qed
  qed
qed

lemma wait_ends:
  assumes "steady_clock w"
  shows "\<exists>h' r. wait_for_tasks w ctx ids h = Some (h', r) \<and> sleeps h' \<le> sleeps h + 601"
proof -
  let ?interval = "normalizeDurationMs (firstPresent (request_of_ctx ctx) [''poll_interval_ms'', ''pollIntervalMs'']) DEFAULT_PCAP_POLL_INTERVAL_MS MIN_PCAP_DURATION_MS MAX_PCAP_POLL_INTERVAL_MS"
  let ?timeout = "normalizeDurationMs (firstPresent (request_of_ctx ctx) [''timeout_ms'', ''timeoutMs'']) DEFAULT_PCAP_ANALYSIS_TIMEOUT_MS MIN_PCAP_DURATION_MS MAX_PCAP_ANALYSIS_TIMEOUT_MS"
  have "nw_now w h \<le> nw_now w (h @ [ClockRead])" using later [OF assms] .
  moreover have "?timeout \<le> 600000" "1000 \<le> ?interval" by (rule interval_bounds)+
  ultimately have "nw_now w h + ?timeout - nw_now w (h @ [ClockRead]) < int 601 * ?interval" "0 < ?interval" by linarith+
  from poll_ends [OF assms this(2,1), of ctx ids "[]"] show ?thesis
    unfolding wait_for_tasks_def Let_def by (auto simp: sleeps_def is_sleep_def simp del: firstPresent.simps)
qed

text \<open>C28: An analysis of captures ends. On a clock that never goes back and goes on during each wait, whatever
the product answers and whatever timeout and interval the request asks for, AnalyzePcapFiles returns, with
a result or an error, after at most 601 waits: the polling stops at its deadline.\<close>

theorem analysis_ends:
  assumes "steady_clock w"
  shows "\<exists>h' r. analyzePcapFiles w ctx h = Some (h', r) \<and> sleeps h' \<le> sleeps h + 601"
proof -
  obtain h1 q where start: "start_analysis w ctx h = (h1, q)" by fastforce
  have h1: "sleeps h1 = sleeps h" using awake_sleeps keepsD [OF awake_analysis(1) awake_refl start] by blast
  have tail: "sleeps (fst (thenT (forT (task_alerts w ctx) ids) (\<lambda>alerts. retT (g alerts)) h2)) = sleeps h2" for ids h2 and g :: "jsval list \<Rightarrow> ndr_reply"
  proof -
    have "keeps (awake_since h2) (thenT (forT (task_alerts w ctx) ids) (\<lambda>alerts. retT (g alerts)))"
      by (intro keeps_then keeps_for awake_analysis keeps_ret)
    then show ?thesis using awake_sleeps awake_refl unfolding keeps_iff by blast
  qed
  show ?thesis
  proof (cases q)
    case (Inl e)
    then show ?thesis using start h1 by (simp add: analyzePcapFiles_def)
  next
    case (Inr p)
    obtain upload createTask where p: "p = (upload, createTask)" by fastforce
    show ?thesis
    proof (cases createTask)
      case None
      then show ?thesis using start h1 Inr p by (simp add: analyzePcapFiles_def)
    next
      case (Some task)
      obtain h2 r where wait: "wait_for_tasks w ctx (task_ids task) h1 = Some (h2, r)" "sleeps h2 \<le> sleeps h1 + 601"
        using wait_ends [OF assms] by blast
      show ?thesis
      proof (cases r)
        case (Inl e)
        then show ?thesis using start h1 \<open>q = Inr p\<close> p Some wait by (simp add: analyzePcapFiles_def)
      next
        case (Inr tasks)
        then have eq: "analyzePcapFiles w ctx h = Some (thenT (forT (task_alerts w ctx) (task_ids task))
            (\<lambda>alerts. retT (pcap_result upload task tasks alerts)) h2)"
          using start \<open>q = Inr p\<close> p Some wait by (simp add: analyzePcapFiles_def)
        show ?thesis unfolding eq using tail [of "task_ids task" "pcap_result upload task tasks" h2] wait(2) h1
          by (metis option.inject prod.collapse)
      qed
    qed
  qed
qed

theorem analysis_ends_witness:
  "\<exists>h' r. analyzePcapFiles refusing_world ndr_ctx [] = Some (h', r) \<and> sleeps h' \<le> sleeps [] + 601"
proof -
  have "steady_clock refusing_world" by (simp add: steady_clock_def refusing_world_def split: ndr_event.split)
  from analysis_ends [OF this] show ?thesis .
qed

section \<open>What the requests say\<close>

text \<open>Raw parameters win over the typed ones, member by member.\<close>

lemma raw_params_win:
  assumes "raw_params_of req = JStr t" and "nw_parse w t = Inr (JObj raw)"
  shows "\<exists>p. mergeRawParams w req params = Inr p \<and>
    (\<forall>k. pget p k = (case map_of (rev raw) k of Some v \<Rightarrow> v | None \<Rightarrow> pget (JObj (rev params)) k))"
  using assms
  by (auto simp: mergeRawParams_def parseRawParams_def spread_def entries_of_def map_of_from_entries map_add_def split: option.split)

text \<open>A start without an end is not used: the range is counted back from now.\<close>

lemma start_alone_ignored:
  assumes "\<forall>k \<in> {''time_range_end'', ''timeRangeEnd'', ''end_time'', ''endTime''}. pget req k = JUndef"
  shows "\<exists>days. buildTimeRange w req h = (h @ [ClockRead], Inr (time_range (nw_now w h - days * 86400000) (nw_now w h)))"
proof -
  have "firstPresent req [''time_range_end'', ''timeRangeEnd'', ''end_time'', ''endTime''] = JUndef" using assms by simp
  then show ?thesis
    by (auto simp: buildTimeRange_def to_num_def positive_num_def thenT_def read_clock_def askT_def retT_def Let_def
        simp del: firstPresent.simps split: option.split)
qed

text \<open>An unset detection pattern of a decoded request is 0, and the fallback 2 is not used.\<close>

lemma unset_detect_pattern_is_zero: "pget req ''detect_pattern'' = JInt 0 \<Longrightarrow> detect_pattern req = JInt 0"
  by (simp add: detect_pattern_def to_num_def natural_num_def or_default_def)

text \<open>The lookup of a protocol also finds what every object inherits: a call without a method is sent.\<close>

lemma inherited_protocol_sent:
  assumes "getConfig ctx = Inr c"
  shows "selected_protocols ''constructor'' = Inr [(''constructor'', JUndef)]"
    and "\<exists>rid. fst (callJsonRpc w ctx JUndef params h) = h @ [Sent (token_rpc c rid JUndef params)]"
  using assms
  by (simp_all add: selected_protocols_def method_by_protocol_def object_prototype_names_def callJsonRpc_def fst_thenT sendT_def liftT_def Let_def split: sum.split)
    blast+

text \<open>A login that failed is tried again for each of the calls that need a session.\<close>

lemma login_retried:
  assumes "\<And>h. fst (webLogin w ctx h) = h @ [Sent rq]" and "\<And>h. \<exists>e. snd (webLogin w ctx h) = Inl e" and "getConfig ctx = Inr c"
  shows "fst (safe_tops w ctx None calls h) = h @ replicate (length calls) (Sent rq)"
proof -
  have one: "\<exists>v. safeWebCall w ctx None m p h = (h @ [Sent rq], Inr v)" for m p h
  proof -
    obtain e where "webLogin w ctx h = (h @ [Sent rq], Inl e)" using assms(1,2) by (metis prod.collapse)
    then show ?thesis
      using assms(3) by (simp add: safeWebCall_def callWebJsonRpc_def session_def thenT_def tryT_def liftT_def retT_def)
  qed
  have "\<exists>vs. safe_tops w ctx None calls h = (h @ replicate (length calls) (Sent rq), Inr vs)"
  proof (induction calls arbitrary: h)
    case Nil
    then show ?case by (simp add: safe_tops_def retT_def)
  next
    case (Cons x xs)
    obtain v where "safeWebCall w ctx None ALERT_AGG_TOP (JObj (snd x)) h = (h @ [Sent rq], Inr v)" using one by blast
    moreover obtain vs where "safe_tops w ctx None xs (h @ [Sent rq]) = (h @ [Sent rq] @ replicate (length xs) (Sent rq), Inr vs)"
      using Cons [of "h @ [Sent rq]"] by auto
    ultimately show ?case by (simp add: safe_tops_def thenT_def retT_def split_beta)
  qed
  then show ?thesis by auto
qed

text \<open>The addresses to look at next are told once each.\<close>

lemma unique_props: "set (unique xs) = set xs" "distinct (unique xs)"
  by (induction xs) auto

lemma pivots_distinct: "collectPivotIps samples = JArr vs \<Longrightarrow> distinct vs"
  by (auto simp: collectPivotIps_def uniqueStrings_def unique_props)

text \<open>A file name comes back from its header as it was written, encoded or plain.\<close>

lemma file_name_examples:
  "parseFilename (''attachment; filename='' @ [CHR 0x22] @ ''a b.pcap'' @ [CHR 0x22]) = ''a b.pcap''"
  "parseFilename (''attachment; FileName*=utf-8'' @ [CHR 0x27, CHR 0x27] @ ''a%20b.pcap; filename=x'') = ''a b.pcap''"
  "parseFilename (''attachment; filename*=UTF-8'' @ [CHR 0x27, CHR 0x27] @ ''%zz; filename=plain.pcap'') = ''plain.pcap''"
  by code_simp+

end
