(* ===== verification/Safeline.thy ===== *)
theory Safeline
  imports Connector
begin

text \<open>
  The SafeLine WAF connector (src/services/chaitin__safeline-waf/src/safeline-waf.js): 15 methods over the
  product's REST API with the token of the instance, directly or through a SOCKS proxy, two of which put
  addresses into an IP group or take them out after finding or creating the group. Contexts, requests and
  answers are JavaScript values without a key \<open>__proto__\<close>; writing to the console is left out.
\<close>

section \<open>The outside\<close>

text \<open>A request, sent directly when the address of the proxy is empty.\<close>

record safeline_request =
  sq_method :: string
  sq_url :: string
  sq_headers :: "(string \<times> jsval) list"
  sq_body :: "string option"
  sq_timeoutMs :: jsval
  sq_skipTls :: bool
  sq_proxy :: string

text \<open>
  A proxied request fails at once, when its address, its proxy or its timeout cannot be used, or by an
  error event with a code and a message.
\<close>

datatype proxy_failure = Thrown string | ErrorEvent string string

record safeline_world =
  sw_fetch :: "safeline_request \<Rightarrow> (string \<times> string) + upstream_response"
  sw_proxied :: "safeline_request \<Rightarrow> proxy_failure + upstream_response"
  sw_parse :: "string \<Rightarrow> string + jsval"
  sw_stringify :: "jsval \<Rightarrow> string + string"

type_synonym 'a safeline_calls = "(safeline_request, failure, 'a) run"

definition DEFAULT_TIMEOUT_MS :: jsnum where "DEFAULT_TIMEOUT_MS = Fin 1500"
definition MAX_TIME_INTERVAL :: int where "MAX_TIME_INTERVAL = 86400"
definition DEFAULT_TIME_INTERVAL :: int where "DEFAULT_TIME_INTERVAL = 86400"
definition DEFAULT_LOG_SIZE :: int where "DEFAULT_LOG_SIZE = 100"
definition MAX_LOG_SIZE :: int where "MAX_LOG_SIZE = 1000"

definition CONDITION_OPTIONS :: "string list" where
  "CONDITION_OPTIONS = [''attack_type'', ''rule_id'', ''src_ip_keyword'', ''site_uuid,attack_type,src_ip_keyword'']"

definition DEFAULT_CONDITION :: string where
  "DEFAULT_CONDITION = ''src_ip_keyword''"

section \<open>Errors\<close>

definition grpcCodeFor :: "string \<Rightarrow> nat" where
  "grpcCodeFor code = (case map_of [(''INVALID_ARGUMENT'', 3), (''FAILED_PRECONDITION'', 9), (''PERMISSION_DENIED'', 7),
     (''UNAVAILABLE'', 14), (''DEADLINE_EXCEEDED'', 4), (''NOT_FOUND'', 5), (''INTERNAL'', 13)] code of Some n \<Rightarrow> n | None \<Rightarrow> 2)"

text \<open>The status and the message of a failure with a code; other errors are the SDK's to report.\<close>

definition errorWithCode :: "failure \<Rightarrow> (nat \<times> string) option" where
  "errorWithCode f = (case f of Failure code message \<Rightarrow> Some (grpcCodeFor code, code @ '': '' @ message) | Crash e \<Rightarrow> None)"

abbreviation invalid :: "string \<Rightarrow> failure" where
  "invalid message \<equiv> Failure ''INVALID_ARGUMENT'' message"

section \<open>Reading values\<close>

text \<open>The JSON form of a \<open>google.protobuf.Value\<close> as the code writes it.\<close>

fun toValue :: "jsval \<Rightarrow> jsval" where
  "toValue JUndef = JObj [(''nullValue'', JStr ''NULL_VALUE'')]"
| "toValue JNull = JObj [(''nullValue'', JStr ''NULL_VALUE'')]"
| "toValue (JStr s) = JObj [(''stringValue'', JStr s)]"
| "toValue (JNum n) = JObj [(''numberValue'', JNum n)]"
| "toValue (JBool b) = JObj [(''boolValue'', JBool b)]"
| "toValue (JArr vs) = JObj [(''listValue'', JObj [(''values'', JArr (map toValue vs))])]"
| "toValue (JObj kvs) = JObj [(''structValue'', JObj [(''fields'', JObj (map (\<lambda>(k, v). (k, toValue v)) kvs))])]"

text \<open>\<open>Number.isInteger(Number(v))\<close> with the number.\<close>

definition as_integer :: "jsval \<Rightarrow> int option" where
  "as_integer v = (case to_num v of Fin r \<Rightarrow> if of_int (floor r) = r then Some (floor r) else None | _ \<Rightarrow> None)"

fun toPositiveInt :: "jsval \<Rightarrow> int option" where
  "toPositiveInt (JObj kvs) = (case map_of kvs ''value'' of Some v \<Rightarrow> toPositiveInt v | None \<Rightarrow> None)"
| "toPositiveInt (JArr vs) = None"
| "toPositiveInt v = (if nullish v then None else as_integer v)"

fun toInt64 :: "jsval \<Rightarrow> int option" where
  "toInt64 (JObj kvs) = (case map_of kvs ''value'' of Some v \<Rightarrow> toInt64 v | None \<Rightarrow> None)"
| "toInt64 v = (if nullish v then None else as_integer v)"

fun toQueryNumber :: "jsval \<Rightarrow> bool \<Rightarrow> int option" where
  "toQueryNumber (JObj kvs) allowZero = (case map_of kvs ''value'' of Some v \<Rightarrow> toQueryNumber v allowZero | None \<Rightarrow> None)"
| "toQueryNumber v allowZero = (if nullish v then None else (case as_integer v of
     Some n \<Rightarrow> if (if allowZero then n < 0 else n \<le> 0) then None else Some n
   | None \<Rightarrow> None))"

definition normalizeList :: "jsval \<Rightarrow> jsval list option" where
  "normalizeList json = (case json of JArr vs \<Rightarrow> Some vs
   | _ \<Rightarrow> (case pget json ''list'' of JArr vs \<Rightarrow> Some vs
   | _ \<Rightarrow> (case pget json ''data'' of JArr vs \<Rightarrow> Some vs
   | _ \<Rightarrow> (case pget (pget json ''data'') ''list'' of JArr vs \<Rightarrow> Some vs | _ \<Rightarrow> None))))"

lemma entry_size: "map_of kvs k = Some v \<Longrightarrow> size v \<le> size_list (size_prod (\<lambda>x. 0) size) kvs"
  by (induction kvs) (auto split: if_splits)

lemma pget_size: "size (pget v k) \<le> size v"
  by (cases v) (auto simp: pget_def split: option.split dest: entry_size)

lemma element_size: "(v :: jsval) \<in> set vs \<Longrightarrow> size v \<le> size_list size vs"
  by (induction vs) auto

lemma entries_size: "(k, v) \<in> set (entries_of x) \<Longrightarrow> size v \<le> size x"
proof (cases x)
  case (JArr vs)
  then show "(k, v) \<in> set (entries_of x) \<Longrightarrow> size v \<le> size x"
    by (auto simp: entries_of_def dest!: set_zip_rightD element_size)
next
  case (JObj kvs)
  then show "(k, v) \<in> set (entries_of x) \<Longrightarrow> size v \<le> size x"
    by (auto simp: entries_of_def dest: size_list_estimation' [OF _ order_refl, of _ _ "size_prod (\<lambda>x. 0) size"])
qed (auto simp: entries_of_def dest!: set_zip_rightD)

lemma fields_size: "(k, v) \<in> set (entries_of (coalesce (pget s ''fields'') (JObj []))) \<Longrightarrow> size v \<le> size s"
  using pget_size [of s "''fields''"] by (auto simp: coalesce_def entries_of_def [of "JObj []"] split: if_splits dest!: entries_size)

lemma kind_size: "map_of kvs ''kind'' = Some kind \<Longrightarrow> size (pget kind k) \<le> size_list (size_prod (\<lambda>x. 0) size) kvs"
  using pget_size [of kind k] entry_size [of kvs "''kind''" kind] by simp

text \<open>
  A \<open>google.protobuf.Value\<close> with a \<open>kind\<close> of case and value becomes a JSON value; anything else stays.
  A \<open>kind\<close> that is null and a list whose values are no array are errors of JavaScript's.
\<close>

function (sequential) unwrapValue :: "jsval \<Rightarrow> failure + jsval" and unwrapStruct :: "jsval \<Rightarrow> failure + (string \<times> jsval) list" where
  "unwrapValue (JObj kvs) = (case map_of kvs ''kind'' of
     None \<Rightarrow> Inr (JObj kvs)
   | Some kind \<Rightarrow> (let which = pget kind ''case''; val = pget kind ''value'' in
       if kind = JUndef then Inr (JObj kvs)
       else if kind = JNull then Inl (Crash ''TypeError'')
       else if which = JStr ''nullValue'' then Inr JNull
       else if which = JStr ''numberValue'' \<or> which = JStr ''stringValue'' \<or> which = JStr ''boolValue'' then Inr val
       else if which = JStr ''structValue'' then bindE (unwrapStruct val) (\<lambda>fs. Inr (JObj fs))
       else if which = JStr ''listValue'' then (case pget val ''values'' of
           JArr vs \<Rightarrow> bindE (mapE unwrapValue vs) (\<lambda>us. Inr (JArr us))
         | v \<Rightarrow> if nullish v \<and> (case val of JArr _ \<Rightarrow> False | _ \<Rightarrow> True) then Inr (JArr []) else Inl (Crash ''TypeError''))
       else Inr JNull))"
| "unwrapValue v = Inr (if nullish v then JNull else v)"
| "unwrapStruct s = (if nullish s then Inr [] else
     mapE (\<lambda>(k, v). bindE (unwrapValue v) (\<lambda>u. Inr (k, u))) (entries_of (coalesce (pget s ''fields'') (JObj []))))"
  by pat_completeness auto
termination
proof (relation "measure (case_sum (\<lambda>v. 2 * size v) (\<lambda>s. 2 * size s + 1))", goal_cases)
  case (3 kvs kind which val vs x)
  then have "size x \<le> size (pget val ''values'')" by (auto dest!: element_size)
  also have "\<dots> \<le> size val" by (rule pget_size)
  also have "\<dots> < size (JObj kvs)" using 3 kind_size [of kvs kind "''value''"] by simp
  finally show ?case by simp
next
  case (2 kvs kind which val)
  then show ?case using kind_size [of kvs kind "''value''"] by simp
qed (auto dest: fields_size)

definition hasOwn :: "jsval \<Rightarrow> string \<Rightarrow> bool" where
  "hasOwn v k = (case v of JObj kvs \<Rightarrow> map_of kvs k \<noteq> None | _ \<Rightarrow> False)"

definition unwrapString :: "jsval \<Rightarrow> string" where
  "unwrapString source = (if nullish source then [] else (case source of
     JObj kvs \<Rightarrow> (case map_of kvs ''value'' of Some v \<Rightarrow> to_str (coalesce v (JStr [])) | None \<Rightarrow> to_str source)
   | _ \<Rightarrow> to_str source))"

fun pickStringField :: "jsval \<Rightarrow> string list \<Rightarrow> string option" where
  "pickStringField req [] = None"
| "pickStringField req (k # ks) = (if hasOwn req k then Some (unwrapString (pget req k)) else pickStringField req ks)"

text \<open>The list of a field that is an array or an object with \<open>values\<close>; \<open>None\<close> for what is no list.\<close>

definition extractOriginalValues :: "jsval \<Rightarrow> jsval list option" where
  "extractOriginalValues candidate = (if nullish candidate then Some [] else (case candidate of
     JArr vs \<Rightarrow> Some vs
   | JObj kvs \<Rightarrow> (case pget candidate ''values'' of JArr vs \<Rightarrow> Some vs | v \<Rightarrow> if nullish v then Some [] else None)
   | _ \<Rightarrow> None))"

definition int_item :: "jsval \<Rightarrow> int option" where
  "int_item v = (if nullish v \<or> v = JStr [] then None
     else as_integer (if hasOwn v ''value'' then pget v ''value'' else v))"

fun all_some :: "'a option list \<Rightarrow> 'a list option" where
  "all_some [] = Some []"
| "all_some (None # xs) = None"
| "all_some (Some x # xs) = map_option (Cons x) (all_some xs)"

definition extractIntList :: "jsval \<Rightarrow> int list option" where
  "extractIntList candidate = (if nullish candidate then Some [] else (case candidate of
     JArr vs \<Rightarrow> all_some (map int_item vs)
   | JObj kvs \<Rightarrow> (case pget candidate ''values'' of JArr vs \<Rightarrow> all_some (map int_item vs)
       | v \<Rightarrow> if hasOwn candidate ''values'' \<and> nullish v then Some [] else None)
   | _ \<Rightarrow> None))"

definition unwrapList :: "jsval \<Rightarrow> jsval" where
  "unwrapList source = (if nullish source then JUndef else
     if hasOwn source ''values'' then pget source ''values'' else source)"

definition strip_slash :: "string \<Rightarrow> string" where
  "strip_slash s = (if s \<noteq> [] \<and> last s = CHR ''/'' then butlast s else s)"

definition normalizeBaseUrl :: "jsval \<Rightarrow> string option" where
  "normalizeBaseUrl url = (let base = trim (to_str (or_js url (JStr []))) in
     if \<not> is_http base then None else Some (strip_slash base))"

definition toBooleanStrict :: "jsval \<Rightarrow> bool" where
  "toBooleanStrict v = (case v of
     JStr s \<Rightarrow> (let lower = to_lower (trim s) in
       if lower = ''true'' \<or> lower = ''1'' then True else if lower = ''false'' \<or> lower = ''0'' then False else s \<noteq> [])
   | _ \<Rightarrow> truthy v)"

fun toBoolean :: "jsval \<Rightarrow> bool option" where
  "toBoolean (JBool b) = Some b"
| "toBoolean (JObj kvs) = (case map_of kvs ''value'' of Some v \<Rightarrow> toBoolean v | None \<Rightarrow> None)"
| "toBoolean (JStr s) = (let normalized = to_lower (trim s) in
     if normalized = ''true'' then Some True else if normalized = ''false'' then Some False else None)"
| "toBoolean (JNum n) = (if n = Fin 1 then Some True else if n = Fin 0 then Some False else None)"
| "toBoolean v = None"

definition target_text :: "string \<Rightarrow> jsval \<Rightarrow> failure + string" where
  "target_text k item = (if nullish item then Inl (invalid (k @ '' elements must be non-null strings'')) else Inr (to_str item))"

fun own_targets :: "jsval \<Rightarrow> string list \<Rightarrow> failure + string list" where
  "own_targets req [] = Inl (invalid ''targets is required'')"
| "own_targets req (k # ks) = (if hasOwn req k then (case pget req k of
       JArr vs \<Rightarrow> if vs = [] then Inl (invalid (k @ '' must be non-empty'')) else mapE (target_text k) vs
     | _ \<Rightarrow> Inl (invalid (k @ '' must be an array'')))
   else own_targets req ks)"

definition requireTargets :: "jsval \<Rightarrow> failure + string list" where
  "requireTargets req = own_targets req [''targets'', ''Targets'']"

definition record_keys :: "string list" where
  "record_keys = [''event_id'', ''country'', ''province'', ''src_ip'', ''dst_port'', ''attack_type'', ''method'', ''website'',
     ''website_name'', ''module'', ''timestamp'', ''scheme'', ''dst_ip'', ''url_path'', ''risk_level'', ''status_code'',
     ''risk_level_num'', ''action'', ''reason'', ''payload'', ''socket_ip'', ''threat_confidence'', ''threat_risk_level'',
     ''threat_last_timestamp'', ''matched_threat_tag'', ''flag'', ''count'']"

definition mapRecord :: "jsval \<Rightarrow> jsval" where
  "mapRecord item = JObj (map (\<lambda>k. (k, coalesce (pget item k) (JStr []))) record_keys)"

text \<open>\<open>{ ...req, name }\<close> without the copy.\<close>

definition array_or_empty :: "jsval \<Rightarrow> jsval" where
  "array_or_empty v = (case v of JArr vs \<Rightarrow> JArr vs | _ \<Rightarrow> JArr [])"

definition buildIpGroupPayload :: "jsval \<Rightarrow> string \<Rightarrow> jsval" where
  "buildIpGroupPayload req name = JObj [(''name'', JStr (trim name)),
     (''comment'', JStr (to_str (coalesce (pget req ''comment'') (JStr [])))), (''original'', array_or_empty (pget req ''original''))]"

definition checked_id :: "jsval \<Rightarrow> failure + int" where
  "checked_id req = (let rawId = first_defined [pget req ''id'', pget req ''Id''] in
     if nullish rawId then Inl (invalid ''id is required'')
     else (case as_integer rawId of Some n \<Rightarrow> Inr n | None \<Rightarrow> Inl (invalid ''id must be an integer'')))"

definition optional_text :: "string \<Rightarrow> string option \<Rightarrow> (string \<times> jsval) list" where
  "optional_text k v = (case v of Some s \<Rightarrow> [(k, JStr s)] | None \<Rightarrow> [])"

definition buildUpdateIpGroupPayload :: "jsval \<Rightarrow> failure + jsval" where
  "buildUpdateIpGroupPayload req = bindE (checked_id req) (\<lambda>idNum.
     let texts = optional_text ''name'' (pickStringField req [''name'', ''Name'']) @
           optional_text ''comment'' (pickStringField req [''comment'', ''Comment'']);
         rawOriginal = first_defined [pget req ''original'', pget req ''Original'']
     in bindE (if rawOriginal = JUndef then Inr [] else (case extractOriginalValues rawOriginal of
          None \<Rightarrow> Inl (invalid ''original must be a list'') | Some vs \<Rightarrow> Inr [(''original'', JArr vs)])) (\<lambda>original.
        if texts @ original = [] then Inl (invalid ''at least one field (name/comment/original) must be provided'')
        else Inr (JObj ((''id'', JInt idNum) # texts @ original))))"

definition mapIpGroupResponse :: "jsval \<Rightarrow> jsval" where
  "mapIpGroupResponse json = JObj [(''id'', coalesce (pget json ''id'') (JStr [])), (''name'', coalesce (pget json ''name'') (JStr [])),
     (''comment'', coalesce (pget json ''comment'') (JStr [])), (''original'', array_or_empty (pget json ''original'')),
     (''cidrs'', array_or_empty (pget json ''cidrs''))]"

section \<open>The instance\<close>

record safeline =
  sl_restBaseUrl :: jsval
  sl_timeoutMs :: jsval
  sl_proxyUrl :: string
  sl_headers :: "(string \<times> jsval) list"
  sl_meta :: jsval
  sl_skipTls :: bool
  sl_token :: string

definition mergedBindings :: "jsval \<Rightarrow> jsval" where
  "mergedBindings ctx = JObj (spread [coalesce (pget ctx ''config'') (JObj []), coalesce (pget ctx ''bindings'') (JObj []),
     coalesce (pget ctx ''secret'') (JObj [])])"

definition parseHeaders :: "safeline_world \<Rightarrow> jsval \<Rightarrow> (string \<times> jsval) list" where
  "parseHeaders w v = (case v of
     JObj kvs \<Rightarrow> kvs
   | JStr s \<Rightarrow> if s = [] then [] else (case sw_parse w s of Inr (JObj kvs) \<Rightarrow> kvs | _ \<Rightarrow> [])
   | _ \<Rightarrow> [])"

text \<open>\<open>/^socks(4a?|5h?)?:\/\//i\<close>.\<close>

definition is_socks :: "string \<Rightarrow> bool" where
  "is_socks s \<longleftrightarrow> list_ex (starts_with (to_lower s)) [''socks://'', ''socks4://'', ''socks4a://'', ''socks5://'', ''socks5h://'']"

definition safeline_of :: "safeline_world \<Rightarrow> jsval \<Rightarrow> safeline" where
  "safeline_of w ctx = (let b = pget (mergedBindings ctx);
       rawProxyUrl = trim (to_str (or_js (first_defined [b ''proxy_url'', b ''proxyUrl'']) (JStr [])))
     in \<lparr>
     sl_restBaseUrl = or_js (b ''restBaseUrl'') (or_js (b ''rest_base_url'') (or_js (b ''baseUrl'') (or_js (b ''base_url'')
       (or_js (b ''endpoint'') (JStr []))))),
     sl_timeoutMs = or_js (first_defined [pget (pget ctx ''limits'') ''timeoutMs'', b ''timeoutMs'']) (JNum DEFAULT_TIMEOUT_MS),
     sl_proxyUrl = (if is_socks rawProxyUrl then rawProxyUrl else []),
     sl_headers = parseHeaders w (b ''headers''),
     sl_meta = or_js (pget ctx ''meta'') (JObj []),
     sl_skipTls = truthy (b ''tlsInsecureSkipVerify'') \<or> truthy (b ''skipTlsVerify'') \<or> truthy (b ''skip_tls_verify'') \<or>
       truthy (b ''tls_insecure_skip_verify''),
     sl_token = trim (to_str (or_js (first_defined [b ''api_token'', b ''apiToken'']) (JStr [])))\<rparr>)"

definition requestWithDefaults :: "jsval \<Rightarrow> jsval" where
  "requestWithDefaults req = JObj (filter (\<lambda>(k, v). k \<noteq> ''api_token'' \<and> k \<noteq> ''apiToken'') (entries_of req))"

definition requireApiToken :: "safeline \<Rightarrow> failure + string" where
  "requireApiToken c = (if sl_token c = [] then Inl (invalid ''api_token is required'') else Inr (sl_token c))"

definition requireBaseUrl :: "safeline \<Rightarrow> failure + string" where
  "requireBaseUrl c = (case normalizeBaseUrl (sl_restBaseUrl c) of
     None \<Rightarrow> Inl (invalid ''restBaseUrl/baseUrl is required (http/https)'') | Some baseUrl \<Rightarrow> Inr baseUrl)"

definition meta_id :: "safeline \<Rightarrow> string \<Rightarrow> string \<Rightarrow> jsval" where
  "meta_id c a b = or_js (pget (sl_meta c) a) (or_js (pget (sl_meta c) b) (JStr ''unknown''))"

definition buildHeaders :: "safeline \<Rightarrow> string \<Rightarrow> (string \<times> jsval) list" where
  "buildHeaders c apiToken = from_entries (sl_headers c @ [(''API-TOKEN'', JStr apiToken),
     (''x-engine-instance'', meta_id c ''instance_id'' ''instanceId''), (''x-request-id'', meta_id c ''request_id'' ''requestId'')])"

definition json_headers :: "safeline \<Rightarrow> string \<Rightarrow> (string \<times> jsval) list" where
  "json_headers c apiToken = set_key (buildHeaders c apiToken) ''content-type'' (JStr ''application/json'')"

section \<open>Calling upstream\<close>

text \<open>The time within which a direct request is aborted.\<close>

definition timeout_of :: "jsval \<Rightarrow> jsnum" where
  "timeout_of v = (case to_num v of Fin r \<Rightarrow> if 0 < r then Fin r else DEFAULT_TIMEOUT_MS | _ \<Rightarrow> DEFAULT_TIMEOUT_MS)"

definition fetchWithTimeout :: "safeline_world \<Rightarrow> safeline_request \<Rightarrow> (string \<times> string) + upstream_response" where
  "fetchWithTimeout w rq = sw_fetch w (rq\<lparr>sq_timeoutMs := JNum (timeout_of (sq_timeoutMs rq))\<rparr>)"

text \<open>The cause's message, which these errors have not, and the message of how a proxied request fails.\<close>

definition proxiedFetch :: "safeline_world \<Rightarrow> safeline_request \<Rightarrow> (string \<times> string) + upstream_response" where
  "proxiedFetch w rq = (case sw_proxied w rq of
     Inr res \<Rightarrow> Inr res
   | Inl (Thrown message) \<Rightarrow> Inl ([], message)
   | Inl (ErrorEvent code message) \<Rightarrow> Inl ([], if code = ''ETIMEDOUT'' \<or> code = ''ESOCKETTIMEDOUT''
       then ''DEADLINE_EXCEEDED: RPC timeout after '' @ to_str (sq_timeoutMs rq) @ ''ms''
       else ''UNAVAILABLE: '' @ (if message \<noteq> [] then message else ''proxied request failed'')))"

definition safeline_request :: "safeline \<Rightarrow> string \<Rightarrow> string \<Rightarrow> (string \<times> jsval) list \<Rightarrow> string option \<Rightarrow> safeline_request" where
  "safeline_request c verb url headers body = \<lparr>sq_method = verb, sq_url = url, sq_headers = headers, sq_body = body,
     sq_timeoutMs = sl_timeoutMs c, sq_skipTls = sl_skipTls c, sq_proxy = sl_proxyUrl c\<rparr>"

definition fetchSafeline :: "safeline_world \<Rightarrow> safeline_request \<Rightarrow> upstream_response safeline_calls" where
  "fetchSafeline w rq = ([rq], case (if sq_proxy rq \<noteq> [] then proxiedFetch w rq else fetchWithTimeout w rq) of
     Inr res \<Rightarrow> Inr res
   | Inl (cause, message) \<Rightarrow> Inl (Failure ''UNAVAILABLE'' (if cause \<noteq> [] then cause else if message \<noteq> [] then message else ''fetch failed'')))"

definition throwForHttpError :: "nat \<Rightarrow> string \<Rightarrow> failure" where
  "throwForHttpError status body = Failure
     (if status = 401 \<or> status = 403 then ''PERMISSION_DENIED''
      else if 400 \<le> status \<and> status < 500 then ''FAILED_PRECONDITION'' else ''UNAVAILABLE'')
     (''upstream http '' @ nat_str status @ '': '' @ body)"

definition throwForBusinessError :: "jsval \<Rightarrow> failure + unit" where
  "throwForBusinessError json = (let err = pget json ''err'' in if nullish err then Inr () else
     (let msg = pget json ''msg''; code = to_lower (to_str err);
          has = list_ex (includes_str code)
      in Inl (Failure
        (if has [''login'', ''permission'', ''forbidden'', ''auth'', ''denied''] then ''PERMISSION_DENIED''
         else if has [''invalid'', ''required'', ''bad''] then ''INVALID_ARGUMENT''
         else if has [''not_found'', ''notfound'', ''not found''] then ''NOT_FOUND'' else ''INTERNAL'')
        (to_str err @ (if truthy msg then '': '' @ to_str msg else [])))))"

text \<open>The JSON of an answer, or \<open>None\<close> for the empty body, which callers replace by a value of their own.\<close>

definition readJsonResponse :: "safeline_world \<Rightarrow> upstream_response \<Rightarrow> failure + jsval option" where
  "readJsonResponse w res = (case ur_text res of
     Inl e \<Rightarrow> Inl (Crash e)
   | Inr body \<Rightarrow>
       if \<not> response_ok res then Inl (throwForHttpError (ur_status res) body)
       else if trim body = [] then Inr None
       else (case sw_parse w body of
           Inl e \<Rightarrow> Inl (if includes_str (ur_contentType res) ''application/json'' then Crash e
             else Failure ''UNKNOWN'' ''response is not valid JSON'')
         | Inr json \<Rightarrow> Inr (Some json)))"

definition get_json :: "safeline \<Rightarrow> safeline_world \<Rightarrow> string \<Rightarrow> string \<Rightarrow> jsval option safeline_calls" where
  "get_json c w token url = thenA (fetchSafeline w (safeline_request c ''GET'' url (buildHeaders c token) None))
     (\<lambda>res. liftA (readJsonResponse w res))"

definition send_json :: "safeline \<Rightarrow> safeline_world \<Rightarrow> string \<Rightarrow> string \<Rightarrow> string \<Rightarrow> jsval \<Rightarrow> jsval option safeline_calls" where
  "send_json c w verb token url payload =
     thenA (liftA (case sw_stringify w payload of Inl e \<Rightarrow> Inl (Crash e) | Inr s \<Rightarrow> Inr s)) (\<lambda>sent.
     thenA (fetchSafeline w (safeline_request c verb url (json_headers c token) (Some sent)))
     (\<lambda>res. liftA (readJsonResponse w res)))"

definition or_empty :: "jsval \<Rightarrow> jsval option \<Rightarrow> jsval" where
  "or_empty emptyValue j = (case j of Some json \<Rightarrow> json | None \<Rightarrow> emptyValue)"

section \<open>The methods\<close>

type_synonym safeline_handler = "safeline \<Rightarrow> safeline_world \<Rightarrow> jsval \<Rightarrow> jsval safeline_calls"

text \<open>The token and the address, read in this order before or after what a method checks of its request.\<close>

definition with_instance :: "safeline \<Rightarrow> (string \<Rightarrow> string \<Rightarrow> 'a safeline_calls) \<Rightarrow> 'a safeline_calls" where
  "with_instance c f = thenA (liftA (requireApiToken c)) (\<lambda>token. thenA (liftA (requireBaseUrl c)) (\<lambda>baseUrl. f token baseUrl))"

text \<open>An empty object or array stands for no value.\<close>

definition drop_empty :: "jsval \<Rightarrow> jsval" where
  "drop_empty v = (if v = JObj [] \<or> v = JArr [] then JUndef else v)"

definition bounded_int :: "jsval \<Rightarrow> int \<Rightarrow> int \<Rightarrow> string \<Rightarrow> failure + int" where
  "bounded_int raw fallback most message = (let candidate = drop_empty raw in
     case (if nullish candidate then Some fallback else toPositiveInt candidate) of
       Some n \<Rightarrow> if n \<le> 0 \<or> most < n then Inl (invalid message) else Inr n
     | None \<Rightarrow> Inl (invalid message))"

definition checked_condition :: "jsval \<Rightarrow> failure + string" where
  "checked_condition req = (let trimmed = trim (to_str (coalesce (first_defined [pget req ''condition'', pget req ''Condition'']) (JStr DEFAULT_CONDITION)));
       condition = (if trimmed = [] then DEFAULT_CONDITION else trimmed)
     in if condition \<in> set CONDITION_OPTIONS then Inr condition
        else Inl (invalid ''condition must be one of attack_type, rule_id, src_ip_keyword, site_uuid,attack_type,src_ip_keyword''))"

definition callAggregate :: safeline_handler where
  "callAggregate c w req =
     thenA (liftA (requireApiToken c)) (\<lambda>token.
     thenA (liftA (bounded_int (first_defined [pget req ''time_interval'', pget req ''timeInterval'']) DEFAULT_TIME_INTERVAL MAX_TIME_INTERVAL
       ''time_interval must be integer in (0, 86400]'')) (\<lambda>intervalNum.
     thenA (liftA (bounded_int (first_defined [pget req ''log_size'', pget req ''logSize'']) DEFAULT_LOG_SIZE MAX_LOG_SIZE
       ''log_size must be integer in [1, 1000]'')) (\<lambda>logSizeNum.
     thenA (liftA (checked_condition req)) (\<lambda>condition.
     thenA (liftA (requireBaseUrl c)) (\<lambda>baseUrl.
     thenA (get_json c w token (baseUrl @ ''/api/DetectLogAggregateView?time_interval='' @ int_str intervalNum @ ''&log_size='' @
       int_str logSizeNum @ ''&condition='' @ encodeURIComponent condition)) (\<lambda>j.
     case normalizeList (or_empty (JArr []) j) of
       None \<Rightarrow> liftA (Inl (Failure ''UNKNOWN'' ''response has no list to map''))
     | Some vs \<Rightarrow> retA (JObj [(''records'', JArr (map mapRecord vs))])))))))"

definition callCreateIpGroup :: safeline_handler where
  "callCreateIpGroup c w req =
     thenA (liftA (requireApiToken c)) (\<lambda>token.
     let name = trim (to_str (or_js (first_defined [pget req ''name'', pget req ''Name'']) (JStr [])));
         original = pget req ''original''
     in if name = [] then liftA (Inl (invalid ''name is required''))
     else if original \<noteq> JUndef \<and> (case original of JArr _ \<Rightarrow> False | _ \<Rightarrow> True) then liftA (Inl (invalid ''original must be an array''))
     else thenA (liftA (requireBaseUrl c)) (\<lambda>baseUrl.
     thenA (send_json c w ''POST'' token (baseUrl @ ''/api/IPGroupAPI'') (buildIpGroupPayload req name)) (\<lambda>j.
     retA (mapIpGroupResponse (or_empty (JObj []) j)))))"

definition callUpdateIpGroup :: safeline_handler where
  "callUpdateIpGroup c w req = with_instance c (\<lambda>token baseUrl.
     thenA (liftA (buildUpdateIpGroupPayload req)) (\<lambda>payload.
     thenA (send_json c w ''PUT'' token (baseUrl @ ''/api/IPGroupAPI'') payload) (\<lambda>j.
     retA (mapIpGroupResponse (or_empty (JObj []) j)))))"

text \<open>A filter of several values: none, or an array.\<close>

definition filter_values :: "string \<Rightarrow> jsval \<Rightarrow> failure + jsval list" where
  "filter_values k v = (case unwrapList v of JUndef \<Rightarrow> Inr [] | JArr vs \<Rightarrow> Inr vs | _ \<Rightarrow> Inl (invalid (k @ '' must be an array'')))"

definition query_part :: "string \<Rightarrow> string \<Rightarrow> string" where
  "query_part k v = k @ ''='' @ encodeURIComponent v"

definition value_parts :: "string \<Rightarrow> jsval list \<Rightarrow> string list" where
  "value_parts k vs = map (\<lambda>v. query_part k (to_str v)) (filter (\<lambda>v. \<not> nullish v) vs)"

definition optional_part :: "string \<Rightarrow> string option \<Rightarrow> string list" where
  "optional_part k v = (case v of Some s \<Rightarrow> [query_part k s] | None \<Rightarrow> [])"

definition first_list :: "jsval list \<Rightarrow> jsval list" where
  "first_list vs = (case concat (map (\<lambda>v. case v of JArr xs \<Rightarrow> [xs] | _ \<Rightarrow> []) vs) of xs # _ \<Rightarrow> xs | [] \<Rightarrow> [])"

definition object_or_empty :: "jsval \<Rightarrow> jsval" where
  "object_or_empty v = (case v of JObj _ \<Rightarrow> v | JArr _ \<Rightarrow> v | _ \<Rightarrow> JObj [])"

definition int_or_0 :: "jsval \<Rightarrow> jsval" where
  "int_or_0 v = JInt (case as_integer v of Some n \<Rightarrow> n | None \<Rightarrow> 0)"

definition mapRecordSafe :: "jsval \<Rightarrow> jsval" where
  "mapRecordSafe item = JObj [(''id'', int_or_0 (pget item ''id'')), (''name'', coalesce (pget item ''name'') (JStr []))]"

definition mapNumberField :: "jsval \<Rightarrow> string \<Rightarrow> (string \<times> jsval) list" where
  "mapNumberField data field = (let val = pget data field in if nullish val then [] else
     (case as_integer val of Some n \<Rightarrow> [(field, JInt n)] | None \<Rightarrow> []))"

definition list_response :: "jsval \<Rightarrow> jsval" where
  "list_response json = (let data = object_or_empty (pget json ''data'');
       found = first_list [pget data ''list'', pget data ''items'', json, pget json ''list'', pget json ''items'', pget json ''data'']
     in JObj [(''err'', toValue (pget json ''err'')), (''msg'', toValue (pget json ''msg'')),
       (''data'', JObj ((''items'', JArr (map mapRecordSafe found)) # mapNumberField data ''total''))])"

definition callListIpGroups :: safeline_handler where
  "callListIpGroups c w req = with_instance c (\<lambda>token baseUrl.
     thenA (liftA (filter_values ''name'' (first_defined [pget req ''name'', pget req ''Name'']))) (\<lambda>names.
     thenA (liftA (filter_values ''comment'' (first_defined [pget req ''comment'', pget req ''Comment'']))) (\<lambda>comments.
     let cidr = pickStringField req [''cidr'', ''Cidr''];
         count = toQueryNumber (first_defined [pget req ''count'', pget req ''Count'']) False;
         offset = toQueryNumber (first_defined [pget req ''offset'', pget req ''Offset'']) True;
         queryParts = value_parts ''name'' names @ optional_part ''cidr'' cidr @ value_parts ''comment'' comments @
           optional_part ''count'' (map_option int_str count) @ optional_part ''offset'' (map_option int_str offset)
     in thenA (get_json c w token (baseUrl @ ''/api/IPGroupAPI'' @ (if queryParts = [] then [] else ''?'' @ join ''&'' queryParts))) (\<lambda>j.
     retA (case j of
       None \<Rightarrow> JObj [(''err'', JNull), (''msg'', JNull), (''data'', JObj [(''list'', JArr [])])]
     | Some json \<Rightarrow> list_response json)))))"

definition delete_payload :: "jsval \<Rightarrow> failure + jsval" where
  "delete_payload req = (case extractIntList (first_defined [pget req ''id__in'', pget req ''idIn'', pget req ''Id__in'', pget req ''IdIn'']) of
     None \<Rightarrow> Inl (invalid ''id__in must be an int64 list'')
   | Some idList \<Rightarrow> (let deleteAll = truthy (first_defined [pget req ''delete_all_resources'', pget req ''deleteAllResources'',
           pget req ''DeleteAllResources''])
       in if idList \<noteq> [] \<and> deleteAll then Inl (invalid ''id__in and delete_all_resources=true cannot be used together'')
          else if idList = [] \<and> \<not> deleteAll then Inl (invalid ''id__in is required unless delete_all_resources=true'')
          else Inr (JObj (if deleteAll then [(''delete_all_resources'', JBool True)] else [(''id__in'', JArr (map JInt idList))]))))"

definition plain_response :: "jsval \<Rightarrow> jsval" where
  "plain_response json = JObj [(''err'', toValue (pget json ''err'')), (''msg'', toValue (pget json ''msg'')),
     (''data'', coalesce (pget json ''data'') JNull)]"

definition empty_response :: "jsval \<Rightarrow> jsval" where
  "empty_response msg = JObj [(''err'', JNull), (''msg'', msg), (''data'', JNull)]"

definition callDeleteIpGroup :: safeline_handler where
  "callDeleteIpGroup c w req = with_instance c (\<lambda>token baseUrl.
     thenA (liftA (delete_payload req)) (\<lambda>payload.
     thenA (send_json c w ''DELETE'' token (baseUrl @ ''/api/IPGroupAPI'') payload) (\<lambda>j.
     retA (case j of None \<Rightarrow> empty_response JNull | Some json \<Rightarrow> plain_response json))))"

text \<open>What is put into a group or taken out of it: its id, with targets when the request has the field.\<close>

definition optional_targets :: "jsval \<Rightarrow> failure + (string \<times> jsval) list" where
  "optional_targets req = (if \<not> (hasOwn req ''targets'' \<or> hasOwn req ''Targets'') then Inr [] else
     (let rawTargets = first_defined [pget req ''targets'', pget req ''Targets''] in
      if nullish rawTargets then Inr [(''targets'', JArr [])] else (case rawTargets of
        JArr vs \<Rightarrow> bindE (mapE (target_text ''targets'') vs) (\<lambda>ts. Inr [(''targets'', JArr (map JStr ts))])
      | _ \<Rightarrow> Inl (invalid ''targets must be an array when provided''))))"

definition items_payload :: "jsval \<Rightarrow> failure + jsval" where
  "items_payload req = bindE (checked_id req) (\<lambda>idNum. bindE (optional_targets req) (\<lambda>targets.
     Inr (JObj ((''id'', JInt idNum) # targets))))"

definition add_response :: "jsval \<Rightarrow> jsval" where
  "add_response json = (let dataField = object_or_empty (pget json ''data'') in
     JObj [(''err'', toValue (pget json ''err'')), (''msg'', toValue (pget json ''msg'')),
       (''data'', JObj [(''id'', int_or_0 (coalesce (pget dataField ''id'') (coalesce (pget (pget json ''data'') ''id'') (pget json ''id'')))),
         (''name'', coalesce (pget dataField ''name'') (JStr [])), (''comment'', coalesce (pget dataField ''comment'') (JStr [])),
         (''original'', array_or_empty (pget dataField ''original'')), (''cidrs'', array_or_empty (pget dataField ''cidrs''))])])"

definition callAddIpGroupItems :: safeline_handler where
  "callAddIpGroupItems c w req = with_instance c (\<lambda>token baseUrl.
     thenA (liftA (items_payload req)) (\<lambda>payload.
     thenA (send_json c w ''POST'' token (baseUrl @ ''/api/EditIPGroupItem'') payload) (\<lambda>j.
     retA (case j of None \<Rightarrow> empty_response (JStr []) | Some json \<Rightarrow> add_response json))))"

definition callUpdateDetectorState :: safeline_handler where
  "callUpdateDetectorState c w req = with_instance c (\<lambda>token baseUrl.
     if \<not> (hasOwn req ''is_enabled'' \<or> hasOwn req ''isEnabled'') then liftA (Inl (invalid ''is_enabled is required''))
     else (case toBoolean (if hasOwn req ''is_enabled'' then pget req ''is_enabled'' else pget req ''isEnabled'') of
       None \<Rightarrow> liftA (Inl (invalid ''is_enabled must be a boolean''))
     | Some normalizedBool \<Rightarrow>
         thenA (send_json c w ''PUT'' token (baseUrl @ ''/api/EnableDisableDetectorAPI'') (JObj [(''is_enabled'', JBool normalizedBool)])) (\<lambda>j.
         retA (case j of None \<Rightarrow> empty_response JNull | Some json \<Rightarrow> plain_response json))))"

definition callDeleteIpGroupItems :: safeline_handler where
  "callDeleteIpGroupItems c w req = with_instance c (\<lambda>token baseUrl.
     thenA (liftA (items_payload req)) (\<lambda>payload.
     thenA (send_json c w ''DELETE'' token (baseUrl @ ''/api/EditIPGroupItem'') payload) (\<lambda>j.
     let json = or_empty (empty_response (JStr [])) j
     in retA (JObj [(''err'', coalesce (pget json ''err'') JNull), (''msg'', coalesce (pget json ''msg'') JNull),
       (''data'', coalesce (pget json ''data'') JNull)]))))"

text \<open>The code looks for its own keys first and then for the same keys again, which is the same.\<close>

definition callGetDetectorState :: safeline_handler where
  "callGetDetectorState c w req = with_instance c (\<lambda>token baseUrl.
     thenA (get_json c w token (baseUrl @ ''/api/EnableDisableDetectorAPI'')) (\<lambda>j.
     let json = or_empty (JObj [(''err'', JNull), (''msg'', JStr []), (''data'', JObj [])]) j;
         data = object_or_empty (pget json ''data'');
         isEnabled = toBooleanStrict (first_defined [pget data ''is_enabled'', pget data ''isEnabled''])
     in retA (JObj [(''err'', coalesce (pget json ''err'') JNull), (''msg'', coalesce (pget json ''msg'') (JStr [])),
       (''data'', JObj [(''is_enabled'', JBool isEnabled), (''raw'', data)])])))"

section \<open>Blocking and unblocking\<close>

definition given_group :: "jsval \<Rightarrow> int option" where
  "given_group req = (case toInt64 (first_defined [pget req ''group_id'', pget req ''groupId'']) of
     Some n \<Rightarrow> if n = 0 then None else Some n | None \<Rightarrow> None)"

definition group_name_of :: "jsval \<Rightarrow> string" where
  "group_name_of req = (let val = first_defined [pget req ''group_name'', pget req ''groupName''];
       trimmed = (if nullish val then [] else trim (to_str val))
     in if trimmed = [] then ''block_ip'' else trimmed)"

text \<open>The id of the first listed group of the name, when it has one.\<close>

definition found_group :: "string \<Rightarrow> jsval \<Rightarrow> int option" where
  "found_group groupName listRes = (let data = pget listRes ''data'';
       listed = or_js (pget data ''items'') (or_js (pget data ''list'') (JArr []))
     in case listed of
       JArr vs \<Rightarrow> Option.bind (find (\<lambda>item. to_str (pget item ''name'') = groupName) vs) (\<lambda>item. toInt64 (pget item ''id''))
     | _ \<Rightarrow> None)"

definition list_by_name :: "string \<Rightarrow> jsval" where
  "list_by_name groupName = JObj [(''name'', JArr [JStr groupName])]"

definition new_group :: "string \<Rightarrow> jsval \<Rightarrow> jsval" where
  "new_group groupName req = JObj [(''name'', JStr groupName),
     (''comment'', JStr (str_or_empty (first_defined [pget req ''comment'', pget req ''Comment'']))), (''original'', JArr [])]"

text \<open>A listing that fails counts as one without the group.\<close>

definition lookUpGroup :: "safeline \<Rightarrow> safeline_world \<Rightarrow> string \<Rightarrow> int option safeline_calls" where
  "lookUpGroup c w groupName =
     catchA (thenA (callListIpGroups c w (list_by_name groupName)) (\<lambda>listRes. retA (found_group groupName listRes))) (\<lambda>e. retA None)"

definition findOrCreateGroupId :: "safeline \<Rightarrow> safeline_world \<Rightarrow> jsval \<Rightarrow> int safeline_calls" where
  "findOrCreateGroupId c w req = (case given_group req of
     Some idNum \<Rightarrow> retA idNum
   | None \<Rightarrow> thenA (lookUpGroup c w (group_name_of req)) (\<lambda>found. case found of
       Some n \<Rightarrow> retA n
     | None \<Rightarrow> thenA (callCreateIpGroup c w (new_group (group_name_of req) req)) (\<lambda>created. case toInt64 (pget created ''id'') of
         Some n \<Rightarrow> retA n
       | None \<Rightarrow> liftA (Inl (Failure ''UNKNOWN'' ''created group has no id'')))))"

definition items_request :: "safeline \<Rightarrow> int \<Rightarrow> string list \<Rightarrow> jsval" where
  "items_request c groupId targets = JObj [(''api_token'', JStr (sl_token c)), (''id'', JInt groupId), (''targets'', JArr (map JStr targets))]"

definition edit_group :: "safeline_handler \<Rightarrow> safeline_handler" where
  "edit_group h c w req =
     thenA (liftA (requireApiToken c)) (\<lambda>token.
     thenA (liftA (requireTargets req)) (\<lambda>targets.
     thenA (liftA (requireBaseUrl c)) (\<lambda>baseUrl.
     thenA (findOrCreateGroupId c w req) (\<lambda>groupId.
     h c w (items_request c groupId targets)))))"

definition callBlockIp :: safeline_handler where
  "callBlockIp = edit_group callAddIpGroupItems"

definition callUnblockIp :: safeline_handler where
  "callUnblockIp = edit_group callDeleteIpGroupItems"

section \<open>Inspection\<close>

definition inspection_response :: "jsval \<Rightarrow> jsval" where
  "inspection_response json = JObj [(''err'', toValue (pget json ''err'')), (''msg'', toValue (pget json ''msg'')),
     (''data'', coalesce (pget json ''data'') (JObj []))]"

definition inspect :: "safeline \<Rightarrow> safeline_world \<Rightarrow> string \<Rightarrow> string \<Rightarrow> jsval safeline_calls" where
  "inspect c w token url = thenA (get_json c w token url) (\<lambda>j.
     let json = or_empty (JObj [(''err'', JNull), (''msg'', JStr []), (''data'', JObj [])]) j
     in thenA (liftA (throwForBusinessError json)) (\<lambda>_. retA (inspection_response json)))"

definition callGetProfile :: safeline_handler where
  "callGetProfile c w req = with_instance c (\<lambda>token baseUrl. inspect c w token (baseUrl @ ''/api/ProfileAPI''))"

definition overview_params :: "(string \<times> string list) list" where
  "overview_params = [(''location'', [''location'', ''Location'']), (''request_number'', [''request_number'', ''requestNumber'']),
     (''src_ip'', [''src_ip'', ''srcIp'']), (''attack_type'', [''attack_type'', ''attackType'']),
     (''risk_level'', [''risk_level'', ''riskLevel'']), (''host'', [''host'', ''Host''])]"

definition total_part :: "jsval \<Rightarrow> string list" where
  "total_part totalVal = (if nullish totalVal then [] else (case toBoolean totalVal of
     Some b \<Rightarrow> [''total='' @ (if b then ''true'' else ''false'')] | None \<Rightarrow> []))"

definition overview_query :: "jsval \<Rightarrow> string \<Rightarrow> string list" where
  "overview_query req duration = query_part ''duration'' duration # total_part (first_defined [pget req ''total'', pget req ''Total'']) @
     concat (map (\<lambda>(k, ks). case pickStringField req ks of Some v \<Rightarrow> if v = [] then [] else [query_part k v] | None \<Rightarrow> []) overview_params)"

definition callGetOverview :: safeline_handler where
  "callGetOverview c w req = with_instance c (\<lambda>token baseUrl.
     let duration = trim (to_str (or_js (first_defined [pget req ''duration'', pget req ''Duration'']) (JStr [])))
     in if duration = [] then liftA (Inl (invalid ''duration is required''))
        else inspect c w token (baseUrl @ ''/api/OverviewAPI?'' @ join ''&'' (overview_query req duration)))"

definition filter_parts :: "(string \<times> jsval) list \<Rightarrow> string list" where
  "filter_parts kvs = map (\<lambda>(k, v). query_part (encodeURIComponent k) (to_str v)) (filter (\<lambda>(k, v). \<not> nullish v) kvs)"

definition number_part :: "string \<Rightarrow> int option \<Rightarrow> string list" where
  "number_part k n = (case n of Some i \<Rightarrow> [k @ ''='' @ int_str i] | None \<Rightarrow> [])"

definition detect_log_query :: "jsval \<Rightarrow> (string \<times> jsval) list \<Rightarrow> string list" where
  "detect_log_query req filters = ''scope=log:detect_log'' #
     number_part ''count'' (toQueryNumber (first_defined [pget req ''count'', pget req ''Count'']) False) @
     number_part ''offset'' (toQueryNumber (first_defined [pget req ''offset'', pget req ''Offset'']) True) @
     number_part ''req_start_time__gte'' (toInt64 (first_defined [pget req ''time_range_start'', pget req ''timeRangeStart''])) @
     number_part ''req_start_time__lte'' (toInt64 (first_defined [pget req ''time_range_end'', pget req ''timeRangeEnd''])) @
     filter_parts filters"

definition detect_log_response :: "jsval \<Rightarrow> jsval" where
  "detect_log_response json = (let data = object_or_empty (pget json ''data'') in
     JObj [(''err'', toValue (pget json ''err'')), (''msg'', toValue (pget json ''msg'')),
       (''data'', JObj [(''items'', array_or_empty (pget data ''items'')), (''total'', int_or_0 (pget data ''total''))])])"

definition callSearchDetectLog :: safeline_handler where
  "callSearchDetectLog c w req = with_instance c (\<lambda>token baseUrl.
     thenA (liftA (unwrapStruct (first_defined [pget req ''filters'', pget req ''Filters'']))) (\<lambda>filters.
     thenA (get_json c w token (baseUrl @ ''/api/FilterV2API?'' @ join ''&'' (detect_log_query req filters))) (\<lambda>j.
     let json = or_empty (JObj [(''err'', JNull), (''msg'', JStr []), (''data'', JObj [(''items'', JArr []), (''total'', JInt 0)])]) j
     in thenA (liftA (throwForBusinessError json)) (\<lambda>_. retA (detect_log_response json)))))"

definition callGetESIndices :: safeline_handler where
  "callGetESIndices c w req = with_instance c (\<lambda>token baseUrl.
     let trimmed = trim (to_str (or_js (first_defined [pget req ''alias'', pget req ''Alias'']) (JStr ''detect_log'')));
         name = (if trimmed = [] then ''detect_log'' else trimmed)
     in inspect c w token (baseUrl @ ''/api/ESIndices?'' @ query_part ''alias'' name))"

section \<open>The service\<close>

definition SERVICE_PATH :: string where
  "SERVICE_PATH = ''Chaitin_WAF_SAFELINE.Chaitin_WAF_SAFELINE/''"

definition rpcdef_table :: "(string \<times> safeline_handler) list" where
  "rpcdef_table = [
     (''AggregateDetectLogBySrcIP'', callAggregate), (''CreateIPGroup'', callCreateIpGroup), (''UpdateIPGroup'', callUpdateIpGroup),
     (''ListIPGroups'', callListIpGroups), (''DeleteIPGroup'', callDeleteIpGroup), (''DeleteIPGroupItems'', callDeleteIpGroupItems),
     (''AddIPGroupItems'', callAddIpGroupItems), (''GetDetectorState'', callGetDetectorState),
     (''UpdateDetectorState'', callUpdateDetectorState), (''BlockIP'', callBlockIp), (''UnblockIP'', callUnblockIp),
     (''GetProfile'', callGetProfile), (''GetOverview'', callGetOverview), (''SearchDetectLog'', callSearchDetectLog),
     (''GetESIndices'', callGetESIndices)]"

definition mergeCtx :: "jsval \<Rightarrow> jsval \<Rightarrow> jsval" where
  "mergeCtx baseCtx innerCtx = (let merged = (\<lambda>k. JObj (spread [coalesce (pget baseCtx k) (JObj []), coalesce (pget innerCtx k) (JObj [])]));
       either = (\<lambda>k d. coalesce (pget innerCtx k) (coalesce (pget baseCtx k) d))
     in JObj (spread [coalesce baseCtx (JObj []), coalesce innerCtx (JObj []),
       JObj [(''bindings'', merged ''bindings''), (''config'', merged ''config''), (''secret'', merged ''secret''),
         (''limits'', either ''limits'' (JObj [])), (''meta'', either ''meta'' (JObj [])),
         (''metadata'', either ''metadata'' (JObj [])), (''getMetadata'', coalesce (pget innerCtx ''getMetadata'') (pget baseCtx ''getMetadata''))]]))"

definition resolveCallContext :: "jsval \<Rightarrow> jsval \<Rightarrow> jsval \<Rightarrow> jsval \<times> jsval" where
  "resolveCallContext baseCtx reqOrCtx maybeInnerCtx = (
     if maybeInnerCtx \<noteq> JUndef then (coalesce reqOrCtx (JObj []), mergeCtx baseCtx maybeInnerCtx)
     else (let innerCtx = coalesce reqOrCtx (JObj []) in
       (coalesce (pget innerCtx ''request'') (coalesce (pget innerCtx ''req'') (JObj [])), mergeCtx baseCtx innerCtx)))"

definition wrapLegacyHandler :: "safeline_world \<Rightarrow> jsval \<Rightarrow> safeline_handler \<Rightarrow> jsval \<Rightarrow> jsval \<Rightarrow> jsval safeline_calls" where
  "wrapLegacyHandler w baseCtx h reqOrCtx maybeInnerCtx = (let (req, ctx) = resolveCallContext baseCtx reqOrCtx maybeInnerCtx
     in h (safeline_of w (JObj (spread [ctx, JObj [(''req'', req)]]))) w (requestWithDefaults req))"

definition registerHandlers :: "safeline_world \<Rightarrow> jsval \<Rightarrow> (string \<times> (jsval \<Rightarrow> jsval \<Rightarrow> jsval safeline_calls)) list" where
  "registerHandlers w ctx = map (\<lambda>(m, h). (CHR ''/'' # SERVICE_PATH @ m, wrapLegacyHandler w ctx h)) rpcdef_table"

text \<open>The handlers of the service, by full name without the slash; they are given a context only.\<close>

definition safeline_handlers :: "safeline_world \<Rightarrow> (string \<times> (jsval \<Rightarrow> jsval safeline_calls)) list" where
  "safeline_handlers w = map (\<lambda>(path, f). (tl path, \<lambda>ctx. f ctx JUndef)) (registerHandlers w (JObj []))"

end
