(* ===== verification/SafelineGroups.thy ===== *)
theory SafelineGroups
  imports Safeline
begin

text \<open>
  The properties of the SafeLine connector: all its requests are the instance's own, what BlockIP and
  UnblockIP do when they say they did it, and what some answers and requests come to that their callers may
  not expect.
\<close>

section \<open>Whose requests they are\<close>

definition below_api :: "safeline \<Rightarrow> string \<Rightarrow> bool" where
  "below_api c url = (case normalizeBaseUrl (sl_restBaseUrl c) of Some base \<Rightarrow> starts_with url (base @ ''/api/'') | None \<Rightarrow> False)"

definition own_request :: "safeline \<Rightarrow> safeline_request \<Rightarrow> bool" where
  "own_request c rq \<longleftrightarrow> sl_token c \<noteq> [] \<and> map_of (sq_headers rq) ''API-TOKEN'' = Some (JStr (sl_token c)) \<and>
     below_api c (sq_url rq) \<and>
     sq_proxy rq = sl_proxyUrl c \<and> sq_skipTls rq = sl_skipTls c"

lemma fetchSafeline_sends: "fst (fetchSafeline w rq) = [rq]"
  by (simp add: fetchSafeline_def)

lemma api_token_header: "map_of (buildHeaders c t) ''API-TOKEN'' = Some (JStr t)" "map_of (json_headers c t) ''API-TOKEN'' = Some (JStr t)"
  by (simp_all add: json_headers_def buildHeaders_def map_of_from_entries)

lemma requireApiToken_Inr [simp]: "requireApiToken c = Inr t \<longleftrightarrow> sl_token c \<noteq> [] \<and> t = sl_token c"
  by (auto simp: requireApiToken_def)

lemma requireBaseUrl_Inr [simp]: "requireBaseUrl c = Inr base \<longleftrightarrow> normalizeBaseUrl (sl_restBaseUrl c) = Some base"
  by (auto simp: requireBaseUrl_def split: option.split)

lemma all_sent_fetch: "P rq \<Longrightarrow> all_sent P (fetchSafeline w rq)"
  by (simp add: fetchSafeline_def all_sent_intros)

lemma all_sent_with_instance:
  "(\<And>base. sl_token c \<noteq> [] \<Longrightarrow> normalizeBaseUrl (sl_restBaseUrl c) = Some base \<Longrightarrow> all_sent P (f (sl_token c) base)) \<Longrightarrow>
     all_sent P (with_instance c f)"
  unfolding with_instance_def by (intro all_sent_thenA all_sent_intros) auto

lemma all_sent_json:
  assumes "requireApiToken c = Inr t" and "below_api c url"
  shows "all_sent (own_request c) (get_json c w t url)"
    "all_sent (own_request c) (send_json c w verb t url payload)"
    "all_sent (own_request c) (inspect c w t url)"
  unfolding inspect_def get_json_def send_json_def Let_def using assms
  by (intro all_sent_thenA all_sent_fetch all_sent_intros; simp add: own_request_def safeline_request_def api_token_header)+

lemma all_sent_branches:
  "(b \<Longrightarrow> all_sent P m) \<Longrightarrow> (\<not> b \<Longrightarrow> all_sent P n) \<Longrightarrow> all_sent P (if b then m else n)"
  "(x = None \<Longrightarrow> all_sent P m) \<Longrightarrow> (\<And>y. x = Some y \<Longrightarrow> all_sent P (f y)) \<Longrightarrow> all_sent P (case x of None \<Rightarrow> m | Some y \<Rightarrow> f y)"
  by (auto split: option.split)

lemmas own_intros = all_sent_branches all_sent_with_instance all_sent_thenA all_sent_catchA all_sent_json all_sent_intros

lemma simple_methods_own:
  "all_sent (own_request c) (callAggregate c w req)" "all_sent (own_request c) (callCreateIpGroup c w req)"
  "all_sent (own_request c) (callUpdateIpGroup c w req)" "all_sent (own_request c) (callListIpGroups c w req)"
  "all_sent (own_request c) (callDeleteIpGroup c w req)" "all_sent (own_request c) (callDeleteIpGroupItems c w req)"
  "all_sent (own_request c) (callAddIpGroupItems c w req)" "all_sent (own_request c) (callGetDetectorState c w req)"
  "all_sent (own_request c) (callUpdateDetectorState c w req)" "all_sent (own_request c) (callGetProfile c w req)"
  "all_sent (own_request c) (callGetOverview c w req)" "all_sent (own_request c) (callSearchDetectLog c w req)"
  "all_sent (own_request c) (callGetESIndices c w req)"
  unfolding callAggregate_def callCreateIpGroup_def callUpdateIpGroup_def callListIpGroups_def callDeleteIpGroup_def
    callDeleteIpGroupItems_def callAddIpGroupItems_def callGetDetectorState_def callUpdateDetectorState_def callGetProfile_def
    callGetOverview_def callSearchDetectLog_def callGetESIndices_def Let_def
  by (intro own_intros; simp add: below_api_def)+

lemma find_or_create_own: "all_sent (own_request c) (findOrCreateGroupId c w req)"
  unfolding findOrCreateGroupId_def lookUpGroup_def
  by (intro own_intros simple_methods_own)

lemma edit_group_own: "(\<And>r. all_sent (own_request c) (h c w r)) \<Longrightarrow> all_sent (own_request c) (edit_group h c w req)"
  unfolding edit_group_def by (intro all_sent_thenA all_sent_intros find_or_create_own)

lemma safeline_requests_own: "(m, h) \<in> set rpcdef_table \<Longrightarrow> all_sent (own_request c) (h c w req)"
proof -
  have "list_all (\<lambda>h. all_sent (own_request c) (h c w req)) (map snd rpcdef_table)"
    by (simp add: rpcdef_table_def simple_methods_own edit_group_own callBlockIp_def callUnblockIp_def)
  then show "(m, h) \<in> set rpcdef_table \<Longrightarrow> all_sent (own_request c) (h c w req)" by (auto simp: list_all_iff)
qed

section \<open>Blocking and unblocking\<close>

text \<open>The requests that the two methods consist of.\<close>

definition listing :: "safeline \<Rightarrow> string \<Rightarrow> string \<Rightarrow> safeline_request" where
  "listing c base name = safeline_request c ''GET'' (base @ ''/api/IPGroupAPI?name='' @ encodeURIComponent name) (buildHeaders c (sl_token c)) None"

definition creation :: "safeline \<Rightarrow> string \<Rightarrow> string \<Rightarrow> safeline_request" where
  "creation c base body = safeline_request c ''POST'' (base @ ''/api/IPGroupAPI'') (json_headers c (sl_token c)) (Some body)"

definition edit :: "safeline \<Rightarrow> string \<Rightarrow> string \<Rightarrow> string \<Rightarrow> safeline_request" where
  "edit c base verb body = safeline_request c verb (base @ ''/api/EditIPGroupItem'') (json_headers c (sl_token c)) (Some body)"

text \<open>Answered with a status of success.\<close>

definition accepted :: "safeline_world \<Rightarrow> safeline_request \<Rightarrow> bool" where
  "accepted w rq \<longleftrightarrow> (case snd (fetchSafeline w rq) of Inr res \<Rightarrow> response_ok res | Inl e \<Rightarrow> False)"

text \<open>
  How the group comes about: it is the one the request gives; or the first group listed under the name; or,
  when none is listed or the listing fails, the one that is created.
\<close>

definition group_prepared :: "safeline \<Rightarrow> safeline_world \<Rightarrow> jsval \<Rightarrow> string \<Rightarrow> int \<Rightarrow> safeline_request list \<Rightarrow> bool" where
  "group_prepared c w req base g before \<longleftrightarrow> (let name = group_name_of req; raw = toInt64 (first_defined [pget req ''group_id'', pget req ''groupId'']) in
     if raw \<noteq> None \<and> raw \<noteq> Some 0 then raw = Some g \<and> before = []
     else (before = [listing c base name] \<and>
         (\<exists>listed. snd (callListIpGroups c w (list_by_name name)) = Inr listed \<and> found_group name listed = Some g)) \<or>
       (\<exists>body created. before = [listing c base name, creation c base body] \<and>
         sw_stringify w (buildIpGroupPayload (new_group name req) name) = Inr body \<and> accepted w (creation c base body) \<and>
         snd (callCreateIpGroup c w (new_group name req)) = Inr created \<and> toInt64 (pget created ''id'') = Some g))"

lemma accepted_read: "snd (fetchSafeline w rq) = Inr res \<Longrightarrow> readJsonResponse w res = Inr j \<Longrightarrow> accepted w rq"
  by (auto simp: accepted_def readJsonResponse_def split: sum.splits if_splits)

lemma fetch_Inr: "fetchSafeline w rq = (evs, Inr res) \<longleftrightarrow> evs = [rq] \<and> snd (fetchSafeline w rq) = Inr res"
  by (auto simp: fetchSafeline_def)

lemma liftA_Inr: "liftA r = (evs, Inr x) \<longleftrightarrow> evs = [] \<and> r = Inr x"
  by (auto simp: liftA_def)

lemma retA_Inr: "retA y = (evs, Inr x) \<longleftrightarrow> evs = [] \<and> y = x"
  by (auto simp: retA_def)

lemmas run_Inr = thenA_Inr_iff fetch_Inr liftA_Inr retA_Inr

lemma send_json_Inr:
  assumes "send_json c w verb (sl_token c) url payload = (evs, Inr j)"
  shows "\<exists>body. sw_stringify w payload = Inr body \<and>
    evs = [safeline_request c verb url (json_headers c (sl_token c)) (Some body)] \<and>
    accepted w (safeline_request c verb url (json_headers c (sl_token c)) (Some body))"
  using assms unfolding send_json_def by (auto simp: run_Inr accepted_read split: sum.splits)

lemma with_instance_Inr:
  "with_instance c f = (evs, Inr x) \<longleftrightarrow> sl_token c \<noteq> [] \<and>
     (\<exists>base. normalizeBaseUrl (sl_restBaseUrl c) = Some base \<and> f (sl_token c) base = (evs, Inr x))"
  unfolding with_instance_def by (auto simp: run_Inr)

lemma with_instance_usable:
  "sl_token c \<noteq> [] \<Longrightarrow> normalizeBaseUrl (sl_restBaseUrl c) = Some base \<Longrightarrow> with_instance c f = f (sl_token c) base"
  by (simp add: with_instance_def requireApiToken_def requireBaseUrl_def)

lemma listing_sends:
  assumes "sl_token c \<noteq> []" and "normalizeBaseUrl (sl_restBaseUrl c) = Some base"
  shows "fst (callListIpGroups c w (list_by_name name)) = [listing c base name]"
  by (simp add: callListIpGroups_def with_instance_usable [OF assms] list_by_name_def filter_values_def unwrapList_def nullish_def hasOwn_def
      value_parts_def optional_part_def query_part_def Let_def get_json_def fst_thenA fetchSafeline_sends listing_def
      split: sum.split)

lemma creation_sends:
  assumes "callCreateIpGroup c w r = (evs, Inr created)" and "normalizeBaseUrl (sl_restBaseUrl c) = Some base"
    and "pget r ''name'' = JStr name" and "name \<noteq> []" and "trim name = name"
  shows "\<exists>body. sw_stringify w (buildIpGroupPayload r name) = Inr body \<and> evs = [creation c base body] \<and> accepted w (creation c base body)"
  using assms unfolding callCreateIpGroup_def
  by (auto simp: run_Inr Let_def nullish_def or_js_def truthy_def creation_def dest!: send_json_Inr split: if_splits)

lemma trim_start_trim: "trim_start (trim s) = trim s"
proof -
  have "trim_start (trim_end t) = trim_end t" if "t = [] \<or> \<not> is_ws (hd t)" for t
  proof (cases "trim_end t = []")
    case False
    have "prefix (trim_end t) t"
      unfolding trim_end_def by (metis rev_rev_ident suffix_dropWhile suffix_to_prefix)
    with False have "hd (trim_end t) = hd t" "t \<noteq> []"
      by (metis hd_append2 prefix_def) (use False \<open>prefix (trim_end t) t\<close> in auto)
    with that False show ?thesis unfolding trim_start_def by (cases "trim_end t") auto
  qed (simp add: trim_start_def)
  moreover have "trim_start s = [] \<or> \<not> is_ws (hd (trim_start s))"
    unfolding trim_start_def using hd_dropWhile by blast
  ultimately show ?thesis unfolding trim_def by blast
qed

lemma trim_idem: "trim (trim s) = trim s"
  unfolding trim_def [of "trim s"] trim_start_trim by (simp add: trim_def trim_end_def dropWhile_idem)

lemma group_name_trimmed: "trim (group_name_of req) = group_name_of req" "group_name_of req \<noteq> []"
proof -
  have "trim ''block_ip'' = ''block_ip''" by code_simp
  then show "trim (group_name_of req) = group_name_of req" "group_name_of req \<noteq> []"
    by (auto simp: group_name_of_def Let_def trim_idem)
qed

lemma texts_kept: "mapE (target_text k) (map JStr ts) = Inr ts"
  by (induction ts) (simp_all add: target_text_def nullish_def)

lemma items_payload_exact: "items_payload (items_request c g ts) = Inr (JObj [(''id'', JInt g), (''targets'', JArr (map JStr ts))])"
  by (simp add: items_payload_def items_request_def checked_id_def optional_targets_def hasOwn_def nullish_def as_integer_def
      to_num_def texts_kept)

text \<open>What the methods come to once the group is known.\<close>

definition edits_group :: "safeline_handler \<Rightarrow> string \<Rightarrow> bool" where
  "edits_group h verb \<longleftrightarrow> (\<forall>c w g ts evs answer base. h c w (items_request c g ts) = (evs, Inr answer) \<longrightarrow>
     normalizeBaseUrl (sl_restBaseUrl c) = Some base \<longrightarrow>
     (\<exists>body. sw_stringify w (JObj [(''id'', JInt g), (''targets'', JArr (map JStr ts))]) = Inr body \<and>
       evs = [edit c base verb body] \<and> accepted w (edit c base verb body)))"

lemma edits: "edits_group callAddIpGroupItems ''POST''" "edits_group callDeleteIpGroupItems ''DELETE''"
  unfolding edits_group_def callAddIpGroupItems_def callDeleteIpGroupItems_def edit_def
  by (auto simp: with_instance_Inr items_payload_exact run_Inr Let_def dest!: send_json_Inr)

lemma targets_given: "requireTargets req = Inr ts \<Longrightarrow> ts \<noteq> []"
proof -
  have "own_targets req ks = Inr ts \<Longrightarrow> ts \<noteq> []" for ks
    by (induction ks) (auto dest: mapE_length split: jsval.splits if_splits)
  then show "requireTargets req = Inr ts \<Longrightarrow> ts \<noteq> []" unfolding requireTargets_def .
qed

lemma look_up:
  assumes "sl_token c \<noteq> []" and "normalizeBaseUrl (sl_restBaseUrl c) = Some base" and "lookUpGroup c w name = (evs, Inr found)"
  shows "evs = [listing c base name]"
    "found = Some g \<Longrightarrow> \<exists>l. snd (callListIpGroups c w (list_by_name name)) = Inr l \<and> found_group name l = Some g"
  using listing_sends [OF assms(1,2), of w name] assms(3)
  by (auto simp: lookUpGroup_def catchA_def thenA_def retA_def split: prod.splits sum.splits)

lemma not_given:
  "given_group req = None \<Longrightarrow> \<not> (toInt64 (first_defined [pget req ''group_id'', pget req ''groupId'']) \<noteq> None \<and>
     toInt64 (first_defined [pget req ''group_id'', pget req ''groupId'']) \<noteq> Some 0)"
  by (auto simp: given_group_def split: option.splits if_splits)

lemma find_or_create_prepares:
  assumes run: "findOrCreateGroupId c w req = (before, Inr g)" and usable: "sl_token c \<noteq> []" and base: "normalizeBaseUrl (sl_restBaseUrl c) = Some base"
  shows "group_prepared c w req base g before"
proof (cases "given_group req")
  case (Some n)
  with run show ?thesis
    by (auto simp: findOrCreateGroupId_def group_prepared_def given_group_def Let_def retA_Inr split: option.splits if_splits)
next
  case None
  let ?name = "group_name_of req"
  from run None obtain evs found more where found: "lookUpGroup c w ?name = (evs, Inr found)" and before: "before = evs @ more"
    and rest: "(case found of Some n \<Rightarrow> retA n
      | None \<Rightarrow> thenA (callCreateIpGroup c w (new_group ?name req)) (\<lambda>created. case toInt64 (pget created ''id'') of
          Some n \<Rightarrow> retA n | None \<Rightarrow> liftA (Inl (Failure ''UNKNOWN'' ''created group has no id'')))) = (more, Inr g)"
    by (auto simp: findOrCreateGroupId_def thenA_Inr_iff)
  note listed = look_up [OF usable base found]
  show ?thesis
  proof (cases found)
    case (Some n)
    with rest have "n = g" "more = []" by (auto simp: retA_Inr)
    with Some listed before not_given [OF None] show ?thesis by (auto simp: group_prepared_def Let_def)
  next
    case no_group: None
    with rest obtain created where created: "callCreateIpGroup c w (new_group ?name req) = (more, Inr created)" "toInt64 (pget created ''id'') = Some g"
      by (auto simp: run_Inr split: option.splits)
    have "pget (new_group ?name req) ''name'' = JStr ?name" by (simp add: new_group_def)
    with creation_sends [OF created(1) base] group_name_trimmed obtain body where
      "sw_stringify w (buildIpGroupPayload (new_group ?name req) ?name) = Inr body" "more = [creation c base body]" "accepted w (creation c base body)"
      by blast
    with listed(1) before created not_given [OF None] show ?thesis by (auto simp: group_prepared_def Let_def)
  qed
qed

text \<open>C24: What BlockIP and UnblockIP have done when they succeed. The last request they sent, accepted by the
product, puts into one group (or takes out of it) exactly the targets of the request, of which there is at
least one, as texts and in their order. The group is the one the request gives, and then nothing else was sent;
otherwise it is the first group listed under the requested name, after one listing; or the group created under
that name, after the listing and one accepted creation. Nothing else is sent, and no group is edited before.\<close>

theorem group_edited:
  assumes "(h, verb) \<in> {(callBlockIp, ''POST''), (callUnblockIp, ''DELETE'')}" and "h c w req = (evs, Inr answer)"
  shows "\<exists>base ts g body before. normalizeBaseUrl (sl_restBaseUrl c) = Some base \<and> requireTargets req = Inr ts \<and> ts \<noteq> [] \<and>
    sw_stringify w (JObj [(''id'', JInt g), (''targets'', JArr (map JStr ts))]) = Inr body \<and>
    evs = before @ [edit c base verb body] \<and> accepted w (edit c base verb body) \<and> group_prepared c w req base g before"
proof -
  obtain k where k: "edits_group k verb" "edit_group k c w req = (evs, Inr answer)"
    using assms edits by (auto simp: callBlockIp_def callUnblockIp_def)
  from k(2) obtain base ts before g final where usable: "sl_token c \<noteq> []" and base: "normalizeBaseUrl (sl_restBaseUrl c) = Some base"
    and ts: "requireTargets req = Inr ts" and group: "findOrCreateGroupId c w req = (before, Inr g)"
    and final: "k c w (items_request c g ts) = (final, Inr answer)" "evs = before @ final"
    by (auto simp: edit_group_def run_Inr)
  with k(1) obtain body where "sw_stringify w (JObj [(''id'', JInt g), (''targets'', JArr (map JStr ts))]) = Inr body"
    "final = [edit c base verb body]" "accepted w (edit c base verb body)"
    unfolding edits_group_def by blast
  with find_or_create_prepares [OF group usable base] targets_given [OF ts] base ts final(2) show ?thesis by blast
qed

definition sample_safeline :: safeline where
  "sample_safeline = \<lparr>sl_restBaseUrl = JStr ''https://waf/'', sl_timeoutMs = JInt 1500, sl_proxyUrl = [], sl_headers = [],
     sl_meta = JObj [], sl_skipTls = False, sl_token = ''secret''\<rparr>"

text \<open>A product with one group, of id 7.\<close>

definition sample_waf :: safeline_world where
  "sample_waf = \<lparr>sw_fetch = (\<lambda>rq. Inr \<lparr>ur_status = 200, ur_contentType = ''application/json'', ur_text = Inr ''{...}''\<rparr>),
     sw_proxied = (\<lambda>rq. Inl (Thrown [])),
     sw_parse = (\<lambda>s. Inr (JObj [(''data'', JObj [(''items'', JArr [JObj [(''id'', JInt 7), (''name'', JStr ''block_ip'')]])])])),
     sw_stringify = (\<lambda>v. Inr ''{...}'')\<rparr>"

definition sample_block :: jsval where
  "sample_block = JObj [(''targets'', JArr [JStr ''192.0.2.1''])]"

theorem group_edited_witness:
  "\<exists>base ts g body before. normalizeBaseUrl (sl_restBaseUrl sample_safeline) = Some base \<and> requireTargets sample_block = Inr ts \<and> ts \<noteq> [] \<and>
    sw_stringify sample_waf (JObj [(''id'', JInt g), (''targets'', JArr (map JStr ts))]) = Inr body \<and>
    fst (callBlockIp sample_safeline sample_waf sample_block) = before @ [edit sample_safeline base ''POST'' body] \<and>
    accepted sample_waf (edit sample_safeline base ''POST'' body) \<and> group_prepared sample_safeline sample_waf sample_block base g before"
proof -
  have "isl (snd (callBlockIp sample_safeline sample_waf sample_block)) = False" by code_simp
  then obtain answer where "callBlockIp sample_safeline sample_waf sample_block =
    (fst (callBlockIp sample_safeline sample_waf sample_block), Inr answer)"
    by (metis (no_types) isl_def prod.collapse sum.exhaust_sel sum.collapse(2))
  then show ?thesis using group_edited [of callBlockIp "''POST''" sample_safeline sample_waf sample_block] by blast
qed

section \<open>Answers and requests that come to something else\<close>

text \<open>
  A created group without an id counts as group 0, and so does a listed one: the error for it is never raised,
  and the targets go to group 0.
\<close>

lemma no_id_is_group_0:
  "nullish (pget json ''id'') \<Longrightarrow> toInt64 (pget (mapIpGroupResponse json) ''id'') = Some 0"
  "as_integer (pget item ''id'') = None \<Longrightarrow> to_str (pget (mapRecordSafe item) ''name'') = name \<Longrightarrow>
     found_group name (JObj [(''data'', JObj [(''items'', JArr [mapRecordSafe item])])]) = Some 0"
proof -
  have "str_to_num [] = Fin 0" by code_simp
  then show "nullish (pget json ''id'') \<Longrightarrow> toInt64 (pget (mapIpGroupResponse json) ''id'') = Some 0"
    by (simp add: mapIpGroupResponse_def coalesce_def as_integer_def to_num_def nullish_def)
  show "as_integer (pget item ''id'') = None \<Longrightarrow> to_str (pget (mapRecordSafe item) ''name'') = name \<Longrightarrow>
     found_group name (JObj [(''data'', JObj [(''items'', JArr [mapRecordSafe item])])]) = Some 0"
    by (simp add: found_group_def mapRecordSafe_def or_js_def truthy_def int_or_0_def as_integer_def to_num_def nullish_def)
qed

lemma failed_listing_counts_as_none:
  "snd (callListIpGroups c w (list_by_name name)) = Inl e \<Longrightarrow> snd (lookUpGroup c w name) = Inr None"
  by (auto simp: lookUpGroup_def catchA_def thenA_def retA_def split: prod.splits)

text \<open>A proxied request that took too long is reported as unavailable, with the status of a timeout in its message.\<close>

lemma proxied_timeout_is_unavailable:
  "sq_proxy rq \<noteq> [] \<Longrightarrow> sw_proxied w rq = Inl (ErrorEvent ''ETIMEDOUT'' message) \<Longrightarrow> fetchSafeline w rq = ([rq], Inl (Failure ''UNAVAILABLE''
     (''DEADLINE_EXCEEDED: RPC timeout after '' @ to_str (sq_timeoutMs rq) @ ''ms'')))"
  by (simp add: fetchSafeline_def proxiedFetch_def)

text \<open>The whole body of a failed answer is in the message of the error.\<close>

lemma error_tells_body: "\<exists>code message. throwForHttpError status body = Failure code message \<and> ends_with message body"
  by (simp add: throwForHttpError_def suffix_def)

text \<open>An HTTP proxy is passed over without an error.\<close>

lemma http_proxy_passed_over:
  "sl_proxyUrl (safeline_of sample_waf (JObj [(''config'', JObj [(''proxy_url'', JStr ''http://proxy:3128'')])])) = []"
  by code_simp

text \<open>A request whose \<open>cidr\<close> is unset has the empty text there, which is sent as a filter.\<close>

lemma unset_cidr_filters:
  assumes "sl_token c \<noteq> []" and "normalizeBaseUrl (sl_restBaseUrl c) = Some base"
  shows "map sq_url (fst (callListIpGroups c w (JObj [(''name'', JArr []), (''cidr'', JStr []), (''comment'', JArr [])]))) =
    [base @ ''/api/IPGroupAPI?cidr='']"
  by (simp add: callListIpGroups_def with_instance_usable [OF assms] filter_values_def unwrapList_def nullish_def hasOwn_def
      value_parts_def optional_part_def query_part_def encodeURIComponent_def unwrapString_def Let_def get_json_def fst_thenA
      fetchSafeline_sends safeline_request_def split: sum.split)

text \<open>Filters that are plain JSON, as the SDK decodes them, are lost: only the filters of a member \<open>fields\<close> are read.\<close>

lemma plain_filters_lost: "map_of kvs ''fields'' = None \<Longrightarrow> unwrapStruct (JObj kvs) = Inr []"
  by (simp add: nullish_def coalesce_def entries_of_def)

end
