(* ===== verification/Dbaudit.thy ===== *)
theory Dbaudit
  imports Connector
begin

text \<open>
  The database audit connector: the signed call of the product's OpenAPI
  (src/services/scripts/dbaudit-openapi.js) and the four methods over it
  (src/services/das__dbaudit/src/dbaudit.js). fetch, JSON, MD5, the clock and the local calendar are
  arguments; a clock in the context, which only tests give, is left out.
\<close>

section \<open>The outside\<close>

text \<open>
  The clock is read when a range is resolved and when a request is signed. Of \<open>Date\<close>: the local year, month
  and day of a time, the start of such a day, whose number may be outside its month, and the day of the week.
\<close>

record dbaudit_world = upstream +
  dw_md5 :: "string \<Rightarrow> string"
  dw_now_range :: int
  dw_now_sign :: int
  dw_date :: "int \<Rightarrow> int \<times> int \<times> int"
  dw_time :: "int \<Rightarrow> int \<Rightarrow> int \<Rightarrow> int"
  dw_weekday :: "int \<Rightarrow> int"

definition DEFAULT_API_VERSION :: string where "DEFAULT_API_VERSION = ''2.0''"
definition DEFAULT_TIMEOUT_MS :: int where "DEFAULT_TIMEOUT_MS = 5000"

definition grpcCodeFor :: "string \<Rightarrow> nat" where
  "grpcCodeFor code = (case map_of [(''FAILED_PRECONDITION'', 9), (''INTERNAL'', 13), (''INVALID_ARGUMENT'', 3),
     (''PERMISSION_DENIED'', 7), (''UNAVAILABLE'', 14), (''UNKNOWN'', 2)] code of Some n \<Rightarrow> n | None \<Rightarrow> 2)"

definition errorWithCode :: "failure \<Rightarrow> (nat \<times> string) option" where
  "errorWithCode f = (case f of Failure code message \<Rightarrow> Some (grpcCodeFor code, code @ '': '' @ message) | Crash e \<Rightarrow> None)"

abbreviation invalid :: "string \<Rightarrow> failure" where
  "invalid message \<equiv> Failure ''INVALID_ARGUMENT'' message"

section \<open>Scalars\<close>

fun unwrapScalar :: "jsval \<Rightarrow> jsval" where
  "unwrapScalar JNull = JUndef"
| "unwrapScalar (JObj kvs) = (case map_of kvs ''value'' of Some v \<Rightarrow> unwrapScalar v | None \<Rightarrow> JObj kvs)"
| "unwrapScalar v = v"

definition coerceString :: "jsval \<Rightarrow> string" where
  "coerceString v = (let unwrapped = unwrapScalar v in if nullish unwrapped then [] else to_str unwrapped)"

definition finite_trunc :: "jsval \<Rightarrow> int option" where
  "finite_trunc v = (case to_num (unwrapScalar v) of Fin r \<Rightarrow> Some (trunc_rat r) | _ \<Rightarrow> None)"

definition toPositiveInt :: "jsval \<Rightarrow> int \<Rightarrow> int" where
  "toPositiveInt v fallback = (case to_num (unwrapScalar v) of Fin r \<Rightarrow> if r \<le> 0 then fallback else trunc_rat r | _ \<Rightarrow> fallback)"

definition toInt :: "jsval \<Rightarrow> int \<Rightarrow> int" where
  "toInt v fallback = (case finite_trunc v of Some n \<Rightarrow> n | None \<Rightarrow> fallback)"

definition toInt64 :: "jsval \<Rightarrow> int \<Rightarrow> int" where
  "toInt64 v fallback = (case finite_trunc v of Some n \<Rightarrow> n | None \<Rightarrow> fallback)"

definition toNumber :: "jsval \<Rightarrow> jsnum" where
  "toNumber v = (case to_num (unwrapScalar v) of Fin r \<Rightarrow> Fin r | _ \<Rightarrow> Fin 0)"

definition requireString :: "jsval \<Rightarrow> string \<Rightarrow> failure + string" where
  "requireString v label = (let t = trim (coerceString v) in if t = [] then Inl (invalid (label @ '' is required'')) else Inr t)"

section \<open>The signed call\<close>

definition normalizeBaseUrl :: "jsval \<Rightarrow> failure + string" where
  "normalizeBaseUrl baseUrl = (let normalized = strip_trailing CHR ''/'' (trim (coerceString baseUrl)) in
     if normalized = [] then Inl (invalid ''baseUrl is required'')
     else if \<not> is_http normalized then Inl (invalid ''baseUrl must start with http or https'')
     else Inr normalized)"

definition buildOpenApiUrl :: "string \<Rightarrow> string \<Rightarrow> string \<Rightarrow> failure + string" where
  "buildOpenApiUrl baseUrl apiVersion action = bindE (normalizeBaseUrl (JStr baseUrl)) (\<lambda>cleanBaseUrl.
     let cleanVersion = encodeURIComponent (trim (if apiVersion = [] then DEFAULT_API_VERSION else apiVersion));
         cleanAction = encodeURIComponent (trim action)
     in if cleanAction = [] then Inl (invalid ''action is required'')
        else Inr (cleanBaseUrl @ ''/openapi/dbaudit/'' @ cleanVersion @ ''/'' @ cleanAction @ ''.json''))"

definition pick :: "jsval \<Rightarrow> string list \<Rightarrow> jsval" where
  "pick ctx ks = first_defined (concat (map (\<lambda>source. map (pget source) ks) [pget ctx ''config'', pget ctx ''secret'', pget ctx ''bindings'']))"

definition buildAccessSign :: "dbaudit_world \<Rightarrow> string \<Rightarrow> string \<Rightarrow> string" where
  "buildAccessSign w accessTime accessKeySecret = dw_md5 w (accessTime @ ''_'' @ accessKeySecret)"

record openapi_context =
  oc_baseUrl :: string
  oc_apiVersion :: string
  oc_accessKeyId :: string
  oc_accessKeySecret :: string
  oc_timeoutMs :: int

definition createOpenApiContext :: "jsval \<Rightarrow> failure + openapi_context" where
  "createOpenApiContext ctx = (let baseUrlValue = pick ctx [''baseUrl'', ''base_url'', ''endpoint'']
     in bindE (if baseUrlValue = JUndef then Inr [] else normalizeBaseUrl baseUrlValue) (\<lambda>baseUrl. Inr \<lparr>
       oc_baseUrl = baseUrl,
       oc_apiVersion = (let v = trim (coerceString (first_defined [pick ctx [''apiVersion'', ''api_version''], JStr DEFAULT_API_VERSION]))
         in if v = [] then DEFAULT_API_VERSION else v),
       oc_accessKeyId = trim (coerceString (pick ctx [''accessKeyId'', ''access_key_id'', ''accessKey'', ''access_key''])),
       oc_accessKeySecret = trim (coerceString (pick ctx [''accessKeySecret'', ''access_key_secret'', ''accessSecret'', ''access_secret''])),
       oc_timeoutMs = toPositiveInt (pick ctx [''timeoutMs'', ''timeout_ms'']) DEFAULT_TIMEOUT_MS\<rparr>))"

text \<open>\<open>URLSearchParams\<close> as a text: forms are encoded with a plus for a space.\<close>

definition form_char :: "char \<Rightarrow> string" where
  "form_char c = (let n = code_of c in
     if is_alnum c \<or> c \<in> set ''*-._'' then [c] else if c = CHR '' '' then ''+'' else if n < 128 then percent n
     else percent (192 + n div 64) @ percent (128 + n mod 64))"

definition form_encode :: "string \<Rightarrow> string" where
  "form_encode s = concat (map form_char s)"

definition form_text :: "(string \<times> string) list \<Rightarrow> string" where
  "form_text params = join ''&'' (map (\<lambda>(k, v). form_encode k @ ''='' @ form_encode v) params)"

definition encodeOpenApiParams :: "dbaudit_world \<Rightarrow> jsval \<Rightarrow> string \<Rightarrow> string \<Rightarrow> string \<Rightarrow> failure + (string \<times> string) list" where
  "encodeOpenApiParams w data accessKeyId accessKeySecret accessTime =
     (if accessKeyId = [] then Inl (invalid ''accessKeyId is required'')
      else if accessKeySecret = [] then Inl (invalid ''accessKeySecret is required'')
      else (case up_stringify w (coalesce data (JObj [])) of
          Inl e \<Rightarrow> Inl (Crash e)
        | Inr s \<Rightarrow> Inr [(''data'', s), (''accessKeyId'', accessKeyId), (''accessTime'', accessTime),
            (''accessSign'', buildAccessSign w accessTime accessKeySecret)]))"

definition isBusinessFailure :: "jsval \<Rightarrow> bool" where
  "isBusinessFailure parsed \<longleftrightarrow> pget parsed ''success'' \<noteq> JBool True \<or> to_str (pget parsed ''code'') \<noteq> ''200''"

definition business_failure :: "jsval \<Rightarrow> failure" where
  "business_failure parsed = (if parsed = JNull then Crash ''Cannot read properties of null'' else
     Failure ''FAILED_PRECONDITION'' (to_str (or_js (pget parsed ''message'') (or_js (pget parsed ''msg'') (JStr ''upstream business failure'')))))"

definition network_failure :: "string \<Rightarrow> failure" where
  "network_failure message = Failure ''UNAVAILABLE'' (if message = [] then ''network failure'' else message)"

definition read_answer :: "dbaudit_world \<Rightarrow> upstream_response \<Rightarrow> failure + jsval" where
  "read_answer w response = (case ur_text response of
     Inl e \<Rightarrow> Inl (network_failure e)
   | Inr responseText \<Rightarrow>
       if \<not> response_ok response then Inl (Failure ''UNAVAILABLE'' (''upstream http '' @ nat_str (ur_status response)))
       else (case up_parse w responseText of
           Inl e \<Rightarrow> Inl (Failure ''INTERNAL'' ''upstream returned non-JSON response'')
         | Inr parsed \<Rightarrow> if isBusinessFailure parsed then Inl (business_failure parsed) else Inr parsed))"

definition fetch_text :: "dbaudit_world \<Rightarrow> http_request \<Rightarrow> jsval calls" where
  "fetch_text w rq = ([rq], case up_fetch (upstream.truncate w) rq of
     Inl (cause, message) \<Rightarrow> Inl (network_failure message) | Inr response \<Rightarrow> read_answer w response)"

definition openapi_request :: "string \<Rightarrow> string \<Rightarrow> (string \<times> string) list \<Rightarrow> int \<Rightarrow> http_request" where
  "openapi_request upperMethod url params timeoutMs = (let query = form_text params; is_get = upperMethod = ''GET'' in
     \<lparr>hr_method = upperMethod, hr_url = (if is_get then url @ ''?'' @ query else url),
      hr_headers = (if is_get then [] else [(''Content-Type'', JStr ''application/x-www-form-urlencoded'')]),
      hr_body = (if is_get then None else Some query), hr_timeoutMs = Fin (of_int timeoutMs), hr_skipTls = False\<rparr>)"

definition callDbauditOpenApi :: "dbaudit_world \<Rightarrow> jsval \<Rightarrow> string \<Rightarrow> jsval \<Rightarrow> jsval \<Rightarrow> jsval calls" where
  "callDbauditOpenApi w ctx action method data = (
     let upperMethod = to_upper (trim (coerceString method)); accessTime = int_str (dw_now_sign w) in
     if upperMethod \<noteq> ''GET'' \<and> upperMethod \<noteq> ''POST'' then liftA (Inl (invalid (''unsupported method: '' @ to_str method)))
     else
     thenA (liftA (createOpenApiContext ctx)) (\<lambda>c.
     if oc_baseUrl c = [] then liftA (Inl (invalid ''baseUrl is required'')) else
     thenA (liftA (encodeOpenApiParams w data (oc_accessKeyId c) (oc_accessKeySecret c) accessTime)) (\<lambda>params.
     thenA (liftA (buildOpenApiUrl (oc_baseUrl c) (oc_apiVersion c) action)) (\<lambda>url.
     fetch_text w (openapi_request upperMethod url params (oc_timeoutMs c))))))"

section \<open>Requests and answers of the methods\<close>

definition field :: "jsval \<Rightarrow> string list \<Rightarrow> jsval" where
  "field v ks = first_defined (map (pget v) ks)"

definition text_field :: "jsval \<Rightarrow> string list \<Rightarrow> jsval" where
  "text_field v ks = JStr (coerceString (field v ks))"

definition trimmed_field :: "jsval \<Rightarrow> string list \<Rightarrow> jsval" where
  "trimmed_field v ks = JStr (trim (coerceString (field v ks)))"

definition instance_field :: "jsval \<Rightarrow> string \<times> jsval" where
  "instance_field req = (''InstanceId'', trimmed_field req [''instance_id'', ''instanceId'', ''InstanceId''])"

definition buildListIPFiltersData :: "jsval \<Rightarrow> jsval" where
  "buildListIPFiltersData req = JObj [
     (''CurrentPage'', JInt (toInt (field req [''current_page'', ''currentPage'']) 1)),
     (''PageSize'', JInt (toInt (field req [''page_size'', ''pageSize'']) 10)),
     (''Name'', trimmed_field req [''name'', ''Name'']),
     (''IpFilterList'', trimmed_field req [''ip_filter_list'', ''ipFilterList'', ''IpFilterList'']),
     instance_field req]"

definition buildCreateIPFilterData :: "jsval \<Rightarrow> failure + jsval" where
  "buildCreateIPFilterData req =
     bindE (requireString (field req [''name'', ''Name'']) ''name'') (\<lambda>name.
     bindE (requireString (field req [''ip_filter_list'', ''ipFilterList'', ''IpFilterList'']) ''ip_filter_list'') (\<lambda>ips.
     Inr (JObj [(''Name'', JStr name), (''IpFilterList'', JStr ips), instance_field req])))"

text \<open>An item of a list is read as an object; null has no properties.\<close>

definition normalizeFilter :: "jsval \<Rightarrow> failure + jsval" where
  "normalizeFilter item = (if item = JNull then Inl (Crash ''Cannot read properties of null'') else Inr (JObj [
     (''id'', JInt (toInt64 (field item [''Id'', ''ID'', ''id'', ''IpFilterId'', ''ipFilterId'', ''ip_filter_id'']) 0)),
     (''name'', text_field item [''Name'', ''name'', ''IpFilterName'', ''ipFilterName'', ''ip_filter_name'']),
     (''ip_filter_list'', text_field item [''IpFilterList'', ''ipFilterList'', ''ip_filter_list'']),
     (''user_id'', text_field item [''UserId'', ''userId'', ''user_id''])]))"

definition items_of :: "(jsval \<Rightarrow> failure + jsval) \<Rightarrow> jsval \<Rightarrow> failure + jsval" where
  "items_of f v = (case v of JArr vs \<Rightarrow> bindE (mapE f vs) (\<lambda>us. Inr (JArr us)) | _ \<Rightarrow> Inr (JArr []))"

definition mapListIPFiltersResponse :: "jsval \<Rightarrow> failure + jsval" where
  "mapListIPFiltersResponse raw = (let data = pget raw ''data'' in
     bindE (items_of normalizeFilter (first_defined [field data [''list'', ''List'', ''filters'', ''Filters''], field raw [''list'', ''List'']])) (\<lambda>filters.
     Inr (JObj [(''filters'', filters),
       (''total_count'', JInt (toInt64 (first_defined [field data [''totalCount'', ''TotalCount'', ''total_count''],
         field raw [''totalCount'', ''TotalCount'', ''total_count'']]) 0)), (''raw'', raw)])))"

definition mapCreateIPFilterResponse :: "jsval \<Rightarrow> jsval" where
  "mapCreateIPFilterResponse raw = (let data = pget raw ''data'' in JObj [
     (''ip_filter_id'', JInt (toInt64 (field data [''IpFilterId'', ''ipFilterId'', ''ip_filter_id'']) 0)),
     (''ip_filter_name'', text_field data [''IpFilterName'', ''ipFilterName'', ''ip_filter_name'', ''Name'', ''name'']),
     (''ip_filter_list'', text_field data [''IpFilterList'', ''ipFilterList'', ''ip_filter_list'']),
     (''user_id'', text_field data [''UserId'', ''userId'', ''user_id'']), (''raw'', raw)])"

section \<open>Time ranges\<close>

definition TIME_PRESETS :: "string list" where
  "TIME_PRESETS = [''realtime'', ''last_1h'', ''last_6h'', ''last_1d'', ''last_7d'', ''last_14d'', ''last_30d'', ''today'',
     ''this_week'', ''this_month'', ''custom'']"

definition QUERY_SCOPES :: "string list" where
  "QUERY_SCOPES = [''all'', ''one'']"

definition DEFAULT_INTERVALS :: "(string \<times> string) list" where
  "DEFAULT_INTERVALS = [(''last_1h'', ''1m''), (''last_6h'', ''5m''), (''last_1d'', ''1h''), (''last_7d'', ''1d''), (''last_14d'', ''1d''),
     (''last_30d'', ''1d''), (''today'', ''1h''), (''this_week'', ''1d''), (''this_month'', ''1d''), (''custom'', ''1h'')]"

definition or_text :: "string \<Rightarrow> string \<Rightarrow> string" where
  "or_text s d = (if s = [] then d else s)"

definition normalizePreset :: "jsval \<Rightarrow> failure + string" where
  "normalizePreset v = (let preset = or_text (trim (coerceString v)) ''custom'' in
     if preset \<in> set TIME_PRESETS then Inr preset else Inl (invalid (''unsupported time_preset: '' @ preset)))"

definition normalizeScope :: "jsval \<Rightarrow> failure + string" where
  "normalizeScope v = (let scope = or_text (trim (coerceString v)) ''all'' in
     if scope \<in> set QUERY_SCOPES then Inr scope else Inl (invalid (''unsupported query_scope: '' @ scope)))"

record time_range =
  tr_preset :: string
  tr_startTime :: int
  tr_endTime :: int
  tr_interval :: string

definition startOfLocalDay :: "dbaudit_world \<Rightarrow> int \<Rightarrow> int" where
  "startOfLocalDay w nowMs = (case dw_date w nowMs of (year, month, day) \<Rightarrow> dw_time w year month day)"

definition startOfLocalWeek :: "dbaudit_world \<Rightarrow> int \<Rightarrow> int" where
  "startOfLocalWeek w nowMs = (let start = startOfLocalDay w nowMs; weekday = dw_weekday w start;
       day = (if weekday = 0 then 7 else weekday)
     in case dw_date w start of (year, month, date) \<Rightarrow> dw_time w year month (date - day + 1))"

definition startOfLocalMonth :: "dbaudit_world \<Rightarrow> int \<Rightarrow> int" where
  "startOfLocalMonth w nowMs = (case dw_date w nowMs of (year, month, day) \<Rightarrow> dw_time w year month 1)"

definition HOUR_MS :: int where
  "HOUR_MS = 60 * 60 * 1000"

definition preset_start :: "dbaudit_world \<Rightarrow> string \<Rightarrow> int \<Rightarrow> int" where
  "preset_start w preset endTime = (
     if preset = ''last_1h'' then endTime - HOUR_MS
     else if preset = ''last_6h'' then endTime - 6 * HOUR_MS
     else if preset = ''last_1d'' then endTime - 24 * HOUR_MS
     else if preset = ''last_7d'' then endTime - 7 * 24 * HOUR_MS
     else if preset = ''last_14d'' then endTime - 14 * 24 * HOUR_MS
     else if preset = ''last_30d'' then endTime - 30 * 24 * HOUR_MS
     else if preset = ''today'' then startOfLocalDay w endTime
     else if preset = ''this_week'' then startOfLocalWeek w endTime
     else startOfLocalMonth w endTime)"

definition resolveTimeRange :: "dbaudit_world \<Rightarrow> jsval \<Rightarrow> failure + time_range" where
  "resolveTimeRange w req = bindE (normalizePreset (field req [''time_preset'', ''timePreset''])) (\<lambda>preset.
     let endTime = toInt64 (field req [''end_time'', ''endTime'']) (dw_now_range w);
         startTime = toInt64 (field req [''start_time'', ''startTime'']) 0;
         found = (\<lambda>t. Inr \<lparr>tr_preset = preset, tr_startTime = t, tr_endTime = endTime,
           tr_interval = or_text (trim (coerceString (field req [''interval'', ''Interval'']))) (the (map_of DEFAULT_INTERVALS preset))\<rparr>)
     in if preset = ''realtime'' then Inr \<lparr>tr_preset = preset, tr_startTime = 0, tr_endTime = 0, tr_interval = []\<rparr>
        else if preset = ''custom'' then
          (if startTime \<le> 0 \<or> endTime \<le> 0 then Inl (invalid ''start_time and end_time are required for custom time_preset'')
           else if endTime < startTime then Inl (invalid ''start_time must be less than or equal to end_time'')
           else found startTime)
        else found (preset_start w preset endTime))"

definition buildGetSystemResourceData :: "jsval \<Rightarrow> jsval" where
  "buildGetSystemResourceData req = JObj [instance_field req]"

record history_query =
  hq_action :: string
  hq_data :: jsval
  hq_realtime :: bool

definition buildHistoryData :: "dbaudit_world \<Rightarrow> jsval \<Rightarrow> failure + history_query" where
  "buildHistoryData w req =
     bindE (requireString (field req [''resource_type'', ''resourceType'', ''ResourceType'']) ''resource_type'') (\<lambda>resourceType.
     bindE (normalizeScope (field req [''query_scope'', ''queryScope''])) (\<lambda>scope.
     bindE (resolveTimeRange w req) (\<lambda>t.
     Inr (if tr_preset t = ''realtime''
       then \<lparr>hq_action = ''getSystemResource'', hq_data = buildGetSystemResourceData req, hq_realtime = True\<rparr>
       else \<lparr>hq_action = (if scope = ''one'' then ''GetOneSystemResourceByTimeRange'' else ''GetAllSystemResourceByTimeRange''),
         hq_data = JObj [(''StartTime'', JInt (tr_startTime t)), (''EndTime'', JInt (tr_endTime t)), (''Interval'', JStr (tr_interval t)),
           (''ResourceType'', JStr resourceType), instance_field req], hq_realtime = False\<rparr>))))"

definition normalizeTags :: "jsval \<Rightarrow> string list" where
  "normalizeTags v = filter (\<lambda>t. t \<noteq> []) (case unwrapScalar v of
     JArr vs \<Rightarrow> map coerceString vs | JStr s \<Rightarrow> map trim (split_on CHR '','' s) | _ \<Rightarrow> [])"

definition normalizeRecord :: "jsval \<Rightarrow> failure + jsval" where
  "normalizeRecord item = (if item = JNull then Inl (Crash ''Cannot read properties of null'') else Inr (JObj [
     (''time'', JInt (toInt64 (field item [''time'', ''Time'']) 0)), (''type'', text_field item [''type'', ''Type'']),
     (''avg'', JNum (toNumber (field item [''avg'', ''Avg'']))), (''max'', JNum (toNumber (field item [''max'', ''Max'']))),
     (''tags'', JArr (map JStr (normalizeTags (field item [''tags'', ''Tags'']))))]))"

definition mapHistoryResponse :: "jsval \<Rightarrow> failure + jsval" where
  "mapHistoryResponse raw = (let data = pget raw ''data'';
       records = (case data of JArr vs \<Rightarrow> data | _ \<Rightarrow> first_defined [field data [''list'', ''List'', ''records'', ''Records''],
         field raw [''list'', ''List'', ''records'', ''Records'']])
     in bindE (items_of normalizeRecord records) (\<lambda>rs. Inr (JObj [(''records'', rs), (''raw'', raw)])))"

section \<open>The methods\<close>

definition handleListIPFilters :: "dbaudit_world \<Rightarrow> jsval \<Rightarrow> jsval \<Rightarrow> jsval calls" where
  "handleListIPFilters w req ctx = thenA (callDbauditOpenApi w ctx ''DescribeSipFilter'' (JStr ''GET'') (buildListIPFiltersData req))
     (\<lambda>raw. liftA (mapListIPFiltersResponse raw))"

definition handleCreateIPFilter :: "dbaudit_world \<Rightarrow> jsval \<Rightarrow> jsval \<Rightarrow> jsval calls" where
  "handleCreateIPFilter w req ctx = thenA (liftA (buildCreateIPFilterData req)) (\<lambda>data.
     thenA (callDbauditOpenApi w ctx ''CreateSipFilter'' (JStr ''POST'') data) (\<lambda>raw. retA (mapCreateIPFilterResponse raw)))"

definition handleGetSystemResource :: "dbaudit_world \<Rightarrow> jsval \<Rightarrow> jsval \<Rightarrow> jsval calls" where
  "handleGetSystemResource w req ctx = thenA (callDbauditOpenApi w ctx ''getSystemResource'' (JStr ''GET'') (buildGetSystemResourceData req))
     (\<lambda>raw. retA (JObj [(''raw'', raw)]))"

definition handleQuerySystemResourceHistory :: "dbaudit_world \<Rightarrow> jsval \<Rightarrow> jsval \<Rightarrow> jsval calls" where
  "handleQuerySystemResourceHistory w req ctx = thenA (liftA (buildHistoryData w req)) (\<lambda>built.
     thenA (callDbauditOpenApi w ctx (hq_action built) (JStr ''GET'') (hq_data built)) (\<lambda>raw.
     if hq_realtime built then retA (JObj [(''records'', JArr []), (''raw'', raw)]) else liftA (mapHistoryResponse raw)))"

definition dbaudit_methods :: "(string \<times> (dbaudit_world \<Rightarrow> jsval \<Rightarrow> jsval \<Rightarrow> jsval calls)) list" where
  "dbaudit_methods = [(''ListIPFilters'', handleListIPFilters), (''CreateIPFilter'', handleCreateIPFilter),
     (''GetSystemResource'', handleGetSystemResource), (''QuerySystemResourceHistory'', handleQuerySystemResourceHistory)]"

text \<open>The registered handlers take a request, or that of the context.\<close>

definition context_request :: "jsval \<Rightarrow> jsval" where
  "context_request ctx = coalesce (pget ctx ''req'') (coalesce (pget ctx ''request'') (JObj []))"

definition registerHandlers :: "dbaudit_world \<Rightarrow> jsval \<Rightarrow> (string \<times> (jsval \<Rightarrow> jsval calls)) list" where
  "registerHandlers w ctx = map (\<lambda>(m, h). (''/Chaitin_DBAUDIT.DBAuditService/'' @ m,
     \<lambda>req. h w (coalesce (if req = JUndef then context_request ctx else req) (JObj [])) ctx)) dbaudit_methods"

definition dbaudit_handlers :: "dbaudit_world \<Rightarrow> (string \<times> (jsval \<Rightarrow> jsval calls)) list" where
  "dbaudit_handlers w = map (\<lambda>(m, h). (''Chaitin_DBAUDIT.DBAuditService/'' @ m, \<lambda>ctx. h w (context_request ctx) ctx)) dbaudit_methods"

section \<open>What is sent\<close>

text \<open>Reading a form: a plus is a space, and the rest is decoded as in an address.\<close>

definition form_decode :: "string \<Rightarrow> string option" where
  "form_decode s = decodeURIComponent (replace_char CHR ''+'' '' '' s)"

lemma replace_char_append: "replace_char c r (s @ t) = replace_char c r s @ replace_char c r t"
  by (simp add: replace_char_def)

lemma percent_no_plus: "b < 256 \<Longrightarrow> CHR ''+'' \<notin> set (percent b)"
  using percent_chars [of "CHR ''+''" b]
  by (auto simp: uri_unreserved_def is_alnum_def is_digit_def is_lower_def is_upper_def code_of_def)

lemma form_char_decodes: "percent_bytes (replace_char CHR ''+'' '' '' (form_char c) @ s) = map_option ((@) (utf8_of c)) (percent_bytes s)"
proof -
  have n: "code_of c < 256" by (rule code_less)
  consider "is_alnum c \<or> c \<in> set ''*-._''" | "c = CHR '' ''" | "\<not> (is_alnum c \<or> c \<in> set ''*-._'')" "c \<noteq> CHR '' ''" "code_of c < 128"
    | "\<not> (is_alnum c \<or> c \<in> set ''*-._'')" "c \<noteq> CHR '' ''" "128 \<le> code_of c" by linarith
  then show ?thesis
  proof cases
    case 1
    then have "code_of c < 128" "c \<noteq> CHR ''%''" "c \<noteq> CHR ''+''"
      by (auto simp: is_alnum_def is_digit_def is_lower_def is_upper_def code_of_def)
    with 1 show ?thesis by (simp add: form_char_def utf8_of_def replace_char_def append_eq_Cons_fun)
  next
    case 2
    then show ?thesis by (simp add: form_char_def utf8_of_def replace_char_def append_eq_Cons_fun is_alnum_def is_digit_def
          is_lower_def is_upper_def code_of_def)
  next
    case 3
    then show ?thesis
      by (simp add: form_char_def utf8_of_def replace_char_absent percent_no_plus percent_bytes_percent append_eq_Cons_fun)
  next
    case 4
    have "192 + code_of c div 64 < 256" "128 + code_of c mod 64 < 256" using n by simp_all
    with 4 show ?thesis
      by (simp add: form_char_def utf8_of_def replace_char_append replace_char_absent percent_no_plus percent_bytes_percent Let_def append_eq_Cons_fun2)
        (cases "percent_bytes s"; simp)
  qed
qed

lemma form_decode_encode: "form_decode (form_encode s) = Some s"
proof -
  have "percent_bytes (replace_char CHR ''+'' '' '' (form_encode s)) = Some (concat (map utf8_of s))"
    by (induction s) (simp_all add: form_encode_def replace_char_append form_char_decodes, simp add: replace_char_def)
  moreover have "utf8_latin1 (concat (map utf8_of s)) = Some s"
    by (induction s) (simp_all add: utf8_latin1_char)
  ultimately show ?thesis by (simp add: form_decode_def decodeURIComponent_def)
qed

lemma form_reserved: "c = CHR ''&'' \<or> c = CHR ''='' \<Longrightarrow> c \<notin> set (form_encode s)"
proof -
  assume c: "c = CHR ''&'' \<or> c = CHR ''=''"
  have "192 + code_of x div 64 < 256" "128 + code_of x mod 64 < 256" for x using code_less [of x] by simp_all
  moreover have "c \<notin> set (percent b)" if "b < 256" for b using c percent_chars [OF _ that, of c] by auto
  ultimately have "c \<notin> set (form_char x)" for x
    using c by (auto simp: form_char_def Let_def is_alnum_def is_digit_def is_lower_def is_upper_def code_of_def)
  then show ?thesis by (simp add: form_encode_def)
qed

definition parse_form :: "string \<Rightarrow> string option list list" where
  "parse_form t = map (\<lambda>part. map form_decode (split_on CHR ''='' part)) (split_on CHR ''&'' t)"

lemma form_roundtrip: "params \<noteq> [] \<Longrightarrow> parse_form (form_text params) = map (\<lambda>(k, v). [Some k, Some v]) params"
proof -
  assume "params \<noteq> []"
  let ?enc = "\<lambda>(k, v). form_encode k @ ''='' @ form_encode v"
  have "CHR ''&'' \<notin> set (?enc kv)" for kv by (cases kv) (auto simp: form_reserved)
  with \<open>params \<noteq> []\<close> have "split_on CHR ''&'' (form_text params) = map ?enc params"
    unfolding form_text_def by (intro split_on_join) auto
  moreover have "map form_decode (split_on CHR ''='' (?enc kv)) = (case kv of (k, v) \<Rightarrow> [Some k, Some v])" for kv
    by (cases kv) (simp add: split_on_append split_on_no_sep form_reserved form_decode_encode)
  ultimately show ?thesis by (simp add: parse_form_def comp_def)
qed

text \<open>
  A call sends at most one request, with both keys configured; the form in its query or its body reads as the
  data, the key's id, the time and the signature of this time with the secret.
\<close>

definition signed_request :: "dbaudit_world \<Rightarrow> openapi_context \<Rightarrow> string \<Rightarrow> http_request \<Rightarrow> bool" where
  "signed_request w c data rq \<longleftrightarrow> oc_accessKeyId c \<noteq> [] \<and> oc_accessKeySecret c \<noteq> [] \<and>
     (\<exists>url form. parse_form form = [[Some ''data'', Some data], [Some ''accessKeyId'', Some (oc_accessKeyId c)],
         [Some ''accessTime'', Some (int_str (dw_now_sign w))],
         [Some ''accessSign'', Some (dw_md5 w (int_str (dw_now_sign w) @ ''_'' @ oc_accessKeySecret c))]] \<and>
       (hr_method rq = ''GET'' \<and> hr_url rq = url @ ''?'' @ form \<and> hr_body rq = None \<or>
        hr_method rq = ''POST'' \<and> hr_url rq = url \<and> hr_body rq = Some form))"

lemma call_signed:
  "fst (callDbauditOpenApi w ctx action method data) = [] \<or>
   (\<exists>c body rq. createOpenApiContext ctx = Inr c \<and> up_stringify w (coalesce data (JObj [])) = Inr body \<and>
      fst (callDbauditOpenApi w ctx action method data) = [rq] \<and> signed_request w c body rq)"
proof -
  have request: "signed_request w c body (openapi_request m url params ms)"
    if "m = ''GET'' \<or> m = ''POST''" "encodeOpenApiParams w data (oc_accessKeyId c) (oc_accessKeySecret c) (int_str (dw_now_sign w)) = Inr params"
      "up_stringify w (coalesce data (JObj [])) = Inr body" for c body m url params ms
  proof -
    have "params \<noteq> []" using that(2) by (auto simp: encodeOpenApiParams_def split: if_splits sum.splits)
    from form_roundtrip [OF this] that show ?thesis
      unfolding signed_request_def openapi_request_def Let_def
      by (intro conjI exI [where P = "\<lambda>u. \<exists>f. P u f" for P] exI [of _ "form_text params"])
        (auto simp: encodeOpenApiParams_def buildAccessSign_def split: if_splits)
  qed
  let ?m = "to_upper (trim (coerceString method))"
  show ?thesis
  proof (cases "(?m = ''GET'' \<or> ?m = ''POST'') \<and> (\<exists>c. createOpenApiContext ctx = Inr c \<and> oc_baseUrl c \<noteq> [])")
    case True
    then obtain c where m: "?m = ''GET'' \<or> ?m = ''POST''" and c: "createOpenApiContext ctx = Inr c" "oc_baseUrl c \<noteq> []" by blast
    show ?thesis
    proof (cases "encodeOpenApiParams w data (oc_accessKeyId c) (oc_accessKeySecret c) (int_str (dw_now_sign w))")
      case (Inr params)
      then obtain body where body: "up_stringify w (coalesce data (JObj [])) = Inr body"
        by (auto simp: encodeOpenApiParams_def split: if_splits sum.splits)
      show ?thesis
      proof (cases "buildOpenApiUrl (oc_baseUrl c) (oc_apiVersion c) action")
        case (Inl e)
        then show ?thesis using m c Inr by (auto simp: callDbauditOpenApi_def Let_def)
      next
        case url: (Inr url)
        have "fst (callDbauditOpenApi w ctx action method data) = [openapi_request ?m url params (oc_timeoutMs c)]"
          using m c Inr url by (auto simp: callDbauditOpenApi_def Let_def fetch_text_def)
        with request [OF m Inr body] c(1) body show ?thesis by blast
      qed
    qed (use m c in \<open>auto simp: callDbauditOpenApi_def Let_def\<close>)
  next
    case False
    then show ?thesis by (cases "createOpenApiContext ctx") (auto simp: callDbauditOpenApi_def Let_def)
  qed
qed

section \<open>Ranges and defaults\<close>

text \<open>A resolved range does not end before it starts, on a calendar whose days start before what is in them.\<close>

definition calendar :: "dbaudit_world \<Rightarrow> bool" where
  "calendar w \<longleftrightarrow> (\<forall>e. 0 \<le> dw_weekday w e) \<and>
     (\<forall>e y m d. dw_date w e = (y, m, d) \<longrightarrow> 1 \<le> d \<and> (\<forall>d'. d' \<le> d \<longrightarrow> dw_time w y m d' \<le> e))"

lemma starts_before:
  assumes "calendar w"
  shows "startOfLocalDay w e \<le> e" "startOfLocalWeek w e \<le> e" "startOfLocalMonth w e \<le> e"
proof -
  obtain y m d where e: "dw_date w e = (y, m, d)" by (cases "dw_date w e")
  have c: "0 \<le> dw_weekday w t" "dw_date w t = (y', m', n) \<Longrightarrow> 1 \<le> n" "dw_date w t = (y', m', n) \<Longrightarrow> n' \<le> n \<Longrightarrow> dw_time w y' m' n' \<le> t"
    for t y' m' n n' using assms unfolding calendar_def by blast+
  show day: "startOfLocalDay w e \<le> e" using c(3) [OF e] by (simp add: startOfLocalDay_def e)
  show "startOfLocalMonth w e \<le> e" using c(2,3) [OF e] by (simp add: startOfLocalMonth_def e)
  obtain y' m' d' where s: "dw_date w (startOfLocalDay w e) = (y', m', d')" by (cases "dw_date w (startOfLocalDay w e)")
  have "startOfLocalWeek w e \<le> startOfLocalDay w e"
    using c(1) [of "startOfLocalDay w e"] c(3) [OF s] by (auto simp: startOfLocalWeek_def Let_def s)
  with day show "startOfLocalWeek w e \<le> e" by simp
qed

lemma range_in_order:
  assumes "resolveTimeRange w req = Inr t" and "calendar w"
  shows "tr_startTime t \<le> tr_endTime t"
proof -
  have "preset_start w p e \<le> e" for p e
    using starts_before [OF assms(2)] by (simp add: preset_start_def HOUR_MS_def)
  with assms(1) show ?thesis
    unfolding resolveTimeRange_def Let_def bindE_Inr_iff by (auto simp del: One_nat_def split: if_split_asm)
qed

lemma preset_has_interval: "normalizePreset v = Inr preset \<Longrightarrow> preset \<noteq> ''realtime'' \<Longrightarrow> the (map_of DEFAULT_INTERVALS preset) \<noteq> []"
proof -
  have "list_all (\<lambda>p. p = ''realtime'' \<or> the (map_of DEFAULT_INTERVALS p) \<noteq> []) TIME_PRESETS" by code_simp
  then show "normalizePreset v = Inr preset \<Longrightarrow> preset \<noteq> ''realtime'' \<Longrightarrow> the (map_of DEFAULT_INTERVALS preset) \<noteq> []"
    by (auto simp: normalizePreset_def Let_def list_all_iff split: if_splits)
qed

lemma range_has_interval:
  assumes "resolveTimeRange w req = Inr t" and "tr_preset t \<noteq> ''realtime''"
  shows "tr_interval t \<noteq> []"
  using assms preset_has_interval by (auto simp: resolveTimeRange_def or_text_def Let_def split: if_splits)

text \<open>An end that a decoded request leaves unset is 0, not the time of the clock: the last hour is then the hour before 1970.\<close>

lemma unset_end_is_1970:
  "resolveTimeRange w (JObj [(''timePreset'', JStr ''last_1h''), (''startTime'', JInt 0), (''endTime'', JInt 0), (''interval'', JStr [])]) =
     Inr \<lparr>tr_preset = ''last_1h'', tr_startTime = -3600000, tr_endTime = 0, tr_interval = ''1m''\<rparr>"
proof -
  have "trim ''last_1h'' = ''last_1h''" "trim [] = []" by code_simp+
  then show ?thesis
    by (simp add: resolveTimeRange_def normalizePreset_def field_def nullish_def coerceString_def or_text_def TIME_PRESETS_def
        DEFAULT_INTERVALS_def preset_start_def HOUR_MS_def toInt64_def finite_trunc_def to_num_def trunc_rat_def Let_def)
qed

text \<open>So are the page and its size, which are sent as 0 and not as 1 and 10.\<close>

lemma unset_page_is_0:
  "pget (buildListIPFiltersData (JObj [(''currentPage'', JInt 0), (''pageSize'', JInt 0)])) ''PageSize'' = JInt 0"
  by (simp add: buildListIPFiltersData_def field_def nullish_def toInt_def finite_trunc_def to_num_def trunc_rat_def)

lemma null_answer_crashes:
  "ur_text r = Inr body \<Longrightarrow> response_ok r \<Longrightarrow> up_parse w body = Inr JNull \<Longrightarrow> read_answer w r = Inl (Crash ''Cannot read properties of null'')"
  by (simp add: read_answer_def isBusinessFailure_def business_failure_def pget_def)

text \<open>A timeout below one millisecond is cut down to none at all.\<close>

lemma small_timeout_is_0: "toPositiveInt (JNum (Fin (1 / 2))) DEFAULT_TIMEOUT_MS = 0"
proof -
  have "\<lfloor>1 / 2 :: rat\<rfloor> = 0" by (simp add: floor_eq_iff)
  then show ?thesis by (simp add: toPositiveInt_def to_num_def trunc_rat_def)
qed

end
