(* ===== verification/ServiceScripts.thy ===== *)
theory ServiceScripts
  imports PRGate NodeFS JS_Effects
begin

text \<open>
  The scripts that run the tests of the service packages (src/services/scripts): run-tests.mjs for one
  service or for the repository's own tests, run-coverage-all.mjs for every service, and
  import-check-all.mjs, which imports them all into a daemon. The file system is a tree; child processes,
  the path of node, \<open>JSON.parse\<close> and the order of \<open>localeCompare\<close> are arguments. What is printed and run is
  listed in order; a command is run with its directory.
\<close>

section \<open>run-tests.mjs\<close>

record test_options =
  to_coverage :: bool
  coverageBranches :: jsnum
  coverageFunctions :: jsnum
  coverageLines :: jsnum
  to_serviceDir :: "string option"

definition DEFAULT_COVERAGE_THRESHOLD :: jsnum where
  "DEFAULT_COVERAGE_THRESHOLD = Fin 90"

definition parseCoverageThreshold :: "string \<Rightarrow> string \<Rightarrow> string + jsnum" where
  "parseCoverageThreshold v label = (case str_to_num v of
     Fin r \<Rightarrow> if r < 0 \<or> 100 < r then Inl (label @ '' must be a number from 0 to 100'') else Inr (Fin r)
   | _ \<Rightarrow> Inl (label @ '' must be a number from 0 to 100''))"

definition with_threshold :: "test_options \<Rightarrow> jsnum \<Rightarrow> test_options" where
  "with_threshold opts n = opts\<lparr>coverageBranches := n, coverageFunctions := n, coverageLines := n\<rparr>"

function test_args :: "test_options \<Rightarrow> string list \<Rightarrow> string + test_options" where
  "test_args opts [] = Inr opts"
| "test_args opts (arg # rest) =
     (if arg = ''--coverage'' then test_args (opts\<lparr>to_coverage := True\<rparr>) rest
      else if arg = ''--coverage-threshold'' then
        (case rest of v # r \<Rightarrow> if v = [] then Inl ''--coverage-threshold must be a number from 0 to 100''
            else (case parseCoverageThreshold v ''--coverage-threshold'' of
                Inl e \<Rightarrow> Inl e | Inr n \<Rightarrow> test_args (with_threshold opts n) r)
         | [] \<Rightarrow> Inl ''--coverage-threshold must be a number from 0 to 100'')
      else if starts_with arg ''--coverage-threshold='' then
        (case parseCoverageThreshold (drop 21 arg) ''--coverage-threshold'' of
            Inl e \<Rightarrow> Inl e | Inr n \<Rightarrow> test_args (with_threshold opts n) rest)
      else if arg = ''--service-dir'' then
        (case rest of v # r \<Rightarrow> if v = [] then Inl ''--service-dir must not be empty''
            else test_args (opts\<lparr>to_serviceDir := Some v\<rparr>) r
         | [] \<Rightarrow> Inl ''--service-dir must not be empty'')
      else if starts_with arg ''--service-dir='' then test_args (opts\<lparr>to_serviceDir := Some (drop 14 arg)\<rparr>) rest
      else Inl (''unknown argument: '' @ arg))"
  by pat_completeness auto
termination by (relation "measure (\<lambda>(opts, args). length args)") auto

definition test_defaults :: test_options where
  "test_defaults = \<lparr>to_coverage = False, coverageBranches = DEFAULT_COVERAGE_THRESHOLD, coverageFunctions = DEFAULT_COVERAGE_THRESHOLD,
     coverageLines = DEFAULT_COVERAGE_THRESHOLD, to_serviceDir = None\<rparr>"

definition test_parseArgs :: "string list \<Rightarrow> string + test_options" where
  "test_parseArgs argv = bindE (test_args test_defaults argv) (\<lambda>opts.
     if to_serviceDir opts = Some [] then Inl ''--service-dir must not be empty'' else Inr opts)"

text \<open>The entries of a directory, with an error for what is none.\<close>

definition readdir :: "node \<Rightarrow> string \<Rightarrow> string + (string \<times> node) list" where
  "readdir fs p = (case stat fs p of
     Some (Dir es) \<Rightarrow> Inr es
   | Some (File t m) \<Rightarrow> Inl (''ENOTDIR: not a directory, scandir '' @ [CHR 0x27] @ p @ [CHR 0x27])
   | None \<Rightarrow> Inl (''ENOENT: no such file or directory, scandir '' @ [CHR 0x27] @ p @ [CHR 0x27]))"

definition test_files_in :: "node \<Rightarrow> string \<Rightarrow> string \<Rightarrow> (string \<Rightarrow> bool) \<Rightarrow> string + string list" where
  "test_files_in fs base dir re = (let d = path_join [base, dir] in
     if \<not> exists_sync fs d then Inr []
     else bindE (readdir fs d) (\<lambda>es. Inr (map (\<lambda>(name, n). path_join [dir, name]) (filter (\<lambda>(name, n). \<not> is_dir n \<and> re name) es))))"

definition existingTestFiles :: "node \<Rightarrow> string \<Rightarrow> (string \<times> (string \<Rightarrow> bool)) list \<Rightarrow> string + string list" where
  "existingTestFiles fs base patterns = bindE (mapE (\<lambda>(dir, re). test_files_in fs base dir re) patterns) (\<lambda>found. Inr (sort (concat found)))"

text \<open>\<open>/\.test\.mjs$/\<close> and \<open>/\.test\.[cm]?js$/\<close>.\<close>

definition repository_test :: "string \<Rightarrow> bool" where
  "repository_test name \<longleftrightarrow> ends_with name ''.test.mjs''"

definition service_test :: "string \<Rightarrow> bool" where
  "service_test name \<longleftrightarrow> list_ex (ends_with name) [''.test.js'', ''.test.cjs'', ''.test.mjs'']"

definition test_patterns :: "string option \<Rightarrow> (string \<times> (string \<Rightarrow> bool)) list" where
  "test_patterns sdir = (case sdir of None \<Rightarrow> [(''tests'', repository_test)] | Some d \<Rightarrow> [(path_join [d, ''test''], service_test)])"

definition coverage_args :: "test_options \<Rightarrow> string list" where
  "coverage_args opts = (if \<not> to_coverage opts then [] else
     [''--experimental-test-coverage'', ''--test-coverage-branches='' @ num_str (coverageBranches opts),
      ''--test-coverage-functions='' @ num_str (coverageFunctions opts), ''--test-coverage-lines='' @ num_str (coverageLines opts)] @
     (case to_serviceDir opts of None \<Rightarrow> [] | Some d \<Rightarrow> (let dir = slashes d in
       [''--test-coverage-include='' @ dir @ ''/src/**/*.js'', ''--test-coverage-exclude='' @ dir @ ''/node_modules/**''])))"

definition buildNodeTestArgs :: "node \<Rightarrow> string \<Rightarrow> test_options \<Rightarrow> string + string list" where
  "buildNodeTestArgs fs base opts = bindE (existingTestFiles fs base (test_patterns (to_serviceDir opts))) (\<lambda>tests.
     if tests = [] then Inl ''no test files found'' else Inr (''--test'' # coverage_args opts @ tests))"

text \<open>\<open>main\<close> with the handler around it: what is printed and run, and the exit code.\<close>

definition run_tests :: "node \<Rightarrow> (command \<Rightarrow> spawned) \<Rightarrow> string \<Rightarrow> string \<Rightarrow> string list \<Rightarrow> gate_event list \<times> int" where
  "run_tests fs child node base argv =
     (case bindE (test_parseArgs argv) (buildNodeTestArgs fs base) of
        Inl e \<Rightarrow> ([LogErr (''error: '' @ e)], 1)
      | Inr args \<Rightarrow> ([Ran (node, args, base)], status_or_1 (child (node, args, base))))"

section \<open>run-coverage-all.mjs\<close>

definition discoverServiceDirs :: "node \<Rightarrow> string \<Rightarrow> string + string list" where
  "discoverServiceDirs fs base = bindE (readdir fs base) (\<lambda>es.
     Inr (sort (map fst (filter (\<lambda>(name, n). exists_sync fs (path_join [base, name, ''service.json''])) (filter (\<lambda>(name, n). is_dir n) es)))))"

definition coverage_command :: "string \<Rightarrow> string \<Rightarrow> string \<Rightarrow> command" where
  "coverage_command node base d = (node, [''scripts/run-tests.mjs'', ''--service-dir'', d, ''--coverage''], base)"

text \<open>The services one after the other; the first that fails ends the loop with its status.\<close>

fun coverage_loop :: "(command \<Rightarrow> spawned) \<Rightarrow> string \<Rightarrow> string \<Rightarrow> string list \<Rightarrow> gate_event list \<times> int" where
  "coverage_loop child node base [] = ([], 0)"
| "coverage_loop child node base (d # ds) = (let c = coverage_command node base d; here = [LogOut (''coverage '' @ d), Ran c] in
     if status_or_1 (child c) \<noteq> 0 then (here, status_or_1 (child c))
     else (case coverage_loop child node base ds of (evs, code) \<Rightarrow> (here @ evs, code)))"

text \<open>An error ends the process with code 1 and a report of node's.\<close>

definition coverage_all :: "node \<Rightarrow> (command \<Rightarrow> spawned) \<Rightarrow> string \<Rightarrow> string \<Rightarrow> string list \<Rightarrow> gate_event list \<times> int" where
  "coverage_all fs child node base argv = (case argv of
     arg # rest \<Rightarrow> ([LogErr (''unknown argument: '' @ arg)], 1)
   | [] \<Rightarrow> (case discoverServiceDirs fs base of
       Inl e \<Rightarrow> ([LogErr e], 1)
     | Inr ds \<Rightarrow> (case coverage_loop child node base ds of (evs, code) \<Rightarrow>
         (evs @ (if code = 0 then [LogOut (''coverage checks passed for '' @ nat_str (length ds) @ '' services'')] else []), code))))"

section \<open>import-check-all.mjs\<close>

record found_service =
  fo_dir :: string
  fo_id :: jsval
  fo_nodeEntry :: jsval

text \<open>A service where there is a service.json, with no other below it; without the hidden directories.\<close>

definition found_at :: "(string \<Rightarrow> string + jsval) \<Rightarrow> jsval \<Rightarrow> string \<Rightarrow> node \<Rightarrow> string + found_service" where
  "found_at parse bin rel manifest = (case manifest of
     Dir es \<Rightarrow> Inl ''EISDIR: illegal operation on a directory, read''
   | File t m \<Rightarrow> bindE (parse t) (\<lambda>v. if nullish v then Inl ''Cannot read properties of null'' else
       Inr \<lparr>fo_dir = rel, fo_id = pget v ''name'', fo_nodeEntry = pget bin (to_str (pget v ''name''))\<rparr>))"

definition walked :: "string \<Rightarrow> bool" where
  "walked name \<longleftrightarrow> name \<noteq> ''node_modules'' \<and> name \<noteq> ''.git'' \<and> \<not> starts_with name ''.''"

definition below :: "string \<Rightarrow> string \<Rightarrow> string" where
  "below rel name = (if rel = ''.'' then name else path_join [rel, name])"

fun walk :: "(string \<Rightarrow> string + jsval) \<Rightarrow> jsval \<Rightarrow> string \<Rightarrow> node \<Rightarrow> string + found_service list" where
  "walk parse bin rel (File t m) = Inr []"
| "walk parse bin rel (Dir es) = (case map_of es ''service.json'' of
     Some manifest \<Rightarrow> bindE (found_at parse bin rel manifest) (\<lambda>f. Inr [f])
   | None \<Rightarrow> bindE (mapE (\<lambda>(name, n). if walked name then walk parse bin (below rel name) n else Inr []) es) (\<lambda>fs. Inr (concat fs)))"

definition read_json :: "(string \<Rightarrow> string + jsval) \<Rightarrow> node \<Rightarrow> string \<Rightarrow> string + jsval" where
  "read_json parse fs p = bindE (read_file fs p) parse"

definition discoverServices :: "(string \<Rightarrow> string + jsval) \<Rightarrow> (found_service list \<Rightarrow> found_service list) \<Rightarrow> node \<Rightarrow> string \<Rightarrow>
    string + found_service list" where
  "discoverServices parse by_dir fs base = bindE (read_json parse fs (path_join [base, ''package.json''])) (\<lambda>pkg.
     if nullish pkg then Inl ''Cannot read properties of null'' else
     (let bin = (case pget pkg ''bin'' of JObj kvs \<Rightarrow> JObj kvs | _ \<Rightarrow> JObj [])
      in case stat fs base of
        Some n \<Rightarrow> bindE (walk parse bin ''.'' n) (\<lambda>found. Inr (by_dir found))
      | None \<Rightarrow> Inl ''ENOENT: no such file or directory''))"

function import_args :: "string \<Rightarrow> string list \<Rightarrow> string + string" where
  "import_args octobus [] = Inr octobus"
| "import_args octobus (arg # rest) =
     (if arg = ''--octobus'' then (case rest of v # r \<Rightarrow> import_args v r | [] \<Rightarrow> import_args [] [])
      else if starts_with arg ''--octobus='' then import_args (drop 10 arg) rest
      else Inl (''unknown argument: '' @ arg))"
  by pat_completeness auto
termination by (relation "measure (\<lambda>(octobus, args). length args)") auto

definition import_parseArgs :: "string \<Rightarrow> string list \<Rightarrow> string + string" where
  "import_parseArgs cwd argv = bindE (import_args (path_resolve cwd [''..'', ''bin'', ''octobus'']) argv) (\<lambda>octobus.
     if octobus = [] then Inl ''--octobus must not be empty'' else Inr octobus)"

text \<open>What the check does outside: the daemon and its log, commands, pauses of 250 ms, what is printed, the clean-up.\<close>

datatype import_event = LogOpened string | DaemonStarted command | Command command | Paused | Printed string
  | DaemonKilled | LogClosed

text \<open>
  The answers: of \<open>service list\<close> while waiting, by the number of the attempt, of the other commands, and
  the text of the daemon's log, if there is one.
\<close>

record import_world =
  iw_ready :: "nat \<Rightarrow> spawned"
  iw_child :: "command \<Rightarrow> spawned"
  iw_log :: "string option"
  iw_parse :: "string \<Rightarrow> string + jsval"
  iw_by_dir :: "found_service list \<Rightarrow> found_service list"

type_synonym 'a import_run = "(import_event, string, 'a) run"

definition run_command :: "import_world \<Rightarrow> command \<Rightarrow> string import_run" where
  "run_command w c = ([Command c], let r = iw_child w c in
     if status_or_1 r \<noteq> 0 then Inl (fst c @ '' '' @ join '' '' (fst (snd c)) @ '' failed'' @
       (if out_text r \<noteq> [] then CHR 0x0A # out_text r else []) @ (if err_text r \<noteq> [] then CHR 0x0A # err_text r else []))
     else Inr (out_text r))"

definition list_command :: "string \<Rightarrow> string \<Rightarrow> string \<Rightarrow> command" where
  "list_command octobus addr cwd = (octobus, [''--addr'', addr, ''service'', ''list''], cwd)"

text \<open>Attempts from number \<open>attempt\<close> on, \<open>left\<close> of them.\<close>

fun wait_attempts :: "import_world \<Rightarrow> command \<Rightarrow> nat \<Rightarrow> nat \<Rightarrow> unit import_run" where
  "wait_attempts w c 0 attempt = ([], Inl (''daemon did not become ready'' @ [CHR 0x0A] @ (case iw_log w of Some t \<Rightarrow> t | None \<Rightarrow> [])))"
| "wait_attempts w c (Suc left) attempt = (if status_or_1 (iw_ready w attempt) = 0 then ([Command c], Inr ())
     else (case wait_attempts w c left (Suc attempt) of (evs, r) \<Rightarrow> (Command c # Paused # evs, r)))"

definition waitForDaemon :: "import_world \<Rightarrow> command \<Rightarrow> unit import_run" where
  "waitForDaemon w c = wait_attempts w c 80 0"

text \<open>The map of the listed services by ID, in which the last of an ID stays.\<close>

definition listed_services :: "jsval \<Rightarrow> string + jsval list" where
  "listed_services json = (if nullish json then Inl ''Cannot read properties of null'' else (case coalesce (pget json ''services'') (JArr []) of
     JArr vs \<Rightarrow> if list_ex nullish vs then Inl ''Cannot read properties of null'' else Inr vs
   | _ \<Rightarrow> Inl ''map is not a function''))"

definition same_value :: "jsval \<Rightarrow> jsval \<Rightarrow> bool" where
  "same_value a b = (case a of JObj _ \<Rightarrow> False | JArr _ \<Rightarrow> False | _ \<Rightarrow> a = b)"

definition imported :: "jsval list \<Rightarrow> jsval \<Rightarrow> jsval" where
  "imported listed ident = (case find (\<lambda>s. same_value (pget s ''ID'') ident) (rev listed) of Some s \<Rightarrow> s | None \<Rightarrow> JObj [])"

definition compare_service :: "jsval list \<Rightarrow> found_service \<Rightarrow> string + unit" where
  "compare_service listed f = (let s = imported listed (fo_id f);
       differs = (\<lambda>k v. fo_dir f @ '': listed '' @ k @ '' '' @ to_str (pget s k) @ '' did not match '' @ v)
     in if \<not> same_value (pget s ''ID'') (fo_id f) then Inl (differs ''ID'' (to_str (fo_id f)))
        else if pget s ''ServiceRoot'' \<noteq> JStr (fo_dir f) then Inl (differs ''ServiceRoot'' (fo_dir f))
        else if \<not> same_value (pget s ''NodeEntry'') (fo_nodeEntry f) then Inl (differs ''NodeEntry'' (to_str (fo_nodeEntry f)))
        else Inr ())"

definition imports_checked :: "import_world \<Rightarrow> string \<Rightarrow> string \<Rightarrow> string \<Rightarrow> found_service list \<Rightarrow> int import_run" where
  "imports_checked w octobus addr base services =
     thenA (waitForDaemon w (list_command octobus addr base)) (\<lambda>_.
     thenA (doA (Printed (''import recursive '' @ base))) (\<lambda>_.
     thenA (run_command w (octobus, [''--addr'', addr, ''service'', ''import'', ''--recursive'', base], base)) (\<lambda>_.
     thenA (run_command w (list_command octobus addr base)) (\<lambda>listOutput.
     thenA (liftA (bindE (iw_parse w listOutput) listed_services)) (\<lambda>listed.
     thenA (liftA (mapE (compare_service listed) services)) (\<lambda>_.
     thenA (doA (Printed (''import checks passed for '' @ nat_str (length services) @ '' services''))) (\<lambda>_. retA 0)))))))"

text \<open>The whole check, with its temporary directory and the address of the daemon given; an error ends the process with code 1.\<close>

definition import_check :: "import_world \<Rightarrow> node \<Rightarrow> string \<Rightarrow> string \<Rightarrow> string \<Rightarrow> string list \<Rightarrow> int import_run" where
  "import_check w fs cwd tmp addr argv =
     thenA (liftA (import_parseArgs cwd argv)) (\<lambda>octobus.
     thenA (liftA (discoverServices (iw_parse w) (iw_by_dir w) fs cwd)) (\<lambda>services.
     thenA (doA (LogOpened (path_join [tmp, ''daemon.log'']))) (\<lambda>_.
     thenA (doA (DaemonStarted (octobus, [''--addr'', addr, ''serve'', ''--data-dir'', path_join [tmp, ''data'']], cwd))) (\<lambda>_.
     (case imports_checked w octobus addr cwd services of
        (evs, r) \<Rightarrow> (evs @ [DaemonKilled, LogClosed, Command (''rm'', [''-rf'', tmp], cwd)], r))))))"

section \<open>Properties\<close>

text \<open>What a loop that ends with 0 has run.\<close>

lemma coverage_loop_ok:
  "snd (coverage_loop child node base ds) = 0 \<longleftrightarrow> (\<forall>d \<in> set ds. status_or_1 (child (coverage_command node base d)) = 0)"
  "snd (coverage_loop child node base ds) = 0 \<Longrightarrow> ran (fst (coverage_loop child node base ds)) = map (coverage_command node base) ds"
  by (induction ds) (auto simp: Let_def split: prod.splits)

text \<open>node ran the tests of a service, of which there are some, with these thresholds over its sources, and they passed.\<close>

definition tested_at :: "jsnum \<Rightarrow> node \<Rightarrow> (command \<Rightarrow> spawned) \<Rightarrow> string \<Rightarrow> string \<Rightarrow> string \<Rightarrow> bool" where
  "tested_at threshold fs child node base d \<longleftrightarrow> d \<noteq> [] \<and> (\<exists>tests. test_files_in fs base (path_join [d, ''test'']) service_test = Inr tests \<and> tests \<noteq> [] \<and>
     status_or_1 (child (node, [''--test'', ''--experimental-test-coverage'', ''--test-coverage-branches='' @ num_str threshold,
       ''--test-coverage-functions='' @ num_str threshold, ''--test-coverage-lines='' @ num_str threshold,
       ''--test-coverage-include='' @ slashes d @ ''/src/**/*.js'', ''--test-coverage-exclude='' @ slashes d @ ''/node_modules/**''] @ sort tests, base)) = 0)"

text \<open>A child process of run-tests.mjs does what the script does.\<close>

definition runs_script :: "node \<Rightarrow> (command \<Rightarrow> spawned) \<Rightarrow> string \<Rightarrow> string \<Rightarrow> bool" where
  "runs_script fs child node base \<longleftrightarrow> (\<forall>argv. status_or_1 (child (node, ''scripts/run-tests.mjs'' # argv, base)) = snd (run_tests fs child node base argv))"

lemma coverage_options:
  "d \<noteq> [] \<Longrightarrow> test_parseArgs [''--service-dir'', d, ''--coverage''] = Inr (test_defaults\<lparr>to_serviceDir := Some d, to_coverage := True\<rparr>)"
  "d \<noteq> [] \<Longrightarrow> test_parseArgs [''--service-dir'', d, ''--coverage'', ''--coverage-threshold=80''] =
     Inr (with_threshold (test_defaults\<lparr>to_serviceDir := Some d, to_coverage := True\<rparr>) (Fin 80))"
proof -
  have "parseCoverageThreshold ''80'' ''--coverage-threshold'' = Inr (Fin 80)" by code_simp
  then show "d \<noteq> [] \<Longrightarrow> test_parseArgs [''--service-dir'', d, ''--coverage'', ''--coverage-threshold=80''] =
     Inr (with_threshold (test_defaults\<lparr>to_serviceDir := Some d, to_coverage := True\<rparr>) (Fin 80))"
    "d \<noteq> [] \<Longrightarrow> test_parseArgs [''--service-dir'', d, ''--coverage''] = Inr (test_defaults\<lparr>to_serviceDir := Some d, to_coverage := True\<rparr>)"
    by (simp_all add: test_parseArgs_def with_threshold_def)
qed

lemma no_directory_refused: "snd (run_tests fs child node base (''--service-dir'' # [] # rest)) = 1"
  by (simp add: run_tests_def test_parseArgs_def)

lemma run_tests_passes:
  assumes "test_parseArgs argv = Inr opts" and "to_serviceDir opts = Some d" and "to_coverage opts" and "d \<noteq> []"
    and "coverageBranches opts = n" "coverageFunctions opts = n" "coverageLines opts = n"
  shows "snd (run_tests fs child node base argv) = 0 \<longleftrightarrow> tested_at n fs child node base d"
  using assms by (auto simp: run_tests_def buildNodeTestArgs_def existingTestFiles_def test_patterns_def coverage_args_def tested_at_def Let_def
      split: sum.splits)

lemma coverage_command_passes:
  assumes "runs_script fs child node base"
  shows "status_or_1 (child (coverage_command node base d)) = 0 \<longleftrightarrow> tested_at (Fin 90) fs child node base d"
proof (cases "d = []")
  case True
  with assms no_directory_refused [of fs child node base "[''--coverage'']"] show ?thesis
    by (simp add: coverage_command_def runs_script_def tested_at_def)
next
  case False
  with assms run_tests_passes [OF coverage_options(1) [OF False], of d "Fin 90" fs child node base] show ?thesis
    by (simp add: coverage_command_def runs_script_def test_defaults_def DEFAULT_COVERAGE_THRESHOLD_def)
qed

text \<open>The gate of a pull request runs the same script with the threshold 80.\<close>

lemma gate_tests_at_80:
  assumes "runs_script fs child ''node'' (path_resolve ''/'' [repo, ''services''])" and "d \<noteq> []"
  shows "let c = (''node'', [''scripts/run-tests.mjs'', ''--service-dir'', d, ''--coverage'', ''--coverage-threshold=80''], ''services'') in
    c \<in> set (plannedCommands [d] smoke install) \<and>
    (status_or_1 (child (at_root repo c)) = 0 \<longleftrightarrow> tested_at (Fin 80) fs child ''node'' (path_resolve ''/'' [repo, ''services'']) d)"
  using assms run_tests_passes [OF coverage_options(2) [OF assms(2)], of d "Fin 80" fs child "''node''" "path_resolve ''/'' [repo, ''services'']"]
  by (simp add: plannedCommands_def at_root_def runs_script_def with_threshold_def)

text \<open>C22: The coverage check of all services says what it means. When child processes of run-tests.mjs do what
that script does, run-coverage-all.mjs without arguments exits with 0 exactly when the services directory can
be read and every directory in it that has a service.json has test files, whose run by node with a threshold of
90 percent for branches, functions and lines, over the sources of that service and without its dependencies,
exited with 0; and then it ran the script once for each of them, in order. With an argument it runs nothing
and exits with 1.\<close>

theorem coverage_all_verdict:
  assumes "runs_script fs child node base"
  shows "(snd (coverage_all fs child node base []) = 0 \<longleftrightarrow>
      (\<exists>ds. discoverServiceDirs fs base = Inr ds \<and> list_all (tested_at (Fin 90) fs child node base) ds)) \<and>
    (snd (coverage_all fs child node base []) = 0 \<longrightarrow>
      (\<exists>ds. discoverServiceDirs fs base = Inr ds \<and> ran (fst (coverage_all fs child node base [])) = map (coverage_command node base) ds)) \<and>
    coverage_all fs child node base (arg # rest) = ([LogErr (''unknown argument: '' @ arg)], 1)"
proof (cases "discoverServiceDirs fs base")
  case (Inr ds)
  obtain evs code where run: "coverage_loop child node base ds = (evs, code)" by (cases "coverage_loop child node base ds")
  have "snd (coverage_all fs child node base []) = code" "code = 0 \<Longrightarrow> ran (fst (coverage_all fs child node base [])) = ran evs"
    using Inr run by (simp_all add: coverage_all_def)
  moreover have "code = 0 \<longleftrightarrow> list_all (tested_at (Fin 90) fs child node base) ds" "code = 0 \<Longrightarrow> ran evs = map (coverage_command node base) ds"
    using coverage_loop_ok [of child node base ds] run by (simp_all add: coverage_command_passes [OF assms] list_all_iff)
  ultimately show ?thesis using Inr by (simp add: coverage_all_def)
qed (simp add: coverage_all_def)

lemma node_args_test: "buildNodeTestArgs fs base opts = Inr args \<Longrightarrow> \<exists>more. args = ''--test'' # more"
  by (auto simp: buildNodeTestArgs_def split: if_splits)

definition sample_services :: node where
  "sample_services = Dir [(''a__b'', Dir [(''service.json'', File ''{}'' 420), (''test'', Dir [(''b.test.js'', File [] 420)])])]"

definition passed :: spawned where
  "passed = \<lparr>status = Some 0, out_text = [], err_text = []\<rparr>"

definition sample_child :: "command \<Rightarrow> spawned" where
  "sample_child c = (case c of (cmd, script # argv, cwd) \<Rightarrow> if script = ''scripts/run-tests.mjs''
       then passed\<lparr>status := Some (snd (run_tests sample_services (\<lambda>_. passed) cmd cwd argv))\<rparr> else passed
     | _ \<Rightarrow> passed)"

lemma sample_runs_script: "runs_script sample_services sample_child ''node'' ''/''"
proof -
  have "snd (run_tests sample_services (\<lambda>_. passed) ''node'' ''/'' argv) = snd (run_tests sample_services sample_child ''node'' ''/'' argv)" for argv
  proof (cases "bindE (test_parseArgs argv) (buildNodeTestArgs sample_services ''/'')")
    case (Inr args)
    then obtain opts where "buildNodeTestArgs sample_services ''/'' opts = Inr args" by auto
    then obtain more where more: "args = ''--test'' # more" using node_args_test by blast
    show ?thesis unfolding run_tests_def Inr more by (simp add: sample_child_def)
  qed (simp add: run_tests_def)
  then show ?thesis by (simp add: runs_script_def sample_child_def status_or_1_def passed_def)
qed

theorem coverage_all_verdict_witness:
  "snd (coverage_all sample_services sample_child ''node'' ''/'' []) = 0 \<and>
   tested_at (Fin 90) sample_services sample_child ''node'' ''/'' ''a__b''"
proof -
  have ds: "discoverServiceDirs sample_services ''/'' = Inr [''a__b'']" by code_simp
  have run: "snd (coverage_all sample_services sample_child ''node'' ''/'' []) = 0" by code_simp
  with coverage_all_verdict [OF sample_runs_script, of "''-v''" "[]"] ds show ?thesis by simp
qed

section \<open>Further properties\<close>

text \<open>A threshold given as an empty text after the equals sign is 0, which every coverage reaches; on its own it is refused.\<close>

lemma empty_threshold_is_0:
  "test_parseArgs [''--coverage'', ''--coverage-threshold=''] = Inr (with_threshold (test_defaults\<lparr>to_coverage := True\<rparr>) (Fin 0))"
  "test_parseArgs [''--coverage'', ''--coverage-threshold'', []] = Inl ''--coverage-threshold must be a number from 0 to 100''"
proof -
  have "parseCoverageThreshold [] ''--coverage-threshold'' = Inr (Fin 0)" by code_simp
  then show "test_parseArgs [''--coverage'', ''--coverage-threshold=''] = Inr (with_threshold (test_defaults\<lparr>to_coverage := True\<rparr>) (Fin 0))"
    "test_parseArgs [''--coverage'', ''--coverage-threshold'', []] = Inl ''--coverage-threshold must be a number from 0 to 100''"
    by (simp_all add: test_parseArgs_def with_threshold_def test_defaults_def)
qed

text \<open>The import check waits at most 80 times, and cleans up whatever happens once the daemon is started.\<close>

lemma waits_bounded: "count_list (fst (wait_attempts w c left attempt)) Paused \<le> left"
proof (induction left arbitrary: attempt)
  case (Suc left)
  show ?case using Suc [of "Suc attempt"] by (cases "wait_attempts w c left (Suc attempt)") simp
qed simp

lemma import_check_cases:
  "(\<exists>e. import_check w fs cwd tmp addr argv = ([], Inl e)) \<or>
   (\<exists>octobus services evs. discoverServices (iw_parse w) (iw_by_dir w) fs cwd = Inr services \<and>
      fst (import_check w fs cwd tmp addr argv) = LogOpened (path_join [tmp, ''daemon.log'']) #
        DaemonStarted (octobus, [''--addr'', addr, ''serve'', ''--data-dir'', path_join [tmp, ''data'']], cwd) #
        evs @ [DaemonKilled, LogClosed, Command (''rm'', [''-rf'', tmp], cwd)] \<and>
      snd (import_check w fs cwd tmp addr argv) = snd (imports_checked w octobus addr cwd services))"
proof (cases "import_parseArgs cwd argv")
  case octobus: (Inr octobus)
  show ?thesis
  proof (cases "discoverServices (iw_parse w) (iw_by_dir w) fs cwd")
    case (Inr services)
    with octobus show ?thesis
      by (cases "imports_checked w octobus addr cwd services") (auto simp: import_check_def)
  qed (simp add: import_check_def octobus)
qed (simp add: import_check_def)

lemma import_cleans_up:
  assumes "DaemonStarted d \<in> set (fst (import_check w fs cwd tmp addr argv))"
  shows "suffix [DaemonKilled, LogClosed, Command (''rm'', [''-rf'', tmp], cwd)] (fst (import_check w fs cwd tmp addr argv))"
  using import_check_cases [of w fs cwd tmp addr argv] assms by (auto simp: suffix_def)

text \<open>A check that passes has found every service of the directory in the daemon's list, under its name, its
directory and its entry of the package.\<close>

lemma import_checked_services:
  assumes "snd (import_check w fs cwd tmp addr argv) = Inr code"
  shows "\<exists>services listed. discoverServices (iw_parse w) (iw_by_dir w) fs cwd = Inr services \<and> code = 0 \<and>
    (\<forall>f \<in> set services. same_value (pget (imported listed (fo_id f)) ''ID'') (fo_id f) \<and>
      pget (imported listed (fo_id f)) ''ServiceRoot'' = JStr (fo_dir f) \<and>
      same_value (pget (imported listed (fo_id f)) ''NodeEntry'') (fo_nodeEntry f))"
proof -
  have ok: "same_value (pget (imported listed (fo_id f)) ''ID'') (fo_id f) \<and>
      pget (imported listed (fo_id f)) ''ServiceRoot'' = JStr (fo_dir f) \<and>
      same_value (pget (imported listed (fo_id f)) ''NodeEntry'') (fo_nodeEntry f)"
    if "mapE (compare_service listed) services = Inr us" "f \<in> set services" for listed services us f
    using mapE_member [OF that] by (auto simp: compare_service_def Let_def split: if_splits)
  from assms import_check_cases [of w fs cwd tmp addr argv] obtain octobus services where
    found: "discoverServices (iw_parse w) (iw_by_dir w) fs cwd = Inr services"
    and rest: "snd (imports_checked w octobus addr cwd services) = Inr code"
    by auto
  from rest obtain listed us where "mapE (compare_service listed) services = Inr us" "code = 0"
    by (auto simp: imports_checked_def snd_thenA split: sum.splits)
  with found ok show ?thesis by blast
qed

end
