(* ===== verification/SdkHealth.thy ===== *)
theory SdkHealth
  imports JS_Values "HOL-Library.Word"
begin

unbundle bit_operations_syntax

text \<open>
  The health service of the SDK (src/sdk/src/health.ts): the hand-written protobuf codec of its
  two messages. Bytes are 8-bit words; JavaScript's bitwise operators work on 32-bit words, read as
  signed integers where the code uses the result as a number. The field loop of the decoder may
  run forever, so it is a partial function whose value \<open>None\<close> means that it does not return. The
  decoder of UTF-8 (\<open>buffer.toString\<close>) is an argument.
\<close>

type_synonym bytes = "8 word list"

section \<open>Varints\<close>

function encodeVarint :: "32 word \<Rightarrow> bytes" where
  "encodeVarint value = (
     let byte = ucast (value AND 0x7F); rest = drop_bit 7 value
     in if rest \<noteq> 0 then (byte OR 0x80) # encodeVarint rest else [byte])"
  by pat_completeness auto
termination
proof (relation "measure unat")
  show "wf (measure (unat :: 32 word \<Rightarrow> nat))" by simp
next
  fix v rest :: "32 word" and byte :: "8 word"
  assume r: "rest = drop_bit 7 v" "rest \<noteq> 0"
  then have "unat rest = unat v div 128"
    using unat_drop_bit_eq [of 7 v] by (simp only: drop_bit_eq_div) simp
  moreover have "unat rest \<noteq> 0" using r(2) by (simp add: unsigned_eq_0_iff)
  ultimately show "(rest, v) \<in> measure unat" by auto
qed

declare encodeVarint.simps [simp del]

text \<open>The loop of \<open>decodeVarint\<close>: the shift distance of \<open><<\<close> counts modulo 32.\<close>

fun varint_loop :: "bytes \<Rightarrow> 32 word \<Rightarrow> nat \<Rightarrow> nat \<Rightarrow> (int \<times> nat) option" where
  "varint_loop [] result shift index = None"
| "varint_loop (byte # rest) result shift index = (
     let result1 = result OR push_bit (shift mod 32) (ucast (byte AND 0x7F))
     in if byte AND 0x80 = 0 then Some (sint result1, Suc index)
        else varint_loop rest result1 (shift + 7) (Suc index))"

definition decodeVarint :: "bytes \<Rightarrow> nat \<Rightarrow> (int \<times> nat) option" where
  "decodeVarint buffer start = varint_loop (drop start buffer) 0 0 start"

section \<open>String fields\<close>

text \<open>\<open>buffer.subarray(start, end)\<close>: a negative end counts from the end of the buffer.\<close>

definition subarray :: "bytes \<Rightarrow> nat \<Rightarrow> int \<Rightarrow> bytes" where
  "subarray buffer start finish = (
     let stop = (if finish < 0 then nat (int (length buffer) + finish) else min (nat finish) (length buffer))
     in take (stop - start) (drop start buffer))"

text \<open>
  One round of the field loop at an index below the length: \<open>Inl\<close> the result that leaves the
  loop, \<open>Inr\<close> the next index. A negative index reads \<open>undefined\<close>, whose wire type is 0.
\<close>

definition field_step :: "bytes \<Rightarrow> nat \<Rightarrow> int \<Rightarrow> bytes option + int" where
  "field_step buffer expected index = (
     if index < 0 then Inl None
     else let tag = buffer ! nat index; fieldNumber = unat (drop_bit 3 tag); wireType = tag AND 7
     in if wireType \<noteq> 2 then Inl None
        else (case decodeVarint buffer (nat index + 1) of
            None \<Rightarrow> Inl None
          | Some (len, nextIndex) \<Rightarrow>
              let finish = int nextIndex + len
              in if finish > int (length buffer) then Inl None
                 else if fieldNumber = expected then Inl (Some (subarray buffer nextIndex finish))
                 else Inr finish))"

partial_function (option) decode_from :: "bytes \<Rightarrow> nat \<Rightarrow> int \<Rightarrow> bytes option option" where
  "decode_from buffer expected index = (
     if index < int (length buffer)
     then (case field_step buffer expected index of
         Inl r \<Rightarrow> Some r
       | Inr index1 \<Rightarrow> decode_from buffer expected index1)
     else Some None)"

definition decodeFirstStringField :: "bytes \<Rightarrow> nat \<Rightarrow> bytes option option" where
  "decodeFirstStringField buffer expected = decode_from buffer expected 0"

text \<open>\<open>Buffer.from(value, "utf8")\<close> for the Latin-1 strings of the development.\<close>

definition utf8_char :: "char \<Rightarrow> bytes" where
  "utf8_char c = (let n = code_of c in
     if n < 128 then [of_nat n] else [of_nat (192 + n div 64), of_nat (128 + n mod 64)])"

definition utf8_bytes :: "string \<Rightarrow> bytes" where
  "utf8_bytes s = concat (map utf8_char s)"

definition encodeStringField :: "nat \<Rightarrow> string \<Rightarrow> bytes" where
  "encodeStringField fieldNumber value = (
     if value = [] then []
     else let encoded = utf8_bytes value
     in [ucast (push_bit 3 (of_nat fieldNumber :: 32 word) OR 2)] @
        encodeVarint (of_nat (length encoded)) @ encoded)"

section \<open>The messages\<close>

definition has_key :: "jsval \<Rightarrow> string \<Rightarrow> bool" where
  "has_key v k = (case v of JObj fs \<Rightarrow> k \<in> fst ` set fs | _ \<Rightarrow> False)"

definition serializeHealthCheckRequest :: "jsval \<Rightarrow> bytes" where
  "serializeHealthCheckRequest value = encodeStringField 1
     (if has_key value ''service'' then to_str (coalesce (pget value ''service'') (JStr [])) else [])"

text \<open>\<open>None\<close>: the call does not return.\<close>

definition deserializeHealthCheckRequest :: "(bytes \<Rightarrow> string) \<Rightarrow> bytes \<Rightarrow> string option" where
  "deserializeHealthCheckRequest utf8_text buffer = map_option
     (\<lambda>r. case r of Some bs \<Rightarrow> utf8_text bs | None \<Rightarrow> []) (decodeFirstStringField buffer 1)"

definition normalizeStatus :: "jsval \<Rightarrow> jsnum" where
  "normalizeStatus status = (case status of
     JStr s \<Rightarrow> if s = ''SERVING'' then Fin 1 else Fin 0
   | JNum n \<Rightarrow> n
   | _ \<Rightarrow> Fin 0)"

text \<open>A number stored in a byte of a buffer.\<close>

definition to_byte :: "jsnum \<Rightarrow> 8 word" where
  "to_byte n = (case n of Fin r \<Rightarrow> of_int (trunc_rat r) | _ \<Rightarrow> 0)"

definition serializeHealthCheckResponse :: "jsval \<Rightarrow> bytes" where
  "serializeHealthCheckResponse value =
     [0x08, to_byte (if has_key value ''status'' then normalizeStatus (pget value ''status'') else Fin 0)]"

definition deserializeHealthCheckResponse :: "bytes \<Rightarrow> nat" where
  "deserializeHealthCheckResponse buffer =
     (if 2 \<le> length buffer \<and> buffer ! 0 = 0x08 then unat (buffer ! 1) else 0)"

text \<open>
  The two handlers: what they answer. \<open>Check\<close> does not look at the request; \<open>Watch\<close> destroys the
  call with UNIMPLEMENTED (12).
\<close>

datatype health_answer = Reply jsval | Destroyed nat string

definition health_check :: health_answer where
  "health_check = Reply (JObj [(''status'', JInt 1)])"

definition health_watch :: health_answer where
  "health_watch = Destroyed 12 ''grpc.health.v1.Health/Watch is not implemented''"

section \<open>Lemmas on varints\<close>

lemma bit_128: "bit (0x80 :: 'a::len word) n \<longleftrightarrow> n = 7 \<and> n < LENGTH('a)"
proof -
  have "bit ((2 :: 'a word) ^ 7) n \<longleftrightarrow> n = 7 \<and> n < LENGTH('a)" by (simp only: bit_exp_iff) auto
  then show ?thesis by simp
qed

lemma and_127: "v AND 0x7F = v AND mask 7" for v :: "'a::len word"
proof -
  have "(0x7F :: 'a word) = mask 7" by (simp only: mask_eq_decr_exp) simp
  then show ?thesis by (rule arg_cong)
qed

lemma varint_byte_parts:
  fixes v :: "32 word"
  shows "(ucast (v AND 0x7F) :: 8 word) AND 0x80 = 0"
    and "((ucast (v AND 0x7F) :: 8 word) OR 0x80) AND 0x80 \<noteq> 0"
    and "ucast ((ucast (v AND 0x7F) :: 8 word) AND 0x7F) = v AND 0x7F"
    and "ucast (((ucast (v AND 0x7F) :: 8 word) OR 0x80) AND 0x7F) = v AND 0x7F"
proof -
  note bits = bit_and_iff bit_or_iff bit_unsigned_iff bit_128 and_127 bit_mask_iff
  show "(ucast (v AND 0x7F) :: 8 word) AND 0x80 = 0"
    by (rule bit_eqI) (simp only: bits, auto)
  show "((ucast (v AND 0x7F) :: 8 word) OR 0x80) AND 0x80 \<noteq> 0"
  proof
    assume "((ucast (v AND 0x7F) :: 8 word) OR 0x80) AND 0x80 = 0"
    then have "\<not> bit (((ucast (v AND 0x7F) :: 8 word) OR 0x80) AND 0x80) 7" by simp
    then show False by (simp add: bits)
  qed
  show "ucast ((ucast (v AND 0x7F) :: 8 word) AND 0x7F) = v AND 0x7F"
    by (rule bit_eqI) (auto simp: bits)
  show "ucast (((ucast (v AND 0x7F) :: 8 word) OR 0x80) AND 0x7F) = v AND 0x7F"
    by (rule bit_eqI) (simp only: bits, auto)
qed

lemma push_bit_low_high:
  fixes v :: "32 word"
  shows "push_bit k (v AND 0x7F) OR push_bit (k + 7) (drop_bit 7 v) = push_bit k v"
proof (rule bit_eqI)
  fix n
  have "7 + (n - (k + 7)) = n - k" if "k + 7 \<le> n" using that by simp
  then show "bit (push_bit k (v AND 0x7F) OR push_bit (k + 7) (drop_bit 7 v)) n = bit (push_bit k v) n"
    by (cases "k + 7 \<le> n") (auto simp: bit_or_iff bit_and_iff bit_push_bit_iff bit_drop_bit_eq and_127 bit_mask_iff)
qed

lemma unat_drop7: "unat (drop_bit 7 (v :: 32 word)) = unat v div 128"
  using unat_drop_bit_eq [of 7 v] by (simp only: drop_bit_eq_div) simp

lemma varint_loop_encode:
  "k \<le> 4 \<Longrightarrow> unat v < 2 ^ (31 - 7 * k) \<Longrightarrow>
   varint_loop (encodeVarint v @ rest) r (7 * k) i =
     Some (sint (r OR push_bit (7 * k) v), i + length (encodeVarint v))"
proof (induction v arbitrary: k r i rule: encodeVarint.induct)
  case (1 v)
  let ?next = "drop_bit 7 v"
  have small: "(7 * k) mod 32 = 7 * k" using 1(2) by simp
  show ?case
  proof (cases "?next = 0")
    case True
    then have "push_bit (7 * k) (v AND 0x7F) = push_bit (7 * k) v"
      using push_bit_low_high [of "7 * k" v] by simp
    with True small show ?thesis
      by (subst encodeVarint.simps, subst encodeVarint.simps)
         (simp add: varint_byte_parts Let_def)
  next
    case False
    have u: "unat ?next = unat v div 128" by (rule unat_drop7)
    then have "128 \<le> unat v" using False by (metis div_less not_less unsigned_eq_0_iff)
    then have "128 < (2::nat) ^ (31 - 7 * k)" using 1(3) by linarith
    then have k3: "k \<le> 3" using 1(2) by (cases "k = 4") auto
    have "unat ?next < 2 ^ (31 - 7 * Suc k)"
    proof -
      have e: "31 - 7 * k = (31 - 7 * Suc k) + 7" using k3 by simp
      have "(2::nat) ^ (31 - 7 * k) = 2 ^ (31 - 7 * Suc k) * 128"
        unfolding e power_add by simp
      then show ?thesis using 1(3) u by (simp add: less_mult_imp_div_less)
    qed
    then have ih: "varint_loop (encodeVarint ?next @ rest) r' (7 * Suc k) i' =
        Some (sint (r' OR push_bit (7 * Suc k) ?next), i' + length (encodeVarint ?next))" for r' i'
      using 1(1) [OF refl refl False, of "Suc k" r' i'] k3 by simp
    have "varint_loop (encodeVarint v @ rest) r (7 * k) i =
        varint_loop (encodeVarint ?next @ rest) (r OR push_bit (7 * k) (v AND 0x7F)) (7 * k + 7) (Suc i)"
      using False small by (subst encodeVarint.simps) (simp add: varint_byte_parts Let_def)
    also have "\<dots> = Some (sint ((r OR push_bit (7 * k) (v AND 0x7F)) OR push_bit (7 * k + 7) ?next),
        Suc i + length (encodeVarint ?next))"
      using ih by (simp add: add.commute)
    also have "(r OR push_bit (7 * k) (v AND 0x7F)) OR push_bit (7 * k + 7) ?next = r OR push_bit (7 * k) v"
      using push_bit_low_high [of "7 * k" v] by (simp add: or.assoc)
    also have "Suc i + length (encodeVarint ?next) = i + length (encodeVarint v)"
      using False by (subst (2) encodeVarint.simps) (simp add: Let_def)
    finally show ?thesis .
  qed
qed

lemma sint_small:
  assumes "unat (v :: 32 word) < 2 ^ 31"
  shows "sint v = int (unat v)"
proof -
  have "uint v < 2 ^ 31"
    using assms by (simp only: unat_eq_nat_uint nat_less_iff [OF unsigned_greater_eq]) simp
  moreover have "- (2 ^ 31) \<le> uint v"
  proof -
    have "- (2 ^ 31) \<le> (0 :: int)" by simp
    also have "0 \<le> uint v" by simp
    finally show ?thesis .
  qed
  ultimately have "signed_take_bit 31 (uint v) = uint v" by (simp only: signed_take_bit_int_eq_self)
  then show ?thesis by (simp only: sint_uint) simp
qed

lemma decode_encode_varint:
  assumes "unat v < 2 ^ 31"
  shows "decodeVarint (pre @ encodeVarint v @ rest) (length pre) =
    Some (int (unat v), length pre + length (encodeVarint v))"
  using varint_loop_encode [of 0 v rest 0 "length pre"] assms
  by (simp add: decodeVarint_def sint_small)


section \<open>Lemmas on the field loop\<close>

lemma decode_from_step:
  assumes "index < int (length buffer)"
  shows "decode_from buffer expected index = (case field_step buffer expected index of
      Inl r \<Rightarrow> Some r | Inr index1 \<Rightarrow> decode_from buffer expected index1)"
  by (subst decode_from.simps) (simp add: assms)

text \<open>A round that leads back to its own index never ends.\<close>

lemma decode_from_loops:
  assumes "0 < length buffer" and "field_step buffer expected 0 = Inr 0"
  shows "decode_from buffer expected 0 = None"
proof (rule ccontr)
  assume "decode_from buffer expected 0 \<noteq> None"
  then obtain r where r: "decode_from buffer expected 0 = Some r" by auto
  have "\<not> (buffer = buffer \<and> expected = expected \<and> (0 :: int) = 0)"
  proof (rule decode_from.raw_induct [where P = "\<lambda>b e i y. \<not> (b = buffer \<and> e = expected \<and> i = 0)", OF _ r])
    fix loop b e i y
    assume ih: "\<And>b e i y. loop b e i = Some y \<Longrightarrow> \<not> (b = buffer \<and> e = expected \<and> i = 0)"
      and body: "(if i < int (length b) then case field_step b e i of Inl x \<Rightarrow> Some x | Inr j \<Rightarrow> loop b e j
        else Some None) = Some y"
    show "\<not> (b = buffer \<and> e = expected \<and> i = 0)"
      using ih [of buffer expected 0 y] body assms by auto
  qed
  then show False by simp
qed

text \<open>Rounds that go forward end: there are at most as many as bytes left.\<close>

lemma decode_from_returns:
  assumes fwd: "\<And>i j. field_step buffer expected i = Inr j \<Longrightarrow> i < j"
  shows "decode_from buffer expected i \<noteq> None"
proof (induction "nat (int (length buffer) - i)" arbitrary: i rule: less_induct)
  case less
  show ?case
  proof (cases "i < int (length buffer)")
    case True
    then show ?thesis
    proof (cases "field_step buffer expected i")
      case (Inr j)
      with fwd have "i < j" by blast
      with True have "nat (int (length buffer) - j) < nat (int (length buffer) - i)" by simp
      from less [OF this] Inr True show ?thesis by (simp add: decode_from_step)
    qed (simp add: decode_from_step)
  qed (subst decode_from.simps, simp)
qed


lemma unat_of_nat_small: "n < 2 ^ LENGTH('a) \<Longrightarrow> unat (of_nat n :: 'a::len word) = n"
  by (simp add: unat_of_nat)

lemma field_step_forward:
  assumes "field_step buffer expected i = Inr j"
    and "\<And>k len m. decodeVarint buffer k = Some (len, m) \<Longrightarrow> 0 \<le> len"
  shows "i < j"
proof -
  obtain len m where d: "decodeVarint buffer (nat i + 1) = Some (len, m)" and j: "j = int m + len" and i: "0 \<le> i"
    using assms(1) by (auto simp: field_step_def Let_def split: if_splits option.splits prod.splits)
  have "nat i + 1 < m"
  proof -
    have "varint_loop bs r s k = Some (l, n) \<Longrightarrow> k < n" for bs r s k l n
      by (induction bs r s k rule: varint_loop.induct) (fastforce simp: Let_def split: if_splits)+
    with d show ?thesis by (auto simp: decodeVarint_def)
  qed
  with assms(2) [OF d] j i show ?thesis by linarith
qed

lemma tag_of_field_1: "ucast (push_bit 3 (of_nat 1 :: 32 word) OR 2) = (0x0A :: 8 word)"
  by simp

lemma decode_encode_field:
  assumes "value \<noteq> []" and "length (utf8_bytes value) < 2 ^ 31"
  shows "decodeFirstStringField (encodeStringField 1 value) 1 = Some (Some (utf8_bytes value))"
proof -
  let ?enc = "utf8_bytes value"
  let ?len = "encodeVarint (of_nat (length ?enc))"
  have b: "encodeStringField 1 value = [0x0A] @ ?len @ ?enc"
    using assms(1) by (simp add: encodeStringField_def Let_def tag_of_field_1)
  have u: "unat (of_nat (length ?enc) :: 32 word) = length ?enc"
    using assms(2) by (intro unat_of_nat_small) simp
  have "decodeVarint ([0x0A] @ ?len @ ?enc) (length [0x0A :: 8 word]) =
      Some (int (length ?enc), length [0x0A :: 8 word] + length ?len)"
    using decode_encode_varint [of "of_nat (length ?enc)" "[0x0A]" ?enc] assms(2) u by simp
  then have "field_step (encodeStringField 1 value) 1 0 = Inl (Some ?enc)"
    unfolding b by (simp add: field_step_def Let_def subarray_def)
  then show ?thesis
    unfolding b by (simp add: decodeFirstStringField_def decode_from_step)
qed

section \<open>Properties\<close>

text \<open>A decoder of UTF-8 for the encodings of the development's strings.\<close>

fun utf8_decode :: "bytes \<Rightarrow> string" where
  "utf8_decode [] = []"
| "utf8_decode [b] = [char_of (unat b)]"
| "utf8_decode (b # c # bs) = (if unat b < 128 then char_of (unat b) # utf8_decode (c # bs)
     else char_of ((unat b - 192) * 64 + (unat c - 128)) # utf8_decode bs)"

lemma code_of_less: "code_of c < 256"
  by (simp add: code_of_def of_char_def del: of_char_of)

lemma utf8_bytes_simps [simp]: "utf8_bytes [] = []" "utf8_bytes (c # s) = utf8_char c @ utf8_bytes s"
  by (simp_all add: utf8_bytes_def)

lemma trunc_rat_of_nat: "trunc_rat (of_nat n) = int n"
  using trunc_rat_of_int [of "int n"] by simp

lemma utf8_decode_encode: "utf8_decode (utf8_bytes s) = s"
proof (induction s)
  case (Cons c s)
  have c: "char_of (code_of c) = c" by (simp add: code_of_def)
  have d: "code_of c div 64 < 4" using code_of_less [of c] by simp
  show ?case
  proof (cases "code_of c < 128")
    case True
    then have "unat (of_nat (code_of c) :: 8 word) = code_of c" by (simp add: unat_of_nat_small)
    with True Cons c show ?thesis
      by (cases "utf8_bytes s") (auto simp: utf8_char_def Let_def)
  next
    case False
    have "unat (of_nat (192 + code_of c div 64) :: 8 word) = 192 + code_of c div 64"
      using d by (intro unat_of_nat_small) simp
    moreover have "unat (of_nat (128 + code_of c mod 64) :: 8 word) = 128 + code_of c mod 64"
    proof (rule unat_of_nat_small)
      have "code_of c mod 64 < 64" by simp
      then show "128 + code_of c mod 64 < 2 ^ LENGTH(8)" by simp
    qed
    ultimately show ?thesis using False Cons c
      by (simp add: utf8_char_def Let_def del: of_nat_add)
  qed
qed simp

lemma health_codec_roundtrip_facts:
  assumes "\<forall>s. utf8_text (utf8_bytes s) = s" and "length (utf8_bytes service) < 2 ^ 31" and "n < 256"
  shows "deserializeHealthCheckRequest utf8_text
      (serializeHealthCheckRequest (JObj [(''service'', JStr service)])) = Some service"
    and "deserializeHealthCheckResponse
      (serializeHealthCheckResponse (JObj [(''status'', JInt (int n))])) = n"
proof -
  show "deserializeHealthCheckRequest utf8_text
      (serializeHealthCheckRequest (JObj [(''service'', JStr service)])) = Some service"
  proof (cases "service = []")
    case True
    then show ?thesis
      by (simp add: serializeHealthCheckRequest_def has_key_def coalesce_def nullish_def encodeStringField_def
          deserializeHealthCheckRequest_def decodeFirstStringField_def decode_from.simps)
  next
    case False
    with assms show ?thesis
      by (simp add: serializeHealthCheckRequest_def has_key_def coalesce_def nullish_def
          deserializeHealthCheckRequest_def decode_encode_field del: One_nat_def)
  qed
  show "deserializeHealthCheckResponse
      (serializeHealthCheckResponse (JObj [(''status'', JInt (int n))])) = n"
    using assms(3) by (simp add: serializeHealthCheckResponse_def has_key_def normalizeStatus_def to_byte_def
        deserializeHealthCheckResponse_def trunc_rat_of_nat unat_of_nat_small)
qed

text \<open>C29: The health codec round trips. A request written by the serializer is read back with its
service name (below 2 GiB of text, and given that the decoder of UTF-8 reads back what the encoder writes),
and a response is read back with its status byte.\<close>
theorem health_codec_roundtrip:
  assumes "\<forall>s. utf8_text (utf8_bytes s) = s" and "length (utf8_bytes service) < 2 ^ 31" and "n < 256"
  shows "deserializeHealthCheckRequest utf8_text
      (serializeHealthCheckRequest (JObj [(''service'', JStr service)])) = Some service \<and>
    deserializeHealthCheckResponse
      (serializeHealthCheckResponse (JObj [(''status'', JInt (int n))])) = n"
  using health_codec_roundtrip_facts [OF assms] by blast

theorem health_codec_roundtrip_witness:
  "deserializeHealthCheckRequest utf8_decode
     (serializeHealthCheckRequest (JObj [(''service'', JStr ''a.B'')])) = Some ''a.B''"
proof (rule health_codec_roundtrip [THEN conjunct1])
  show "\<forall>s. utf8_decode (utf8_bytes s) = s" by (simp add: utf8_decode_encode)
  show "length (utf8_bytes ''a.B'') < 2 ^ 31" by (simp add: utf8_bytes_def utf8_char_def code_of_def)
  show "(1 :: nat) < 256" by simp
qed

lemma health_request_may_hang_facts:
  shows "deserializeHealthCheckRequest utf8_text [0x12, 0xFA, 0xFF, 0xFF, 0xFF, 0x0F] = None"
    and "(\<And>i len m. decodeVarint buffer i = Some (len, m) \<Longrightarrow> 0 \<le> len) \<Longrightarrow>
      deserializeHealthCheckRequest utf8_text buffer \<noteq> None"
proof -
  let ?hang = "[0x12, 0xFA, 0xFF, 0xFF, 0xFF, 0x0F] :: bytes"
  have "field_step ?hang 1 0 = Inr 0" by code_simp
  then show "deserializeHealthCheckRequest utf8_text ?hang = None"
    by (simp add: deserializeHealthCheckRequest_def decodeFirstStringField_def decode_from_loops)
next
  assume "\<And>i len m. decodeVarint buffer i = Some (len, m) \<Longrightarrow> 0 \<le> len"
  then have "field_step buffer 1 i = Inr j \<Longrightarrow> i < j" for i j using field_step_forward by blast
  from decode_from_returns [OF this] show "deserializeHealthCheckRequest utf8_text buffer \<noteq> None"
    by (simp add: deserializeHealthCheckRequest_def decodeFirstStringField_def)
qed

text \<open>Reading a health request ends when no varint of it reads as a negative number, since every
field then leads forward; but a request of six bytes exists, a field 2 of length -6, that leads back to
its own start, so that reading it never ends.\<close>
lemma health_request_may_hang:
  "deserializeHealthCheckRequest utf8_text [0x12, 0xFA, 0xFF, 0xFF, 0xFF, 0x0F] = None \<and>
   ((\<forall>i len m. decodeVarint buffer i = Some (len, m) \<longrightarrow> 0 \<le> len) \<longrightarrow>
      deserializeHealthCheckRequest utf8_text buffer \<noteq> None)"
  using health_request_may_hang_facts by blast

lemma health_request_may_hang_example:
  "deserializeHealthCheckRequest utf8_decode [0x0A, 0x01, 0x61] \<noteq> None"
proof -
  have "0 \<le> len" if "decodeVarint [0x0A, 0x01, 0x61] i = Some (len, m)" for i len m
  proof -
    have "i = 0 \<or> i = 1 \<or> i = 2 \<or> 3 \<le> i" by arith
    with that show ?thesis by (auto simp: decodeVarint_def Let_def)
  qed
  then show ?thesis using health_request_may_hang [of utf8_decode "[0x0A, 0x01, 0x61]"] by blast
qed

end
