(* ===== verification/SdkContext.thy ===== *)
theory SdkContext
  imports JS_Values
begin

text \<open>
  The handler context helpers of the SDK (src/sdk/src/context.ts): the normal form of a context, its
  merged configuration and the read of a metadata value. A context is a JavaScript value; its
  \<open>getMetadata\<close>, when it is a function, is given beside it, as values hold no functions.
\<close>

definition plain :: "jsval \<Rightarrow> (string \<times> jsval) list" where
  "plain v = (case v of JObj fs \<Rightarrow> fs | _ \<Rightarrow> [])"

definition normalizeContext :: "jsval \<Rightarrow> jsval" where
  "normalizeContext ctx = (let source = plain ctx; get = (\<lambda>k. pget (JObj source) k);
     legacyRequest = (if ''req'' \<in> fst ` set source then get ''req'' else JObj []);
     request = (if ''request'' \<in> fst ` set source then get ''request'' else legacyRequest)
     in JObj (from_entries (source @ [(''request'', request),
          (''config'', JObj (plain (get ''config''))),
          (''secret'', JObj (plain (get ''secret''))),
          (''metadata'', JObj (plain (get ''metadata'')))])))"

definition mergeConfigSecret :: "jsval \<Rightarrow> jsval" where
  "mergeConfigSecret ctx = (let n = normalizeContext ctx
     in JObj (from_entries (plain (pget n ''config'') @ plain (pget n ''secret''))))"

definition getMetadataValue :: "jsval \<Rightarrow> (string \<Rightarrow> jsval) option \<Rightarrow> string \<Rightarrow> jsval" where
  "getMetadataValue ctx getMetadata key = (case getMetadata of
     Some f \<Rightarrow> f key
   | None \<Rightarrow> let m = pget (normalizeContext ctx) ''metadata''
       in if key \<in> fst ` set (plain m) then pget m key else pget m (to_lower key))"

lemma pget_from_entries: "pget (JObj (from_entries kvs)) k = (case map_of (rev kvs) k of Some v \<Rightarrow> v | None \<Rightarrow> JUndef)"
  by (simp add: map_of_from_entries)

lemma normalized_parts:
  "pget (normalizeContext ctx) ''config'' = JObj (plain (pget (JObj (plain ctx)) ''config''))"
  "pget (normalizeContext ctx) ''secret'' = JObj (plain (pget (JObj (plain ctx)) ''secret''))"
  "pget (normalizeContext ctx) ''metadata'' = JObj (plain (pget (JObj (plain ctx)) ''metadata''))"
  unfolding normalizeContext_def Let_def pget_from_entries by simp_all

lemma plain_JObj [simp]: "plain (JObj fs) = fs"
  by (simp add: plain_def)

text \<open>The secret wins over the configuration, and a missing one counts as empty.\<close>

lemma merged_value:
  "pget (mergeConfigSecret ctx) k = (let s = map_of (rev (plain (pget (JObj (plain ctx)) ''secret''))) k
     in case s of Some v \<Rightarrow> v
      | None \<Rightarrow> (case map_of (rev (plain (pget (JObj (plain ctx)) ''config''))) k of Some v \<Rightarrow> v | None \<Rightarrow> JUndef))"
  unfolding mergeConfigSecret_def Let_def normalized_parts plain_JObj pget_from_entries
  by (simp add: map_add_def split: option.splits)

end
