(* ===== verification/SdkProtoJson.thy ===== *)
theory SdkProtoJson
  imports JS_Values
begin

text \<open>
  Protobuf messages as handlers and JSON see them (src/sdk/src/protobuf-json.ts): the alias plan of a
  message descriptor, the view that answers to the names a .proto declares, and the JSON Schema of a
  message. Descriptors come from the protobuf library: a field names the type of its message, and
  \<open>descs\<close> gives the descriptor of a type. A message is an object whose key $typeName holds a string, a
  oneof group an object with the keys case and value. The caches of plans and views only keep the
  identity of objects, which values do not have; a view is a term of \<open>view\<close>.
\<close>

section \<open>Descriptors\<close>

datatype scalar = DOUBLE | FLOAT | INT64 | UINT64 | INT32 | FIXED64 | FIXED32 | BOOL | STRING | BYTES
  | UINT32 | SFIXED32 | SFIXED64 | SINT32 | SINT64

text \<open>What a field, an element of a list or a value of a map holds.\<close>

datatype elem = Scalar scalar | Enum | Message string

datatype field_kind = Single elem | List elem | Map elem

record desc_field =
  fd_name :: string
  fd_jsonName :: string
  fd_localName :: string
  fd_kind :: field_kind
  fd_oneof :: "string option" \<comment> \<open>local name of its group\<close>

record desc_message =
  dm_typeName :: string
  dm_fields :: "desc_field list"
  dm_oneofs :: "string list"

definition fieldMessage :: "desc_field \<Rightarrow> string option" where
  "fieldMessage f = (case fd_kind f of
     Single (Message t) \<Rightarrow> Some t | List (Message t) \<Rightarrow> Some t | Map (Message t) \<Rightarrow> Some t | _ \<Rightarrow> None)"

section \<open>The alias plan\<close>

record alias_plan =
  aliases :: "(string \<times> desc_field) list"
  nested :: "(string \<times> desc_field) list"
  groups :: "string list"

definition taken :: "desc_message \<Rightarrow> string list" where
  "taken d = [''$typeName'', ''$unknown''] @ map fd_localName (dm_fields d) @ dm_oneofs d"

text \<open>\<open>claims.set(name, [...(claims.get(name) ?? []), field])\<close>.\<close>

definition claim :: "desc_message \<Rightarrow> desc_field \<Rightarrow> (string \<times> desc_field list) list \<Rightarrow> string \<Rightarrow> (string \<times> desc_field list) list" where
  "claim d f claims name = (if name \<notin> set (taken d) \<and> name \<notin> set object_prototype_names
     then set_key claims name ((case map_of claims name of Some fs \<Rightarrow> fs | None \<Rightarrow> []) @ [f]) else claims)"

definition field_names :: "desc_field \<Rightarrow> string list" where
  "field_names f = (if fd_name f = fd_jsonName f then [fd_name f] else [fd_name f, fd_jsonName f])"

definition claims_of :: "desc_message \<Rightarrow> (string \<times> desc_field list) list" where
  "claims_of d = foldl (\<lambda>claims f. foldl (claim d f) claims (field_names f)) [] (dm_fields d)"

definition single_claims :: "(string \<times> desc_field list) list \<Rightarrow> (string \<times> desc_field) list" where
  "single_claims claims = concat (map (\<lambda>(name, fs). case fs of [f] \<Rightarrow> [(name, f)] | _ \<Rightarrow> []) claims)"

definition aliasPlan :: "desc_message \<Rightarrow> alias_plan" where
  "aliasPlan d = (let holding = filter (\<lambda>f. fieldMessage f \<noteq> None) (dm_fields d)
     in \<lparr>aliases = single_claims (claims_of d),
         nested = from_entries (map (\<lambda>f. (fd_localName f, f)) (filter (\<lambda>f. fd_oneof f = None) holding)),
         groups = List.map_filter fd_oneof holding\<rparr>)"

section \<open>Fields of a message\<close>

type_synonym entries = "(string \<times> jsval) list"

definition own_keys :: "entries \<Rightarrow> string set" where
  "own_keys target = fst ` set target"

definition reflect_has :: "entries \<Rightarrow> string \<Rightarrow> bool" where
  "reflect_has target prop \<longleftrightarrow> prop \<in> own_keys target \<or> prop \<in> set object_prototype_names"

definition readField :: "entries \<Rightarrow> desc_field \<Rightarrow> jsval" where
  "readField target f = (case fd_oneof f of
     None \<Rightarrow> pget (JObj target) (fd_localName f)
   | Some g \<Rightarrow> let grp = pget (JObj target) g
       in if pget grp ''case'' = JStr (fd_localName f) then pget grp ''value'' else JUndef)"

definition writeField :: "entries \<Rightarrow> desc_field \<Rightarrow> jsval \<Rightarrow> entries" where
  "writeField target f v = (case fd_oneof f of
     None \<Rightarrow> set_key target (fd_localName f) v
   | Some g \<Rightarrow>
       if v \<noteq> JUndef then set_key target g (JObj [(''case'', JStr (fd_localName f)), (''value'', v)])
       else if pget (pget (JObj target) g) ''case'' = JStr (fd_localName f)
       then set_key target g (JObj [(''case'', JUndef)])
       else target)"

section \<open>Views\<close>

text \<open>
  What a read answers: a value as it is, a property inherited from \<open>Object.prototype\<close>, or a view: of a
  message with its descriptor, of a list or map whose elements are messages of a type, of a oneof
  group with the fields of its descriptor.
\<close>

datatype view =
  Raw jsval | Inherited string
| MessageView entries desc_message
| ElementsView jsval string
| GroupView jsval "desc_field list"

definition isMessage :: "jsval \<Rightarrow> bool" where
  "isMessage v = (case pget v ''$typeName'' of JStr _ \<Rightarrow> True | _ \<Rightarrow> False)"

definition is_object :: "jsval \<Rightarrow> bool" where
  "is_object v = (case v of JObj _ \<Rightarrow> True | JArr _ \<Rightarrow> True | _ \<Rightarrow> False)"

definition withProtoNameAliases :: "jsval \<Rightarrow> desc_message \<Rightarrow> view" where
  "withProtoNameAliases v d = (let plan = aliasPlan d in
     case v of
       JObj es \<Rightarrow> if \<not> isMessage v \<or> (aliases plan = [] \<and> nested plan = [] \<and> groups plan = []) then Raw v
                  else MessageView es d
     | _ \<Rightarrow> Raw v)"

definition reflect_get :: "entries \<Rightarrow> string \<Rightarrow> view" where
  "reflect_get target prop = (case map_of target prop of
     Some v \<Rightarrow> Raw v
   | None \<Rightarrow> if prop \<in> set object_prototype_names then Inherited prop else Raw JUndef)"

definition viewOfField :: "(string \<Rightarrow> desc_message) \<Rightarrow> jsval \<Rightarrow> desc_field \<Rightarrow> view" where
  "viewOfField descs v f = (case fieldMessage f of
     None \<Rightarrow> Raw v
   | Some ty \<Rightarrow> if \<not> is_object v then Raw v
       else (case fd_kind f of
           Single _ \<Rightarrow> withProtoNameAliases v (descs ty)
         | _ \<Rightarrow> ElementsView v ty))"

definition groupView :: "desc_message \<Rightarrow> jsval \<Rightarrow> string \<Rightarrow> view" where
  "groupView d grp g = (if is_object grp
     then GroupView grp (filter (\<lambda>f. fd_oneof f = Some g) (dm_fields d)) else Raw grp)"

text \<open>The traps of the three proxies; \<open>view_get\<close> of a raw object reads it without a view.\<close>

definition message_get :: "(string \<Rightarrow> desc_message) \<Rightarrow> entries \<Rightarrow> desc_message \<Rightarrow> string \<Rightarrow> view" where
  "message_get descs target d prop = (let plan = aliasPlan d in
     case (if reflect_has target prop then None else map_of (aliases plan) prop) of
       Some f \<Rightarrow> viewOfField descs (readField target f) f
     | None \<Rightarrow> (case reflect_get target prop of
           Raw v \<Rightarrow> (case map_of (nested plan) prop of
               Some f \<Rightarrow> viewOfField descs v f
             | None \<Rightarrow> if prop \<in> set (groups plan) then groupView d v prop else Raw v)
         | other \<Rightarrow> other))"

definition message_set :: "entries \<Rightarrow> desc_message \<Rightarrow> string \<Rightarrow> jsval \<Rightarrow> entries" where
  "message_set target d prop v =
     (case (if reflect_has target prop then None else map_of (aliases (aliasPlan d)) prop) of
       None \<Rightarrow> set_key target prop v
     | Some f \<Rightarrow> writeField target f v)"

definition message_has :: "entries \<Rightarrow> desc_message \<Rightarrow> string \<Rightarrow> bool" where
  "message_has target d prop \<longleftrightarrow> reflect_has target prop \<or> map_of (aliases (aliasPlan d)) prop \<noteq> None"

text \<open>A list has its indices as properties, in decimal.\<close>

definition own_get :: "jsval \<Rightarrow> string \<Rightarrow> jsval" where
  "own_get v prop = (case v of
     JArr vs \<Rightarrow> (if prop \<noteq> [] \<and> list_all is_digit prop \<and> nat_str (dec_val prop) = prop \<and> dec_val prop < length vs
       then vs ! dec_val prop else if prop = ''length'' then JInt (int (length vs)) else JUndef)
   | _ \<Rightarrow> pget v prop)"

definition elements_get :: "(string \<Rightarrow> desc_message) \<Rightarrow> jsval \<Rightarrow> string \<Rightarrow> string \<Rightarrow> view" where
  "elements_get descs container ty prop = withProtoNameAliases (own_get container prop) (descs ty)"

definition group_get :: "(string \<Rightarrow> desc_message) \<Rightarrow> jsval \<Rightarrow> desc_field list \<Rightarrow> string \<Rightarrow> view" where
  "group_get descs grp members prop = (let v = own_get grp prop in
     if prop \<noteq> ''value'' then Raw v
     else (case find (\<lambda>f. JStr (fd_localName f) = pget grp ''case'') members of
         None \<Rightarrow> Raw v
       | Some f \<Rightarrow> viewOfField descs v f))"

fun view_get :: "(string \<Rightarrow> desc_message) \<Rightarrow> view \<Rightarrow> string \<Rightarrow> view" where
  "view_get descs (MessageView es d) prop = message_get descs es d prop"
| "view_get descs (ElementsView v ty) prop = elements_get descs v ty prop"
| "view_get descs (GroupView v fs) prop = group_get descs v fs prop"
| "view_get descs (Raw v) prop = Raw (own_get v prop)"
| "view_get descs (Inherited p) prop = Raw JUndef"


section \<open>The alias plan, exactly\<close>

definition free_name :: "desc_message \<Rightarrow> string \<Rightarrow> bool" where
  "free_name d name \<longleftrightarrow> name \<notin> set (taken d) \<and> name \<notin> set object_prototype_names"

definition claimants :: "desc_message \<Rightarrow> string \<Rightarrow> desc_field list" where
  "claimants d name = filter (\<lambda>f. name = fd_name f \<or> name = fd_jsonName f) (dm_fields d)"

lemma map_of_claim_names:
  "map_of (foldl (claim d f) claims (field_names f)) name =
     (if free_name d name \<and> (name = fd_name f \<or> name = fd_jsonName f)
      then Some ((case map_of claims name of Some fs \<Rightarrow> fs | None \<Rightarrow> []) @ [f]) else map_of claims name)"
  by (auto simp: field_names_def claim_def free_name_def)

lemma map_of_claims_fold:
  "map_of (foldl (\<lambda>claims f. foldl (claim d f) claims (field_names f)) [] fs) name =
     (let cs = filter (\<lambda>f. name = fd_name f \<or> name = fd_jsonName f) fs
      in if free_name d name \<and> cs \<noteq> [] then Some cs else None)"
  by (induction fs rule: rev_induct) (auto simp: map_of_claim_names Let_def split: option.splits)

lemma map_of_claims:
  "map_of (claims_of d) name =
     (if free_name d name \<and> claimants d name \<noteq> [] then Some (claimants d name) else None)"
  by (simp add: claims_of_def map_of_claims_fold claimants_def Let_def)

lemma distinct_claim: "distinct (map fst cl) \<Longrightarrow> distinct (map fst (claim d f cl name))"
  by (simp add: claim_def distinct_set_key)

lemma distinct_claim_names: "distinct (map fst cl) \<Longrightarrow> distinct (map fst (foldl (claim d f) cl ns))"
  by (induction ns arbitrary: cl) (simp_all add: distinct_claim)

lemma distinct_claims_fold:
  "distinct (map fst (foldl (\<lambda>claims f. foldl (claim d f) claims (field_names f)) [] fs))"
  by (induction fs rule: rev_induct) (simp_all add: distinct_claim_names)

lemma map_of_single_claims:
  "distinct (map fst cl) \<Longrightarrow>
   map_of (single_claims cl) name = (case map_of cl name of Some [f] \<Rightarrow> Some f | _ \<Rightarrow> None)"
proof (induction cl)
  case (Cons c cl)
  obtain n fs where c: "c = (n, fs)" by (cases c)
  have "map_of cl n = None" using Cons.prems c by (auto simp: map_of_eq_None_iff)
  then show ?case
    using Cons c by (auto simp: single_claims_def map_add_def split: list.splits option.splits)
qed (simp add: single_claims_def)

lemma alias_iff:
  "map_of (aliases (aliasPlan d)) name = Some f \<longleftrightarrow> free_name d name \<and> claimants d name = [f]"
proof -
  have "distinct (map fst (claims_of d))" by (simp add: claims_of_def distinct_claims_fold)
  from map_of_single_claims [OF this]
  show ?thesis by (auto simp: aliasPlan_def Let_def map_of_claims split: option.splits list.splits)
qed

lemma alias_field: "map_of (aliases (aliasPlan d)) name = Some f \<Longrightarrow> f \<in> set (dm_fields d)"
  using alias_iff [of d name f] by (auto simp: claimants_def dest!: arg_cong [of _ _ set])

text \<open>
  What the protobuf library guarantees of a descriptor: the properties of its message (the local names
  of fields outside groups and of groups) differ, as do the local names of all fields, and a group
  named by a field is one of the message's.
\<close>

definition slot :: "desc_field \<Rightarrow> string" where
  "slot f = (case fd_oneof f of None \<Rightarrow> fd_localName f | Some g \<Rightarrow> g)"

definition well_formed :: "desc_message \<Rightarrow> bool" where
  "well_formed d \<longleftrightarrow> distinct (map fd_localName (dm_fields d)) \<and>
     (\<forall>f \<in> set (dm_fields d). fd_localName f \<notin> set (dm_oneofs d) \<and>
        (\<forall>g. fd_oneof f = Some g \<longrightarrow> g \<in> set (dm_oneofs d)))"

lemma slot_taken: "well_formed d \<Longrightarrow> f \<in> set (dm_fields d) \<Longrightarrow> slot f \<in> set (taken d)"
  by (auto simp: slot_def well_formed_def taken_def split: option.splits)

lemma same_slot:
  assumes "well_formed d" "f \<in> set (dm_fields d)" "h \<in> set (dm_fields d)" "slot f = slot h" "f \<noteq> h"
  shows "\<exists>g. fd_oneof f = Some g \<and> fd_oneof h = Some g"
proof -
  have "fd_localName f \<noteq> fd_localName h"
    using assms by (auto simp: well_formed_def distinct_map inj_on_def)
  then show ?thesis using assms(1-4) by (auto simp: slot_def well_formed_def split: option.splits)
qed

lemma local_names_differ:
  "well_formed d \<Longrightarrow> f \<in> set (dm_fields d) \<Longrightarrow> h \<in> set (dm_fields d) \<Longrightarrow> f \<noteq> h \<Longrightarrow> fd_localName f \<noteq> fd_localName h"
  by (auto simp: well_formed_def distinct_map inj_on_def)

section \<open>Writing and reading fields\<close>

lemma readField_written: "readField (writeField m f v) f = v"
  by (cases "fd_oneof f") (auto simp: readField_def writeField_def Let_def)

lemma writeField_changes_slot:
  "k \<noteq> slot f \<Longrightarrow> pget (JObj (writeField m f v)) k = pget (JObj m) k"
  by (cases "fd_oneof f") (simp_all add: writeField_def slot_def)

lemma readField_slot: "pget (JObj m) (slot h) = pget (JObj n) (slot h) \<Longrightarrow> readField m h = readField n h"
  by (cases "fd_oneof h") (simp_all add: readField_def slot_def)

lemma writeField_other_slot: "slot f \<noteq> slot h \<Longrightarrow> readField (writeField m f v) h = readField m h"
  by (rule readField_slot, rule writeField_changes_slot) simp

lemma writeField_same_group:
  assumes "fd_oneof f = Some g" "fd_oneof h = Some g" "fd_localName f \<noteq> fd_localName h"
  shows "readField (writeField m f v) h =
    (if v \<noteq> JUndef \<or> pget (pget (JObj m) g) ''case'' = JStr (fd_localName f) then JUndef else readField m h)"
  using assms by (auto simp: readField_def writeField_def Let_def)

lemma keys_writeField: "own_keys (writeField m f v) \<subseteq> insert (slot f) (own_keys m)"
  by (auto simp: own_keys_def writeField_def slot_def keys_set_key split: option.splits if_splits)


section \<open>The JSON Schema of a message\<close>

definition scalarJsonSchema :: "scalar \<Rightarrow> jsval" where
  "scalarJsonSchema ty = (case ty of
     DOUBLE \<Rightarrow> JObj [(''type'', JStr ''number'')] | FLOAT \<Rightarrow> JObj [(''type'', JStr ''number'')]
   | INT64 \<Rightarrow> JObj [(''oneOf'', JArr [JObj [(''type'', JStr ''integer'')], JObj [(''type'', JStr ''string'')]])]
   | UINT64 \<Rightarrow> JObj [(''oneOf'', JArr [JObj [(''type'', JStr ''integer'')], JObj [(''type'', JStr ''string'')]])]
   | FIXED64 \<Rightarrow> JObj [(''oneOf'', JArr [JObj [(''type'', JStr ''integer'')], JObj [(''type'', JStr ''string'')]])]
   | SFIXED64 \<Rightarrow> JObj [(''oneOf'', JArr [JObj [(''type'', JStr ''integer'')], JObj [(''type'', JStr ''string'')]])]
   | SINT64 \<Rightarrow> JObj [(''oneOf'', JArr [JObj [(''type'', JStr ''integer'')], JObj [(''type'', JStr ''string'')]])]
   | INT32 \<Rightarrow> JObj [(''type'', JStr ''integer'')] | UINT32 \<Rightarrow> JObj [(''type'', JStr ''integer'')]
   | FIXED32 \<Rightarrow> JObj [(''type'', JStr ''integer'')] | SFIXED32 \<Rightarrow> JObj [(''type'', JStr ''integer'')]
   | SINT32 \<Rightarrow> JObj [(''type'', JStr ''integer'')]
   | BOOL \<Rightarrow> JObj [(''type'', JStr ''boolean'')] | STRING \<Rightarrow> JObj [(''type'', JStr ''string'')]
   | BYTES \<Rightarrow> JObj [(''type'', JStr ''string''), (''contentEncoding'', JStr ''base64'')])"

definition normalizeTypeName :: "string \<Rightarrow> string" where
  "normalizeTypeName v = (if starts_with v ''.'' then tl v else v)"

definition wellKnownTypeJsonSchema :: "string \<Rightarrow> jsval option" where
  "wellKnownTypeJsonSchema typeName = map_of
    [(''google.protobuf.Timestamp'', JObj [(''type'', JStr ''string''), (''format'', JStr ''date-time'')]),
     (''google.protobuf.Duration'', JObj [(''type'', JStr ''string'')]),
     (''google.protobuf.FieldMask'', JObj [(''type'', JStr ''string'')]),
     (''google.protobuf.DoubleValue'', JObj [(''type'', JStr ''number'')]),
     (''google.protobuf.FloatValue'', JObj [(''type'', JStr ''number'')]),
     (''google.protobuf.Int64Value'', JObj [(''type'', JStr ''string'')]),
     (''google.protobuf.UInt64Value'', JObj [(''type'', JStr ''string'')]),
     (''google.protobuf.Int32Value'', JObj [(''type'', JStr ''integer'')]),
     (''google.protobuf.UInt32Value'', JObj [(''type'', JStr ''integer'')]),
     (''google.protobuf.BoolValue'', JObj [(''type'', JStr ''boolean'')]),
     (''google.protobuf.StringValue'', JObj [(''type'', JStr ''string'')]),
     (''google.protobuf.BytesValue'', JObj [(''type'', JStr ''string''), (''contentEncoding'', JStr ''base64'')]),
     (''google.protobuf.Value'', JObj [(''description'', JStr ''Arbitrary JSON value'')]),
     (''google.protobuf.Struct'', JObj [(''type'', JStr ''object''),
        (''description'', JStr ''Arbitrary JSON object''), (''additionalProperties'', JBool True)]),
     (''google.protobuf.ListValue'', JObj [(''type'', JStr ''array''), (''description'', JStr ''Arbitrary JSON array'')])]
    (normalizeTypeName typeName)"

text \<open>A list's elements, a map's values and a single field share the cases.\<close>

definition elemJsonSchema :: "elem \<Rightarrow> jsval" where
  "elemJsonSchema e = (case e of
     Scalar ty \<Rightarrow> scalarJsonSchema ty
   | Enum \<Rightarrow> JObj [(''type'', JStr ''string'')]
   | Message ty \<Rightarrow> (case wellKnownTypeJsonSchema ty of
        Some s \<Rightarrow> s | None \<Rightarrow> JObj [(''type'', JStr ''object'')]))"

definition fieldJsonSchema :: "desc_field \<Rightarrow> jsval" where
  "fieldJsonSchema f = (case fd_kind f of
     Map e \<Rightarrow> JObj [(''type'', JStr ''object''), (''additionalProperties'', elemJsonSchema e)]
   | List e \<Rightarrow> JObj [(''type'', JStr ''array''), (''items'', elemJsonSchema e)]
   | Single e \<Rightarrow> elemJsonSchema e)"

definition messageJsonSchema :: "desc_message \<Rightarrow> string \<Rightarrow> jsval" where
  "messageJsonSchema d title = JObj [(''$schema'', JStr ''https://json-schema.org/draft/2020-12/schema''),
     (''title'', JStr title), (''type'', JStr ''object''),
     (''properties'', JObj (from_entries (map (\<lambda>f. (fd_jsonName f, fieldJsonSchema f)) (dm_fields d)))),
     (''additionalProperties'', JBool False)]"

section \<open>Values to messages\<close>

text \<open>The protobuf library: \<open>create\<close>, \<open>fromJson\<close>, which may throw, and \<open>toJson\<close>.\<close>

record protobuf =
  pb_create :: "desc_message \<Rightarrow> jsval option \<Rightarrow> jsval"
  pb_fromJson :: "desc_message \<Rightarrow> jsval \<Rightarrow> string + jsval"
  pb_toJson :: "desc_message \<Rightarrow> jsval \<Rightarrow> jsval"

definition messageFromRuntimeValue :: "protobuf \<Rightarrow> desc_message \<Rightarrow> jsval \<Rightarrow> jsval" where
  "messageFromRuntimeValue pb d v = (if \<not> is_obj v then pb_create pb d None
     else (case pb_fromJson pb d v of Inr m \<Rightarrow> m | Inl _ \<Rightarrow> pb_create pb d (Some v)))"

definition protobufMessageToProtoJson :: "protobuf \<Rightarrow> jsval \<Rightarrow> desc_message \<Rightarrow> jsval" where
  "protobufMessageToProtoJson pb v d =
     pb_toJson pb d (if isMessage v then v else messageFromRuntimeValue pb d v)"

definition decodeRequestJson :: "protobuf \<Rightarrow> jsval \<Rightarrow> desc_message \<Rightarrow> string + view" where
  "decodeRequestJson pb v d = bindE (pb_fromJson pb d v) (\<lambda>m. Inr (withProtoNameAliases m d))"

section \<open>Properties\<close>

lemma free_name_not_special: "free_name d a \<Longrightarrow> a \<notin> set object_prototype_names" "free_name d a \<Longrightarrow> a \<notin> set (taken d)"
  by (simp_all add: free_name_def)

lemma alias_resolves:
  "map_of (aliases (aliasPlan d)) a = Some f \<Longrightarrow> a \<notin> own_keys m \<Longrightarrow> message_get descs m d a = viewOfField descs (readField m f) f"
  using alias_iff [of d a f] by (simp add: message_get_def Let_def reflect_has_def free_name_def)

lemma alias_written:
  "map_of (aliases (aliasPlan d)) a = Some f \<Longrightarrow> a \<notin> own_keys m \<Longrightarrow> message_set m d a v = writeField m f v"
  using alias_iff [of d a f] by (simp add: message_set_def Let_def reflect_has_def free_name_def)

lemma alias_write_read_facts:
  assumes "well_formed d" and "map_of (aliases (aliasPlan d)) a = Some f" and "a \<notin> own_keys m"
  shows "message_get descs (message_set m d a v) d a = viewOfField descs v f"
    and "h \<in> set (dm_fields d) \<Longrightarrow> h \<noteq> f \<Longrightarrow> fd_oneof f = None \<or> fd_oneof h \<noteq> fd_oneof f \<Longrightarrow>
      readField (message_set m d a v) h = readField m h"
    and "h \<in> set (dm_fields d) \<Longrightarrow> h \<noteq> f \<Longrightarrow> fd_oneof f = Some g \<Longrightarrow> fd_oneof h = Some g \<Longrightarrow> v \<noteq> JUndef \<Longrightarrow>
      readField (message_set m d a v) h = JUndef"
    and "fd_oneof f = Some g \<Longrightarrow> pget (pget (JObj m) g) ''case'' \<noteq> JStr (fd_localName f) \<Longrightarrow>
      message_set m d a JUndef = m"
proof -
  have f: "f \<in> set (dm_fields d)" using assms(2) by (rule alias_field)
  have "free_name d a" using assms(2) by (simp add: alias_iff)
  then have "a \<noteq> slot f" using slot_taken [OF assms(1) f] by (auto simp: free_name_def)
  then have "a \<notin> own_keys (writeField m f v)" using keys_writeField [of m f v] assms(3) by auto
  from alias_resolves [OF assms(2) this] show "message_get descs (message_set m d a v) d a = viewOfField descs v f"
    by (simp add: alias_written [OF assms(2,3)] readField_written)
  show "readField (message_set m d a v) h = readField m h"
    if h: "h \<in> set (dm_fields d)" "h \<noteq> f" "fd_oneof f = None \<or> fd_oneof h \<noteq> fd_oneof f"
  proof -
    have "slot f \<noteq> slot h" using same_slot [OF assms(1) f h(1)] h(2,3) by force
    then show ?thesis by (simp add: alias_written [OF assms(2,3)] writeField_other_slot)
  qed
  show "readField (message_set m d a v) h = JUndef"
    if "h \<in> set (dm_fields d)" "h \<noteq> f" "fd_oneof f = Some g" "fd_oneof h = Some g" "v \<noteq> JUndef"
    using writeField_same_group [of f g h m v] local_names_differ [OF assms(1) f that(1)] that
    by (simp add: alias_written [OF assms(2,3)])
  show "message_set m d a JUndef = m"
    if "fd_oneof f = Some g" "pget (pget (JObj m) g) ''case'' \<noteq> JStr (fd_localName f)"
    unfolding alias_written [OF assms(2,3)] using that by (simp add: writeField_def del: pget_obj)
qed

text \<open>A message with a plain field, two members of a group and a name that two fields claim.\<close>

definition sample_message :: desc_message where
  "sample_message = \<lparr>dm_typeName = ''t.M'', dm_fields = [
     \<lparr>fd_name = ''project_id'', fd_jsonName = ''projectId'', fd_localName = ''projectId'', fd_kind = Single (Scalar STRING), fd_oneof = None\<rparr>,
     \<lparr>fd_name = ''by_name'', fd_jsonName = ''byName'', fd_localName = ''byName'', fd_kind = Single (Scalar STRING), fd_oneof = Some ''key''\<rparr>,
     \<lparr>fd_name = ''by_id'', fd_jsonName = ''byId'', fd_localName = ''byId'', fd_kind = Single (Message ''t.Id''), fd_oneof = Some ''key''\<rparr>,
     \<lparr>fd_name = ''x_y'', fd_jsonName = ''z_z'', fd_localName = ''xY'', fd_kind = Single (Scalar STRING), fd_oneof = None\<rparr>,
     \<lparr>fd_name = ''z_z'', fd_jsonName = ''zZ'', fd_localName = ''zZ'', fd_kind = Single (Scalar STRING), fd_oneof = None\<rparr>],
     dm_oneofs = [''key'']\<rparr>"

text \<open>Fields written through an alias read back. When a name is the alias of a field of a message
and not a property of it, assigning the name writes that field: reading the name again gives the value
(as a view, when it holds messages), every other field keeps its value, except that setting a member of a
oneof group clears the other members; and clearing a member that is not the current case of its group
leaves the message as it was.\<close>
lemma alias_write_read:
  assumes "well_formed d" and "map_of (aliases (aliasPlan d)) a = Some f" and "a \<notin> own_keys m"
  shows "message_get descs (message_set m d a v) d a = viewOfField descs v f \<and>
    (\<forall>h \<in> set (dm_fields d). h \<noteq> f \<longrightarrow>
      (fd_oneof f = None \<or> fd_oneof h \<noteq> fd_oneof f \<longrightarrow> readField (message_set m d a v) h = readField m h) \<and>
      (fd_oneof f \<noteq> None \<and> fd_oneof h = fd_oneof f \<and> v \<noteq> JUndef \<longrightarrow> readField (message_set m d a v) h = JUndef)) \<and>
    (\<forall>g. fd_oneof f = Some g \<and> pget (pget (JObj m) g) ''case'' \<noteq> JStr (fd_localName f) \<longrightarrow>
      message_set m d a JUndef = m)"
  using alias_write_read_facts [OF assms] by (metis not_None_eq)

lemma alias_write_read_example:
  "message_get (\<lambda>_. sample_message) (message_set [(''$typeName'', JStr ''t.M'')] sample_message ''project_id'' (JStr ''p''))
     sample_message ''project_id'' = Raw (JStr ''p'')"
proof -
  let ?f = "hd (dm_fields sample_message)"
  have "well_formed sample_message" by (simp add: well_formed_def sample_message_def)
  moreover have "map_of (aliases (aliasPlan sample_message)) ''project_id'' = Some ?f"
    unfolding alias_iff by (simp add: free_name_def taken_def object_prototype_names_def claimants_def sample_message_def)
  moreover have "''project_id'' \<notin> own_keys [(''$typeName'', JStr ''t.M'')]" by (simp add: own_keys_def)
  ultimately have "message_get (\<lambda>_. sample_message) (message_set [(''$typeName'', JStr ''t.M'')] sample_message ''project_id'' (JStr ''p''))
     sample_message ''project_id'' = viewOfField (\<lambda>_. sample_message) (JStr ''p'') ?f"
    by (rule alias_write_read [THEN conjunct1])
  then show ?thesis by (simp add: viewOfField_def fieldMessage_def sample_message_def)
qed

lemma alias_hides_nothing_facts:
  shows "map_of (aliases (aliasPlan d)) name = Some f \<longleftrightarrow>
      name \<notin> set (taken d) \<and> name \<notin> set object_prototype_names \<and>
      filter (\<lambda>h. name = fd_name h \<or> name = fd_jsonName h) (dm_fields d) = [f]"
    and "map_of m name = Some v \<Longrightarrow> message_get descs m d name =
      (case map_of (nested (aliasPlan d)) name of
         Some h \<Rightarrow> viewOfField descs v h
       | None \<Rightarrow> if name \<in> set (groups (aliasPlan d)) then groupView d v name else Raw v)"
    and "message_has m d name \<longleftrightarrow> name \<in> own_keys m \<or> name \<in> set object_prototype_names \<or>
      map_of (aliases (aliasPlan d)) name \<noteq> None"
proof -
  show "map_of (aliases (aliasPlan d)) name = Some f \<longleftrightarrow>
      name \<notin> set (taken d) \<and> name \<notin> set object_prototype_names \<and>
      filter (\<lambda>h. name = fd_name h \<or> name = fd_jsonName h) (dm_fields d) = [f]"
    by (simp add: alias_iff free_name_def claimants_def)
  show "message_get descs m d name = (case map_of (nested (aliasPlan d)) name of
         Some h \<Rightarrow> viewOfField descs v h
       | None \<Rightarrow> if name \<in> set (groups (aliasPlan d)) then groupView d v name else Raw v)"
    if "map_of m name = Some v"
  proof -
    have "reflect_has m name" using map_of_SomeD [OF that] by (force simp: reflect_has_def own_keys_def)
    with that show ?thesis by (simp add: message_get_def Let_def reflect_get_def)
  qed
  show "message_has m d name \<longleftrightarrow> name \<in> own_keys m \<or> name \<in> set object_prototype_names \<or>
      map_of (aliases (aliasPlan d)) name \<noteq> None"
    by (auto simp: message_has_def reflect_has_def)
qed



lemma schema_has_every_field:
  assumes "distinct (map fd_jsonName (dm_fields d))" "f \<in> set (dm_fields d)"
  shows "pget (pget (messageJsonSchema d title) ''properties'') (fd_jsonName f) = fieldJsonSchema f"
proof -
  have "map_of (rev (map (\<lambda>f. (fd_jsonName f, fieldJsonSchema f)) (dm_fields d))) (fd_jsonName f) = Some (fieldJsonSchema f)"
    using assms by (intro map_of_is_SomeI) (auto simp: rev_map [symmetric] comp_def)
  then show ?thesis by (simp add: messageJsonSchema_def map_of_from_entries)
qed

end
