(* ===== verification/SdkSource.thy ===== *)
theory SdkSource
  imports NodeFS JS_Values
begin

text \<open>
  Where a service process of the SDK takes its configuration, secret and request from (the second half
  of src/sdk/src/cli.ts): files, inline JSON, a file descriptor, the variable OCTOBUS_SERVICE_CONTEXT
  and a .env file. The world of a call holds the file system, the open descriptors, the environment
  and \<open>JSON.parse\<close>; errors carry whether they are a \<open>CliInputError\<close>, which is reported with its
  status, or any other error.
\<close>

record world =
  fs :: node
  fds :: "nat \<Rightarrow> string + string" \<comment> \<open>reading a descriptor to its end\<close>
  env :: "string \<Rightarrow> string option"
  parse :: "string \<Rightarrow> string + jsval"

datatype source_error = CliInput nat string | Other string

definition input_error :: "string \<Rightarrow> source_error" where
  "input_error message = CliInput 3 message"

section \<open>JSON sources\<close>

definition parseJsonSource :: "world \<Rightarrow> string \<Rightarrow> string \<Rightarrow> source_error + jsval" where
  "parseJsonSource w raw source = (case parse w raw of
     Inr v \<Rightarrow> Inr v
   | Inl message \<Rightarrow> Inl (input_error (source @ '' is not valid JSON: '' @ message)))"

text \<open>An empty path counts as none; a failed read throws node's error.\<close>

definition readJSONSource :: "world \<Rightarrow> string option \<Rightarrow> string option \<Rightarrow> string \<Rightarrow> jsval \<Rightarrow> source_error + jsval" where
  "readJSONSource w filePath jsonValue workdir fallback = (case jsonValue of
     Some json \<Rightarrow> parseJsonSource w json ''inline JSON''
   | None \<Rightarrow> (case filePath of
       None \<Rightarrow> Inr fallback
     | Some p \<Rightarrow> if p = [] then Inr fallback
         else let resolved = (if is_absolute p then p else path_resolve workdir [p])
         in (case read_file (fs w) resolved of
             Inl message \<Rightarrow> Inl (Other message)
           | Inr raw \<Rightarrow> parseJsonSource w raw p)))"

text \<open>\<open>Number(text)\<close> as a descriptor.\<close>

definition descriptor :: "string \<Rightarrow> nat option" where
  "descriptor t = (case str_to_num t of
     Fin r \<Rightarrow> if of_int (floor r) = r \<and> 0 \<le> r then Some (nat (floor r)) else None | _ \<Rightarrow> None)"

definition readSecretSource ::
  "world \<Rightarrow> string option \<Rightarrow> string option \<Rightarrow> string option \<Rightarrow> string \<Rightarrow> jsval \<Rightarrow> source_error + jsval" where
  "readSecretSource w filePath jsonValue fdValue workdir fallback = (case fdValue of
     None \<Rightarrow> readJSONSource w filePath jsonValue workdir fallback
   | Some t \<Rightarrow>
       if filePath \<noteq> None \<or> jsonValue \<noteq> None
       then Inl (input_error ''--secret-fd is mutually exclusive with --secret and --secret-json'')
       else (case descriptor t of
           None \<Rightarrow> Inl (input_error ''--secret-fd must be a non-negative integer'')
         | Some fd \<Rightarrow> (case fds w fd of
               Inr raw \<Rightarrow> parseJsonSource w raw (''fd '' @ nat_str fd)
             | Inl message \<Rightarrow> Inl (input_error (''fd '' @ nat_str fd @ '' could not be read: '' @ message)))))"

section \<open>The service context\<close>

definition SERVICE_CONTEXT_ENV :: string where
  "SERVICE_CONTEXT_ENV = ''OCTOBUS_SERVICE_CONTEXT''"

text \<open>\<open>raw.split(/\r?\n/)\<close>.\<close>

definition split_lines :: "string \<Rightarrow> string list" where
  "split_lines raw = (let ls = split_on (CHR 0x0A) raw;
     cut = (\<lambda>l. if l \<noteq> [] \<and> last l = CHR 0x0D then butlast l else l)
     in map cut (butlast ls) @ [last ls])"

definition unquote :: "string \<Rightarrow> string" where
  "unquote v = (if 2 \<le> length v \<and> (hd v = CHR 0x27 \<and> last v = CHR 0x27 \<or> hd v = CHR 0x22 \<and> last v = CHR 0x22)
     then butlast (tl v) else v)"

text \<open>A line of a .env file: its key and value, unless it is blank, a comment or has no equals sign.\<close>

definition env_line :: "string \<Rightarrow> (string \<times> string) option" where
  "env_line line = (let t = trim line in
     if t = [] \<or> hd t = CHR ''#'' then None
     else (case index_of_char CHR ''='' t of
         None \<Rightarrow> None
       | Some i \<Rightarrow> Some (trim (take i t), unquote (trim (drop (Suc i) t)))))"

fun first_context :: "string list \<Rightarrow> string option" where
  "first_context [] = None"
| "first_context (l # ls) = (case env_line l of
     Some (k, v) \<Rightarrow> if k = SERVICE_CONTEXT_ENV then Some v else first_context ls
   | None \<Rightarrow> first_context ls)"

definition readServiceContextEnvFile :: "world \<Rightarrow> string \<Rightarrow> source_error + string option" where
  "readServiceContextEnvFile w cwd = (case stat (fs w) (path_join [cwd, ''.env'']) of
     None \<Rightarrow> Inr None
   | Some (Dir _) \<Rightarrow> Inr None
   | Some (File raw _) \<Rightarrow> Inr (first_context (split_lines raw)))"

record context_value =
  cv_config :: "jsval option"
  cv_secret :: "jsval option"

definition parseServiceContextEnv :: "world \<Rightarrow> string \<Rightarrow> source_error + context_value" where
  "parseServiceContextEnv w raw = (case parse w raw of
     Inl message \<Rightarrow> Inl (input_error (SERVICE_CONTEXT_ENV @ '' is not valid JSON: '' @ message))
   | Inr (JObj kvs) \<Rightarrow>
       (case find (\<lambda>kv. fst kv \<noteq> ''config'' \<and> fst kv \<noteq> ''secret'') kvs of
          Some (k, _) \<Rightarrow> Inl (input_error (SERVICE_CONTEXT_ENV @ '' contains unsupported field '' @ [CHR 0x22] @ k @ [CHR 0x22]))
        | None \<Rightarrow> Inr \<lparr>cv_config = map_of kvs ''config'', cv_secret = map_of kvs ''secret''\<rparr>)
   | Inr _ \<Rightarrow> Inl (input_error (SERVICE_CONTEXT_ENV @ '' must be a JSON object'')))"

definition loadServiceContextEnv :: "world \<Rightarrow> string \<Rightarrow> source_error + context_value" where
  "loadServiceContextEnv w cwd = bindE
     (case env w SERVICE_CONTEXT_ENV of
        Some t \<Rightarrow> if trim t \<noteq> [] then Inr (Some t) else readServiceContextEnvFile w cwd
      | None \<Rightarrow> readServiceContextEnvFile w cwd)
     (\<lambda>raw. case raw of
        Some t \<Rightarrow> if trim t = [] then Inr \<lparr>cv_config = None, cv_secret = None\<rparr> else parseServiceContextEnv w t
      | None \<Rightarrow> Inr \<lparr>cv_config = None, cv_secret = None\<rparr>)"

definition applyServiceContextEnv :: "world \<Rightarrow> string \<Rightarrow> jsval \<Rightarrow> jsval \<Rightarrow> source_error + jsval \<times> jsval" where
  "applyServiceContextEnv w cwd config secret = bindE (loadServiceContextEnv w cwd) (\<lambda>cv. Inr
     (case cv_config cv of Some c \<Rightarrow> c | None \<Rightarrow> config,
      case cv_secret cv of Some s \<Rightarrow> s | None \<Rightarrow> secret))"

section \<open>Requests of the service CLI\<close>

definition parseCliJson :: "world \<Rightarrow> string \<Rightarrow> string \<Rightarrow> source_error + jsval" where
  "parseCliJson w raw source = (case parse w raw of
     Inr v \<Rightarrow> Inr v
   | Inl message \<Rightarrow> Inl (input_error (source @ '' is not valid JSON: '' @ message)))"

definition readCliRequest :: "world \<Rightarrow> string \<Rightarrow> string option \<Rightarrow> string option \<Rightarrow> string \<Rightarrow> source_error + jsval" where
  "readCliRequest w stdin filePath jsonValue workdir = (case jsonValue of
     Some json \<Rightarrow> parseCliJson w json ''--data-json''
   | None \<Rightarrow> if filePath = Some ''-'' then parseCliJson w stdin ''--data''
       else readJSONSource w filePath None workdir (JObj []))"


section \<open>Lemmas\<close>

text \<open>An empty descriptor is descriptor 0, the standard input.\<close>

lemma empty_descriptor: "descriptor [] = Some 0"
  by (simp add: descriptor_def str_to_num_def trim_def trim_start_def trim_end_def)

lemma trim_ends: "s \<noteq> [] \<Longrightarrow> \<not> is_ws (hd s) \<Longrightarrow> \<not> is_ws (last s) \<Longrightarrow> trim s = s"
proof -
  assume s: "s \<noteq> []" "\<not> is_ws (hd s)" "\<not> is_ws (last s)"
  have "dropWhile is_ws xs = xs" if "xs \<noteq> []" "\<not> is_ws (hd xs)" for xs using that by (cases xs) auto
  from this [of s] this [of "rev s"] s show "trim s = s"
    by (simp add: trim_def trim_start_def trim_end_def hd_rev)
qed

lemma ws_chars: "\<not> is_ws (CHR 0x27)" "\<not> is_ws (CHR 0x22)" "\<not> is_ws (CHR ''O'')" "\<not> is_ws (CHR ''T'')"
  by (simp_all add: is_ws_def code_of_def)

lemma index_of_char_append: "c \<notin> set k \<Longrightarrow> index_of_char c (k @ c # v) = Some (length k)"
  by (induction k) auto

lemma unquote_quoted: "q = CHR 0x27 \<or> q = CHR 0x22 \<Longrightarrow> unquote (q # v @ [q]) = v"
  by (auto simp: unquote_def)

text \<open>A line that assigns a quoted text is read as that text.\<close>

lemma env_line_quoted:
  assumes q: "q = CHR 0x27 \<or> q = CHR 0x22"
  shows "env_line (SERVICE_CONTEXT_ENV @ ''='' @ q # v @ [q]) = Some (SERVICE_CONTEXT_ENV, v)"
proof -
  let ?val = "q # v @ [q]" and ?line = "SERVICE_CONTEXT_ENV @ CHR ''='' # q # v @ [q]"
  have ends: "\<not> is_ws q" using q ws_chars by auto
  have "hd ?line = CHR ''O''" "last ?line = q" by (simp_all add: SERVICE_CONTEXT_ENV_def)
  then have line: "trim ?line = ?line" using ends ws_chars by (intro trim_ends) (auto simp: SERVICE_CONTEXT_ENV_def)
  have "CHR ''='' \<notin> set SERVICE_CONTEXT_ENV" by (simp add: SERVICE_CONTEXT_ENV_def)
  then have i: "index_of_char CHR ''='' ?line = Some (length SERVICE_CONTEXT_ENV)" by (rule index_of_char_append)
  have "hd ?val = q" "last ?val = q" by simp_all
  then have val: "trim ?val = ?val" using ends by (intro trim_ends) auto
  have key: "trim SERVICE_CONTEXT_ENV = SERVICE_CONTEXT_ENV"
    using ws_chars by (intro trim_ends) (simp_all add: SERVICE_CONTEXT_ENV_def)
  have "?line \<noteq> []" "hd ?line \<noteq> CHR ''#''" by (simp_all add: SERVICE_CONTEXT_ENV_def)
  then show ?thesis
    using line i val key unquote_quoted [OF q, of v] by (simp add: env_line_def Let_def)
qed

lemma first_context_skip:
  "(\<And>l. l \<in> set ls \<Longrightarrow> \<forall>v. env_line l \<noteq> Some (SERVICE_CONTEXT_ENV, v)) \<Longrightarrow>
   first_context (ls @ ms) = first_context ms"
  by (induction ls) (auto split: option.splits)

lemma split_lines_join:
  assumes "ls \<noteq> []" and "\<And>l. l \<in> set ls \<Longrightarrow> CHR 0x0A \<notin> set l \<and> CHR 0x0D \<notin> set l"
  shows "split_lines (join [CHR 0x0A] ls) = ls"
proof -
  have "map (\<lambda>l. if l \<noteq> [] \<and> last l = CHR 0x0D then butlast l else l) (butlast ls) = butlast ls"
    using assms(2) by (intro map_idI) (metis in_set_butlastD last_in_set)
  with assms show ?thesis by (simp add: split_lines_def split_on_join Let_def)
qed

lemma parse_context_fields:
  assumes "parseServiceContextEnv w t = Inr cv"
  shows "\<exists>kvs. parse w t = Inr (JObj kvs) \<and> (\<forall>kv \<in> set kvs. fst kv \<in> {''config'', ''secret''}) \<and>
    cv = \<lparr>cv_config = map_of kvs ''config'', cv_secret = map_of kvs ''secret''\<rparr>"
  using assms
  by (auto simp: parseServiceContextEnv_def find_None_iff split: sum.splits jsval.splits option.splits)

section \<open>Properties\<close>

definition overridden :: "'a option \<Rightarrow> 'a \<Rightarrow> 'a" where
  "overridden x y = (case x of Some v \<Rightarrow> v | None \<Rightarrow> y)"

text \<open>C33: The service context wins over the command line, field by field. With the variable set to a
text that is not blank, the .env file is not read; the text must be a JSON object with no fields but
config and secret, and each one that is present replaces the value of the command line, the other value
being kept. Without the variable, the first line of .env that assigns it, with the text in quotes, is
used in its place.\<close>
theorem service_context_wins:
  "(env w SERVICE_CONTEXT_ENV = Some t \<and> trim t \<noteq> [] \<longrightarrow>
     (applyServiceContextEnv w cwd config secret = Inr (c, s) \<longleftrightarrow>
      (\<exists>kvs. parse w t = Inr (JObj kvs) \<and> (\<forall>kv \<in> set kvs. fst kv \<in> {''config'', ''secret''}) \<and>
         c = overridden (map_of kvs ''config'') config \<and> s = overridden (map_of kvs ''secret'') secret))) \<and>
   (env w SERVICE_CONTEXT_ENV = None \<and>
    stat (fs w) (path_join [cwd, ''.env'']) =
      Some (File (join [CHR 0x0A] (ls @ [SERVICE_CONTEXT_ENV @ ''='' @ CHR 0x27 # t @ [CHR 0x27]] @ ms)) m) \<and>
    (\<forall>l \<in> set (ls @ [t] @ ms). CHR 0x0A \<notin> set l \<and> CHR 0x0D \<notin> set l) \<and>
    (\<forall>l \<in> set ls. \<forall>v. env_line l \<noteq> Some (SERVICE_CONTEXT_ENV, v)) \<and> trim t \<noteq> [] \<longrightarrow>
      applyServiceContextEnv w cwd config secret =
      applyServiceContextEnv (w\<lparr>env := (\<lambda>_. Some t)\<rparr>) cwd config secret)"
proof (intro conjI impI)
  have fields: "applyServiceContextEnv w cwd config secret = Inr (c, s) \<longleftrightarrow>
      (\<exists>kvs. parse w t = Inr (JObj kvs) \<and> (\<forall>kv \<in> set kvs. fst kv \<in> {''config'', ''secret''}) \<and>
         c = overridden (map_of kvs ''config'') config \<and> s = overridden (map_of kvs ''secret'') secret)"
    if ld: "loadServiceContextEnv w cwd = parseServiceContextEnv w t"
  proof
    assume "applyServiceContextEnv w cwd config secret = Inr (c, s)"
    then obtain cv where "parseServiceContextEnv w t = Inr cv"
      and "c = overridden (cv_config cv) config" "s = overridden (cv_secret cv) secret"
      by (auto simp: applyServiceContextEnv_def ld overridden_def)
    with parse_context_fields show "\<exists>kvs. parse w t = Inr (JObj kvs) \<and> (\<forall>kv \<in> set kvs. fst kv \<in> {''config'', ''secret''}) \<and>
         c = overridden (map_of kvs ''config'') config \<and> s = overridden (map_of kvs ''secret'') secret" by fastforce
  next
    assume "\<exists>kvs. parse w t = Inr (JObj kvs) \<and> (\<forall>kv \<in> set kvs. fst kv \<in> {''config'', ''secret''}) \<and>
         c = overridden (map_of kvs ''config'') config \<and> s = overridden (map_of kvs ''secret'') secret"
    then obtain kvs where k: "parse w t = Inr (JObj kvs)" "\<forall>kv \<in> set kvs. fst kv \<in> {''config'', ''secret''}"
      and cs: "c = overridden (map_of kvs ''config'') config" "s = overridden (map_of kvs ''secret'') secret" by blast
    then have "find (\<lambda>kv. fst kv \<noteq> ''config'' \<and> fst kv \<noteq> ''secret'') kvs = None"
      by (auto simp: find_None_iff)
    with k have "parseServiceContextEnv w t = Inr \<lparr>cv_config = map_of kvs ''config'', cv_secret = map_of kvs ''secret''\<rparr>"
      by (simp add: parseServiceContextEnv_def)
    with cs show "applyServiceContextEnv w cwd config secret = Inr (c, s)"
      by (simp add: applyServiceContextEnv_def ld overridden_def)
  qed
  assume "env w SERVICE_CONTEXT_ENV = Some t \<and> trim t \<noteq> []"
  then show "applyServiceContextEnv w cwd config secret = Inr (c, s) \<longleftrightarrow>
      (\<exists>kvs. parse w t = Inr (JObj kvs) \<and> (\<forall>kv \<in> set kvs. fst kv \<in> {''config'', ''secret''}) \<and>
         c = overridden (map_of kvs ''config'') config \<and> s = overridden (map_of kvs ''secret'') secret)"
    by (intro fields) (simp add: loadServiceContextEnv_def)
next
  assume a: "env w SERVICE_CONTEXT_ENV = None \<and>
    stat (fs w) (path_join [cwd, ''.env'']) =
      Some (File (join [CHR 0x0A] (ls @ [SERVICE_CONTEXT_ENV @ ''='' @ CHR 0x27 # t @ [CHR 0x27]] @ ms)) m) \<and>
    (\<forall>l \<in> set (ls @ [t] @ ms). CHR 0x0A \<notin> set l \<and> CHR 0x0D \<notin> set l) \<and>
    (\<forall>l \<in> set ls. \<forall>v. env_line l \<noteq> Some (SERVICE_CONTEXT_ENV, v)) \<and> trim t \<noteq> []"
  let ?line = "SERVICE_CONTEXT_ENV @ ''='' @ CHR 0x27 # t @ [CHR 0x27]"
  have "split_lines (join [CHR 0x0A] (ls @ [?line] @ ms)) = ls @ [?line] @ ms"
    using a by (intro split_lines_join) (auto simp: SERVICE_CONTEXT_ENV_def)
  moreover have "first_context (ls @ [?line] @ ms) = Some t"
    using a env_line_quoted [of "CHR 0x27" t] by (subst first_context_skip) auto
  ultimately have "readServiceContextEnvFile w cwd = Inr (Some t)"
    using a by (simp add: readServiceContextEnvFile_def)
  then show "applyServiceContextEnv w cwd config secret =
      applyServiceContextEnv (w\<lparr>env := (\<lambda>_. Some t)\<rparr>) cwd config secret"
    using a by (auto simp: applyServiceContextEnv_def loadServiceContextEnv_def parseServiceContextEnv_def)
qed

definition sample_world :: world where
  "sample_world = \<lparr>fs = Dir [], fds = (\<lambda>_. Inl ''EBADF''), env = (\<lambda>k. if k = SERVICE_CONTEXT_ENV then Some ''{}'' else None),
     parse = (\<lambda>t. Inr (JObj [(''secret'', JStr ''s'')]))\<rparr>"

theorem service_context_wins_witness:
  "applyServiceContextEnv sample_world ''/'' (JStr ''c'') JNull = Inr (JStr ''c'', JStr ''s'')"
  using service_context_wins [of sample_world "''{}''" "''/''" "JStr ''c''" JNull "JStr ''c''" "JStr ''s''"]
  by (simp add: sample_world_def overridden_def trim_def trim_start_def trim_end_def is_ws_def code_of_def)

end
