(* ===== verification/SdkServices.thy ===== *)
theory SdkServices
  imports SdkProtoJson
begin

text \<open>
  What the SDK's modules share about services: the gRPC definition made of a service descriptor
  (createGrpcServiceDefinition of src/sdk/src/proto-loader.ts), the methods discovered in it, method
  names and handlers. A descriptor comes from the protobuf library.
\<close>

datatype method_kind = Unary | ServerStreaming | ClientStreaming | BidiStreaming

record desc_method =
  dsm_name :: string
  dsm_localName :: string
  dsm_kind :: method_kind
  dsm_input :: desc_message
  dsm_output :: desc_message

record desc_service =
  dss_typeName :: string
  dss_methods :: "desc_method list"

record method_definition =
  md_path :: string
  md_requestStream :: bool
  md_responseStream :: bool
  md_originalName :: string
  md_requestType :: desc_message
  md_responseType :: desc_message

record grpc_service =
  gs_name :: string
  gs_definition :: "(string \<times> method_definition) list"

text \<open>The serializers of a definition are functions of its two types, see \<open>serializeMessage\<close>.\<close>

definition method_definition_of :: "desc_service \<Rightarrow> desc_method \<Rightarrow> method_definition" where
  "method_definition_of s m = \<lparr>
     md_path = ''/'' @ dss_typeName s @ ''/'' @ dsm_name m,
     md_requestStream = (dsm_kind m = ClientStreaming \<or> dsm_kind m = BidiStreaming),
     md_responseStream = (dsm_kind m = ServerStreaming \<or> dsm_kind m = BidiStreaming),
     md_originalName = dsm_localName m, md_requestType = dsm_input m, md_responseType = dsm_output m\<rparr>"

definition createGrpcServiceDefinition :: "desc_service \<Rightarrow> (string \<times> method_definition) list" where
  "createGrpcServiceDefinition s = from_entries (map (\<lambda>m. (dsm_name m, method_definition_of s m)) (dss_methods s))"

definition grpc_services :: "desc_service list \<Rightarrow> grpc_service list" where
  "grpc_services services = map (\<lambda>s. \<lparr>gs_name = dss_typeName s, gs_definition = createGrpcServiceDefinition s\<rparr>) services"

definition grpcMethodKind :: "bool \<Rightarrow> bool \<Rightarrow> method_kind" where
  "grpcMethodKind requestStream responseStream = (
     if requestStream \<and> responseStream then BidiStreaming
     else if requestStream then ClientStreaming
     else if responseStream then ServerStreaming
     else Unary)"

definition kind_of :: "method_definition \<Rightarrow> method_kind" where
  "kind_of d = grpcMethodKind (md_requestStream d) (md_responseStream d)"

definition full_name :: "string \<Rightarrow> string \<Rightarrow> string" where
  "full_name service m = service @ ''/'' @ m"

record stub_method =
  sm_serviceName :: string
  sm_methodName :: string
  sm_fullName :: string
  sm_kind :: method_kind

definition discoverMethods :: "grpc_service list \<Rightarrow> stub_method list" where
  "discoverMethods services = concat (map (\<lambda>s. map (\<lambda>(n, d).
     \<lparr>sm_serviceName = gs_name s, sm_methodName = n, sm_fullName = full_name (gs_name s) n, sm_kind = kind_of d\<rparr>)
     (gs_definition s)) services)"

text \<open>\<open>method.replace(/^\//, "")\<close>.\<close>

definition normalizeMethod :: "string \<Rightarrow> string" where
  "normalizeMethod m = (if starts_with m ''/'' then tl m else m)"

text \<open>\<open>handlers[method] ?? handlers["/" + method]\<close>.\<close>

definition findHandler :: "(string \<times> 'h) list \<Rightarrow> string \<Rightarrow> 'h option" where
  "findHandler handlers m = (case map_of handlers m of Some h \<Rightarrow> Some h | None \<Rightarrow> map_of handlers (CHR ''/'' # m))"

text \<open>The unary method a name stands for, split at its last slash.\<close>

definition split_last :: "char \<Rightarrow> string \<Rightarrow> (string \<times> string) option" where
  "split_last c s = (if c \<notin> set s then None
     else let after = rev (takeWhile (\<lambda>x. x \<noteq> c) (rev s)) in Some (take (length s - length after - 1) s, after))"

definition findUnaryMethodDefinition :: "grpc_service list \<Rightarrow> string \<Rightarrow> method_definition option" where
  "findUnaryMethodDefinition services m = (case split_last CHR ''/'' (normalizeMethod m) of
     None \<Rightarrow> None
   | Some (serviceName, methodName) \<Rightarrow> (case find (\<lambda>s. gs_name s = serviceName) services of
         None \<Rightarrow> None
       | Some s \<Rightarrow> (case map_of (gs_definition s) methodName of
             None \<Rightarrow> None
           | Some d \<Rightarrow> if md_requestStream d \<or> md_responseStream d then None else Some d)))"

text \<open>Names of commands: \<open>kebabCase\<close>.\<close>

fun kebab_humps :: "string \<Rightarrow> string" where
  "kebab_humps (x # y # s) = (if (is_lower x \<or> is_digit x) \<and> is_upper y then x # CHR ''-'' # y # kebab_humps s
     else x # kebab_humps (y # s))"
| "kebab_humps s = s"

definition kebab_gap :: "char \<Rightarrow> bool" where
  "kebab_gap c \<longleftrightarrow> c = CHR ''_'' \<or> is_ws c \<or> c = CHR ''.''"

fun kebab_gaps :: "bool \<Rightarrow> string \<Rightarrow> string" where
  "kebab_gaps inside [] = []"
| "kebab_gaps inside (c # s) = (if kebab_gap c then (if inside then [] else ''-'') @ kebab_gaps True s
     else c # kebab_gaps False s)"

definition kebabCase :: "string \<Rightarrow> string" where
  "kebabCase v = to_lower (kebab_gaps False (kebab_humps v))"

section \<open>Lemmas\<close>

lemma kind_of_definition: "kind_of (method_definition_of s m) = dsm_kind m"
  by (cases "dsm_kind m") (simp_all add: kind_of_def method_definition_of_def grpcMethodKind_def)

lemma definition_of_method:
  assumes "distinct (map dsm_name (dss_methods s))" and "m \<in> set (dss_methods s)"
  shows "map_of (createGrpcServiceDefinition s) (dsm_name m) = Some (method_definition_of s m)"
  unfolding createGrpcServiceDefinition_def map_of_from_entries
  using assms by (intro map_of_is_SomeI) (auto simp: rev_map [symmetric] comp_def)

lemma split_last_append: "c \<notin> set w \<Longrightarrow> split_last c (v @ c # w) = Some (v, w)"
proof -
  assume "c \<notin> set w"
  then have "takeWhile (\<lambda>x. x \<noteq> c) (rev w @ c # rev v) = rev w"
    by (subst takeWhile_append2) auto
  then show ?thesis by (simp add: split_last_def)
qed

text \<open>A method is found by its full name, with or without the leading slash.\<close>

lemma find_unary_method:
  assumes "find (\<lambda>s. gs_name s = gs_name svc) services = Some svc"
    and "map_of (gs_definition svc) n = Some d" and "CHR ''/'' \<notin> set n" and "gs_name svc \<noteq> []" "\<not> starts_with (gs_name svc) ''/''"
  shows "findUnaryMethodDefinition services (full_name (gs_name svc) n) = (if kind_of d = Unary then Some d else None)"
    and "findUnaryMethodDefinition services (CHR ''/'' # full_name (gs_name svc) n) = (if kind_of d = Unary then Some d else None)"
proof -
  have "\<not> starts_with (full_name (gs_name svc) n) ''/''"
    using assms(4,5) by (cases "gs_name svc") (auto simp: full_name_def)
  then have n: "normalizeMethod (full_name (gs_name svc) n) = full_name (gs_name svc) n"
    by (simp add: normalizeMethod_def)
  have s: "split_last CHR ''/'' (full_name (gs_name svc) n) = Some (gs_name svc, n)"
    using split_last_append [OF assms(3), of "gs_name svc"] by (simp add: full_name_def)
  have k: "md_requestStream d \<or> md_responseStream d \<longleftrightarrow> kind_of d \<noteq> Unary"
    by (auto simp: kind_of_def grpcMethodKind_def)
  show "findUnaryMethodDefinition services (CHR ''/'' # full_name (gs_name svc) n) = (if kind_of d = Unary then Some d else None)"
    using s assms(1,2) k by (simp add: findUnaryMethodDefinition_def normalizeMethod_def)
  show "findUnaryMethodDefinition services (full_name (gs_name svc) n) = (if kind_of d = Unary then Some d else None)"
    using s n assms(1,2) k by (simp add: findUnaryMethodDefinition_def)
qed

end
