(* ===== verification/SdkCli.thy ===== *)
theory SdkCli
  imports SdkSource SdkServices "HOL-Library.Multiset"
begin

text \<open>
  The command lines of the SDK (src/sdk/src/cli.ts): the subcommands of a service process and of
  octobus-sdk, and the service CLI with its table of commands. What commander makes of the arguments,
  a subcommand with its options, is an argument; the checks on the options are the code's own.
  A method definition is its name, its kind and its descriptors, as the proto loader makes them.
\<close>

section \<open>Options\<close>

type_synonym opts = "string \<Rightarrow> string option"

text \<open>A string option that is absent or empty is falsy.\<close>

definition given :: "string option \<Rightarrow> bool" where
  "given v \<longleftrightarrow> v \<noteq> None \<and> v \<noteq> Some []"

definition requireOneOf :: "string option \<Rightarrow> string option \<Rightarrow> string \<Rightarrow> string + unit" where
  "requireOneOf l r message = (if \<not> given l \<and> \<not> given r then Inl message else Inr ())"

definition rejectBoth :: "string option \<Rightarrow> string option \<Rightarrow> string \<Rightarrow> string + unit" where
  "rejectBoth l r message = (if given l \<and> given r then Inl message else Inr ())"

definition requiredString :: "string option \<Rightarrow> string \<Rightarrow> string + string" where
  "requiredString v message = (case v of Some s \<Rightarrow> if s \<noteq> [] then Inr s else Inl message | None \<Rightarrow> Inl message)"

definition parsePort :: "string \<Rightarrow> string + nat" where
  "parsePort raw = (case str_to_num raw of
     Fin r \<Rightarrow> if of_int (floor r) = r \<and> 0 \<le> r \<and> r \<le> 65535 then Inr (nat (floor r)) else Inl (''invalid --port: '' @ raw)
   | _ \<Rightarrow> Inl (''invalid --port: '' @ raw))"

section \<open>The subcommands of a service process\<close>

datatype schema_kind = ConfigSchema | SecretSchema

datatype transport = Connect | Grpc

record server_options =
  so_host :: string
  so_port :: nat
  so_config :: "string option"
  so_configJson :: "string option"
  so_secret :: "string option"
  so_secretJson :: "string option"
  so_secretFd :: "string option"
  so_workdir :: "string option"
  so_service :: "string option"
  so_instance :: "string option"

record invoke_options =
  io_method :: string
  io_config :: string
  io_secret :: "string option"
  io_secretFd :: "string option"
  io_metadata :: string
  io_workdir :: string
  io_service :: "string option"
  io_instance :: "string option"

datatype generation =
  ClientStub transport "string option"
| ClientPackage transport string string "string option" bool bool bool
  \<comment> \<open>name, directory, factory, force, bundle, publish\<close>

datatype cli_command =
  Serve server_options
| Dev server_options
| Invoke invoke_options
| Inspect bool "schema_kind option" \<comment> \<open>YAML, schema\<close>
| Cli "string list"
| Generate generation
| Help string

definition exclusive_sources :: "opts \<Rightarrow> string + unit" where
  "exclusive_sources o1 =
     bindE (rejectBoth (o1 ''config'') (o1 ''configJson'') ''--config and --config-json are mutually exclusive'') (\<lambda>_.
     bindE (rejectBoth (o1 ''secret'') (o1 ''secretJson'') ''--secret and --secret-json are mutually exclusive'') (\<lambda>_.
     bindE (rejectBoth (o1 ''secret'') (o1 ''secretFd'') ''--secret and --secret-fd are mutually exclusive'') (\<lambda>_.
     rejectBoth (o1 ''secretJson'') (o1 ''secretFd'') ''--secret-json and --secret-fd are mutually exclusive'')))"

definition server_options_of :: "opts \<Rightarrow> string \<Rightarrow> nat \<Rightarrow> server_options" where
  "server_options_of o1 host port = \<lparr>so_host = host, so_port = port, so_config = o1 ''config'',
     so_configJson = o1 ''configJson'', so_secret = o1 ''secret'', so_secretJson = o1 ''secretJson'',
     so_secretFd = o1 ''secretFd'', so_workdir = o1 ''workdir'', so_service = o1 ''service'', so_instance = o1 ''instance''\<rparr>"

definition serve_action :: "opts \<Rightarrow> string + cli_command" where
  "serve_action o1 =
     bindE (requireOneOf (o1 ''config'') (o1 ''configJson'') ''serve requires --config or --config-json'') (\<lambda>_.
     bindE (exclusive_sources o1) (\<lambda>_.
     bindE (requiredString (o1 ''host'') ''serve requires --host'') (\<lambda>host.
     bindE (requiredString (o1 ''port'') ''serve requires --port'') (\<lambda>raw.
     bindE (parsePort raw) (\<lambda>port. Inr (Serve (server_options_of o1 host port)))))))"

text \<open>\<open>??\<close> keeps an empty host; commander fills in both defaults before.\<close>

definition dev_action :: "opts \<Rightarrow> string + cli_command" where
  "dev_action o1 =
     bindE (exclusive_sources o1) (\<lambda>_.
     bindE (parsePort (case o1 ''port'' of Some p \<Rightarrow> p | None \<Rightarrow> ''50051'')) (\<lambda>port.
     Inr (Dev (server_options_of o1 (case o1 ''host'' of Some h \<Rightarrow> h | None \<Rightarrow> ''127.0.0.1'') port))))"

definition invoke_action :: "opts \<Rightarrow> string + cli_command" where
  "invoke_action o1 =
     bindE (rejectBoth (o1 ''secret'') (o1 ''secretFd'') ''--secret and --secret-fd are mutually exclusive'') (\<lambda>_.
     bindE (requiredString (o1 ''method'') ''invoke requires --method'') (\<lambda>m.
     bindE (requiredString (o1 ''config'') ''invoke requires --config'') (\<lambda>c.
     bindE (requiredString (o1 ''metadata'') ''invoke requires --metadata'') (\<lambda>md.
     bindE (requiredString (o1 ''workdir'') ''invoke requires --workdir'') (\<lambda>wd.
     Inr (Invoke \<lparr>io_method = m, io_config = c, io_secret = o1 ''secret'', io_secretFd = o1 ''secretFd'',
       io_metadata = md, io_workdir = wd, io_service = o1 ''service'', io_instance = o1 ''instance''\<rparr>))))))"

text \<open>A flag is present or absent.\<close>

definition flag :: "opts \<Rightarrow> string \<Rightarrow> bool" where
  "flag o1 k \<longleftrightarrow> o1 k \<noteq> None"

definition selectedSchemaKind :: "opts \<Rightarrow> schema_kind option" where
  "selectedSchemaKind o1 = (if flag o1 ''configSchema'' then Some ConfigSchema
     else if flag o1 ''secretSchema'' then Some SecretSchema else None)"

definition inspect_action :: "opts \<Rightarrow> string + cli_command" where
  "inspect_action o1 = (
     if flag o1 ''json'' \<and> flag o1 ''yaml'' then Inl ''--json and --yaml are mutually exclusive''
     else if flag o1 ''configSchema'' \<and> flag o1 ''secretSchema'' then Inl ''--config-schema and --secret-schema are mutually exclusive''
     else Inr (Inspect (flag o1 ''yaml'') (selectedSchemaKind o1)))"

definition transport_of :: "string \<Rightarrow> string \<Rightarrow> string + transport" where
  "transport_of field t = (if t = ''connect'' then Inr Connect else if t = ''grpc'' then Inr Grpc
     else Inl (field @ '' must be connect or grpc''))"

definition client_stub_action :: "opts \<Rightarrow> string + generation" where
  "client_stub_action o1 =
     bindE (requiredString (o1 ''transport'') ''client-stub requires --transport'') (\<lambda>t.
     bindE (transport_of ''client-stub --transport'' t) (\<lambda>tr. Inr (ClientStub tr (o1 ''factory''))))"

definition client_package_action :: "opts \<Rightarrow> string + generation" where
  "client_package_action o1 =
     bindE (requiredString (o1 ''transport'') ''client-package requires --transport'') (\<lambda>t.
     bindE (transport_of ''client-package --transport'' t) (\<lambda>tr.
     bindE (requiredString (o1 ''name'') ''client-package requires --name'') (\<lambda>name.
     bindE (requiredString (o1 ''out'') ''client-package requires --out'') (\<lambda>out.
     Inr (ClientPackage tr name out (o1 ''factory'') (flag o1 ''force'') (flag o1 ''bundleDeps'') (flag o1 ''publish''))))))"

text \<open>What commander does with the arguments: print help, fail, pick a subcommand, or nothing.\<close>

datatype commander = ShowHelp string | Fail string | Sub string opts "string list" | NoCommand

definition run_subcommand :: "string \<Rightarrow> opts \<Rightarrow> string list \<Rightarrow> string + cli_command" where
  "run_subcommand name o1 args = (
     if name = ''serve'' then serve_action o1
     else if name = ''invoke'' then invoke_action o1
     else if name = ''inspect'' then inspect_action o1
     else if name = ''cli'' then Inr (Cli args)
     else if name = ''dev'' then dev_action o1
     else if name = ''client-stub'' then bindE (client_stub_action o1) (\<lambda>g. Inr (Generate g))
     else bindE (client_package_action o1) (\<lambda>g. Inr (Generate g)))"

definition parseCliArgs :: "(string list \<Rightarrow> commander) \<Rightarrow> string list \<Rightarrow> string + cli_command" where
  "parseCliArgs comm argv = (
     if argv = [] \<or> hd argv \<noteq> ''--runtime'' then Inr (Cli argv)
     else (case comm (tl argv) of
         ShowHelp t \<Rightarrow> Inr (Help t)
       | Fail m \<Rightarrow> Inl m
       | Sub name o1 args \<Rightarrow> run_subcommand name o1 args
       | NoCommand \<Rightarrow> Inl ''expected subcommand: serve, invoke, inspect, dev, cli, client-stub, or client-package''))"

section \<open>The subcommands of octobus-sdk\<close>

datatype sdk_command =
  Validate bool
| SdkInspect bool "schema_kind option"
| Bootstrap string string string bool bool \<comment> \<open>name, directory, runtime mode, force, bundle\<close>
| SdkGenerate generation
| SdkHelp string

definition runtime_modes :: "string list" where
  "runtime_modes = [''on-demand'', ''long-running'']"

definition validateBootstrapRuntimeMode :: "string \<Rightarrow> string + unit" where
  "validateBootstrapRuntimeMode v = (if v \<in> set runtime_modes then Inr ()
     else Inl ''bootstrap --runtime-mode must be on-demand or long-running'')"

definition bootstrap_action :: "opts \<Rightarrow> string + sdk_command" where
  "bootstrap_action o1 =
     bindE (requiredString (o1 ''runtimeMode'') ''bootstrap requires --runtime-mode'') (\<lambda>mode.
     bindE (validateBootstrapRuntimeMode mode) (\<lambda>_.
     bindE (requiredString (o1 ''name'') ''bootstrap requires --name'') (\<lambda>name.
     bindE (requiredString (o1 ''out'') ''bootstrap requires --out'') (\<lambda>out.
     Inr (Bootstrap name out mode (flag o1 ''force'') (flag o1 ''bundleDeps''))))))"

definition sdk_subcommand :: "string \<Rightarrow> opts \<Rightarrow> string + sdk_command" where
  "sdk_subcommand name o1 = (
     if name = ''bootstrap'' then bootstrap_action o1
     else if name = ''validate'' then Inr (Validate (flag o1 ''strict''))
     else if name = ''inspect'' then bindE (inspect_action o1) (\<lambda>c. case c of Inspect y s \<Rightarrow> Inr (SdkInspect y s) | _ \<Rightarrow> Inl [])
     else if name = ''client-stub'' then bindE (client_stub_action o1) (\<lambda>g. Inr (SdkGenerate g))
     else bindE (client_package_action o1) (\<lambda>g. Inr (SdkGenerate g)))"

definition parseSdkCliArgs :: "(string list \<Rightarrow> commander) \<Rightarrow> string list \<Rightarrow> string + sdk_command" where
  "parseSdkCliArgs comm argv = (case comm argv of
     ShowHelp t \<Rightarrow> Inr (SdkHelp t)
   | Fail m \<Rightarrow> Inl m
   | Sub name o1 args \<Rightarrow> sdk_subcommand name o1
   | NoCommand \<Rightarrow> Inl ''expected subcommand: bootstrap, validate, inspect, client-stub, or client-package'')"


section \<open>The service CLI\<close>

record cli_args =
  ca_help :: bool
  ca_data :: "string option"
  ca_dataJson :: "string option"
  ca_config :: "string option"
  ca_configJson :: "string option"
  ca_secret :: "string option"
  ca_secretJson :: "string option"
  ca_metadata :: "string option"

definition no_args :: cli_args where
  "no_args = \<lparr>ca_help = False, ca_data = None, ca_dataJson = None, ca_config = None, ca_configJson = None,
     ca_secret = None, ca_secretJson = None, ca_metadata = None\<rparr>"

definition with_option :: "string \<Rightarrow> string \<Rightarrow> cli_args \<Rightarrow> cli_args option" where
  "with_option f v a = (
     if f = ''--data'' then Some (a\<lparr>ca_data := Some v\<rparr>)
     else if f = ''--data-json'' then Some (a\<lparr>ca_dataJson := Some v\<rparr>)
     else if f = ''--config'' then Some (a\<lparr>ca_config := Some v\<rparr>)
     else if f = ''--config-json'' then Some (a\<lparr>ca_configJson := Some v\<rparr>)
     else if f = ''--secret'' then Some (a\<lparr>ca_secret := Some v\<rparr>)
     else if f = ''--secret-json'' then Some (a\<lparr>ca_secretJson := Some v\<rparr>)
     else if f = ''--metadata'' then Some (a\<lparr>ca_metadata := Some v\<rparr>)
     else None)"

definition requiredArgValue :: "string list \<Rightarrow> string \<Rightarrow> string + string" where
  "requiredArgValue rest f = (case rest of
     [] \<Rightarrow> Inl (f @ '' requires a value'')
   | v # _ \<Rightarrow> if starts_with v ''--'' then Inl (f @ '' requires a value'') else Inr v)"

function cli_args_loop :: "string list \<Rightarrow> cli_args \<Rightarrow> string + cli_args" where
  "cli_args_loop [] a = Inr a"
| "cli_args_loop (f # rest) a = (
     if f = ''--help'' \<or> f = ''-h'' then cli_args_loop rest (a\<lparr>ca_help := True\<rparr>)
     else if with_option f [] a = None then Inl (''unknown service CLI option: '' @ f)
     else bindE (requiredArgValue rest f) (\<lambda>v. cli_args_loop (tl rest) (the (with_option f v a))))"
  by pat_completeness auto
termination by (relation "measure (\<lambda>(args, a). length args)") auto

definition parseServiceCliMethodArgs :: "string list \<Rightarrow> string + cli_args" where
  "parseServiceCliMethodArgs args = bindE (cli_args_loop args no_args) (\<lambda>a.
     bindE (rejectBoth (ca_data a) (ca_dataJson a) ''--data and --data-json are mutually exclusive'') (\<lambda>_.
     bindE (rejectBoth (ca_config a) (ca_configJson a) ''--config and --config-json are mutually exclusive'') (\<lambda>_.
     bindE (rejectBoth (ca_secret a) (ca_secretJson a) ''--secret and --secret-json are mutually exclusive'') (\<lambda>_.
     Inr a))))"

text \<open>\<open>validServiceCliExamples\<close>: the examples whose arguments are strings, with their description.\<close>

definition example_ok :: "jsval \<Rightarrow> bool" where
  "example_ok v = (case pget v ''argv'' of
     JArr as \<Rightarrow> list_all (\<lambda>a. case a of JStr _ \<Rightarrow> True | _ \<Rightarrow> False) as | _ \<Rightarrow> False)"

definition validServiceCliExamples :: "jsval \<Rightarrow> jsval list option" where
  "validServiceCliExamples v = (case v of
     JArr es \<Rightarrow> (let xs = map (\<lambda>e. JObj ((''argv'', pget e ''argv'') #
          (case pget e ''description'' of JStr d \<Rightarrow> [(''description'', JStr d)] | _ \<Rightarrow> []))) (filter example_ok es)
        in if xs \<noteq> [] then Some xs else None)
   | _ \<Rightarrow> None)"

record cli_method =
  cm_command :: string
  cm_method :: string
  cm_description :: jsval
  cm_definition :: method_definition
  cm_examples :: "jsval list option"

text \<open>\<open>metadata?.[m] ?? metadata?.["/" + m]\<close>, and its command name; \<open>trim\<close> of anything but a string throws.\<close>

definition command_metadata :: "jsval \<Rightarrow> string \<Rightarrow> jsval" where
  "command_metadata meta m = coalesce (pget meta m) (pget meta (CHR ''/'' # m))"

definition command_name :: "jsval \<Rightarrow> string \<Rightarrow> string + string" where
  "command_name meta n = (case pget meta ''name'' of
     JStr s \<Rightarrow> Inr (if trim s \<noteq> [] then trim s else kebabCase n)
   | JUndef \<Rightarrow> Inr (kebabCase n) | JNull \<Rightarrow> Inr (kebabCase n)
   | _ \<Rightarrow> Inl ''commandMetadata?.name?.trim is not a function'')"

text \<open>One method of one service, after the commands so far (\<open>byName\<close> holds theirs).\<close>

definition add_command :: "jsval \<Rightarrow> (string \<times> 'h) list \<Rightarrow> string \<Rightarrow> string \<times> method_definition \<Rightarrow>
    cli_method list \<Rightarrow> string + cli_method list" where
  "add_command metadata handlers service nd commands = (case nd of (n, d) \<Rightarrow>
     let m = full_name service n; meta = command_metadata metadata m in
     if md_requestStream d \<or> md_responseStream d \<or> findHandler handlers m = None then Inr commands
     else bindE (command_name meta n) (\<lambda>command. case find (\<lambda>c. cm_command c = command) commands of
         Some c \<Rightarrow> Inl (''service CLI command '' @ command @ '' maps to both '' @ cm_method c @ '' and '' @ m)
       | None \<Rightarrow> Inr (commands @ [\<lparr>cm_command = command, cm_method = m, cm_description = pget meta ''description'',
            cm_definition = d, cm_examples = validServiceCliExamples (pget meta ''examples'')\<rparr>])))"

fun add_commands :: "jsval \<Rightarrow> (string \<times> 'h) list \<Rightarrow> (string \<times> string \<times> method_definition) list \<Rightarrow>
    cli_method list \<Rightarrow> string + cli_method list" where
  "add_commands metadata handlers [] commands = Inr commands"
| "add_commands metadata handlers ((service, nd) # ms) commands =
     bindE (add_command metadata handlers service nd commands) (add_commands metadata handlers ms)"

definition all_methods :: "grpc_service list \<Rightarrow> (string \<times> string \<times> method_definition) list" where
  "all_methods services = concat (map (\<lambda>s. map (Pair (gs_name s)) (gs_definition s)) services)"

text \<open>The order is that of \<open>localeCompare\<close>: of the collation keys of the names, an argument.\<close>

definition buildServiceCliCommands ::
  "(string \<Rightarrow> 'k::linorder) \<Rightarrow> grpc_service list \<Rightarrow> jsval \<Rightarrow> (string \<times> 'h) list \<Rightarrow> string + cli_method list" where
  "buildServiceCliCommands collate services metadata handlers =
     bindE (add_commands metadata handlers (all_methods services) []) (\<lambda>cs.
     Inr (sort_key (\<lambda>c. collate (cm_command c)) cs))"

definition serviceCliMethodContract :: "cli_method \<Rightarrow> jsval" where
  "serviceCliMethodContract c = JObj [(''command'', JStr (cm_command c)), (''method'', JStr (cm_method c)),
     (''description'', coalesce (cm_description c) (JStr [])),
     (''input'', messageJsonSchema (md_requestType (cm_definition c)) (dm_typeName (md_requestType (cm_definition c)))),
     (''output'', messageJsonSchema (md_responseType (cm_definition c)) (dm_typeName (md_responseType (cm_definition c)))),
     (''examples'', case cm_examples c of
        Some (e # es) \<Rightarrow> JArr (e # es)
      | _ \<Rightarrow> JArr [JObj [(''argv'', JArr [JStr (cm_command c), JStr ''--data-json'', JStr ''{}''])]]),
     (''environment'', JObj [(SERVICE_CONTEXT_ENV, JObj [
        (''description'', JStr ''JSON object with optional config and secret fields. Also read from .env in the current directory.''),
        (''shape'', JObj [(''config'', JObj []), (''secret'', JObj [])]),
        (''precedence'', JStr ''environment value overrides matching --config* and --secret* CLI options'')])])]"

definition pad_end :: "nat \<Rightarrow> string \<Rightarrow> string" where
  "pad_end n s = s @ replicate (n - length s) CHR '' ''"

definition renderServiceCliHelp :: "string \<Rightarrow> cli_method list \<Rightarrow> string" where
  "renderServiceCliHelp packageName commands = (
     let width = Max (set (map (length \<circ> cm_command) commands));
         row = (\<lambda>c. ''  '' @ pad_end width (cm_command c) @ ''  '' @
            (if truthy (cm_description c) then to_str (cm_description c) else cm_method c))
     in join [CHR 0x0A] ([''Usage: '' @ packageName @ '' cli <command> [options]'', [], ''Commands:''] @
          (if commands = [] then [''  No implemented unary methods.''] else map row commands) @
          [[], ''Options:'',
           ''  --data <file>          request JSON file, or - for stdin'',
           ''  --data-json <json>     inline request JSON'',
           ''  --config <file>        config JSON file'',
           ''  --config-json <json>   inline config JSON'',
           ''  --secret <file>        secret JSON file'',
           ''  --secret-json <json>   inline secret JSON'',
           ''  --metadata <file>      metadata JSON file'',
           [], ''Environment:'',
           ''  OCTOBUS_SERVICE_CONTEXT  JSON object with optional config and secret fields.'',
           ''                           Also read from .env in the current directory.'',
           ''                           Example: {'' @ [CHR 0x22] @ ''config'' @ [CHR 0x22] @ '':{},'' @ [CHR 0x22] @ ''secret'' @ [CHR 0x22] @ '':{}}'',
           ''                           Matching fields override --config* and --secret*.'',
           [], ''Use '' @ [CHR 0x27] @ ''<command> --help'' @ [CHR 0x27] @ '' to print that method'' @ [CHR 0x27] @ ''s JSON contract.'']) @ [CHR 0x0A])"


section \<open>Lemmas on the command table\<close>

text \<open>A method that becomes a command: unary and implemented.\<close>

definition listed :: "(string \<times> 'h) list \<Rightarrow> string \<times> string \<times> method_definition \<Rightarrow> bool" where
  "listed handlers snd3 = (case snd3 of (s, n, d) \<Rightarrow> kind_of d = Unary \<and> findHandler handlers (full_name s n) \<noteq> None)"

lemma unary_iff: "kind_of d = Unary \<longleftrightarrow> \<not> md_requestStream d \<and> \<not> md_responseStream d"
  by (auto simp: kind_of_def grpcMethodKind_def)

lemma add_command_cases:
  assumes "add_command metadata handlers s (n, d) cs = Inr cs1"
  obtains "\<not> listed handlers (s, n, d)" "cs1 = cs"
  | c where "listed handlers (s, n, d)" "cs1 = cs @ [c]" "cm_method c = full_name s n"
      "cm_command c \<notin> cm_command ` set cs"
proof (cases "listed handlers (s, n, d)")
  case False
  with assms that(1) show ?thesis by (auto simp: add_command_def listed_def unary_iff Let_def)
next
  case True
  with assms obtain command where "find (\<lambda>c. cm_command c = command) cs = None"
    and "cs1 = cs @ [\<lparr>cm_command = command, cm_method = full_name s n,
      cm_description = pget (command_metadata metadata (full_name s n)) ''description'', cm_definition = d,
      cm_examples = validServiceCliExamples (pget (command_metadata metadata (full_name s n)) ''examples'')\<rparr>]"
    by (auto simp: add_command_def listed_def unary_iff Let_def split: option.splits)
  with True that(2) show ?thesis by (force simp: find_None_iff)
qed

lemma add_commands_table:
  "add_commands metadata handlers ms cs = Inr cs1 \<Longrightarrow> distinct (map cm_command cs) \<Longrightarrow>
   distinct (map cm_command cs1) \<and>
   cm_method ` set cs1 = cm_method ` set cs \<union> (\<lambda>(s, n, d). full_name s n) ` set (filter (listed handlers) ms)"
proof (induction ms arbitrary: cs)
  case (Cons m ms)
  obtain s n d where m: "m = (s, n, d)" by (cases m)
  from Cons.prems(1) m obtain cs0 where step: "add_command metadata handlers s (n, d) cs = Inr cs0"
    and rest: "add_commands metadata handlers ms cs0 = Inr cs1" by auto
  from step show ?case
  proof (cases rule: add_command_cases)
    case 1
    with Cons.IH [OF rest] Cons.prems(2) m show ?thesis by auto
  next
    case (2 c)
    then have "distinct (map cm_command cs0)" using Cons.prems(2) by auto
    from Cons.IH [OF rest this] 2 m show ?thesis by auto
  qed
qed simp

section \<open>Arguments written and parsed\<close>

definition render_option :: "string \<Rightarrow> string option \<Rightarrow> string list" where
  "render_option f v = (case v of Some x \<Rightarrow> [f, x] | None \<Rightarrow> [])"

definition render_args :: "cli_args \<Rightarrow> string list" where
  "render_args a = (if ca_help a then [''--help''] else []) @
     render_option ''--data'' (ca_data a) @ render_option ''--data-json'' (ca_dataJson a) @
     render_option ''--config'' (ca_config a) @ render_option ''--config-json'' (ca_configJson a) @
     render_option ''--secret'' (ca_secret a) @ render_option ''--secret-json'' (ca_secretJson a) @
     render_option ''--metadata'' (ca_metadata a)"

definition plain_value :: "string option \<Rightarrow> bool" where
  "plain_value v = (case v of Some x \<Rightarrow> \<not> starts_with x ''--'' | None \<Rightarrow> True)"

lemma loop_option:
  assumes "plain_value v" and "with_option f [] a \<noteq> None" and "f \<noteq> ''--help'' \<and> f \<noteq> ''-h''"
  shows "cli_args_loop (render_option f v @ rest) a =
    cli_args_loop rest (case v of Some x \<Rightarrow> the (with_option f x a) | None \<Rightarrow> a)"
  using assms by (cases v) (auto simp: render_option_def plain_value_def requiredArgValue_def)

lemma option_flags [simp]:
  "with_option ''--data'' v a = Some (a\<lparr>ca_data := Some v\<rparr>)"
  "with_option ''--data-json'' v a = Some (a\<lparr>ca_dataJson := Some v\<rparr>)"
  "with_option ''--config'' v a = Some (a\<lparr>ca_config := Some v\<rparr>)"
  "with_option ''--config-json'' v a = Some (a\<lparr>ca_configJson := Some v\<rparr>)"
  "with_option ''--secret'' v a = Some (a\<lparr>ca_secret := Some v\<rparr>)"
  "with_option ''--secret-json'' v a = Some (a\<lparr>ca_secretJson := Some v\<rparr>)"
  "with_option ''--metadata'' v a = Some (a\<lparr>ca_metadata := Some v\<rparr>)"
  by (simp_all add: with_option_def)

lemma loop_help: "cli_args_loop ((if h then [''--help''] else []) @ rest) a =
    cli_args_loop rest (a\<lparr>ca_help := ca_help a \<or> h\<rparr>)"
  by (cases h) simp_all

lemma loop_render:
  assumes "\<forall>v \<in> {ca_data b, ca_dataJson b, ca_config b, ca_configJson b, ca_secret b, ca_secretJson b, ca_metadata b}. plain_value v"
  shows "cli_args_loop (render_args b) no_args = Inr b"
proof -
  have all: "plain_value (ca_data b)" "plain_value (ca_dataJson b)" "plain_value (ca_config b)"
    "plain_value (ca_configJson b)" "plain_value (ca_secret b)" "plain_value (ca_secretJson b)" "plain_value (ca_metadata b)"
    using assms by blast+
  have last: "cli_args_loop (render_option ''--metadata'' (ca_metadata b)) a =
      cli_args_loop [] (case ca_metadata b of Some x \<Rightarrow> the (with_option ''--metadata'' x a) | None \<Rightarrow> a)" for a
    using loop_option [OF all(7), of "''--metadata''" a "[]"] by simp
  have flags: "''--data'' \<noteq> ''--help'' \<and> ''--data'' \<noteq> ''-h''" "''--data-json'' \<noteq> ''--help'' \<and> ''--data-json'' \<noteq> ''-h''"
    "''--config'' \<noteq> ''--help'' \<and> ''--config'' \<noteq> ''-h''" "''--config-json'' \<noteq> ''--help'' \<and> ''--config-json'' \<noteq> ''-h''"
    "''--secret'' \<noteq> ''--help'' \<and> ''--secret'' \<noteq> ''-h''" "''--secret-json'' \<noteq> ''--help'' \<and> ''--secret-json'' \<noteq> ''-h''"
    by simp_all
  have some: "with_option ''--data'' [] a \<noteq> None" "with_option ''--data-json'' [] a \<noteq> None" "with_option ''--config'' [] a \<noteq> None"
    "with_option ''--config-json'' [] a \<noteq> None" "with_option ''--secret'' [] a \<noteq> None" "with_option ''--secret-json'' [] a \<noteq> None" for a
    by simp_all
  show ?thesis
    unfolding render_args_def loop_help
      loop_option [OF all(1) some(1) flags(1)] loop_option [OF all(2) some(2) flags(2)] loop_option [OF all(3) some(3) flags(3)]
      loop_option [OF all(4) some(4) flags(4)] loop_option [OF all(5) some(5) flags(5)] loop_option [OF all(6) some(6) flags(6)] last
    by (cases b) (auto simp: no_args_def split: option.splits)
qed

text \<open>What a command line must satisfy, and that the parsers only give such.\<close>

definition one_source :: "server_options \<Rightarrow> bool" where
  "one_source so \<longleftrightarrow> \<not> (given (so_config so) \<and> given (so_configJson so)) \<and>
     \<not> (given (so_secret so) \<and> given (so_secretJson so)) \<and> \<not> (given (so_secret so) \<and> given (so_secretFd so)) \<and>
     \<not> (given (so_secretJson so) \<and> given (so_secretFd so))"

fun wf_generation :: "generation \<Rightarrow> bool" where
  "wf_generation (ClientStub tr f) = True"
| "wf_generation (ClientPackage tr name out f force bundle publish) = (name \<noteq> [] \<and> out \<noteq> [])"

fun wf_command :: "cli_command \<Rightarrow> bool" where
  "wf_command (Serve so) = (so_host so \<noteq> [] \<and> so_port so \<le> 65535 \<and> one_source so \<and>
     (given (so_config so) \<or> given (so_configJson so)))"
| "wf_command (Dev so) = (so_port so \<le> 65535 \<and> one_source so)"
| "wf_command (Invoke io) = (io_method io \<noteq> [] \<and> io_config io \<noteq> [] \<and> io_metadata io \<noteq> [] \<and> io_workdir io \<noteq> [] \<and>
     \<not> (given (io_secret io) \<and> given (io_secretFd io)))"
| "wf_command (Generate g) = wf_generation g"
| "wf_command _ = True"

fun wf_sdk_command :: "sdk_command \<Rightarrow> bool" where
  "wf_sdk_command (Bootstrap name out mode force bundle) = (name \<noteq> [] \<and> out \<noteq> [] \<and> mode \<in> set runtime_modes)"
| "wf_sdk_command (SdkGenerate g) = wf_generation g"
| "wf_sdk_command _ = True"

lemma parsePort_range: "parsePort raw = Inr p \<Longrightarrow> p \<le> 65535"
proof (cases "str_to_num raw")
  case (Fin r)
  assume "parsePort raw = Inr p"
  with Fin have r: "of_int (floor r) = r" "0 \<le> r" "r \<le> 65535" "p = nat (floor r)"
    by (auto simp: parsePort_def split: if_splits)
  then have "floor r \<le> 65535" using floor_mono [of r 65535] by simp
  with r(4) show ?thesis by linarith
qed (simp_all add: parsePort_def)

lemma rejectBoth_ok: "rejectBoth x y m = Inr u \<longleftrightarrow> \<not> (given x \<and> given y)"
  by (simp add: rejectBoth_def)

lemma requireOneOf_ok: "requireOneOf x y m = Inr u \<longleftrightarrow> given x \<or> given y"
  by (auto simp: requireOneOf_def)

lemma requiredString_ok: "requiredString v m = Inr s \<longleftrightarrow> v = Some s \<and> s \<noteq> []"
  by (auto simp: requiredString_def split: option.splits)

lemmas option_checks = rejectBoth_ok requireOneOf_ok requiredString_ok

lemma exclusive_sources_ok:
  "exclusive_sources o1 = Inr u \<Longrightarrow> one_source (server_options_of o1 host port)"
  by (auto simp: exclusive_sources_def option_checks one_source_def server_options_of_def)

lemma serve_wf: "serve_action o1 = Inr c \<Longrightarrow> wf_command c"
proof -
  assume "serve_action o1 = Inr c"
  then obtain u host port raw where "exclusive_sources o1 = Inr u" "given (o1 ''config'') \<or> given (o1 ''configJson'')"
    "host \<noteq> []" "parsePort raw = Inr port" "c = Serve (server_options_of o1 host port)"
    by (auto simp: serve_action_def option_checks)
  then show ?thesis
    using exclusive_sources_ok [of o1 u host port] parsePort_range [of raw port] by (simp add: server_options_of_def)
qed

lemma dev_wf: "dev_action o1 = Inr c \<Longrightarrow> wf_command c"
  using exclusive_sources_ok parsePort_range by (fastforce simp: dev_action_def server_options_of_def)

lemma invoke_wf: "invoke_action o1 = Inr c \<Longrightarrow> wf_command c"
  by (auto simp: invoke_action_def option_checks)

lemma generation_wf:
  "client_stub_action o1 = Inr g \<Longrightarrow> wf_generation g" "client_package_action o1 = Inr g \<Longrightarrow> wf_generation g"
  by (auto simp: client_stub_action_def client_package_action_def option_checks)

lemma inspect_shape: "inspect_action o1 = Inr c \<Longrightarrow> \<exists>y s. c = Inspect y s"
  by (auto simp: inspect_action_def split: if_splits)

lemma inspect_wf: "inspect_action o1 = Inr c \<Longrightarrow> wf_command c"
  using inspect_shape by force

lemma subcommand_wf: "run_subcommand name o1 args = Inr c \<Longrightarrow> wf_command c"
  using serve_wf dev_wf invoke_wf inspect_wf generation_wf
  by (auto simp: run_subcommand_def split: if_splits)

lemma sdk_subcommand_wf: "sdk_subcommand name o1 = Inr c \<Longrightarrow> wf_sdk_command c"
  using generation_wf inspect_shape
  by (fastforce simp: sdk_subcommand_def bootstrap_action_def option_checks validateBootstrapRuntimeMode_def
      split: if_splits)

section \<open>Properties\<close>

text \<open>C34: Command lines are well formed. Whatever commander makes of the arguments, a serve or dev
command that is accepted has a port of at most 65535 and at most one source of configuration and one of
secrets (serve has a host and a configuration), an invoke command names its method, configuration,
metadata and directory, a generated package its name and directory, and a bootstrap a known mode.\<close>
theorem commands_well_formed:
  "(parseCliArgs comm argv = Inr c \<longrightarrow> wf_command c) \<and> (parseSdkCliArgs comm argv = Inr c1 \<longrightarrow> wf_sdk_command c1)"
  using subcommand_wf sdk_subcommand_wf
  by (auto simp: parseCliArgs_def parseSdkCliArgs_def split: if_splits commander.splits)

definition sample_commander :: "string list \<Rightarrow> commander" where
  "sample_commander argv = Sub ''serve'' (map_of [(''host'', ''h''), (''port'', ''80''), (''configJson'', ''{}'')]) []"

theorem commands_well_formed_witness:
  "\<exists>c. parseCliArgs sample_commander [''--runtime'', ''serve''] = Inr c \<and> wf_command c"
proof -
  have "\<exists>c. parseCliArgs sample_commander [''--runtime'', ''serve''] = Inr c"
    by (simp add: parseCliArgs_def sample_commander_def run_subcommand_def serve_action_def requireOneOf_def given_def
        exclusive_sources_def rejectBoth_def requiredString_def parsePort_def str_to_num_def trim_def trim_start_def
        trim_end_def is_ws_def code_of_def to_lower_def lower_char_def decimal_val_def is_digit_def dec_val_def digit_val_def
        exponent_val_def Let_def)
  then show ?thesis using commands_well_formed [of sample_commander "[''--runtime'', ''serve'']"] by blast
qed

text \<open>C35: The arguments of a service command are parsed as they are written: writing the options of a
request out and parsing them gives the options back, when no value starts with two dashes and no source
is given twice; and a value that starts with two dashes, or a missing one, is refused.\<close>
theorem cli_args_roundtrip:
  "((\<forall>v \<in> {ca_data b, ca_dataJson b, ca_config b, ca_configJson b, ca_secret b, ca_secretJson b, ca_metadata b}. plain_value v) \<and>
    \<not> (given (ca_data b) \<and> given (ca_dataJson b)) \<and> \<not> (given (ca_config b) \<and> given (ca_configJson b)) \<and>
    \<not> (given (ca_secret b) \<and> given (ca_secretJson b)) \<longrightarrow> parseServiceCliMethodArgs (render_args b) = Inr b) \<and>
   (with_option f [] no_args \<noteq> None \<and> (rest = [] \<or> starts_with (hd rest) ''--'') \<longrightarrow>
    parseServiceCliMethodArgs (f # rest) = Inl (f @ '' requires a value''))"
proof (intro conjI impI)
  assume "(\<forall>v \<in> {ca_data b, ca_dataJson b, ca_config b, ca_configJson b, ca_secret b, ca_secretJson b, ca_metadata b}. plain_value v) \<and>
    \<not> (given (ca_data b) \<and> given (ca_dataJson b)) \<and> \<not> (given (ca_config b) \<and> given (ca_configJson b)) \<and>
    \<not> (given (ca_secret b) \<and> given (ca_secretJson b))"
  then show "parseServiceCliMethodArgs (render_args b) = Inr b"
    using loop_render [of b] by (simp add: parseServiceCliMethodArgs_def rejectBoth_ok)
next
  assume a: "with_option f [] no_args \<noteq> None \<and> (rest = [] \<or> starts_with (hd rest) ''--'')"
  then have "f \<noteq> ''--help''" "f \<noteq> ''-h''" by (auto simp: with_option_def)
  moreover have "requiredArgValue rest f = Inl (f @ '' requires a value'')"
    using a by (cases rest) (auto simp: requiredArgValue_def)
  ultimately show "parseServiceCliMethodArgs (f # rest) = Inl (f @ '' requires a value'')"
    using a by (simp add: parseServiceCliMethodArgs_def)
qed

theorem cli_args_roundtrip_witness:
  "parseServiceCliMethodArgs [''--data-json'', ''{}'', ''--metadata'', ''m.json''] =
     Inr (no_args\<lparr>ca_dataJson := Some ''{}'', ca_metadata := Some ''m.json''\<rparr>)"
  using cli_args_roundtrip [of "no_args\<lparr>ca_dataJson := Some ''{}'', ca_metadata := Some ''m.json''\<rparr>"]
  by (simp add: no_args_def render_args_def render_option_def plain_value_def given_def)

text \<open>The table of service commands is sound and complete: when it can be built, its commands have
distinct names, come in the order of their names, and stand for exactly the unary methods of the package
that have a handler.\<close>
lemma cli_command_table:
  assumes "buildServiceCliCommands collate services metadata handlers = Inr cs"
  shows "distinct (map cm_command cs) \<and> sorted (map (\<lambda>c. collate (cm_command c)) cs) \<and>
    cm_method ` set cs = {full_name s n |s n d. (s, n, d) \<in> set (all_methods services) \<and> kind_of d = Unary \<and>
      findHandler handlers (full_name s n) \<noteq> None}"
proof -
  obtain cs0 where cs0: "add_commands metadata handlers (all_methods services) [] = Inr cs0"
    and cs: "cs = sort_key (\<lambda>c. collate (cm_command c)) cs0"
    using assms by (auto simp: buildServiceCliCommands_def)
  from add_commands_table [OF cs0] have t: "distinct (map cm_command cs0)"
    "cm_method ` set cs0 = (\<lambda>(s, n, d). full_name s n) ` set (filter (listed handlers) (all_methods services))" by simp_all
  have "mset (map cm_command cs) = mset (map cm_command cs0)" by (simp add: cs)
  with t(1) have "distinct (map cm_command cs)" by (metis mset_eq_imp_distinct_iff)
  moreover have "sorted (map (\<lambda>c. collate (cm_command c)) cs)" unfolding cs by (rule sorted_sort_key)
  moreover have "cm_method ` set cs = {full_name s n |s n d. (s, n, d) \<in> set (all_methods services) \<and> kind_of d = Unary \<and>
      findHandler handlers (full_name s n) \<noteq> None}"
    unfolding cs set_sort t(2) by (force simp: listed_def)
  ultimately show ?thesis by blast
qed

definition sample_service :: desc_service where
  "sample_service = \<lparr>dss_typeName = ''p.S'', dss_methods = [
     \<lparr>dsm_name = ''GetUser'', dsm_localName = ''getUser'', dsm_kind = Unary, dsm_input = sample_message, dsm_output = sample_message\<rparr>,
     \<lparr>dsm_name = ''Watch'', dsm_localName = ''watch'', dsm_kind = ServerStreaming, dsm_input = sample_message, dsm_output = sample_message\<rparr>]\<rparr>"

lemma cli_command_table_example:
  "\<exists>cs. buildServiceCliCommands length (grpc_services [sample_service]) JUndef [(''p.S/GetUser'', ())] = Inr cs \<and>
     distinct (map cm_command cs)"
proof -
  have "\<exists>cs. buildServiceCliCommands length (grpc_services [sample_service]) JUndef [(''p.S/GetUser'', ())] = Inr cs"
    by (simp add: buildServiceCliCommands_def grpc_services_def sample_service_def createGrpcServiceDefinition_def
        from_entries_def all_methods_def method_definition_of_def add_command_def full_name_def findHandler_def
        command_metadata_def coalesce_def pget_def command_name_def)
  then obtain cs where "buildServiceCliCommands length (grpc_services [sample_service]) JUndef [(''p.S/GetUser'', ())] = Inr cs" by blast
  then show ?thesis using cli_command_table by blast
qed

end
