(* ===== verification/SdkServer.thy ===== *)
theory SdkServer
  imports SdkCli
begin

text \<open>
  How a service process answers calls (src/sdk/src/cli.ts): call metadata with OctoBus's own keys
  removed, the four kinds of handlers as registered with the gRPC server, and the two commands that
  run one unary handler in the process, invoke and the service CLI. A handler is a function of its
  context that returns or throws; a call of the gRPC library is the list of what is done to it.
  The library's metadata is a list of lower-case keys with their values in order, each key once and
  with at least one value; adding with an illegal key or value throws.
\<close>

section \<open>Metadata\<close>

type_synonym metadata = "(string \<times> string list) list"

definition md_get :: "metadata \<Rightarrow> string \<Rightarrow> string list" where
  "md_get m k = (case map_of m (to_lower k) of Some vs \<Rightarrow> vs | None \<Rightarrow> [])"

definition md_add :: "string \<Rightarrow> string \<Rightarrow> metadata \<Rightarrow> metadata" where
  "md_add k v m = set_key m (to_lower k) (md_get m k @ [v])"

definition isOctobusControlMetadata :: "string \<Rightarrow> bool" where
  "isOctobusControlMetadata key \<longleftrightarrow> (let n = to_lower key in
     starts_with n ''x-octobus-'' \<and> \<not> starts_with n ''x-octobus-ext-'')"

definition stripOctobusMetadata :: "metadata \<Rightarrow> metadata" where
  "stripOctobusMetadata m = fold (\<lambda>(k, _) out.
     if isOctobusControlMetadata k then out else fold (md_add k) (md_get m k) out) m []"

definition firstMetadata :: "metadata \<Rightarrow> string \<Rightarrow> string option" where
  "firstMetadata m k = (case md_get m k of v # _ \<Rightarrow> Some v | [] \<Rightarrow> None)"

text \<open>The metadata file: an object of strings or arrays; \<open>legal\<close> is what the library accepts.\<close>

definition add_legal :: "(string \<Rightarrow> string \<Rightarrow> bool) \<Rightarrow> string \<Rightarrow> string \<Rightarrow> metadata \<Rightarrow> source_error + metadata" where
  "add_legal legal k v m = (if legal k v then Inr (md_add k v m) else Inl (Other ''invalid metadata''))"

fun add_values :: "(string \<Rightarrow> string \<Rightarrow> bool) \<Rightarrow> string \<Rightarrow> jsval list \<Rightarrow> metadata \<Rightarrow> source_error + metadata" where
  "add_values legal k [] m = Inr m"
| "add_values legal k (v # vs) m = bindE (add_legal legal k (to_str v) m) (add_values legal k vs)"

fun add_entries :: "(string \<Rightarrow> string \<Rightarrow> bool) \<Rightarrow> (string \<times> jsval) list \<Rightarrow> metadata \<Rightarrow> source_error + metadata" where
  "add_entries legal [] m = Inr m"
| "add_entries legal ((k, v) # kvs) m =
     bindE (add_values legal k (case v of JArr vs \<Rightarrow> vs | _ \<Rightarrow> [v]) m) (add_entries legal kvs)"

definition readMetadata :: "world \<Rightarrow> (string \<Rightarrow> string \<Rightarrow> bool) \<Rightarrow> string \<Rightarrow> string \<Rightarrow> source_error + metadata" where
  "readMetadata w legal filePath workdir = bindE (readJSONSource w (Some filePath) None workdir (JObj [])) (\<lambda>raw.
     case raw of
       JObj kvs \<Rightarrow> bindE (add_entries legal kvs []) (\<lambda>m. Inr (stripOctobusMetadata m))
     | _ \<Rightarrow> Inr [])"

section \<open>Handlers\<close>

record 'q context_of =
  hc_request :: 'q
  hc_metadata :: metadata
  hc_config :: jsval
  hc_secret :: jsval
  hc_method :: string
  hc_serviceId :: string
  hc_instanceId :: string
  hc_workdir :: string
  hc_packageDir :: string

text \<open>What is thrown: a \<open>GrpcError\<close>, another \<open>Error\<close>, or anything else.\<close>

datatype thrown = ThrownGrpc nat string | ThrownError string | ThrownOther

record package_info =
  pi_name :: string
  pi_version :: "string option"
  pi_serviceId :: "string option"
  pi_instanceId :: "string option"
  pi_workdir :: "string option"
  pi_packageDir :: "string option"

definition formatUnimplementedMessage :: "string \<Rightarrow> package_info \<Rightarrow> string" where
  "formatUnimplementedMessage m p = (if pi_name p \<noteq> [] then
       ''method '' @ m @ '' is not implemented by package '' @
         (case pi_version p of Some v \<Rightarrow> if v \<noteq> [] then pi_name p @ ''@'' @ v else pi_name p | None \<Rightarrow> pi_name p)
     else ''method '' @ m @ '' is not implemented'')"

text \<open>\<open>errorToServiceError\<close>: the status and message sent for what was thrown.\<close>

definition errorToServiceError :: "thrown \<Rightarrow> nat \<times> string" where
  "errorToServiceError e = (case e of
     ThrownGrpc code message \<Rightarrow> (code, message)
   | ThrownError message \<Rightarrow> (13, message)
   | ThrownOther \<Rightarrow> (13, ''internal server error''))"

definition or_default :: "string option \<Rightarrow> string \<Rightarrow> string" where
  "or_default v d = (case v of Some s \<Rightarrow> s | None \<Rightarrow> d)"

definition handler_context :: "string \<Rightarrow> 'q \<Rightarrow> metadata \<Rightarrow> jsval \<Rightarrow> jsval \<Rightarrow> string \<Rightarrow> package_info \<Rightarrow> 'q context_of" where
  "handler_context cwd request md config secret m p = \<lparr>hc_request = request, hc_metadata = md, hc_config = config,
     hc_secret = secret, hc_method = m, hc_serviceId = or_default (pi_serviceId p) [],
     hc_instanceId = or_default (pi_instanceId p) [], hc_workdir = or_default (pi_workdir p) cwd,
     hc_packageDir = or_default (pi_packageDir p) cwd\<rparr>"

section \<open>The four kinds of calls\<close>

text \<open>
  What is done to a call, in order. A streaming handler returns an iterable of responses, which
  may throw after some of them, or something that is not iterable.
\<close>

datatype 'r act = Answer 'r | AnswerError nat string | Write 'r | End | Destroy nat string

datatype 'r iterable = Iterates "'r list" "thrown option" | NotIterable

definition createUnaryHandler ::
  "('q context_of \<Rightarrow> thrown + 'r) option \<Rightarrow> string \<Rightarrow> 'q \<Rightarrow> metadata \<Rightarrow> jsval \<Rightarrow> jsval \<Rightarrow> string \<Rightarrow> package_info \<Rightarrow> 'r act list" where
  "createUnaryHandler handler cwd request md config secret m p = (case handler of
     None \<Rightarrow> [AnswerError 12 (formatUnimplementedMessage m p)]
   | Some h \<Rightarrow> (case h (handler_context cwd request (stripOctobusMetadata md) config secret m p) of
         Inr response \<Rightarrow> [Answer response]
       | Inl e \<Rightarrow> [case_prod AnswerError (errorToServiceError e)]))"

definition createClientStreamingHandler ::
  "('q context_of \<Rightarrow> thrown + 'r) option \<Rightarrow> string \<Rightarrow> 'q \<Rightarrow> metadata \<Rightarrow> jsval \<Rightarrow> jsval \<Rightarrow> string \<Rightarrow> package_info \<Rightarrow> 'r act list" where
  "createClientStreamingHandler handler cwd requests md config secret m p = (case handler of
     None \<Rightarrow> [AnswerError 12 (formatUnimplementedMessage m p)]
   | Some h \<Rightarrow> (case h (handler_context cwd requests (stripOctobusMetadata md) config secret m p) of
         Inr response \<Rightarrow> [Answer response]
       | Inl e \<Rightarrow> [case_prod AnswerError (errorToServiceError e)]))"

definition writeIterableResponses :: "'r iterable \<Rightarrow> 'r act list \<times> thrown option" where
  "writeIterableResponses responses = (case responses of
     NotIterable \<Rightarrow> ([], Some (ThrownError ''streaming handler must return an iterable response''))
   | Iterates rs e \<Rightarrow> (map Write rs, e))"

text \<open>Server streaming and bidirectional calls differ in what they pass as the request.\<close>

definition createStreamingHandler ::
  "('q context_of \<Rightarrow> thrown + 'r iterable) option \<Rightarrow> string \<Rightarrow> 'q \<Rightarrow> metadata \<Rightarrow> jsval \<Rightarrow> jsval \<Rightarrow> string \<Rightarrow> package_info \<Rightarrow> 'r act list" where
  "createStreamingHandler handler cwd request md config secret m p = (case handler of
     None \<Rightarrow> [Destroy 12 (formatUnimplementedMessage m p)]
   | Some h \<Rightarrow> (case h (handler_context cwd request (stripOctobusMetadata md) config secret m p) of
         Inl e \<Rightarrow> [case_prod Destroy (errorToServiceError e)]
       | Inr responses \<Rightarrow> (case writeIterableResponses responses of
             (ws, None) \<Rightarrow> ws @ [End]
           | (ws, Some e) \<Rightarrow> ws @ [case_prod Destroy (errorToServiceError e)])))"

definition createBidiStreamingHandler ::
  "('q context_of \<Rightarrow> thrown + 'r iterable) option \<Rightarrow> string \<Rightarrow> 'q \<Rightarrow> metadata \<Rightarrow> jsval \<Rightarrow> jsval \<Rightarrow> string \<Rightarrow> package_info \<Rightarrow> 'r act list" where
  "createBidiStreamingHandler handler cwd requests md config secret m p =
     createStreamingHandler handler cwd requests md config secret m p"

text \<open>
  The implementation object of a service: the name a method is registered under and its kind. A later
  method with the same name replaces an earlier one.
\<close>

definition implementation_name :: "string \<Rightarrow> method_definition \<Rightarrow> string" where
  "implementation_name n d = (if md_originalName d \<noteq> [] then md_originalName d else n)"

definition implementation_of :: "grpc_service \<Rightarrow> (string \<times> method_kind \<times> string) list" where
  "implementation_of s = from_entries (map (\<lambda>(n, d).
     (implementation_name n d, kind_of d, full_name (gs_name s) n)) (gs_definition s))"

definition registerServices :: "grpc_service list \<Rightarrow> ((string \<times> method_definition) list \<times> (string \<times> method_kind \<times> string) list) list" where
  "registerServices services = map (\<lambda>s. (gs_definition s, implementation_of s)) services"


section \<open>Running one handler in the process\<close>

text \<open>
  A run: what it writes and how it ends. The package is loaded by the proto loader, which may throw;
  requests and responses go through the codec of the method, whose two directions may throw.
\<close>

datatype written = Stdout string | Stderr string

datatype ending = Done "string option" | SilentExit | Throws string

record package =
  pk_name :: string
  pk_version :: "string option"
  pk_commands :: jsval
  pk_services :: "grpc_service list"

definition unimplemented :: "string \<Rightarrow> package \<Rightarrow> string" where
  "unimplemented m p = formatUnimplementedMessage m \<lparr>pi_name = pk_name p, pi_version = pk_version p,
     pi_serviceId = None, pi_instanceId = None, pi_workdir = None, pi_packageDir = None\<rparr>"

definition status_names :: "string list" where
  "status_names = [''OK'', ''CANCELLED'', ''UNKNOWN'', ''INVALID_ARGUMENT'', ''DEADLINE_EXCEEDED'', ''NOT_FOUND'',
     ''ALREADY_EXISTS'', ''PERMISSION_DENIED'', ''RESOURCE_EXHAUSTED'', ''FAILED_PRECONDITION'', ''ABORTED'',
     ''OUT_OF_RANGE'', ''UNIMPLEMENTED'', ''INTERNAL'', ''UNAVAILABLE'', ''DATA_LOSS'', ''UNAUTHENTICATED'']"

definition grpcStatusName :: "nat \<Rightarrow> string" where
  "grpcStatusName code = (if code < length status_names then status_names ! code else ''INTERNAL'')"

definition writeOctobusError :: "(jsval \<Rightarrow> string) \<Rightarrow> nat \<Rightarrow> string \<Rightarrow> written" where
  "writeOctobusError json_text code message = Stderr (''OCTOBUS_ERROR:'' @
     json_text (JObj [(''code'', JStr (grpcStatusName code)), (''message'', JStr message)]) @ [CHR 0x0A])"

definition writeServiceCliError :: "nat \<Rightarrow> string \<Rightarrow> written" where
  "writeServiceCliError code message = Stderr (grpcStatusName code @ '': '' @ message @ [CHR 0x0A])"

record ('q, 'r) runtime =
  rt_world :: world
  rt_legal :: "string \<Rightarrow> string \<Rightarrow> bool"
  rt_json_text :: "jsval \<Rightarrow> string"
  rt_pretty :: "jsval \<Rightarrow> string" \<comment> \<open>JSON.stringify with an indent of 2\<close>
  rt_load :: "string + package \<times> string" \<comment> \<open>the package and its directory\<close>
  rt_stdin :: string
  rt_decode :: "desc_message \<Rightarrow> string \<Rightarrow> thrown + 'q"
  rt_encode :: "desc_message \<Rightarrow> 'r \<Rightarrow> thrown + string"
  rt_from_json :: "desc_message \<Rightarrow> jsval \<Rightarrow> string + 'q"
  rt_to_json :: "desc_message \<Rightarrow> string \<Rightarrow> jsval" \<comment> \<open>of the encoded response\<close>

text \<open>What \<open>runService\<close> makes of an error of a source: a \<open>CliInputError\<close> is reported, any other thrown on.\<close>

definition input_failure :: "source_error \<Rightarrow> written list \<times> ending" where
  "input_failure e = (case e of
     CliInput code message \<Rightarrow> ([writeServiceCliError code message], SilentExit)
   | Other message \<Rightarrow> ([], Throws message))"

definition or_fail :: "source_error + 'a \<Rightarrow> ('a \<Rightarrow> written list \<times> ending) \<Rightarrow> written list \<times> ending" where
  "or_fail r f = (case r of Inl e \<Rightarrow> input_failure e | Inr x \<Rightarrow> f x)"

definition invokeService ::
  "('q, 'r) runtime \<Rightarrow> string \<Rightarrow> (string \<times> ('q context_of \<Rightarrow> thrown + 'r)) list \<Rightarrow> invoke_options \<Rightarrow> written list \<times> ending" where
  "invokeService rt cwd handlers c = (
     let w = rt_world rt; workdir = path_resolve cwd [io_workdir c];
         failed = (\<lambda>code message. ([writeOctobusError (rt_json_text rt) code message], SilentExit))
     in or_fail (readJSONSource w (Some (io_config c)) None workdir JUndef) (\<lambda>config.
        or_fail (readSecretSource w (io_secret c) None (io_secretFd c) workdir (JObj [])) (\<lambda>secret.
        or_fail (readMetadata w (rt_legal rt) (io_metadata c) workdir) (\<lambda>md.
        case rt_load rt of
          Inl message \<Rightarrow> ([], Throws message)
        | Inr (p, packageDir) \<Rightarrow> (case findUnaryMethodDefinition (pk_services p) (io_method c) of
            None \<Rightarrow> failed 12 (unimplemented (io_method c) p)
          | Some d \<Rightarrow> (case findHandler handlers (io_method c) of
              None \<Rightarrow> failed 12 (unimplemented (io_method c) p)
            | Some h \<Rightarrow> (case rt_decode rt (md_requestType d) (rt_stdin rt) of
                Inl e \<Rightarrow> failed 13 (case e of ThrownGrpc _ t \<Rightarrow> t | ThrownError t \<Rightarrow> t | ThrownOther \<Rightarrow> ''request decode failed'')
              | Inr request \<Rightarrow> (case bindE (h \<lparr>hc_request = request, hc_metadata = md, hc_config = config, hc_secret = secret,
                      hc_method = io_method c,
                      hc_serviceId = or_default (io_service c) (or_default (env w ''OCTOBUS_SERVICE_ID'') []),
                      hc_instanceId = or_default (io_instance c) (or_default (env w ''OCTOBUS_INSTANCE_ID'') []),
                      hc_workdir = workdir, hc_packageDir = packageDir\<rparr>) (rt_encode rt (md_responseType d)) of
                    Inr bytes \<Rightarrow> ([Stdout bytes], Done None)
                  | Inl e \<Rightarrow> case_prod failed (errorToServiceError e)))))))))"

text \<open>
  The service CLI. Errors of the sources and of the request are \<open>CliInputError\<close>s or thrown on, those of
  the handler are reported; an unknown command and a missing handler are thrown.
\<close>

definition runServiceCli ::
  "('q, 'r) runtime \<Rightarrow> (string \<Rightarrow> 'k::linorder) \<Rightarrow> string \<Rightarrow> (string \<times> ('q context_of \<Rightarrow> thrown + 'r)) list \<Rightarrow> string list \<Rightarrow> written list \<times> ending" where
  "runServiceCli rt collate workdir handlers args = (
     let w = rt_world rt in case rt_load rt of
       Inl message \<Rightarrow> ([], Throws message)
     | Inr (p, packageDir) \<Rightarrow> (case buildServiceCliCommands collate (pk_services p) (pk_commands p) handlers of
         Inl message \<Rightarrow> ([], Throws message)
       | Inr commands \<Rightarrow>
           if args = [] \<or> hd args = ''--help'' \<or> hd args = ''-h''
           then ([Stdout (renderServiceCliHelp (pk_name p) commands)], Done None)
           else (case find (\<lambda>c. cm_command c = hd args) commands of
               None \<Rightarrow> ([], Throws (''unknown service CLI command: '' @ hd args))
             | Some c \<Rightarrow> (case parseServiceCliMethodArgs (tl args) of
                   Inl message \<Rightarrow> ([], Throws message)
                 | Inr a \<Rightarrow>
                     if ca_help a then ([Stdout (rt_pretty rt (serviceCliMethodContract c) @ [CHR 0x0A])], Done (Some (cm_method c)))
                     else or_fail (readJSONSource w (ca_config a) (ca_configJson a) workdir (JObj [])) (\<lambda>cliConfig.
                       or_fail (readJSONSource w (ca_secret a) (ca_secretJson a) workdir (JObj [])) (\<lambda>cliSecret.
                       or_fail (applyServiceContextEnv w workdir cliConfig cliSecret) (\<lambda>(config, secret).
                       or_fail (if given (ca_metadata a) then readMetadata w (rt_legal rt) (the (ca_metadata a)) workdir else Inr []) (\<lambda>md.
                       or_fail (readCliRequest w (rt_stdin rt) (ca_data a) (ca_dataJson a) workdir) (\<lambda>v.
                       or_fail (case rt_from_json rt (md_requestType (cm_definition c)) v of
                           Inr q \<Rightarrow> Inr q | Inl message \<Rightarrow> Inl (input_error message)) (\<lambda>request.
                       case findHandler handlers (cm_method c) of
                         None \<Rightarrow> ([], Throws (unimplemented (cm_method c) p))
                       | Some h \<Rightarrow> (case bindE (h \<lparr>hc_request = request, hc_metadata = md, hc_config = config, hc_secret = secret,
                               hc_method = cm_method c, hc_serviceId = [], hc_instanceId = [], hc_workdir = workdir,
                               hc_packageDir = packageDir\<rparr>) (rt_encode rt (md_responseType (cm_definition c))) of
                             Inr bytes \<Rightarrow> ([Stdout (rt_pretty rt (rt_to_json rt (md_responseType (cm_definition c)) bytes) @ [CHR 0x0A])],
                                Done (Some (cm_method c)))
                           | Inl e \<Rightarrow> ([case_prod writeServiceCliError (errorToServiceError e)], SilentExit))))))))))))"

section \<open>Lemmas on metadata\<close>

lemma lower_char_idem: "lower_char (lower_char c) = lower_char c"
proof -
  let ?n = "code_of c"
  have less: "?n < 256" by (simp add: code_of_def of_char_def del: of_char_of)
  show ?thesis
  proof (cases "(65 \<le> ?n \<and> ?n \<le> 90) \<or> (192 \<le> ?n \<and> ?n \<le> 222 \<and> ?n \<noteq> 215)")
    case True
    then have "code_of (char_of (?n + 32)) = ?n + 32" by (auto simp: code_of_def)
    with True show ?thesis by (auto simp: lower_char_def Let_def)
  next
    case False
    then have "lower_char c = c" by (auto simp: lower_char_def Let_def)
    then show ?thesis by simp
  qed
qed

lemma to_lower_idem [simp]: "to_lower (to_lower s) = to_lower s"
  by (simp add: to_lower_def lower_char_idem)

lemma control_lower [simp]: "isOctobusControlMetadata (to_lower k) \<longleftrightarrow> isOctobusControlMetadata k"
  by (simp add: isOctobusControlMetadata_def)

definition wf_md :: "metadata \<Rightarrow> bool" where
  "wf_md m \<longleftrightarrow> distinct (map fst m) \<and> (\<forall>(k, vs) \<in> set m. to_lower k = k \<and> vs \<noteq> [])"

lemma md_get_lower [simp]: "md_get m (to_lower k) = md_get m k"
  by (simp add: md_get_def)

lemma md_get_add: "md_get (md_add k v m) j = (if to_lower j = to_lower k then md_get m k @ [v] else md_get m j)"
  by (simp add: md_get_def md_add_def)

text \<open>
  What the library's metadata promises its clients: a value that is added comes last under its key, and
  keys that are the same up to their letters' case name the same values.
\<close>

locale multimap =
  fixes get :: "'m \<Rightarrow> 'k \<Rightarrow> 'v list" and add :: "'k \<Rightarrow> 'v \<Rightarrow> 'm \<Rightarrow> 'm" and norm :: "'k \<Rightarrow> 'k"
  assumes get_add: "get (add k v m) j = (if norm j = norm k then get m k @ [v] else get m j)"
    and get_norm: "norm j = norm k \<Longrightarrow> get m j = get m k"
begin

lemma get_adds: "get (fold (add k) vs m) j = (if norm j = norm k then get m k @ vs else get m j)"
proof (induction vs arbitrary: m)
  case Nil
  show ?case using get_norm [of j k m] by simp
qed (simp add: get_add)

end

interpretation md: multimap md_get md_add to_lower
proof
  show "md_get (md_add k v m) j = (if to_lower j = to_lower k then md_get m k @ [v] else md_get m j)" for k v m j
    by (rule md_get_add)
  show "to_lower j = to_lower k \<Longrightarrow> md_get m j = md_get m k" for j k m by (simp add: md_get_def)
qed

lemma wf_md_add: "wf_md m \<Longrightarrow> wf_md (md_add k v m)"
proof -
  assume m: "wf_md m"
  have "(j, vs) \<in> set (set_key m k v) \<Longrightarrow> (j, vs) \<in> set m \<or> (j, vs) = (k, v)" for k v and j :: string and vs
    by (induction m k v rule: set_key.induct) (auto split: if_splits)
  with m show ?thesis by (fastforce simp: wf_md_def md_add_def distinct_set_key)
qed

lemma wf_md_adds: "wf_md m \<Longrightarrow> wf_md (fold (md_add k) vs m)"
  by (induction vs arbitrary: m) (simp_all add: wf_md_add)

definition strip_step :: "metadata \<Rightarrow> string \<times> string list \<Rightarrow> metadata \<Rightarrow> metadata" where
  "strip_step m e out = (if isOctobusControlMetadata (fst e) then out else fold (md_add (fst e)) (md_get m (fst e)) out)"

lemma strip_as_fold: "stripOctobusMetadata m = fold (strip_step m) m []"
proof -
  have "strip_step m = (\<lambda>(k, _) out. if isOctobusControlMetadata k then out else fold (md_add k) (md_get m k) out)"
    by (auto simp: strip_step_def fun_eq_iff)
  then show ?thesis by (simp add: stripOctobusMetadata_def)
qed

lemma md_get_strip_fold:
  assumes "distinct (map fst es)" and "\<forall>e \<in> set es. to_lower (fst e) = fst e"
  shows "md_get (fold (strip_step m) es out) j =
    (if to_lower j \<in> set (map fst es) \<and> \<not> isOctobusControlMetadata j then md_get out j @ md_get m j else md_get out j)"
  using assms
proof (induction es arbitrary: out)
  case (Cons e es)
  have e: "to_lower (fst e) = fst e" "fst e \<notin> set (map fst es)" using Cons.prems by auto
  have ih: "md_get (fold (strip_step m) es (strip_step m e out)) j =
     (if to_lower j \<in> set (map fst es) \<and> \<not> isOctobusControlMetadata j
      then md_get (strip_step m e out) j @ md_get m j else md_get (strip_step m e out) j)"
    using Cons by auto
  show ?case
  proof (cases "to_lower j = fst e")
    case True
    then have "isOctobusControlMetadata (fst e) \<longleftrightarrow> isOctobusControlMetadata j" by (metis control_lower)
    moreover have "md_get m (fst e) = md_get m j" "md_get out (fst e) = md_get out j" using True by (metis md_get_lower)+
    ultimately have "md_get (strip_step m e out) j =
        (if isOctobusControlMetadata j then md_get out j else md_get out j @ md_get m j)"
      using True e(1) by (simp add: strip_step_def md.get_adds)
    with ih e(2) True show ?thesis by simp
  next
    case False
    then have "md_get (strip_step m e out) j = md_get out j" using e(1) by (simp add: strip_step_def md.get_adds)
    with ih False show ?thesis by simp
  qed
qed simp

lemma wf_strip: "wf_md (stripOctobusMetadata m)"
proof -
  have "wf_md out \<Longrightarrow> wf_md (fold (strip_step m) es out)" for es out
    by (induction es arbitrary: out) (simp_all add: strip_step_def wf_md_adds)
  from this [of "[]" m] show ?thesis by (simp add: strip_as_fold wf_md_def)
qed

lemma md_get_absent: "wf_md m \<Longrightarrow> to_lower k \<notin> set (map fst m) \<Longrightarrow> md_get m k = []"
  by (auto simp: md_get_def map_of_eq_None_iff split: option.splits dest: map_of_SomeD) (metis fst_conv image_eqI map_of_SomeD)

lemma md_get_strip:
  assumes "wf_md m"
  shows "md_get (stripOctobusMetadata m) k = (if isOctobusControlMetadata k then [] else md_get m k)"
proof -
  have "distinct (map fst m)" "\<forall>e \<in> set m. to_lower (fst e) = fst e"
    using assms by (auto simp: wf_md_def)
  from md_get_strip_fold [OF this, of m "[]" k] show ?thesis
    using md_get_absent [OF assms, of k] by (auto simp: strip_as_fold md_get_def [of "[]"])
qed


section \<open>Properties\<close>

lemma set_key_absent: "k \<notin> set (map fst m) \<Longrightarrow> set_key m k v = m @ [(k, v)]"
  by (induction m k v rule: set_key.induct) auto

lemma set_key_last: "k \<notin> set (map fst m) \<Longrightarrow> set_key (m @ [(k, u)]) k v = m @ [(k, v)]"
  by (induction m k v rule: set_key.induct) auto

lemma adds_last:
  assumes "k \<notin> set (map fst m)" and "to_lower k = k" and "u \<noteq> []"
  shows "fold (md_add k) vs (m @ [(k, u)]) = m @ [(k, u @ vs)]"
  using assms(3)
proof (induction vs arbitrary: u)
  case (Cons v vs)
  have "map_of (m @ [(k, u)]) k = Some u" using assms(1) by (auto simp: map_add_def split: option.splits dest: map_of_SomeD) (metis fst_conv image_eqI map_of_SomeD)
  then have "md_add k v (m @ [(k, u)]) = m @ [(k, u @ [v])]"
    using assms set_key_last [of k m u] by (simp add: md_add_def md_get_def)
  then show ?case using Cons.IH [of "u @ [v]"] by simp
qed simp

lemma adds_absent:
  assumes "k \<notin> set (map fst m)" and "to_lower k = k" and "vs \<noteq> []"
  shows "fold (md_add k) vs m = m @ [(k, vs)]"
proof -
  obtain v ws where vs: "vs = v # ws" using assms(3) by (cases vs) auto
  have "map_of m k = None" using assms(1) by (simp add: map_of_eq_None_iff)
  then have "md_add k v m = m @ [(k, [v])]"
    using assms set_key_absent [of k m] by (simp add: md_add_def md_get_def)
  then show ?thesis using adds_last [OF assms(1,2), of "[v]" ws] by (simp add: vs)
qed

lemma strip_fold_filter:
  assumes "distinct (map fst (out @ es))" and "\<forall>(k, vs) \<in> set es. to_lower k = k \<and> vs \<noteq> [] \<and> md_get m k = vs"
  shows "fold (strip_step m) es out = out @ filter (\<lambda>e. \<not> isOctobusControlMetadata (fst e)) es"
  using assms
proof (induction es arbitrary: out)
  case (Cons e es)
  obtain k vs where e: "e = (k, vs)" by fastforce
  have k: "to_lower k = k" "vs \<noteq> []" "md_get m k = vs" "k \<notin> set (map fst out)" using Cons.prems e by auto
  show ?case
  proof (cases "isOctobusControlMetadata k")
    case True
    then show ?thesis using Cons e by (simp add: strip_step_def)
  next
    case False
    then have "strip_step m e out = out @ [(k, vs)]"
      using adds_absent [OF k(4,1,2)] k(3) by (simp add: strip_step_def e)
    moreover have "fold (strip_step m) es (out @ [(k, vs)]) =
        (out @ [(k, vs)]) @ filter (\<lambda>e. \<not> isOctobusControlMetadata (fst e)) es"
      using Cons.prems e by (intro Cons.IH) auto
    ultimately show ?thesis using False e by simp
  qed
qed simp

lemma strip_filter:
  assumes "wf_md m"
  shows "stripOctobusMetadata m = filter (\<lambda>e. \<not> isOctobusControlMetadata (fst e)) m"
proof -
  have "md_get m k = vs" if "(k, vs) \<in> set m" for k vs
    using that assms by (fastforce simp: md_get_def wf_md_def)
  then show ?thesis using assms strip_fold_filter [of "[]" m m]
    by (fastforce simp: strip_as_fold wf_md_def)
qed

lemma strip_strip: "wf_md m \<Longrightarrow> stripOctobusMetadata (stripOctobusMetadata m) = stripOctobusMetadata m"
  using wf_strip [of m] by (simp add: strip_filter)



text \<open>How a call ends, and what is written before.\<close>

fun terminal :: "'r act \<Rightarrow> bool" where
  "terminal (Write r) = False"
| "terminal _ = True"

definition written_items :: "'r act list \<Rightarrow> 'r list" where
  "written_items acts = List.map_filter (\<lambda>a. case a of Write r \<Rightarrow> Some r | _ \<Rightarrow> None) acts"

lemma written_items_writes: "written_items (map Write rs @ acts) = rs @ written_items acts"
  by (induction rs) (simp_all add: written_items_def)

lemma streaming_ends:
  "\<exists>rs a. createStreamingHandler hs cwd q md config secret m p = map Write rs @ [a] \<and> terminal a \<and>
    (a = End \<longleftrightarrow> (\<exists>h. hs = Some h \<and> h (handler_context cwd q (stripOctobusMetadata md) config secret m p) = Inr (Iterates rs None)))"
proof (cases hs)
  case None
  have "createStreamingHandler hs cwd q md config secret m p = map Write [] @ [Destroy 12 (formatUnimplementedMessage m p)]"
    by (simp add: createStreamingHandler_def None)
  then show ?thesis using None by fastforce
next
  case (Some h)
  show ?thesis
  proof (cases "h (handler_context cwd q (stripOctobusMetadata md) config secret m p)")
    case (Inl e)
    obtain c t where "errorToServiceError e = (c, t)" by fastforce
    with Inl Some have "createStreamingHandler hs cwd q md config secret m p = map Write [] @ [Destroy c t]"
      by (simp add: createStreamingHandler_def)
    then show ?thesis using Some Inl by fastforce
  next
    case (Inr r)
    show ?thesis
    proof (cases r)
      case (Iterates rs oe)
      show ?thesis
      proof (cases oe)
        case None
        with Inr Some Iterates have "createStreamingHandler hs cwd q md config secret m p = map Write rs @ [End]"
          by (simp add: createStreamingHandler_def writeIterableResponses_def)
        then show ?thesis using Some Inr Iterates None by fastforce
      next
        case e: (Some e)
        obtain c t where "errorToServiceError e = (c, t)" by fastforce
        with Inr Some Iterates e have "createStreamingHandler hs cwd q md config secret m p = map Write rs @ [Destroy c t]"
          by (simp add: createStreamingHandler_def writeIterableResponses_def)
        then show ?thesis using Some Inr Iterates e by fastforce
      qed
    next
      case NotIterable
      with Inr Some have "createStreamingHandler hs cwd q md config secret m p =
          map Write [] @ [Destroy 13 ''streaming handler must return an iterable response'']"
        by (simp add: createStreamingHandler_def writeIterableResponses_def errorToServiceError_def)
      then show ?thesis using Some Inr NotIterable by fastforce
    qed
  qed
qed



text \<open>
  Methods registered under one name: the later replaces the earlier, whose calls the library then
  hands to the other's handler. Distinct names keep every method's own entry.
\<close>

lemma registered_methods:
  assumes "distinct (map (\<lambda>(n, d). implementation_name n d) (gs_definition s))" and "(n, d) \<in> set (gs_definition s)"
  shows "map_of (implementation_of s) (implementation_name n d) = Some (kind_of d, full_name (gs_name s) n)"
  unfolding implementation_of_def map_of_from_entries
  using assms by (intro map_of_is_SomeI) (force simp: rev_map [symmetric] comp_def split_def)+

lemma registration_collision:
  assumes "gs_definition s = [(n, d), (n1, d1)]" and "implementation_name n d = implementation_name n1 d1"
  shows "map_of (implementation_of s) (implementation_name n d) = Some (kind_of d1, full_name (gs_name s) n1)"
  using assms by (simp add: implementation_of_def from_entries_def)

end
