(* ===== verification/SdkPackage.thy ===== *)
theory SdkPackage
  imports SdkServer
begin

text \<open>
  Service packages: where a package is found, its manifest and entry (src/sdk/src/proto-loader.ts), and
  the checks of octobus-sdk validate (src/sdk/src/validation.ts), which the runtime of a package relies on.
  The compiler of the proto files is an argument: from a package and its manifest to the descriptors of
  its services, or an error.
\<close>

section \<open>JSON text of a string\<close>

definition hex_digit :: "nat \<Rightarrow> char" where
  "hex_digit d = (if d < 10 then char_of (48 + d) else char_of (87 + d))"

definition json_char :: "char \<Rightarrow> string" where
  "json_char c = (let n = code_of c in
     if c = CHR 0x22 then [CHR 0x5C, CHR 0x22]
     else if c = CHR 0x5C then [CHR 0x5C, CHR 0x5C]
     else if n = 8 then [CHR 0x5C, CHR ''b'']
     else if n = 9 then [CHR 0x5C, CHR ''t'']
     else if n = 10 then [CHR 0x5C, CHR ''n'']
     else if n = 12 then [CHR 0x5C, CHR ''f'']
     else if n = 13 then [CHR 0x5C, CHR ''r'']
     else if n < 32 then CHR 0x5C # ''u00'' @ [hex_digit (n div 16), hex_digit (n mod 16)]
     else [c])"

definition json_quote :: "string \<Rightarrow> string" where
  "json_quote s = [CHR 0x22] @ concat (map json_char s) @ [CHR 0x22]"

section \<open>Paths of a package\<close>

definition require :: "bool \<Rightarrow> string \<Rightarrow> string + unit" where
  "require b message = (if b then Inr () else Inl message)"

definition outside :: "string \<Rightarrow> bool" where
  "outside relative \<longleftrightarrow> relative = [] \<or> starts_with relative ''..'' \<or> is_absolute relative"

definition or_dot :: "string \<Rightarrow> string" where
  "or_dot d = (if d = [] then ''.'' else d)"

definition validateRelativePackagePath :: "string \<Rightarrow> string \<Rightarrow> jsval \<Rightarrow> string \<Rightarrow> string + string" where
  "validateRelativePackagePath cwd packageDir relativePath field = (case relativePath of
     JStr s \<Rightarrow> if trim s = [] then Inl (field @ '' must be a non-empty string'')
       else if is_absolute s then Inl (field @ '' must be a relative path inside the package'')
       else if outside (path_relative (path_resolve cwd [or_dot packageDir]) (path_resolve cwd [or_dot packageDir, s]))
       then Inl (field @ '' must stay inside the package'')
       else Inr s
   | _ \<Rightarrow> Inl (field @ '' must be a non-empty string''))"

definition validatePackageFile :: "node \<Rightarrow> string \<Rightarrow> string \<Rightarrow> jsval \<Rightarrow> string \<Rightarrow> string + string" where
  "validatePackageFile files cwd packageDir relativePath field =
     bindE (validateRelativePackagePath cwd packageDir relativePath field) (\<lambda>s.
     let fullPath = path_resolve cwd [packageDir, s]; packageRoot = path_resolve cwd [packageDir] in
     if outside (path_relative packageRoot fullPath)
     then Inl (field @ '' '' @ json_quote s @ '' must stay inside the package'')
     else (case stat files fullPath of
         None \<Rightarrow> Inl (field @ '' '' @ json_quote s @ '' does not exist: ENOENT: no such file or directory, stat '' @
            [CHR 0x27] @ fullPath @ [CHR 0x27])
       | Some (Dir _) \<Rightarrow> Inl (field @ '' '' @ json_quote s @ '' must be a regular file'')
       | Some (File _ _) \<Rightarrow> Inr fullPath))"

section \<open>Finding the package\<close>

text \<open>The nearest directory that has a file of a name, from a directory upwards.\<close>

function find_up :: "node \<Rightarrow> string \<Rightarrow> string \<Rightarrow> string option" where
  "find_up files name current = (
     if exists_sync files (path_join [current, name]) then Some current
     else if path_dirname current = current then None
     else find_up files name (path_dirname current))"
  by pat_completeness auto

definition dir_size :: "string \<Rightarrow> nat" where
  "dir_size p = (if p = ''.'' \<or> p = ''/'' then 0 else if p = [] then 1 else Suc (length p))"

lemma strip_trailing_le: "length (strip_trailing c s) \<le> length s"
  by (simp add: strip_trailing_def) (metis length_dropWhile_le length_rev)

lemma length_join_butlast:
  "2 \<le> length ws \<Longrightarrow> length (join ''/'' (butlast ws)) < length (join ''/'' ws)"
proof (induction "''/''" ws rule: join.induct)
  case (3 w v ws)
  then show ?case by (cases ws) auto
qed auto

lemma dirname_ends: "path_dirname ''/'' = ''/''" "path_dirname ''.'' = ''.''"
  by code_simp+

lemma dirname_smaller:
  assumes "path_dirname p \<noteq> p"
  shows "dir_size (path_dirname p) < dir_size p"
proof -
  let ?q = "strip_trailing CHR ''/'' p" and ?d = "path_dirname p"
  show ?thesis
  proof (cases "p = [] \<or> ?q = [] \<or> length (segments ?q) = 1")
    case True
    then have "?d = ''.'' \<or> ?d = ''/''" by (auto simp: path_dirname_def Let_def)
    then have "dir_size ?d = 0" by (simp add: dir_size_def)
    moreover have "p \<noteq> ''/''" "p \<noteq> ''.''" using assms dirname_ends by metis+
    then have "0 < dir_size p" by (simp add: dir_size_def)
    ultimately show ?thesis by simp
  next
    case False
    let ?ss = "segments ?q" and ?e = "strip_trailing CHR ''/'' (join ''/'' (butlast (segments ?q)))"
    have d: "?d = (if ?e = [] then ''/'' else ?e)" using False by (simp add: path_dirname_def Let_def)
    have "length ?ss \<noteq> 0" by (simp add: segments_def)
    with False have "2 \<le> length ?ss" by (metis One_nat_def Suc_leI le_neq_implies_less less_Suc0 not_less numeral_2_eq_2)
    then have "length (join ''/'' (butlast ?ss)) < length (join ''/'' ?ss)" by (rule length_join_butlast)
    moreover have "join ''/'' ?ss = ?q" by (simp add: segments_def join_split_on)
    ultimately have less: "length ?e < length p"
      using strip_trailing_le [of "CHR ''/''" p] strip_trailing_le [of "CHR ''/''" "join ''/'' (butlast ?ss)"] by simp
    have "p \<noteq> ''/''" "p \<noteq> ''.''" using assms dirname_ends by metis+
    moreover have "p \<noteq> []" using False by simp
    moreover have "dir_size ?d \<le> Suc (length ?e)" using d by (simp add: dir_size_def)
    ultimately show ?thesis using less by (simp add: dir_size_def)
  qed
qed

termination find_up
  by (relation "measure (\<lambda>(_, _, p). dir_size p)") (auto simp: dirname_smaller)

declare find_up.simps [simp del]

definition findPackageRootFrom :: "node \<Rightarrow> string \<Rightarrow> string option" where
  "findPackageRootFrom files current = find_up files ''service.json'' current"

text \<open>
  The directory named by the environment, or else the nearest one from the entry of the process or from
  the working directory.
\<close>

definition find_in_roots :: "node \<Rightarrow> string \<Rightarrow> string list \<Rightarrow> string + string" where
  "find_in_roots files cwd roots = (case List.map_filter (findPackageRootFrom files) roots of
     found # _ \<Rightarrow> Inr found
   | [] \<Rightarrow> Inl (''service.json not found from '' @ cwd))"

definition findPackageRoot :: "world \<Rightarrow> string \<Rightarrow> string option \<Rightarrow> string + string" where
  "findPackageRoot w cwd fromFile = (case env w ''OCTOBUS_PACKAGE_DIR'' of
     Some (c # d) \<Rightarrow> (let packageDir = path_resolve cwd [c # d] in
       if exists_sync (fs w) (path_join [packageDir, ''service.json'']) then Inr packageDir
       else Inl (''service.json not found in '' @ packageDir))
   | _ \<Rightarrow> (case fromFile of
       Some (c # f) \<Rightarrow> (let entry = path_resolve cwd [c # f] in
         if exists_sync (fs w) entry then find_in_roots (fs w) cwd [path_dirname entry, cwd]
         else Inl (''ENOENT: no such file or directory, lstat '' @ [CHR 0x27] @ entry @ [CHR 0x27]))
     | _ \<Rightarrow> find_in_roots (fs w) cwd [cwd]))"

section \<open>package.json\<close>

text \<open>Reading a property of \<open>null\<close> throws.\<close>

definition member_of :: "jsval \<Rightarrow> string \<Rightarrow> string + jsval" where
  "member_of v k = (if v = JNull
     then Inl (''Cannot read properties of null (reading '' @ [CHR 0x27] @ k @ [CHR 0x27] @ '')'') else Inr (pget v k))"

definition readPackageJson :: "world \<Rightarrow> string \<Rightarrow> string + jsval option" where
  "readPackageJson w packageDir = (let p = path_join [packageDir, ''package.json''] in
     if \<not> exists_sync (fs w) p then Inr None
     else bindE (read_file (fs w) p) (\<lambda>raw. bindE (parse w raw) (\<lambda>v. Inr (Some v))))"

definition validatePackageBinTarget :: "string \<Rightarrow> string \<Rightarrow> string + string" where
  "validatePackageBinTarget cwd v =
     bindE (require (trim v \<noteq> []) ''package.json bin must be a non-empty string'') (\<lambda>_.
     bindE (require (\<not> is_absolute v) ''package.json bin must be relative'') (\<lambda>_.
     bindE (validateRelativePackagePath cwd [] (JStr v) ''package.json bin'') (\<lambda>_. Inr v)))"

text \<open>The one name and target of an object of commands.\<close>

definition single_bin :: "jsval \<Rightarrow> string + string \<times> string" where
  "single_bin v = (case entries_of v of
     [(name, JStr target)] \<Rightarrow> Inr (name, target)
   | [(name, _)] \<Rightarrow> Inl (''package.json bin '' @ json_quote name @ '' target must be a string'')
   | es \<Rightarrow> Inl (''package.json bin must contain exactly one entry, got '' @ nat_str (length es)))"

text \<open>A name that is an array, which has \<open>includes\<close> too, is not modelled.\<close>

definition packageJsonCommandName :: "jsval \<Rightarrow> string + string" where
  "packageJsonCommandName name = (case name of
     JStr n \<Rightarrow> if n = [] then Inl ''package.json name is required when bin is a string''
       else Inr (case split_last CHR ''/'' n of Some (_, command) \<Rightarrow> command | None \<Rightarrow> n)
   | v \<Rightarrow> if truthy v then Inl ''packageName.includes is not a function''
       else Inl ''package.json name is required when bin is a string'')"

definition inferPackageBin :: "world \<Rightarrow> string \<Rightarrow> string \<Rightarrow> string + string" where
  "inferPackageBin w cwd packageDir = bindE (readPackageJson w packageDir) (\<lambda>packageJson. case packageJson of
     None \<Rightarrow> Inl ''package.json cannot be read''
   | Some pj \<Rightarrow> if \<not> truthy pj then Inl ''package.json cannot be read'' else (case pget pj ''bin'' of
       JStr b \<Rightarrow> validatePackageBinTarget cwd b
     | JObj kvs \<Rightarrow> bindE (single_bin (JObj kvs)) (\<lambda>(_, target). validatePackageBinTarget cwd target)
     | JArr vs \<Rightarrow> bindE (single_bin (JArr vs)) (\<lambda>(_, target). validatePackageBinTarget cwd target)
     | _ \<Rightarrow> Inl ''package.json bin is required''))"

definition inferPackageBinName :: "world \<Rightarrow> string \<Rightarrow> string + string" where
  "inferPackageBinName w packageDir = bindE (readPackageJson w packageDir) (\<lambda>packageJson. case packageJson of
     None \<Rightarrow> Inl ''package.json cannot be read''
   | Some pj \<Rightarrow> if \<not> truthy pj then Inl ''package.json cannot be read'' else (case pget pj ''bin'' of
       JStr b \<Rightarrow> packageJsonCommandName (pget pj ''name'')
     | JObj kvs \<Rightarrow> bindE (single_bin (JObj kvs)) (\<lambda>(name, _). Inr name)
     | JArr vs \<Rightarrow> bindE (single_bin (JArr vs)) (\<lambda>(name, _). Inr name)
     | _ \<Rightarrow> Inl ''package.json bin is required''))"

section \<open>The manifest\<close>

definition nonblank :: "jsval \<Rightarrow> bool" where
  "nonblank v = (case v of JStr s \<Rightarrow> trim s \<noteq> [] | _ \<Rightarrow> False)"

definition validateStringArray :: "jsval \<Rightarrow> string \<Rightarrow> string + unit" where
  "validateStringArray v field = require
     (case v of JArr vs \<Rightarrow> vs \<noteq> [] \<and> list_all nonblank vs | _ \<Rightarrow> False) (field @ '' must be a non-empty string array'')"

definition is_object :: "jsval \<Rightarrow> bool" where
  "is_object v = (case v of JObj _ \<Rightarrow> True | JArr _ \<Rightarrow> True | _ \<Rightarrow> False)"

definition referenced_file :: "world \<Rightarrow> string \<Rightarrow> string \<Rightarrow> bool \<Rightarrow> jsval \<Rightarrow> string \<Rightarrow> string + unit" where
  "referenced_file w cwd packageDir refs v field = (if refs \<and> truthy v
     then bindE (validatePackageFile (fs w) cwd packageDir v field) (\<lambda>_. Inr ()) else Inr ())"

definition validateServiceManifest :: "world \<Rightarrow> string \<Rightarrow> string \<Rightarrow> jsval \<Rightarrow> bool \<Rightarrow> string + unit" where
  "validateServiceManifest w cwd packageDir manifest refs =
     bindE (member_of manifest ''schema'') (\<lambda>schema.
     bindE (require (schema = JStr ''chaitin.octobus.service.v1'') ''service.json schema must be chaitin.octobus.service.v1'') (\<lambda>_.
     bindE (require (nonblank (pget manifest ''name'')) ''service.json name must be a non-empty string'') (\<lambda>_.
     bindE (require (''id'' \<notin> fst ` set (entries_of manifest)) ''service.json must not define top-level id'') (\<lambda>_.
     bindE (require (''entry'' \<notin> fst ` set (entries_of manifest)) ''service.json must not define entry; use package.json bin'') (\<lambda>_.
     bindE (require (is_object (pget manifest ''proto'')) ''service.json proto is required'') (\<lambda>_.
     bindE (validateStringArray (pget (pget manifest ''proto'') ''roots'') ''service.json proto.roots'') (\<lambda>_.
     bindE (validateStringArray (pget (pget manifest ''proto'') ''files'') ''service.json proto.files'') (\<lambda>_.
     bindE (referenced_file w cwd packageDir refs (pget manifest ''configSchema'') ''service.json configSchema'') (\<lambda>_.
     referenced_file w cwd packageDir refs (pget manifest ''secretSchema'') ''service.json secretSchema'')))))))))"

text \<open>A manifest without a version takes that of package.json.\<close>

definition with_version :: "world \<Rightarrow> string \<Rightarrow> jsval \<Rightarrow> string + jsval" where
  "with_version w packageDir manifest = (case manifest of
     JObj kvs \<Rightarrow> if truthy (pget manifest ''version'') then Inr manifest
       else bindE (readPackageJson w packageDir) (\<lambda>pj. case pj of
          None \<Rightarrow> Inr (JObj (set_key kvs ''version'' JUndef))
        | Some v \<Rightarrow> Inr (JObj (set_key kvs ''version'' (pget v ''version''))))
   | _ \<Rightarrow> Inr manifest)"

definition readServiceManifestFile :: "world \<Rightarrow> string \<Rightarrow> string \<Rightarrow> string \<Rightarrow> bool \<Rightarrow> string + jsval" where
  "readServiceManifestFile w cwd manifestPath packageDir refs =
     bindE (read_file (fs w) manifestPath) (\<lambda>raw.
     bindE (parse w raw) (\<lambda>manifest.
     bindE (validateServiceManifest w cwd packageDir manifest refs) (\<lambda>_.
     with_version w packageDir manifest)))"

definition createDescriptorOnlyManifest :: "string \<Rightarrow> jsval" where
  "createDescriptorOnlyManifest descriptorPath = (
     let base = path_basename descriptorPath; ext = path_extname descriptorPath;
         name = (if ext \<noteq> [] \<and> ends_with base ext \<and> base \<noteq> ext then take (length base - length ext) base else base)
     in JObj [(''schema'', JStr ''chaitin.octobus.service.v1''),
       (''name'', JStr (if name \<noteq> [] then name else ''service'')),
       (''proto'', JObj [(''roots'', JArr []), (''files'', JArr [])])])"

definition resolveProtoFiles :: "world \<Rightarrow> string \<Rightarrow> string \<Rightarrow> string list \<Rightarrow> string list" where
  "resolveProtoFiles w cwd packageDir files = map (\<lambda>file.
     if is_absolute file then file
     else let fromPackageRoot = path_resolve cwd [packageDir, file]
       in if exists_sync (fs w) fromPackageRoot then fromPackageRoot else file) files"

section \<open>Loading a package\<close>

record loaded =
  ld_manifest :: jsval
  ld_entry :: string
  ld_grpcServices :: "grpc_service list"

text \<open>\<open>compile\<close> is protoc, or the descriptor set the environment names: from the proto files and include directories.\<close>

type_synonym compiler = "string list \<Rightarrow> string list \<Rightarrow> string + desc_service list"

definition loadServicePackage :: "world \<Rightarrow> compiler \<Rightarrow> string \<Rightarrow> string \<Rightarrow> string + loaded" where
  "loadServicePackage w compile cwd packageDir =
     bindE (readServiceManifestFile w cwd (path_join [packageDir, ''service.json'']) packageDir True) (\<lambda>manifest.
     bindE (inferPackageBin w cwd packageDir) (\<lambda>entry.
     let proto = pget manifest ''proto'';
         includeDirs = packageDir # map (\<lambda>r. path_resolve cwd [packageDir, r]) (strings_of (pget proto ''roots''));
         files = resolveProtoFiles w cwd packageDir (strings_of (pget proto ''files''))
     in bindE (compile files includeDirs) (\<lambda>services.
        Inr \<lparr>ld_manifest = manifest, ld_entry = entry, ld_grpcServices = grpc_services services\<rparr>)))"

text \<open>\<open>manifest.sdk?.cli?.commands\<close>.\<close>

definition cli_commands :: "jsval \<Rightarrow> jsval" where
  "cli_commands manifest = pget (pget (pget manifest ''sdk'') ''cli'') ''commands''"

section \<open>Lemmas\<close>

text \<open>The directory found is the nearest one: no directory below it has the file.\<close>

lemma nearest_root:
  "find_up files name d = Some r \<Longrightarrow>
     \<exists>n. r = (path_dirname ^^ n) d \<and> exists_sync files (path_join [r, name]) \<and>
       (\<forall>m < n. \<not> exists_sync files (path_join [(path_dirname ^^ m) d, name]))"
proof (induction files name d rule: find_up.induct)
  case (1 files name d)
  show ?case
  proof (cases "exists_sync files (path_join [d, name])")
    case True
    with 1(2) have "r = d" by (simp add: find_up.simps)
    with True have "r = (path_dirname ^^ 0) d \<and> exists_sync files (path_join [r, name])" by simp
    then show ?thesis by blast
  next
    case False
    with 1(2) have "path_dirname d \<noteq> d" "find_up files name (path_dirname d) = Some r"
      by (auto simp: find_up.simps [of files name d] split: if_splits)
    from 1(1) [OF False this] obtain n where n: "r = (path_dirname ^^ n) (path_dirname d)"
      "exists_sync files (path_join [r, name])"
      "\<forall>m < n. \<not> exists_sync files (path_join [(path_dirname ^^ m) (path_dirname d), name])" by blast
    have "\<not> exists_sync files (path_join [(path_dirname ^^ m) d, name])" if "m < Suc n" for m
      using that n(3) False by (cases m) (simp_all add: funpow_swap1)
    moreover have "r = (path_dirname ^^ Suc n) d" using n(1) by (simp add: funpow_swap1)
    ultimately show ?thesis using n(2) by blast
  qed
qed

text \<open>A file of a package that is accepted is a regular file whose path from the package does not climb.\<close>

lemma accepted_package_file:
  "validatePackageFile files cwd dir v field = Inr p \<Longrightarrow>
     \<exists>s t m. v = JStr s \<and> p = path_resolve cwd [dir, s] \<and> stat files p = Some (File t m) \<and>
       \<not> starts_with (path_relative (path_resolve cwd [dir]) p) ''..''"
  by (auto simp: validatePackageFile_def validateRelativePackagePath_def outside_def Let_def
      split: jsval.splits if_splits option.splits node.splits)

text \<open>A manifest that is accepted is an object with a name, proto roots and proto files.\<close>

lemma accepted_manifest:
  assumes "validateServiceManifest w cwd dir manifest refs = Inr u"
  shows "nonblank (pget manifest ''name'') \<and> pget manifest ''id'' = JUndef \<and> pget manifest ''entry'' = JUndef \<and>
    (\<exists>rs fs. pget (pget manifest ''proto'') ''roots'' = JArr rs \<and> pget (pget manifest ''proto'') ''files'' = JArr fs \<and>
       rs \<noteq> [] \<and> fs \<noteq> [] \<and> list_all nonblank (rs @ fs))"
proof -
  have absent: "k \<notin> fst ` set (entries_of manifest) \<Longrightarrow> pget manifest k = JUndef" for k
    by (auto simp: entries_of_def pget_def split: jsval.splits option.splits dest: map_of_SomeD) (metis fst_conv image_eqI map_of_SomeD)
  show ?thesis using assms
    by (auto simp: validateServiceManifest_def require_def validateStringArray_def split: if_splits jsval.splits intro!: absent)
qed

end
