(* ===== verification/SdkGenerate.thy ===== *)
theory SdkGenerate
  imports SdkPackage
begin

text \<open>
  What the SDK generates: client stubs (src/sdk/src/client-stub.ts), client packages
  (src/sdk/src/client-package.ts) and new service packages (src/sdk/src/bootstrap.ts), as texts and
  files, and the checks of names and paths before anything is written. The text of an Isabelle string
  with the quote and the newline of a line is written with \<open>q\<close> and \<open>join\<close>.
\<close>

section \<open>Texts\<close>

definition newline :: string where
  "newline = [CHR 0x0A]"

definition ident_start :: "char \<Rightarrow> bool" where
  "ident_start c \<longleftrightarrow> is_lower c \<or> is_upper c \<or> c = CHR ''_'' \<or> c = CHR ''$''"

definition ident_char :: "char \<Rightarrow> bool" where
  "ident_char c \<longleftrightarrow> ident_start c \<or> is_digit c"

definition is_identifier :: "string \<Rightarrow> bool" where
  "is_identifier s \<longleftrightarrow> s \<noteq> [] \<and> ident_start (hd s) \<and> list_all ident_char s"

definition validateIdentifier :: "string \<Rightarrow> string \<Rightarrow> string + unit" where
  "validateIdentifier v field = require (is_identifier v) (field @ '' '' @ json_quote v @ '' is not a valid JavaScript identifier'')"

definition transportLabel :: "transport \<Rightarrow> string" where
  "transportLabel t = (case t of Connect \<Rightarrow> ''Connect RPC'' | Grpc \<Rightarrow> ''gRPC'')"

text \<open>\<open>JSON.stringify(v, null, 2)\<close>, below an indentation.\<close>

fun json_pretty :: "string \<Rightarrow> jsval \<Rightarrow> string" where
  "json_pretty ind JUndef = ''null''"
| "json_pretty ind JNull = ''null''"
| "json_pretty ind (JBool b) = (if b then ''true'' else ''false'')"
| "json_pretty ind (JNum n) = (if is_finite_num n then num_str n else ''null'')"
| "json_pretty ind (JStr s) = json_quote s"
| "json_pretty ind (JArr vs) = (if vs = [] then ''[]'' else
     (let ind1 = ind @ ''  '' in ''['' @ newline @ ind1 @ join ('','' @ newline @ ind1) (map (json_pretty ind1) vs) @
        newline @ ind @ '']''))"
| "json_pretty ind (JObj kvs) = (let ind1 = ind @ ''  '';
     parts = map (\<lambda>(k, v). json_quote k @ '': '' @ json_pretty ind1 v) (filter (\<lambda>(k, v). v \<noteq> JUndef) kvs)
     in if parts = [] then ''{}'' else ''{'' @ newline @ ind1 @ join ('','' @ newline @ ind1) parts @ newline @ ind @ ''}'')"

section \<open>Client stubs\<close>

definition uniq :: "'a list \<Rightarrow> 'a list" where
  "uniq xs = rev (remdups (rev xs))"

definition short_service :: "string \<Rightarrow> string" where
  "short_service s = last (split_on CHR ''.'' s)"

text \<open>The name of a service in a stub: its last part, unless two services share that.\<close>

definition serviceAliasMap :: "string list \<Rightarrow> (string \<times> string) list" where
  "serviceAliasMap names = (let unique = uniq names in map (\<lambda>s. (s,
     if length (filter (\<lambda>t. short_service t = short_service s) unique) = 1 then short_service s else s)) unique)"

definition clientStubMethods :: "grpc_service list \<Rightarrow> transport \<Rightarrow> stub_method list" where
  "clientStubMethods services t = (let methods = discoverMethods services in
     if t = Connect then filter (\<lambda>m. sm_kind m = Unary) methods else methods)"

definition defaultClientStubFactoryName :: "transport \<Rightarrow> string" where
  "defaultClientStubFactoryName t = (case t of Connect \<Rightarrow> ''createConnectRpcClient'' | Grpc \<Rightarrow> ''createGrpcClient'')"

definition sdk_factory :: "transport \<Rightarrow> string" where
  "sdk_factory t = (case t of Connect \<Rightarrow> ''createConnectRpcStub'' | Grpc \<Rightarrow> ''createGrpcStub'')"

definition stub_line :: "stub_method \<Rightarrow> string" where
  "stub_line m = (let a = (if sm_kind m = ClientStreaming \<or> sm_kind m = BidiStreaming then ''requests'' else ''request'') in
     ''      '' @ json_quote (sm_methodName m) @ '': ('' @ a @ '', options) => stub.invoke('' @ json_quote (sm_fullName m) @ '', '' @ a @ '', options),'')"

definition stub_service_lines :: "stub_method list \<Rightarrow> string \<times> string \<Rightarrow> string list" where
  "stub_service_lines methods entry = (case entry of (service, al) \<Rightarrow>
     [''    '' @ json_quote al @ '': {''] @ map stub_line (filter (\<lambda>m. sm_serviceName m = service) methods) @ [''    },''])"

text \<open>The members of every stub, before those of its services; a later one of the same name wins.\<close>

definition stub_members :: "transport \<Rightarrow> string list" where
  "stub_members t = [''invoke'', ''services'', ''methods''] @ (if t = Grpc then [''raw'', ''close''] else [])"

definition generateClientStubSourceFromLoaded :: "grpc_service list \<Rightarrow> transport \<Rightarrow> string \<Rightarrow> bool \<Rightarrow> string + string" where
  "generateClientStubSourceFromLoaded services t factoryName descriptorBacked =
     bindE (validateIdentifier factoryName (transportLabel t @ '' stub factory name'')) (\<lambda>_.
     let methods = clientStubMethods services t;
         aliases = serviceAliasMap (map sm_serviceName methods);
         sdk = ''import { '' @ sdk_factory t @ '' } from '' @ json_quote ''@chaitin-ai/octobus-sdk'' @ '';''
     in Inr (join newline (
       (if descriptorBacked then [
          ''import { dirname, join } from '' @ json_quote ''node:path'' @ '';'',
          ''import { fileURLToPath } from '' @ json_quote ''node:url'' @ '';'',
          sdk, [],
          ''const __dirname = dirname(fileURLToPath(import.meta.url));'',
          ''const descriptorPath = join(__dirname, '' @ json_quote ''descriptors'' @ '', '' @ json_quote ''descriptor.pb'' @ '');'',
          ''const manifestPath = join(__dirname, '' @ json_quote ''descriptors'' @ '', '' @ json_quote ''service.json'' @ '');'', []]
        else [sdk, []]) @
       [''export function '' @ factoryName @ ''(options) {''] @
       (if descriptorBacked then [''  const stub = '' @ sdk_factory t @ ''({'', ''    ...options,'', ''    descriptorPath,'', ''    manifestPath,'', ''  });'']
        else [''  const stub = '' @ sdk_factory t @ ''(options);'']) @
       [[], ''  return {'', ''    invoke: stub.invoke,'', ''    services: stub.services,'', ''    methods: stub.methods,''] @
       (if t = Grpc then [''    raw: stub.raw,'', ''    close: () => stub.close(),''] else []) @
       concat (map (stub_service_lines methods) aliases) @
       [''  };'', ''}'', []])))"

section \<open>Client packages\<close>

record gen_file =
  gf_path :: string
  gf_content :: string
  gf_mode :: "nat option"

definition plain_file :: "string \<Rightarrow> string \<Rightarrow> gen_file" where
  "plain_file p c = \<lparr>gf_path = p, gf_content = c, gf_mode = None\<rparr>"

definition name_first :: "char \<Rightarrow> bool" where
  "name_first c \<longleftrightarrow> is_lower c \<or> is_digit c"

definition name_char :: "char \<Rightarrow> bool" where
  "name_char c \<longleftrightarrow> name_first c \<or> c \<in> set ''._~-''"

definition name_part :: "string \<Rightarrow> bool" where
  "name_part s \<longleftrightarrow> s \<noteq> [] \<and> name_first (hd s) \<and> list_all name_char s"

text \<open>The pattern of a package name: a part, or a scope and a part.\<close>

definition npm_name :: "string \<Rightarrow> bool" where
  "npm_name s \<longleftrightarrow> (case split_on CHR ''/'' s of
     [p] \<Rightarrow> name_part p
   | [scope, p] \<Rightarrow> starts_with scope ''@'' \<and> name_part (tl scope) \<and> name_part p
   | _ \<Rightarrow> False)"

definition validatePackageName :: "string \<Rightarrow> string \<Rightarrow> string + unit" where
  "validatePackageName v field =
     bindE (require (trim v \<noteq> []) (field @ '' is required'')) (\<lambda>_.
     bindE (require (length v \<le> 214) (field @ '' '' @ json_quote v @ '' is too long'')) (\<lambda>_.
     require (npm_name v) (field @ '' '' @ json_quote v @ '' is not a valid npm package name'')))"

definition quotePropertyIfNeeded :: "string \<Rightarrow> string" where
  "quotePropertyIfNeeded v = (if is_identifier v then v else json_quote v)"

fun split_where :: "(char \<Rightarrow> bool) \<Rightarrow> string \<Rightarrow> string list" where
  "split_where p [] = [[]]"
| "split_where p (c # s) = (if p c then [] # split_where p s
     else (case split_where p s of w # ws \<Rightarrow> (c # w) # ws | [] \<Rightarrow> [[c]]))"

definition capitalize :: "string \<Rightarrow> string" where
  "capitalize s = (case s of c # cs \<Rightarrow> upper_char c # cs | [] \<Rightarrow> [])"

definition serviceClientTypeName :: "string \<Rightarrow> string" where
  "serviceClientTypeName al = (
     let parts = filter (\<lambda>w. w \<noteq> []) (split_where (\<lambda>c. \<not> ident_char c) al);
         name = (if parts \<noteq> [] then concat (map capitalize parts) else ''Service'');
         safe = dropWhile (\<lambda>c. \<not> ident_start c) name
     in (if safe \<noteq> [] then safe else ''Service'') @ ''Client'')"

definition methodSignatureLines :: "stub_method \<Rightarrow> transport \<Rightarrow> string list" where
  "methodSignatureLines m t = (let n = quotePropertyIfNeeded (sm_methodName m);
     streaming = (\<lambda>result. [''  '' @ n @ ''('', ''    requests: Iterable<unknown> | AsyncIterable<unknown>,'',
        ''    options?: GrpcInvokeOptions,'', ''  ): '' @ result @ '';''])
     in if t = Connect \<or> sm_kind m = Unary then
       [''  '' @ n @ ''(request?: unknown, options?: '' @ (if t = Connect then ''ConnectRpcInvokeOptions'' else ''GrpcInvokeOptions'') @ ''): Promise<unknown>;'']
     else if sm_kind m = ServerStreaming then [''  '' @ n @ ''(request?: unknown, options?: GrpcInvokeOptions): GrpcReadableResult;'']
     else if sm_kind m = ClientStreaming then streaming ''Promise<unknown>''
     else streaming ''GrpcReadableResult'')"

definition generateClientPackageTypes :: "grpc_service list \<Rightarrow> transport \<Rightarrow> string \<Rightarrow> string" where
  "generateClientPackageTypes services t factoryName = (
     let methods = clientStubMethods services t; aliases = serviceAliasMap (map sm_serviceName methods);
         (base, options) = (if t = Connect then (''ConnectRpcStub'', ''ConnectRpcStubOptions'') else (''GrpcStub'', ''GrpcStubOptions''))
     in join newline (
       [(if t = Connect then ''import type { ConnectRpcInvokeOptions, ConnectRpcStub, ConnectRpcStubOptions } from ''
         else ''import type { GrpcInvokeOptions, GrpcReadableResult, GrpcStub, GrpcStubOptions } from '') @
         json_quote ''@chaitin-ai/octobus-sdk'' @ '';'', []] @
       concat (map (\<lambda>(service, al). [''export interface '' @ serviceClientTypeName al @ '' {''] @
          concat (map (\<lambda>m. methodSignatureLines m t) (filter (\<lambda>m. sm_serviceName m = service) methods)) @ [''}'', []]) aliases) @
       [''export function '' @ factoryName @ ''(options: '' @ options @ ''): '' @ base @ '' & {''] @
       map (\<lambda>(_, al). ''  '' @ quotePropertyIfNeeded al @ '': '' @ serviceClientTypeName al @ '';'') aliases @
       [''};'', []]))"

definition bundledDependencies :: "transport \<Rightarrow> string list" where
  "bundledDependencies t = ''@chaitin-ai/octobus-sdk'' # (if t = Grpc then [''@grpc/grpc-js''] else [])"

definition clientPackageJson :: "transport \<Rightarrow> string \<Rightarrow> bool \<Rightarrow> jsval" where
  "clientPackageJson t packageName bundleDeps = JObj ([(''name'', JStr packageName), (''version'', JStr ''0.1.0''),
     (''type'', JStr ''module''), (''main'', JStr ''index.js''), (''types'', JStr ''index.d.ts''),
     (''dependencies'', JObj ((''@chaitin-ai/octobus-sdk'', JStr ''*'') #
        (if t = Grpc then [(''@grpc/grpc-js'', JStr ''^1.13.4'')] else [])))] @
     (if bundleDeps then [(''bundledDependencies'', JArr (map JStr (bundledDependencies t)))] else []))"

definition client_readme :: "transport \<Rightarrow> string \<Rightarrow> string \<Rightarrow> string \<Rightarrow> string" where
  "client_readme t packageName servicePackageName factoryName = join newline [
     ''# '' @ packageName, [],
     ''Generated OctoBus '' @ transportLabel t @ '' client for `'' @ servicePackageName @ ''`.'', [],
     ''```js'',
     ''import { '' @ factoryName @ '' } from '' @ json_quote packageName @ '';'', [],
     ''const client = '' @ factoryName @ ''({'',
     (case t of
        Connect \<Rightarrow> ''  baseUrl: '' @ json_quote ''http://127.0.0.1:8080'' @ '','' @ newline @
          ''  capsetId: '' @ json_quote ''dev'' @ '','' @ newline @ ''  instanceId: '' @ json_quote ''instance-id'' @ '',''
      | Grpc \<Rightarrow> ''  address: '' @ json_quote ''127.0.0.1:50051'' @ '',''),
     ''});'', ''```'', []]"

text \<open>The descriptor set of the package, in its binary form, comes from the protobuf library.\<close>

definition generateClientPackageFiles ::
  "world \<Rightarrow> compiler \<Rightarrow> string \<Rightarrow> string \<Rightarrow> string \<Rightarrow> transport \<Rightarrow> string \<Rightarrow> string option \<Rightarrow> bool \<Rightarrow> string + gen_file list" where
  "generateClientPackageFiles w compile cwd packageDir descriptorSet t packageName factory bundleDeps =
     bindE (validatePackageName packageName ''client-package --name'') (\<lambda>_.
     bindE (case factory of Some f \<Rightarrow> validateIdentifier f ''client-package --factory'' | None \<Rightarrow> Inr ()) (\<lambda>_.
     bindE (loadServicePackage w compile cwd packageDir) (\<lambda>l.
     bindE (read_file (fs w) (path_join [packageDir, ''service.json''])) (\<lambda>manifestJson.
     let factoryName = or_default factory (defaultClientStubFactoryName t)
     in bindE (generateClientStubSourceFromLoaded (ld_grpcServices l) t factoryName True) (\<lambda>index.
     Inr [plain_file ''package.json'' (json_pretty [] (clientPackageJson t packageName bundleDeps) @ newline),
       plain_file ''README.md'' (client_readme t packageName (to_str (pget (ld_manifest l) ''name'')) factoryName),
       plain_file ''index.js'' index,
       plain_file ''index.d.ts'' (generateClientPackageTypes (ld_grpcServices l) t factoryName),
       plain_file (path_join [''descriptors'', ''descriptor.pb'']) descriptorSet,
       plain_file (path_join [''descriptors'', ''service.json'']) (if ends_with manifestJson newline then manifestJson else manifestJson @ newline)])))))"

section \<open>New service packages\<close>

record bootstrap_names =
  bn_packageName :: string
  bn_derivedName :: string
  bn_protoPackage :: string
  bn_serviceClass :: string
  bn_methodFullName :: string
  bn_entryPath :: string

definition bootstrapNames :: "string \<Rightarrow> bootstrap_names" where
  "bootstrapNames packageName = (
     let derived = (case split_last CHR ''/'' packageName of Some (_, n) \<Rightarrow> n | None \<Rightarrow> packageName);
         tokens = filter (\<lambda>w. w \<noteq> []) (split_where (\<lambda>c. \<not> name_first c) derived);
         safe = (if tokens \<noteq> [] then tokens else [''service'']);
         base = concat (map capitalize safe);
         cls = (if last safe = ''service'' then base else base @ ''Service'');
         pkg = join ''.'' safe @ ''.v1''
     in \<lparr>bn_packageName = packageName, bn_derivedName = derived, bn_protoPackage = pkg, bn_serviceClass = cls,
         bn_methodFullName = pkg @ ''.'' @ cls @ ''/Echo'', bn_entryPath = path_join [''bin'', derived @ ''.js'']\<rparr>)"

definition bootstrap_packageJson :: "bootstrap_names \<Rightarrow> string \<Rightarrow> bool \<Rightarrow> jsval" where
  "bootstrap_packageJson n sdkVersion bundleDeps = JObj ([(''name'', JStr (bn_packageName n)), (''version'', JStr ''0.1.0''),
     (''private'', JBool True), (''type'', JStr ''module''),
     (''bin'', JObj [(bn_derivedName n, JStr (bn_entryPath n))]),
     (''dependencies'', JObj [(''@chaitin-ai/octobus-sdk'', JStr sdkVersion)])] @
     (if bundleDeps then [(''bundledDependencies'', JArr [JStr ''@chaitin-ai/octobus-sdk''])] else []))"

definition serviceJson :: "bootstrap_names \<Rightarrow> string \<Rightarrow> jsval" where
  "serviceJson n runtimeMode = JObj [(''schema'', JStr ''chaitin.octobus.service.v1''), (''name'', JStr (bn_derivedName n)),
     (''displayName'', JStr (bn_serviceClass n)),
     (''description'', JStr (''Generated OctoBus JavaScript service package for '' @ bn_packageName n @ ''.'')),
     (''runtime'', JObj [(''mode'', JStr runtimeMode)]),
     (''proto'', JObj [(''roots'', JArr [JStr ''proto'']), (''files'', JArr [JStr (path_join [''proto'', bn_derivedName n @ ''.proto''])])]),
     (''configSchema'', JStr ''config.schema.json''), (''secretSchema'', JStr ''secret.schema.json'')]"

definition object_schema :: "string \<Rightarrow> string \<Rightarrow> jsval" where
  "object_schema field description = JObj [(''$schema'', JStr ''https://json-schema.org/draft/2020-12/schema''),
     (''type'', JStr ''object''), (''additionalProperties'', JBool True),
     (''properties'', JObj [(field, JObj [(''type'', JStr ''string''), (''description'', JStr description)])])]"

definition configSchema :: jsval where
  "configSchema = object_schema ''label'' ''Optional label returned by the generated Echo method.''"

definition secretSchema :: jsval where
  "secretSchema = object_schema ''apiToken'' ''Optional token returned by the generated Echo method.''"

definition protoSource :: "bootstrap_names \<Rightarrow> string" where
  "protoSource n = join newline [
     ''syntax = '' @ json_quote ''proto3'' @ '';'', ''package '' @ bn_protoPackage n @ '';'', [],
     ''service '' @ bn_serviceClass n @ '' {'', ''  rpc Echo(EchoRequest) returns (EchoResponse);'', ''}'', [],
     ''message EchoRequest {'', ''  string text = 1;'', ''}'', [],
     ''message EchoResponse {'', ''  string text = 1;'',
     ''  string service_id = 2 [json_name = '' @ json_quote ''serviceId'' @ ''];'',
     ''  string instance_id = 3 [json_name = '' @ json_quote ''instanceId'' @ ''];'',
     ''  string label = 4;'',
     ''  string business_request_id = 5 [json_name = '' @ json_quote ''businessRequestId'' @ ''];'',
     ''  string secret_token = 6 [json_name = '' @ json_quote ''secretToken'' @ ''];'', ''}'', []]"

definition handlerSource :: "bootstrap_names \<Rightarrow> string" where
  "handlerSource n = join newline [
     ''#!/usr/bin/env node'', [],
     ''import { defineService, runServiceMain } from '' @ json_quote ''@chaitin-ai/octobus-sdk'' @ '';'', [],
     ''const service = defineService({'', ''  handlers: {'',
     ''    '' @ json_quote (bn_methodFullName n) @ '': (ctx) => {'',
     ''      const request = ctx.request ?? {};'', ''      const config = ctx.config ?? {};'', ''      const secret = ctx.secret ?? {};'',
     ''      const businessRequestId = ctx.getMetadata('' @ json_quote ''x-octobus-ext-business-request-id'' @ '') ?? '' @ json_quote [] @ '';'', [],
     ''      return {'',
     ''        text: String(request.text ?? '' @ json_quote [] @ ''),'',
     ''        serviceId: ctx.serviceId,'', ''        instanceId: ctx.instanceId,'',
     ''        label: String(config.label ?? '' @ json_quote [] @ ''),'',
     ''        businessRequestId,'',
     ''        secretToken: String(secret.apiToken ?? '' @ json_quote [] @ ''),'',
     ''      };'', ''    },'', ''  },'', ''});'', [], ''runServiceMain(service);'', []]"

definition bootstrap_readme :: "bootstrap_names \<Rightarrow> string" where
  "bootstrap_readme n = (let q = [CHR 0x27] in join newline [
     ''# '' @ bn_packageName n, [], ''Generated OctoBus JavaScript service package.'', [], ''```bash'', ''npm install'',
     ''npx octobus-sdk validate --strict'',
     ''node '' @ bn_entryPath n @ '' --runtime dev --port 50051 --config-json '' @ q @ ''{}'' @ q @ '' --secret-json '' @ q @ ''{}'' @ q,
     ''```'', []])"

text \<open>The version of the SDK that a new package depends on, from the package.json nearest to its own module.\<close>

definition sdkDependencyVersion :: "world \<Rightarrow> string \<Rightarrow> string + string" where
  "sdkDependencyVersion w moduleDir = (case find_up (fs w) ''package.json'' moduleDir of
     None \<Rightarrow> Inl (''cannot find SDK package.json from '' @ moduleDir)
   | Some d \<Rightarrow> (let p = path_join [d, ''package.json''] in
       bindE (read_file (fs w) p) (\<lambda>raw. bindE (parse w raw) (\<lambda>v. bindE (member_of v ''version'') (\<lambda>version.
         case version of JStr s \<Rightarrow> if trim s \<noteq> [] then Inr (''^'' @ trim s) else Inl (''SDK package version is missing in '' @ p)
         | _ \<Rightarrow> Inl (''SDK package version is missing in '' @ p))))))"

definition bootstrap_files :: "bootstrap_names \<Rightarrow> string \<Rightarrow> string \<Rightarrow> bool \<Rightarrow> gen_file list" where
  "bootstrap_files n sdkVersion runtimeMode bundleDeps = [
     plain_file ''package.json'' (json_pretty [] (bootstrap_packageJson n sdkVersion bundleDeps) @ newline),
     plain_file ''service.json'' (json_pretty [] (serviceJson n runtimeMode) @ newline),
     plain_file ''README.md'' (bootstrap_readme n),
     plain_file ''config.schema.json'' (json_pretty [] configSchema @ newline),
     plain_file ''secret.schema.json'' (json_pretty [] secretSchema @ newline),
     plain_file (path_join [''proto'', bn_derivedName n @ ''.proto'']) (protoSource n),
     \<lparr>gf_path = bn_entryPath n, gf_content = handlerSource n, gf_mode = Some 493\<rparr>]"

definition generateBootstrapPackageFiles :: "world \<Rightarrow> string \<Rightarrow> string \<Rightarrow> string option \<Rightarrow> bool \<Rightarrow> string + gen_file list" where
  "generateBootstrapPackageFiles w moduleDir packageName mode bundleDeps =
     bindE (validatePackageName packageName ''bootstrap --name'') (\<lambda>_.
     bindE (case mode of Some m \<Rightarrow> validateBootstrapRuntimeMode m | None \<Rightarrow> Inr ()) (\<lambda>_.
     bindE (sdkDependencyVersion w moduleDir) (\<lambda>sdkVersion.
     Inr (bootstrap_files (bootstrapNames packageName) sdkVersion (or_default mode ''on-demand'') bundleDeps))))"

section \<open>Writing the files\<close>

definition assertInside :: "string \<Rightarrow> string \<Rightarrow> string \<Rightarrow> string + unit" where
  "assertInside base target relativePath = require (\<not> outside (path_relative base target))
     (''generated file path '' @ json_quote relativePath @ '' must stay inside the output directory'')"

text \<open>The files in order, up to the first whose path is not inside; what is written is its path, content and mode.\<close>

fun write_files :: "string \<Rightarrow> gen_file list \<Rightarrow> (string \<times> string \<times> nat option) list \<times> string option" where
  "write_files outDir [] = ([], None)"
| "write_files outDir (f # rest) = (let destination = path_resolve outDir [gf_path f] in
     case assertInside outDir destination (gf_path f) of
       Inl message \<Rightarrow> ([], Some message)
     | Inr _ \<Rightarrow> (case write_files outDir rest of (ws, e) \<Rightarrow> ((destination, gf_content f, gf_mode f) # ws, e)))"

definition occupied :: "node \<Rightarrow> string \<Rightarrow> bool \<Rightarrow> string + unit" where
  "occupied files outDir force = (case stat files outDir of
     None \<Rightarrow> Inr ()
   | Some n \<Rightarrow> if force then Inr () else (case n of
       Dir [] \<Rightarrow> Inr ()
     | Dir _ \<Rightarrow> Inl (''output directory '' @ outDir @ '' is not empty; pass --force to overwrite generated files'')
     | File _ _ \<Rightarrow> Inl (''ENOTDIR: not a directory, scandir '' @ [CHR 0x27] @ outDir @ [CHR 0x27])))"

text \<open>
  \<open>npm\<close> runs a command of npm in the directory; what it fails with has a standard error and output and
  a message.
\<close>

record npm_failure =
  nf_stderr :: "string option"
  nf_stdout :: "string option"
  nf_message :: string

definition bufferText :: "string option \<Rightarrow> string option" where
  "bufferText v = (case v of Some s \<Rightarrow> if trim s \<noteq> [] then Some (trim s) else None | None \<Rightarrow> None)"

definition commandErrorMessage :: "npm_failure \<Rightarrow> string" where
  "commandErrorMessage e = (case bufferText (nf_stderr e) of
     Some t \<Rightarrow> t
   | None \<Rightarrow> or_default (bufferText (nf_stdout e)) (nf_message e))"

definition run_npm :: "(string list \<Rightarrow> npm_failure + unit) \<Rightarrow> string list \<Rightarrow> string \<Rightarrow> string + unit" where
  "run_npm npm args outDir = (case npm args of
     Inr _ \<Rightarrow> Inr ()
   | Inl e \<Rightarrow> Inl (''npm '' @ join '' '' args @ '' failed in '' @ outDir @ '': '' @ commandErrorMessage e))"

definition write_package ::
  "node \<Rightarrow> (string list \<Rightarrow> npm_failure + unit) \<Rightarrow> string \<Rightarrow> bool \<Rightarrow> bool \<Rightarrow> bool \<Rightarrow> gen_file list \<Rightarrow>
     (string \<times> string \<times> nat option) list \<times> string option" where
  "write_package files npm outDir force bundleDeps publish gen = (case occupied files outDir force of
     Inl message \<Rightarrow> ([], Some message)
   | Inr _ \<Rightarrow> (case write_files outDir gen of
       (ws, Some message) \<Rightarrow> (ws, Some message)
     | (ws, None) \<Rightarrow> (case bindE (if bundleDeps then run_npm npm [''install'', ''--omit=dev''] outDir else Inr ())
           (\<lambda>_. if publish then run_npm npm [''publish''] outDir else Inr ()) of
         Inl message \<Rightarrow> (ws, Some message)
       | Inr _ \<Rightarrow> (ws, None))))"

definition writeClientPackage where
  "writeClientPackage w compile npm cwd packageDir descriptorSet t packageName factory outDir force bundleDeps publish =
     (case generateClientPackageFiles w compile cwd packageDir descriptorSet t packageName factory bundleDeps of
        Inl message \<Rightarrow> ([], Some message)
      | Inr gen \<Rightarrow> write_package (fs w) npm (path_resolve cwd [outDir]) force bundleDeps publish gen)"

definition writeBootstrapPackage where
  "writeBootstrapPackage w npm cwd moduleDir packageName mode outDir force bundleDeps =
     (case generateBootstrapPackageFiles w moduleDir packageName mode bundleDeps of
        Inl message \<Rightarrow> ([], Some message)
      | Inr gen \<Rightarrow> write_package (fs w) npm (path_resolve cwd [outDir]) force bundleDeps False gen)"

section \<open>Lemmas\<close>

lemma uniq_simps [simp]: "set (uniq xs) = set xs" "distinct (uniq xs)"
  by (simp_all add: uniq_def)

lemma short_service_short: "CHR ''.'' \<notin> set s \<Longrightarrow> short_service s = s"
  by (simp add: short_service_def split_on_no_sep)

lemma short_service_no_dot: "CHR ''.'' \<notin> set (short_service s)"
  unfolding short_service_def using split_on_parts [OF last_in_set [OF split_on_nonempty]] .

lemma one_with:
  assumes "length (filter p xs) = 1" and "distinct xs" and "x \<in> set xs" "y \<in> set xs" and "p x" "p y"
  shows "x = y"
proof -
  obtain z where "filter p xs = [z]" using assms(1) by (cases "filter p xs") auto
  moreover have "x \<in> set (filter p xs)" "y \<in> set (filter p xs)" using assms(3-6) by simp_all
  ultimately show ?thesis by simp
qed

text \<open>The services of a stub have different names in it.\<close>

lemma aliases_distinct:
  "map fst (serviceAliasMap names) = uniq names \<and> distinct (map snd (serviceAliasMap names))"
proof -
  let ?u = "uniq names"
  let ?one = "\<lambda>s. length (filter (\<lambda>t. short_service t = short_service s) ?u) = 1"
  let ?nm = "\<lambda>s. if ?one s then short_service s else s"
  have "inj_on ?nm (set ?u)"
  proof (rule inj_onI)
    fix s t
    assume st: "s \<in> set ?u" "t \<in> set ?u" "?nm s = ?nm t"
    have eq: "s = t" if "?one r" "r \<in> {s, t}" "short_service s = short_service t" for r
      using one_with [OF that(1) uniq_simps(2) st(1,2)] that(2,3) by auto
    show "s = t"
    proof (cases "?one s \<or> ?one t")
      case True
      then obtain r where r: "?one r" "r \<in> {s, t}" by blast
      have "short_service s = short_service t"
        using st(3) short_service_short [of s] short_service_short [of t] short_service_no_dot [of s] short_service_no_dot [of t]
        by (metis (no_types, lifting))
      with eq r show ?thesis by blast
    next
      case False
      with st(3) show ?thesis by simp
    qed
  qed
  then have "distinct (map ?nm ?u)" by (simp add: distinct_map)
  moreover have "map snd (serviceAliasMap names) = map ?nm ?u" "map fst (serviceAliasMap names) = ?u"
    by (simp_all add: serviceAliasMap_def Let_def comp_def)
  ultimately show ?thesis by simp
qed

text \<open>
  A service may take the name of a member of the stub: the generated object has the key twice, and the
  service replaces the member.
\<close>

lemma alias_shadows_member: "snd (hd (serviceAliasMap [''acme.close''])) \<in> set (stub_members Grpc)"
  by (simp add: serviceAliasMap_def uniq_def short_service_def stub_members_def)

text \<open>A package whose name starts with a digit gets a proto package and class that do.\<close>

lemma digit_name: "bn_protoPackage (bootstrapNames ''7zip'') = ''7zip.v1'' \<and> bn_serviceClass (bootstrapNames ''7zip'') = ''7zipService''"
  by code_simp

text \<open>The parts of an accepted name.\<close>

lemma name_part_chars: "name_part s \<Longrightarrow> s \<noteq> [] \<and> CHR ''/'' \<notin> set s \<and> name_first (hd s)"
  by (auto simp: name_part_def name_char_def name_first_def list_all_iff is_lower_def is_digit_def code_of_def)

lemma derived_name:
  assumes "npm_name name"
  shows "name_part (bn_derivedName (bootstrapNames name))"
proof -
  have d: "bn_derivedName (bootstrapNames name) = (case split_last CHR ''/'' name of Some (_, n) \<Rightarrow> n | None \<Rightarrow> name)"
    by (simp add: bootstrapNames_def Let_def)
  consider (plain) p where "split_on CHR ''/'' name = [p]" "name_part p"
    | (scoped) scope p where "split_on CHR ''/'' name = [scope, p]" "name_part p"
    using assms unfolding npm_name_def by (auto split: list.splits)
  then show ?thesis
  proof cases
    case plain
    then have "name = p" using join_split_on [of "CHR ''/''" name] by simp
    with plain(2) d name_part_chars [of p] show ?thesis by (simp add: split_last_def)
  next
    case scoped
    then have "name = scope @ CHR ''/'' # p" using join_split_on [of "CHR ''/''" name] by simp
    with scoped(2) d name_part_chars [of p] split_last_append [of "CHR ''/''" p scope] show ?thesis by simp
  qed
qed

end
