(* ===== verification/SdkValidation.thy ===== *)
theory SdkValidation
  imports SdkPackage
begin

text \<open>
  The checks of octobus-sdk validate (src/sdk/src/validation.ts), as a function from the world to the
  issues found, and what a package that passes them can rely on: the table of its service CLI can be
  built, and with strict handlers every method of it has one.
\<close>

section \<open>Issues\<close>

datatype severity = IsError | IsWarning

type_synonym issue = "severity \<times> string"

text \<open>Checks that add issues and may throw: the issues so far, and the message of what was thrown.\<close>

type_synonym check = "issue list \<times> string option"

definition and_then :: "check \<Rightarrow> check \<Rightarrow> check" where
  "and_then c1 c2 = (case c1 of (is, None) \<Rightarrow> (is @ fst c2, snd c2) | _ \<Rightarrow> c1)"

definition issue_if :: "bool \<Rightarrow> string \<Rightarrow> issue list" where
  "issue_if b message = (if b then [(IsError, message)] else [])"

section \<open>Commands of the manifest\<close>

definition is_string :: "jsval \<Rightarrow> bool" where
  "is_string v = (case v of JStr _ \<Rightarrow> True | _ \<Rightarrow> False)"

definition example_issues :: "string \<Rightarrow> nat \<Rightarrow> jsval \<Rightarrow> issue list" where
  "example_issues label i example = (
     let here = label @ ''.examples['' @ nat_str i @ '']'' in
     if (case example of JObj _ \<Rightarrow> False | _ \<Rightarrow> True) then [(IsError, here @ '' must be an object'')]
     else issue_if (case pget example ''argv'' of JArr as \<Rightarrow> \<not> list_all is_string as | _ \<Rightarrow> True)
            (here @ ''.argv must be a string array'') @
          issue_if (pget example ''description'' \<noteq> JUndef \<and> \<not> is_string (pget example ''description''))
            (here @ ''.description must be a string''))"

definition validateCliCommandExamples :: "string \<Rightarrow> jsval \<Rightarrow> issue list" where
  "validateCliCommandExamples label examples = (case examples of
     JUndef \<Rightarrow> []
   | JArr es \<Rightarrow> concat (map (\<lambda>(i, e). example_issues label i e) (enumerate 0 es))
   | _ \<Rightarrow> [(IsError, label @ ''.examples must be an array'')])"

text \<open>One entry of \<open>sdk.cli.commands\<close>.\<close>

definition command_check :: "string list \<Rightarrow> string list \<Rightarrow> string \<times> jsval \<Rightarrow> check" where
  "command_check unary streaming entry = (case entry of (method, config) \<Rightarrow>
     let normalized = normalizeMethod method; label = ''service.json sdk.cli.commands '' @ method in
     if normalized \<in> set streaming then ([(IsError, label @ '' targets streaming method '' @ normalized)], None)
     else and_then (issue_if (normalized \<notin> set unary) (label @ '' does not match any unary service method''), None)
       (if config = JNull then ([], Some (''Cannot read properties of null (reading '' @ [CHR 0x27] @ ''name'' @ [CHR 0x27] @ '')''))
        else (issue_if (pget config ''name'' \<noteq> JUndef \<and> \<not> nonblank (pget config ''name'')) (label @ ''.name must be a non-empty string'') @
          issue_if (pget config ''description'' \<noteq> JUndef \<and> \<not> is_string (pget config ''description'')) (label @ ''.description must be a string'') @
          validateCliCommandExamples label (pget config ''examples''), None)))"

definition short_name :: "string \<Rightarrow> string" where
  "short_name m = (case split_last CHR ''/'' m of Some (_, n) \<Rightarrow> n | None \<Rightarrow> m)"

text \<open>The second loop: the name of every unary method's command, against those before.\<close>

fun command_names :: "jsval \<Rightarrow> string list \<Rightarrow> (string \<times> string) list \<Rightarrow> check" where
  "command_names metadata [] names = ([], None)"
| "command_names metadata (m # ms) names = (case command_name (command_metadata metadata m) (short_name m) of
     Inl message \<Rightarrow> ([], Some message)
   | Inr command \<Rightarrow> (case map_of names command of
       Some existing \<Rightarrow> and_then ([(IsError, ''service CLI command '' @ command @ '' maps to both '' @ existing @ '' and '' @ m)], None)
         (command_names metadata ms names)
     | None \<Rightarrow> command_names metadata ms ((command, m) # names)))"

definition validateCliCommands :: "jsval \<Rightarrow> string list \<Rightarrow> string list \<Rightarrow> check" where
  "validateCliCommands commands unary streaming = (let metadata = coalesce commands (JObj []) in
     and_then (foldr and_then (map (command_check unary streaming) (entries_of metadata)) ([], None))
       (command_names metadata unary []))"

section \<open>Handlers\<close>

fun handler_keys :: "string list \<Rightarrow> string list \<Rightarrow> string list \<Rightarrow> string list \<Rightarrow> issue list" where
  "handler_keys unary streaming seen [] = []"
| "handler_keys unary streaming seen (key # keys) = (let normalized = normalizeMethod key in
     (if normalized \<in> set seen then [(IsWarning, ''handler '' @ key @ '' duplicates another handler for '' @ normalized)] else []) @
     issue_if (normalized \<notin> set unary \<and> normalized \<notin> set streaming)
       (''handler '' @ key @ '' does not match any service method in service.json proto files'') @
     handler_keys unary streaming (normalized # seen) keys)"

definition validateHandlers :: "string list \<Rightarrow> string list \<Rightarrow> string list \<Rightarrow> bool \<Rightarrow> issue list" where
  "validateHandlers keys unary streaming strictHandlers = handler_keys unary streaming [] keys @
     map (\<lambda>m. (if strictHandlers then IsError else IsWarning, ''method '' @ m @ '' has no handler and will return UNIMPLEMENTED''))
       (filter (\<lambda>m. m \<notin> normalizeMethod ` set keys) (sort (unary @ streaming)))"

section \<open>The whole validation\<close>

definition discoverGrpcMethods :: "grpc_service list \<Rightarrow> (string \<times> bool) list" where
  "discoverGrpcMethods services = concat (map (\<lambda>s. map (\<lambda>(n, d).
     (full_name (gs_name s) n, \<not> md_requestStream d \<and> \<not> md_responseStream d)) (gs_definition s)) services)"

definition unary_methods :: "grpc_service list \<Rightarrow> string list" where
  "unary_methods services = sort (map fst (filter snd (discoverGrpcMethods services)))"

definition streaming_methods :: "grpc_service list \<Rightarrow> string list" where
  "streaming_methods services = sort (map fst (filter (\<lambda>m. \<not> snd m) (discoverGrpcMethods services)))"

record validation =
  vr_valid :: bool
  vr_packageDir :: "string option"
  vr_entry :: "string option"
  vr_unary :: "string list"
  vr_streaming :: "string list"
  vr_issues :: "issue list"

definition failed_with :: "string option \<Rightarrow> string option \<Rightarrow> string list \<Rightarrow> string list \<Rightarrow> issue list \<Rightarrow> string \<Rightarrow> validation" where
  "failed_with dir entry unary streaming issues message = \<lparr>vr_valid = False, vr_packageDir = dir, vr_entry = entry,
     vr_unary = unary, vr_streaming = streaming, vr_issues = issues @ [(IsError, message)]\<rparr>"

text \<open>The keys of the handlers are those of a service definition, when one is given.\<close>

definition validateService ::
  "world \<Rightarrow> compiler \<Rightarrow> string \<Rightarrow> string option \<Rightarrow> string list option \<Rightarrow> bool \<Rightarrow> validation" where
  "validateService w compile cwd fromFile keys strictHandlers = (case findPackageRoot w cwd fromFile of
     Inl message \<Rightarrow> failed_with None None [] [] [] message
   | Inr dir \<Rightarrow> (case inferPackageBin w cwd dir of
       Inl message \<Rightarrow> failed_with (Some dir) None [] [] [] message
     | Inr entry \<Rightarrow> (case bindE (validatePackageFile (fs w) cwd dir (JStr entry) ''package.json bin'') (\<lambda>_. loadServicePackage w compile cwd dir) of
         Inl message \<Rightarrow> failed_with (Some dir) (Some entry) [] [] [] message
       | Inr l \<Rightarrow> (let unary = unary_methods (ld_grpcServices l); streaming = streaming_methods (ld_grpcServices l) in
           case validateCliCommands (cli_commands (ld_manifest l)) unary streaming of
             (issues, Some message) \<Rightarrow> failed_with (Some dir) (Some entry) unary streaming issues message
           | (issues, None) \<Rightarrow> (let all = issues @ (case keys of None \<Rightarrow> [] | Some ks \<Rightarrow> validateHandlers ks unary streaming strictHandlers)
               in \<lparr>vr_valid = list_all (\<lambda>i. fst i \<noteq> IsError) all, vr_packageDir = Some dir, vr_entry = Some entry,
                   vr_unary = unary, vr_streaming = streaming, vr_issues = all\<rparr>)))))"

definition formatValidationIssues :: "issue list \<Rightarrow> string" where
  "formatValidationIssues issues = join [CHR 0x0A] (map (\<lambda>(s, m).
     (case s of IsError \<Rightarrow> ''error'' | IsWarning \<Rightarrow> ''warning'') @ '': '' @ m) issues)"

definition assertValidService :: "validation \<Rightarrow> string + unit" where
  "assertValidService r = (let errors = filter (\<lambda>i. fst i = IsError) (vr_issues r) in
     if errors \<noteq> [] then Inl (formatValidationIssues errors) else Inr ())"

section \<open>Lemmas\<close>

definition clean :: "check \<Rightarrow> bool" where
  "clean c \<longleftrightarrow> snd c = None \<and> list_all (\<lambda>i. fst i \<noteq> IsError) (fst c)"

lemma clean_and_then [simp]: "clean (and_then c1 c2) \<longleftrightarrow> clean c1 \<and> clean c2"
  by (cases c1; cases "snd c1"; cases c2) (auto simp: clean_def and_then_def)

lemma clean_error [simp]: "\<not> clean ((IsError, m) # is, t)" "\<not> clean (is, Some u)"
  by (simp_all add: clean_def)

text \<open>The name of a method's command, and when the second loop finds nothing: the names exist and differ.\<close>

definition named :: "jsval \<Rightarrow> string \<Rightarrow> string" where
  "named metadata m = (case command_name (command_metadata metadata m) (short_name m) of Inr c \<Rightarrow> c | Inl _ \<Rightarrow> [])"

lemma command_names_clean:
  "clean (command_names metadata ms names) \<Longrightarrow>
    (\<forall>m \<in> set ms. command_name (command_metadata metadata m) (short_name m) = Inr (named metadata m)) \<and>
    distinct (map (named metadata) ms) \<and> (\<forall>m \<in> set ms. named metadata m \<notin> fst ` set names)"
proof (induction ms arbitrary: names)
  case (Cons m ms)
  then obtain c where c: "command_name (command_metadata metadata m) (short_name m) = Inr c"
    by (cases "command_name (command_metadata metadata m) (short_name m)") auto
  with Cons.prems have new: "map_of names c = None" "clean (command_names metadata ms ((c, m) # names))"
    by (auto split: option.splits)
  have n: "named metadata m = c" by (simp add: named_def c)
  from Cons.IH [OF new(2)] new(1) c n show ?case by (auto simp: map_of_eq_None_iff)
qed simp

lemma add_commands_built:
  assumes "\<forall>(s, n, d) \<in> set ms. listed handlers (s, n, d) \<longrightarrow>
      command_name (command_metadata metadata (full_name s n)) n = Inr (cn (full_name s n))"
    and "distinct (map (\<lambda>(s, n, d). cn (full_name s n)) (filter (listed handlers) ms))"
    and "\<forall>(s, n, d) \<in> set (filter (listed handlers) ms). cn (full_name s n) \<notin> cm_command ` set cs"
  shows "\<exists>cs1. add_commands metadata handlers ms cs = Inr cs1"
  using assms
proof (induction ms arbitrary: cs)
  case (Cons m ms)
  obtain s n d where m: "m = (s, n, d)" by (cases m)
  show ?case
  proof (cases "listed handlers (s, n, d)")
    case False
    then have "add_command metadata handlers s (n, d) cs = Inr cs"
      by (auto simp: add_command_def listed_def unary_iff Let_def)
    with Cons m False show ?thesis by simp
  next
    case True
    let ?c = "cn (full_name s n)"
    have name: "command_name (command_metadata metadata (full_name s n)) n = Inr ?c" and new: "?c \<notin> cm_command ` set cs"
      using Cons.prems True m by auto
    have "find (\<lambda>c. cm_command c = ?c) cs = None" using new by (fastforce simp: find_None_iff image_iff)
    then obtain c where c: "add_command metadata handlers s (n, d) cs = Inr (cs @ [c])" "cm_command c = ?c"
      using True name by (auto simp: add_command_def listed_def unary_iff Let_def)
    have "\<exists>cs1. add_commands metadata handlers ms (cs @ [c]) = Inr cs1"
    proof (rule Cons.IH)
      show "\<forall>(s, n, d) \<in> set ms. listed handlers (s, n, d) \<longrightarrow>
          command_name (command_metadata metadata (full_name s n)) n = Inr (cn (full_name s n))"
        using Cons.prems(1) by simp
      show "distinct (map (\<lambda>(s, n, d). cn (full_name s n)) (filter (listed handlers) ms))"
        using Cons.prems(2) True m by simp
      have "?c \<notin> (\<lambda>(s, n, d). cn (full_name s n)) ` set (filter (listed handlers) ms)"
        using Cons.prems(2) True m by simp
      then show "\<forall>(s, n, d) \<in> set (filter (listed handlers) ms). cn (full_name s n) \<notin> cm_command ` set (cs @ [c])"
        using Cons.prems(3) c(2) by (simp add: split_def image_iff) metis
    qed
    with c(1) m show ?thesis by simp
  qed
qed simp

lemma command_metadata_default: "command_metadata (coalesce commands (JObj [])) m = command_metadata commands m"
  by (cases commands) (simp_all add: command_metadata_def coalesce_def nullish_def pget_def)

lemma named_default: "named (coalesce commands (JObj [])) = named commands"
  by (simp add: named_def fun_eq_iff command_metadata_default)

lemma short_name_full: "CHR ''/'' \<notin> set n \<Longrightarrow> short_name (full_name s n) = n"
  using split_last_append [of "CHR ''/''" n s] by (simp add: short_name_def full_name_def)

lemma discovered_unary:
  "map fst (filter snd (discoverGrpcMethods services)) =
   map (\<lambda>(s, n, d). full_name s n) (filter (\<lambda>(s, n, d). kind_of d = Unary) (all_methods services))"
proof (induction services)
  case (Cons svc services)
  have "map fst (filter snd (map (\<lambda>(n, d). (full_name (gs_name svc) n, \<not> md_requestStream d \<and> \<not> md_responseStream d)) ds)) =
      map (\<lambda>(s, n, d). full_name s n) (filter (\<lambda>(s, n, d). kind_of d = Unary) (map (Pair (gs_name svc)) ds))" for ds
    by (induction ds) (auto simp: unary_iff)
  with Cons show ?case by (simp add: discoverGrpcMethods_def all_methods_def)
qed (simp add: discoverGrpcMethods_def all_methods_def)

lemma distinct_map_sort: "distinct (map f (sort xs)) \<longleftrightarrow> distinct (map f xs)"
  by (rule mset_eq_imp_distinct_iff) simp

text \<open>A table whose commands have been checked can be built.\<close>

lemma checked_table:
  assumes clean: "clean (validateCliCommands commands (unary_methods services) streaming)"
    and names: "\<forall>(s, n, d) \<in> set (all_methods services). CHR ''/'' \<notin> set n"
  shows "\<exists>cs. buildServiceCliCommands collate services commands handlers = Inr cs \<and>
    cm_method ` set cs = (\<lambda>(s, n, d). full_name s n) ` set (filter (listed handlers) (all_methods services))"
proof -
  let ?ms = "all_methods services" and ?full = "\<lambda>(s, n, d). full_name s n" and ?meta = "coalesce commands (JObj [])"
  let ?unary = "filter (\<lambda>(s, n, d). kind_of d = Unary) ?ms"
  have u: "unary_methods services = sort (map ?full ?unary)" by (simp add: unary_methods_def discovered_unary)
  have "clean (command_names ?meta (unary_methods services) [])"
    using clean by (simp add: validateCliCommands_def Let_def)
  from command_names_clean [OF this]
  have ok: "\<forall>m \<in> set (map ?full ?unary). command_name (command_metadata commands m) (short_name m) = Inr (named commands m)"
    and dist: "distinct (map (named commands) (map ?full ?unary))"
    unfolding u named_default by (simp_all add: command_metadata_default distinct_map_sort)
  have "\<forall>(s, n, d) \<in> set ?ms. listed handlers (s, n, d) \<longrightarrow>
      command_name (command_metadata commands (full_name s n)) n = Inr (named commands (full_name s n))"
    using ok names by (fastforce simp: listed_def short_name_full)
  moreover have sub: "filter (listed handlers) ms = filter (listed handlers) (filter (\<lambda>(s, n, d). kind_of d = Unary) ms)" for ms
    by (induction ms) (auto simp: listed_def)
  then have "distinct (map (\<lambda>(s, n, d). named commands (full_name s n)) (filter (listed handlers) ?ms))"
    using distinct_map_filter [OF dist [unfolded map_map], of "listed handlers"]
    unfolding sub [of ?ms] by (simp add: comp_def split_def)
  ultimately have "\<exists>cs. add_commands commands handlers ?ms [] = Inr cs"
    by (intro add_commands_built) auto
  then obtain cs where cs: "add_commands commands handlers ?ms [] = Inr cs" by blast
  with add_commands_table [OF cs] show ?thesis by (simp add: buildServiceCliCommands_def)
qed

lemma handled_method:
  assumes "m \<in> normalizeMethod ` fst ` set handlers"
  shows "findHandler handlers m \<noteq> None"
proof -
  obtain key h where k: "(key, h) \<in> set handlers" "normalizeMethod key = m" using assms by auto
  then have "key = m \<or> key = CHR ''/'' # m" by (cases key) (auto simp: normalizeMethod_def split: if_splits)
  moreover have "map_of handlers key \<noteq> None" using weak_map_of_SomeI [OF k(1)] by auto
  ultimately show ?thesis by (auto simp: findHandler_def split: option.splits)
qed

lemma strict_handlers:
  assumes "list_all (\<lambda>i. fst i \<noteq> IsError) (validateHandlers (map fst handlers) unary streaming True)"
    and "m \<in> set unary \<union> set streaming"
  shows "findHandler handlers m \<noteq> None"
proof (rule handled_method, rule ccontr)
  assume "m \<notin> normalizeMethod ` fst ` set handlers"
  with assms(2) have "(IsError, ''method '' @ m @ '' has no handler and will return UNIMPLEMENTED'')
      \<in> set (validateHandlers (map fst handlers) unary streaming True)"
    by (auto simp: validateHandlers_def)
  with assms(1) show False by (auto simp: list_all_iff)
qed

text \<open>What a valid result says of the package.\<close>

lemma valid_package:
  assumes "vr_valid (validateService w compile cwd fromFile (Some keys) strict)"
  obtains dir entry l where "findPackageRoot w cwd fromFile = Inr dir"
    "inferPackageBin w cwd dir = Inr entry" "loadServicePackage w compile cwd dir = Inr l"
    "clean (validateCliCommands (cli_commands (ld_manifest l)) (unary_methods (ld_grpcServices l)) (streaming_methods (ld_grpcServices l)))"
    "list_all (\<lambda>i. fst i \<noteq> IsError) (validateHandlers keys (unary_methods (ld_grpcServices l)) (streaming_methods (ld_grpcServices l)) strict)"
  using assms unfolding validateService_def
  by (auto simp: failed_with_def clean_def Let_def split: sum.splits prod.splits option.splits)

section \<open>Property\<close>

text \<open>Protobuf names: no name of a method has a slash.\<close>

definition protobuf_names :: "compiler \<Rightarrow> bool" where
  "protobuf_names compile \<longleftrightarrow> (\<forall>files dirs services s m. compile files dirs = Inr services \<and>
     s \<in> set services \<and> m \<in> set (dss_methods s) \<longrightarrow> CHR ''/'' \<notin> set (dsm_name m))"

lemma from_entries_member: "(k, v) \<in> set (from_entries kvs) \<Longrightarrow> \<exists>u. (k, u) \<in> set kvs"
proof -
  have "fst ` set (foldl (\<lambda>ob (k, v). set_key ob k v) ob kvs) = fst ` set ob \<union> fst ` set kvs" for ob
    by (induction kvs arbitrary: ob) (simp_all add: keys_set_key split_def)
  from this [of "[]"] show "(k, v) \<in> set (from_entries kvs) \<Longrightarrow> \<exists>u. (k, u) \<in> set kvs"
    by (force simp: from_entries_def)
qed

lemma loaded_names:
  assumes "protobuf_names compile" and "loadServicePackage w compile cwd dir = Inr l"
  shows "\<forall>(s, n, d) \<in> set (all_methods (ld_grpcServices l)). CHR ''/'' \<notin> set n"
proof -
  from assms(2) obtain files dirs services where c: "compile files dirs = Inr services"
    and l: "ld_grpcServices l = grpc_services services"
    by (auto simp: loadServicePackage_def Let_def)
  have "CHR ''/'' \<notin> set n" if "s \<in> set services" "(n, d) \<in> set (createGrpcServiceDefinition s)" for s n d
    using from_entries_member [OF that(2) [unfolded createGrpcServiceDefinition_def]] that(1) assms(1) c
    unfolding protobuf_names_def by fastforce
  then show ?thesis by (auto simp: l all_methods_def grpc_services_def)
qed


text \<open>A package with a manifest, an entry and two methods.\<close>

definition sample_package :: world where
  "sample_package = \<lparr>fs = Dir [(''p'', Dir [(''service.json'', File ''manifest'' 420), (''package.json'', File ''package'' 420),
       (''bin'', Dir [(''x.js'', File [] 493)])])],
     fds = (\<lambda>_. Inl ''EBADF''), env = (\<lambda>_. None),
     parse = (\<lambda>t. if t = ''manifest'' then Inr (JObj [(''schema'', JStr ''chaitin.octobus.service.v1''), (''name'', JStr ''x''),
         (''proto'', JObj [(''roots'', JArr [JStr ''proto'']), (''files'', JArr [JStr ''x.proto''])])])
       else Inr (JObj [(''name'', JStr ''x''), (''version'', JStr ''1''), (''bin'', JStr ''bin/x.js'')]))\<rparr>"

definition sample_compiler :: compiler where
  "sample_compiler files dirs = Inr [sample_service]"


end
