(* ===== verification/SdkBootstrap.thy ===== *)
theory SdkBootstrap
  imports SdkGenerate SdkValidation
begin

text \<open>
  From octobus-sdk bootstrap to octobus-sdk validate: a package that has been generated, written and
  read back passes the strict validation its README asks for.
\<close>

section \<open>Names and paths of a new package\<close>

lemma clean_seg_ext:
  assumes "name_part d" and "CHR ''/'' \<notin> set e" and "e \<noteq> []"
  shows "clean_seg (d @ e) \<and> d @ e \<noteq> ''..''"
proof -
  have "d \<noteq> []" "CHR ''/'' \<notin> set d" "name_first (hd d)" using name_part_chars [OF assms(1)] by simp_all
  moreover have "hd d \<noteq> CHR ''.''" using \<open>name_first (hd d)\<close> by (auto simp: name_first_def is_lower_def is_digit_def code_of_def)
  ultimately show ?thesis using assms by (cases d) (auto simp: clean_seg_def)
qed

lemma path_join_pair:
  assumes "clean_segs [a, b]"
  shows "path_join [a, b] = join ''/'' [a, b]"
  using path_join_clean [of "[a]" b] assms by (simp add: clean_segs_def)

definition clean_path :: "string \<Rightarrow> bool" where
  "clean_path p \<longleftrightarrow> (\<exists>xs. clean_segs xs \<and> p = join ''/'' xs \<and> \<not> starts_with p ''..'')"

lemma clean_path_one: "clean_seg d \<Longrightarrow> \<not> starts_with d ''..'' \<Longrightarrow> clean_path d"
  unfolding clean_path_def by (rule exI [of _ "[d]"]) (auto simp: clean_segs_def)

lemma clean_path_two:
  assumes "clean_segs [a, b]" and "\<not> starts_with a ''.''"
  shows "clean_path (path_join [a, b])"
proof -
  have "a \<noteq> []" using assms(1) by (auto simp: clean_segs_def clean_seg_def)
  then have "\<not> starts_with (join ''/'' [a, b]) ''..''" using assms(2) by (cases a) auto
  then show ?thesis using assms(1) path_join_pair [OF assms(1)] by (auto simp: clean_path_def)
qed

text \<open>A clean path below a directory is accepted, however it is joined to it.\<close>

lemma below:
  assumes "clean_segs ds" and "clean_path p"
  shows "path_resolve cwd [abs_path ds, p] = abs_path ds @ CHR ''/'' # p" and "path_resolve (abs_path ds) [p] = abs_path ds @ CHR ''/'' # p"
    and "path_join [abs_path ds, p] = abs_path ds @ CHR ''/'' # p" and "path_resolve (abs_path ds) [''.'', p] = abs_path ds @ CHR ''/'' # p"
    and "path_relative (abs_path ds) (abs_path ds @ CHR ''/'' # p) = p" and "\<not> outside p" and "\<not> is_absolute p" and "p \<noteq> []"
proof -
  obtain xs where xs: "clean_segs xs" "p = join ''/'' xs" "\<not> starts_with p ''..''" using assms(2) by (auto simp: clean_path_def)
  note eqs = resolve_below [OF assms(1) xs(1)] resolve_own [OF assms(1) xs(1)] join_below [OF assms(1) xs(1)]
    resolve_below_dot [OF assms(1) xs(1)] relative_below [OF assms(1) xs(1)] abs_path_append [OF assms(1) xs(1)]
  note ends = join_clean_ends [OF xs(1)]
  show "path_resolve cwd [abs_path ds, p] = abs_path ds @ CHR ''/'' # p" "path_resolve (abs_path ds) [p] = abs_path ds @ CHR ''/'' # p"
    "path_join [abs_path ds, p] = abs_path ds @ CHR ''/'' # p" "path_resolve (abs_path ds) [''.'', p] = abs_path ds @ CHR ''/'' # p"
    "path_relative (abs_path ds) (abs_path ds @ CHR ''/'' # p) = p"
    using eqs by (simp_all add: xs(2))
  show "\<not> outside p" "\<not> is_absolute p" "p \<noteq> []" using ends xs(3) by (simp_all add: outside_def xs(2))
qed

lemma write_clean_files:
  assumes "clean_segs ds" and "\<forall>f \<in> set gen. clean_path (gf_path f)"
  shows "write_files (abs_path ds) gen =
    (map (\<lambda>f. (abs_path ds @ CHR ''/'' # gf_path f, gf_content f, gf_mode f)) gen, None)"
  using assms(2)
proof (induction gen)
  case (Cons f gen)
  then have "clean_path (gf_path f)" by simp
  note b = below [OF assms(1) this]
  from Cons show ?case by (simp add: b assertInside_def require_def Let_def)
qed simp

section \<open>The files of a new package\<close>

lemma generated_name:
  assumes "generateBootstrapPackageFiles w moduleDir name mode bundle = Inr gen"
  shows "name_part (bn_derivedName (bootstrapNames name)) \<and> (\<exists>v. sdkDependencyVersion w moduleDir = Inr v \<and>
    gen = bootstrap_files (bootstrapNames name) v (or_default mode ''on-demand'') bundle)"
proof -
  have "npm_name name" using assms
    by (auto simp: generateBootstrapPackageFiles_def validatePackageName_def require_def split: if_splits)
  from derived_name [OF this] assms show ?thesis by (auto simp: generateBootstrapPackageFiles_def)
qed

lemma entry_path: "bn_entryPath (bootstrapNames name) = path_join [''bin'', bn_derivedName (bootstrapNames name) @ ''.js'']"
  by (simp add: bootstrapNames_def Let_def)

lemma package_paths:
  assumes "name_part d"
  shows "clean_path ''package.json''" "clean_path ''service.json''" "clean_path ''README.md''" "clean_path ''config.schema.json''"
    "clean_path ''secret.schema.json''" "clean_path (path_join [''proto'', d @ ''.proto''])" "clean_path (path_join [''bin'', d @ ''.js''])"
proof -
  show "clean_path ''package.json''" "clean_path ''service.json''" "clean_path ''README.md''" "clean_path ''config.schema.json''"
    "clean_path ''secret.schema.json''" by (rule clean_path_one; simp add: clean_seg_def)+
  show "clean_path (path_join [''proto'', d @ ''.proto''])" "clean_path (path_join [''bin'', d @ ''.js''])"
    using clean_seg_ext [OF assms, of "''.proto''"] clean_seg_ext [OF assms, of "''.js''"]
    by (auto intro!: clean_path_two simp: clean_segs_def clean_seg_def)
qed

section \<open>Reading the package back\<close>

definition written_to :: "world \<Rightarrow> string \<Rightarrow> gen_file list \<Rightarrow> bool" where
  "written_to w dir gen \<longleftrightarrow> list_all (\<lambda>f.
     case stat (fs w) (path_resolve dir [gf_path f]) of Some (File content _) \<Rightarrow> content = gf_content f | _ \<Rightarrow> False) gen"

text \<open>\<open>JSON.parse\<close> reads the text written for a value as that value.\<close>

definition reads_back :: "world \<Rightarrow> jsval \<Rightarrow> bool" where
  "reads_back w v \<longleftrightarrow> parse w (json_pretty [] v @ newline) = Inr v"

text \<open>What protoc makes of the generated proto file: the one service it declares.\<close>

definition echo_service :: "bootstrap_names \<Rightarrow> desc_message \<Rightarrow> desc_message \<Rightarrow> desc_service" where
  "echo_service n request response = \<lparr>dss_typeName = bn_protoPackage n @ ''.'' @ bn_serviceClass n,
     dss_methods = [\<lparr>dsm_name = ''Echo'', dsm_localName = ''echo'', dsm_kind = Unary, dsm_input = request, dsm_output = response\<rparr>]\<rparr>"

lemma written_file:
  assumes "written_to w (abs_path ds) gen" and "clean_segs ds" and "f \<in> set gen" and "clean_path (gf_path f)"
  shows "\<exists>m. stat (fs w) (abs_path ds @ CHR ''/'' # gf_path f) = Some (File (gf_content f) m)"
proof -
  have "case stat (fs w) (path_resolve (abs_path ds) [gf_path f]) of Some (File content _) \<Rightarrow> content = gf_content f | _ \<Rightarrow> False"
    using assms(1,3) by (simp add: written_to_def list_all_iff)
  then show ?thesis using below(2) [OF assms(2,4)] by (auto split: option.splits node.splits)
qed

lemma name_part_full:
  assumes "name_part (bn_derivedName (bootstrapNames name))"
  shows "\<not> starts_with (bn_methodFullName (bootstrapNames name)) ''/''"
proof -
  let ?d = "bn_derivedName (bootstrapNames name)"
  let ?ws = "filter (\<lambda>w. w \<noteq> []) (split_where (\<lambda>c. \<not> name_first c) ?d)"
  have chars: "\<forall>w \<in> set (split_where p s). \<forall>c \<in> set w. \<not> p c" for p s
    by (induction s) (auto split: list.splits)
  let ?safe = "if ?ws \<noteq> [] then ?ws else [''service'']"
  have safe: "?safe \<noteq> []" "hd ?safe \<noteq> []" "hd (hd ?safe) \<noteq> CHR ''/''"
  proof -
    show "?safe \<noteq> []" by simp
    have w: "w \<noteq> [] \<and> hd w \<noteq> CHR ''/''" if "w \<in> set ?ws" for w
      using chars [of "\<lambda>c. \<not> name_first c" ?d] that by (cases w) (auto simp: name_first_def is_lower_def is_digit_def code_of_def)
    then show "hd ?safe \<noteq> []" "hd (hd ?safe) \<noteq> CHR ''/''" using list.set_sel(1) [of ?ws] by auto
  qed
  then obtain c w ws where "?safe = (c # w) # ws" "c \<noteq> CHR ''/''" by (cases ?safe; cases "hd ?safe") auto
  moreover from this have "\<exists>r. join ''.'' ?safe = c # r" by (cases ws) auto
  moreover have "\<exists>t. bn_methodFullName (bootstrapNames name) = join ''.'' ?safe @ t"
    by (simp add: bootstrapNames_def Let_def)
  ultimately show ?thesis by auto
qed

text \<open>The package in a directory, as it was generated, and the steps of its validation.\<close>

definition new_package :: "world \<Rightarrow> string list \<Rightarrow> bootstrap_names \<Rightarrow> string \<Rightarrow> string \<Rightarrow> bool \<Rightarrow> bool" where
  "new_package w ds n version mode bundle \<longleftrightarrow> written_to w (abs_path ds) (bootstrap_files n version mode bundle) \<and>
     reads_back w (bootstrap_packageJson n version bundle) \<and> reads_back w (serviceJson n mode) \<and>
     env w ''OCTOBUS_PACKAGE_DIR'' = None"

lemma new_package_files:
  assumes "new_package w ds n version mode bundle" and "clean_segs ds"
  shows "clean_path p \<Longrightarrow> plain_file p c \<in> set (bootstrap_files n version mode bundle) \<Longrightarrow>
      \<exists>m. stat (fs w) (abs_path ds @ CHR ''/'' # p) = Some (File c m)"
    and "clean_path (bn_entryPath n) \<Longrightarrow> \<exists>m. stat (fs w) (abs_path ds @ CHR ''/'' # bn_entryPath n) = Some (File (handlerSource n) m)"
proof -
  have wr: "written_to w (abs_path ds) (bootstrap_files n version mode bundle)" using assms(1) by (simp add: new_package_def)
  show "clean_path p \<Longrightarrow> plain_file p c \<in> set (bootstrap_files n version mode bundle) \<Longrightarrow>
      \<exists>m. stat (fs w) (abs_path ds @ CHR ''/'' # p) = Some (File c m)"
    using written_file [OF wr assms(2), of "plain_file p c"] by (simp add: plain_file_def)
  have "\<lparr>gf_path = bn_entryPath n, gf_content = handlerSource n, gf_mode = Some 493\<rparr> \<in> set (bootstrap_files n version mode bundle)"
    by (simp add: bootstrap_files_def)
  from written_file [OF wr assms(2) this]
  show "clean_path (bn_entryPath n) \<Longrightarrow> \<exists>m. stat (fs w) (abs_path ds @ CHR ''/'' # bn_entryPath n) = Some (File (handlerSource n) m)" by simp
qed

lemma new_package_found:
  assumes "new_package w ds n version mode bundle" and "clean_segs ds"
  shows "findPackageRoot w (abs_path ds) None = Inr (abs_path ds)"
proof -
  have p: "clean_path ''service.json''" by (rule clean_path_one) (simp_all add: clean_seg_def)
  have "exists_sync (fs w) (path_join [abs_path ds, ''service.json''])"
    using new_package_files(1) [OF assms p, of "json_pretty [] (serviceJson n mode) @ newline"] below(3) [OF assms(2) p]
    by (auto simp: exists_sync_def bootstrap_files_def)
  then have "findPackageRootFrom (fs w) (abs_path ds) = Some (abs_path ds)"
    by (simp add: findPackageRootFrom_def find_up.simps)
  then show ?thesis using assms(1) by (simp add: findPackageRoot_def new_package_def find_in_roots_def List.map_filter_simps)
qed

lemma new_package_json:
  assumes "new_package w ds n version mode bundle" and "clean_segs ds"
  shows "readPackageJson w (abs_path ds) = Inr (Some (bootstrap_packageJson n version bundle))"
    and "bindE (read_file (fs w) (path_join [abs_path ds, ''service.json''])) (parse w) = Inr (serviceJson n mode)"
proof -
  have p: "clean_path ''package.json''" "clean_path ''service.json''" by (rule clean_path_one; simp add: clean_seg_def)+
  have r: "reads_back w (bootstrap_packageJson n version bundle)" "reads_back w (serviceJson n mode)"
    using assms(1) by (simp_all add: new_package_def)
  show "readPackageJson w (abs_path ds) = Inr (Some (bootstrap_packageJson n version bundle))"
    using new_package_files(1) [OF assms p(1), of "json_pretty [] (bootstrap_packageJson n version bundle) @ newline"]
      below(3) [OF assms(2) p(1)] r(1)
    by (auto simp: readPackageJson_def exists_sync_def read_file_def reads_back_def Let_def bootstrap_files_def)
  show "bindE (read_file (fs w) (path_join [abs_path ds, ''service.json''])) (parse w) = Inr (serviceJson n mode)"
    using new_package_files(1) [OF assms p(2), of "json_pretty [] (serviceJson n mode) @ newline"]
      below(3) [OF assms(2) p(2)] r(2)
    by (auto simp: read_file_def reads_back_def bootstrap_files_def)
qed

lemma entry_ok:
  assumes "name_part (bn_derivedName (bootstrapNames name))"
  shows "trim (bn_entryPath (bootstrapNames name)) \<noteq> []" and "clean_path (bn_entryPath (bootstrapNames name))"
proof -
  show "clean_path (bn_entryPath (bootstrapNames name))" using package_paths(7) [OF assms] by (simp add: entry_path)
  have "clean_segs [''bin'', bn_derivedName (bootstrapNames name) @ ''.js'']"
    using clean_seg_ext [OF assms, of "''.js''"] by (auto simp: clean_segs_def clean_seg_def)
  from path_join_pair [OF this] have "bn_entryPath (bootstrapNames name) = ''bin/'' @ bn_derivedName (bootstrapNames name) @ ''.js''"
    by (simp add: entry_path)
  moreover have "trim s \<noteq> []" if "s \<noteq> []" "\<not> is_ws (last s)" "\<not> is_ws (hd s)" for s using trim_ends [OF that(1,3,2)] that(1) by simp
  ultimately show "trim (bn_entryPath (bootstrapNames name)) \<noteq> []" by (simp add: is_ws_def code_of_def)
qed

lemma new_package_bin:
  assumes "new_package w ds (bootstrapNames name) version mode bundle" and "clean_segs ds"
    and "name_part (bn_derivedName (bootstrapNames name))"
  shows "inferPackageBin w (abs_path ds) (abs_path ds) = Inr (bn_entryPath (bootstrapNames name))"
    and "validatePackageFile (fs w) (abs_path ds) (abs_path ds) (JStr (bn_entryPath (bootstrapNames name))) field =
      Inr (abs_path ds @ CHR ''/'' # bn_entryPath (bootstrapNames name))"
proof -
  note e = entry_ok [OF assms(3)]
  note b = below [OF assms(2) e(2)]
  have "validatePackageBinTarget (abs_path ds) (bn_entryPath (bootstrapNames name)) = Inr (bn_entryPath (bootstrapNames name))"
    using e(1) b resolve_dot [OF assms(2)]
    by (simp add: validatePackageBinTarget_def require_def validateRelativePackagePath_def or_dot_def)
  then show "inferPackageBin w (abs_path ds) (abs_path ds) = Inr (bn_entryPath (bootstrapNames name))"
    by (simp add: inferPackageBin_def new_package_json(1) [OF assms(1,2)] truthy_def bootstrap_packageJson_def pget_def
        single_bin_def entries_of_def)
  show "validatePackageFile (fs w) (abs_path ds) (abs_path ds) (JStr (bn_entryPath (bootstrapNames name))) field =
      Inr (abs_path ds @ CHR ''/'' # bn_entryPath (bootstrapNames name))"
    using new_package_files(2) [OF assms(1,2) e(2)] e(1) b resolve_abs [OF assms(2)]
    by (auto simp: validatePackageFile_def validateRelativePackagePath_def or_dot_def Let_def)
qed

lemma new_package_schema:
  assumes "new_package w ds n version mode bundle" and "clean_segs ds"
    and "plain_file p c \<in> set (bootstrap_files n version mode bundle)" and "clean_path p" and "trim p \<noteq> []"
  shows "referenced_file w (abs_path ds) (abs_path ds) True (JStr p) field = Inr ()"
  using new_package_files(1) [OF assms(1,2,4,3)] assms(5) below [OF assms(2,4)] resolve_abs [OF assms(2)]
  by (auto simp: referenced_file_def validatePackageFile_def validateRelativePackagePath_def or_dot_def Let_def)

definition with_field :: "jsval \<Rightarrow> string \<Rightarrow> jsval \<Rightarrow> jsval" where
  "with_field v k x = (case v of JObj kvs \<Rightarrow> JObj (set_key kvs k x) | _ \<Rightarrow> v)"

lemma new_package_manifest:
  assumes "new_package w ds (bootstrapNames name) version mode bundle" and "clean_segs ds"
    and "name_part (bn_derivedName (bootstrapNames name))"
  shows "readServiceManifestFile w (abs_path ds) (path_join [abs_path ds, ''service.json'']) (abs_path ds) True =
    Inr (with_field (serviceJson (bootstrapNames name) mode) ''version'' (JStr ''0.1.0''))"
proof -
  let ?n = "bootstrapNames name"
  let ?m = "serviceJson ?n mode"
  have t: "trim ''config.schema.json'' \<noteq> []" "trim ''secret.schema.json'' \<noteq> []" "trim ''proto'' \<noteq> []" by code_simp+
  have schemas: "referenced_file w (abs_path ds) (abs_path ds) True (JStr ''config.schema.json'') f = Inr ()"
    "referenced_file w (abs_path ds) (abs_path ds) True (JStr ''secret.schema.json'') f = Inr ()" for f
    using new_package_schema [OF assms(1,2) _ package_paths(4) [OF assms(3)] t(1), of "json_pretty [] configSchema @ newline"]
      new_package_schema [OF assms(1,2) _ package_paths(5) [OF assms(3)] t(2), of "json_pretty [] secretSchema @ newline"]
    by (auto simp: bootstrap_files_def)
  have d: "trim (bn_derivedName ?n) \<noteq> []"
  proof -
    obtain c cs where c: "bn_derivedName ?n = c # cs" "name_first c"
      using name_part_chars [OF assms(3)] by (cases "bn_derivedName ?n") auto
    have "\<not> is_ws c" using c(2) by (auto simp: name_first_def is_lower_def is_digit_def is_ws_def Let_def)
    then show ?thesis by (simp add: c(1) trim_def trim_start_def trim_end_def dropWhile_append)
  qed
  have f: "trim (path_join [''proto'', bn_derivedName ?n @ ''.proto'']) \<noteq> []"
  proof -
    have "clean_segs [''proto'', bn_derivedName ?n @ ''.proto'']"
      using clean_seg_ext [OF assms(3), of "''.proto''"] by (auto simp: clean_segs_def clean_seg_def)
    from path_join_pair [OF this] show ?thesis
      by (simp add: trim_def trim_start_def trim_end_def is_ws_def code_of_def dropWhile_append)
  qed
  have "validateServiceManifest w (abs_path ds) (abs_path ds) ?m True = Inr ()"
    using schemas d f t(3)
    by (simp add: validateServiceManifest_def member_of_def serviceJson_def require_def nonblank_def is_object_def
        validateStringArray_def entries_of_def)
  moreover have "with_version w (abs_path ds) ?m = Inr (with_field ?m ''version'' (JStr ''0.1.0''))"
    by (simp add: with_version_def serviceJson_def truthy_def new_package_json(1) [OF assms(1,2)] with_field_def
        bootstrap_packageJson_def)
  moreover obtain raw where "read_file (fs w) (path_join [abs_path ds, ''service.json'']) = Inr raw" "parse w raw = Inr ?m"
    using new_package_json(2) [OF assms(1,2)] by auto
  ultimately show ?thesis by (simp add: readServiceManifestFile_def)
qed

lemma new_package_loaded:
  assumes "new_package w ds (bootstrapNames name) version mode bundle" and "clean_segs ds"
    and "name_part (bn_derivedName (bootstrapNames name))"
    and "\<forall>dirs. compile [abs_path ds @ CHR ''/'' # path_join [''proto'', bn_derivedName (bootstrapNames name) @ ''.proto'']] dirs = Inr services"
  shows "loadServicePackage w compile (abs_path ds) (abs_path ds) =
    Inr \<lparr>ld_manifest = with_field (serviceJson (bootstrapNames name) mode) ''version'' (JStr ''0.1.0''),
      ld_entry = bn_entryPath (bootstrapNames name), ld_grpcServices = grpc_services services\<rparr>"
proof -
  let ?p = "path_join [''proto'', bn_derivedName (bootstrapNames name) @ ''.proto'']"
  note b = below [OF assms(2) package_paths(6) [OF assms(3)]]
  have "exists_sync (fs w) (abs_path ds @ CHR ''/'' # ?p)"
    using new_package_files(1) [OF assms(1,2) package_paths(6) [OF assms(3)], of "protoSource (bootstrapNames name)"]
    by (auto simp: exists_sync_def bootstrap_files_def)
  then have "resolveProtoFiles w (abs_path ds) (abs_path ds) [?p] = [abs_path ds @ CHR ''/'' # ?p]"
    using b by (simp add: resolveProtoFiles_def)
  moreover have "strings_of (pget (pget (with_field (serviceJson (bootstrapNames name) mode) ''version'' (JStr ''0.1.0'')) ''proto'') ''files'') = [?p]"
    by (simp add: with_field_def serviceJson_def strings_of_def)
  ultimately show ?thesis
    using new_package_manifest [OF assms(1-3)] new_package_bin(1) [OF assms(1-3)] assms(4)
    by (simp add: loadServicePackage_def Let_def)
qed

section \<open>Property\<close>

lemma echo_methods:
  "unary_methods (grpc_services [echo_service (bootstrapNames name) request response]) = [bn_methodFullName (bootstrapNames name)]"
  "streaming_methods (grpc_services [echo_service (bootstrapNames name) request response]) = []"
  by (simp_all add: unary_methods_def streaming_methods_def discoverGrpcMethods_def grpc_services_def echo_service_def
      createGrpcServiceDefinition_def from_entries_def method_definition_of_def full_name_def bootstrapNames_def Let_def)

lemma no_commands: "cli_commands (with_field (serviceJson n mode) k v) = JUndef" if "k = ''version''"
  by (simp add: that cli_commands_def with_field_def serviceJson_def pget_def)

lemma default_commands: "validateCliCommands JUndef [m] streaming = ([], None)"
  by (simp add: validateCliCommands_def coalesce_def nullish_def entries_of_def command_metadata_def command_name_def
      and_then_def pget_def)

lemma own_handler: "\<not> starts_with m ''/'' \<Longrightarrow> validateHandlers [m] [m] [] strict = []"
  by (simp add: validateHandlers_def normalizeMethod_def issue_if_def)


text \<open>A package of a scope, written below /p.\<close>

definition echo_names :: bootstrap_names where
  "echo_names = bootstrapNames ''@acme/echo''"

definition sdk_world :: world where
  "sdk_world = \<lparr>fs = Dir [(''sdk'', Dir [(''package.json'', File ''sdk'' 420), (''src'', Dir [])])], fds = (\<lambda>_. Inl ''EBADF''),
     env = (\<lambda>_. None), parse = (\<lambda>_. Inr (JObj [(''version'', JStr ''0.3.0'')]))\<rparr>"

definition echo_world :: world where
  "echo_world = (let package = bootstrap_packageJson echo_names ''^0.3.0'' False; service = serviceJson echo_names ''on-demand'';
     text = (\<lambda>v. File (json_pretty [] v @ newline) 420)
   in \<lparr>fs = Dir [(''p'', Dir [(''package.json'', text package), (''service.json'', text service),
         (''README.md'', File (bootstrap_readme echo_names) 420), (''config.schema.json'', text configSchema),
         (''secret.schema.json'', text secretSchema), (''proto'', Dir [(''echo.proto'', File (protoSource echo_names) 420)]),
         (''bin'', Dir [(''echo.js'', File (handlerSource echo_names) 493)])])],
       fds = (\<lambda>_. Inl ''EBADF''), env = (\<lambda>_. None),
       parse = (\<lambda>t. if t = json_pretty [] package @ newline then Inr package else Inr service)\<rparr>)"

lemma echo_paths:
  "path_resolve ''/p'' [''package.json''] = ''/p/package.json''" "path_resolve ''/p'' [''service.json''] = ''/p/service.json''"
  "path_resolve ''/p'' [''README.md''] = ''/p/README.md''" "path_resolve ''/p'' [''config.schema.json''] = ''/p/config.schema.json''"
  "path_resolve ''/p'' [''secret.schema.json''] = ''/p/secret.schema.json''"
  "path_resolve ''/p'' [path_join [''proto'', bn_derivedName echo_names @ ''.proto'']] = ''/p/proto/echo.proto''"
  "path_resolve ''/p'' [bn_entryPath echo_names] = ''/p/bin/echo.js''"
  by code_simp+

lemma echo_written: "written_to echo_world ''/p'' (bootstrap_files echo_names ''^0.3.0'' ''on-demand'' False)"
  unfolding written_to_def bootstrap_files_def
  by (simp add: echo_paths plain_file_def stat_def segments_def echo_world_def Let_def)

lemma echo_texts_differ:
  "json_pretty [] (bootstrap_packageJson n v b) \<noteq> json_pretty [] (serviceJson n m)"
  by (simp add: bootstrap_packageJson_def serviceJson_def json_quote_def json_char_def Let_def newline_def code_of_def)

lemma echo_read:
  "reads_back echo_world (bootstrap_packageJson echo_names ''^0.3.0'' False)" "reads_back echo_world (serviceJson echo_names ''on-demand'')"
  using echo_texts_differ by (simp_all add: reads_back_def echo_world_def Let_def) metis

lemma echo_generated:
  "generateBootstrapPackageFiles sdk_world ''/sdk/src'' ''@acme/echo'' None False = Inr (bootstrap_files echo_names ''^0.3.0'' ''on-demand'' False)"
proof -
  have "validatePackageName ''@acme/echo'' ''bootstrap --name'' = Inr ()" by code_simp
  moreover have "sdkDependencyVersion sdk_world ''/sdk/src'' = Inr ''^0.3.0''" by code_simp
  ultimately show ?thesis by (simp add: generateBootstrapPackageFiles_def echo_names_def or_default_def)
qed


end
