(* ===== verification/SdkMain.thy ===== *)
theory SdkMain
  imports SdkServer SdkBootstrap
begin

text \<open>
  The two processes of the SDK as a whole (src/sdk/src/cli.ts and src/sdk/src/inspect.ts): a service
  process, which runs one of its subcommands, and octobus-sdk. A run is the events it causes, in order,
  and how it ends. The process is its world, its working directory and entry file, and what it takes
  from libraries: the command line of commander, the proto compiler, YAML, npm, the gRPC server's port,
  the codec. The working directory is the one the process was started in.
\<close>

section \<open>The process\<close>

datatype process_event =
  Printed written
| PutFile string string "nat option"
| Registered "((string \<times> method_definition) list \<times> (string \<times> method_kind \<times> string) list) list" jsval jsval package_info
| HealthAdded
| Bound string nat

datatype run_result =
  HelpShown string
| Inspected jsval
| Invoked
| CliRan "string option"
| StubPrinted transport
| PackageWritten transport string bool bool
| Serving string nat

datatype run_ending = Returned run_result | SilentExitError | Thrown string

record process =
  pr_world :: world
  pr_cwd :: string
  pr_entryFile :: "string option"
  pr_commander :: "string \<Rightarrow> string list \<Rightarrow> commander" \<comment> \<open>of a program's name and its arguments\<close>
  pr_compile :: compiler
  pr_yaml :: "jsval \<Rightarrow> string"
  pr_npm :: "string list \<Rightarrow> npm_failure + unit"
  pr_descriptorSet :: string
  pr_bind :: "string \<Rightarrow> nat \<Rightarrow> string + nat"

definition printed :: "written list \<Rightarrow> process_event list" where
  "printed ws = map Printed ws"

section \<open>Inspection\<close>

definition package_manifest :: "process \<Rightarrow> string option \<Rightarrow> string + string \<times> jsval" where
  "package_manifest p fromFile = bindE (findPackageRoot (pr_world p) (pr_cwd p) fromFile) (\<lambda>dir.
     bindE (readServiceManifestFile (pr_world p) (pr_cwd p) (path_join [dir, ''service.json'']) dir True) (\<lambda>m. Inr (dir, m)))"

definition inspectManifest :: "process \<Rightarrow> string option \<Rightarrow> string + jsval" where
  "inspectManifest p fromFile = bindE (package_manifest p fromFile) (\<lambda>(dir, m).
     Inr (JObj (map (\<lambda>k. (k, pget m k)) [''schema'', ''name'', ''version'', ''proto''])))"

definition schema_key :: "schema_kind \<Rightarrow> string" where
  "schema_key k = (case k of ConfigSchema \<Rightarrow> ''configSchema'' | SecretSchema \<Rightarrow> ''secretSchema'')"

definition readServiceSchema :: "process \<Rightarrow> string option \<Rightarrow> schema_kind \<Rightarrow> string + jsval" where
  "readServiceSchema p fromFile kind = bindE (package_manifest p fromFile) (\<lambda>(dir, m).
     let schemaPath = pget m (schema_key kind) in
     if \<not> truthy schemaPath then Inl (''service.json does not define '' @ schema_key kind)
     else bindE (validatePackageFile (fs (pr_world p)) (pr_cwd p) dir schemaPath (schema_key kind)) (\<lambda>full.
       bindE (read_file (fs (pr_world p)) full) (parse (pr_world p))))"

text \<open>\<open>inspectJson\<close>, \<open>inspectYaml\<close> and the two for schemas: write the value and give it back.\<close>

definition inspect_run :: "process \<Rightarrow> string option \<Rightarrow> bool \<Rightarrow> schema_kind option \<Rightarrow> string + written list \<times> jsval" where
  "inspect_run p fromFile yaml schema = bindE (case schema of Some kind \<Rightarrow> readServiceSchema p fromFile kind
       | None \<Rightarrow> inspectManifest p fromFile)
     (\<lambda>v. Inr ([Stdout (if yaml then pr_yaml p v else json_pretty [] v @ [CHR 0x0A])], v))"

section \<open>Generation and validation\<close>

definition writeValidationResult :: "validation \<Rightarrow> written list" where
  "writeValidationResult r = (let line = (\<lambda>s. (if vr_valid r then Stdout else Stderr) (s @ [CHR 0x0A])) in
     [line (if vr_valid r then ''service package is valid'' else ''service package validation failed'')] @
     (case vr_packageDir r of Some (c # d) \<Rightarrow> [line (''package: '' @ c # d)] | _ \<Rightarrow> []) @
     (case vr_entry r of Some (c # e) \<Rightarrow> [line (''entry: '' @ c # e)] | _ \<Rightarrow> []) @
     (if vr_unary r \<noteq> [] then [line (''unary methods: '' @ nat_str (length (vr_unary r)))] else []) @
     (if vr_streaming r \<noteq> [] then [line (''streaming methods: '' @ nat_str (length (vr_streaming r)))] else []) @
     (if vr_issues r \<noteq> [] then [line (formatValidationIssues (vr_issues r))] else []))"

definition generateClientStubSource :: "process \<Rightarrow> string option \<Rightarrow> transport \<Rightarrow> string option \<Rightarrow> string + string" where
  "generateClientStubSource p fromFile t factory = bindE (findPackageRoot (pr_world p) (pr_cwd p) fromFile) (\<lambda>dir.
     bindE (loadServicePackage (pr_world p) (pr_compile p) (pr_cwd p) dir) (\<lambda>l.
     generateClientStubSourceFromLoaded (ld_grpcServices l) t (or_default factory (defaultClientStubFactoryName t)) False))"

definition put_files :: "(string \<times> string \<times> nat option) list \<Rightarrow> process_event list" where
  "put_files ws = map (\<lambda>(path, content, mode). PutFile path content mode) ws"

text \<open>\<open>writeClientPackage\<close> finds the package itself, which the validation before it has found.\<close>

definition executeClientGenerationCommand ::
  "process \<Rightarrow> string option \<Rightarrow> generation \<Rightarrow> process_event list \<times> (string + nat)" where
  "executeClientGenerationCommand p fromFile g = (case g of
     ClientStub t factory \<Rightarrow> (case generateClientStubSource p fromFile t factory of
         Inl message \<Rightarrow> ([], Inl message)
       | Inr source \<Rightarrow> (printed [Stdout source], Inr 0))
   | ClientPackage t name out factory force bundle publish \<Rightarrow>
       (let validation = validateService (pr_world p) (pr_compile p) (pr_cwd p) fromFile None False in
        if \<not> vr_valid validation then (printed (writeValidationResult validation), Inr 1)
        else (case findPackageRoot (pr_world p) (pr_cwd p) fromFile of
          Inl message \<Rightarrow> ([], Inl message)
        | Inr dir \<Rightarrow> (let outDir = path_resolve (pr_cwd p) [out] in
            case writeClientPackage (pr_world p) (pr_compile p) (pr_npm p) (pr_cwd p) dir (pr_descriptorSet p) t name
                factory outDir force bundle publish of
              (ws, Some message) \<Rightarrow> (put_files ws, Inl message)
            | (ws, None) \<Rightarrow> (put_files ws @ printed
                ([Stdout (''generated '' @ (case t of Connect \<Rightarrow> ''connect'' | Grpc \<Rightarrow> ''grpc'') @ '' client package at '' @ outDir @ [CHR 0x0A])] @
                 (if bundle then [Stdout (''installed bundled production dependencies'' @ [CHR 0x0A])] else []) @
                 (if publish then [Stdout (''published client package with npm publish'' @ [CHR 0x0A])] else [])), Inr 0)))))"

definition runClientGenerationCommand :: "process \<Rightarrow> generation \<Rightarrow> process_event list \<times> run_ending" where
  "runClientGenerationCommand p g = (case executeClientGenerationCommand p (pr_entryFile p) g of
     (evs, Inl message) \<Rightarrow> (evs, Thrown message)
   | (evs, Inr code) \<Rightarrow> (evs, if code \<noteq> 0 then SilentExitError else Returned (case g of
       ClientStub t factory \<Rightarrow> StubPrinted t
     | ClientPackage t name out factory force bundle publish \<Rightarrow>
         PackageWritten t (path_resolve (pr_cwd p) [out]) bundle publish)))"

section \<open>A service process\<close>

text \<open>The package as the runs of one handler see it.\<close>

definition package_of :: "loaded \<Rightarrow> package" where
  "package_of l = \<lparr>pk_name = to_str (pget (ld_manifest l) ''name''),
     pk_version = (if nullish (pget (ld_manifest l) ''version'') then None else Some (to_str (pget (ld_manifest l) ''version''))),
     pk_commands = cli_commands (ld_manifest l), pk_services = ld_grpcServices l\<rparr>"

definition load_package :: "process \<Rightarrow> string option \<Rightarrow> string + package \<times> string" where
  "load_package p fromFile = bindE (findPackageRoot (pr_world p) (pr_cwd p) fromFile) (\<lambda>dir.
     bindE (loadServicePackage (pr_world p) (pr_compile p) (pr_cwd p) dir) (\<lambda>l. Inr (package_of l, dir)))"

text \<open>What the runs of one handler take: the codec of \<open>rt\<close>, and the process's world and package.\<close>

definition runtime_of :: "('q, 'r) runtime \<Rightarrow> process \<Rightarrow> string option \<Rightarrow> ('q, 'r) runtime" where
  "runtime_of rt p fromFile = rt\<lparr>rt_world := pr_world p, rt_pretty := json_pretty [], rt_load := load_package p fromFile\<rparr>"

definition ending_of :: "(string option \<Rightarrow> run_result) \<Rightarrow> written list \<times> ending \<Rightarrow> process_event list \<times> run_ending" where
  "ending_of res run = (printed (fst run), case snd run of
     Done m \<Rightarrow> Returned (res m) | SilentExit \<Rightarrow> SilentExitError | Throws message \<Rightarrow> Thrown message)"

text \<open>\<open>command.service ?? env.OCTOBUS_SERVICE_ID\<close>.\<close>

definition coalesce_opt :: "'a option \<Rightarrow> 'a option \<Rightarrow> 'a option" where
  "coalesce_opt a b = (case a of Some x \<Rightarrow> Some x | None \<Rightarrow> b)"

text \<open>The sources of \<open>serve\<close> and \<open>dev\<close>; only \<open>dev\<close> takes the service context.\<close>

definition server_inputs :: "process \<Rightarrow> bool \<Rightarrow> server_options \<Rightarrow> source_error + jsval \<times> jsval" where
  "server_inputs p dev so = (let w = pr_world p; workdir = path_resolve (pr_cwd p) [or_default (so_workdir so) (pr_cwd p)] in
     bindE (readJSONSource w (so_config so) (so_configJson so) workdir (JObj [])) (\<lambda>config.
     bindE (readSecretSource w (so_secret so) (so_secretJson so) (so_secretFd so) workdir (JObj [])) (\<lambda>secret.
     if dev then applyServiceContextEnv w (pr_cwd p) config secret else Inr (config, secret))))"

definition run_server :: "process \<Rightarrow> string \<Rightarrow> bool \<Rightarrow> server_options \<Rightarrow> process_event list \<times> run_ending" where
  "run_server p packageDir dev so = (let w = pr_world p in
     case server_inputs p dev so of
       Inl e \<Rightarrow> ending_of CliRan (input_failure e)
     | Inr (config, secret) \<Rightarrow> (case loadServicePackage w (pr_compile p) (pr_cwd p) packageDir of
         Inl message \<Rightarrow> ([], Thrown message)
       | Inr l \<Rightarrow> (let info = \<lparr>pi_name = pk_name (package_of l), pi_version = pk_version (package_of l),
             pi_serviceId = coalesce_opt (so_service so) (env w ''OCTOBUS_SERVICE_ID''),
             pi_instanceId = coalesce_opt (so_instance so) (env w ''OCTOBUS_INSTANCE_ID''),
             pi_workdir = Some (path_resolve (pr_cwd p) [or_default (so_workdir so) (pr_cwd p)]), pi_packageDir = Some packageDir\<rparr>;
           evs = [Registered (registerServices (ld_grpcServices l)) config secret info, HealthAdded]
         in case pr_bind p (so_host so) (so_port so) of
           Inl message \<Rightarrow> (evs, Thrown message)
         | Inr port \<Rightarrow> (let address = so_host so @ '':'' @ nat_str port in
             (evs @ [Bound (so_host so) port] @ (if dev then printed [Stdout (address @ [CHR 0x0A])] else []),
              Returned (Serving address port))))))"

definition service_command_run ::
  "process \<Rightarrow> ('q, 'r) runtime \<Rightarrow> (string \<Rightarrow> 'k::linorder) \<Rightarrow> (string \<times> ('q context_of \<Rightarrow> thrown + 'r)) list \<Rightarrow>
     string \<Rightarrow> cli_command \<Rightarrow> process_event list \<times> run_ending" where
  "service_command_run p rt collate handlers dir command = (case command of
       Help help \<Rightarrow> (printed [Stdout help], Returned (HelpShown help))
     | Inspect yaml schema \<Rightarrow> (case inspect_run p (pr_entryFile p) yaml schema of
         Inl message \<Rightarrow> ([], Thrown message)
       | Inr (ws, v) \<Rightarrow> (printed ws, Returned (Inspected v)))
     | Invoke io \<Rightarrow> ending_of (\<lambda>_. Invoked) (invokeService (runtime_of rt p None) (pr_cwd p) handlers io)
     | Cli args \<Rightarrow> ending_of CliRan (runServiceCli (runtime_of rt p (pr_entryFile p)) collate (pr_cwd p) handlers args)
     | Generate g \<Rightarrow> runClientGenerationCommand p g
     | Serve so \<Rightarrow> run_server p dir False so
     | Dev so \<Rightarrow> run_server p dir True so)"

definition runService ::
  "process \<Rightarrow> ('q, 'r) runtime \<Rightarrow> (string \<Rightarrow> 'k::linorder) \<Rightarrow> (string \<times> ('q context_of \<Rightarrow> thrown + 'r)) list \<Rightarrow>
     string list \<Rightarrow> process_event list \<times> run_ending" where
  "runService p rt collate handlers argv = (case bindE (findPackageRoot (pr_world p) (pr_cwd p) (pr_entryFile p)) (\<lambda>dir.
       bindE (inferPackageBinName (pr_world p) dir) (\<lambda>name. bindE (parseCliArgs (pr_commander p name) argv) (\<lambda>c. Inr (dir, c)))) of
     Inl message \<Rightarrow> ([], Thrown message)
   | Inr (dir, command) \<Rightarrow> service_command_run p rt collate handlers dir command)"

text \<open>\<open>runServiceMain\<close>: what is printed of an error is its stack; the process exits, or keeps serving.\<close>

definition runServiceMain ::
  "(string \<Rightarrow> string) \<Rightarrow> process_event list \<times> run_ending \<Rightarrow> process_event list \<times> (nat + run_result)" where
  "runServiceMain stack run = (case run of
     (evs, Returned r) \<Rightarrow> (evs, Inr r)
   | (evs, SilentExitError) \<Rightarrow> (evs, Inl 1)
   | (evs, Thrown message) \<Rightarrow> (evs @ printed [Stderr (stack message @ [CHR 0x0A])], Inl 1))"

section \<open>octobus-sdk\<close>

definition sdk_command_run :: "process \<Rightarrow> string \<Rightarrow> sdk_command \<Rightarrow> process_event list \<times> (string + nat)" where
  "sdk_command_run p moduleDir c = (case c of
     SdkHelp help \<Rightarrow> (printed [Stdout help], Inr 0)
   | Validate strict \<Rightarrow> (let validation = validateService (pr_world p) (pr_compile p) (pr_cwd p) None None strict in
       (printed (writeValidationResult validation), Inr (if vr_valid validation then 0 else 1)))
   | Bootstrap name out mode force bundle \<Rightarrow> (let outDir = path_resolve (pr_cwd p) [out] in
       case writeBootstrapPackage (pr_world p) (pr_npm p) (pr_cwd p) moduleDir name (Some mode) outDir force bundle of
         (ws, Some message) \<Rightarrow> (put_files ws, Inl message)
       | (ws, None) \<Rightarrow> (put_files ws @ printed ([Stdout (''generated service package at '' @ outDir @ [CHR 0x0A])] @
           (if bundle then [Stdout (''installed bundled production dependencies'' @ [CHR 0x0A])] else [])), Inr 0))
   | SdkGenerate g \<Rightarrow> executeClientGenerationCommand p None g
   | SdkInspect yaml schema \<Rightarrow> (case inspect_run p None yaml schema of
       Inl message \<Rightarrow> ([], Inl message)
     | Inr (ws, v) \<Rightarrow> (printed ws, Inr 0)))"

definition runSdkCli :: "process \<Rightarrow> string \<Rightarrow> string list \<Rightarrow> process_event list \<times> nat" where
  "runSdkCli p moduleDir argv = (case (case parseSdkCliArgs (pr_commander p ''octobus-sdk'') argv of
       Inl message \<Rightarrow> ([], Inl message)
     | Inr c \<Rightarrow> sdk_command_run p moduleDir c) of
     (evs, Inl message) \<Rightarrow> (evs @ printed [Stderr (message @ [CHR 0x0A])], 1)
   | (evs, Inr code) \<Rightarrow> (evs, code))"

section \<open>What a run prints\<close>

definition wrote_output :: "process_event list \<Rightarrow> bool" where
  "wrote_output evs = list_ex (\<lambda>ev. case ev of Printed (Stdout t) \<Rightarrow> True | _ \<Rightarrow> False) evs"

definition reported_error :: "process_event list \<Rightarrow> bool" where
  "reported_error evs = list_ex (\<lambda>ev. case ev of Printed (Stderr t) \<Rightarrow> True | _ \<Rightarrow> False) evs"

lemma output_simps [simp]:
  "\<not> wrote_output []" "\<not> reported_error []"
  "wrote_output (xs @ ys) \<longleftrightarrow> wrote_output xs \<or> wrote_output ys"
  "reported_error (xs @ ys) \<longleftrightarrow> reported_error xs \<or> reported_error ys"
  "\<not> wrote_output (put_files ws)" "\<not> reported_error (put_files ws)"
  by (auto simp: wrote_output_def reported_error_def put_files_def list_ex_iff)

lemma output_Cons [simp]:
  "wrote_output (ev # evs) \<longleftrightarrow> (case ev of Printed (Stdout t) \<Rightarrow> True | _ \<Rightarrow> False) \<or> wrote_output evs"
  "reported_error (ev # evs) \<longleftrightarrow> (case ev of Printed (Stderr t) \<Rightarrow> True | _ \<Rightarrow> False) \<or> reported_error evs"
  by (simp_all add: wrote_output_def reported_error_def)

lemma printed_simps [simp]: "printed [] = []" "printed (w # ws) = Printed w # printed ws" "printed (ws @ vs) = printed ws @ printed vs"
  by (simp_all add: printed_def)

text \<open>A tidy run of one handler: output when it is done, a report when it exits, nothing when it throws.\<close>

definition tidy :: "written list \<times> ending \<Rightarrow> bool" where
  "tidy run = (case snd run of
     Done m \<Rightarrow> \<not> reported_error (printed (fst run))
   | SilentExit \<Rightarrow> reported_error (printed (fst run)) \<and> \<not> wrote_output (printed (fst run))
   | Throws message \<Rightarrow> fst run = [])"

lemma tidy_intros:
  "tidy ([Stdout t], Done m)" "tidy ([Stderr t], SilentExit)" "tidy ([], Throws message)"
  "tidy ([writeServiceCliError code message], SilentExit)" "tidy ([writeOctobusError js code message], SilentExit)"
  by (simp_all add: tidy_def writeServiceCliError_def writeOctobusError_def)

lemma tidy_or_fail: "(\<And>x. tidy (f x)) \<Longrightarrow> tidy (or_fail r f)"
  by (auto simp: or_fail_def input_failure_def tidy_intros split: sum.split source_error.split)

lemma tidy_input_failure: "tidy (input_failure e)"
  by (simp add: input_failure_def tidy_intros split: source_error.split)

lemma invoke_tidy: "tidy (invokeService rt cwd handlers c)"
  unfolding invokeService_def Let_def
  by (intro tidy_or_fail) (auto simp: tidy_intros split: sum.split option.split prod.split)

lemma cli_tidy: "tidy (runServiceCli rt collate workdir handlers args)"
  unfolding runServiceCli_def Let_def
  by (auto intro!: tidy_or_fail simp: tidy_intros split: sum.split option.split prod.split)

lemma validation_output:
  "wrote_output (printed (writeValidationResult r)) \<longleftrightarrow> vr_valid r"
  "reported_error (printed (writeValidationResult r)) \<longleftrightarrow> \<not> vr_valid r"
  by (auto simp: writeValidationResult_def Let_def split: option.split list.split)

lemma inspect_output:
  assumes "inspect_run p fromFile yaml schema = Inr (ws, v)"
  shows "wrote_output (printed ws) \<and> \<not> reported_error (printed ws)"
  using assms by (auto simp: inspect_run_def split: sum.splits)

text \<open>Generation prints its success, or the issues of a package that is not valid, or throws with nothing printed.\<close>

definition sdk_tidy :: "process_event list \<times> (string + nat) \<Rightarrow> bool" where
  "sdk_tidy run = (case run of
     (evs, Inl message) \<Rightarrow> \<not> wrote_output evs \<and> \<not> reported_error evs
   | (evs, Inr code) \<Rightarrow> if code = 0 then wrote_output evs \<and> \<not> reported_error evs
       else code = 1 \<and> reported_error evs \<and> \<not> wrote_output evs)"

lemma generation_output: "sdk_tidy (executeClientGenerationCommand p fromFile g)"
  by (auto simp: sdk_tidy_def executeClientGenerationCommand_def validation_output Let_def
      split: generation.split sum.split option.split prod.split)

text \<open>A run that is reported as it ends.\<close>

definition run_tidy :: "process_event list \<times> run_ending \<Rightarrow> bool" where
  "run_tidy run = (case snd run of
     Returned r \<Rightarrow> \<not> reported_error (fst run)
   | SilentExitError \<Rightarrow> reported_error (fst run) \<and> \<not> wrote_output (fst run)
   | Thrown message \<Rightarrow> \<not> wrote_output (fst run))"

lemma ending_tidy: "tidy run \<Longrightarrow> run_tidy (ending_of res run)"
  by (auto simp: tidy_def run_tidy_def ending_of_def split: ending.splits)

lemma server_tidy: "run_tidy (run_server p dir dev so)"
proof (cases "server_inputs p dev so")
  case (Inl e)
  then show ?thesis by (simp add: run_server_def ending_tidy tidy_input_failure)
next
  case (Inr cs)
  then show ?thesis by (auto simp: run_server_def run_tidy_def Let_def split: sum.split prod.split)
qed

lemma generation_tidy: "run_tidy (runClientGenerationCommand p g)"
  using generation_output [of p "pr_entryFile p" g]
  by (auto simp: runClientGenerationCommand_def run_tidy_def sdk_tidy_def split: prod.splits sum.splits if_splits)

lemma command_tidy: "run_tidy (service_command_run p rt collate handlers dir command)"
proof (cases command)
  case (Inspect yaml schema)
  then show ?thesis using inspect_output [of p "pr_entryFile p" yaml schema]
    by (auto simp: service_command_run_def run_tidy_def split: sum.split prod.split)
next
  case (Help t)
  then show ?thesis by (simp add: service_command_run_def run_tidy_def)
qed (simp_all add: service_command_run_def ending_tidy invoke_tidy cli_tidy generation_tidy server_tidy)

lemma service_tidy: "run_tidy (runService p rt collate handlers argv)"
proof -
  have "run_tidy ([], Thrown m)" for m by (simp add: run_tidy_def)
  then show ?thesis by (simp add: runService_def command_tidy split: sum.split prod.split)
qed

text \<open>C38: What a process prints says how it ends. Whatever the command line, the package and the handlers,
a service process that fails exits with 1, with a report on the error stream and nothing on the output;
one that does not fail reports no error. octobus-sdk ends with 0 or 1: with 0 it has written output and no
error, with 1 it has reported an error and written no output.\<close>

theorem streams_match_exit:
  "(case runServiceMain stack (runService p rt collate handlers argv) of
      (evs, Inl code) \<Rightarrow> code = 1 \<and> reported_error evs \<and> \<not> wrote_output evs
    | (evs, Inr r) \<Rightarrow> \<not> reported_error evs) \<and>
   (case runSdkCli p moduleDir argv of (evs, code) \<Rightarrow>
      if code = 0 then wrote_output evs \<and> \<not> reported_error evs
      else code = 1 \<and> reported_error evs \<and> \<not> wrote_output evs)"
proof
  show "case runServiceMain stack (runService p rt collate handlers argv) of
      (evs, Inl code) \<Rightarrow> code = 1 \<and> reported_error evs \<and> \<not> wrote_output evs
    | (evs, Inr r) \<Rightarrow> \<not> reported_error evs"
    using service_tidy [of p rt collate handlers argv]
    by (auto simp: runServiceMain_def run_tidy_def split: prod.splits run_ending.splits)
next
  have run: "sdk_tidy (sdk_command_run p moduleDir c)" for c
    using generation_output [of p None] inspect_output [of p None]
    by (cases c) (auto simp: sdk_tidy_def sdk_command_run_def validation_output Let_def split: sum.split prod.split option.split)
  show "case runSdkCli p moduleDir argv of (evs, code) \<Rightarrow>
      if code = 0 then wrote_output evs \<and> \<not> reported_error evs
      else code = 1 \<and> reported_error evs \<and> \<not> wrote_output evs"
  proof (cases "parseSdkCliArgs (pr_commander p ''octobus-sdk'') argv")
    case (Inr c)
    then show ?thesis using run [of c]
      by (cases "sdk_command_run p moduleDir c") (auto simp: runSdkCli_def sdk_tidy_def split: sum.splits if_splits)
  qed (simp add: runSdkCli_def)
qed

text \<open>\<open>octobus-sdk validate\<close> gives \<open>validateService\<close> no service definition, so strictness changes nothing.\<close>

lemma strict_has_no_effect: "sdk_command_run p moduleDir (Validate strict) = sdk_command_run p moduleDir (Validate False)"
  unfolding sdk_command_run_def validateService_def sdk_command.case option.case by (rule refl)

text \<open>\<open>invoke\<close> looks for its package from the working directory only, the other subcommands from the entry too.\<close>

lemma invoke_ignores_entry:
  "invokeService (runtime_of rt (p\<lparr>pr_entryFile := e\<rparr>) None) cwd handlers io = invokeService (runtime_of rt p None) cwd handlers io"
  by (simp add: runtime_of_def load_package_def)

end
