(* ===== verification/SdkConnect.thy ===== *)
theory SdkConnect
  imports SdkServices JS_URI
begin

text \<open>
  The client stub for Connect RPC at run time (src/sdk/src/connect-stub.ts): the unary methods of a
  package, the address of a call, the request and its headers, and what becomes of a response. The
  protobuf library, fetch and JSON.parse are arguments.
\<close>

section \<open>Addresses\<close>

definition connect_normalizeMethodName :: "string \<Rightarrow> string" where
  "connect_normalizeMethodName m = (if starts_with m ''/'' then drop 1 m else m)"

definition splitMethodName :: "string \<Rightarrow> string + string \<times> string" where
  "splitMethodName m = (let normalized = connect_normalizeMethodName m in
     case index_of_char CHR ''/'' normalized of
       None \<Rightarrow> Inl (''invalid Connect RPC method name '' @ m)
     | Some slash \<Rightarrow> if slash < 1 \<or> slash = length normalized - 1 then Inl (''invalid Connect RPC method name '' @ m)
         else Inr (take slash normalized, drop (slash + 1) normalized))"

definition connectEndpoint :: "string \<Rightarrow> string \<Rightarrow> string \<Rightarrow> string \<Rightarrow> string + string" where
  "connectEndpoint baseUrl capsetId instanceId m = bindE (splitMethodName m) (\<lambda>(service, methodName).
     Inr (join ''/'' [strip_trailing CHR ''/'' baseUrl, ''capsets'', encodeURIComponent capsetId, ''connect'',
       encodeURIComponent instanceId, encodeURIComponent service, encodeURIComponent methodName]))"

section \<open>Calls\<close>

record connect_error =
  ce_code :: string
  ce_message :: string
  ce_status :: int
  ce_details :: jsval

datatype stub_error = ConnectRpcError connect_error | PlainError string

record http_response =
  hr_status :: int
  hr_statusText :: string
  hr_text :: string

definition response_ok :: "http_response \<Rightarrow> bool" where
  "response_ok r \<longleftrightarrow> 200 \<le> hr_status r \<and> hr_status r < 300"

definition parseResponseJSON :: "(string \<Rightarrow> string + jsval) \<Rightarrow> string \<Rightarrow> connect_error + jsval" where
  "parseResponseJSON parse_text t = (if trim t = [] then Inr (JObj [])
     else (case parse_text t of Inr v \<Rightarrow> Inr v
       | Inl e \<Rightarrow> Inl \<lparr>ce_code = ''unknown'', ce_message = ''Connect RPC response is not valid JSON: '' @ e,
           ce_status = 0, ce_details = JUndef\<rparr>))"

definition fallback_message :: "string \<Rightarrow> string" where
  "fallback_message fallback = (if fallback \<noteq> [] then fallback else ''Connect RPC request failed'')"

definition connectErrorFromResponse :: "int \<Rightarrow> jsval \<Rightarrow> string \<Rightarrow> connect_error" where
  "connectErrorFromResponse st body fallback = (if is_obj body
     then \<lparr>ce_code = (case pget body ''code'' of JStr c \<Rightarrow> c | _ \<Rightarrow> ''unknown''),
       ce_message = (case pget body ''message'' of JStr t \<Rightarrow> t | _ \<Rightarrow> fallback_message fallback),
       ce_status = st, ce_details = pget body ''details''\<rparr>
     else \<lparr>ce_code = ''unknown'', ce_message = fallback_message fallback, ce_status = st, ce_details = JUndef\<rparr>)"

text \<open>What the protobuf library does for a message type: read JSON, make a message, write JSON.\<close>

record 'm message_type =
  mt_fromJson :: "jsval \<Rightarrow> string + 'm"
  mt_create :: "jsval \<Rightarrow> 'm"
  mt_message :: "jsval \<Rightarrow> 'm"
  mt_toJson :: "'m \<Rightarrow> string + jsval"

definition isMessage :: "jsval \<Rightarrow> bool" where
  "isMessage v \<longleftrightarrow> (case pget v ''$typeName'' of JStr _ \<Rightarrow> True | _ \<Rightarrow> False)"

definition messageFromRuntimeValue :: "'m message_type \<Rightarrow> jsval \<Rightarrow> 'm" where
  "messageFromRuntimeValue mt v = (
     if isMessage v then mt_message mt v
     else if nullish v then mt_create mt JUndef
     else if is_obj v then (case mt_fromJson mt v of Inr m \<Rightarrow> m | Inl _ \<Rightarrow> mt_create mt v)
     else mt_create mt JUndef)"

text \<open>Headers have lower-case names; setting one replaces it. Those of the call come last.\<close>

definition header_set :: "(string \<times> string) list \<Rightarrow> string \<Rightarrow> string \<Rightarrow> (string \<times> string) list" where
  "header_set hs k v = set_key hs (to_lower k) v"

definition connect_headers :: "(string \<times> string) list \<Rightarrow> (string \<times> string) list \<Rightarrow> (string \<times> string) list" where
  "connect_headers options_headers invoke_headers = foldl (\<lambda>hs (k, v). header_set hs k v)
     (header_set (header_set (foldl (\<lambda>hs (k, v). header_set hs k v) [] options_headers)
        ''content-type'' ''application/json'') ''accept'' ''application/json'') invoke_headers"

record connect_request =
  rq_url :: string
  rq_headers :: "(string \<times> string) list"
  rq_body :: string

definition connect_response :: "(string \<Rightarrow> string + jsval) \<Rightarrow> 'm message_type \<Rightarrow> http_response \<Rightarrow> stub_error + jsval" where
  "connect_response parse_text out_type r = (case parseResponseJSON parse_text (hr_text r) of
     Inl e \<Rightarrow> Inl (ConnectRpcError (if \<not> response_ok r
       then connectErrorFromResponse (hr_status r) JUndef (hr_statusText r) else e))
   | Inr body \<Rightarrow> if \<not> response_ok r
       then Inl (ConnectRpcError (connectErrorFromResponse (hr_status r) body (hr_statusText r)))
       else map_sum PlainError (\<lambda>v. v) (bindE (mt_fromJson out_type body) (mt_toJson out_type)))"

record connect_options =
  co_baseUrl :: string
  co_capsetId :: string
  co_instanceId :: string
  co_headers :: "(string \<times> string) list"

definition connect_request_of ::
  "(jsval \<Rightarrow> string) \<Rightarrow> 'm message_type \<Rightarrow> string \<Rightarrow> jsval \<Rightarrow> connect_options \<Rightarrow> (string \<times> string) list \<Rightarrow> string + connect_request" where
  "connect_request_of stringify in_type fullName request opts invoke_headers =
     bindE (mt_toJson in_type (messageFromRuntimeValue in_type request)) (\<lambda>json.
     bindE (connectEndpoint (co_baseUrl opts) (co_capsetId opts) (co_instanceId opts) fullName) (\<lambda>url.
     Inr \<lparr>rq_url = url, rq_headers = connect_headers (co_headers opts) invoke_headers, rq_body = stringify json\<rparr>))"

definition invokeConnectUnary where
  "invokeConnectUnary stringify parse_text fetched in_type out_type fullName request opts invoke_headers = (
     case connect_request_of stringify in_type fullName request opts invoke_headers of
       Inl e \<Rightarrow> Inl (PlainError e)
     | Inr rq \<Rightarrow> (case fetched rq of Inl e \<Rightarrow> Inl (PlainError e) | Inr r \<Rightarrow> connect_response parse_text out_type r))"

section \<open>The stub\<close>

definition discoverUnaryConnectMethods :: "desc_service list \<Rightarrow> (desc_service \<times> desc_method \<times> string) list" where
  "discoverUnaryConnectMethods services = concat (map (\<lambda>s. map (\<lambda>m. (s, m, full_name (dss_typeName s) (dsm_name m)))
     (filter (\<lambda>m. dsm_kind m = Unary) (dss_methods s))) services)"

definition connect_find :: "desc_service list \<Rightarrow> string \<Rightarrow> string + desc_service \<times> desc_method \<times> string" where
  "connect_find services methodName = (
     case find (\<lambda>(s, m, f). f = connect_normalizeMethodName methodName) (discoverUnaryConnectMethods services) of
       None \<Rightarrow> Inl (''Connect RPC method '' @ methodName @ '' is not a unary service method in this package'')
     | Some x \<Rightarrow> Inr x)"

text \<open>
  \<open>service(name)\<close>: the table of one service. The tables are plain objects, so that a name of
  \<open>Object.prototype\<close> reads the inherited member (\<open>Inherited\<close>) and is not refused.
\<close>

datatype 'a member = Own 'a | Inherited string

definition connect_service :: "desc_service list \<Rightarrow> string \<Rightarrow> string + string list member" where
  "connect_service services name = (
     let methods = filter (\<lambda>(s, m, f). dss_typeName s = name) (discoverUnaryConnectMethods services) in
     if methods \<noteq> [] then Inr (Own (map (\<lambda>(s, m, f). dsm_name m) methods))
     else if name \<in> set object_prototype_names then Inr (Inherited name)
     else Inl (''Connect RPC service '' @ name @ '' is not defined in this package''))"

section \<open>Lemmas\<close>

lemma connectEndpoint_eq:
  assumes "splitMethodName m = Inr (service, methodName)"
  shows "connectEndpoint base cap inst m = Inr (strip_trailing CHR ''/'' base @ CHR ''/'' #
    join ''/'' [''capsets'', encodeURIComponent cap, ''connect'', encodeURIComponent inst,
      encodeURIComponent service, encodeURIComponent methodName])"
  using assms by (simp add: connectEndpoint_def)

text \<open>The address of a call says exactly whom it is for: below the base, its path splits at the slashes
into capsets, the capset, connect, the instance, the service and the method, each of which decodes to
the name given, whatever characters the names contain.\<close>

lemma connect_endpoint_roundtrip:
  assumes "connectEndpoint base cap inst m = Inr url"
  shows "\<exists>service methodName parts. splitMethodName m = Inr (service, methodName) \<and>
    url = strip_trailing CHR ''/'' base @ CHR ''/'' # join ''/'' parts \<and>
    split_on CHR ''/'' (join ''/'' parts) = parts \<and>
    map decodeURIComponent parts = map Some [''capsets'', cap, ''connect'', inst, service, methodName]"
proof -
  obtain service methodName where s: "splitMethodName m = Inr (service, methodName)"
    using assms by (auto simp: connectEndpoint_def)
  let ?parts = "[''capsets'', encodeURIComponent cap, ''connect'', encodeURIComponent inst,
      encodeURIComponent service, encodeURIComponent methodName]"
  have "encodeURIComponent ''capsets'' = ''capsets''" "encodeURIComponent ''connect'' = ''connect''"
    by (simp_all add: encodeURIComponent_def uri_char_def uri_unreserved_def is_alnum_def is_lower_def code_of_def)
  then have plain: "decodeURIComponent ''capsets'' = Some ''capsets''" "decodeURIComponent ''connect'' = Some ''connect''"
    by (metis decode_encode)+
  have "split_on CHR ''/'' (join ''/'' ?parts) = ?parts"
    by (rule split_on_join) (use encode_no_slash in auto)
  moreover have "map decodeURIComponent ?parts = map Some [''capsets'', cap, ''connect'', inst, service, methodName]"
    by (simp add: decode_encode plain)
  moreover have "url = strip_trailing CHR ''/'' base @ CHR ''/'' # join ''/'' ?parts"
    using assms connectEndpoint_eq [OF s, of base cap inst] by simp
  ultimately show ?thesis using s by blast
qed

lemma connect_endpoint_roundtrip_example:
  "\<exists>url parts. connectEndpoint ''http://h/'' ''a/b'' ''i'' ''x.S/M'' = Inr url \<and>
     url = ''http://h/'' @ join ''/'' parts \<and> map decodeURIComponent parts =
       map Some [''capsets'', ''a/b'', ''connect'', ''i'', ''x.S'', ''M'']"
proof -
  have s: "splitMethodName ''x.S/M'' = Inr (''x.S'', ''M'')"
    by (simp add: splitMethodName_def connect_normalizeMethodName_def)
  have b: "strip_trailing CHR ''/'' ''http://h/'' = ''http://h''"
    by (simp add: strip_trailing_def)
  from connect_endpoint_roundtrip [OF connectEndpoint_eq [OF s, of "''http://h/''" "''a/b''" "''i''"]]
    connectEndpoint_eq [OF s, of "''http://h/''" "''a/b''" "''i''"] s b
  show ?thesis by auto
qed

text \<open>A failed response is never a success and keeps its status, whether its body is JSON or not; a
successful one fails without status when it is not JSON.\<close>

lemma connect_failure_keeps_status:
  assumes "\<not> response_ok r"
  shows "\<exists>e. connect_response parse_text mt r = Inl (ConnectRpcError e) \<and> ce_status e = hr_status r"
  using assms by (auto simp: connect_response_def connectErrorFromResponse_def split: sum.split)

lemma connect_success:
  "connect_response parse_text mt r = Inr v \<longleftrightarrow> response_ok r \<and>
     (\<exists>body msg. parseResponseJSON parse_text (hr_text r) = Inr body \<and> mt_fromJson mt body = Inr msg \<and> mt_toJson mt msg = Inr v)"
proof (cases "parseResponseJSON parse_text (hr_text r)")
  case (Inr body)
  then show ?thesis
    by (cases "bindE (mt_fromJson mt body) (mt_toJson mt)") (auto simp: connect_response_def)
qed (simp add: connect_response_def)

text \<open>The headers of the call win over those of the stub, and both over the two the stub sets only for the former.\<close>

lemma header_fold:
  "map_of (foldl (\<lambda>hs (k, v). header_set hs k v) hs kvs) j =
     (case map_of (rev (map (\<lambda>(k, v). (to_lower k, v)) kvs)) j of Some v \<Rightarrow> Some v | None \<Rightarrow> map_of hs j)"
  by (induction kvs arbitrary: hs) (auto simp: header_set_def map_add_def split: option.splits)

lemma content_type_wins:
  assumes "\<And>k v. (k, v) \<in> set invoke_headers \<Longrightarrow> to_lower k \<noteq> ''content-type''"
  shows "map_of (connect_headers options_headers invoke_headers) ''content-type'' = Some ''application/json''"
proof -
  have "map_of (rev (map (\<lambda>(k, v). (to_lower k, v)) invoke_headers)) ''content-type'' = None"
    unfolding map_of_eq_None_iff using assms by fastforce
  then show ?thesis
    unfolding connect_headers_def header_fold by (simp add: header_set_def to_lower_def lower_char_def code_of_def)
qed

text \<open>An inherited name is not refused as a service.\<close>

lemma connect_service_inherited: "connect_service [] ''constructor'' = Inr (Inherited ''constructor'')"
  by (simp add: connect_service_def discoverUnaryConnectMethods_def object_prototype_names_def)

end
