(* ===== verification/SdkStream.thy ===== *)
theory SdkStream
  imports JS_Base
begin

text \<open>
  Streams read as asynchronous iterables: \<open>readableToAsyncIterable\<close> of src/sdk/src/cli.ts, which gives a
  handler the requests of a call, and the iterator of \<open>readableResult\<close> of src/sdk/src/grpc-stub.ts, which
  gives a client its responses. Both keep a queue, a flag, an error and the function that wakes a waiting
  reader. The actions of a run are events of the stream, a request for the next item, the turn of a
  reader whose promise has been resolved, and the reader leaving its loop; an action that does not apply
  changes nothing. The specification is a channel: the events so far and how many items have been taken.
\<close>

section \<open>Runs of a step function, and simulation\<close>

text \<open>A step takes an action and a state to the next state and what is given out.\<close>

fun run_steps :: "('act \<Rightarrow> 's \<Rightarrow> 's \<times> 'out list) \<Rightarrow> 'act list \<Rightarrow> 's \<Rightarrow> 's \<times> 'out list" where
  "run_steps step [] s = (s, [])"
| "run_steps step (a # acts) s = (case step a s of (s1, out) \<Rightarrow>
     (case run_steps step acts s1 of (s2, outs) \<Rightarrow> (s2, out @ outs)))"

text \<open>
  What a specification owes its implementation: related states give the same out and stay related.
  Then every run gives the same out; and what every step of the specification keeps of its out so far,
  every run keeps.
\<close>

locale step_refinement =
  fixes impl :: "'act \<Rightarrow> 's \<Rightarrow> 's \<times> 'out list"
    and spec :: "'act \<Rightarrow> 'c \<Rightarrow> 'c \<times> 'out list"
    and related :: "'s \<Rightarrow> 'c \<Rightarrow> bool"
    and given_out :: "'c \<Rightarrow> 'out list \<Rightarrow> bool"
  assumes step: "related s c \<Longrightarrow> snd (impl a s) = snd (spec a c) \<and> related (fst (impl a s)) (fst (spec a c))"
    and keeps: "given_out c outs \<Longrightarrow> given_out (fst (spec a c)) (outs @ snd (spec a c))"
begin

lemma runs_agree: "related s c \<Longrightarrow> snd (run_steps impl acts s) = snd (run_steps spec acts c) \<and>
    related (fst (run_steps impl acts s)) (fst (run_steps spec acts c))"
proof (induction acts arbitrary: s c)
  case (Cons a acts)
  from step [OF Cons.prems, of a] Cons.IH [of "fst (impl a s)" "fst (spec a c)"] show ?case
    by (simp add: split_def)
qed simp

lemma runs_keep: "given_out c outs \<Longrightarrow> given_out (fst (run_steps spec acts c)) (outs @ snd (run_steps spec acts c))"
proof (induction acts arbitrary: c outs)
  case (Cons a acts)
  from Cons.IH [OF keeps [OF Cons.prems, of a]] show ?case by (simp add: split_def)
qed simp

end

section \<open>The reader\<close>

datatype ('a, 'e) event = Data 'a | Finish | Fail 'e

datatype ('a, 'e) action = Event "('a, 'e) event" | Pull | Turn | Leave

datatype ('a, 'e) effect = Yield 'a | Throw 'e | Return

text \<open>
  Where the generator is: not started, at a yield, awaiting its promise, with its promise resolved, or
  over.
\<close>

datatype place = NotStarted | AtYield | Awaiting | Resolved | Over

record ('a, 'e) reader =
  rd_queue :: "'a list"
  rd_done :: bool
  rd_error :: "'e option"
  rd_notify :: bool \<comment> \<open>whether \<open>notify\<close> is set\<close>
  rd_place :: place

definition wake :: "('a, 'e) reader \<Rightarrow> ('a, 'e) reader" where
  "wake s = (if rd_notify s then s\<lparr>rd_notify := False, rd_place := Resolved\<rparr> else s)"

definition finish :: "('a, 'e) reader \<Rightarrow> ('a, 'e) reader" where
  "finish s = wake (s\<lparr>rd_done := True\<rparr>)"

definition listener :: "('a, 'e) event \<Rightarrow> ('a, 'e) reader \<Rightarrow> ('a, 'e) reader" where
  "listener ev s = (case ev of
     Data x \<Rightarrow> wake (s\<lparr>rd_queue := rd_queue s @ [x]\<rparr>)
   | Finish \<Rightarrow> finish s
   | Fail e \<Rightarrow> finish (s\<lparr>rd_error := Some e\<rparr>))"

text \<open>The loop of the generator, up to its next yield, await or end.\<close>

definition reader_loop :: "('a, 'e) reader \<Rightarrow> ('a, 'e) reader \<times> ('a, 'e) effect list" where
  "reader_loop s = (case rd_queue s of
     x # xs \<Rightarrow> (s\<lparr>rd_queue := xs, rd_place := AtYield\<rparr>, [Yield x])
   | [] \<Rightarrow> (case rd_error s of
       Some e \<Rightarrow> (s\<lparr>rd_place := Over\<rparr>, [Throw e])
     | None \<Rightarrow>
         if rd_done s then (s\<lparr>rd_place := Over\<rparr>, [Return])
         else (s\<lparr>rd_notify := True, rd_place := Awaiting\<rparr>, [])))"

text \<open>The listeners are on from the first request for an item until the generator is over.\<close>

definition reader_step :: "('a, 'e) action \<Rightarrow> ('a, 'e) reader \<Rightarrow> ('a, 'e) reader \<times> ('a, 'e) effect list" where
  "reader_step a s = (case a of
     Event ev \<Rightarrow> if rd_place s = NotStarted \<or> rd_place s = Over then (s, []) else (listener ev s, [])
   | Pull \<Rightarrow> if rd_place s = NotStarted \<or> rd_place s = AtYield then reader_loop s else (s, [])
   | Turn \<Rightarrow> if rd_place s = Resolved then reader_loop s else (s, [])
   | Leave \<Rightarrow> if rd_place s = NotStarted \<or> rd_place s = AtYield then (s\<lparr>rd_place := Over\<rparr>, []) else (s, []))"

definition reader_run :: "('a, 'e) action list \<Rightarrow> ('a, 'e) reader \<Rightarrow> ('a, 'e) effect list" where
  "reader_run acts s = snd (run_steps reader_step acts s)"

definition readableToAsyncIterable :: "('a, 'e) reader" where
  "readableToAsyncIterable = \<lparr>rd_queue = [], rd_done = False, rd_error = None, rd_notify = False, rd_place = NotStarted\<rparr>"

text \<open>
  The client's iterator is fed from the moment the call is started, before its first item is asked for.
  What its listeners make of the events of the call, of a call that cannot be started and of a writer
  that fails:
\<close>

definition readableResult :: "('a, 'e) reader" where
  "readableResult = \<lparr>rd_queue = [], rd_done = False, rd_error = None, rd_notify = False, rd_place = AtYield\<rparr>"

datatype ('a, 'e) client_event =
  DataEvent 'a | EndEvent | CloseEvent | StatusEvent nat 'e | ErrorEvent 'e | StartError 'e | WriterError 'e

definition client_listener :: "('a, 'e) client_event \<Rightarrow> ('a, 'e) event" where
  "client_listener ev = (case ev of
     DataEvent x \<Rightarrow> Data x
   | EndEvent \<Rightarrow> Finish
   | CloseEvent \<Rightarrow> Finish
   | StatusEvent code e \<Rightarrow> if code \<noteq> 0 then Fail e else Finish
   | ErrorEvent e \<Rightarrow> Fail e
   | StartError e \<Rightarrow> Fail e
   | WriterError e \<Rightarrow> Fail e)"

section \<open>The specification: a channel\<close>

definition items :: "('a, 'e) event list \<Rightarrow> 'a list" where
  "items evs = concat (map (\<lambda>ev. case ev of Data x \<Rightarrow> [x] | _ \<Rightarrow> []) evs)"

definition failure :: "('a, 'e) event list \<Rightarrow> 'e option" where
  "failure evs = fold (\<lambda>ev e. case ev of Fail e1 \<Rightarrow> Some e1 | _ \<Rightarrow> e) evs None"

definition finished :: "('a, 'e) event list \<Rightarrow> bool" where
  "finished evs \<longleftrightarrow> (\<exists>ev \<in> set evs. case ev of Data _ \<Rightarrow> False | _ \<Rightarrow> True)"

text \<open>What a channel has to give after \<open>k\<close> items: the next one; when there is none, its failure or its end.\<close>

definition offer :: "('a, 'e) event list \<Rightarrow> nat \<Rightarrow> ('a, 'e) effect option" where
  "offer evs k = (if k < length (items evs) then Some (Yield (items evs ! k))
     else (case failure evs of Some e \<Rightarrow> Some (Throw e)
       | None \<Rightarrow> if finished evs then Some Return else None))"

datatype phase = Unopened | Idle | Asking | Closed

record ('a, 'e) channel =
  ch_events :: "('a, 'e) event list"
  ch_taken :: nat
  ch_phase :: phase

definition take_offer :: "('a, 'e) channel \<Rightarrow> ('a, 'e) channel \<times> ('a, 'e) effect list" where
  "take_offer c = (case offer (ch_events c) (ch_taken c) of
     None \<Rightarrow> (c\<lparr>ch_phase := Asking\<rparr>, [])
   | Some (Yield x) \<Rightarrow> (c\<lparr>ch_taken := Suc (ch_taken c), ch_phase := Idle\<rparr>, [Yield x])
   | Some e \<Rightarrow> (c\<lparr>ch_phase := Closed\<rparr>, [e]))"

definition channel_step :: "('a, 'e) action \<Rightarrow> ('a, 'e) channel \<Rightarrow> ('a, 'e) channel \<times> ('a, 'e) effect list" where
  "channel_step a c = (case a of
     Event ev \<Rightarrow> if ch_phase c = Unopened \<or> ch_phase c = Closed then (c, []) else (c\<lparr>ch_events := ch_events c @ [ev]\<rparr>, [])
   | Pull \<Rightarrow> if ch_phase c = Unopened \<or> ch_phase c = Idle then take_offer c else (c, [])
   | Turn \<Rightarrow> if ch_phase c = Asking then take_offer c else (c, [])
   | Leave \<Rightarrow> if ch_phase c = Unopened \<or> ch_phase c = Idle then (c\<lparr>ch_phase := Closed\<rparr>, []) else (c, []))"

definition channel_run :: "('a, 'e) action list \<Rightarrow> ('a, 'e) channel \<Rightarrow> ('a, 'e) channel \<times> ('a, 'e) effect list" where
  "channel_run acts c = run_steps channel_step acts c"

definition fresh_channel :: "phase \<Rightarrow> ('a, 'e) channel" where
  "fresh_channel p = \<lparr>ch_events = [], ch_taken = 0, ch_phase = p\<rparr>"

section \<open>The reader simulates the channel\<close>

lemma items_simps [simp]: "items [] = []" "items (evs @ [ev]) = items evs @ (case ev of Data x \<Rightarrow> [x] | _ \<Rightarrow> [])"
  by (simp_all add: items_def)

lemma failure_simps [simp]: "failure [] = None" "failure (evs @ [ev]) = (case ev of Fail e \<Rightarrow> Some e | _ \<Rightarrow> failure evs)"
  by (simp_all add: failure_def split: event.split)

lemma finished_simps [simp]: "\<not> finished []"
  "finished (evs @ [ev]) \<longleftrightarrow> finished evs \<or> (case ev of Data _ \<Rightarrow> False | _ \<Rightarrow> True)"
  by (auto simp: finished_def)

fun phase_of :: "place \<Rightarrow> phase" where
  "phase_of NotStarted = Unopened"
| "phase_of AtYield = Idle"
| "phase_of Awaiting = Asking"
| "phase_of Resolved = Asking"
| "phase_of Over = Closed"

text \<open>
  The relation: the queue is what has not been taken, the flag and the error are the channel's, and a
  reader awaits its promise, with \<open>notify\<close> set, only while there is nothing to offer.
\<close>

definition simulates :: "('a, 'e) reader \<Rightarrow> ('a, 'e) channel \<Rightarrow> bool" where
  "simulates s c \<longleftrightarrow> ch_taken c \<le> length (items (ch_events c)) \<and> rd_queue s = drop (ch_taken c) (items (ch_events c)) \<and>
     rd_error s = failure (ch_events c) \<and> rd_done s = finished (ch_events c) \<and>
     phase_of (rd_place s) = ch_phase c \<and> (rd_notify s \<longleftrightarrow> rd_place s = Awaiting) \<and>
     (rd_place s = Awaiting \<longrightarrow> offer (ch_events c) (ch_taken c) = None)"

lemma reader_loop_offer:
  assumes "simulates s c" and "rd_place s \<noteq> Awaiting"
  shows "snd (reader_loop s) = snd (take_offer c) \<and> simulates (fst (reader_loop s)) (fst (take_offer c))"
proof (cases "rd_queue s")
  case (Cons x xs)
  let ?k = "ch_taken c" and ?is = "items (ch_events c)"
  have q: "drop ?k ?is = x # xs" using assms Cons by (simp add: simulates_def)
  then have k: "?k < length ?is" by (cases "?k < length ?is") simp_all
  with q have x: "?is ! ?k = x" "drop (Suc ?k) ?is = xs" by (simp_all add: Cons_nth_drop_Suc [symmetric])
  have "reader_loop s = (s\<lparr>rd_queue := xs, rd_place := AtYield\<rparr>, [Yield x])" by (simp add: reader_loop_def Cons)
  moreover have "take_offer c = (c\<lparr>ch_taken := Suc ?k, ch_phase := Idle\<rparr>, [Yield x])"
    using k x by (simp add: take_offer_def offer_def)
  moreover have "simulates (s\<lparr>rd_queue := xs, rd_place := AtYield\<rparr>) (c\<lparr>ch_taken := Suc ?k, ch_phase := Idle\<rparr>)"
    using assms k x by (simp add: simulates_def)
  ultimately show ?thesis by simp
next
  case Nil
  then have "\<not> ch_taken c < length (items (ch_events c))" using assms by (simp add: simulates_def)
  with assms Nil show ?thesis
    by (auto simp: reader_loop_def take_offer_def offer_def simulates_def split: option.splits)
qed

lemma listener_simulates:
  assumes "simulates s c" and "rd_place s \<noteq> NotStarted" and "rd_place s \<noteq> Over"
  shows "simulates (listener ev s) (c\<lparr>ch_events := ch_events c @ [ev]\<rparr>)"
proof -
  have "phase_of (rd_place s) = ch_phase c" "rd_notify s \<longleftrightarrow> rd_place s = Awaiting"
    using assms(1) by (simp_all add: simulates_def)
  with assms show ?thesis
    by (cases "rd_place s"; cases ev) (auto simp: simulates_def listener_def wake_def finish_def)
qed

lemma reader_step_simulates:
  assumes "simulates s c"
  shows "snd (reader_step a s) = snd (channel_step a c) \<and> simulates (fst (reader_step a s)) (fst (channel_step a c))"
proof -
  have p: "phase_of (rd_place s) = ch_phase c" using assms by (simp add: simulates_def)
  show ?thesis
  proof (cases a)
    case (Event ev)
    with listener_simulates [OF assms] assms p show ?thesis
      by (cases "rd_place s") (auto simp: reader_step_def channel_step_def)
  next
    case Pull
    with reader_loop_offer [OF assms] assms p show ?thesis
      by (cases "rd_place s") (auto simp: reader_step_def channel_step_def)
  next
    case Turn
    show ?thesis
    proof (cases "rd_place s = Awaiting")
      case True
      then have "offer (ch_events c) (ch_taken c) = None" "ch_phase c = Asking" "simulates s (c\<lparr>ch_phase := Asking\<rparr>)"
        using assms p True by (auto simp: simulates_def)
      with True Turn show ?thesis by (simp add: reader_step_def channel_step_def take_offer_def)
    next
      case False
      with Turn reader_loop_offer [OF assms] assms p show ?thesis
        by (cases "rd_place s") (auto simp: reader_step_def channel_step_def)
    qed
  next
    case Leave
    with assms p show ?thesis
      by (cases "rd_place s") (auto simp: reader_step_def channel_step_def simulates_def)
  qed
qed

lemma simulates_fresh:
  "simulates readableToAsyncIterable (fresh_channel Unopened)" "simulates readableResult (fresh_channel Idle)"
  by (simp_all add: simulates_def readableToAsyncIterable_def readableResult_def fresh_channel_def)

section \<open>What a channel has given\<close>

definition given_by :: "('a, 'e) channel \<Rightarrow> ('a, 'e) effect list \<Rightarrow> bool" where
  "given_by c outs \<longleftrightarrow> ch_taken c \<le> length (items (ch_events c)) \<and> (\<exists>es.
     outs = map Yield (take (ch_taken c) (items (ch_events c))) @ es \<and>
     (es \<noteq> [] \<longrightarrow> ch_phase c = Closed \<and> ch_taken c = length (items (ch_events c)) \<and>
        (case failure (ch_events c) of Some e \<Rightarrow> es = [Throw e] | None \<Rightarrow> es = [Return] \<and> finished (ch_events c))))"

lemma given_by_open:
  "ch_phase c \<noteq> Closed \<Longrightarrow> given_by c outs \<longleftrightarrow> ch_taken c \<le> length (items (ch_events c)) \<and>
     outs = map Yield (take (ch_taken c) (items (ch_events c)))"
  by (auto simp: given_by_def)

lemma given_by_take:
  assumes "given_by c outs" and "ch_phase c \<noteq> Closed" and "take_offer c = (c1, out)"
  shows "given_by c1 (outs @ out)"
proof (cases "ch_taken c < length (items (ch_events c))")
  case True
  then have "c1 = c\<lparr>ch_taken := Suc (ch_taken c), ch_phase := Idle\<rparr>" "out = [Yield (items (ch_events c) ! ch_taken c)]"
    using assms(3) by (auto simp: take_offer_def offer_def)
  with True assms(1,2) show ?thesis by (simp add: given_by_open take_Suc_conv_app_nth)
next
  case False
  then have "ch_taken c = length (items (ch_events c))" using assms(1) by (simp add: given_by_def)
  with False assms show ?thesis
    by (auto simp: take_offer_def offer_def given_by_open given_by_def split: option.splits if_splits)
qed

lemma given_by_step:
  assumes "given_by c outs" and "channel_step a c = (c1, out)"
  shows "given_by c1 (outs @ out)"
proof (cases "ch_phase c = Closed")
  case True
  then have "c1 = c" "out = []" using assms(2) by (auto simp: channel_step_def split: action.splits)
  then show ?thesis using assms(1) by simp
next
  case False
  note g = assms(1) [unfolded given_by_open [OF False]]
  have take: "take (ch_taken c) (items (ch_events c @ [ev])) = take (ch_taken c) (items (ch_events c))" for ev
    using g by simp
  show ?thesis
  proof (cases a)
    case (Event ev)
    then have "c1 = c \<or> c1 = c\<lparr>ch_events := ch_events c @ [ev]\<rparr>" "out = []"
      using assms(2) by (auto simp: channel_step_def split: if_splits)
    then show ?thesis using g False take [of ev] by (auto simp: given_by_open simp del: items_simps) simp
  next
    case Leave
    then show ?thesis using assms(2) g by (auto simp: channel_step_def given_by_def split: if_splits)
  qed (use assms False in \<open>auto simp: channel_step_def given_by_take split: if_splits\<close>)
qed

interpretation rc: step_refinement reader_step channel_step simulates given_by
proof
  show "simulates s c \<Longrightarrow> snd (reader_step a s) = snd (channel_step a c) \<and>
      simulates (fst (reader_step a s)) (fst (channel_step a c))"
    for s :: "('a, 'e) reader" and c a by (rule reader_step_simulates)
  show "given_by c outs \<Longrightarrow> given_by (fst (channel_step a c)) (outs @ snd (channel_step a c))"
    for c :: "('a, 'e) channel" and outs a using given_by_step by (metis prod.collapse)
qed

section \<open>Property\<close>

text \<open>C39: Streams read as iterables lose nothing. For every interleaving of the events of the stream and
of its reader's steps, the queue, flag, error and wake-up function give exactly what a channel gives
that remembers all events: so a reader that waits is woken when there is something for it, every item
is yielded once and in order, and the loop ends only after the last item, by throwing the last error
if there was one and else normally after an end or close.\<close>
theorem stream_reader_refines_channel:
  assumes "(s, p) \<in> {(readableToAsyncIterable, Unopened), (readableResult, Idle)}"
    and "channel_run acts (fresh_channel p) = (c, outs)"
  shows "reader_run acts s = outs \<and> given_by c outs"
proof -
  have "simulates s (fresh_channel p)" using assms(1) simulates_fresh by auto
  from rc.runs_agree [OF this, of acts] have "reader_run acts s = outs"
    using assms(2) by (simp add: reader_run_def channel_run_def)
  moreover have "given_by (fresh_channel p) []" by (simp add: given_by_def fresh_channel_def)
  from rc.runs_keep [OF this, of acts] have "given_by c outs"
    using assms(2) by (simp add: channel_run_def)
  ultimately show ?thesis by simp
qed

theorem stream_reader_refines_channel_witness:
  "reader_run [Pull, Event (Data (7::nat)), Event (Fail ''gone''), Event (Data 8), Turn, Pull, Pull, Event (Data 9)]
     readableToAsyncIterable = [Yield 7, Yield 8, Throw ''gone'']"
proof -
  let ?acts = "[Pull, Event (Data (7::nat)), Event (Fail ''gone''), Event (Data 8), Turn, Pull, Pull, Event (Data 9)]"
  let ?run = "channel_run ?acts (fresh_channel Unopened)"
  have "?run = (fst ?run, [Yield 7, Yield 8, Throw ''gone''])" by code_simp
  from stream_reader_refines_channel [OF _ this, of readableToAsyncIterable] show ?thesis by simp
qed

end
