(* ===== verification/SdkGrpcStub.thy ===== *)
theory SdkGrpcStub
  imports SdkServer SdkStream
begin

text \<open>
  The gRPC client stub at run time (src/sdk/src/grpc-stub.ts): metadata of a call, the methods and the
  kinds of calls, writing request streams, and the deferred stream, a facade that starts its call when
  it is first used and passes on what was asked of it meanwhile. The iterator over the responses is in
  SdkStream. The gRPC library and its metadata are as in SdkServer; \<open>legal\<close> is what the library accepts
  as a key and value.
\<close>

section \<open>Metadata of a call\<close>

datatype metadata_init = Instance metadata | Entries "(string \<times> jsval) list"

definition md_set :: "string \<Rightarrow> string \<Rightarrow> metadata \<Rightarrow> metadata" where
  "md_set k v m = set_key m (to_lower k) [v]"

text \<open>\<open>getMap()\<close>: the first value of each key.\<close>

definition md_getMap :: "metadata \<Rightarrow> (string \<times> string) list" where
  "md_getMap m = map (\<lambda>(k, vs). (k, hd vs)) m"

definition checked :: "(string \<Rightarrow> string \<Rightarrow> bool) \<Rightarrow> (string \<Rightarrow> string \<Rightarrow> metadata \<Rightarrow> metadata) \<Rightarrow>
    string \<Rightarrow> string \<Rightarrow> metadata \<Rightarrow> string + metadata" where
  "checked legal put k v m = (if legal k v then Inr (put k v m) else Inl ''invalid metadata'')"

fun put_all :: "(string \<Rightarrow> string \<Rightarrow> metadata \<Rightarrow> string + metadata) \<Rightarrow> (string \<times> string) list \<Rightarrow> metadata \<Rightarrow> string + metadata" where
  "put_all put [] m = Inr m"
| "put_all put ((k, v) # kvs) m = bindE (put k v m) (put_all put kvs)"

text \<open>The values of an entry, one or several; an undefined one is left out.\<close>

definition entry_values :: "(string \<times> jsval) list \<Rightarrow> (string \<times> string) list" where
  "entry_values kvs = concat (map (\<lambda>(k, v). case v of JUndef \<Rightarrow> [] | JArr vs \<Rightarrow> map (\<lambda>x. (k, to_str x)) vs
     | _ \<Rightarrow> [(k, to_str v)]) kvs)"

definition addMetadata :: "(string \<Rightarrow> string \<Rightarrow> bool) \<Rightarrow> metadata_init option \<Rightarrow> metadata \<Rightarrow> string + metadata" where
  "addMetadata legal source m = (case source of
     None \<Rightarrow> Inr m
   | Some (Instance src) \<Rightarrow> put_all (checked legal md_set) (md_getMap src) m
   | Some (Entries kvs) \<Rightarrow> put_all (checked legal md_add) (entry_values kvs) m)"

definition setMetadataIfDefined :: "(string \<Rightarrow> string \<Rightarrow> bool) \<Rightarrow> string \<Rightarrow> string option \<Rightarrow> metadata \<Rightarrow> string + metadata" where
  "setMetadataIfDefined legal k v m = (case v of None \<Rightarrow> Inr m | Some x \<Rightarrow> checked legal md_set k x m)"

record grpc_options =
  go_metadata :: "metadata_init option"
  go_capsetId :: "string option"
  go_serviceId :: "string option"
  go_instanceId :: "string option"

definition buildMetadata :: "(string \<Rightarrow> string \<Rightarrow> bool) \<Rightarrow> grpc_options \<Rightarrow> metadata_init option \<Rightarrow> string + metadata" where
  "buildMetadata legal opts invokeMetadata =
     bindE (addMetadata legal (go_metadata opts) []) (\<lambda>m.
     bindE (addMetadata legal invokeMetadata m) (\<lambda>m.
     bindE (setMetadataIfDefined legal ''x-octobus-capset'' (go_capsetId opts) m) (\<lambda>m.
     bindE (setMetadataIfDefined legal ''x-octobus-service'' (go_serviceId opts) m) (\<lambda>m.
     setMetadataIfDefined legal ''x-octobus-instance'' (go_instanceId opts) m))))"

section \<open>Calls\<close>

definition grpc_find :: "grpc_service list \<Rightarrow> string \<Rightarrow> string + stub_method" where
  "grpc_find services methodName = (case find (\<lambda>m. sm_fullName m = normalizeMethod methodName) (discoverMethods services) of
     None \<Rightarrow> Inl (''gRPC method '' @ methodName @ '' is not defined in this package'')
   | Some m \<Rightarrow> Inr m)"

text \<open>The request of a call: a value, or an iterable that gives items and may throw.\<close>

datatype 'q call_request = Value 'q | Iterable "'q list" "string option"

text \<open>What is done to the library's call: the request it is made with, and the writes to its stream.\<close>

datatype 'q stream_write = WriteItem 'q | EndWrites | DestroyCall string

definition writeRequests :: "'q list \<Rightarrow> string option \<Rightarrow> 'q stream_write list" where
  "writeRequests reqs thrown = map WriteItem reqs @ (case thrown of None \<Rightarrow> [EndWrites] | Some e \<Rightarrow> [DestroyCall e])"

datatype 'q call_plan =
  UnaryCall 'q metadata | ServerStreamCall 'q metadata
| ClientStreamCall metadata "'q stream_write list" | BidiCall metadata "'q stream_write list"

definition requires_iterable :: "string \<Rightarrow> string \<Rightarrow> string" where
  "requires_iterable kind methodName = ''gRPC '' @ kind @ '' streaming method '' @ methodName @ '' requires an iterable request''"

definition invokeGrpcMethod :: "(string \<Rightarrow> string \<Rightarrow> bool) \<Rightarrow> stub_method \<Rightarrow> 'q call_request \<Rightarrow> ('q call_request \<Rightarrow> 'q) \<Rightarrow>
    grpc_options \<Rightarrow> metadata_init option \<Rightarrow> string + 'q call_plan" where
  "invokeGrpcMethod legal m request as_value opts invokeMetadata = (
     let md = buildMetadata legal opts invokeMetadata in
     case sm_kind m of
       Unary \<Rightarrow> bindE md (\<lambda>md. Inr (UnaryCall (as_value request) md))
     | ServerStreaming \<Rightarrow> bindE md (\<lambda>md. Inr (ServerStreamCall (as_value request) md))
     | ClientStreaming \<Rightarrow> (case request of
           Value q \<Rightarrow> Inl (requires_iterable ''client'' (sm_methodName m))
         | Iterable reqs thrown \<Rightarrow> bindE md (\<lambda>md. Inr (ClientStreamCall md (writeRequests reqs thrown))))
     | BidiStreaming \<Rightarrow> (case request of
           Value q \<Rightarrow> Inl (requires_iterable ''bidirectional'' (sm_methodName m))
         | Iterable reqs thrown \<Rightarrow> bindE md (\<lambda>md. Inr (BidiCall md (writeRequests reqs thrown)))))"

text \<open>The promise of a unary or client-streaming call: the first of its callback and its writer's failure.\<close>

datatype ('r) call_event = Callback "string + 'r" | WriterFails string

definition call_promise :: "'r call_event list \<Rightarrow> (string + 'r) option" where
  "call_promise evs = (case evs of [] \<Rightarrow> None | Callback r # _ \<Rightarrow> Some r | WriterFails e # _ \<Rightarrow> Some (Inl e))"

section \<open>The deferred stream\<close>

datatype 'c stream_op = OpCancel | OpResume | OpPause | OpDestroy | OpPipe | OpWrite 'c | OpEnd

datatype deferred_phase = Idle | Starting | Ready | Broken

text \<open>
  The closure of \<open>createDeferredRawStream\<close>: whether the call was started, the three flags, what waits
  for the stream, and what was done to the stream; how often \<open>startRaw\<close> and \<open>onStartError\<close> were called.
\<close>

record 'c deferred =
  df_phase :: deferred_phase
  df_cancelRequested :: bool
  df_resumeRequested :: bool
  df_pauseRequested :: bool
  df_waiting :: "'c stream_op list"
  df_applied :: "'c stream_op list"
  df_starts :: nat
  df_startErrors :: nat

definition createDeferredRawStream :: "'c deferred" where
  "createDeferredRawStream = \<lparr>df_phase = Idle, df_cancelRequested = False, df_resumeRequested = False,
     df_pauseRequested = False, df_waiting = [], df_applied = [], df_starts = 0, df_startErrors = 0\<rparr>"

definition materialize :: "'c deferred \<Rightarrow> 'c deferred" where
  "materialize s = (if df_phase s = Idle then s\<lparr>df_phase := Starting, df_starts := df_starts s + 1\<rparr> else s)"

text \<open>\<open>materialize().then(f)\<close>: at once on a stream that is there, later on one that is to come.\<close>

definition when_ready :: "'c stream_op \<Rightarrow> 'c deferred \<Rightarrow> 'c deferred" where
  "when_ready op s = (let s1 = materialize s in case df_phase s1 of
     Ready \<Rightarrow> s1\<lparr>df_applied := df_applied s1 @ [op]\<rparr>
   | Starting \<Rightarrow> s1\<lparr>df_waiting := df_waiting s1 @ [op]\<rparr>
   | _ \<Rightarrow> s1)"

definition facade_op :: "'c stream_op \<Rightarrow> 'c deferred \<Rightarrow> 'c deferred" where
  "facade_op op s = when_ready op (case op of
     OpCancel \<Rightarrow> s\<lparr>df_cancelRequested := True\<rparr>
   | OpResume \<Rightarrow> s\<lparr>df_resumeRequested := True, df_pauseRequested := False\<rparr>
   | OpPause \<Rightarrow> s\<lparr>df_pauseRequested := True, df_resumeRequested := False\<rparr>
   | _ \<Rightarrow> s)"

definition requested_ops :: "'c deferred \<Rightarrow> 'c stream_op list" where
  "requested_ops s = (if df_cancelRequested s then [OpCancel] else []) @ (if df_pauseRequested s then [OpPause] else []) @
     (if df_resumeRequested s then [OpResume] else [])"

definition started :: "'c deferred \<Rightarrow> 'c deferred" where
  "started s = (if df_phase s = Starting
     then s\<lparr>df_phase := Ready, df_applied := requested_ops s @ df_waiting s, df_waiting := []\<rparr> else s)"

definition start_failed :: "'c deferred \<Rightarrow> 'c deferred" where
  "start_failed s = (if df_phase s = Starting
     then s\<lparr>df_phase := Broken, df_waiting := [], df_startErrors := df_startErrors s + 1\<rparr> else s)"

text \<open>Actions: a call on the facade, a listener, the start coming true or failing.\<close>

datatype 'c deferred_action = Use "'c stream_op" | Listen | Started | StartFails

definition deferred_step :: "'c deferred \<Rightarrow> 'c deferred_action \<Rightarrow> 'c deferred" where
  "deferred_step s a = (case a of Use op \<Rightarrow> facade_op op s | Listen \<Rightarrow> materialize s
     | Started \<Rightarrow> started s | StartFails \<Rightarrow> start_failed s)"

definition deferred_run :: "'c deferred_action list \<Rightarrow> 'c deferred" where
  "deferred_run acts = foldl deferred_step createDeferredRawStream acts"

text \<open>What was asked of the facade, and whether a stream is flowing after some operations.\<close>

definition uses :: "'c deferred_action list \<Rightarrow> 'c stream_op list" where
  "uses acts = concat (map (\<lambda>a. case a of Use op \<Rightarrow> [op] | _ \<Rightarrow> []) acts)"

definition flow :: "'c stream_op list \<Rightarrow> bool option" where
  "flow ops = fold (\<lambda>op f. case op of OpResume \<Rightarrow> Some True | OpPause \<Rightarrow> Some False | _ \<Rightarrow> f) ops None"

section \<open>Lemmas\<close>

lemma uses_simps [simp]: "uses [] = []" "uses (xs @ ys) = uses xs @ uses ys" "uses [Use op] = [op]"
  "uses [Listen] = []" "uses [Started] = []" "uses [StartFails] = []"
  by (simp_all add: uses_def)

lemma flow_Nil [simp]: "flow [] = None"
  by (simp add: flow_def)

lemma flow_append: "flow (xs @ ys) = (case flow ys of Some f \<Rightarrow> Some f | None \<Rightarrow> flow xs)"
proof (induction ys rule: rev_induct)
  case (snoc y ys)
  then show ?case by (cases y) (simp_all add: flow_def flip: append_assoc)
qed (simp add: flow_def)

lemma flow_single: "flow [op] = (case op of OpResume \<Rightarrow> Some True | OpPause \<Rightarrow> Some False | _ \<Rightarrow> None)"
  by (cases op) (simp_all add: flow_def)

text \<open>The flags remember the last of pause and resume, and any cancel, asked for so far.\<close>

definition deferred_inv :: "'c deferred_action list \<Rightarrow> 'c deferred \<Rightarrow> bool" where
  "deferred_inv acts s \<longleftrightarrow>
     (df_cancelRequested s \<longleftrightarrow> OpCancel \<in> set (uses acts)) \<and>
     (df_resumeRequested s \<longleftrightarrow> flow (uses acts) = Some True) \<and>
     (df_pauseRequested s \<longleftrightarrow> flow (uses acts) = Some False) \<and>
     df_starts s = (if df_phase s = Idle then 0 else 1) \<and>
     df_startErrors s = (if df_phase s = Broken then 1 else 0) \<and>
     (df_phase s = Idle \<longrightarrow> uses acts = [] \<and> Listen \<notin> set acts) \<and>
     df_waiting s = (if df_phase s = Starting then uses acts else []) \<and>
     (if df_phase s = Ready then \<exists>flags. df_applied s = flags @ uses acts \<and>
        set flags \<subseteq> {OpCancel, OpPause, OpResume} \<and> length flags \<le> 2 \<and> (flow (uses acts) = None \<longrightarrow> flow flags = None) \<and>
        (OpCancel \<in> set flags \<longrightarrow> OpCancel \<in> set (uses acts))
      else df_applied s = [])"

lemma deferred_inv_init: "deferred_inv [] createDeferredRawStream"
  by (simp add: deferred_inv_def createDeferredRawStream_def flow_def)

lemma materialize_cases:
  "df_phase (materialize s) = (if df_phase s = Idle then Starting else df_phase s)"
  "df_starts (materialize s) = df_starts s + (if df_phase s = Idle then 1 else 0)"
  "df_startErrors (materialize s) = df_startErrors s" "df_waiting (materialize s) = df_waiting s"
  "df_applied (materialize s) = df_applied s" "df_cancelRequested (materialize s) = df_cancelRequested s"
  "df_resumeRequested (materialize s) = df_resumeRequested s" "df_pauseRequested (materialize s) = df_pauseRequested s"
  by (simp_all add: materialize_def)

lemma flow_step: "flow (ops @ [op]) = (case op of OpResume \<Rightarrow> Some True | OpPause \<Rightarrow> Some False | _ \<Rightarrow> flow ops)"
  by (cases op) (simp_all add: flow_append flow_single)

lemma deferred_inv_listen:
  assumes "deferred_inv acts s"
  shows "deferred_inv (acts @ [Listen]) (materialize s)"
  using assms by (cases "df_phase s") (simp_all add: deferred_inv_def materialize_cases)

lemma deferred_inv_use:
  assumes "deferred_inv acts s"
  shows "deferred_inv (acts @ [Use op]) (facade_op op s)"
proof (cases "df_phase s")
  case Ready
  obtain flags where f: "df_applied s = flags @ uses acts" "set flags \<subseteq> {OpCancel, OpPause, OpResume}" "length flags \<le> 2"
    "flow (uses acts) = None \<longrightarrow> flow flags = None" "OpCancel \<in> set flags \<longrightarrow> OpCancel \<in> set (uses acts)"
    using assms Ready by (auto simp: deferred_inv_def)
  have "flow (uses (acts @ [Use op])) = None \<longrightarrow> flow flags = None"
    using f(4) by (cases op) (simp_all add: flow_step)
  moreover have "df_applied (facade_op op s) = flags @ uses (acts @ [Use op])"
    using Ready f(1) by (cases op) (simp_all add: facade_op_def when_ready_def materialize_def Let_def)
  ultimately show ?thesis
    using assms Ready f
    by (cases op) (auto simp: deferred_inv_def facade_op_def when_ready_def materialize_def Let_def flow_step)
next
  case Idle
  with assms show ?thesis
    by (cases op) (simp_all add: deferred_inv_def facade_op_def when_ready_def materialize_def Let_def flow_single)
next
  case Starting
  with assms show ?thesis
    by (cases op) (simp_all add: deferred_inv_def facade_op_def when_ready_def materialize_def Let_def flow_step)
next
  case Broken
  with assms show ?thesis
    by (cases op) (simp_all add: deferred_inv_def facade_op_def when_ready_def materialize_def Let_def flow_step)
qed

lemma deferred_inv_started:
  assumes "deferred_inv acts s"
  shows "deferred_inv (acts @ [Started]) (started s)"
proof (cases "df_phase s = Starting")
  case True
  have fl: "flow (requested_ops s) = flow (uses acts)" if "flow (uses acts) = None"
    using assms that by (simp add: deferred_inv_def requested_ops_def flow_def)
  have "set (requested_ops s) \<subseteq> {OpCancel, OpPause, OpResume}" by (auto simp: requested_ops_def)
  moreover have "length (requested_ops s) \<le> 2"
    using assms by (auto simp: deferred_inv_def requested_ops_def)
  moreover have "OpCancel \<in> set (requested_ops s) \<longrightarrow> OpCancel \<in> set (uses acts)"
    using assms by (auto simp: deferred_inv_def requested_ops_def split: if_splits)
  moreover have "df_applied (started s) = requested_ops s @ uses acts"
    using assms True by (simp add: deferred_inv_def started_def)
  ultimately have "\<exists>flags. df_applied (started s) = flags @ uses acts \<and> set flags \<subseteq> {OpCancel, OpPause, OpResume} \<and>
      length flags \<le> 2 \<and> (flow (uses acts) = None \<longrightarrow> flow flags = None) \<and>
      (OpCancel \<in> set flags \<longrightarrow> OpCancel \<in> set (uses acts))"
    using fl by metis
  with assms True show ?thesis by (simp add: deferred_inv_def started_def)
qed (use assms in \<open>auto simp: deferred_inv_def started_def\<close>)

lemma deferred_inv_failed: "deferred_inv acts s \<Longrightarrow> deferred_inv (acts @ [StartFails]) (start_failed s)"
  by (cases "df_phase s") (simp_all add: deferred_inv_def start_failed_def)

lemma deferred_inv_run: "deferred_inv acts (deferred_run acts)"
proof (induction acts rule: rev_induct)
  case Nil
  then show ?case using deferred_inv_init by (simp add: deferred_run_def)
next
  case (snoc a acts)
  then show ?case
    by (cases a) (simp_all add: deferred_run_def deferred_step_def deferred_inv_use deferred_inv_listen
        deferred_inv_started deferred_inv_failed)
qed

text \<open>C40: The deferred stream is the stream: however its use, the start of its call and the failure of that
start interleave, the call is started at most once and not before it is used; nothing reaches the
stream before it is there, and from then on it has been given everything asked of the facade, in
order, after at most two repeats of a cancel, pause or resume asked for before; so it flows or pauses
as last asked. A start that fails is reported once, and then nothing is applied.\<close>

theorem deferred_stream_faithful:
  "df_starts (deferred_run acts) \<le> 1 \<and> df_startErrors (deferred_run acts) \<le> 1 \<and>
   (df_starts (deferred_run acts) = 0 \<longrightarrow> uses acts = [] \<and> Listen \<notin> set acts) \<and>
   (if df_phase (deferred_run acts) = Ready then
      (\<exists>flags. df_applied (deferred_run acts) = flags @ uses acts \<and> set flags \<subseteq> {OpCancel, OpPause, OpResume} \<and>
         length flags \<le> 2 \<and> (OpCancel \<in> set flags \<longrightarrow> OpCancel \<in> set (uses acts))) \<and>
      flow (df_applied (deferred_run acts)) = flow (uses acts)
    else df_applied (deferred_run acts) = []) \<and>
   (df_phase (deferred_run acts) = Broken \<longleftrightarrow> df_startErrors (deferred_run acts) = 1)"
proof -
  note inv = deferred_inv_run [of acts]
  show ?thesis
  proof (cases "df_phase (deferred_run acts) = Ready")
    case True
    obtain flags where f: "df_applied (deferred_run acts) = flags @ uses acts" "set flags \<subseteq> {OpCancel, OpPause, OpResume}"
      "length flags \<le> 2" "flow (uses acts) = None \<longrightarrow> flow flags = None" "OpCancel \<in> set flags \<longrightarrow> OpCancel \<in> set (uses acts)"
      using inv True by (auto simp: deferred_inv_def)
    have "flow (df_applied (deferred_run acts)) = flow (uses acts)"
      unfolding f(1) flow_append using f(4) by (auto split: option.split)
    with f inv True show ?thesis by (auto simp: deferred_inv_def)
  qed (use inv in \<open>auto simp: deferred_inv_def\<close>)
qed

theorem deferred_stream_faithful_witness:
  "df_applied (deferred_run [Use OpPause, Use (OpWrite (1::nat)), Use OpResume, Started, Use OpEnd]) =
     [OpResume, OpPause, OpWrite 1, OpResume, OpEnd] \<and>
   flow (df_applied (deferred_run [Use OpPause, Use (OpWrite (1::nat)), Use OpResume, Started, Use OpEnd])) = Some True"
proof -
  let ?acts = "[Use OpPause, Use (OpWrite (1::nat)), Use OpResume, Started, Use OpEnd]"
  note run = deferred_run_def createDeferredRawStream_def deferred_step_def facade_op_def when_ready_def
    materialize_def started_def requested_ops_def
  have r: "df_phase (deferred_run ?acts) = Ready"
    "df_applied (deferred_run ?acts) = [OpResume, OpPause, OpWrite 1, OpResume, OpEnd]"
    by (simp_all add: run)
  have "flow (df_applied (deferred_run ?acts)) = flow (uses ?acts)"
    using deferred_stream_faithful [of ?acts] r(1) by simp
  then show ?thesis using r(2) by (simp add: flow_def)
qed

section \<open>Metadata lemmas\<close>

lemma md_get_set: "md_get (md_set k v m) j = (if to_lower j = to_lower k then [v] else md_get m j)"
  by (simp add: md_get_def md_set_def)

lemma checked_Inr: "checked legal put k v m = Inr m' \<Longrightarrow> m' = put k v m"
  by (simp add: checked_def split: if_splits)

lemma put_all_get:
  "put_all (checked legal md_add) kvs m = Inr m' \<Longrightarrow>
     md_get m' j = md_get m j @ map snd (filter (\<lambda>(k, v). to_lower k = to_lower j) kvs)"
proof (induction kvs arbitrary: m)
  case (Cons kv kvs)
  obtain k v where kv: "kv = (k, v)" by (cases kv)
  then have r: "put_all (checked legal md_add) kvs (md_add k v m) = Inr m'"
    using Cons.prems by (auto dest!: checked_Inr)
  have "md_get m j = md_get m k" if "to_lower k = to_lower j"
    using that by (simp add: md_get_def)
  then show ?case using Cons.IH [OF r] by (auto simp: kv md.get_add)
qed simp

lemma set_if_defined:
  "setMetadataIfDefined legal k v m = Inr m' \<Longrightarrow>
     md_get m' j = (case v of Some x \<Rightarrow> if to_lower j = to_lower k then [x] else md_get m j | None \<Rightarrow> md_get m j)"
  by (auto simp: setMetadataIfDefined_def checked_def md_get_set split: option.splits if_splits)

text \<open>The values an entry list has for a key.\<close>

definition values_for :: "string \<Rightarrow> metadata_init option \<Rightarrow> string list" where
  "values_for k source = (case source of Some (Entries kvs) \<Rightarrow>
     map snd (filter (\<lambda>(j, v). to_lower j = to_lower k) (entry_values kvs)) | _ \<Rightarrow> [])"

definition is_instance :: "metadata_init option \<Rightarrow> bool" where
  "is_instance source \<longleftrightarrow> (\<exists>m. source = Some (Instance m))"

lemma add_entries_get:
  assumes "addMetadata legal source m = Inr m'" and "\<not> is_instance source"
  shows "md_get m' k = md_get m k @ values_for k source"
  using assms put_all_get
  by (auto simp: addMetadata_def values_for_def is_instance_def split: option.splits metadata_init.splits)

text \<open>The metadata of a call: OctoBus's own keys that the stub's options define have exactly that value,
whatever the caller's metadata says; under every other key stand the values of the options and then
those of the call, all of them and in order, when both are given as entries.\<close>

lemma stub_metadata:
  assumes "buildMetadata legal opts invokeMetadata = Inr m"
  shows "(\<forall>c. go_capsetId opts = Some c \<longrightarrow> md_get m ''x-octobus-capset'' = [c]) \<and>
    (\<forall>s. go_serviceId opts = Some s \<longrightarrow> md_get m ''x-octobus-service'' = [s]) \<and>
    (\<forall>i. go_instanceId opts = Some i \<longrightarrow> md_get m ''x-octobus-instance'' = [i]) \<and>
    (\<forall>k. to_lower k \<notin> {''x-octobus-capset'', ''x-octobus-service'', ''x-octobus-instance''} \<longrightarrow>
       \<not> is_instance (go_metadata opts) \<longrightarrow> \<not> is_instance invokeMetadata \<longrightarrow>
       md_get m k = values_for k (go_metadata opts) @ values_for k invokeMetadata)"
proof -
  obtain m1 m2 m3 m4 where
    a1: "addMetadata legal (go_metadata opts) [] = Inr m1" and a2: "addMetadata legal invokeMetadata m1 = Inr m2" and
    s1: "setMetadataIfDefined legal ''x-octobus-capset'' (go_capsetId opts) m2 = Inr m3" and
    s2: "setMetadataIfDefined legal ''x-octobus-service'' (go_serviceId opts) m3 = Inr m4" and
    s3: "setMetadataIfDefined legal ''x-octobus-instance'' (go_instanceId opts) m4 = Inr m"
    using assms by (auto simp: buildMetadata_def)
  have low: "to_lower ''x-octobus-capset'' = ''x-octobus-capset''" "to_lower ''x-octobus-service'' = ''x-octobus-service''"
    "to_lower ''x-octobus-instance'' = ''x-octobus-instance''"
    by (simp_all add: to_lower_def lower_char_def code_of_def)
  note set = set_if_defined [OF s1] set_if_defined [OF s2] set_if_defined [OF s3]
  have "md_get m k = values_for k (go_metadata opts) @ values_for k invokeMetadata"
    if "to_lower k \<notin> {''x-octobus-capset'', ''x-octobus-service'', ''x-octobus-instance''}"
      "\<not> is_instance (go_metadata opts)" "\<not> is_instance invokeMetadata" for k
  proof -
    have "md_get m2 k = values_for k (go_metadata opts) @ values_for k invokeMetadata"
      using add_entries_get [OF a1 that(2), of k] add_entries_get [OF a2 that(3), of k] by (simp add: md_get_def)
    then show ?thesis using that(1) by (simp add: set low split: option.split)
  qed
  then show ?thesis by (simp add: set low split: option.split)
qed

lemma stub_metadata_example:
  "\<exists>m. buildMetadata (\<lambda>_ _. True) \<lparr>go_metadata = Some (Entries [(''X-Octobus-Capset'', JStr ''theirs''), (''a'', JStr ''1'')]),
       go_capsetId = Some ''mine'', go_serviceId = None, go_instanceId = None\<rparr> None = Inr m \<and>
     md_get m ''x-octobus-capset'' = [''mine'']"
proof -
  let ?o = "\<lparr>go_metadata = Some (Entries [(''X-Octobus-Capset'', JStr ''theirs''), (''a'', JStr ''1'')]),
       go_capsetId = Some ''mine'', go_serviceId = None, go_instanceId = None\<rparr>"
  obtain m where m: "buildMetadata (\<lambda>_ _. True) ?o None = Inr m"
    by (simp add: buildMetadata_def addMetadata_def setMetadataIfDefined_def checked_def entry_values_def)
  from stub_metadata [OF m] m show ?thesis by auto
qed

text \<open>Metadata given as an object of the library loses all but the first value of a key.\<close>

lemma instance_loses_values:
  "buildMetadata (\<lambda>_ _. True) \<lparr>go_metadata = None, go_capsetId = None, go_serviceId = None, go_instanceId = None\<rparr>
     (Some (Instance [(''k'', [''1'', ''2''])])) = Inr [(''k'', [''1''])]"
  by (simp add: buildMetadata_def addMetadata_def setMetadataIfDefined_def checked_def md_getMap_def md_set_def
      to_lower_def lower_char_def code_of_def)

end
