(* ===== verification/Spec2Isabelle.thy ===== *)
theory Spec2Isabelle
  imports Egress Tentacles PRGate Validate L2Lock L2Batch Smoke QQGateway CloudAtlas Hermes AnswerNdrOwn SafelineGroups Dbaudit ServiceScripts
    SdkHealth SdkErrors SdkContext SdkProtoJson SdkMain SdkConnect SdkGrpcStub
begin

text \<open>
  OctoBus runs third-party services as gRPC processes behind one bus. Its JavaScript side, which this
  library models, has these parts:
  the SDK (src/sdk/src), with which a service is written, validated, generated and run;
  the egress rules (src/internal/egressrules/rules.cjs), loaded into every service process before its code;
  the service packages (src/services), each a handler module over the SDK, with a dispatcher
  (bin/octobus-tentacles.js) and the scripts that gate and validate a contribution (services/scripts);
  the repository's own scripts that audit a batch of contributions and smoke-test services (src/scripts).
  A process goes through them in this order: the dispatcher picks a service; the SDK reads the command
  line, its configuration and secrets, finds and loads the package, registers its handlers and answers
  calls; the handlers use the SDK's helpers for errors, HTTP and contexts; every connection they open is
  judged by the egress rules.

  How the code is modelled. A JavaScript value is a \<open>jsval\<close>, an object an association list in insertion
  order, a string a list of 8-bit characters (the Latin-1 part of UTF-16), a number an exact rational, an
  infinity or \<open>NaN\<close> (no rounding), bytes and 32-bit arithmetic are words. A call that may throw returns a
  sum, \<open>Inl\<close> the error; a call that may not return is a partial function with value \<open>None\<close>; state that
  survives a call (caches, the gateway of a connector, timers, sockets, the queue of a stream) is a record
  handed through. What is not under src/ is an argument: JSON.parse where its text matters, HTTP, DNS and
  sockets, git and child processes, commander, protoc and the protobuf library, npm, the gRPC server, the
  clock. Interleavings are explicit lists of actions. Loops are structural or have a measure (the
  shortening path of \<open>find_up\<close>, the rest of the arguments, the rest of the queue); no fuel is used; the
  decoder of the health request, the synthesis of values from schemas and the polling of an analysis, which
  really can run forever, are partial functions.

  The theories, from the bottom:

  JS_Base, JS_Values: strings, results and the values, truthiness and numbers of JavaScript.
  JS_Effects: runs, a list of events with an error or a value. JS_URI: encodeURIComponent, which decodes back.
  Regex: regular expressions by derivatives, with their language; \<open>rx_match_iff\<close> ties the two.
  NodePath, NodeFS: node's path module on POSIX and a file system as a tree; lemmas on normal paths, on
  staying inside a directory, and on absolute paths and paths below them.
  NetAddr: IPv4 and IPv6 addresses as node's net module parses them, and BlockList; the locale
  \<open>block_list\<close> states what a list of rules promises and is interpreted on the model of BlockList.

  Egress (rules.cjs): \<open>classify\<close>, the patched DNS lookup, connect, socket connect and fetch, the reports
  and the deferred destruction of refused sockets. C1 to C5: an address is judged by its value and not
  its spelling, which IPv4 addresses are refused, every DNS answer and every connect is judged, refused sockets
  fail; lemmas: own addresses are refused, lookups are wrapped once, a reason is reported once.
  Tentacles (octobus-tentacles.js): the table of services and the action of the command. C6.
  ServiceNaming, PRGate (service-pr-gate.mjs): the changes of a pull request, the commands planned for it
  and their run. C8, C9.
  Validate (validate-service-package.mjs): the static checks of a service package. C11, C12;
  lemma \<open>accepted_path_inside\<close>: accepted paths stay below the directory.
  ServiceScripts (run-tests.mjs, run-coverage-all.mjs, import-check-all.mjs): the runs of tests, with the first script a
  child process of the second and of the gate; C22: what a passed coverage check means; lemmas on the gate's
  threshold and on the clean-up of the import check.
  L2Lock, L2Pool, L2Batch (service-l2-batch.mjs): the lock on disk as the interleaved file system calls of
  its processes (C13), the pool of workers (C14) and the audit of a change in a worktree of its
  own (C15).
  SmokeSchema, Smoke (service-package-smoke.mjs): values made up from schemas, and the test of a service
  against a mock, with its cleanup; C16.
  QQChat, QQGateway (tencent__qq-chat): one connector in full, as the example of a stateful service: the
  token cache (locale \<open>token_store\<close>), the calls with their single retry (C17), and the gateway, a
  state machine of sockets, timers and a bounded queue (locale \<open>bounded_queue\<close>) whose reachable states own
  their timers, keep their messages in order and within the limit, and are final after a stop, but for a
  stop during a connect (C18 to C21).
  Connector: what the connectors of upstream products share, requests, responses, failures and runs of
  requests. CloudAtlas (chaitin__cloudatlas): the largest of them, 52 methods; C23: all it sends is
  its own; lemmas show that its queries decode to their parameters and what it loses of a decoded request. Hermes (hermes__gateway): a
  connector that runs a command, here or over ssh; C25: the remote shell reads the same words;
  C26: no method does more than one thing, and that of its own kind; lemmas show what its redaction hides
  and what it shows. Conversation: computations that read what has happened so far, with rules for what they keep.
  AnswerNdr, AnswerNdrOwn (chaitin__t-answer-ndr): a connector of 76 methods with logins, sessions, investigations of
  many calls and a polling loop; C27: all it sends is its own, C28: the polling ends.
  Safeline, SafelineGroups (chaitin__safeline-waf): a connector that changes its product, directly or through a
  proxy; C24: what blocking an address has done when it succeeds; lemmas show that all it sends is its
  own and which answers end in group 0.
  Dbaudit (das__dbaudit and scripts/dbaudit-openapi.js): a connector that signs its calls; lemmas show that the form
  it sends decodes to what was signed and that its ranges are in order.
  SdkHealth (health.ts): the hand-written protobuf codec of the health service; C29 its round trip;
  a request of six bytes makes it run forever (lemma \<open>health_request_may_hang\<close>).
  SdkErrors (errors.ts, grpc-error.ts, http.ts): redaction, summaries, statuses, fetch with a timeout; C30
  no sensitive field survives, C31 the status of every failure.
  SdkContext (context.ts): normal contexts, merged configuration and metadata values.
  SdkProtoJson (protobuf-json.ts): messages under the names their .proto declares (C32; lemma \<open>alias_write_read\<close>) and as JSON
  Schema.
  SdkSource (second half of cli.ts): configuration, secrets, requests and the service context; C33.
  SdkServices (createGrpcServiceDefinition, discoverMethods, findHandler): methods and their handlers.
  SdkCli (cli.ts): the checks of every subcommand (C34), the arguments of a service command (C35), the
  table of commands, its contract and help.
  SdkServer (cli.ts): call metadata (locale \<open>multimap\<close>), the four kinds of calls, invoke and the service
  CLI as runs that write and end. C36: OctoBus's own metadata is hidden; C37: every call ends once.
  SdkPackage (proto-loader.ts), SdkValidation (validation.ts): finding, checking and loading a package,
  and octobus-sdk validate. C7: what validate accepts, the runtime can run.
  SdkGenerate (client-stub.ts, client-package.ts, bootstrap.ts), SdkBootstrap: generated clients and
  packages; C10: what bootstrap writes, validate accepts.
  SdkStream (cli.ts, grpc-stub.ts): streams read as iterables. The locale \<open>step_refinement\<close> states what a
  specification by steps owes its implementation; the reader with its queue, flag and wake-up refines a
  channel that remembers all events. C39.
  SdkConnect, SdkGrpcStub (connect-stub.ts, grpc-stub.ts): the client stubs at run time. the address of
  a call says whom it is for (lemma \<open>connect_endpoint_roundtrip\<close>); C40: a deferred stream passes
  everything on; the metadata of a call (lemma \<open>stub_metadata\<close>).
  SdkMain (cli.ts, inspect.ts): a service process and octobus-sdk as a whole; C38: what a process prints
  says how it ends.

  Bounds. Ports are at most 65535, package names at most 214 characters, descriptors natural numbers;
  varints are 32-bit words with JavaScript's shift distance modulo 32; the gateway's queue is bounded by
  its configured limit; strings and lists are otherwise unbounded.

  Not modelled. The daemon in Go (src/cmd, src/internal but for the egress rules). Of the SDK: the gRPC
  server itself, what commander makes of arguments, loading from a descriptor file alone. Of the services:
  all but the connectors named above; they share their pattern of bindings, HTTP calls and a mapping of
  answers and errors. The tests, documentation, packaging and examples.
\<close>

end
